(* ===== verification/Prelude.thy ===== *)
theory Prelude
  imports Main "HOL-Library.List_Lexorder" "HOL-Library.Char_ord"
begin

text \<open>
  Shared vocabulary of the development: results of operations that may raise
  (\<open>'e + 'a\<close>, with \<open>Inl\<close> for the exception), the combinators that
  sequence them, and the generic lemmas on lists and association lists which the
  component theories use.  The collection \<open>res_simps\<close> inverts a computation
  that returned normally into the conditions under which it did.
\<close>

named_theorems res_simps "inversion of computations that return normally"

section \<open>Computations that may raise\<close>

text \<open>Sequencing: an exception of the first computation is the exception of the whole.\<close>

definition bindE :: "'e + 'a \<Rightarrow> ('a \<Rightarrow> 'e + 'b) \<Rightarrow> 'e + 'b" where
  "bindE m f = (case m of Inl e \<Rightarrow> Inl e | Inr x \<Rightarrow> f x)"

text \<open>A guard followed by the rest of the operation: \<open>if not c: raise e\<close>.\<close>

definition requireE :: "bool \<Rightarrow> 'e \<Rightarrow> 'e + 'a \<Rightarrow> 'e + 'a" where
  "requireE c e m = (if c then m else Inl e)"

text \<open>A sequence of guards, in the source's order.\<close>

fun requireAll :: "(bool \<times> 'e) list \<Rightarrow> 'e + 'a \<Rightarrow> 'e + 'a" where
  "requireAll [] m = m"
| "requireAll ((c, e) # cs) m = requireE c e (requireAll cs m)"

text \<open>A loop that converts the elements of a list in order and stops at the first exception.\<close>

fun mapE :: "('a \<Rightarrow> 'e + 'b) \<Rightarrow> 'a list \<Rightarrow> 'e + 'b list" where
  "mapE f [] = Inr []"
| "mapE f (x # xs) = bindE (f x) (\<lambda>y. bindE (mapE f xs) (\<lambda>ys. Inr (y # ys)))"

text \<open>A loop that threads a state through the elements of a list.\<close>

fun foldE :: "('a \<Rightarrow> 's \<Rightarrow> 'e + 's) \<Rightarrow> 'a list \<Rightarrow> 's \<Rightarrow> 'e + 's" where
  "foldE f [] s = Inr s"
| "foldE f (x # xs) s = bindE (f x s) (\<lambda>s'. foldE f xs s')"

text \<open>A search that stops at the first element with a property: \<open>any(f(x) for x in xs)\<close>.\<close>

fun anyE :: "('a \<Rightarrow> 'e + bool) \<Rightarrow> 'a list \<Rightarrow> 'e + bool" where
  "anyE f [] = Inr False"
| "anyE f (x # xs) = bindE (f x) (\<lambda>b. if b then Inr True else anyE f xs)"

lemma bindE_simps [simp]:
  "bindE (Inr x) f = f x"
  "bindE (Inl e) f = Inl e"
  by (simp_all add: bindE_def)

lemma bindE_Inr_iff [res_simps]: "bindE m f = Inr y \<longleftrightarrow> (\<exists>x. m = Inr x \<and> f x = Inr y)"
  by (cases m) auto

lemma bindE_Inl_iff: "bindE m f = Inl e \<longleftrightarrow> m = Inl e \<or> (\<exists>x. m = Inr x \<and> f x = Inl e)"
  by (cases m) auto

lemma bindE_assoc: "bindE (bindE m f) g = bindE m (\<lambda>x. bindE (f x) g)"
  by (cases m) auto

lemma bindE_cong [fundef_cong]:
  assumes "m = m'" and "\<And>x. m' = Inr x \<Longrightarrow> f x = f' x"
  shows "bindE m f = bindE m' f'"
  using assms by (cases m') auto

lemma requireE_True [simp]: "requireE True e m = m"
  by (simp add: requireE_def)

lemma requireE_False [simp]: "requireE False e m = Inl e"
  by (simp add: requireE_def)

lemma requireE_Inr_iff [res_simps]: "requireE c e m = Inr y \<longleftrightarrow> c \<and> m = Inr y"
  by (simp add: requireE_def)

lemma requireE_Inl_iff: "requireE c e m = Inl e' \<longleftrightarrow> (\<not> c \<and> e = e') \<or> (c \<and> m = Inl e')"
  by (auto simp: requireE_def)

lemma requireAll_Inr_iff [res_simps]:
  "requireAll cs m = Inr y \<longleftrightarrow> (\<forall>ce \<in> set cs. fst ce) \<and> m = Inr y"
  by (induction cs) (auto simp: requireE_Inr_iff)

lemma requireE_cong [fundef_cong]:
  assumes "c = c'" "e = e'" and "c' \<Longrightarrow> m = m'"
  shows "requireE c e m = requireE c' e' m'"
  using assms by (simp add: requireE_def)

lemma mapE_cong [fundef_cong]:
  assumes "xs = ys" and "\<And>x. x \<in> set ys \<Longrightarrow> f x = g x"
  shows "mapE f xs = mapE g ys"
proof -
  have "mapE f ys = mapE g ys"
    using assms(2) by (induction ys) auto
  with assms(1) show ?thesis by simp
qed

lemma foldE_cong [fundef_cong]:
  assumes "xs = ys" and "s = t" and "\<And>x u. x \<in> set ys \<Longrightarrow> f x u = g x u"
  shows "foldE f xs s = foldE g ys t"
proof -
  have "foldE f ys t = foldE g ys t" for t
    using assms(3)
  proof (induction ys arbitrary: t)
    case (Cons y ys)
    then show ?case by (cases "g y t") auto
  qed simp
  with assms(1,2) show ?thesis by simp
qed

lemma mapE_map: "mapE f (map g xs) = mapE (\<lambda>x. f (g x)) xs"
  by (induction xs) simp_all

lemma mapE_Inr: "(\<And>x. x \<in> set xs \<Longrightarrow> f x = Inr (g x)) \<Longrightarrow> mapE f xs = Inr (map g xs)"
  by (induction xs) auto

lemma mapE_length: "mapE f xs = Inr ys \<Longrightarrow> length ys = length xs"
  by (induction xs arbitrary: ys) (auto simp: bindE_Inr_iff)

lemma mapE_Inr_iff:
  "mapE f xs = Inr ys \<longleftrightarrow> list_all2 (\<lambda>x y. f x = Inr y) xs ys"
proof (induction xs arbitrary: ys)
  case Nil
  then show ?case by auto
next
  case (Cons x xs)
  show ?case
    by (cases ys) (auto simp: bindE_Inr_iff Cons.IH)
qed

lemma anyE_cong [fundef_cong]:
  assumes "xs = ys" and "\<And>x. x \<in> set ys \<Longrightarrow> f x = g x"
  shows "anyE f xs = anyE g ys"
proof -
  have "anyE f ys = anyE g ys"
    using assms(2)
  proof (induction ys)
    case (Cons y ys)
    then have "f y = g y" "anyE f ys = anyE g ys" by simp_all
    then show ?case by (cases "g y") simp_all
  qed simp
  with assms(1) show ?thesis by simp
qed

lemma anyE_Inr: "(\<And>x. x \<in> set xs \<Longrightarrow> f x = Inr (g x)) \<Longrightarrow> anyE f xs = Inr (list_ex g xs)"
  by (induction xs) auto

lemma anyE_False_iff: "anyE f xs = Inr False \<longleftrightarrow> (\<forall>x \<in> set xs. f x = Inr False)"
  by (induction xs) (auto simp: bindE_Inr_iff split: if_splits)

lemma foldE_append: "foldE f (xs @ ys) s = bindE (foldE f xs s) (foldE f ys)"
proof (induction xs arbitrary: s)
  case (Cons x xs)
  then show ?case by (cases "f x s") simp_all
qed simp

lemma foldE_invariant:
  assumes "foldE f xs s = Inr t" and "P s"
    and "\<And>x u v. x \<in> set xs \<Longrightarrow> P u \<Longrightarrow> f x u = Inr v \<Longrightarrow> P v"
  shows "P t"
  using assms
proof (induction xs arbitrary: s)
  case Nil
  then show ?case by simp
next
  case (Cons x xs)
  from Cons.prems(1) obtain u where u: "f x s = Inr u" and rest: "foldE f xs u = Inr t"
    by (auto simp: bindE_Inr_iff)
  have "P u" using Cons.prems(2,3) u by auto
  with rest Cons.prems(3) show ?case
    by (intro Cons.IH [of u]) auto
qed

section \<open>Lists and association lists\<close>

text \<open>The first element of a list with a property, as \<open>next((x for x in xs if P x), None)\<close>.\<close>

lemma find_Some_set: "find P xs = Some x \<Longrightarrow> x \<in> set xs \<and> P x"
  by (induction xs) (auto split: if_splits)

lemma find_None_set: "find P xs = None \<longleftrightarrow> (\<forall>x \<in> set xs. \<not> P x)"
  by (induction xs) auto

lemma find_map: "find P (map f xs) = map_option f (find (\<lambda>x. P (f x)) xs)"
  by (induction xs) auto

lemma find_distinct_eq:
  assumes "distinct (map f xs)" and "x \<in> set xs"
  shows "find (\<lambda>y. f y = f x) xs = Some x"
  using assms
proof (induction xs)
  case Nil
  then show ?case by simp
next
  case (Cons y ys)
  show ?case
  proof (cases "f y = f x")
    case True
    with Cons.prems have "y = x" by (auto simp: rev_image_eqI)
    with True show ?thesis by simp
  next
    case False
    with Cons show ?thesis by auto
  qed
qed

lemma map_if_id: "(\<And>x. x \<in> set xs \<Longrightarrow> \<not> P x) \<Longrightarrow> map (\<lambda>x. if P x then f x else x) xs = xs"
  by (induction xs) auto

lemma sum_list_map_if:
  fixes g :: "'a \<Rightarrow> int"
  assumes "\<And>x. x \<in> set xs \<Longrightarrow> P x \<Longrightarrow> g (f x) = g x + d"
  shows "sum_list (map g (map (\<lambda>x. if P x then f x else x) xs))
       = sum_list (map g xs) + d * int (length (filter P xs))"
  using assms
proof (induction xs)
  case Nil
  then show ?case by simp
next
  case (Cons x xs)
  then show ?case by (auto simp: algebra_simps)
qed

text \<open>An association list with distinct keys is determined by its keys and its lookups.\<close>

lemma alist_distinct_ext:
  assumes "distinct (map fst xs)" and "map fst xs = map fst ys" and "map_of xs = map_of ys"
  shows "xs = ys"
  using assms
proof (induction xs arbitrary: ys)
  case Nil
  then show ?case by simp
next
  case (Cons x xs)
  then obtain y ys' where ys: "ys = y # ys'" by (cases ys) auto
  obtain k v where x: "x = (k, v)" by (cases x)
  obtain k' v' where y: "y = (k', v')" by (cases y)
  from Cons.prems ys x y have k: "k' = k" and keys: "map fst xs = map fst ys'" by auto
  from Cons.prems ys x y k have v: "v' = v" by (metis fun_upd_same map_of.simps(2) fst_conv snd_conv option.inject)
  from Cons.prems(1) x have nin: "k \<notin> fst ` set xs" by auto
  with keys have nin': "k \<notin> fst ` set ys'" by (metis list.set_map)
  have "map_of xs = map_of ys'"
  proof
    fix a
    show "map_of xs a = map_of ys' a"
    proof (cases "a = k")
      case True
      with nin nin' show ?thesis by (metis map_of_eq_None_iff)
    next
      case False
      from Cons.prems(3) have "map_of (x # xs) a = map_of ys a" by (rule fun_cong)
      with ys x y k False show ?thesis by simp
    qed
  qed
  with Cons.IH [of ys'] Cons.prems(1) x keys have "xs = ys'" by auto
  with ys x y k v show ?case by simp
qed

lemma map_of_map_snd: "map_of (map (\<lambda>(k, v). (k, f v)) xs) k = map_option f (map_of xs k)"
  by (induction xs) auto

lemma sorted_strings_eq:
  fixes xs ys :: "string list"
  assumes "sorted xs" "sorted ys" "distinct xs" "distinct ys" "set xs = set ys"
  shows "xs = ys"
  using assms by (simp add: sorted_distinct_set_unique)

end
