(* ===== verification/Py_Value.thy ===== *)
theory Py_Value
  imports Prelude
begin

text \<open>
  The Python values that reach the campaign engine as documents: the result of
  \<open>json.loads\<close>, and the same values after \<open>_freeze\<close> of model.py (tuples and
  read-only mapping proxies).  Also the built-in operations the engine applies to
  them (\<open>str\<close>, \<open>int\<close>, \<open>bool\<close>, \<open>==\<close>, \<open>.get\<close>, indexing,
  iteration, \<open>strip\<close>, \<open>casefold\<close>) and the exceptions of the engine.

  Integers are unbounded, as in Python.  Floating-point numbers, sets and objects
  are not values of this type: the engine's documents carry none.  Strings are
  sequences of code points below 128; the wider characters of type \<open>char\<close> are
  carried through unchanged by every operation.
\<close>

section \<open>Exceptions\<close>

text \<open>The exception classes of model.py, admission.py and effects.py, the built-in ones their code
  raises, and those of \<open>sqlite3\<close>, each with its message; \<open>OtherError\<close> stands for every other
  class, whose name it carries.  The messages of the engine are its
  own; those of the built-in classes only say what went wrong.\<close>

datatype error =
    ModelValidationError string
  | TransitionError string
  | RevisionConflict string
  | AuthorityError string
  | CancellationError string
  | FencingError string
  | BudgetError string
  | StoreError string
  | RequestConflict string
  | AdmissionError string
  | ScopeOverlapError string
  | SourceDriftError string
  | EffectError string
  | EffectConflict string
  | AmbiguousMutation string
  | KeyError string
  | IndexError string
  | ValueError string
  | TypeError string
  | AttributeError string
  | OverflowError string
  | IntegrityError string
  | ProgrammingError string
  | OtherError string string

type_synonym 'a res = "error + 'a"

text \<open>\<open>type(exc).__name__\<close> and \<open>str(exc)\<close>.\<close>

fun error_name :: "error \<Rightarrow> string" where
  "error_name (ModelValidationError m) = ''ModelValidationError''"
| "error_name (TransitionError m) = ''TransitionError''"
| "error_name (RevisionConflict m) = ''RevisionConflict''"
| "error_name (AuthorityError m) = ''AuthorityError''"
| "error_name (CancellationError m) = ''CancellationError''"
| "error_name (FencingError m) = ''FencingError''"
| "error_name (BudgetError m) = ''BudgetError''"
| "error_name (StoreError m) = ''StoreError''"
| "error_name (RequestConflict m) = ''RequestConflict''"
| "error_name (AdmissionError m) = ''AdmissionError''"
| "error_name (ScopeOverlapError m) = ''ScopeOverlapError''"
| "error_name (SourceDriftError m) = ''SourceDriftError''"
| "error_name (EffectError m) = ''EffectError''"
| "error_name (EffectConflict m) = ''EffectConflict''"
| "error_name (AmbiguousMutation m) = ''AmbiguousMutation''"
| "error_name (KeyError m) = ''KeyError''"
| "error_name (IndexError m) = ''IndexError''"
| "error_name (ValueError m) = ''ValueError''"
| "error_name (TypeError m) = ''TypeError''"
| "error_name (AttributeError m) = ''AttributeError''"
| "error_name (OverflowError m) = ''OverflowError''"
| "error_name (IntegrityError m) = ''IntegrityError''"
| "error_name (ProgrammingError m) = ''ProgrammingError''"
| "error_name (OtherError c m) = c"

fun error_text :: "error \<Rightarrow> string" where
  "error_text (ModelValidationError m) = m"
| "error_text (TransitionError m) = m"
| "error_text (RevisionConflict m) = m"
| "error_text (AuthorityError m) = m"
| "error_text (CancellationError m) = m"
| "error_text (FencingError m) = m"
| "error_text (BudgetError m) = m"
| "error_text (StoreError m) = m"
| "error_text (RequestConflict m) = m"
| "error_text (AdmissionError m) = m"
| "error_text (ScopeOverlapError m) = m"
| "error_text (SourceDriftError m) = m"
| "error_text (EffectError m) = m"
| "error_text (EffectConflict m) = m"
| "error_text (AmbiguousMutation m) = m"
| "error_text (KeyError m) = m"
| "error_text (IndexError m) = m"
| "error_text (ValueError m) = m"
| "error_text (TypeError m) = m"
| "error_text (AttributeError m) = m"
| "error_text (OverflowError m) = m"
| "error_text (IntegrityError m) = m"
| "error_text (ProgrammingError m) = m"
| "error_text (OtherError c m) = m"

section \<open>Values\<close>

datatype pyval =
    PNone
  | PBool bool
  | PInt int
  | PStr string
  | PTuple "pyval list"
  | PList "pyval list"
  | PDict "(string \<times> pyval) list"
  | PProxy "(string \<times> pyval) list"

type_synonym pydict = "(string \<times> pyval) list"

lemma size_in_pydict [termination_simp]:
  "(k, v) \<in> set d \<Longrightarrow> size v < Suc (size_list (size_prod (\<lambda>_. 0) size) d)"
  by (induction d) auto

lemma size_in_pylist [termination_simp]:
  "v \<in> set vs \<Longrightarrow> size v < Suc (size_list size vs)" for vs :: "pyval list"
  by (induction vs) auto

definition py_opt_str :: "string option \<Rightarrow> pyval" where
  "py_opt_str x = (case x of None \<Rightarrow> PNone | Some s \<Rightarrow> PStr s)"

definition py_opt_int :: "int option \<Rightarrow> pyval" where
  "py_opt_int x = (case x of None \<Rightarrow> PNone | Some i \<Rightarrow> PInt i)"

section \<open>Strings\<close>

definition py_space :: "char \<Rightarrow> bool" where
  "py_space c \<longleftrightarrow> (let n = (of_char c :: nat) in 9 \<le> n \<and> n \<le> 13 \<or> 28 \<le> n \<and> n \<le> 32)"

definition py_strip :: "string \<Rightarrow> string" where
  "py_strip s = rev (dropWhile py_space (rev (dropWhile py_space s)))"

definition py_rstrip :: "string \<Rightarrow> string" where
  "py_rstrip s = rev (dropWhile py_space (rev s))"

definition fold_char :: "char \<Rightarrow> char" where
  "fold_char c = (let n = (of_char c :: nat) in if 65 \<le> n \<and> n \<le> 90 then char_of (n + 32) else c)"

definition casefold :: "string \<Rightarrow> string" where
  "casefold s = map fold_char s"

definition hex_lower :: "char \<Rightarrow> bool" where
  "hex_lower c \<longleftrightarrow> c \<in> set ''0123456789abcdef''"

fun split_on :: "char \<Rightarrow> string \<Rightarrow> string list" where
  "split_on d [] = [[]]"
| "split_on d (c # cs) =
     (if c = d then [] # split_on d cs
      else (case split_on d cs of [] \<Rightarrow> [[c]] | p # ps \<Rightarrow> (c # p) # ps))"

fun join :: "string \<Rightarrow> string list \<Rightarrow> string" where
  "join sep [] = []"
| "join sep [x] = x"
| "join sep (x # y # ys) = x @ sep @ join sep (y # ys)"

text \<open>Replace every occurrence of one character by another, as \<open>s.replace(a, b)\<close> with
  one-character strings.\<close>

definition replace_char :: "char \<Rightarrow> char \<Rightarrow> string \<Rightarrow> string" where
  "replace_char a b s = map (\<lambda>c. if c = a then b else c) s"

section \<open>Numbers as text\<close>

definition digit_char :: "nat \<Rightarrow> char" where
  "digit_char d = char_of (48 + d)"

fun show_nat :: "nat \<Rightarrow> string" where
  "show_nat n = (if n < 10 then [digit_char n] else show_nat (n div 10) @ [digit_char (n mod 10)])"

declare show_nat.simps [simp del]

definition show_int :: "int \<Rightarrow> string" where
  "show_int i = (if i < 0 then CHR ''-'' # show_nat (nat (- i)) else show_nat (nat i))"

definition is_digit :: "char \<Rightarrow> bool" where
  "is_digit c \<longleftrightarrow> 48 \<le> (of_char c :: nat) \<and> (of_char c :: nat) \<le> 57"

definition read_digits :: "string \<Rightarrow> nat" where
  "read_digits s = foldl (\<lambda>n c. 10 * n + ((of_char c :: nat) - 48)) 0 s"

text \<open>The decimal literals \<open>int()\<close> accepts: digits with single underscores between them.\<close>

fun int_literal_ok :: "string \<Rightarrow> bool" where
  "int_literal_ok [] = False"
| "int_literal_ok [c] = is_digit c"
| "int_literal_ok (c # d # cs) =
     (is_digit c \<and> (if d = CHR ''_'' then int_literal_ok cs else int_literal_ok (d # cs)))"

definition parse_int :: "string \<Rightarrow> int option" where
  "parse_int s =
     (let t = py_strip s;
          neg = (case t of c # _ \<Rightarrow> c = CHR ''-'' | [] \<Rightarrow> False);
          body = (case t of c # r \<Rightarrow> if c = CHR ''-'' \<or> c = CHR ''+'' then r else t | [] \<Rightarrow> [])
      in if int_literal_ok body
         then let n = int (read_digits (filter (\<lambda>c. c \<noteq> CHR ''_'') body)) in Some (if neg then - n else n)
         else None)"

section \<open>\<open>repr\<close> and \<open>str\<close>\<close>

definition hex_digit :: "nat \<Rightarrow> char" where
  "hex_digit d = (if d < 10 then char_of (48 + d) else char_of (87 + d))"

definition repr_char :: "char \<Rightarrow> char \<Rightarrow> string" where
  "repr_char q c =
     (let n = (of_char c :: nat) in
      if c = q \<or> n = 92 then [CHR 0x5C, c]
      else if n = 10 then [CHR 0x5C, CHR ''n'']
      else if n = 13 then [CHR 0x5C, CHR ''r'']
      else if n = 9 then [CHR 0x5C, CHR ''t'']
      else if n < 32 \<or> n = 127 then [CHR 0x5C, CHR ''x'', hex_digit (n div 16), hex_digit (n mod 16)]
      else [c])"

definition repr_str :: "string \<Rightarrow> string" where
  "repr_str s =
     (let q = (if CHR 0x27 \<in> set s \<and> CHR 0x22 \<notin> set s then CHR 0x22 else CHR 0x27)
      in [q] @ concat (map (repr_char q) s) @ [q])"

fun py_repr :: "pyval \<Rightarrow> string" where
  "py_repr PNone = ''None''"
| "py_repr (PBool b) = (if b then ''True'' else ''False'')"
| "py_repr (PInt i) = show_int i"
| "py_repr (PStr s) = repr_str s"
| "py_repr (PTuple vs) =
     (case vs of [v] \<Rightarrow> ''('' @ py_repr v @ '',)''
      | _ \<Rightarrow> ''('' @ join '', '' (map py_repr vs) @ '')'')"
| "py_repr (PList vs) = ''['' @ join '', '' (map py_repr vs) @ '']''"
| "py_repr (PDict d) = ''{'' @ join '', '' (map (\<lambda>(k, v). repr_str k @ '': '' @ py_repr v) d) @ ''}''"
| "py_repr (PProxy d) =
     ''mappingproxy({'' @ join '', '' (map (\<lambda>(k, v). repr_str k @ '': '' @ py_repr v) d) @ ''})''"

definition py_str :: "pyval \<Rightarrow> string" where
  "py_str v = (case v of PStr s \<Rightarrow> s | PProxy d \<Rightarrow> py_repr (PDict d) | _ \<Rightarrow> py_repr v)"

section \<open>Truth, conversion, equality\<close>

fun py_truthy :: "pyval \<Rightarrow> bool" where
  "py_truthy PNone = False"
| "py_truthy (PBool b) = b"
| "py_truthy (PInt i) = (i \<noteq> 0)"
| "py_truthy (PStr s) = (s \<noteq> [])"
| "py_truthy (PTuple vs) = (vs \<noteq> [])"
| "py_truthy (PList vs) = (vs \<noteq> [])"
| "py_truthy (PDict d) = (d \<noteq> [])"
| "py_truthy (PProxy d) = (d \<noteq> [])"

fun py_int :: "pyval \<Rightarrow> int res" where
  "py_int (PInt i) = Inr i"
| "py_int (PBool b) = Inr (if b then 1 else 0)"
| "py_int (PStr s) =
     (case parse_int s of Some i \<Rightarrow> Inr i
      | None \<Rightarrow> Inl (ValueError (''invalid literal for int() with base 10: '' @ repr_str s)))"
| "py_int _ = Inl (TypeError ''int() argument must be a string, a bytes-like object or a real number'')"

text \<open>Equality compares \<open>True\<close> with \<open>1\<close> as equal and mappings by content, never by the
  order of their keys; a tuple never equals a list.\<close>

fun py_norm :: "pyval \<Rightarrow> pyval" where
  "py_norm PNone = PNone"
| "py_norm (PBool b) = PInt (if b then 1 else 0)"
| "py_norm (PInt i) = PInt i"
| "py_norm (PStr s) = PStr s"
| "py_norm (PTuple vs) = PTuple (map py_norm vs)"
| "py_norm (PList vs) = PList (map py_norm vs)"
| "py_norm (PDict d) = PDict (sort_key fst (map (\<lambda>(k, v). (k, py_norm v)) d))"
| "py_norm (PProxy d) = PDict (sort_key fst (map (\<lambda>(k, v). (k, py_norm v)) d))"

definition py_eq :: "pyval \<Rightarrow> pyval \<Rightarrow> bool" where
  "py_eq a b \<longleftrightarrow> py_norm a = py_norm b"

section \<open>Containers\<close>

fun as_mapping :: "pyval \<Rightarrow> pydict option" where
  "as_mapping (PDict d) = Some d"
| "as_mapping (PProxy d) = Some d"
| "as_mapping _ = None"

definition is_mapping :: "pyval \<Rightarrow> bool" where
  "is_mapping v \<longleftrightarrow> as_mapping v \<noteq> None"

definition dict_get :: "pydict \<Rightarrow> string \<Rightarrow> pyval \<Rightarrow> pyval" where
  "dict_get d k dflt = (case map_of d k of None \<Rightarrow> dflt | Some v \<Rightarrow> v)"

definition py_get :: "pyval \<Rightarrow> string \<Rightarrow> pyval \<Rightarrow> pyval res" where
  "py_get v k dflt =
     (case as_mapping v of Some d \<Rightarrow> Inr (dict_get d k dflt)
      | None \<Rightarrow> Inl (AttributeError ''object has no attribute get''))"

definition py_item :: "pyval \<Rightarrow> string \<Rightarrow> pyval res" where
  "py_item v k =
     (case as_mapping v of
        Some d \<Rightarrow> (case map_of d k of Some x \<Rightarrow> Inr x | None \<Rightarrow> Inl (KeyError (repr_str k)))
      | None \<Rightarrow> Inl (TypeError ''object is not subscriptable by a string''))"

fun py_iter :: "pyval \<Rightarrow> pyval list res" where
  "py_iter (PTuple vs) = Inr vs"
| "py_iter (PList vs) = Inr vs"
| "py_iter (PStr s) = Inr (map (\<lambda>c. PStr [c]) s)"
| "py_iter (PDict d) = Inr (map (\<lambda>kv. PStr (fst kv)) d)"
| "py_iter (PProxy d) = Inr (map (\<lambda>kv. PStr (fst kv)) d)"
| "py_iter _ = Inl (TypeError ''object is not iterable'')"

text \<open>Insertion into a dict keeps the position of a key that is already present.\<close>

fun dict_set :: "string \<Rightarrow> pyval \<Rightarrow> pydict \<Rightarrow> pydict" where
  "dict_set k v [] = [(k, v)]"
| "dict_set k v ((k', v') # d) = (if k' = k then (k, v) # d else (k', v') # dict_set k v d)"

definition dict_remove :: "string \<Rightarrow> pydict \<Rightarrow> pydict" where
  "dict_remove k d = filter (\<lambda>kv. fst kv \<noteq> k) d"

section \<open>Facts about text\<close>

lemma py_strip_Nil [simp]: "py_strip [] = []"
  by (simp add: py_strip_def)

lemma show_nat_nonempty [simp]: "show_nat n \<noteq> []"
  by (subst show_nat.simps) simp

lemma of_char_digit_char: "d < 10 \<Longrightarrow> (of_char (digit_char d) :: nat) = 48 + d"
  by (simp add: digit_char_def)

lemma is_digit_digit_char: "d < 10 \<Longrightarrow> is_digit (digit_char d)"
  by (simp add: is_digit_def of_char_digit_char)

lemma show_nat_digits: "c \<in> set (show_nat n) \<Longrightarrow> is_digit c"
proof (induction n rule: show_nat.induct)
  case (1 n)
  show ?case
  proof (cases "n < 10")
    case True
    with "1.prems" show ?thesis by (simp add: show_nat.simps [of n] is_digit_digit_char)
  next
    case False
    with "1" show ?thesis by (auto simp: show_nat.simps [of n] is_digit_digit_char)
  qed
qed

lemma read_digits_snoc: "read_digits (s @ [c]) = 10 * read_digits s + ((of_char c :: nat) - 48)"
  by (simp add: read_digits_def)

lemma read_show_nat: "read_digits (show_nat n) = n"
proof (induction n rule: show_nat.induct)
  case (1 n)
  show ?case
  proof (cases "n < 10")
    case True
    then show ?thesis
      by (simp add: show_nat.simps [of n] read_digits_def of_char_digit_char)
  next
    case False
    with "1.IH" show ?thesis
      by (simp add: show_nat.simps [of n] read_digits_snoc of_char_digit_char)
  qed
qed

lemma join_Cons: "ys \<noteq> [] \<Longrightarrow> join sep (x # ys) = x @ sep @ join sep ys"
  by (cases ys) simp_all

lemma split_on_nonempty [simp]: "split_on d s \<noteq> []"
  by (induction s) (auto split: list.splits)

lemma join_Cons_Cons: "join sep ((c # p) # ps) = c # join sep (p # ps)"
  by (cases ps) simp_all

lemma join_split_on: "join [d] (split_on d s) = s"
proof (induction s)
  case (Cons c cs)
  then show ?case
    by (auto simp: join_Cons join_Cons_Cons split: list.splits)
qed simp

section \<open>Facts about values\<close>

lemma map_of_sort_key: "distinct (map fst d) \<Longrightarrow> map_of (sort_key fst d) = map_of d"
  by (intro map_of_eqI) (auto simp: distinct_map)

lemma sort_key_map_snd:
  "sort_key fst (map (\<lambda>(k, v). (k, f v)) d) = map (\<lambda>(k, v). (k, f v)) (sort_key fst d)"
proof (induction d)
  case Nil
  then show ?case by simp
next
  case (Cons x d)
  have ins: "insort_key fst (k, f v) (map (\<lambda>(k, v). (k, f v)) e)
      = map (\<lambda>(k, v). (k, f v)) (insort_key fst (k, v) e)" for k v e
    by (induction e) auto
  show ?case by (cases x) (simp add: Cons.IH ins)
qed

lemma sort_key_idem [simp]: "sort_key f (sort_key f xs) = sort_key f xs"
  by (simp add: sort_key_id_if_sorted)

lemma map_snd_cong:
  assumes "\<And>k v. (k, v) \<in> set d \<Longrightarrow> f v = g v"
  shows "map (\<lambda>(k, v). (k, f v)) d = map (\<lambda>(k, v). (k, g v)) d"
  using assms by (induction d) auto

lemma map_snd_comp:
  "map (\<lambda>(k, v). (k, f v)) (map (\<lambda>(k, v). (k, g v)) d) = map (\<lambda>(k, v). (k, f (g v))) d"
  by (induction d) auto

lemma py_norm_idem [simp]: "py_norm (py_norm v) = py_norm v"
proof -
  have dict: "py_norm (PDict (sort_key fst (map (\<lambda>(k, v). (k, py_norm v)) d)))
      = PDict (sort_key fst (map (\<lambda>(k, v). (k, py_norm v)) d))"
    if "\<And>k v. (k, v) \<in> set d \<Longrightarrow> py_norm (py_norm v) = py_norm v" for d
  proof -
    have e: "map (\<lambda>(k, v). (k, py_norm (py_norm v))) d = map (\<lambda>(k, v). (k, py_norm v)) d"
      using that by (rule map_snd_cong)
    show ?thesis
      by (simp add: sort_key_map_snd [symmetric] map_snd_comp e del: map_map map_eq_conv)
  qed
  show ?thesis
  proof (induction v rule: py_norm.induct)
    case (7 d)
    then show ?case using dict [of d] by auto
  next
    case (8 d)
    then show ?case using dict [of d] by auto
  qed auto
qed

lemma py_eq_refl [simp]: "py_eq v v"
  by (simp add: py_eq_def)

lemma py_eq_sym: "py_eq a b \<Longrightarrow> py_eq b a"
  by (simp add: py_eq_def)

lemma py_eq_trans: "py_eq a b \<Longrightarrow> py_eq b c \<Longrightarrow> py_eq a c"
  by (simp add: py_eq_def)

lemma py_eq_PStr [simp]: "py_eq v (PStr s) \<longleftrightarrow> v = PStr s"
  by (cases v) (auto simp: py_eq_def)

lemma py_eq_PStr' [simp]: "py_eq (PStr s) v \<longleftrightarrow> v = PStr s"
  by (cases v) (auto simp: py_eq_def)

lemma py_eq_PNone [simp]: "py_eq v PNone \<longleftrightarrow> v = PNone"
  by (cases v) (auto simp: py_eq_def)

lemma py_eq_opt_str [simp]: "py_eq v (py_opt_str x) \<longleftrightarrow> v = py_opt_str x"
  by (cases x) (auto simp: py_opt_str_def)

lemma py_opt_str_inject [simp]: "py_opt_str x = py_opt_str y \<longleftrightarrow> x = y"
  by (auto simp: py_opt_str_def split: option.splits)

lemma py_str_PStr [simp]: "py_str (PStr s) = s"
  by (simp add: py_str_def)

lemma py_str_PNone [simp]: "py_str PNone = ''None''"
  by (simp add: py_str_def)

lemma py_get_PDict [simp]: "py_get (PDict d) k x = Inr (dict_get d k x)"
  by (simp add: py_get_def)

lemma py_get_PProxy [simp]: "py_get (PProxy d) k x = Inr (dict_get d k x)"
  by (simp add: py_get_def)

lemma py_get_Inr_iff: "py_get v k x = Inr y \<longleftrightarrow> (\<exists>d. as_mapping v = Some d \<and> y = dict_get d k x)"
  by (auto simp: py_get_def split: option.splits)

lemma dict_get_simps [simp]:
  "dict_get [] k x = x"
  "dict_get ((k', v) # d) k x = (if k' = k then v else dict_get d k x)"
  by (simp_all add: dict_get_def)

lemma py_item_PDict_Cons [simp]:
  "py_item (PDict ((k', v) # d)) k = (if k' = k then Inr v else py_item (PDict d) k)"
  "py_item (PProxy ((k', v) # d)) k = (if k' = k then Inr v else py_item (PProxy d) k)"
  by (simp_all add: py_item_def)

lemma py_item_Inr_iff: "py_item v k = Inr y \<longleftrightarrow> (\<exists>d. as_mapping v = Some d \<and> map_of d k = Some y)"
  by (auto simp: py_item_def split: option.splits)

lemma map_of_dict_set: "map_of (dict_set k v d) = (map_of d)(k \<mapsto> v)"
  by (induction k v d rule: dict_set.induct) (auto simp: fun_upd_twist)

lemma dict_get_dict_set:
  "dict_get (dict_set k v d) k' x = (if k' = k then v else dict_get d k' x)"
  by (simp add: dict_get_def map_of_dict_set)

lemma keys_dict_set: "set (map fst (dict_set k v d)) = insert k (set (map fst d))"
  by (induction k v d rule: dict_set.induct) auto

lemma distinct_dict_set: "distinct (map fst d) \<Longrightarrow> distinct (map fst (dict_set k v d))"
proof (induction k v d rule: dict_set.induct)
  case (2 k v k' v' d)
  then show ?case using keys_dict_set [of k v d] by auto
qed simp

end
