(* ===== verification/Py_Json.thy ===== *)
theory Py_Json
  imports Py_Value
begin

text \<open>
  \<open>_freeze\<close>, \<open>_primitive\<close> and \<open>canonical_json\<close> of model.py, with the
  parts of Python's \<open>json\<close> they rest on: \<open>json.dumps\<close> with sorted keys,
  compact separators and \<open>ensure_ascii=False\<close>, and \<open>json.loads\<close> without
  floating-point numbers.  The main results are that freezing is idempotent and
  invisible in the canonical text, and that \<open>json.loads\<close> reads the canonical text
  back, so the text determines the value.
\<close>

section \<open>Freezing and its inverse\<close>

fun py_freeze :: "pyval \<Rightarrow> pyval" where
  "py_freeze (PDict d) = PProxy (sort_key fst (map (\<lambda>(k, v). (k, py_freeze v)) d))"
| "py_freeze (PProxy d) = PProxy (sort_key fst (map (\<lambda>(k, v). (k, py_freeze v)) d))"
| "py_freeze (PList vs) = PTuple (map py_freeze vs)"
| "py_freeze (PTuple vs) = PTuple (map py_freeze vs)"
| "py_freeze v = v"

fun py_primitive :: "pyval \<Rightarrow> pyval" where
  "py_primitive (PDict d) = PDict (map (\<lambda>(k, v). (k, py_primitive v)) d)"
| "py_primitive (PProxy d) = PDict (map (\<lambda>(k, v). (k, py_primitive v)) d)"
| "py_primitive (PList vs) = PList (map py_primitive vs)"
| "py_primitive (PTuple vs) = PList (map py_primitive vs)"
| "py_primitive v = v"

section \<open>Writing\<close>

definition json_escape :: "char \<Rightarrow> string" where
  "json_escape c =
     (let n = (of_char c :: nat) in
      if n = 34 then [CHR 0x5C, CHR 0x22]
      else if n = 92 then [CHR 0x5C, CHR 0x5C]
      else if n = 10 then [CHR 0x5C, CHR ''n'']
      else if n = 13 then [CHR 0x5C, CHR ''r'']
      else if n = 9 then [CHR 0x5C, CHR ''t'']
      else if n = 12 then [CHR 0x5C, CHR ''f'']
      else if n = 8 then [CHR 0x5C, CHR ''b'']
      else if n < 32 then [CHR 0x5C, CHR ''u'', CHR ''0'', CHR ''0'', hex_digit (n div 16), hex_digit (n mod 16)]
      else [c])"

definition json_quote :: "string \<Rightarrow> string" where
  "json_quote s = CHR 0x22 # concat (map json_escape s) @ [CHR 0x22]"

fun json_dumps :: "pyval \<Rightarrow> string" where
  "json_dumps PNone = ''null''"
| "json_dumps (PBool b) = (if b then ''true'' else ''false'')"
| "json_dumps (PInt i) = show_int i"
| "json_dumps (PStr s) = json_quote s"
| "json_dumps (PTuple vs) = ''['' @ join '','' (map json_dumps vs) @ '']''"
| "json_dumps (PList vs) = ''['' @ join '','' (map json_dumps vs) @ '']''"
| "json_dumps (PDict d) =
     ''{'' @ join '','' (map (\<lambda>(k, t). json_quote k @ '':'' @ t)
                          (sort_key fst (map (\<lambda>(k, v). (k, json_dumps v)) d))) @ ''}''"
| "json_dumps (PProxy d) =
     ''{'' @ join '','' (map (\<lambda>(k, t). json_quote k @ '':'' @ t)
                          (sort_key fst (map (\<lambda>(k, v). (k, json_dumps v)) d))) @ ''}''"

definition canonical_json :: "pyval \<Rightarrow> string" where
  "canonical_json v = json_dumps (py_primitive v)"

section \<open>Reading\<close>

definition json_ws :: "char \<Rightarrow> bool" where
  "json_ws c \<longleftrightarrow> c \<in> {CHR '' '', CHR 0x09, CHR 0x0A, CHR 0x0D}"

definition json_unescape :: "char \<Rightarrow> char option" where
  "json_unescape c =
     (if c = CHR 0x22 then Some (CHR 0x22) else if c = CHR 0x5C then Some (CHR 0x5C)
      else if c = CHR ''/'' then Some (CHR ''/'') else if c = CHR ''b'' then Some (CHR 0x08)
      else if c = CHR ''f'' then Some (CHR 0x0C) else if c = CHR ''n'' then Some (CHR 0x0A)
      else if c = CHR ''r'' then Some (CHR 0x0D) else if c = CHR ''t'' then Some (CHR 0x09)
      else None)"

definition hex_value :: "char \<Rightarrow> nat option" where
  "hex_value c =
     (let n = (of_char c :: nat) in
      if 48 \<le> n \<and> n \<le> 57 then Some (n - 48)
      else if 97 \<le> n \<and> n \<le> 102 then Some (n - 87)
      else if 65 \<le> n \<and> n \<le> 70 then Some (n - 55) else None)"

text \<open>A \<open>\u\<close> escape above code point 255 is outside the modelled characters: \<open>None\<close>.\<close>

definition hex4 :: "char \<Rightarrow> char \<Rightarrow> char \<Rightarrow> char \<Rightarrow> char option" where
  "hex4 a b c d =
     (case (hex_value a, hex_value b, hex_value c, hex_value d) of
        (Some 0, Some 0, Some x, Some y) \<Rightarrow> Some (char_of (16 * x + y))
      | _ \<Rightarrow> None)"

fun json_string :: "string \<Rightarrow> (string \<times> string) option" where
  "json_string [] = None"
| "json_string (c # cs) =
     (if c = CHR 0x22 then Some ([], cs)
      else if c = CHR 0x5C then
        (case cs of
           [] \<Rightarrow> None
         | e # cs' \<Rightarrow>
             (if e = CHR ''u'' then
                (case cs' of
                   h1 # h2 # h3 # h4 # cs'' \<Rightarrow>
                     (case (hex4 h1 h2 h3 h4, json_string cs'') of
                        (Some x, Some (s, r)) \<Rightarrow> Some (x # s, r)
                      | _ \<Rightarrow> None)
                 | _ \<Rightarrow> None)
              else
                (case (json_unescape e, json_string cs') of
                   (Some x, Some (s, r)) \<Rightarrow> Some (x # s, r)
                 | _ \<Rightarrow> None)))
      else if (of_char c :: nat) < 32 then None
      else (case json_string cs of Some (s, r) \<Rightarrow> Some (c # s, r) | None \<Rightarrow> None))"

definition json_number :: "string \<Rightarrow> (pyval \<times> string) option" where
  "json_number s =
     (let neg = (case s of c # _ \<Rightarrow> c = CHR ''-'' | [] \<Rightarrow> False);
          t = (if neg then tl s else s);
          ds = (case t of c # _ \<Rightarrow> if c = CHR ''0'' then [c] else takeWhile is_digit t | [] \<Rightarrow> []);
          r = drop (length ds) t;
          float = (case r of c # _ \<Rightarrow> c \<in> {CHR ''.'', CHR ''e'', CHR ''E''} | [] \<Rightarrow> False)
      in if ds = [] \<or> float then None
         else Some (PInt (if neg then - int (read_digits ds) else int (read_digits ds)), r))"

definition expect :: "string \<Rightarrow> pyval \<Rightarrow> string \<Rightarrow> (pyval \<times> string) option" where
  "expect lit v s = (if take (length lit) s = lit then Some (v, drop (length lit) s) else None)"

text \<open>Repeated keys: the last value wins, at the position of the first.\<close>

definition dict_of_pairs :: "pydict \<Rightarrow> pydict" where
  "dict_of_pairs ps = foldl (\<lambda>d (k, v). dict_set k v d) [] ps"

text \<open>The readers take fuel; \<open>json_loads\<close> gives one unit more than the length of the text,
  and \<open>json_loads_canonical\<close> shows that this is enough.\<close>

fun json_value :: "nat \<Rightarrow> string \<Rightarrow> (pyval \<times> string) option"
and json_elems :: "nat \<Rightarrow> string \<Rightarrow> (pyval list \<times> string) option"
and json_members :: "nat \<Rightarrow> string \<Rightarrow> (pydict \<times> string) option" where
  "json_value 0 s = None"
| "json_value (Suc n) s =
     (case dropWhile json_ws s of
        [] \<Rightarrow> None
      | c # cs \<Rightarrow>
          if c = CHR 0x22 then (case json_string cs of Some (x, r) \<Rightarrow> Some (PStr x, r) | None \<Rightarrow> None)
          else if c = CHR ''['' then
            (case dropWhile json_ws cs of
               [] \<Rightarrow> None
             | d # ds \<Rightarrow> if d = CHR '']'' then Some (PList [], ds)
                  else (case json_elems n cs of Some (vs, r) \<Rightarrow> Some (PList vs, r) | None \<Rightarrow> None))
          else if c = CHR ''{'' then
            (case dropWhile json_ws cs of
               [] \<Rightarrow> None
             | d # ds \<Rightarrow> if d = CHR ''}'' then Some (PDict [], ds)
                  else (case json_members n cs of
                          Some (ps, r) \<Rightarrow> Some (PDict (dict_of_pairs ps), r) | None \<Rightarrow> None))
          else if c = CHR ''n'' then expect ''null'' PNone (c # cs)
          else if c = CHR ''t'' then expect ''true'' (PBool True) (c # cs)
          else if c = CHR ''f'' then expect ''false'' (PBool False) (c # cs)
          else json_number (c # cs))"
| "json_elems 0 s = None"
| "json_elems (Suc n) s =
     (case json_value n s of
        None \<Rightarrow> None
      | Some (v, r) \<Rightarrow>
          (case dropWhile json_ws r of
             [] \<Rightarrow> None
           | c # cs \<Rightarrow>
               if c = CHR '','' then
                 (case json_elems n cs of Some (vs, r') \<Rightarrow> Some (v # vs, r') | None \<Rightarrow> None)
               else if c = CHR '']'' then Some ([v], cs) else None))"
| "json_members 0 s = None"
| "json_members (Suc n) s =
     (case dropWhile json_ws s of
        [] \<Rightarrow> None
      | q # qs \<Rightarrow>
          if q \<noteq> CHR 0x22 then None
          else (case json_string qs of
             None \<Rightarrow> None
           | Some (k, r) \<Rightarrow>
               (case dropWhile json_ws r of
                  [] \<Rightarrow> None
                | c # cs \<Rightarrow>
                    if c \<noteq> CHR '':'' then None
                    else (case json_value n cs of
                       None \<Rightarrow> None
                     | Some (v, r') \<Rightarrow>
                         (case dropWhile json_ws r' of
                            [] \<Rightarrow> None
                          | e # es \<Rightarrow>
                              if e = CHR '','' then
                                (case json_members n es of
                                   Some (ps, r'') \<Rightarrow> Some ((k, v) # ps, r'') | None \<Rightarrow> None)
                              else if e = CHR ''}'' then Some ([(k, v)], es) else None)))))"

definition json_loads :: "string \<Rightarrow> pyval option" where
  "json_loads s =
     (case json_value (Suc (length s)) s of
        Some (v, r) \<Rightarrow> if dropWhile json_ws r = [] then Some v else None
      | None \<Rightarrow> None)"

text \<open>The value the canonical text denotes: primitive, with sorted keys.\<close>

fun json_norm :: "pyval \<Rightarrow> pyval" where
  "json_norm (PDict d) = PDict (sort_key fst (map (\<lambda>(k, v). (k, json_norm v)) d))"
| "json_norm (PProxy d) = PDict (sort_key fst (map (\<lambda>(k, v). (k, json_norm v)) d))"
| "json_norm (PList vs) = PList (map json_norm vs)"
| "json_norm (PTuple vs) = PList (map json_norm vs)"
| "json_norm v = v"

text \<open>Python dictionaries have distinct keys, at every level.\<close>

fun wf_py :: "pyval \<Rightarrow> bool" where
  "wf_py (PDict d) = (distinct (map fst d) \<and> (\<forall>kv \<in> set d. wf_py (snd kv)))"
| "wf_py (PProxy d) = (distinct (map fst d) \<and> (\<forall>kv \<in> set d. wf_py (snd kv)))"
| "wf_py (PList vs) = (\<forall>v \<in> set vs. wf_py v)"
| "wf_py (PTuple vs) = (\<forall>v \<in> set vs. wf_py v)"
| "wf_py v = True"


section \<open>Freezing, primitives and normal forms\<close>

lemma sort_map_comp:
  assumes "\<And>k v. (k, v) \<in> set d \<Longrightarrow> f (g v) = h v"
  shows "sort_key fst (map (\<lambda>(k, v). (k, f v)) (sort_key fst (map (\<lambda>(k, v). (k, g v)) d)))
       = sort_key fst (map (\<lambda>(k, v). (k, h v)) d)"
    and "sort_key fst (map (\<lambda>(k, v). (k, f v)) (map (\<lambda>(k, v). (k, g v)) d))
       = sort_key fst (map (\<lambda>(k, v). (k, h v)) d)"
    and "map (\<lambda>(k, v). (k, f v)) (map (\<lambda>(k, v). (k, g v)) d) = map (\<lambda>(k, v). (k, h v)) d"
proof -
  have e: "map (\<lambda>(k, v). (k, f (g v))) d = map (\<lambda>(k, v). (k, h v)) d"
    using assms by (rule map_snd_cong)
  show "sort_key fst (map (\<lambda>(k, v). (k, f v)) (sort_key fst (map (\<lambda>(k, v). (k, g v)) d)))
       = sort_key fst (map (\<lambda>(k, v). (k, h v)) d)"
    by (simp add: sort_key_map_snd [symmetric] map_snd_comp e del: map_map map_eq_conv)
  show "sort_key fst (map (\<lambda>(k, v). (k, f v)) (map (\<lambda>(k, v). (k, g v)) d))
       = sort_key fst (map (\<lambda>(k, v). (k, h v)) d)"
    by (simp add: map_snd_comp e del: map_map map_eq_conv)
  show "map (\<lambda>(k, v). (k, f v)) (map (\<lambda>(k, v). (k, g v)) d) = map (\<lambda>(k, v). (k, h v)) d"
    by (simp add: map_snd_comp e del: map_map map_eq_conv)
qed

text \<open>Structural induction over values, with one hypothesis per entry of a mapping.\<close>

lemma pyval_induct [case_names Atom Seq Map]:
  assumes atom: "\<And>v. v = PNone \<or> (\<exists>b. v = PBool b) \<or> (\<exists>i. v = PInt i) \<or> (\<exists>s. v = PStr s) \<Longrightarrow> P v"
    and seq: "\<And>vs. (\<And>v. v \<in> set vs \<Longrightarrow> P v) \<Longrightarrow> P (PTuple vs) \<and> P (PList vs)"
    and mp: "\<And>d. (\<And>k v. (k, v) \<in> set d \<Longrightarrow> P v) \<Longrightarrow> P (PDict d) \<and> P (PProxy d)"
  shows "P v"
proof (induction v rule: py_freeze.induct)
  case (1 d) then show ?case using mp [of d] by auto
next
  case (2 d) then show ?case using mp [of d] by auto
next
  case (3 vs) then show ?case using seq [of vs] by auto
next
  case (4 vs) then show ?case using seq [of vs] by auto
qed (auto intro: atom)

lemma py_freeze_freeze [simp]: "py_freeze (py_freeze v) = py_freeze v"
proof (induction v rule: pyval_induct)
  case (Map d)
  then show ?case using sort_map_comp(1) [of d py_freeze py_freeze py_freeze] by (simp del: map_map)
qed auto

lemma py_freeze_primitive [simp]: "py_freeze (py_primitive v) = py_freeze v"
proof (induction v rule: pyval_induct)
  case (Map d)
  then show ?case using sort_map_comp(2) [of d py_freeze py_primitive py_freeze] by (simp del: map_map)
qed auto

lemma py_primitive_primitive [simp]: "py_primitive (py_primitive v) = py_primitive v"
proof (induction v rule: pyval_induct)
  case (Map d)
  then show ?case using sort_map_comp(3) [of d py_primitive py_primitive py_primitive] by (simp del: map_map)
qed auto

lemma json_norm_freeze [simp]: "json_norm (py_freeze v) = json_norm v"
proof (induction v rule: pyval_induct)
  case (Map d)
  then show ?case using sort_map_comp(1) [of d json_norm py_freeze json_norm] by (simp del: map_map)
qed auto

lemma json_norm_primitive [simp]: "json_norm (py_primitive v) = json_norm v"
proof (induction v rule: pyval_induct)
  case (Map d)
  then show ?case using sort_map_comp(2) [of d json_norm py_primitive json_norm] by (simp del: map_map)
qed auto

lemma json_norm_norm [simp]: "json_norm (json_norm v) = json_norm v"
proof (induction v rule: pyval_induct)
  case (Map d)
  then show ?case using sort_map_comp(1) [of d json_norm json_norm json_norm] by (simp del: map_map)
qed auto

lemma py_freeze_norm [simp]: "py_freeze (json_norm v) = py_freeze v"
proof (induction v rule: pyval_induct)
  case (Map d)
  then show ?case using sort_map_comp(1) [of d py_freeze json_norm py_freeze] by (simp del: map_map)
qed auto

lemma json_dumps_norm: "json_dumps (json_norm v) = json_dumps v"
proof (induction v rule: pyval_induct)
  case (Seq vs)
  then show ?case by (simp cong: map_cong)
next
  case (Map d)
  then show ?case using sort_map_comp(1) [of d json_dumps json_norm json_dumps] by (simp del: map_map)
qed auto

lemma canonical_json_norm: "canonical_json v = json_dumps (json_norm v)"
  using json_dumps_norm [of "py_primitive v"] by (simp add: canonical_json_def)

lemma canonical_json_freeze: "canonical_json (py_freeze v) = canonical_json v"
  by (simp add: canonical_json_norm)


section \<open>Reading the canonical text back\<close>

lemma hex_value_digit: "d < 16 \<Longrightarrow> hex_value (hex_digit d) = Some d"
  by (auto simp: hex_value_def hex_digit_def)

lemma hex_value_zero: "hex_value (CHR ''0'') = Some 0"
  by (simp add: hex_value_def)

lemma code_eqI: "n = of_char d \<Longrightarrow> ((of_char c :: nat) = n) = (c = d)"
  by auto

lemma code_eq:
  "((of_char c :: nat) = 34) = (c = CHR 0x22)" "((of_char c :: nat) = 92) = (c = CHR 0x5C)"
  "((of_char c :: nat) = 10) = (c = CHR 0x0A)" "((of_char c :: nat) = 13) = (c = CHR 0x0D)"
  "((of_char c :: nat) = 9) = (c = CHR 0x09)" "((of_char c :: nat) = 12) = (c = CHR 0x0C)"
  "((of_char c :: nat) = 8) = (c = CHR 0x08)"
  by (rule code_eqI; simp)+

lemma json_string_quote: "json_string (concat (map json_escape s) @ CHR 0x22 # r) = Some (s, r)"
proof (induction s)
  case Nil
  show ?case by simp
next
  case (Cons c s)
  let ?n = "of_char c :: nat"
  have char: "c = char_of ?n" by simp
  have less: "?n < 256" by (rule nat_of_char_less_256)
  have small: "?n div 16 < 16" "16 * (?n div 16) + ?n mod 16 = ?n"
    using less by presburger+
  show ?case
    using Cons.IH small char
    by (auto simp: json_escape_def Let_def code_eq json_unescape_def hex4_def hex_value_digit hex_value_zero)
qed

definition ends_value :: "string \<Rightarrow> bool" where
  "ends_value r \<longleftrightarrow> (case r of [] \<Rightarrow> True | c # _ \<Rightarrow> c \<in> {CHR '','', CHR '']'', CHR ''}''})"

lemma ends_value_simps [simp]:
  "ends_value []" "ends_value (CHR '','' # r)" "ends_value (CHR '']'' # r)" "ends_value (CHR ''}'' # r)"
  by (simp_all add: ends_value_def)

lemma takeWhile_digits: "(\<And>c. c \<in> set ds \<Longrightarrow> is_digit c) \<Longrightarrow> ends_value r \<Longrightarrow> takeWhile is_digit (ds @ r) = ds"
  by (induction ds) (auto simp: ends_value_def is_digit_def split: list.splits)

lemma show_nat_first:
  "\<exists>c cs. show_nat n = c # cs \<and> is_digit c \<and> (c = CHR ''0'' \<longrightarrow> cs = [])"
proof (induction n rule: show_nat.induct)
  case (1 n)
  show ?case
  proof (cases "n < 10")
    case True
    then show ?thesis by (simp add: show_nat.simps [of n] is_digit_digit_char)
  next
    case False
    then obtain c cs where c: "show_nat (n div 10) = c # cs" "is_digit c" "c = CHR ''0'' \<longrightarrow> cs = []"
      using "1.IH" by auto
    have "c \<noteq> CHR ''0''"
    proof
      assume "c = CHR ''0''"
      with c have "show_nat (n div 10) = ''0''" by simp
      then have "n div 10 = 0" using read_show_nat [of "n div 10"] by (simp add: read_digits_def)
      with False show False by simp
    qed
    with c False show ?thesis by (simp add: show_nat.simps [of n])
  qed
qed

lemma json_number_nat:
  assumes "ends_value r"
  shows "json_number (show_nat n @ r) = Some (PInt (int n), r)"
    and "json_number (CHR ''-'' # show_nat n @ r) = Some (PInt (- int n), r)"
proof -
  obtain c cs where c: "show_nat n = c # cs" "is_digit c" "c = CHR ''0'' \<longrightarrow> cs = []"
    using show_nat_first [of n] by auto
  have tw: "takeWhile is_digit (show_nat n @ r) = show_nat n"
    using show_nat_digits assms by (intro takeWhile_digits) auto
  have nominus: "c \<noteq> CHR ''-''" using c(2) by (auto simp: is_digit_def)
  have ds: "(if c = CHR ''0'' then [c] else takeWhile is_digit (show_nat n @ r)) = show_nat n"
    using c tw by auto
  have float: "\<not> (case r of [] \<Rightarrow> False | c # x \<Rightarrow> c \<in> {CHR ''.'', CHR ''e'', CHR ''E''})"
    using assms by (auto simp: ends_value_def split: list.splits)
  show "json_number (show_nat n @ r) = Some (PInt (int n), r)"
    using c nominus ds float read_show_nat [of n]
    by (auto simp: json_number_def Let_def)
  show "json_number (CHR ''-'' # show_nat n @ r) = Some (PInt (- int n), r)"
    using c ds float read_show_nat [of n]
    by (auto simp: json_number_def Let_def)
qed

lemma json_number_int: "ends_value r \<Longrightarrow> json_number (show_int i @ r) = Some (PInt i, r)"
  by (auto simp: show_int_def json_number_nat)

lemma dict_set_new: "k \<notin> set (map fst d) \<Longrightarrow> dict_set k v d = d @ [(k, v)]"
  by (induction k v d rule: dict_set.induct) auto

lemma dict_of_pairs_distinct: "distinct (map fst ps) \<Longrightarrow> dict_of_pairs ps = ps"
proof -
  have "foldl (\<lambda>d (k, v). dict_set k v d) d ps = d @ ps" if "distinct (map fst (d @ ps))" for d
    using that
  proof (induction ps arbitrary: d)
    case (Cons kv ps)
    then show ?case by (cases kv) (auto simp: dict_set_new)
  qed simp
  then show "distinct (map fst ps) \<Longrightarrow> ?thesis" by (simp add: dict_of_pairs_def)
qed


lemma json_dumps_first:
  "\<exists>c cs. json_dumps v = c # cs \<and> \<not> json_ws c \<and> c \<noteq> CHR '']'' \<and> c \<noteq> CHR ''}''"
proof (cases v)
  case (PInt i)
  obtain c cs where "show_nat (nat \<bar>i\<bar>) = c # cs" "is_digit c"
    using show_nat_first [of "nat \<bar>i\<bar>"] by auto
  with PInt show ?thesis
    by (auto simp: show_int_def json_ws_def is_digit_def abs_if split: if_splits)
qed (auto simp: json_quote_def json_ws_def)

lemma show_int_first: "\<exists>c cs. show_int i = c # cs \<and> (c = CHR ''-'' \<or> is_digit c)"
  using show_nat_first [of "nat (- i)"] show_nat_first [of "nat i"] by (auto simp: show_int_def)

lemma int_first_neq:
  assumes "c = CHR ''-'' \<or> is_digit c"
  shows "\<not> json_ws c" "c \<noteq> CHR 0x22" "c \<noteq> CHR ''[''" "c \<noteq> CHR ''{''"
    "c \<noteq> CHR ''n''" "c \<noteq> CHR ''t''" "c \<noteq> CHR ''f''"
  using assms by (auto simp: json_ws_def is_digit_def)

lemma dropWhile_ws_dumps [simp]: "dropWhile json_ws (json_dumps v @ r) = json_dumps v @ r"
  using json_dumps_first [of v] by auto

lemma dropWhile_ws_quote [simp]: "dropWhile json_ws (json_quote k @ r) = json_quote k @ r"
  by (simp add: json_quote_def json_ws_def)

lemma ws_punctuation [simp]:
  "\<not> json_ws (CHR '','')" "\<not> json_ws (CHR '':'')" "\<not> json_ws (CHR ''['')" "\<not> json_ws (CHR '']'')"
  "\<not> json_ws (CHR ''{'')" "\<not> json_ws (CHR ''}'')" "\<not> json_ws (CHR 0x22)"
  by (simp_all add: json_ws_def)

lemma json_string_quoted: "json_quote k = CHR 0x22 # t \<Longrightarrow> json_string (t @ r) = Some (k, r)"
  by (auto simp: json_quote_def json_string_quote)

text \<open>The hypothesis on one value under which the readers of sequences and mappings work.\<close>

definition reads_back :: "pyval \<Rightarrow> bool" where
  "reads_back v \<longleftrightarrow> (\<forall>n r. length (json_dumps v) < n \<longrightarrow> ends_value r \<longrightarrow>
     json_value n (json_dumps v @ r) = Some (json_norm v, r))"

lemma reads_backI:
  assumes "\<And>m r. length (json_dumps v) \<le> m \<Longrightarrow> ends_value r \<Longrightarrow>
    json_value (Suc m) (json_dumps v @ r) = Some (json_norm v, r)"
  shows "reads_back v"
  unfolding reads_back_def
proof (intro allI impI)
  fix n r
  assume "length (json_dumps v) < n" "ends_value r"
  then show "json_value n (json_dumps v @ r) = Some (json_norm v, r)"
    using assms [of "n - 1" r] by (cases n) auto
qed

lemma json_elems_dumps:
  assumes "\<And>v. v \<in> set vs \<Longrightarrow> reads_back v" and "vs \<noteq> []"
    and "length (join '','' (map json_dumps vs)) + 1 < n"
  shows "json_elems n (join '','' (map json_dumps vs) @ '']'' @ r) = Some (map json_norm vs, r)"
  using assms
proof (induction vs arbitrary: n)
  case Nil
  then show ?case by simp
next
  case (Cons v vs)
  then obtain m where n: "n = Suc m" by (cases n) auto
  have v: "json_value m (json_dumps v @ r') = Some (json_norm v, r')"
    if "length (json_dumps v) < m" "ends_value r'" for r'
    using Cons.prems(1) [of v] that by (simp add: reads_back_def)
  show ?case
  proof (cases vs)
    case Nil
    with v Cons.prems(3) n show ?thesis by simp
  next
    case (Cons w ws)
    with Cons.IH [of m] Cons.prems v n show ?thesis by (simp add: join_Cons)
  qed
qed

lemma json_members_dumps:
  assumes "\<And>k v. (k, v) \<in> set d \<Longrightarrow> reads_back v" and "d \<noteq> []"
    and "length (join '','' (map (\<lambda>(k, v). json_quote k @ '':'' @ json_dumps v) d)) + 1 < n"
  shows "json_members n (join '','' (map (\<lambda>(k, v). json_quote k @ '':'' @ json_dumps v) d) @ ''}'' @ r)
       = Some (map (\<lambda>(k, v). (k, json_norm v)) d, r)"
  using assms
proof (induction d arbitrary: n)
  case Nil
  then show ?case by simp
next
  case (Cons kv d)
  obtain k v where kv: "kv = (k, v)" by (cases kv)
  obtain t where q: "json_quote k = CHR 0x22 # t" by (simp add: json_quote_def)
  obtain m where n: "n = Suc m" using Cons.prems(3) by (cases n) auto
  have v: "json_value m (json_dumps v @ r') = Some (json_norm v, r')"
    if "length (json_dumps v) < m" "ends_value r'" for r'
    using Cons.prems(1) [of k v] that kv by (simp add: reads_back_def)
  show ?case
  proof (cases d)
    case Nil
    with v Cons.prems(3) n kv q show ?thesis by (simp add: json_string_quoted [OF q])
  next
    case (Cons w ws)
    then have ne: "d \<noteq> []" by simp
    have "json_members m (join '','' (map (\<lambda>(k, v). json_quote k @ '':'' @ json_dumps v) d) @ ''}'' @ r)
        = Some (map (\<lambda>(k, v). (k, json_norm v)) d, r)"
    proof (rule Cons.IH)
      show "reads_back v'" if "(k', v') \<in> set d" for k' v'
        using Cons.prems(1) [of k' v'] that by simp
    qed (use Cons.prems(3) n kv ne in \<open>simp_all add: join_Cons\<close>)
    with v Cons.prems(3) n kv q ne show ?thesis
      by (simp add: join_Cons json_string_quoted [OF q])
  qed
qed

lemma json_dumps_dict:
  "json_dumps (PDict d) = ''{'' @ join '','' (map (\<lambda>(k, v). json_quote k @ '':'' @ json_dumps v) (sort_key fst d)) @ ''}''"
proof -
  have "map (\<lambda>(k, t). json_quote k @ '':'' @ t) (map (\<lambda>(k, v). (k, json_dumps v)) e)
      = map (\<lambda>(k, v). json_quote k @ '':'' @ json_dumps v) e" for e
    by (induction e) auto
  then show ?thesis by (simp add: sort_key_map_snd del: map_map)
qed

lemma json_norm_dict: "json_norm (PDict d) = PDict (map (\<lambda>(k, v). (k, json_norm v)) (sort_key fst d))"
  by (simp add: sort_key_map_snd)

lemma first_of_members:
  assumes "d \<noteq> []"
  shows "\<exists>cs. join '','' (map (\<lambda>(k, v). json_quote k @ '':'' @ json_dumps v) d) = CHR 0x22 # cs"
proof -
  obtain k v e where "d = (k, v) # e" using assms by (cases d) auto
  then show ?thesis by (cases e) (auto simp: json_quote_def)
qed

lemma first_of_elems:
  assumes "vs \<noteq> []"
  shows "\<exists>c cs. join '','' (map json_dumps vs) = c # cs \<and> \<not> json_ws c \<and> c \<noteq> CHR '']''"
proof -
  obtain v ws where vs: "vs = v # ws" using assms by (cases vs) auto
  with json_dumps_first [of v] show ?thesis by (cases ws) auto
qed

lemma reads_back_seq:
  assumes "\<And>v. v \<in> set vs \<Longrightarrow> reads_back v"
  shows "reads_back (PList vs)"
proof (rule reads_backI)
  fix m r
  assume n: "length (json_dumps (PList vs)) \<le> m"
  show "json_value (Suc m) (json_dumps (PList vs) @ r) = Some (json_norm (PList vs), r)"
  proof (cases "vs = []")
    case True
    then show ?thesis by simp
  next
    case False
    from first_of_elems [OF False] obtain c cs where
      c: "join '','' (map json_dumps vs) = c # cs" "\<not> json_ws c" "c \<noteq> CHR '']''" by auto
    have "json_elems m (join '','' (map json_dumps vs) @ '']'' @ r) = Some (map json_norm vs, r)"
      using n by (intro json_elems_dumps assms False) auto
    with c show ?thesis by simp
  qed
qed

lemma reads_back_map:
  assumes "\<And>k v. (k, v) \<in> set d \<Longrightarrow> reads_back v" and "distinct (map fst d)"
  shows "reads_back (PDict d)"
proof (rule reads_backI)
  fix m r
  let ?e = "sort_key fst d"
  let ?t = "join '','' (map (\<lambda>(k, v). json_quote k @ '':'' @ json_dumps v) ?e)"
  assume n: "length (json_dumps (PDict d)) \<le> m"
  show "json_value (Suc m) (json_dumps (PDict d) @ r) = Some (json_norm (PDict d), r)"
  proof (cases "d = []")
    case True
    then show ?thesis by simp
  next
    case False
    then have ne: "?e \<noteq> []" by (metis set_empty set_sort)
    from first_of_members [OF ne] obtain cs where c: "?t = CHR 0x22 # cs" by auto
    from n have m: "length ?t + 2 \<le> m" by (simp add: json_dumps_dict del: json_dumps.simps)
    have "json_members m (?t @ ''}'' @ r) = Some (map (\<lambda>(k, v). (k, json_norm v)) ?e, r)"
      using m assms(1) by (intro json_members_dumps ne) auto
    moreover have "distinct (map fst (map (\<lambda>(k, v). (k, json_norm v)) ?e))"
      using assms(2) by (simp add: comp_def split_def distinct_map)
    ultimately show ?thesis
      using c by (simp add: json_dumps_dict json_norm_dict dict_of_pairs_distinct del: json_dumps.simps json_norm.simps map_map)
  qed
qed

lemma json_value_dumps: "wf_py v \<Longrightarrow> reads_back v"
proof (induction v rule: pyval_induct)
  case (Atom v)
  have int: "reads_back (PInt i)" for i
  proof (rule reads_backI)
    fix m r
    assume r: "ends_value r"
    obtain c cs where c: "show_int i = c # cs" "c = CHR ''-'' \<or> is_digit c"
      using show_int_first [of i] by auto
    have "json_number (c # cs @ r) = Some (PInt i, r)"
      using json_number_int [OF r, of i] c(1) by simp
    with c(1) int_first_neq [OF c(2)]
    show "json_value (Suc m) (json_dumps (PInt i) @ r) = Some (json_norm (PInt i), r)"
      by simp
  qed
  have str: "reads_back (PStr x)" for x
    by (rule reads_backI) (simp add: json_quote_def json_string_quote)
  have none: "reads_back PNone"
    by (rule reads_backI) (simp add: expect_def json_ws_def)
  have "reads_back (PBool b)" for b
    by (cases b) (auto intro!: reads_backI simp: expect_def json_ws_def)
  then show ?case using Atom int str none by blast
next
  case (Seq vs)
  have "reads_back (PTuple vs) = reads_back (PList vs)" by (simp add: reads_back_def)
  with Seq show ?case by (auto intro: reads_back_seq)
next
  case (Map d)
  have "reads_back (PProxy d) = reads_back (PDict d)" by (simp add: reads_back_def)
  moreover have "wf_py (PProxy d) = wf_py (PDict d)" by simp
  moreover have "wf_py (PDict d) \<Longrightarrow> reads_back (PDict d)"
    using Map by (intro reads_back_map) auto
  ultimately show ?case by blast
qed


lemma json_loads_dumps:
  assumes "wf_py v"
  shows "json_loads (json_dumps v) = Some (json_norm v)"
proof -
  have "json_value (Suc (length (json_dumps v))) (json_dumps v @ []) = Some (json_norm v, [])"
    using json_value_dumps [OF assms] unfolding reads_back_def by (metis ends_value_simps(1) lessI)
  then show ?thesis by (simp add: json_loads_def)
qed

lemma wf_py_primitive [simp]: "wf_py (py_primitive v) = wf_py v"
proof (induction v rule: pyval_induct)
  case (Map d)
  then have "(\<forall>kv \<in> set d. wf_py (py_primitive (snd kv))) = (\<forall>kv \<in> set d. wf_py (snd kv))" by auto
  then show ?case by (simp add: comp_def split_def)
qed auto

lemma distinct_keys_sort: "distinct (map fst (sort_key fst d)) = distinct (map fst d)"
  by (simp add: distinct_map)

lemma wf_py_freeze [simp]: "wf_py (py_freeze v) = wf_py v"
proof (induction v rule: pyval_induct)
  case (Map d)
  then have wf: "(\<forall>kv \<in> set d. wf_py (py_freeze (snd kv))) = (\<forall>kv \<in> set d. wf_py (snd kv))" by auto
  have keys: "distinct (map fst (sort_key fst (map (\<lambda>(k, v). (k, py_freeze v)) d))) = distinct (map fst d)"
    by (simp add: distinct_keys_sort comp_def split_def)
  show ?case using wf keys by (simp add: split_def)
qed auto

lemma json_loads_canonical:
  assumes "wf_py v"
  shows "json_loads (canonical_json v) = Some (json_norm v)"
  using json_loads_dumps [of "py_primitive v"] assms by (simp add: canonical_json_def)

lemma canonical_json_inject:
  assumes "wf_py v" and "wf_py w" and "canonical_json v = canonical_json w"
  shows "json_norm v = json_norm w"
  using json_loads_canonical [OF assms(1)] json_loads_canonical [OF assms(2)] assms(3) by simp

section \<open>\<open>json.loads\<close> as the engine calls it\<close>

definition loads :: "string \<Rightarrow> pyval res" where
  "loads s = (case json_loads s of Some v \<Rightarrow> Inr v | None \<Rightarrow> Inl (ValueError ''text is not JSON''))"

lemma loads_canonical [simp]: "wf_py v \<Longrightarrow> loads (canonical_json v) = Inr (json_norm v)"
  by (simp add: loads_def json_loads_canonical)

end
