(* ===== verification/Sha256.thy ===== *)
theory Sha256
  imports Py_Json "HOL-Library.Word"
begin

unbundle bit_operations_syntax

text \<open>
  SHA-256 (FIPS 180-4), the function \<open>hashlib.sha256(text.encode("utf-8")).hexdigest()\<close>
  that model.py applies to canonical JSON, on 32-bit words, and the digest of a document.
  Proofs treat the digest as opaque: no property rests on the absence of collisions.
\<close>

type_synonym w32 = "32 word"

text \<open>The first 32 bits of the fractional parts of the cube roots of the first 64 primes, in decimal.\<close>

definition sha_k :: "w32 list" where
  "sha_k = [
     1116352408, 1899447441, 3049323471, 3921009573, 961987163, 1508970993, 2453635748, 2870763221,
     3624381080, 310598401, 607225278, 1426881987, 1925078388, 2162078206, 2614888103, 3248222580,
     3835390401, 4022224774, 264347078, 604807628, 770255983, 1249150122, 1555081692, 1996064986,
     2554220882, 2821834349, 2952996808, 3210313671, 3336571891, 3584528711, 113926993, 338241895,
     666307205, 773529912, 1294757372, 1396182291, 1695183700, 1986661051, 2177026350, 2456956037,
     2730485921, 2820302411, 3259730800, 3345764771, 3516065817, 3600352804, 4094571909, 275423344,
     430227734, 506948616, 659060556, 883997877, 958139571, 1322822218, 1537002063, 1747873779,
     1955562222, 2024104815, 2227730452, 2361852424, 2428436474, 2756734187, 3204031479, 3329325298]"

text \<open>The same of the square roots of the first 8 primes.\<close>

definition sha_init :: "w32 list" where
  "sha_init = [
     1779033703, 3144134277, 1013904242, 2773480762, 1359893119, 2600822924, 528734635, 1541459225]"

definition sha_ch :: "w32 \<Rightarrow> w32 \<Rightarrow> w32 \<Rightarrow> w32" where
  "sha_ch x y z = (x AND y) XOR (NOT x AND z)"

definition sha_maj :: "w32 \<Rightarrow> w32 \<Rightarrow> w32 \<Rightarrow> w32" where
  "sha_maj x y z = (x AND y) XOR (x AND z) XOR (y AND z)"

definition rotr :: "nat \<Rightarrow> w32 \<Rightarrow> w32" where
  "rotr n x = drop_bit n x OR push_bit (32 - n) x"

definition big_sigma0 :: "w32 \<Rightarrow> w32" where
  "big_sigma0 x = rotr 2 x XOR rotr 13 x XOR rotr 22 x"

definition big_sigma1 :: "w32 \<Rightarrow> w32" where
  "big_sigma1 x = rotr 6 x XOR rotr 11 x XOR rotr 25 x"

definition small_sigma0 :: "w32 \<Rightarrow> w32" where
  "small_sigma0 x = rotr 7 x XOR rotr 18 x XOR drop_bit 3 x"

definition small_sigma1 :: "w32 \<Rightarrow> w32" where
  "small_sigma1 x = rotr 17 x XOR rotr 19 x XOR drop_bit 10 x"

text \<open>The message schedule, kept with the newest word first.\<close>

fun sha_extend :: "nat \<Rightarrow> w32 list \<Rightarrow> w32 list" where
  "sha_extend 0 ws = ws"
| "sha_extend (Suc n) ws =
     sha_extend n ((small_sigma1 (ws ! 1) + ws ! 6 + small_sigma0 (ws ! 14) + ws ! 15) # ws)"

fun sha_round :: "w32 list \<Rightarrow> w32 \<times> w32 \<Rightarrow> w32 list" where
  "sha_round [a, b, c, d, e, f, g, h] (k, w) =
     (let t1 = h + big_sigma1 e + sha_ch e f g + k + w;
          t2 = big_sigma0 a + sha_maj a b c
      in [t1 + t2, a, b, c, d + t1, e, f, g])"
| "sha_round s _ = s"

definition sha_block :: "w32 list \<Rightarrow> w32 list \<Rightarrow> w32 list" where
  "sha_block s ws = map2 (+) s (foldl sha_round s (zip sha_k (rev (sha_extend 48 (rev ws)))))"

text \<open>Bytes are natural numbers below 256.\<close>

fun be_word :: "nat list \<Rightarrow> w32" where
  "be_word bs = of_nat (foldl (\<lambda>n b. 256 * n + b) 0 bs)"

fun chunks :: "nat \<Rightarrow> 'a list \<Rightarrow> 'a list list" where
  "chunks n xs = (if xs = [] \<or> n = 0 then [] else take n xs # chunks n (drop n xs))"

declare chunks.simps [simp del]

definition be_bytes :: "nat \<Rightarrow> nat \<Rightarrow> nat list" where
  "be_bytes n x = map (\<lambda>i. x div 256 ^ (n - 1 - i) mod 256) [0..<n]"

definition sha_pad :: "nat list \<Rightarrow> nat list" where
  "sha_pad bs =
     (let l = length bs
      in bs @ [128] @ replicate ((119 - l mod 64) mod 64) 0 @ be_bytes 8 (8 * l))"

definition sha256_bytes :: "nat list \<Rightarrow> nat list" where
  "sha256_bytes bs =
     concat (map (\<lambda>w. be_bytes 4 (unat w))
       (foldl sha_block sha_init (map (\<lambda>c. map be_word (chunks 4 c)) (chunks 64 (sha_pad bs)))))"

definition utf8 :: "string \<Rightarrow> nat list" where
  "utf8 s = concat (map (\<lambda>c. let n = (of_char c :: nat) in
     if n < 128 then [n] else [192 + n div 64, 128 + n mod 64]) s)"

definition hex_of_bytes :: "nat list \<Rightarrow> string" where
  "hex_of_bytes bs = concat (map (\<lambda>b. [hex_digit (b div 16), hex_digit (b mod 16)]) bs)"

definition sha256_hex :: "string \<Rightarrow> string" where
  "sha256_hex s = hex_of_bytes (sha256_bytes (utf8 s))"

definition canonical_json_digest :: "pyval \<Rightarrow> string" where
  "canonical_json_digest v = sha256_hex (canonical_json v)"

lemma canonical_json_digest_norm: "json_norm v = json_norm w \<Longrightarrow> canonical_json_digest v = canonical_json_digest w"
  by (simp add: canonical_json_digest_def canonical_json_norm)

section \<open>The shape of a digest\<close>

lemma sha_round_length: "length s = 8 \<Longrightarrow> length (sha_round s x) = 8"
  by (induction s x rule: sha_round.induct) (simp_all add: Let_def)

lemma sha_rounds_length: "length s = 8 \<Longrightarrow> length (foldl sha_round s xs) = 8"
  by (induction xs arbitrary: s) (simp_all add: sha_round_length)

lemma sha_block_length: "length s = 8 \<Longrightarrow> length (sha_block s ws) = 8"
  by (simp add: sha_block_def sha_rounds_length)

lemma sha_blocks_length: "length s = 8 \<Longrightarrow> length (foldl sha_block s xs) = 8"
  by (induction xs arbitrary: s) (simp_all add: sha_block_length)

lemma sha_init_length: "length sha_init = 8"
  by (simp add: sha_init_def)

lemma sha256_bytes_length: "length (sha256_bytes bs) = 32"
proof -
  have "length (concat (map (\<lambda>w. be_bytes 4 (unat w)) ws)) = 4 * length ws" for ws :: "w32 list"
    by (induction ws) (simp_all add: be_bytes_def)
  then show ?thesis by (simp add: sha256_bytes_def sha_blocks_length sha_init_length)
qed

lemma sha256_bytes_range: "b \<in> set (sha256_bytes bs) \<Longrightarrow> b < 256"
  by (auto simp: sha256_bytes_def be_bytes_def)

lemma hex_digits_lower: "list_all (\<lambda>d. hex_lower (hex_digit d)) [0..<16]"
  by code_simp

lemma hex_digit_lower: "d < 16 \<Longrightarrow> hex_lower (hex_digit d)"
  using hex_digits_lower by (auto simp: list_all_iff)

lemma sha256_hex_shape: "length (sha256_hex s) = 64 \<and> list_all hex_lower (sha256_hex s)"
proof -
  have len: "length (hex_of_bytes bs) = 2 * length bs" for bs
    by (induction bs) (simp_all add: hex_of_bytes_def)
  have "list_all hex_lower (hex_of_bytes bs)" if "\<And>b. b \<in> set bs \<Longrightarrow> b < 256" for bs
    using that by (induction bs) (auto simp: hex_of_bytes_def hex_digit_lower less_mult_imp_div_less)
  from this [OF sha256_bytes_range] show ?thesis
    by (simp add: sha256_hex_def len sha256_bytes_length)
qed

lemma sha256_hex_nonempty [simp]: "sha256_hex s \<noteq> []"
  using sha256_hex_shape [of s] by auto

lemma canonical_json_digest_nonempty [simp]: "canonical_json_digest v \<noteq> []"
  by (simp add: canonical_json_digest_def)

end
