(* ===== verification/Campaign_Types.thy ===== *)
theory Campaign_Types
  imports Sha256
begin

text \<open>
  The enumerations of model.py.  Each Python \<open>class X(str, Enum)\<close> is a datatype with the
  source's members (prefixed where several enumerations share a name), a function to the
  string value, and \<open>X_of\<close>, the conversion \<open>_enum(X, value)\<close> from a string.
  The locale \<open>str_enum\<close> states what the rest of the model uses of an enumeration
  (no two members share a value, and parsing inverts printing) and is interpreted
  once per enumeration.
\<close>

section \<open>The conversion \<open>_enum\<close>\<close>

definition enum_parse :: "'a list \<Rightarrow> ('a \<Rightarrow> string) \<Rightarrow> string \<Rightarrow> 'a option" where
  "enum_parse members val s = find (\<lambda>m. val m = s) members"

definition enum_of :: "'a list \<Rightarrow> ('a \<Rightarrow> string) \<Rightarrow> string \<Rightarrow> pyval \<Rightarrow> 'a res" where
  "enum_of members val cls v =
     (case enum_parse members val (py_str v) of
        Some m \<Rightarrow> Inr m
      | None \<Rightarrow> Inl (ModelValidationError (''invalid '' @ cls @ '': '' @ py_repr v)))"

text \<open>The constructor call \<open>X(text)\<close> itself, which raises \<open>ValueError\<close>.\<close>

definition enum_new :: "'a list \<Rightarrow> ('a \<Rightarrow> string) \<Rightarrow> string \<Rightarrow> string \<Rightarrow> 'a res" where
  "enum_new members val cls s =
     (case enum_parse members val s of
        Some m \<Rightarrow> Inr m
      | None \<Rightarrow> Inl (ValueError (repr_str s @ '' is not a valid '' @ cls)))"

locale str_enum =
  fixes members :: "'a list" and val :: "'a \<Rightarrow> string"
  assumes complete: "x \<in> set members"
    and values_distinct: "distinct (map val members)"
begin

lemma value_inject: "val x = val y \<longleftrightarrow> x = y"
  using values_distinct complete [of x] complete [of y] by (auto simp: distinct_map inj_on_def)

lemma parse_value: "enum_parse members val (val x) = Some x"
  unfolding enum_parse_def using values_distinct complete by (rule find_distinct_eq)

lemma parse_Some: "enum_parse members val s = Some x \<longleftrightarrow> s = val x"
  using parse_value unfolding enum_parse_def by (auto dest: find_Some_set)

lemma parse_None: "enum_parse members val s = None \<longleftrightarrow> s \<notin> range val"
  using complete unfolding enum_parse_def by (auto simp: find_None_set)

lemma of_value: "enum_of members val cls (PStr (val x)) = Inr x"
  by (simp add: enum_of_def parse_value)

lemma of_Inr: "enum_of members val cls v = Inr x \<longleftrightarrow> py_str v = val x"
  by (auto simp: enum_of_def parse_Some parse_value value_inject split: option.splits)

lemma new_value: "enum_new members val cls (val x) = Inr x"
  by (simp add: enum_new_def parse_value)

lemma new_Inr: "enum_new members val cls s = Inr x \<longleftrightarrow> s = val x"
  by (auto simp: enum_new_def parse_Some parse_value value_inject split: option.splits)

end

section \<open>Enumerations\<close>

datatype campaign_mode =
    MANUAL | AUTOMATED

definition campaign_modes :: "campaign_mode list" where
  "campaign_modes = [
     MANUAL, AUTOMATED]"

fun campaign_mode_value :: "campaign_mode \<Rightarrow> string" where
  "campaign_mode_value MANUAL = ''MANUAL''"
| "campaign_mode_value AUTOMATED = ''AUTOMATED''"

definition campaign_mode_of :: "pyval \<Rightarrow> campaign_mode res" where
  "campaign_mode_of v = enum_of campaign_modes campaign_mode_value ''CampaignMode'' v"

datatype objective_kind =
    OB_PRODUCT_CODE | OB_PRODUCT_DOCUMENTATION | OB_CONTROL_RUNTIME

definition objective_kinds :: "objective_kind list" where
  "objective_kinds = [
     OB_PRODUCT_CODE, OB_PRODUCT_DOCUMENTATION, OB_CONTROL_RUNTIME]"

fun objective_kind_value :: "objective_kind \<Rightarrow> string" where
  "objective_kind_value OB_PRODUCT_CODE = ''PRODUCT_CODE''"
| "objective_kind_value OB_PRODUCT_DOCUMENTATION = ''PRODUCT_DOCUMENTATION''"
| "objective_kind_value OB_CONTROL_RUNTIME = ''CONTROL_RUNTIME''"

definition objective_kind_of :: "pyval \<Rightarrow> objective_kind res" where
  "objective_kind_of v = enum_of objective_kinds objective_kind_value ''ObjectiveKind'' v"

datatype campaign_state =
    CS_DRAFT | CS_APPROVED | CS_RUNNING | CS_WAITING_EXTERNAL | CS_WAITING_HUMAN
    | CS_COMPLETED | CS_FAILED | CS_CANCELLED

definition campaign_states :: "campaign_state list" where
  "campaign_states = [
     CS_DRAFT, CS_APPROVED, CS_RUNNING, CS_WAITING_EXTERNAL, CS_WAITING_HUMAN,
     CS_COMPLETED, CS_FAILED, CS_CANCELLED]"

fun campaign_state_value :: "campaign_state \<Rightarrow> string" where
  "campaign_state_value CS_DRAFT = ''DRAFT''"
| "campaign_state_value CS_APPROVED = ''APPROVED''"
| "campaign_state_value CS_RUNNING = ''RUNNING''"
| "campaign_state_value CS_WAITING_EXTERNAL = ''WAITING_EXTERNAL''"
| "campaign_state_value CS_WAITING_HUMAN = ''WAITING_HUMAN''"
| "campaign_state_value CS_COMPLETED = ''COMPLETED''"
| "campaign_state_value CS_FAILED = ''FAILED''"
| "campaign_state_value CS_CANCELLED = ''CANCELLED''"

definition campaign_state_of :: "pyval \<Rightarrow> campaign_state res" where
  "campaign_state_of v = enum_of campaign_states campaign_state_value ''CampaignState'' v"

datatype node_state =
    NS_PENDING | NS_ADMITTED | NS_IMPLEMENTING | NS_VALIDATING | NS_CANDIDATE_FROZEN
    | NS_CHECKS_AND_REVIEW | NS_FINDINGS_FROZEN | NS_REPAIR_AUTHORIZED | NS_REPAIRING
    | NS_REVALIDATING | NS_CLOSURE | NS_READY_TO_PUBLISH | NS_PUBLISHING | NS_DONE
    | NS_FAILED_EXACT_NODE | NS_CANCELLED

definition node_states :: "node_state list" where
  "node_states = [
     NS_PENDING, NS_ADMITTED, NS_IMPLEMENTING, NS_VALIDATING, NS_CANDIDATE_FROZEN,
     NS_CHECKS_AND_REVIEW, NS_FINDINGS_FROZEN, NS_REPAIR_AUTHORIZED, NS_REPAIRING,
     NS_REVALIDATING, NS_CLOSURE, NS_READY_TO_PUBLISH, NS_PUBLISHING, NS_DONE,
     NS_FAILED_EXACT_NODE, NS_CANCELLED]"

fun node_state_value :: "node_state \<Rightarrow> string" where
  "node_state_value NS_PENDING = ''PENDING''"
| "node_state_value NS_ADMITTED = ''ADMITTED''"
| "node_state_value NS_IMPLEMENTING = ''IMPLEMENTING''"
| "node_state_value NS_VALIDATING = ''VALIDATING''"
| "node_state_value NS_CANDIDATE_FROZEN = ''CANDIDATE_FROZEN''"
| "node_state_value NS_CHECKS_AND_REVIEW = ''CHECKS_AND_REVIEW''"
| "node_state_value NS_FINDINGS_FROZEN = ''FINDINGS_FROZEN''"
| "node_state_value NS_REPAIR_AUTHORIZED = ''REPAIR_AUTHORIZED''"
| "node_state_value NS_REPAIRING = ''REPAIRING''"
| "node_state_value NS_REVALIDATING = ''REVALIDATING''"
| "node_state_value NS_CLOSURE = ''CLOSURE''"
| "node_state_value NS_READY_TO_PUBLISH = ''READY_TO_PUBLISH''"
| "node_state_value NS_PUBLISHING = ''PUBLISHING''"
| "node_state_value NS_DONE = ''DONE''"
| "node_state_value NS_FAILED_EXACT_NODE = ''FAILED_EXACT_NODE''"
| "node_state_value NS_CANCELLED = ''CANCELLED''"

definition node_state_of :: "pyval \<Rightarrow> node_state res" where
  "node_state_of v = enum_of node_states node_state_value ''NodeState'' v"

datatype actor_role =
    AR_IMPLEMENTER | AR_VALIDATOR | AR_REVIEWER | AR_REPAIRER | AR_CLOSURE_REVIEWER
    | AR_SUPERVISOR | AR_PARENT

definition actor_roles :: "actor_role list" where
  "actor_roles = [
     AR_IMPLEMENTER, AR_VALIDATOR, AR_REVIEWER, AR_REPAIRER, AR_CLOSURE_REVIEWER,
     AR_SUPERVISOR, AR_PARENT]"

fun actor_role_value :: "actor_role \<Rightarrow> string" where
  "actor_role_value AR_IMPLEMENTER = ''IMPLEMENTER''"
| "actor_role_value AR_VALIDATOR = ''VALIDATOR''"
| "actor_role_value AR_REVIEWER = ''REVIEWER''"
| "actor_role_value AR_REPAIRER = ''REPAIRER''"
| "actor_role_value AR_CLOSURE_REVIEWER = ''CLOSURE_REVIEWER''"
| "actor_role_value AR_SUPERVISOR = ''SUPERVISOR''"
| "actor_role_value AR_PARENT = ''PARENT''"

definition actor_role_of :: "pyval \<Rightarrow> actor_role res" where
  "actor_role_of v = enum_of actor_roles actor_role_value ''ActorRole'' v"

datatype lease_state =
    LS_ACTIVE | LS_RELEASED | LS_EXPIRED | LS_INVALIDATED

definition lease_states :: "lease_state list" where
  "lease_states = [
     LS_ACTIVE, LS_RELEASED, LS_EXPIRED, LS_INVALIDATED]"

fun lease_state_value :: "lease_state \<Rightarrow> string" where
  "lease_state_value LS_ACTIVE = ''ACTIVE''"
| "lease_state_value LS_RELEASED = ''RELEASED''"
| "lease_state_value LS_EXPIRED = ''EXPIRED''"
| "lease_state_value LS_INVALIDATED = ''INVALIDATED''"

definition lease_state_of :: "pyval \<Rightarrow> lease_state res" where
  "lease_state_of v = enum_of lease_states lease_state_value ''LeaseState'' v"

datatype evidence_kind =
    VK_REPOSITORY | VK_GIT | VK_VALIDATION | VK_HOSTED_CHECK | VK_REVIEW
    | VK_PUBLICATION | VK_INSTALLATION | VK_LEGACY_ARCHIVE

definition evidence_kinds :: "evidence_kind list" where
  "evidence_kinds = [
     VK_REPOSITORY, VK_GIT, VK_VALIDATION, VK_HOSTED_CHECK, VK_REVIEW, VK_PUBLICATION,
     VK_INSTALLATION, VK_LEGACY_ARCHIVE]"

fun evidence_kind_value :: "evidence_kind \<Rightarrow> string" where
  "evidence_kind_value VK_REPOSITORY = ''REPOSITORY''"
| "evidence_kind_value VK_GIT = ''GIT''"
| "evidence_kind_value VK_VALIDATION = ''VALIDATION''"
| "evidence_kind_value VK_HOSTED_CHECK = ''HOSTED_CHECK''"
| "evidence_kind_value VK_REVIEW = ''REVIEW''"
| "evidence_kind_value VK_PUBLICATION = ''PUBLICATION''"
| "evidence_kind_value VK_INSTALLATION = ''INSTALLATION''"
| "evidence_kind_value VK_LEGACY_ARCHIVE = ''LEGACY_ARCHIVE''"

definition evidence_kind_of :: "pyval \<Rightarrow> evidence_kind res" where
  "evidence_kind_of v = enum_of evidence_kinds evidence_kind_value ''EvidenceKind'' v"

datatype finding_origin =
    FO_REVIEW | FO_CLOSURE

definition finding_origins :: "finding_origin list" where
  "finding_origins = [
     FO_REVIEW, FO_CLOSURE]"

fun finding_origin_value :: "finding_origin \<Rightarrow> string" where
  "finding_origin_value FO_REVIEW = ''REVIEW''"
| "finding_origin_value FO_CLOSURE = ''CLOSURE''"

definition finding_origin_of :: "pyval \<Rightarrow> finding_origin res" where
  "finding_origin_of v = enum_of finding_origins finding_origin_value ''FindingOrigin'' v"

datatype effect_kind =
    EK_DISPATCH_WORKER | EK_INTERRUPT_WORKER | EK_RECONCILE_EFFECT | EK_PUSH
    | EK_CREATE_PULL_REQUEST | EK_UPSERT_COMMENT | EK_MERGE | EK_EXACT_FILE_REPLACE

definition effect_kinds :: "effect_kind list" where
  "effect_kinds = [
     EK_DISPATCH_WORKER, EK_INTERRUPT_WORKER, EK_RECONCILE_EFFECT, EK_PUSH,
     EK_CREATE_PULL_REQUEST, EK_UPSERT_COMMENT, EK_MERGE, EK_EXACT_FILE_REPLACE]"

fun effect_kind_value :: "effect_kind \<Rightarrow> string" where
  "effect_kind_value EK_DISPATCH_WORKER = ''DISPATCH_WORKER''"
| "effect_kind_value EK_INTERRUPT_WORKER = ''INTERRUPT_WORKER''"
| "effect_kind_value EK_RECONCILE_EFFECT = ''RECONCILE_EFFECT''"
| "effect_kind_value EK_PUSH = ''PUSH''"
| "effect_kind_value EK_CREATE_PULL_REQUEST = ''CREATE_PULL_REQUEST''"
| "effect_kind_value EK_UPSERT_COMMENT = ''UPSERT_COMMENT''"
| "effect_kind_value EK_MERGE = ''MERGE''"
| "effect_kind_value EK_EXACT_FILE_REPLACE = ''EXACT_FILE_REPLACE''"

definition effect_kind_of :: "pyval \<Rightarrow> effect_kind res" where
  "effect_kind_of v = enum_of effect_kinds effect_kind_value ''EffectKind'' v"

datatype effect_state =
    ES_PREPARED | ES_EXECUTING | ES_CONFIRMED | ES_FAILED | ES_AMBIGUOUS | ES_CANCELLED

definition effect_states :: "effect_state list" where
  "effect_states = [
     ES_PREPARED, ES_EXECUTING, ES_CONFIRMED, ES_FAILED, ES_AMBIGUOUS, ES_CANCELLED]"

fun effect_state_value :: "effect_state \<Rightarrow> string" where
  "effect_state_value ES_PREPARED = ''PREPARED''"
| "effect_state_value ES_EXECUTING = ''EXECUTING''"
| "effect_state_value ES_CONFIRMED = ''CONFIRMED''"
| "effect_state_value ES_FAILED = ''FAILED''"
| "effect_state_value ES_AMBIGUOUS = ''AMBIGUOUS''"
| "effect_state_value ES_CANCELLED = ''CANCELLED''"

definition effect_state_of :: "pyval \<Rightarrow> effect_state res" where
  "effect_state_of v = enum_of effect_states effect_state_value ''EffectState'' v"

datatype cancellation_state =
    CN_ACTIVE | CN_CANCELLED

definition cancellation_states :: "cancellation_state list" where
  "cancellation_states = [
     CN_ACTIVE, CN_CANCELLED]"

fun cancellation_state_value :: "cancellation_state \<Rightarrow> string" where
  "cancellation_state_value CN_ACTIVE = ''ACTIVE''"
| "cancellation_state_value CN_CANCELLED = ''CANCELLED''"

definition cancellation_state_of :: "pyval \<Rightarrow> cancellation_state res" where
  "cancellation_state_of v = enum_of cancellation_states cancellation_state_value ''CancellationState'' v"

datatype budget_token =
    BT_CHILD_CREATION | BT_CHILD_START | BT_VALIDATION_EXECUTION | BT_REVIEW_DISPATCH
    | BT_REPAIR_DISPATCH | BT_CLOSURE_DISPATCH | BT_HOSTED_CHECK_WAKEUP
    | BT_TRANSPORT_RETRY | BT_RECONCILIATION | BT_PUSH | BT_PULL_REQUEST_CREATION
    | BT_COMMENT | BT_MERGE | BT_REJECTED_ATTEMPT | BT_NO_OP_ATTEMPT

definition budget_tokens :: "budget_token list" where
  "budget_tokens = [
     BT_CHILD_CREATION, BT_CHILD_START, BT_VALIDATION_EXECUTION, BT_REVIEW_DISPATCH,
     BT_REPAIR_DISPATCH, BT_CLOSURE_DISPATCH, BT_HOSTED_CHECK_WAKEUP,
     BT_TRANSPORT_RETRY, BT_RECONCILIATION, BT_PUSH, BT_PULL_REQUEST_CREATION,
     BT_COMMENT, BT_MERGE, BT_REJECTED_ATTEMPT, BT_NO_OP_ATTEMPT]"

fun budget_token_value :: "budget_token \<Rightarrow> string" where
  "budget_token_value BT_CHILD_CREATION = ''CHILD_CREATION''"
| "budget_token_value BT_CHILD_START = ''CHILD_START''"
| "budget_token_value BT_VALIDATION_EXECUTION = ''VALIDATION_EXECUTION''"
| "budget_token_value BT_REVIEW_DISPATCH = ''REVIEW_DISPATCH''"
| "budget_token_value BT_REPAIR_DISPATCH = ''REPAIR_DISPATCH''"
| "budget_token_value BT_CLOSURE_DISPATCH = ''CLOSURE_DISPATCH''"
| "budget_token_value BT_HOSTED_CHECK_WAKEUP = ''HOSTED_CHECK_WAKEUP''"
| "budget_token_value BT_TRANSPORT_RETRY = ''TRANSPORT_RETRY''"
| "budget_token_value BT_RECONCILIATION = ''RECONCILIATION''"
| "budget_token_value BT_PUSH = ''PUSH''"
| "budget_token_value BT_PULL_REQUEST_CREATION = ''PULL_REQUEST_CREATION''"
| "budget_token_value BT_COMMENT = ''COMMENT''"
| "budget_token_value BT_MERGE = ''MERGE''"
| "budget_token_value BT_REJECTED_ATTEMPT = ''REJECTED_ATTEMPT''"
| "budget_token_value BT_NO_OP_ATTEMPT = ''NO_OP_ATTEMPT''"

definition budget_token_of :: "pyval \<Rightarrow> budget_token res" where
  "budget_token_of v = enum_of budget_tokens budget_token_value ''BudgetToken'' v"

datatype event_type =
    EV_APPROVE | EV_START | EV_WAIT_EXTERNAL | EV_WAIT_HUMAN | EV_RESUME | EV_ADMIT_NODE
    | EV_ACQUIRE_LEASE | EV_RELEASE_LEASE | EV_CONSUME_BUDGET | EV_START_IMPLEMENTATION
    | EV_IMPLEMENTATION_COMPLETED | EV_REQUEST_VALIDATION_CORRECTION
    | EV_VALIDATION_PASSED | EV_VALIDATION_FAILED | EV_START_REVIEW | EV_FREEZE_FINDINGS
    | EV_MARK_READY_TO_PUBLISH | EV_AUTHORIZE_REPAIR | EV_AUTHORIZE_PUBLICATION
    | EV_START_REPAIR | EV_REPAIR_COMPLETED | EV_REVALIDATION_PASSED
    | EV_REVALIDATION_FAILED | EV_START_CLOSURE | EV_COMPLETE_CLOSURE | EV_START_PUBLISH
    | EV_PUBLISH_CONFIRMED | EV_PUBLISH_FAILED | EV_FAIL_NODE | EV_ADVANCE_AUTHORITY
    | EV_CANCEL

definition event_types :: "event_type list" where
  "event_types = [
     EV_APPROVE, EV_START, EV_WAIT_EXTERNAL, EV_WAIT_HUMAN, EV_RESUME, EV_ADMIT_NODE,
     EV_ACQUIRE_LEASE, EV_RELEASE_LEASE, EV_CONSUME_BUDGET, EV_START_IMPLEMENTATION,
     EV_IMPLEMENTATION_COMPLETED, EV_REQUEST_VALIDATION_CORRECTION,
     EV_VALIDATION_PASSED, EV_VALIDATION_FAILED, EV_START_REVIEW, EV_FREEZE_FINDINGS,
     EV_MARK_READY_TO_PUBLISH, EV_AUTHORIZE_REPAIR, EV_AUTHORIZE_PUBLICATION,
     EV_START_REPAIR, EV_REPAIR_COMPLETED, EV_REVALIDATION_PASSED,
     EV_REVALIDATION_FAILED, EV_START_CLOSURE, EV_COMPLETE_CLOSURE, EV_START_PUBLISH,
     EV_PUBLISH_CONFIRMED, EV_PUBLISH_FAILED, EV_FAIL_NODE, EV_ADVANCE_AUTHORITY,
     EV_CANCEL]"

fun event_type_value :: "event_type \<Rightarrow> string" where
  "event_type_value EV_APPROVE = ''APPROVE''"
| "event_type_value EV_START = ''START''"
| "event_type_value EV_WAIT_EXTERNAL = ''WAIT_EXTERNAL''"
| "event_type_value EV_WAIT_HUMAN = ''WAIT_HUMAN''"
| "event_type_value EV_RESUME = ''RESUME''"
| "event_type_value EV_ADMIT_NODE = ''ADMIT_NODE''"
| "event_type_value EV_ACQUIRE_LEASE = ''ACQUIRE_LEASE''"
| "event_type_value EV_RELEASE_LEASE = ''RELEASE_LEASE''"
| "event_type_value EV_CONSUME_BUDGET = ''CONSUME_BUDGET''"
| "event_type_value EV_START_IMPLEMENTATION = ''START_IMPLEMENTATION''"
| "event_type_value EV_IMPLEMENTATION_COMPLETED = ''IMPLEMENTATION_COMPLETED''"
| "event_type_value EV_REQUEST_VALIDATION_CORRECTION = ''REQUEST_VALIDATION_CORRECTION''"
| "event_type_value EV_VALIDATION_PASSED = ''VALIDATION_PASSED''"
| "event_type_value EV_VALIDATION_FAILED = ''VALIDATION_FAILED''"
| "event_type_value EV_START_REVIEW = ''START_REVIEW''"
| "event_type_value EV_FREEZE_FINDINGS = ''FREEZE_FINDINGS''"
| "event_type_value EV_MARK_READY_TO_PUBLISH = ''MARK_READY_TO_PUBLISH''"
| "event_type_value EV_AUTHORIZE_REPAIR = ''AUTHORIZE_REPAIR''"
| "event_type_value EV_AUTHORIZE_PUBLICATION = ''AUTHORIZE_PUBLICATION''"
| "event_type_value EV_START_REPAIR = ''START_REPAIR''"
| "event_type_value EV_REPAIR_COMPLETED = ''REPAIR_COMPLETED''"
| "event_type_value EV_REVALIDATION_PASSED = ''REVALIDATION_PASSED''"
| "event_type_value EV_REVALIDATION_FAILED = ''REVALIDATION_FAILED''"
| "event_type_value EV_START_CLOSURE = ''START_CLOSURE''"
| "event_type_value EV_COMPLETE_CLOSURE = ''COMPLETE_CLOSURE''"
| "event_type_value EV_START_PUBLISH = ''START_PUBLISH''"
| "event_type_value EV_PUBLISH_CONFIRMED = ''PUBLISH_CONFIRMED''"
| "event_type_value EV_PUBLISH_FAILED = ''PUBLISH_FAILED''"
| "event_type_value EV_FAIL_NODE = ''FAIL_NODE''"
| "event_type_value EV_ADVANCE_AUTHORITY = ''ADVANCE_AUTHORITY''"
| "event_type_value EV_CANCEL = ''CANCEL''"

definition event_type_of :: "pyval \<Rightarrow> event_type res" where
  "event_type_of v = enum_of event_types event_type_value ''EventType'' v"

section \<open>Every enumeration satisfies the contract\<close>

lemma in_campaign_modes: "x \<in> set campaign_modes"
  by (cases x) (simp_all add: campaign_modes_def)

interpretation campaign_mode_enum: str_enum campaign_modes campaign_mode_value
  by (unfold_locales, rule in_campaign_modes, simp add: campaign_modes_def)

lemma in_objective_kinds: "x \<in> set objective_kinds"
  by (cases x) (simp_all add: objective_kinds_def)

interpretation objective_kind_enum: str_enum objective_kinds objective_kind_value
  by (unfold_locales, rule in_objective_kinds, simp add: objective_kinds_def)

lemma in_campaign_states: "x \<in> set campaign_states"
  by (cases x) (simp_all add: campaign_states_def)

interpretation campaign_state_enum: str_enum campaign_states campaign_state_value
  by (unfold_locales, rule in_campaign_states, simp add: campaign_states_def)

lemma in_node_states: "x \<in> set node_states"
  by (cases x) (simp_all add: node_states_def)

interpretation node_state_enum: str_enum node_states node_state_value
  by (unfold_locales, rule in_node_states, simp add: node_states_def)

lemma in_actor_roles: "x \<in> set actor_roles"
  by (cases x) (simp_all add: actor_roles_def)

interpretation actor_role_enum: str_enum actor_roles actor_role_value
  by (unfold_locales, rule in_actor_roles, simp add: actor_roles_def)

lemma in_lease_states: "x \<in> set lease_states"
  by (cases x) (simp_all add: lease_states_def)

interpretation lease_state_enum: str_enum lease_states lease_state_value
  by (unfold_locales, rule in_lease_states, simp add: lease_states_def)

lemma in_evidence_kinds: "x \<in> set evidence_kinds"
  by (cases x) (simp_all add: evidence_kinds_def)

interpretation evidence_kind_enum: str_enum evidence_kinds evidence_kind_value
  by (unfold_locales, rule in_evidence_kinds, simp add: evidence_kinds_def)

lemma in_finding_origins: "x \<in> set finding_origins"
  by (cases x) (simp_all add: finding_origins_def)

interpretation finding_origin_enum: str_enum finding_origins finding_origin_value
  by (unfold_locales, rule in_finding_origins, simp add: finding_origins_def)

lemma in_effect_kinds: "x \<in> set effect_kinds"
  by (cases x) (simp_all add: effect_kinds_def)

interpretation effect_kind_enum: str_enum effect_kinds effect_kind_value
  by (unfold_locales, rule in_effect_kinds, simp add: effect_kinds_def)

lemma in_effect_states: "x \<in> set effect_states"
  by (cases x) (simp_all add: effect_states_def)

interpretation effect_state_enum: str_enum effect_states effect_state_value
  by (unfold_locales, rule in_effect_states, simp add: effect_states_def)

lemma in_cancellation_states: "x \<in> set cancellation_states"
  by (cases x) (simp_all add: cancellation_states_def)

interpretation cancellation_state_enum: str_enum cancellation_states cancellation_state_value
  by (unfold_locales, rule in_cancellation_states, simp add: cancellation_states_def)

lemma in_budget_tokens: "x \<in> set budget_tokens"
  by (cases x) (simp_all add: budget_tokens_def)

interpretation budget_token_enum: str_enum budget_tokens budget_token_value
  by (unfold_locales, rule in_budget_tokens, simp add: budget_tokens_def)

lemma in_event_types: "x \<in> set event_types"
  by (cases x) (simp_all add: event_types_def)

interpretation event_type_enum: str_enum event_types event_type_value
  by (unfold_locales, rule in_event_types, simp add: event_types_def)

lemmas enum_of_values [simp] =
  campaign_mode_enum.of_value [where cls = "''CampaignMode''", folded campaign_mode_of_def]
  objective_kind_enum.of_value [where cls = "''ObjectiveKind''", folded objective_kind_of_def]
  campaign_state_enum.of_value [where cls = "''CampaignState''", folded campaign_state_of_def]
  node_state_enum.of_value [where cls = "''NodeState''", folded node_state_of_def]
  actor_role_enum.of_value [where cls = "''ActorRole''", folded actor_role_of_def]
  lease_state_enum.of_value [where cls = "''LeaseState''", folded lease_state_of_def]
  evidence_kind_enum.of_value [where cls = "''EvidenceKind''", folded evidence_kind_of_def]
  finding_origin_enum.of_value [where cls = "''FindingOrigin''", folded finding_origin_of_def]
  effect_kind_enum.of_value [where cls = "''EffectKind''", folded effect_kind_of_def]
  effect_state_enum.of_value [where cls = "''EffectState''", folded effect_state_of_def]
  cancellation_state_enum.of_value [where cls = "''CancellationState''", folded cancellation_state_of_def]
  budget_token_enum.of_value [where cls = "''BudgetToken''", folded budget_token_of_def]
  event_type_enum.of_value [where cls = "''EventType''", folded event_type_of_def]

lemmas enum_of_Inr =
  campaign_mode_enum.of_Inr [where cls = "''CampaignMode''", folded campaign_mode_of_def]
  objective_kind_enum.of_Inr [where cls = "''ObjectiveKind''", folded objective_kind_of_def]
  campaign_state_enum.of_Inr [where cls = "''CampaignState''", folded campaign_state_of_def]
  node_state_enum.of_Inr [where cls = "''NodeState''", folded node_state_of_def]
  actor_role_enum.of_Inr [where cls = "''ActorRole''", folded actor_role_of_def]
  lease_state_enum.of_Inr [where cls = "''LeaseState''", folded lease_state_of_def]
  evidence_kind_enum.of_Inr [where cls = "''EvidenceKind''", folded evidence_kind_of_def]
  finding_origin_enum.of_Inr [where cls = "''FindingOrigin''", folded finding_origin_of_def]
  effect_kind_enum.of_Inr [where cls = "''EffectKind''", folded effect_kind_of_def]
  effect_state_enum.of_Inr [where cls = "''EffectState''", folded effect_state_of_def]
  cancellation_state_enum.of_Inr [where cls = "''CancellationState''", folded cancellation_state_of_def]
  budget_token_enum.of_Inr [where cls = "''BudgetToken''", folded budget_token_of_def]
  event_type_enum.of_Inr [where cls = "''EventType''", folded event_type_of_def]

lemmas enum_value_inject [simp] =
  campaign_mode_enum.value_inject
  objective_kind_enum.value_inject
  campaign_state_enum.value_inject
  node_state_enum.value_inject
  actor_role_enum.value_inject
  lease_state_enum.value_inject
  evidence_kind_enum.value_inject
  finding_origin_enum.value_inject
  effect_kind_enum.value_inject
  effect_state_enum.value_inject
  cancellation_state_enum.value_inject
  budget_token_enum.value_inject
  event_type_enum.value_inject

end
