(* ===== verification/Doc_Fields.thy ===== *)
theory Doc_Fields
  imports Campaign_Types
begin

text \<open>
  How the \<open>from_dict\<close> constructors of model.py read the fields of a document, and the
  interface of a class that is written with \<open>to_dict\<close> and read with \<open>from_dict\<close>.
  The locale \<open>document_codec\<close> promises that reading inverts writing up to the
  normal form of JSON; it yields the round trip through the stored text and the injectivity
  of the stored text.  Every serialised class of the model interprets it.
\<close>

section \<open>Reading fields\<close>

text \<open>\<open>str(value[k])\<close>, \<open>int(value[k])\<close>\<close>

definition item_str :: "pyval \<Rightarrow> string \<Rightarrow> string res" where
  "item_str v k = bindE (py_item v k) (\<lambda>x. Inr (py_str x))"

definition item_int :: "pyval \<Rightarrow> string \<Rightarrow> int res" where
  "item_int v k = bindE (py_item v k) py_int"

text \<open>\<open>str(value.get(k, d))\<close>, \<open>int(value.get(k, d))\<close>\<close>

definition get_str :: "pyval \<Rightarrow> string \<Rightarrow> string \<Rightarrow> string res" where
  "get_str v k d = bindE (py_get v k (PStr d)) (\<lambda>x. Inr (py_str x))"

definition get_int :: "pyval \<Rightarrow> string \<Rightarrow> int \<Rightarrow> int res" where
  "get_int v k d = bindE (py_get v k (PInt d)) py_int"

text \<open>\<open>str(value[k]) if value.get(k) is not None else None\<close>, the same for \<open>int\<close>,
  and \<open>str(value[k]) if value.get(k) else None\<close>\<close>

definition opt_item_str :: "pyval \<Rightarrow> string \<Rightarrow> string option res" where
  "opt_item_str v k =
     bindE (py_get v k PNone) (\<lambda>x. if x = PNone then Inr None else Inr (Some (py_str x)))"

definition opt_item_int :: "pyval \<Rightarrow> string \<Rightarrow> int option res" where
  "opt_item_int v k =
     bindE (py_get v k PNone) (\<lambda>x. if x = PNone then Inr None else bindE (py_int x) (\<lambda>i. Inr (Some i)))"

definition truthy_item_str :: "pyval \<Rightarrow> string \<Rightarrow> string option res" where
  "truthy_item_str v k =
     bindE (py_get v k PNone) (\<lambda>x. if py_truthy x then Inr (Some (py_str x)) else Inr None)"

text \<open>\<open>tuple(value.get(k, ()))\<close>, \<open>tuple(str(item) for item in value.get(k, ()))\<close> and
  \<open>tuple(f(item) for item in value.get(k, ()))\<close>\<close>

definition get_tuple :: "pyval \<Rightarrow> string \<Rightarrow> pyval list res" where
  "get_tuple v k = bindE (py_get v k (PTuple [])) py_iter"

definition get_strs :: "pyval \<Rightarrow> string \<Rightarrow> string list res" where
  "get_strs v k = bindE (get_tuple v k) (\<lambda>xs. Inr (map py_str xs))"

definition get_list :: "(pyval \<Rightarrow> 'a res) \<Rightarrow> pyval \<Rightarrow> string \<Rightarrow> 'a list res" where
  "get_list f v k = bindE (get_tuple v k) (mapE f)"

definition item_list :: "(pyval \<Rightarrow> 'a res) \<Rightarrow> pyval \<Rightarrow> string \<Rightarrow> 'a list res" where
  "item_list f v k = bindE (bindE (py_item v k) py_iter) (mapE f)"

lemmas field_defs = item_str_def item_int_def get_str_def get_int_def opt_item_str_def
  opt_item_int_def truthy_item_str_def get_tuple_def get_strs_def get_list_def item_list_def

section \<open>Nonempty text\<close>

text \<open>\<open>_nonempty\<close>: the text \<open>str(value or "").strip()\<close>, which must not be empty.
  \<open>named\<close> is the guard for a field that is a string already.\<close>

definition nonempty :: "pyval \<Rightarrow> string \<Rightarrow> string res" where
  "nonempty v name =
     (let text = py_strip (if py_truthy v then py_str v else [])
      in if text = [] then Inl (ModelValidationError (name @ '' must not be empty'')) else Inr text)"

definition named :: "string \<Rightarrow> string \<Rightarrow> bool \<times> error" where
  "named s name = (py_strip s \<noteq> [], ModelValidationError (name @ '' must not be empty''))"

lemma named_fst [simp]: "fst (named s name) \<longleftrightarrow> py_strip s \<noteq> []"
  by (simp add: named_def)

lemma nonempty_str: "nonempty (PStr s) name = requireAll [named s name] (Inr (py_strip s))"
  by (simp add: nonempty_def named_def requireE_def Let_def)

section \<open>Looking fields up in the normal form of a document\<close>

text \<open>Only the keys and their values matter, not the order in which a document lists them.\<close>

definition doc_fields :: "pydict \<Rightarrow> pyval \<Rightarrow> bool" where
  "doc_fields d v \<longleftrightarrow> distinct (map fst d) \<and> v = json_norm (PDict d)"

lemma fields_lookup:
  assumes "doc_fields d v"
  shows "\<exists>e. as_mapping v = Some e \<and> (\<forall>k. map_of e k = map_option json_norm (map_of d k))"
proof -
  let ?e = "sort_key fst (map (\<lambda>(k, v). (k, json_norm v)) d)"
  have "distinct (map fst (map (\<lambda>(k, v). (k, json_norm v)) d))"
    using assms by (simp add: doc_fields_def comp_def split_def)
  then have "map_of ?e k = map_option json_norm (map_of d k)" for k
    by (simp only: map_of_sort_key map_of_map_snd)
  moreover have "as_mapping v = Some ?e" using assms by (simp add: doc_fields_def)
  ultimately show ?thesis by blast
qed

lemma fields_py_item:
  assumes "doc_fields d v"
  shows "py_item v k = (case map_of d k of Some x \<Rightarrow> Inr (json_norm x) | None \<Rightarrow> Inl (KeyError (repr_str k)))"
  using fields_lookup [OF assms] by (auto simp: py_item_def split: option.splits)

lemma fields_py_get:
  assumes "doc_fields d v"
  shows "py_get v k x = Inr (case map_of d k of Some y \<Rightarrow> json_norm y | None \<Rightarrow> x)"
  using fields_lookup [OF assms] by (auto simp: py_get_def dict_get_def split: option.splits)

lemma fields_mapping: "doc_fields d v \<Longrightarrow> is_mapping v"
  using fields_lookup [of d v] by (auto simp: is_mapping_def)

lemma json_norm_atoms [simp]:
  "json_norm (py_opt_str x) = py_opt_str x" "json_norm (py_opt_int i) = py_opt_int i"
  by (auto simp: py_opt_str_def py_opt_int_def split: option.splits)

lemma map_json_norm_PStr [simp]: "map json_norm (map PStr xs) = map PStr xs"
  by simp

lemma map_py_str_PStr [simp]: "map py_str (map PStr xs) = xs"
  by (simp add: comp_def)

section \<open>Reading fields that were written from the model\<close>

text \<open>A payload is stored frozen; an optional text that the readers test for truth must not
  be the empty text, which they would read as absent.\<close>

definition frozen :: "pyval \<Rightarrow> bool" where
  "frozen v \<longleftrightarrow> py_freeze v = v \<and> wf_py v"

definition kept_text :: "string option \<Rightarrow> bool" where
  "kept_text x \<longleftrightarrow> x \<noteq> Some []"

lemma doc_fieldsI: "distinct (map fst d) \<Longrightarrow> doc_fields d (json_norm (PDict d))"
  by (simp add: doc_fields_def)

lemma freeze_read_back [simp]: "frozen v \<Longrightarrow> py_freeze (json_norm v) = v"
  by (simp add: frozen_def)

lemma frozen_wf: "frozen v \<Longrightarrow> wf_py v"
  by (simp add: frozen_def)

lemma truthy_kept [simp]:
  "kept_text x \<Longrightarrow> (if py_truthy (py_opt_str x) then Inr (Some (py_str (py_opt_str x))) else Inr None) = (Inr x :: string option res)"
  by (auto simp: kept_text_def py_opt_str_def split: option.splits)

lemma opt_str_kept [simp]:
  "(if py_opt_str x = PNone then Inr None else Inr (Some (py_str (py_opt_str x)))) = (Inr x :: string option res)"
  by (auto simp: py_opt_str_def split: option.splits)

lemma opt_int_kept [simp]:
  "(if py_opt_int x = PNone then Inr None else bindE (py_int (py_opt_int x)) (\<lambda>i. Inr (Some i))) = (Inr x :: int option res)"
  by (auto simp: py_opt_int_def split: option.splits)

lemma json_norm_none [simp]: "json_norm v = PNone \<longleftrightarrow> v = PNone"
  by (cases v) auto

lemma wf_py_opt [simp]: "wf_py (py_opt_str x)" "wf_py (py_opt_int i)"
  by (auto simp: py_opt_str_def py_opt_int_def split: option.splits)

lemma is_mapping_norm [simp]: "is_mapping (json_norm v) = is_mapping v" "is_mapping (py_freeze v) = is_mapping v"
  by (cases v; simp add: is_mapping_def)+

section \<open>Classes with a document form\<close>

locale document_codec =
  fixes enc :: "'a \<Rightarrow> pyval" and dec :: "pyval \<Rightarrow> 'a res" and valid :: "'a \<Rightarrow> bool"
  assumes dec_enc: "valid x \<Longrightarrow> dec (json_norm (enc x)) = Inr x"
    and wf_enc: "valid x \<Longrightarrow> wf_py (enc x)"
begin

lemma dec_list:
  assumes "\<And>x. x \<in> set xs \<Longrightarrow> valid x"
  shows "mapE dec (map json_norm (map enc xs)) = Inr xs"
  using assms by (induction xs) (simp_all add: dec_enc)

lemma text_roundtrip:
  assumes "valid x"
  shows "\<exists>v. json_loads (canonical_json (enc x)) = Some v \<and> dec v = Inr x"
  using json_loads_canonical [OF wf_enc [OF assms]] dec_enc [OF assms] by blast

lemma text_inject:
  assumes "valid x" "valid y" "canonical_json (enc x) = canonical_json (enc y)"
  shows "x = y"
proof -
  have eq: "json_norm (enc x) = json_norm (enc y)"
    by (rule canonical_json_inject [OF wf_enc [OF assms(1)] wf_enc [OF assms(2)] assms(3)])
  have "Inr x = (Inr y :: 'a res)"
    using dec_enc [OF assms(1)] dec_enc [OF assms(2)] unfolding eq by (rule trans [OF sym])
  then show ?thesis by (rule Inr_inject)
qed

end

end
