(* ===== verification/Base64.thy ===== *)
theory Base64
  imports Prelude
begin

text \<open>
  \<open>base64.b64encode\<close> and \<open>base64.b64decode(text, validate=True)\<close> of Python 3.11 and
  3.12, which model.py and store.py apply to verification keys and signatures.  The decoder
  accepts superfluous padding after complete groups and nonzero unused bits in the last
  character, so it is not injective; the encoder is, and decoding inverts it.
  Bytes are natural numbers below 256.
\<close>

definition b64_char :: "nat \<Rightarrow> char" where
  "b64_char n =
     (if n < 26 then char_of (65 + n) else if n < 52 then char_of (71 + n)
      else if n < 62 then char_of (n - 4) else if n = 62 then CHR ''+'' else CHR ''/'')"

definition b64_value :: "char \<Rightarrow> nat option" where
  "b64_value c =
     (let n = (of_char c :: nat) in
      if 65 \<le> n \<and> n \<le> 90 then Some (n - 65)
      else if 97 \<le> n \<and> n \<le> 122 then Some (n - 71)
      else if 48 \<le> n \<and> n \<le> 57 then Some (n + 4)
      else if n = 43 then Some 62 else if n = 47 then Some 63 else None)"

fun b64_encode :: "nat list \<Rightarrow> string" where
  "b64_encode (x # y # z # bs) =
     [b64_char (x div 4), b64_char (x mod 4 * 16 + y div 16),
      b64_char (y mod 16 * 4 + z div 64), b64_char (z mod 64)] @ b64_encode bs"
| "b64_encode [x, y] =
     [b64_char (x div 4), b64_char (x mod 4 * 16 + y div 16), b64_char (y mod 16 * 4), CHR ''='']"
| "b64_encode [x] = [b64_char (x div 4), b64_char (x mod 4 * 16), CHR ''='', CHR ''='']"
| "b64_encode [] = []"

fun b64_bytes :: "nat list \<Rightarrow> nat list" where
  "b64_bytes (a # b # c # d # vs) =
     [a * 4 + b div 16, b mod 16 * 16 + c div 4, c mod 4 * 64 + d] @ b64_bytes vs"
| "b64_bytes [a, b, c] = [a * 4 + b div 16, b mod 16 * 16 + c div 4]"
| "b64_bytes [a, b] = [a * 4 + b div 16]"
| "b64_bytes _ = []"

definition b64_decode :: "string \<Rightarrow> nat list option" where
  "b64_decode s =
     (let body = takeWhile (\<lambda>c. c \<noteq> CHR ''='') s;
          pads = dropWhile (\<lambda>c. c \<noteq> CHR ''='') s;
          n = length body; p = length pads
      in if list_all (\<lambda>c. b64_value c \<noteq> None) body \<and> list_all (\<lambda>c. c = CHR ''='') pads
            \<and> (n mod 4 = 0 \<and> (p = 0 \<or> 0 < n) \<or> n mod 4 = 2 \<and> p = 2 \<or> n mod 4 = 3 \<and> p = 1)
         then Some (b64_bytes (map (\<lambda>c. the (b64_value c)) body)) else None)"

lemma b64_value_char: "n < 64 \<Longrightarrow> b64_value (b64_char n) = Some n"
  by (auto simp: b64_value_def b64_char_def Let_def)

lemma b64_char_not_pad: "n < 64 \<Longrightarrow> b64_char n \<noteq> CHR ''=''"
  using b64_value_char [of n] by (auto simp: b64_value_def)

lemma pack_unpack:
  fixes a b k :: nat
  assumes "b < k"
  shows "(a * k + b) div k = a" "(a * k + b) mod k = b"
  using assms by simp_all

lemma sextets:
  fixes x y z :: nat
  assumes "y < 256" "z < 256"
  shows "x mod 4 * 16 + y div 16 < 64 \<and> y mod 16 * 4 + z div 64 < 64
    \<and> x div 4 * 4 + (x mod 4 * 16 + y div 16) div 16 = x
    \<and> (x mod 4 * 16 + y div 16) mod 16 * 16 + (y mod 16 * 4 + z div 64) div 4 = y
    \<and> (y mod 16 * 4 + z div 64) mod 4 * 64 + z mod 64 = z"
proof -
  have y: "y div 16 < 16" and z: "z div 64 < 4" using assms by (simp_all add: less_mult_imp_div_less)
  have m: "x mod 4 \<le> 3" "y mod 16 \<le> 15" by (simp_all add: less_Suc_eq_le [symmetric])
  have "x mod 4 * 16 + y div 16 < 64" "y mod 16 * 4 + z div 64 < 64" using y z m by linarith+
  then show ?thesis
    by (simp only: pack_unpack [OF y] pack_unpack [OF z] div_mult_mod_eq simp_thms)
qed

text \<open>The text of the encoder is a body of alphabet characters followed by its padding.\<close>

fun b64_body :: "nat list \<Rightarrow> nat list" where
  "b64_body (x # y # z # bs) =
     [x div 4, x mod 4 * 16 + y div 16, y mod 16 * 4 + z div 64, z mod 64] @ b64_body bs"
| "b64_body [x, y] = [x div 4, x mod 4 * 16 + y div 16, y mod 16 * 4]"
| "b64_body [x] = [x div 4, x mod 4 * 16]"
| "b64_body [] = []"

definition b64_padding :: "nat list \<Rightarrow> string" where
  "b64_padding bs = replicate (if length bs mod 3 = 0 then 0 else 3 - length bs mod 3) (CHR ''='')"

lemma b64_encode_body: "b64_encode bs = map b64_char (b64_body bs) @ b64_padding bs"
proof (induction bs rule: b64_encode.induct)
  case (1 x y z bs)
  have "length (x # y # z # bs) mod 3 = length bs mod 3" by simp
  with 1 show ?case by (simp only: b64_padding_def b64_encode.simps b64_body.simps list.map append.simps)
qed (simp_all add: b64_padding_def numeral_2_eq_2)

lemma b64_body_less:
  assumes "\<And>b. b \<in> set bs \<Longrightarrow> b < 256" and "v \<in> set (b64_body bs)"
  shows "v < 64"
  using assms
proof (induction bs rule: b64_body.induct)
  case (1 x y z bs)
  then have "x < 256" "y < 256" "z < 256" by auto
  with sextets [of y z x] have "x div 4 < 64" "x mod 4 * 16 + y div 16 < 64"
    "y mod 16 * 4 + z div 64 < 64" "z mod 64 < 64" by (simp_all add: less_mult_imp_div_less)
  with 1 show ?case by auto
next
  case (2 x y)
  then have "x < 256" "y < 256" by auto
  with sextets [of y 0 x] have "x div 4 < 64" "x mod 4 * 16 + y div 16 < 64" "y mod 16 * 4 < 64"
    by (simp_all add: less_mult_imp_div_less)
  with 2 show ?case by auto
next
  case (3 x)
  then have "x < 256" by auto
  with sextets [of 0 0 x] have "x div 4 < 64" "x mod 4 * 16 < 64"
    by (simp_all add: less_mult_imp_div_less)
  with 3 show ?case by auto
qed simp

lemma b64_bytes_body:
  assumes "\<And>b. b \<in> set bs \<Longrightarrow> b < 256"
  shows "b64_bytes (b64_body bs) = bs"
  using assms
proof (induction bs rule: b64_body.induct)
  case (1 x y z bs)
  then have "y < 256" "z < 256" by auto
  note e = sextets [OF this, of x, THEN conjunct2, THEN conjunct2]
  have "b64_bytes (b64_body bs) = bs" using 1 by auto
  then show ?case
    by (simp only: b64_body.simps b64_bytes.simps append_Cons append_Nil
        e [THEN conjunct1] e [THEN conjunct2, THEN conjunct1] e [THEN conjunct2, THEN conjunct2])
next
  case (2 x y)
  then have "y < 256" "(0::nat) < 256" by auto
  note e = sextets [OF this, of x, THEN conjunct2, THEN conjunct2]
  have "y mod 16 * 4 div 4 = y mod 16" by simp
  moreover have "(0::nat) div 64 = 0" by simp
  ultimately show ?case
    using e [THEN conjunct1] e [THEN conjunct2, THEN conjunct1]
    by (simp only: b64_body.simps b64_bytes.simps append_Cons append_Nil add_0_right)
next
  case (3 x)
  have "x div 4 * 4 + x mod 4 * 16 div 16 = x" by (simp add: div_mult_mod_eq)
  then show ?case by (simp only: b64_body.simps b64_bytes.simps)
qed simp

lemma b64_body_length:
  "length (b64_body bs) mod 4 = (if length bs mod 3 = 0 then 0 else length bs mod 3 + 1)"
proof (induction bs rule: b64_body.induct)
  case (1 x y z bs)
  have "length (x # y # z # bs) mod 3 = length bs mod 3" by simp
  moreover have "length (b64_body (x # y # z # bs)) mod 4 = length (b64_body bs) mod 4" by simp
  ultimately show ?case using 1 by (simp only:)
qed simp_all

lemma b64_decode_encode:
  assumes "\<And>b. b \<in> set bs \<Longrightarrow> b < 256"
  shows "b64_decode (b64_encode bs) = Some bs"
proof -
  let ?body = "map b64_char (b64_body bs)"
  have less: "v < 64" if "v \<in> set (b64_body bs)" for v using b64_body_less [OF assms that] .
  have nopad: "c \<noteq> CHR ''=''" if "c \<in> set ?body" for c
    using that less b64_char_not_pad by auto
  have tw: "takeWhile (\<lambda>c. c \<noteq> CHR ''='') (b64_encode bs) = ?body"
    and dw: "dropWhile (\<lambda>c. c \<noteq> CHR ''='') (b64_encode bs) = b64_padding bs"
    using nopad by (simp_all add: b64_encode_body b64_padding_def takeWhile_append dropWhile_append)
  have vals: "map (\<lambda>c. the (b64_value c)) ?body = b64_body bs"
    using less by (auto simp: b64_value_char map_idI)
  have ok: "list_all (\<lambda>c. b64_value c \<noteq> None) ?body"
    using less by (auto simp: list_all_iff b64_value_char)
  have pads: "list_all (\<lambda>c. c = CHR ''='') (b64_padding bs)"
    by (simp add: b64_padding_def list_all_iff)
  have m: "length bs mod 3 = 0 \<or> length bs mod 3 = 1 \<or> length bs mod 3 = 2" by presburger
  show ?thesis
    using m ok pads b64_body_length [of bs] b64_bytes_body [OF assms]
    unfolding b64_decode_def Let_def tw dw vals
    by (auto simp: b64_padding_def)
qed

end
