(* ===== verification/Campaign_Spec.thy ===== *)
theory Campaign_Spec
  imports Doc_Fields Base64
begin

text \<open>
  The immutable campaign contract of model.py: \<open>ValidationCommand\<close> with the
  recognition of an approved test failure, \<open>AttemptBudget\<close>, \<open>NodeSpec\<close> and
  \<open>CampaignSpec\<close>, each as a record with its \<open>__post_init__\<close> (which returns the
  normalised object or raises), its \<open>from_dict\<close> and its \<open>to_dict\<close>, and the
  depth-first search that admits acyclic dependency graphs only.

  \<open>resolve\<close> stands for \<open>os.path.normcase(str(Path(p).expanduser().resolve(strict=False)))\<close>,
  which consults the file system: every definition that needs it takes it as an argument.
\<close>

section \<open>Validation commands\<close>

record validation_command =
  vc_command_id :: string
  vc_executable :: string
  vc_arguments :: "string list"
  vc_working_directory :: string
  vc_environment_allowlist :: "string list"
  vc_timeout_seconds :: int
  vc_output_limit_bytes :: int
  vc_expected_worktree_condition :: string
  vc_expected_status_sha256 :: "string option"
  vc_required_exit_code :: int
  vc_correction_policy :: pyval

definition hex64 :: "string \<Rightarrow> bool" where
  "hex64 s \<longleftrightarrow> length s = 64 \<and> list_all hex_lower s"

text \<open>\<open>arguments[i + 1:i + 2]\<close> for the first index \<open>i\<close> of an element.\<close>

fun after_first :: "'a \<Rightarrow> 'a list \<Rightarrow> 'a list" where
  "after_first x [] = []"
| "after_first x (y # ys) = (if y = x then take 1 ys else after_first x ys)"

definition correction_policy_ok :: "validation_command \<Rightarrow> bool" where
  "correction_policy_ok c =
     (case as_mapping (vc_correction_policy c) of
        None \<Rightarrow> False
      | Some p \<Rightarrow>
          set (map fst p) = {''adapter'', ''expectation_id'', ''test_id''}
          \<and> dict_get p ''adapter'' PNone = PStr ''unittest''
          \<and> (\<forall>k \<in> {''expectation_id'', ''test_id''}.
               case dict_get p k PNone of PStr s \<Rightarrow> py_strip s \<noteq> [] | _ \<Rightarrow> False)
          \<and> vc_required_exit_code c = 0
          \<and> vc_expected_worktree_condition c = ''CLEAN''
          \<and> ''-m'' \<in> set (vc_arguments c)
          \<and> after_first ''-m'' (vc_arguments c) = [''unittest''])"

definition validation_command_post_init :: "validation_command \<Rightarrow> validation_command res" where
  "validation_command_post_init c =
     requireAll
       [named (vc_command_id c) ''command_id'',
        named (vc_executable c) ''executable'',
        named (vc_working_directory c) ''working_directory'',
        (vc_expected_worktree_condition c \<in> {''CLEAN'', ''EXACT_STATUS''},
         ModelValidationError ''expected_worktree_condition must be CLEAN or EXACT_STATUS'')]
     (bindE
       (if vc_expected_worktree_condition c = ''EXACT_STATUS'' then
          let digest = casefold (case vc_expected_status_sha256 c of Some s \<Rightarrow> s | None \<Rightarrow> [])
          in requireE (hex64 digest)
               (ModelValidationError ''EXACT_STATUS validation requires expected_status_sha256'')
               (Inr (c\<lparr>vc_expected_status_sha256 := Some digest\<rparr>))
        else
          requireE (vc_expected_status_sha256 c = None)
            (ModelValidationError ''CLEAN validation must not declare expected_status_sha256'')
            (Inr c))
     (\<lambda>c1. requireAll
       [(0 < vc_timeout_seconds c1 \<and> 0 < vc_output_limit_bytes c1,
         ModelValidationError ''validation timeout and output limit must be positive''),
        (distinct (vc_environment_allowlist c1),
         ModelValidationError ''environment allowlist contains duplicates'')]
     (if vc_correction_policy c1 = PNone then Inr c1
      else requireE (correction_policy_ok c1)
        (ModelValidationError ''correction policy requires an exact unittest expectation and clean passing command'')
        (Inr (c1\<lparr>vc_correction_policy := py_freeze (vc_correction_policy c1)\<rparr>)))))"

definition validation_command_from_dict :: "pyval \<Rightarrow> validation_command res" where
  "validation_command_from_dict v =
     bindE (item_str v ''command_id'') (\<lambda>command_id.
     bindE (item_str v ''executable'') (\<lambda>executable.
     bindE (get_strs v ''arguments'') (\<lambda>arguments.
     bindE (item_str v ''working_directory'') (\<lambda>working_directory.
     bindE (get_strs v ''environment_allowlist'') (\<lambda>environment_allowlist.
     bindE (item_int v ''timeout_seconds'') (\<lambda>timeout_seconds.
     bindE (item_int v ''output_limit_bytes'') (\<lambda>output_limit_bytes.
     bindE (item_str v ''expected_worktree_condition'') (\<lambda>expected_worktree_condition.
     bindE (opt_item_str v ''expected_status_sha256'') (\<lambda>expected_status_sha256.
     bindE (get_int v ''required_exit_code'' 0) (\<lambda>required_exit_code.
     bindE (py_get v ''correction_policy'' PNone) (\<lambda>correction_policy.
     validation_command_post_init
       \<lparr>vc_command_id = command_id, vc_executable = executable, vc_arguments = arguments,
        vc_working_directory = working_directory,
        vc_environment_allowlist = environment_allowlist,
        vc_timeout_seconds = timeout_seconds, vc_output_limit_bytes = output_limit_bytes,
        vc_expected_worktree_condition = expected_worktree_condition,
        vc_expected_status_sha256 = expected_status_sha256,
        vc_required_exit_code = required_exit_code,
        vc_correction_policy = correction_policy\<rparr>)))))))))))"

definition validation_command_to_dict :: "validation_command \<Rightarrow> pyval" where
  "validation_command_to_dict c = PDict
     ([(''command_id'', PStr (vc_command_id c)),
       (''executable'', PStr (vc_executable c)),
       (''arguments'', PList (map PStr (vc_arguments c))),
       (''working_directory'', PStr (vc_working_directory c)),
       (''environment_allowlist'', PList (map PStr (vc_environment_allowlist c))),
       (''timeout_seconds'', PInt (vc_timeout_seconds c)),
       (''output_limit_bytes'', PInt (vc_output_limit_bytes c)),
       (''expected_worktree_condition'', PStr (vc_expected_worktree_condition c)),
       (''expected_status_sha256'', py_opt_str (vc_expected_status_sha256 c)),
       (''required_exit_code'', PInt (vc_required_exit_code c))]
      @ (if vc_correction_policy c = PNone then []
         else [(''correction_policy'', py_primitive (vc_correction_policy c))]))"

section \<open>Recognising an approved test failure\<close>

text \<open>\<open>stderr.replace("\r\n", "\n").replace("\r", "\n")\<close>\<close>

fun normalize_newlines :: "string \<Rightarrow> string" where
  "normalize_newlines [] = []"
| "normalize_newlines [c] = (if c = CHR 0x0D then [CHR 0x0A] else [c])"
| "normalize_newlines (c # d # cs) =
     (if c = CHR 0x0D then
        (if d = CHR 0x0A then CHR 0x0A # normalize_newlines cs
         else CHR 0x0A # normalize_newlines (d # cs))
      else c # normalize_newlines (d # cs))"

definition starts_with :: "string \<Rightarrow> string \<Rightarrow> bool" where
  "starts_with p s \<longleftrightarrow> take (length p) s = p"

definition ends_with :: "string \<Rightarrow> string \<Rightarrow> bool" where
  "ends_with p s \<longleftrightarrow> starts_with (rev p) (rev s)"

fun contains :: "string \<Rightarrow> string \<Rightarrow> bool" where
  "contains p [] = (p = [])"
| "contains p (c # cs) = (starts_with p (c # cs) \<or> contains p cs)"

text \<open>One line of the regular expression \<open>^FAIL: (\S+) \(([^()\r\n]+)\)$\<close>: the second group.\<close>

definition fail_line :: "string \<Rightarrow> string option" where
  "fail_line l =
     (if \<not> starts_with ''FAIL: '' l then None
      else let r = drop 6 l;
               name = takeWhile (\<lambda>c. \<not> py_space c) r;
               rest = dropWhile (\<lambda>c. \<not> py_space c) r;
               inner = butlast (drop 2 rest)
           in if name \<noteq> [] \<and> starts_with '' ('' rest \<and> drop 2 rest \<noteq> [] \<and> last (drop 2 rest) = CHR '')''
                 \<and> inner \<noteq> [] \<and> list_all (\<lambda>c. c \<notin> {CHR ''('', CHR '')'', CHR 0x0D}) inner
              then Some inner else None)"

text \<open>One line of \<open>^Ran [1-9][0-9]* tests? in [0-9.]+s$\<close>.\<close>

definition ran_line :: "string \<Rightarrow> bool" where
  "ran_line l =
     (starts_with ''Ran '' l \<and>
      (let r = drop 4 l;
           count = takeWhile is_digit r;
           r1 = dropWhile is_digit r;
           r2 = (if starts_with '' tests in '' r1 then Some (drop 10 r1)
                 else if starts_with '' test in '' r1 then Some (drop 9 r1) else None)
       in count \<noteq> [] \<and> hd count \<noteq> CHR ''0'' \<and>
          (case r2 of None \<Rightarrow> False
           | Some t \<Rightarrow> t \<noteq> [] \<and> last t = CHR ''s'' \<and> butlast t \<noteq> [] \<and>
               list_all (\<lambda>c. is_digit c \<or> c = CHR ''.'') (butlast t))))"

text \<open>One line of \<open>^ERROR:|^FAILED .*errors=\<close>.\<close>

definition error_line :: "string \<Rightarrow> bool" where
  "error_line l \<longleftrightarrow> starts_with ''ERROR:'' l \<or> starts_with ''FAILED '' l \<and> contains ''errors='' (drop 7 l)"

definition unittest_failure :: "string \<Rightarrow> string \<Rightarrow> bool" where
  "unittest_failure test_id stderr =
     (let ls = split_on (CHR 0x0A) stderr;
          failures = filter (\<lambda>f. f \<noteq> None) (map fail_line ls)
      in failures = [Some test_id] \<and> (\<exists>l \<in> set ls. ran_line l)
         \<and> ends_with ''FAILED (failures=1)'' (py_rstrip stderr)
         \<and> \<not> (\<exists>l \<in> set ls. error_line l))"

definition recognizes_correction :: "validation_command \<Rightarrow> pyval \<Rightarrow> bool res" where
  "recognizes_correction c evidence =
     (case (as_mapping (vc_correction_policy c), as_mapping evidence) of
        (Some policy, Some ev) \<Rightarrow>
          let digest = dict_get ev ''evidence_sha256'' PNone;
              payload = dict_remove ''evidence_sha256'' ev;
              get = (\<lambda>k. dict_get payload k PNone);
              empty_status = PStr (sha256_hex []);
              stderr = normalize_newlines (py_str (dict_get payload ''stderr'' (PStr [])))
          in if py_eq (PStr (canonical_json_digest (PDict payload))) digest
                \<and> py_eq (get ''protocol_version'') (PStr ''ccos-validation-execution-v1'')
                \<and> py_eq (get ''execution_boundary'') (PStr ''READ_ONLY'')
                \<and> get ''passed'' = PBool False
                \<and> get ''exit_code'' = PInt 1
                \<and> py_eq (get ''required_exit_code'') (PInt 0)
                \<and> get ''timed_out'' = PBool False \<and> get ''output_limited'' = PBool False
                \<and> py_truthy (get ''candidate_head'')
                \<and> py_eq (get ''head_after'') (get ''candidate_head'')
             then bindE (py_iter (dict_get payload ''arguments'' (PTuple []))) (\<lambda>arguments.
               Inr (py_eq (PTuple arguments) (PTuple (map PStr (vc_arguments c)))
                 \<and> py_eq (get ''status_before_sha256'') empty_status
                 \<and> py_eq (get ''status_after_sha256'') empty_status
                 \<and> (case dict_get policy ''test_id'' PNone of PStr test_id \<Rightarrow> unittest_failure test_id stderr | _ \<Rightarrow> False)))
             else Inr False
      | _ \<Rightarrow> Inr False)"

section \<open>Attempt budgets\<close>

record attempt_budget =
  ab_token :: budget_token
  ab_limit :: int

definition attempt_budget_post_init :: "attempt_budget \<Rightarrow> attempt_budget res" where
  "attempt_budget_post_init b =
     requireE (0 \<le> ab_limit b) (ModelValidationError ''attempt budget limit must not be negative'') (Inr b)"

definition attempt_budget_from_dict :: "pyval \<Rightarrow> attempt_budget res" where
  "attempt_budget_from_dict v =
     bindE (py_item v ''token'') (\<lambda>t.
     bindE (budget_token_of t) (\<lambda>token.
     bindE (item_int v ''limit'') (\<lambda>limit.
     attempt_budget_post_init \<lparr>ab_token = token, ab_limit = limit\<rparr>)))"

definition attempt_budget_to_dict :: "attempt_budget \<Rightarrow> pyval" where
  "attempt_budget_to_dict b = PDict [(''token'', PStr (budget_token_value (ab_token b))), (''limit'', PInt (ab_limit b))]"


section \<open>Nodes of the dependency graph\<close>

record node_spec =
  nd_node_id :: string
  nd_objective :: string
  nd_dependencies :: "string list"
  nd_allowed_paths :: "string list"
  nd_validation_command_ids :: "string list"
  nd_deadline_utc :: "string option"
  nd_acceptance_scenarios :: "pyval list"
  nd_required_tools :: "pyval list"

text \<open>Members of a Python set: hashable values, compared with \<open>==\<close>.\<close>

fun hashable :: "pyval \<Rightarrow> bool" where
  "hashable (PTuple vs) = (\<forall>v \<in> set vs. hashable v)"
| "hashable (PList vs) = False"
| "hashable (PDict d) = False"
| "hashable (PProxy d) = False"
| "hashable v = True"

definition py_set :: "pyval list \<Rightarrow> pyval list res" where
  "py_set vs = requireE (list_all hashable vs) (TypeError ''unhashable type'') (Inr (map py_norm vs))"

definition relative_path :: "string \<Rightarrow> bool" where
  "relative_path path =
     (let parts = split_on (CHR ''/'') path
      in CHR 0x5C \<notin> set path \<and> CHR '':'' \<notin> set path
         \<and> list_all (\<lambda>p. p \<notin> {[], ''.'', ''..''}) parts
         \<and> casefold (hd parts) \<noteq> ''.git''
         \<and> list_all (\<lambda>c. c \<notin> set path) ''*?[]'')"

definition check_acceptance_source :: "pyval \<Rightarrow> unit res" where
  "check_acceptance_source source =
     requireE (is_mapping source) (ModelValidationError ''acceptance source must be an object'')
     (bindE (py_get source ''path'' PNone) (\<lambda>p.
      bindE (nonempty p ''acceptance source path'') (\<lambda>path.
      requireE (relative_path path)
        (ModelValidationError ''acceptance source path must be repository-relative'')
     (bindE (py_get source ''requirement_id'' PNone) (\<lambda>r.
      bindE (nonempty r ''requirement_id'') (\<lambda>_.
      bindE (get_str source ''sha256'' []) (\<lambda>digest.
      requireE (hex64 digest) (ModelValidationError ''acceptance source requires an exact SHA-256'')
     (bindE (py_get source ''section'' PNone) (\<lambda>sec.
      if sec = PNone then Inr ()
      else bindE (nonempty sec ''acceptance source section'') (\<lambda>_. Inr ()))))))))))"

text \<open>One round of the loop over the scenarios; the state is the set of identifiers seen.\<close>

definition check_scenario :: "string list \<Rightarrow> pyval \<Rightarrow> string list \<Rightarrow> string list res" where
  "check_scenario command_ids scenario identifiers =
     requireE (is_mapping scenario) (ModelValidationError ''acceptance scenario must be an object'')
     (bindE (py_get scenario ''scenario_id'' PNone) (\<lambda>i.
      bindE (nonempty i ''scenario_id'') (\<lambda>identifier.
      requireE (identifier \<notin> set identifiers)
        (ModelValidationError ''acceptance scenario identifiers must be unique'')
     (bindE (py_get scenario ''expectation'' PNone) (\<lambda>e.
      bindE (nonempty e ''acceptance expectation'') (\<lambda>_.
      bindE (py_get scenario ''validation_command_id'' PNone) (\<lambda>c.
      requireE (\<exists>x \<in> set command_ids. py_eq c (PStr x))
        (ModelValidationError ''acceptance scenario requires an admitted node command'')
     (bindE (py_get scenario ''sources'' PNone) (\<lambda>sources.
      case sources of
        PTuple (x # xs) \<Rightarrow>
          bindE (mapE check_acceptance_source (x # xs)) (\<lambda>_. Inr (identifier # identifiers))
      | _ \<Rightarrow> Inl (ModelValidationError ''acceptance scenario requires exact product sources''))))))))))"

definition node_spec_post_init :: "node_spec \<Rightarrow> node_spec res" where
  "node_spec_post_init n =
     requireAll
       [named (nd_node_id n) ''node_id'',
        named (nd_objective n) ''node objective'',
        (distinct (nd_dependencies n),
         ModelValidationError (''node '' @ nd_node_id n @ '' has duplicate dependencies'')),
        (distinct (nd_allowed_paths n),
         ModelValidationError (''node '' @ nd_node_id n @ '' has duplicate allowed paths''))]
     (let scenarios = map py_freeze (nd_acceptance_scenarios n)
      in bindE (foldE (check_scenario (nd_validation_command_ids n)) scenarios []) (\<lambda>_.
         bindE (py_set (nd_required_tools n)) (\<lambda>tools.
         requireE (distinct tools) (ModelValidationError ''required tools must be unique'')
        (bindE (mapE (\<lambda>tool. nonempty tool ''required tool'') (nd_required_tools n)) (\<lambda>_.
         Inr (n\<lparr>nd_acceptance_scenarios := scenarios\<rparr>))))))"

definition node_spec_from_dict :: "pyval \<Rightarrow> node_spec res" where
  "node_spec_from_dict v =
     bindE (py_get v ''requires_review'' (PBool True)) (\<lambda>requires_review.
     requireE (requires_review = PBool True)
       (ModelValidationError ''every campaign node requires the frozen review cohort'')
    (bindE (item_str v ''node_id'') (\<lambda>node_id.
     bindE (item_str v ''objective'') (\<lambda>objective.
     bindE (get_strs v ''dependencies'') (\<lambda>dependencies.
     bindE (get_strs v ''allowed_paths'') (\<lambda>allowed_paths.
     bindE (get_strs v ''validation_command_ids'') (\<lambda>validation_command_ids.
     bindE (truthy_item_str v ''deadline_utc'') (\<lambda>deadline_utc.
     bindE (get_tuple v ''acceptance_scenarios'') (\<lambda>acceptance_scenarios.
     bindE (get_tuple v ''required_tools'') (\<lambda>required_tools.
     node_spec_post_init
       \<lparr>nd_node_id = node_id, nd_objective = objective, nd_dependencies = dependencies,
        nd_allowed_paths = allowed_paths, nd_validation_command_ids = validation_command_ids,
        nd_deadline_utc = deadline_utc, nd_acceptance_scenarios = acceptance_scenarios,
        nd_required_tools = required_tools\<rparr>))))))))))"

definition node_spec_to_dict :: "node_spec \<Rightarrow> pyval" where
  "node_spec_to_dict n = PDict
     ([(''node_id'', PStr (nd_node_id n)),
       (''objective'', PStr (nd_objective n)),
       (''dependencies'', PList (map PStr (nd_dependencies n))),
       (''allowed_paths'', PList (map PStr (nd_allowed_paths n))),
       (''validation_command_ids'', PList (map PStr (nd_validation_command_ids n))),
       (''deadline_utc'', py_opt_str (nd_deadline_utc n))]
      @ (if nd_acceptance_scenarios n = [] then []
         else [(''acceptance_scenarios'', py_primitive (PTuple (nd_acceptance_scenarios n)))])
      @ (if nd_required_tools n = [] then []
         else [(''required_tools'', PList (nd_required_tools n))]))"

section \<open>The depth-first search over the dependency graph\<close>

text \<open>
  The local function \<open>visit\<close>.  The set \<open>visiting\<close> of the source is extended on entry
  and restored on return, so it is passed down; \<open>visited\<close> is threaded through.
  An identifier that is not a key of \<open>graph\<close> raises \<open>KeyError\<close>.
\<close>

function visit :: "(string \<times> string list) list \<Rightarrow> string list \<Rightarrow> string \<Rightarrow> string list \<Rightarrow> string list res" where
  "visit graph visiting node_id visited =
     (if node_id \<in> set visiting then Inl (ModelValidationError ''campaign graph must be acyclic'')
      else if node_id \<in> set visited then Inr visited
      else case map_of graph node_id of
        None \<Rightarrow> Inl (KeyError (repr_str node_id))
      | Some dependencies \<Rightarrow>
          bindE (foldE (visit graph (node_id # visiting)) dependencies visited)
            (\<lambda>visited'. Inr (node_id # visited')))"
  by pat_completeness auto
termination
proof (relation "measure (\<lambda>(graph, visiting, node_id, visited). card (fst ` set graph - set visiting))")
  fix graph :: "(string \<times> string list) list" and visiting node_id visited dependencies x u
  assume new: "node_id \<notin> set visiting" and deps: "map_of graph node_id = Some dependencies"
  have "node_id \<in> fst ` set graph" using deps by (metis map_of_eq_None_iff option.distinct(1))
  with new have "fst ` set graph - set (node_id # visiting) \<subset> fst ` set graph - set visiting" by auto
  then show "((graph, node_id # visiting, x, u), (graph, visiting, node_id, visited))
      \<in> measure (\<lambda>(graph, visiting, node_id, visited). card (fst ` set graph - set visiting))"
    by (simp add: psubset_card_mono)
qed simp

declare visit.simps [simp del]

definition check_acyclic :: "node_spec list \<Rightarrow> unit res" where
  "check_acyclic nodes =
     (let graph = map (\<lambda>n. (nd_node_id n, nd_dependencies n)) nodes
      in bindE (foldE (visit graph []) (sort (map fst graph)) []) (\<lambda>_. Inr ()))"


section \<open>The campaign specification\<close>

record campaign_spec =
  sp_campaign_id :: string
  sp_specification_revision :: int
  sp_specification_digest :: string
  sp_authority_epoch :: int
  sp_cancellation_epoch :: int
  sp_mode :: campaign_mode
  sp_objective :: string
  sp_objective_kind :: objective_kind
  sp_repository_remote :: string
  sp_git_root :: string
  sp_worktree :: string
  sp_branch :: string
  sp_base_sha :: string
  sp_allowed_paths :: "string list"
  sp_nodes :: "node_spec list"
  sp_required_validation_commands :: "validation_command list"
  sp_required_review_cohort :: "string list"
  sp_publication_authority :: pyval
  sp_attempt_budgets :: "attempt_budget list"
  sp_stop_conditions :: "string list"
  sp_installed_source_commit :: string
  sp_installed_bundle_digest :: string
  sp_install_transaction :: string
  sp_protocol_version :: string
  sp_schema_compatibility :: string
  sp_host_capability_probe_version :: string
  sp_autonomous_rank :: int
  sp_deadline_utc :: "string option"

definition PROTOCOL_VERSION :: string where
  "PROTOCOL_VERSION = ''ccos-campaign-v1''"

definition SCHEMA_COMPATIBILITY :: string where
  "SCHEMA_COMPATIBILITY = ''campaign-store-v1''"

definition HOST_CAPABILITY_PROBE_VERSION :: string where
  "HOST_CAPABILITY_PROBE_VERSION = ''native-bind-before-turn-scoped-tools-v3''"

definition publication_effects :: "effect_kind set" where
  "publication_effects = {EK_PUSH, EK_CREATE_PULL_REQUEST, EK_UPSERT_COMMENT, EK_MERGE}"

definition parse_effects :: "pyval list \<Rightarrow> effect_kind list option" where
  "parse_effects vs =
     (let ks = map (\<lambda>v. enum_parse effect_kinds effect_kind_value (py_str v)) vs
      in if None \<in> set ks then None else Some (map the ks))"

text \<open>\<open>allowed_effects\<close> and \<open>required_effects\<close> of the publication authority.\<close>

definition authority_allowed :: "pyval \<Rightarrow> pyval list res" where
  "authority_allowed authority = get_tuple authority ''allowed_effects''"

definition authority_required :: "pyval \<Rightarrow> pyval list \<Rightarrow> pyval list res" where
  "authority_required authority allowed =
     bindE (py_get authority ''required_effects'' (PTuple allowed)) py_iter"

definition check_publication_effects :: "pyval \<Rightarrow> unit res" where
  "check_publication_effects authority =
     bindE (authority_allowed authority) (\<lambda>allowed.
     bindE (authority_required authority allowed) (\<lambda>required.
     requireE (allowed \<noteq> [] \<and> required \<noteq> [])
       (ModelValidationError ''publication authority requires a finite effect sequence'')
    (bindE (py_set allowed) (\<lambda>allowed_set.
     bindE (if distinct allowed_set then py_set required else Inr []) (\<lambda>required_set.
     requireAll
       [(distinct allowed_set \<and> distinct required_set,
         ModelValidationError ''publication effects must not contain duplicates''),
        (set required_set \<subseteq> set allowed_set,
         ModelValidationError ''required publication effects exceed allowed effects'')]
    (case (parse_effects allowed, parse_effects required) of
       (Some parsed, Some parsed_required) \<Rightarrow>
         requireAll
           [(set parsed \<subseteq> insert EK_EXACT_FILE_REPLACE publication_effects,
             ModelValidationError ''publication authority may contain only external publication effects''),
            (set parsed_required \<subseteq> publication_effects,
             ModelValidationError ''required publication sequence contains a non-publication effect'')]
           (Inr ())
     | _ \<Rightarrow> Inl (ModelValidationError ''publication authority contains an invalid effect'')))))))"

definition check_hosted_checks :: "pyval \<Rightarrow> unit res" where
  "check_hosted_checks authority =
     bindE (get_strs authority ''required_hosted_checks'') (\<lambda>names.
     requireE (list_all (\<lambda>n. py_strip n \<noteq> []) names \<and> distinct names)
       (ModelValidationError ''required hosted checks must be unique nonempty check names'') (Inr ()))"

definition check_human_authorization :: "pyval \<Rightarrow> unit res" where
  "check_human_authorization authority =
     bindE (py_get authority ''human_authorization'' PNone) (\<lambda>h.
     if h = PNone then Inr ()
     else requireE (is_mapping h)
            (ModelValidationError ''human_authorization must be an immutable verifier object'')
         (bindE (py_get h ''algorithm'' PNone) (\<lambda>algorithm.
          requireE (py_eq algorithm (PStr ''ED25519''))
            (ModelValidationError ''human authorization verifier algorithm must be ED25519'')
         (bindE (get_str h ''public_key_base64'' []) (\<lambda>text.
          case b64_decode text of
            None \<Rightarrow> Inl (ModelValidationError ''human authorization public key is not canonical base64'')
          | Some public_key \<Rightarrow>
              requireE (length public_key = 32)
                (ModelValidationError ''human authorization ED25519 public key must be 32 bytes'')
                (Inr ()))))))"

definition check_node :: "campaign_spec \<Rightarrow> node_spec \<Rightarrow> unit res" where
  "check_node s node =
     (let known = map nd_node_id (sp_nodes s);
          commands = map vc_command_id (sp_required_validation_commands s);
          prefix = ''node '' @ nd_node_id node;
          missing = filter (\<lambda>d. d \<notin> set known) (nd_dependencies node);
          unknown = filter (\<lambda>c. c \<notin> set commands) (nd_validation_command_ids node)
      in requireAll
        [(missing = [], ModelValidationError
            (prefix @ '' has unknown dependencies: '' @ py_repr (PList (map PStr (sort (remdups missing)))))),
         (nd_node_id node \<notin> set (nd_dependencies node),
          ModelValidationError (prefix @ '' depends on itself'')),
         (unknown = [], ModelValidationError
            (prefix @ '' uses unknown validation commands: '' @ py_repr (PList (map PStr (sort (remdups unknown)))))),
         (nd_validation_command_ids node \<noteq> [],
          ModelValidationError (prefix @ '' must admit at least one validation command'')),
         (distinct (nd_validation_command_ids node),
          ModelValidationError (prefix @ '' has duplicate validation commands'')),
         (list_all (\<lambda>c. vc_command_id c \<in> set (nd_validation_command_ids node)
               \<and> vc_correction_policy c \<noteq> PNone \<longrightarrow>
             list_ex (\<lambda>item.
               (case (as_mapping item, as_mapping (vc_correction_policy c)) of
                  (Some i, Some p) \<Rightarrow>
                    py_eq (dict_get i ''scenario_id'' PNone) (dict_get p ''expectation_id'' PNone)
                    \<and> py_eq (dict_get i ''validation_command_id'' PNone) (PStr (vc_command_id c))
                | _ \<Rightarrow> False)) (nd_acceptance_scenarios node)) (sp_required_validation_commands s),
          ModelValidationError ''validation correction must bind an approved node acceptance scenario''),
         (set (nd_allowed_paths node) \<subseteq> set (sp_allowed_paths s),
          ModelValidationError (prefix @ '' allowed paths exceed campaign scope''))]
        (Inr ()))"

definition validate_uniqueness_and_graph :: "(string \<Rightarrow> string) \<Rightarrow> campaign_spec \<Rightarrow> unit res" where
  "validate_uniqueness_and_graph resolve s =
     requireAll
       [(distinct (map nd_node_id (sp_nodes s)),
         ModelValidationError ''campaign graph has duplicate node identifiers''),
        (distinct (map vc_command_id (sp_required_validation_commands s)),
         ModelValidationError ''validation command identifiers must be unique''),
        (distinct (map ab_token (sp_attempt_budgets s)),
         ModelValidationError ''attempt budget tokens must be unique''),
        (sp_autonomous_rank s \<le> sum_list (map ab_limit (sp_attempt_budgets s)),
         ModelValidationError ''autonomous rank exceeds declared durable attempt-budget capacity''),
        (distinct (sp_allowed_paths s), ModelValidationError ''allowed paths must be unique''),
        (distinct (sp_required_review_cohort s),
         ModelValidationError ''review cohort identifiers must be unique'')]
     (bindE (mapE (\<lambda>c. requireE (resolve (vc_working_directory c) = resolve (sp_worktree s))
         (ModelValidationError (''validation command '' @ vc_command_id c
            @ '' working_directory must be the exact campaign worktree'')) (Inr ()))
         (sp_required_validation_commands s)) (\<lambda>_.
      bindE (mapE (check_node s) (sp_nodes s)) (\<lambda>_.
      check_acyclic (sp_nodes s))))"

definition campaign_spec_post_init :: "(string \<Rightarrow> string) \<Rightarrow> campaign_spec \<Rightarrow> campaign_spec res" where
  "campaign_spec_post_init resolve s0 =
     (let s = s0\<lparr>sp_publication_authority := py_freeze (sp_publication_authority s0)\<rparr>
      in requireAll
        [named (sp_campaign_id s) ''campaign_id'',
         named (sp_objective s) ''objective'',
         named (sp_repository_remote s) ''repository_remote'',
         named (sp_git_root s) ''git_root'',
         named (sp_worktree s) ''worktree'',
         named (sp_branch s) ''branch'',
         named (sp_base_sha s) ''base_sha'',
         named (sp_installed_source_commit s) ''installed_source_commit'',
         named (sp_installed_bundle_digest s) ''installed_bundle_digest'',
         named (sp_install_transaction s) ''install_transaction'',
         named (sp_protocol_version s) ''protocol_version'',
         named (sp_schema_compatibility s) ''schema_compatibility'',
         named (sp_host_capability_probe_version s) ''host_capability_probe_version'',
         (0 < sp_specification_revision s, ModelValidationError ''specification revision must be positive''),
         (0 \<le> sp_authority_epoch s \<and> 0 \<le> sp_cancellation_epoch s,
          ModelValidationError ''authority and cancellation epochs must not be negative''),
         (0 < sp_autonomous_rank s, ModelValidationError ''autonomous rank must be positive''),
         (sp_nodes s \<noteq> [], ModelValidationError ''campaign graph must contain at least one node''),
         (sp_required_review_cohort s \<noteq> [], ModelValidationError ''required review cohort must not be empty''),
         (sp_stop_conditions s \<noteq> [], ModelValidationError ''stop conditions must not be empty''),
         (py_truthy (sp_publication_authority s),
          ModelValidationError ''publication authority must not be empty'')]
      (bindE (check_publication_effects (sp_publication_authority s)) (\<lambda>_.
       bindE (check_hosted_checks (sp_publication_authority s)) (\<lambda>_.
       bindE (check_human_authorization (sp_publication_authority s)) (\<lambda>_.
       bindE (validate_uniqueness_and_graph resolve s) (\<lambda>_. Inr s))))))"

definition campaign_spec_to_dict :: "campaign_spec \<Rightarrow> pyval" where
  "campaign_spec_to_dict s = PDict
     [(''campaign_id'', PStr (sp_campaign_id s)),
      (''specification_revision'', PInt (sp_specification_revision s)),
      (''specification_digest'', PStr (sp_specification_digest s)),
      (''authority_epoch'', PInt (sp_authority_epoch s)),
      (''cancellation_epoch'', PInt (sp_cancellation_epoch s)),
      (''mode'', PStr (campaign_mode_value (sp_mode s))),
      (''objective'', PStr (sp_objective s)),
      (''objective_kind'', PStr (objective_kind_value (sp_objective_kind s))),
      (''repository_remote'', PStr (sp_repository_remote s)),
      (''git_root'', PStr (sp_git_root s)),
      (''worktree'', PStr (sp_worktree s)),
      (''branch'', PStr (sp_branch s)),
      (''base_sha'', PStr (sp_base_sha s)),
      (''allowed_paths'', PList (map PStr (sp_allowed_paths s))),
      (''nodes'', PList (map node_spec_to_dict (sp_nodes s))),
      (''required_validation_commands'',
         PList (map validation_command_to_dict (sp_required_validation_commands s))),
      (''required_review_cohort'', PList (map PStr (sp_required_review_cohort s))),
      (''publication_authority'', py_primitive (sp_publication_authority s)),
      (''attempt_budgets'', PList (map attempt_budget_to_dict (sp_attempt_budgets s))),
      (''stop_conditions'', PList (map PStr (sp_stop_conditions s))),
      (''installed_source_commit'', PStr (sp_installed_source_commit s)),
      (''installed_bundle_digest'', PStr (sp_installed_bundle_digest s)),
      (''install_transaction'', PStr (sp_install_transaction s)),
      (''protocol_version'', PStr (sp_protocol_version s)),
      (''schema_compatibility'', PStr (sp_schema_compatibility s)),
      (''host_capability_probe_version'', PStr (sp_host_capability_probe_version s)),
      (''autonomous_rank'', PInt (sp_autonomous_rank s)),
      (''deadline_utc'', py_opt_str (sp_deadline_utc s))]"

definition compute_digest :: "campaign_spec \<Rightarrow> string" where
  "compute_digest s =
     (case campaign_spec_to_dict s of
        PDict d \<Rightarrow> canonical_json_digest (PDict (dict_remove ''specification_digest'' d))
      | v \<Rightarrow> canonical_json_digest v)"

definition digest_mismatch :: error where
  "digest_mismatch = ModelValidationError ''specification digest does not match the immutable specification''"

definition verify_digest :: "campaign_spec \<Rightarrow> unit res" where
  "verify_digest s =
     requireE (sp_specification_digest s \<noteq> [] \<and> sp_specification_digest s = compute_digest s)
       digest_mismatch (Inr ())"

definition campaign_spec_from_dict :: "(string \<Rightarrow> string) \<Rightarrow> bool \<Rightarrow> pyval \<Rightarrow> campaign_spec res" where
  "campaign_spec_from_dict resolve verify v =
     bindE (get_str v ''specification_digest'' []) (\<lambda>supplied_digest.
     bindE (item_str v ''campaign_id'') (\<lambda>campaign_id.
     bindE (item_int v ''specification_revision'') (\<lambda>specification_revision.
     bindE (item_int v ''authority_epoch'') (\<lambda>authority_epoch.
     bindE (item_int v ''cancellation_epoch'') (\<lambda>cancellation_epoch.
     bindE (bindE (py_item v ''mode'') campaign_mode_of) (\<lambda>mode.
     bindE (item_str v ''objective'') (\<lambda>objective.
     bindE (bindE (py_item v ''objective_kind'') objective_kind_of) (\<lambda>objective_kind.
     bindE (item_str v ''repository_remote'') (\<lambda>repository_remote.
     bindE (item_str v ''git_root'') (\<lambda>git_root.
     bindE (item_str v ''worktree'') (\<lambda>worktree.
     bindE (item_str v ''branch'') (\<lambda>branch.
     bindE (item_str v ''base_sha'') (\<lambda>base_sha.
     bindE (get_strs v ''allowed_paths'') (\<lambda>allowed_paths.
     bindE (item_list node_spec_from_dict v ''nodes'') (\<lambda>nodes.
     bindE (get_list validation_command_from_dict v ''required_validation_commands'')
       (\<lambda>required_validation_commands.
     bindE (get_strs v ''required_review_cohort'') (\<lambda>required_review_cohort.
     bindE (py_item v ''publication_authority'') (\<lambda>publication_authority.
     bindE (get_list attempt_budget_from_dict v ''attempt_budgets'') (\<lambda>attempt_budgets.
     bindE (get_strs v ''stop_conditions'') (\<lambda>stop_conditions.
     bindE (item_str v ''installed_source_commit'') (\<lambda>installed_source_commit.
     bindE (item_str v ''installed_bundle_digest'') (\<lambda>installed_bundle_digest.
     bindE (item_str v ''install_transaction'') (\<lambda>install_transaction.
     bindE (get_str v ''protocol_version'' PROTOCOL_VERSION) (\<lambda>protocol_version.
     bindE (get_str v ''schema_compatibility'' SCHEMA_COMPATIBILITY) (\<lambda>schema_compatibility.
     bindE (get_str v ''host_capability_probe_version'' HOST_CAPABILITY_PROBE_VERSION)
       (\<lambda>host_capability_probe_version.
     bindE (get_int v ''autonomous_rank'' 1) (\<lambda>autonomous_rank.
     bindE (truthy_item_str v ''deadline_utc'') (\<lambda>deadline_utc.
     bindE (campaign_spec_post_init resolve
       \<lparr>sp_campaign_id = campaign_id, sp_specification_revision = specification_revision,
        sp_specification_digest = [], sp_authority_epoch = authority_epoch,
        sp_cancellation_epoch = cancellation_epoch, sp_mode = mode, sp_objective = objective,
        sp_objective_kind = objective_kind, sp_repository_remote = repository_remote,
        sp_git_root = git_root, sp_worktree = worktree, sp_branch = branch,
        sp_base_sha = base_sha, sp_allowed_paths = allowed_paths, sp_nodes = nodes,
        sp_required_validation_commands = required_validation_commands,
        sp_required_review_cohort = required_review_cohort,
        sp_publication_authority = publication_authority,
        sp_attempt_budgets = attempt_budgets, sp_stop_conditions = stop_conditions,
        sp_installed_source_commit = installed_source_commit,
        sp_installed_bundle_digest = installed_bundle_digest,
        sp_install_transaction = install_transaction,
        sp_protocol_version = protocol_version,
        sp_schema_compatibility = schema_compatibility,
        sp_host_capability_probe_version = host_capability_probe_version,
        sp_autonomous_rank = autonomous_rank, sp_deadline_utc = deadline_utc\<rparr>) (\<lambda>spec.
     let computed = compute_digest spec
     in requireE (\<not> (supplied_digest \<noteq> [] \<and> verify \<and> supplied_digest \<noteq> computed)) digest_mismatch
         (campaign_spec_post_init resolve
           (spec\<lparr>sp_specification_digest := (if supplied_digest \<noteq> [] then supplied_digest else computed)\<rparr>)))))))))))))))))))))))))))))))"

end
