(* ===== verification/Campaign_State.thy ===== *)
theory Campaign_State
  imports Campaign_Spec
begin

text \<open>
  The state of a campaign in model.py: findings, effect intents, budget balances and
  receipts, node snapshots and the campaign snapshot, the events of the reducer, and the
  actors, leases and evidence the store keeps beside them.  Each class is a record with
  its \<open>__post_init__\<close>, \<open>from_dict\<close> and \<open>to_dict\<close>.  Fields of type
  \<open>pyval\<close> hold frozen mappings, with \<open>PNone\<close> for an absent one.
\<close>

section \<open>Actors, leases and evidence\<close>

record actor =
  ac_actor_id :: string
  ac_campaign_id :: string
  ac_node_id :: "string option"
  ac_role :: actor_role
  ac_native_thread_id :: string
  ac_authority_epoch :: int
  ac_can_write :: bool
  ac_native_identity :: pyval
  ac_host_pid :: "int option"
  ac_principal_id :: "string option"

definition write_denied_roles :: "actor_role set" where
  "write_denied_roles = {AR_PARENT, AR_REVIEWER, AR_CLOSURE_REVIEWER, AR_VALIDATOR, AR_SUPERVISOR}"

definition actor_post_init :: "actor \<Rightarrow> actor res" where
  "actor_post_init a =
     requireAll
       [named (ac_actor_id a) ''actor_id'',
        named (ac_campaign_id a) ''campaign_id'',
        named (ac_native_thread_id a) ''native_thread_id'',
        (0 \<le> ac_authority_epoch a, ModelValidationError ''actor authority epoch must not be negative''),
        (case ac_host_pid a of None \<Rightarrow> True | Some pid \<Rightarrow> 0 < pid,
         ModelValidationError ''actor host PID must be positive''),
        (ac_role a \<in> write_denied_roles \<longrightarrow> \<not> ac_can_write a,
         ModelValidationError (actor_role_value (ac_role a) @ '' actors must be write denied''))]
       (Inr (a\<lparr>ac_native_identity := py_freeze (ac_native_identity a)\<rparr>))"

definition actor_from_dict :: "pyval \<Rightarrow> actor res" where
  "actor_from_dict v =
     bindE (item_str v ''actor_id'') (\<lambda>actor_id.
     bindE (item_str v ''campaign_id'') (\<lambda>campaign_id.
     bindE (opt_item_str v ''node_id'') (\<lambda>node_id.
     bindE (bindE (py_item v ''role'') actor_role_of) (\<lambda>role.
     bindE (item_str v ''native_thread_id'') (\<lambda>native_thread_id.
     bindE (item_int v ''authority_epoch'') (\<lambda>authority_epoch.
     bindE (py_item v ''can_write'') (\<lambda>can_write.
     bindE (py_get v ''native_identity'' (PDict [])) (\<lambda>native_identity.
     bindE (opt_item_int v ''host_pid'') (\<lambda>host_pid.
     bindE (opt_item_str v ''principal_id'') (\<lambda>principal_id.
     actor_post_init
       \<lparr>ac_actor_id = actor_id, ac_campaign_id = campaign_id, ac_node_id = node_id, ac_role = role,
        ac_native_thread_id = native_thread_id, ac_authority_epoch = authority_epoch,
        ac_can_write = py_truthy can_write, ac_native_identity = native_identity,
        ac_host_pid = host_pid, ac_principal_id = principal_id\<rparr>))))))))))"

definition actor_to_dict :: "actor \<Rightarrow> pyval" where
  "actor_to_dict a = PDict
     [(''actor_id'', PStr (ac_actor_id a)),
      (''campaign_id'', PStr (ac_campaign_id a)),
      (''node_id'', py_opt_str (ac_node_id a)),
      (''role'', PStr (actor_role_value (ac_role a))),
      (''native_thread_id'', PStr (ac_native_thread_id a)),
      (''authority_epoch'', PInt (ac_authority_epoch a)),
      (''can_write'', PBool (ac_can_write a)),
      (''native_identity'', py_primitive (ac_native_identity a)),
      (''host_pid'', py_opt_int (ac_host_pid a)),
      (''principal_id'', py_opt_str (ac_principal_id a))]"

record lease =
  ls_lease_id :: string
  ls_campaign_id :: string
  ls_node_id :: string
  ls_resource_key :: string
  ls_actor_id :: string
  ls_fencing_epoch :: int
  ls_cancellation_epoch :: int
  ls_state :: lease_state
  ls_expires_at :: "string option"

definition lease_post_init :: "lease \<Rightarrow> lease res" where
  "lease_post_init l =
     requireAll
       [named (ls_lease_id l) ''lease_id'',
        named (ls_campaign_id l) ''campaign_id'',
        named (ls_node_id l) ''node_id'',
        named (ls_resource_key l) ''resource_key'',
        named (ls_actor_id l) ''actor_id'',
        (0 \<le> ls_fencing_epoch l \<and> 0 \<le> ls_cancellation_epoch l,
         ModelValidationError ''lease epochs are invalid'')]
       (Inr l)"

definition lease_from_dict :: "pyval \<Rightarrow> lease res" where
  "lease_from_dict v =
     bindE (item_str v ''lease_id'') (\<lambda>lease_id.
     bindE (item_str v ''campaign_id'') (\<lambda>campaign_id.
     bindE (item_str v ''node_id'') (\<lambda>node_id.
     bindE (item_str v ''resource_key'') (\<lambda>resource_key.
     bindE (item_str v ''actor_id'') (\<lambda>actor_id.
     bindE (item_int v ''fencing_epoch'') (\<lambda>fencing_epoch.
     bindE (item_int v ''cancellation_epoch'') (\<lambda>cancellation_epoch.
     bindE (bindE (py_get v ''state'' (PStr (lease_state_value LS_ACTIVE))) lease_state_of) (\<lambda>state.
     bindE (truthy_item_str v ''expires_at'') (\<lambda>expires_at.
     lease_post_init
       \<lparr>ls_lease_id = lease_id, ls_campaign_id = campaign_id, ls_node_id = node_id,
        ls_resource_key = resource_key, ls_actor_id = actor_id, ls_fencing_epoch = fencing_epoch,
        ls_cancellation_epoch = cancellation_epoch, ls_state = state, ls_expires_at = expires_at\<rparr>)))))))))"

definition lease_to_dict :: "lease \<Rightarrow> pyval" where
  "lease_to_dict l = PDict
     [(''lease_id'', PStr (ls_lease_id l)),
      (''campaign_id'', PStr (ls_campaign_id l)),
      (''node_id'', PStr (ls_node_id l)),
      (''resource_key'', PStr (ls_resource_key l)),
      (''actor_id'', PStr (ls_actor_id l)),
      (''fencing_epoch'', PInt (ls_fencing_epoch l)),
      (''cancellation_epoch'', PInt (ls_cancellation_epoch l)),
      (''state'', PStr (lease_state_value (ls_state l))),
      (''expires_at'', py_opt_str (ls_expires_at l))]"

record evidence =
  ed_evidence_id :: string
  ed_campaign_id :: string
  ed_node_id :: "string option"
  ed_kind :: evidence_kind
  ed_digest :: string
  ed_payload :: pyval
  ed_candidate_head :: "string option"

definition evidence_post_init :: "evidence \<Rightarrow> evidence res" where
  "evidence_post_init e =
     requireAll
       [named (ed_evidence_id e) ''evidence_id'',
        named (ed_campaign_id e) ''campaign_id'',
        named (ed_digest e) ''digest'']
       (Inr (e\<lparr>ed_payload := py_freeze (ed_payload e)\<rparr>))"

definition evidence_from_dict :: "pyval \<Rightarrow> evidence res" where
  "evidence_from_dict v =
     bindE (item_str v ''evidence_id'') (\<lambda>evidence_id.
     bindE (item_str v ''campaign_id'') (\<lambda>campaign_id.
     bindE (opt_item_str v ''node_id'') (\<lambda>node_id.
     bindE (bindE (py_item v ''kind'') evidence_kind_of) (\<lambda>kind.
     bindE (item_str v ''digest'') (\<lambda>digest.
     bindE (py_get v ''payload'' (PDict [])) (\<lambda>payload.
     bindE (truthy_item_str v ''candidate_head'') (\<lambda>candidate_head.
     evidence_post_init
       \<lparr>ed_evidence_id = evidence_id, ed_campaign_id = campaign_id, ed_node_id = node_id,
        ed_kind = kind, ed_digest = digest, ed_payload = payload,
        ed_candidate_head = candidate_head\<rparr>)))))))"

definition evidence_to_dict :: "evidence \<Rightarrow> pyval" where
  "evidence_to_dict e = PDict
     [(''evidence_id'', PStr (ed_evidence_id e)),
      (''campaign_id'', PStr (ed_campaign_id e)),
      (''node_id'', py_opt_str (ed_node_id e)),
      (''kind'', PStr (evidence_kind_value (ed_kind e))),
      (''digest'', PStr (ed_digest e)),
      (''payload'', py_primitive (ed_payload e)),
      (''candidate_head'', py_opt_str (ed_candidate_head e))]"

section \<open>Findings\<close>

record finding =
  fi_finding_id :: string
  fi_title :: string
  fi_blocking :: bool
  fi_origin :: finding_origin
  fi_details :: pyval

definition finding_post_init :: "finding \<Rightarrow> finding res" where
  "finding_post_init f =
     requireAll
       [(is_mapping (fi_details f), ModelValidationError ''finding details must be an object''),
        named (fi_finding_id f) ''finding_id'',
        named (fi_title f) ''finding title'']
       (Inr (f\<lparr>fi_details := py_freeze (fi_details f)\<rparr>))"

definition finding_from_dict :: "finding_origin \<Rightarrow> pyval \<Rightarrow> finding res" where
  "finding_from_dict default_origin v =
     bindE (item_str v ''finding_id'') (\<lambda>finding_id.
     bindE (item_str v ''title'') (\<lambda>title.
     bindE (py_get v ''blocking'' (PBool True)) (\<lambda>blocking.
     bindE (bindE (py_get v ''origin'' (PStr (finding_origin_value default_origin))) finding_origin_of)
       (\<lambda>origin.
     bindE (py_get v ''details'' (PDict [])) (\<lambda>details.
     case blocking of
       PBool b \<Rightarrow> finding_post_init
         \<lparr>fi_finding_id = finding_id, fi_title = title, fi_blocking = b, fi_origin = origin,
          fi_details = details\<rparr>
     | _ \<Rightarrow> Inl (ModelValidationError ''finding blocking must be a boolean''))))))"

definition finding_to_dict :: "finding \<Rightarrow> pyval" where
  "finding_to_dict f = PDict
     [(''finding_id'', PStr (fi_finding_id f)),
      (''title'', PStr (fi_title f)),
      (''blocking'', PBool (fi_blocking f)),
      (''origin'', PStr (finding_origin_value (fi_origin f))),
      (''details'', py_primitive (fi_details f))]"

definition closure_blocking :: "finding \<Rightarrow> bool" where
  "closure_blocking f =
     (case as_mapping (fi_details f) of
        None \<Rightarrow> True
      | Some d \<Rightarrow>
          fi_blocking f
          \<or> (\<exists>k \<in> {''acceptance_expectation_id'', ''invariant'', ''regression''}. k \<in> set (map fst d))
          \<or> (case dict_get d ''observation'' PNone of PStr s \<Rightarrow> py_strip s = [] | _ \<Rightarrow> True))"

section \<open>External effects\<close>

record effect_intent =
  ef_operation_id :: string
  ef_campaign_id :: string
  ef_node_id :: "string option"
  ef_kind :: effect_kind
  ef_state :: effect_state
  ef_payload :: pyval
  ef_authority_epoch :: int
  ef_cancellation_epoch :: int
  ef_fencing_epoch :: "int option"
  ef_external :: bool

definition effect_post_init :: "effect_intent \<Rightarrow> effect_intent res" where
  "effect_post_init e =
     requireAll [named (ef_operation_id e) ''operation_id'', named (ef_campaign_id e) ''campaign_id'']
       (Inr (e\<lparr>ef_payload := py_freeze (ef_payload e)\<rparr>))"

definition effect_from_dict :: "pyval \<Rightarrow> effect_intent res" where
  "effect_from_dict v =
     bindE (item_str v ''operation_id'') (\<lambda>operation_id.
     bindE (item_str v ''campaign_id'') (\<lambda>campaign_id.
     bindE (opt_item_str v ''node_id'') (\<lambda>node_id.
     bindE (bindE (py_item v ''kind'') effect_kind_of) (\<lambda>kind.
     bindE (bindE (py_get v ''state'' (PStr (effect_state_value ES_PREPARED))) effect_state_of) (\<lambda>state.
     bindE (py_get v ''payload'' (PDict [])) (\<lambda>payload.
     bindE (item_int v ''authority_epoch'') (\<lambda>authority_epoch.
     bindE (item_int v ''cancellation_epoch'') (\<lambda>cancellation_epoch.
     bindE (opt_item_int v ''fencing_epoch'') (\<lambda>fencing_epoch.
     bindE (py_get v ''external'' (PBool True)) (\<lambda>external.
     effect_post_init
       \<lparr>ef_operation_id = operation_id, ef_campaign_id = campaign_id, ef_node_id = node_id,
        ef_kind = kind, ef_state = state, ef_payload = payload,
        ef_authority_epoch = authority_epoch, ef_cancellation_epoch = cancellation_epoch,
        ef_fencing_epoch = fencing_epoch, ef_external = py_truthy external\<rparr>))))))))))"

definition effect_to_dict :: "effect_intent \<Rightarrow> pyval" where
  "effect_to_dict e = PDict
     [(''operation_id'', PStr (ef_operation_id e)),
      (''campaign_id'', PStr (ef_campaign_id e)),
      (''node_id'', py_opt_str (ef_node_id e)),
      (''kind'', PStr (effect_kind_value (ef_kind e))),
      (''state'', PStr (effect_state_value (ef_state e))),
      (''payload'', py_primitive (ef_payload e)),
      (''authority_epoch'', PInt (ef_authority_epoch e)),
      (''cancellation_epoch'', PInt (ef_cancellation_epoch e)),
      (''fencing_epoch'', py_opt_int (ef_fencing_epoch e)),
      (''external'', PBool (ef_external e))]"

section \<open>Budgets\<close>

record budget_balance =
  bb_token :: budget_token
  bb_limit :: int
  bb_consumed :: int

definition bb_remaining :: "budget_balance \<Rightarrow> int" where
  "bb_remaining b = bb_limit b - bb_consumed b"

definition budget_balance_post_init :: "budget_balance \<Rightarrow> budget_balance res" where
  "budget_balance_post_init b =
     requireE (0 \<le> bb_limit b \<and> 0 \<le> bb_consumed b \<and> bb_consumed b \<le> bb_limit b)
       (ModelValidationError ''invalid budget balance'') (Inr b)"

definition budget_balance_from_dict :: "pyval \<Rightarrow> budget_balance res" where
  "budget_balance_from_dict v =
     bindE (bindE (py_item v ''token'') budget_token_of) (\<lambda>token.
     bindE (item_int v ''limit'') (\<lambda>limit.
     bindE (get_int v ''consumed'' 0) (\<lambda>consumed.
     budget_balance_post_init \<lparr>bb_token = token, bb_limit = limit, bb_consumed = consumed\<rparr>)))"

definition budget_balance_to_dict :: "budget_balance \<Rightarrow> pyval" where
  "budget_balance_to_dict b = PDict
     [(''token'', PStr (budget_token_value (bb_token b))),
      (''limit'', PInt (bb_limit b)),
      (''consumed'', PInt (bb_consumed b)),
      (''remaining'', PInt (bb_remaining b))]"

record budget_receipt =
  br_request_id :: string
  br_token :: budget_token
  br_revision :: int

definition budget_receipt_post_init :: "budget_receipt \<Rightarrow> budget_receipt res" where
  "budget_receipt_post_init r = requireAll [named (br_request_id r) ''budget request_id''] (Inr r)"

definition budget_receipt_from_dict :: "pyval \<Rightarrow> budget_receipt res" where
  "budget_receipt_from_dict v =
     bindE (item_str v ''request_id'') (\<lambda>request_id.
     bindE (bindE (py_item v ''token'') budget_token_of) (\<lambda>token.
     bindE (item_int v ''revision'') (\<lambda>revision.
     budget_receipt_post_init \<lparr>br_request_id = request_id, br_token = token, br_revision = revision\<rparr>)))"

definition budget_receipt_to_dict :: "budget_receipt \<Rightarrow> pyval" where
  "budget_receipt_to_dict r = PDict
     [(''request_id'', PStr (br_request_id r)),
      (''token'', PStr (budget_token_value (br_token r))),
      (''revision'', PInt (br_revision r))]"


section \<open>Node snapshots\<close>

record node_snapshot =
  ns_node_id :: string
  ns_state :: node_state
  ns_fencing_epoch :: int
  ns_lease_actor_id :: "string option"
  ns_implementation_attempts :: int
  ns_validation_corrections :: int
  ns_validation_correction :: pyval
  ns_review_generations :: int
  ns_repair_attempts :: int
  ns_closure_generations :: int
  ns_start_head :: "string option"
  ns_candidate_head :: "string option"
  ns_candidate_tree :: "string option"
  ns_candidate_diff_digest :: "string option"
  ns_candidate_node_diff_digest :: "string option"
  ns_findings :: "finding list"
  ns_closure_findings :: "finding list"
  ns_resolved_finding_ids :: "string list"
  ns_completed_publication_effects :: "string list"
  ns_publication_operation_ids :: "string list"
  ns_pending_publication_effect :: "string option"
  ns_pending_publication_operation_id :: "string option"
  ns_publication_authorization_receipt_id :: "string option"
  ns_publication_authorization_receipt_digest :: "string option"
  ns_failure_reason :: "string option"

definition node_default :: "string \<Rightarrow> node_snapshot" where
  "node_default node_id =
     \<lparr>ns_node_id = node_id, ns_state = NS_PENDING, ns_fencing_epoch = 0, ns_lease_actor_id = None,
      ns_implementation_attempts = 0, ns_validation_corrections = 0,
      ns_validation_correction = PNone, ns_review_generations = 0, ns_repair_attempts = 0,
      ns_closure_generations = 0, ns_start_head = None, ns_candidate_head = None,
      ns_candidate_tree = None, ns_candidate_diff_digest = None,
      ns_candidate_node_diff_digest = None, ns_findings = [], ns_closure_findings = [],
      ns_resolved_finding_ids = [], ns_completed_publication_effects = [],
      ns_publication_operation_ids = [], ns_pending_publication_effect = None,
      ns_pending_publication_operation_id = None,
      ns_publication_authorization_receipt_id = None,
      ns_publication_authorization_receipt_digest = None, ns_failure_reason = None\<rparr>"

definition node_post_init :: "node_snapshot \<Rightarrow> node_snapshot res" where
  "node_post_init n =
     requireAll
       [named (ns_node_id n) ''node_id'',
        (0 \<le> ns_fencing_epoch n \<and> 0 \<le> ns_implementation_attempts n
         \<and> 0 \<le> ns_validation_corrections n \<and> 0 \<le> ns_review_generations n
         \<and> 0 \<le> ns_repair_attempts n \<and> 0 \<le> ns_closure_generations n,
         ModelValidationError ''node counters must not be negative'')]
       (Inr (if ns_validation_correction n = PNone then n
             else n\<lparr>ns_validation_correction := py_freeze (ns_validation_correction n)\<rparr>))"

definition node_from_dict :: "pyval \<Rightarrow> node_snapshot res" where
  "node_from_dict v =
     bindE (item_str v ''node_id'') (\<lambda>node_id.
     bindE (bindE (py_get v ''state'' (PStr (node_state_value NS_PENDING))) node_state_of) (\<lambda>state.
     bindE (get_int v ''fencing_epoch'' 0) (\<lambda>fencing_epoch.
     bindE (truthy_item_str v ''lease_actor_id'') (\<lambda>lease_actor_id.
     bindE (get_int v ''implementation_attempts'' 0) (\<lambda>implementation_attempts.
     bindE (get_int v ''validation_corrections'' 0) (\<lambda>validation_corrections.
     bindE (py_get v ''validation_correction'' PNone) (\<lambda>validation_correction.
     bindE (get_int v ''review_generations'' 0) (\<lambda>review_generations.
     bindE (get_int v ''repair_attempts'' 0) (\<lambda>repair_attempts.
     bindE (get_int v ''closure_generations'' 0) (\<lambda>closure_generations.
     bindE (truthy_item_str v ''start_head'') (\<lambda>start_head.
     bindE (truthy_item_str v ''candidate_head'') (\<lambda>candidate_head.
     bindE (truthy_item_str v ''candidate_tree'') (\<lambda>candidate_tree.
     bindE (truthy_item_str v ''candidate_diff_digest'') (\<lambda>candidate_diff_digest.
     bindE (truthy_item_str v ''candidate_node_diff_digest'') (\<lambda>candidate_node_diff_digest.
     bindE (get_list (finding_from_dict FO_REVIEW) v ''findings'') (\<lambda>findings.
     bindE (get_list (finding_from_dict FO_CLOSURE) v ''closure_findings'') (\<lambda>closure_findings.
     bindE (get_strs v ''resolved_finding_ids'') (\<lambda>resolved_finding_ids.
     bindE (get_strs v ''completed_publication_effects'') (\<lambda>completed_publication_effects.
     bindE (get_strs v ''publication_operation_ids'') (\<lambda>publication_operation_ids.
     bindE (truthy_item_str v ''pending_publication_effect'') (\<lambda>pending_publication_effect.
     bindE (truthy_item_str v ''pending_publication_operation_id'') (\<lambda>pending_publication_operation_id.
     bindE (truthy_item_str v ''publication_authorization_receipt_id'') (\<lambda>receipt_id.
     bindE (truthy_item_str v ''publication_authorization_receipt_digest'') (\<lambda>receipt_digest.
     bindE (truthy_item_str v ''failure_reason'') (\<lambda>failure_reason.
     node_post_init
       \<lparr>ns_node_id = node_id, ns_state = state, ns_fencing_epoch = fencing_epoch,
        ns_lease_actor_id = lease_actor_id, ns_implementation_attempts = implementation_attempts,
        ns_validation_corrections = validation_corrections,
        ns_validation_correction = validation_correction,
        ns_review_generations = review_generations, ns_repair_attempts = repair_attempts,
        ns_closure_generations = closure_generations, ns_start_head = start_head,
        ns_candidate_head = candidate_head, ns_candidate_tree = candidate_tree,
        ns_candidate_diff_digest = candidate_diff_digest,
        ns_candidate_node_diff_digest = candidate_node_diff_digest, ns_findings = findings,
        ns_closure_findings = closure_findings, ns_resolved_finding_ids = resolved_finding_ids,
        ns_completed_publication_effects = completed_publication_effects,
        ns_publication_operation_ids = publication_operation_ids,
        ns_pending_publication_effect = pending_publication_effect,
        ns_pending_publication_operation_id = pending_publication_operation_id,
        ns_publication_authorization_receipt_id = receipt_id,
        ns_publication_authorization_receipt_digest = receipt_digest,
        ns_failure_reason = failure_reason\<rparr>)))))))))))))))))))))))))"

definition node_to_dict :: "node_snapshot \<Rightarrow> pyval" where
  "node_to_dict n = PDict
     ([(''node_id'', PStr (ns_node_id n)),
       (''state'', PStr (node_state_value (ns_state n))),
       (''fencing_epoch'', PInt (ns_fencing_epoch n)),
       (''lease_actor_id'', py_opt_str (ns_lease_actor_id n)),
       (''implementation_attempts'', PInt (ns_implementation_attempts n)),
       (''validation_corrections'', PInt (ns_validation_corrections n))]
      @ (if ns_validation_correction n = PNone then []
         else [(''validation_correction'', py_primitive (ns_validation_correction n))])
      @ [(''review_generations'', PInt (ns_review_generations n)),
         (''repair_attempts'', PInt (ns_repair_attempts n)),
         (''closure_generations'', PInt (ns_closure_generations n)),
         (''start_head'', py_opt_str (ns_start_head n)),
         (''candidate_head'', py_opt_str (ns_candidate_head n)),
         (''candidate_tree'', py_opt_str (ns_candidate_tree n)),
         (''candidate_diff_digest'', py_opt_str (ns_candidate_diff_digest n)),
         (''candidate_node_diff_digest'', py_opt_str (ns_candidate_node_diff_digest n)),
         (''findings'', PList (map finding_to_dict (ns_findings n))),
         (''closure_findings'', PList (map finding_to_dict (ns_closure_findings n))),
         (''resolved_finding_ids'', PList (map PStr (ns_resolved_finding_ids n))),
         (''completed_publication_effects'', PList (map PStr (ns_completed_publication_effects n))),
         (''publication_operation_ids'', PList (map PStr (ns_publication_operation_ids n))),
         (''pending_publication_effect'', py_opt_str (ns_pending_publication_effect n)),
         (''pending_publication_operation_id'', py_opt_str (ns_pending_publication_operation_id n)),
         (''publication_authorization_receipt_id'', py_opt_str (ns_publication_authorization_receipt_id n)),
         (''publication_authorization_receipt_digest'', py_opt_str (ns_publication_authorization_receipt_digest n)),
         (''failure_reason'', py_opt_str (ns_failure_reason n))])"

section \<open>Campaign snapshots\<close>

record campaign_snapshot =
  cs_spec :: campaign_spec
  cs_revision :: int
  cs_state :: campaign_state
  cs_authority_epoch :: int
  cs_cancellation_epoch :: int
  cs_cancellation_state :: cancellation_state
  cs_nodes :: "node_snapshot list"
  cs_budgets :: "budget_balance list"
  cs_budget_receipts :: "budget_receipt list"
  cs_autonomous_rank_remaining :: int
  cs_active_node_id :: "string option"
  cs_failure_reason :: "string option"

definition snapshot_post_init :: "campaign_snapshot \<Rightarrow> campaign_snapshot res" where
  "snapshot_post_init s =
     requireAll
       [(0 \<le> cs_revision s \<and> 0 \<le> cs_authority_epoch s \<and> 0 \<le> cs_cancellation_epoch s,
         ModelValidationError ''snapshot revisions and epochs must not be negative''),
        (0 \<le> cs_autonomous_rank_remaining s, ModelValidationError ''autonomous rank must not be negative''),
        (set (map ns_node_id (cs_nodes s)) = set (map nd_node_id (sp_nodes (cs_spec s))),
         ModelValidationError ''snapshot node set differs from immutable graph'')]
       (Inr s)"

definition snapshot_initial :: "campaign_spec \<Rightarrow> campaign_snapshot res" where
  "snapshot_initial spec =
     bindE (verify_digest spec) (\<lambda>_.
     bindE (mapE node_post_init (map (\<lambda>n. node_default (nd_node_id n)) (sp_nodes spec))) (\<lambda>nodes.
     bindE (mapE (\<lambda>b. budget_balance_post_init
              \<lparr>bb_token = ab_token b, bb_limit = ab_limit b, bb_consumed = 0\<rparr>)
            (sort_key (\<lambda>b. budget_token_value (ab_token b)) (sp_attempt_budgets spec))) (\<lambda>budgets.
     snapshot_post_init
       \<lparr>cs_spec = spec, cs_revision = 0, cs_state = CS_DRAFT,
        cs_authority_epoch = sp_authority_epoch spec,
        cs_cancellation_epoch = sp_cancellation_epoch spec, cs_cancellation_state = CN_ACTIVE,
        cs_nodes = nodes, cs_budgets = budgets, cs_budget_receipts = [],
        cs_autonomous_rank_remaining = sp_autonomous_rank spec, cs_active_node_id = None,
        cs_failure_reason = None\<rparr>)))"

definition snapshot_from_dict :: "(string \<Rightarrow> string) \<Rightarrow> pyval \<Rightarrow> campaign_snapshot res" where
  "snapshot_from_dict resolve v =
     bindE (bindE (py_item v ''spec'') (campaign_spec_from_dict resolve True)) (\<lambda>spec.
     bindE (item_int v ''revision'') (\<lambda>revision.
     bindE (bindE (py_item v ''state'') campaign_state_of) (\<lambda>state.
     bindE (item_int v ''authority_epoch'') (\<lambda>authority_epoch.
     bindE (item_int v ''cancellation_epoch'') (\<lambda>cancellation_epoch.
     bindE (bindE (py_item v ''cancellation_state'') cancellation_state_of) (\<lambda>cancellation_state.
     bindE (item_list node_from_dict v ''nodes'') (\<lambda>nodes.
     bindE (get_list budget_balance_from_dict v ''budgets'') (\<lambda>budgets.
     bindE (get_list budget_receipt_from_dict v ''budget_receipts'') (\<lambda>budget_receipts.
     bindE (item_int v ''autonomous_rank_remaining'') (\<lambda>autonomous_rank_remaining.
     bindE (truthy_item_str v ''active_node_id'') (\<lambda>active_node_id.
     bindE (truthy_item_str v ''failure_reason'') (\<lambda>failure_reason.
     snapshot_post_init
       \<lparr>cs_spec = spec, cs_revision = revision, cs_state = state,
        cs_authority_epoch = authority_epoch, cs_cancellation_epoch = cancellation_epoch,
        cs_cancellation_state = cancellation_state, cs_nodes = nodes, cs_budgets = budgets,
        cs_budget_receipts = budget_receipts,
        cs_autonomous_rank_remaining = autonomous_rank_remaining,
        cs_active_node_id = active_node_id, cs_failure_reason = failure_reason\<rparr>))))))))))))"

definition snapshot_to_dict :: "campaign_snapshot \<Rightarrow> pyval" where
  "snapshot_to_dict s = PDict
     [(''spec'', campaign_spec_to_dict (cs_spec s)),
      (''revision'', PInt (cs_revision s)),
      (''state'', PStr (campaign_state_value (cs_state s))),
      (''authority_epoch'', PInt (cs_authority_epoch s)),
      (''cancellation_epoch'', PInt (cs_cancellation_epoch s)),
      (''cancellation_state'', PStr (cancellation_state_value (cs_cancellation_state s))),
      (''nodes'', PList (map node_to_dict (cs_nodes s))),
      (''budgets'', PList (map budget_balance_to_dict (cs_budgets s))),
      (''budget_receipts'', PList (map budget_receipt_to_dict (cs_budget_receipts s))),
      (''autonomous_rank_remaining'', PInt (cs_autonomous_rank_remaining s)),
      (''active_node_id'', py_opt_str (cs_active_node_id s)),
      (''failure_reason'', py_opt_str (cs_failure_reason s))]"

text \<open>\<open>CampaignSnapshot.node\<close> and \<open>CampaignSnapshot.node_spec\<close>\<close>

definition snapshot_node :: "campaign_snapshot \<Rightarrow> string \<Rightarrow> node_snapshot res" where
  "snapshot_node s node_id =
     (case find (\<lambda>n. ns_node_id n = node_id) (cs_nodes s) of
        Some n \<Rightarrow> Inr n
      | None \<Rightarrow> Inl (TransitionError (''unknown node: '' @ node_id)))"

definition snapshot_node_spec :: "campaign_snapshot \<Rightarrow> string \<Rightarrow> node_spec res" where
  "snapshot_node_spec s node_id =
     (case find (\<lambda>n. nd_node_id n = node_id) (sp_nodes (cs_spec s)) of
        Some n \<Rightarrow> Inr n
      | None \<Rightarrow> Inl (TransitionError (''unknown node: '' @ node_id)))"

text \<open>\<open>required[token] = required.get(token, 0) + 1\<close>\<close>

fun bump_token :: "budget_token \<Rightarrow> (budget_token \<times> int) list \<Rightarrow> (budget_token \<times> int) list" where
  "bump_token t [] = [(t, 1)]"
| "bump_token t ((u, n) # ns) = (if u = t then (u, n + 1) # ns else (u, n) # bump_token t ns)"

text \<open>The local table \<open>tokens\<close>; a missing key raises \<open>KeyError\<close>.\<close>

definition publication_token :: "pyval \<Rightarrow> budget_token res" where
  "publication_token effect =
     (if effect = PStr ''PUSH'' then Inr BT_PUSH
      else if effect = PStr ''CREATE_PULL_REQUEST'' then Inr BT_PULL_REQUEST_CREATION
      else if effect = PStr ''UPSERT_COMMENT'' then Inr BT_COMMENT
      else if effect = PStr ''MERGE'' then Inr BT_MERGE
      else Inl (KeyError (py_repr effect)))"

definition correction_budget_requirements :: "campaign_snapshot \<Rightarrow> string \<Rightarrow> (budget_token \<times> int) list res" where
  "correction_budget_requirements s node_id =
     (let cohort = int (length (sp_required_review_cohort (cs_spec s)));
          authority = sp_publication_authority (cs_spec s)
      in bindE (get_tuple authority ''required_effects'') (\<lambda>sequence.
         bindE (snapshot_node s node_id) (\<lambda>node.
         let remaining_effects = drop (length (ns_completed_publication_effects node)) sequence
         in bindE (snapshot_node_spec s node_id) (\<lambda>node_spec.
            bindE (foldE (\<lambda>effect required. bindE (publication_token effect)
                     (\<lambda>token. Inr (bump_token token required))) remaining_effects
                [(BT_CHILD_CREATION, 1 + cohort), (BT_CHILD_START, 1 + cohort),
                 (BT_VALIDATION_EXECUTION,
                    int (length (nd_validation_command_ids node_spec)) + int (length remaining_effects)),
                 (BT_REVIEW_DISPATCH, 1)]) (\<lambda>required.
            bindE (py_get authority ''required_hosted_checks'' PNone) (\<lambda>checks.
            Inr (if PStr ''MERGE'' \<in> set remaining_effects \<and> py_truthy checks
                 then required @ [(BT_HOSTED_CHECK_WAKEUP, 1)] else required)))))))"

section \<open>Events\<close>

record event =
  ev_event_id :: string
  ev_campaign_id :: string
  ev_event_type :: event_type
  ev_expected_revision :: int
  ev_authority_epoch :: int
  ev_cancellation_epoch :: int
  ev_node_id :: "string option"
  ev_actor_id :: "string option"
  ev_fencing_epoch :: "int option"
  ev_payload :: pyval

definition event_post_init :: "event \<Rightarrow> event res" where
  "event_post_init e =
     requireAll
       [named (ev_event_id e) ''event_id'',
        named (ev_campaign_id e) ''campaign_id'',
        (0 \<le> ev_expected_revision e \<and> 0 \<le> ev_authority_epoch e \<and> 0 \<le> ev_cancellation_epoch e,
         ModelValidationError ''event revisions and epochs must not be negative''),
        (case ev_fencing_epoch e of None \<Rightarrow> True | Some f \<Rightarrow> 0 < f,
         ModelValidationError ''event fencing epoch must be positive'')]
       (Inr (e\<lparr>ev_payload := py_freeze (ev_payload e)\<rparr>))"

definition event_from_dict :: "pyval \<Rightarrow> event res" where
  "event_from_dict v =
     bindE (item_str v ''event_id'') (\<lambda>event_id.
     bindE (item_str v ''campaign_id'') (\<lambda>campaign_id.
     bindE (py_get v ''type'' PNone) (\<lambda>type_default.
     bindE (bindE (py_get v ''event_type'' type_default) event_type_of) (\<lambda>event_type.
     bindE (item_int v ''expected_revision'') (\<lambda>expected_revision.
     bindE (item_int v ''authority_epoch'') (\<lambda>authority_epoch.
     bindE (item_int v ''cancellation_epoch'') (\<lambda>cancellation_epoch.
     bindE (opt_item_str v ''node_id'') (\<lambda>node_id.
     bindE (opt_item_str v ''actor_id'') (\<lambda>actor_id.
     bindE (opt_item_int v ''fencing_epoch'') (\<lambda>fencing_epoch.
     bindE (py_get v ''payload'' (PDict [])) (\<lambda>payload.
     event_post_init
       \<lparr>ev_event_id = event_id, ev_campaign_id = campaign_id, ev_event_type = event_type,
        ev_expected_revision = expected_revision, ev_authority_epoch = authority_epoch,
        ev_cancellation_epoch = cancellation_epoch, ev_node_id = node_id, ev_actor_id = actor_id,
        ev_fencing_epoch = fencing_epoch, ev_payload = payload\<rparr>)))))))))))"

definition event_to_dict :: "event \<Rightarrow> pyval" where
  "event_to_dict e = PDict
     [(''event_id'', PStr (ev_event_id e)),
      (''campaign_id'', PStr (ev_campaign_id e)),
      (''event_type'', PStr (event_type_value (ev_event_type e))),
      (''expected_revision'', PInt (ev_expected_revision e)),
      (''authority_epoch'', PInt (ev_authority_epoch e)),
      (''cancellation_epoch'', PInt (ev_cancellation_epoch e)),
      (''node_id'', py_opt_str (ev_node_id e)),
      (''actor_id'', py_opt_str (ev_actor_id e)),
      (''fencing_epoch'', py_opt_int (ev_fencing_epoch e)),
      (''payload'', py_primitive (ev_payload e))]"

section \<open>Updates of a snapshot\<close>

definition replace_node :: "campaign_snapshot \<Rightarrow> node_snapshot \<Rightarrow> campaign_snapshot res" where
  "replace_node s updated =
     snapshot_post_init
       (s\<lparr>cs_nodes := map (\<lambda>n. if ns_node_id n = ns_node_id updated then updated else n) (cs_nodes s)\<rparr>)"

text \<open>One round of the loop of \<open>unique_findings\<close>, over a dictionary of findings.\<close>

definition add_finding :: "finding_origin \<Rightarrow> pyval \<Rightarrow> (string \<times> finding) list \<Rightarrow> (string \<times> finding) list res" where
  "add_finding origin v findings =
     bindE (finding_from_dict origin v) (\<lambda>finding.
     requireE (fi_origin finding = origin)
       (TransitionError ''finding origin differs from its review phase'')
    (case map_of findings (fi_finding_id finding) of
       None \<Rightarrow> Inr (findings @ [(fi_finding_id finding, finding)])
     | Some prior \<Rightarrow>
         requireE (fi_blocking prior = fi_blocking finding \<and> py_eq (fi_details prior) (fi_details finding))
           (TransitionError ''same finding identifier has conflicting evidence or blocking status'')
        (bindE (finding_post_init (prior\<lparr>fi_title := min (fi_title prior) (fi_title finding)\<rparr>)) (\<lambda>merged.
         Inr (map (\<lambda>(k, f). if k = fi_finding_id finding then (k, merged) else (k, f)) findings)))))"

definition unique_findings :: "pyval list \<Rightarrow> finding_origin \<Rightarrow> finding list res" where
  "unique_findings vs origin =
     bindE (foldE (add_finding origin) vs []) (\<lambda>findings. Inr (map snd (sort_key fst findings)))"

end
