(* ===== verification/Reducer.thy ===== *)
theory Reducer
  imports Campaign_State
begin

text \<open>
  The lifecycle reducer of reducer.py: the helpers \<open>_node_for\<close>, \<open>_check_fence\<close>,
  \<open>_consume_budget\<close>, \<open>_effect\<close>, \<open>_dispatch_effect\<close>,
  \<open>_fail_exact_node\<close> and \<open>_finish_revision\<close>, one definition per branch of
  \<open>reduce\<close>, and \<open>reduce_event\<close>, the function itself.  Every
  \<open>dataclasses.replace\<close> of the source runs the \<open>__post_init__\<close> of its class
  here too, so each update can raise as it does there.  The lemmas of the last section invert
  the helpers: they say what a call that returned has changed.
\<close>

section \<open>Terminal states and tables\<close>

definition TERMINAL_CAMPAIGN_STATES :: "campaign_state set" where
  "TERMINAL_CAMPAIGN_STATES = {CS_COMPLETED, CS_FAILED, CS_CANCELLED}"

definition TERMINAL_NODE_STATES :: "node_state set" where
  "TERMINAL_NODE_STATES = {NS_DONE, NS_FAILED_EXACT_NODE, NS_CANCELLED}"

fun dispatch_token :: "event_type \<Rightarrow> budget_token option" where
  "dispatch_token EV_START_IMPLEMENTATION = Some BT_CHILD_START"
| "dispatch_token EV_START_REVIEW = Some BT_REVIEW_DISPATCH"
| "dispatch_token EV_START_REPAIR = Some BT_REPAIR_DISPATCH"
| "dispatch_token EV_REVALIDATION_PASSED = Some BT_CLOSURE_DISPATCH"
| "dispatch_token EV_START_CLOSURE = Some BT_CLOSURE_DISPATCH"
| "dispatch_token _ = None"

fun publish_token :: "effect_kind \<Rightarrow> budget_token option" where
  "publish_token EK_PUSH = Some BT_PUSH"
| "publish_token EK_CREATE_PULL_REQUEST = Some BT_PULL_REQUEST_CREATION"
| "publish_token EK_UPSERT_COMMENT = Some BT_COMMENT"
| "publish_token EK_MERGE = Some BT_MERGE"
| "publish_token _ = None"

definition FENCED_EVENTS :: "event_type set" where
  "FENCED_EVENTS = {EV_START_IMPLEMENTATION, EV_IMPLEMENTATION_COMPLETED,
     EV_REQUEST_VALIDATION_CORRECTION, EV_VALIDATION_PASSED, EV_VALIDATION_FAILED,
     EV_START_REPAIR, EV_REPAIR_COMPLETED, EV_REVALIDATION_PASSED, EV_REVALIDATION_FAILED,
     EV_START_CLOSURE}"

section \<open>Helpers\<close>

abbreviation require :: "bool \<Rightarrow> string \<Rightarrow> 'a res \<Rightarrow> 'a res" where
  "require c msg m \<equiv> requireE c (TransitionError msg) m"

text \<open>\<open>a and b and ...\<close> over conditions that may raise: the first false one decides.\<close>

fun all_res :: "bool res list \<Rightarrow> bool res" where
  "all_res [] = Inr True"
| "all_res (c # cs) = bindE c (\<lambda>b. if b then all_res cs else Inr False)"

text \<open>\<open>dict(v)\<close>.  A key that is not a string raises \<open>TypeError\<close>: every caller adds
  a string key and freezes the result, which sorts the keys.\<close>

definition py_dict :: "pyval \<Rightarrow> pydict res" where
  "py_dict v =
     (case as_mapping v of
        Some d \<Rightarrow> Inr d
      | None \<Rightarrow> bindE (py_iter v) (\<lambda>items.
          foldE (\<lambda>item d. bindE (py_iter item) (\<lambda>kv.
            case kv of
              [k, x] \<Rightarrow> (case k of PStr s \<Rightarrow> Inr (dict_set s x d)
                          | _ \<Rightarrow> Inl (TypeError ''keys are not strings''))
            | _ \<Rightarrow> Inl (ValueError ''dictionary update sequence element has the wrong length'')))
            items []))"

text \<open>\<open>str(event.payload.get(k, d))\<close> and the same with \<open>.strip()\<close>\<close>

definition payload_str :: "event \<Rightarrow> string \<Rightarrow> string \<Rightarrow> string res" where
  "payload_str e k d = get_str (ev_payload e) k d"

definition payload_text :: "event \<Rightarrow> string \<Rightarrow> string res" where
  "payload_text e k = bindE (get_str (ev_payload e) k []) (\<lambda>s. Inr (py_strip s))"

definition node_for :: "campaign_snapshot \<Rightarrow> event \<Rightarrow> node_snapshot res" where
  "node_for s e =
     (case ev_node_id e of
        Some (c # cs) \<Rightarrow> snapshot_node s (c # cs)
      | _ \<Rightarrow> Inl (TransitionError (event_type_value (ev_event_type e) @ '' requires node_id'')))"

text \<open>\<open>_replace_node(snapshot, replace(node, ...))\<close>\<close>

definition update_node :: "campaign_snapshot \<Rightarrow> node_snapshot \<Rightarrow> campaign_snapshot res" where
  "update_node s n = bindE (node_post_init n) (replace_node s)"

definition check_fence :: "campaign_snapshot \<Rightarrow> event \<Rightarrow> node_snapshot \<Rightarrow> unit res" where
  "check_fence s e n =
     (if ev_event_type e \<notin> FENCED_EVENTS then Inr ()
      else if sp_mode (cs_spec s) = MANUAL \<and> ns_lease_actor_id n = None then Inr ()
      else requireAll
        [(ns_lease_actor_id n \<noteq> None, FencingError ''automated node action requires an active actor lease''),
         (ev_actor_id e = ns_lease_actor_id n, FencingError ''event actor does not own the active node lease''),
         (ev_fencing_epoch e = Some (ns_fencing_epoch n), FencingError ''event fencing epoch is stale or absent'')]
        (Inr ()))"

text \<open>One round of the loop over the balances.\<close>

definition consume_balance :: "budget_token \<Rightarrow> budget_balance \<Rightarrow> budget_balance res" where
  "consume_balance token b =
     (if bb_token b = token
      then requireE (0 < bb_remaining b)
             (BudgetError (''attempt budget is exhausted: '' @ budget_token_value token))
             (budget_balance_post_init (b\<lparr>bb_consumed := bb_consumed b + 1\<rparr>))
      else Inr b)"

definition consume_budget :: "campaign_snapshot \<Rightarrow> budget_token \<Rightarrow> string \<Rightarrow> campaign_snapshot res" where
  "consume_budget s token request_id =
     requireAll
       [(\<not> list_ex (\<lambda>r. br_request_id r = request_id) (cs_budget_receipts s),
         BudgetError ''budget request identifier was already consumed''),
        (0 < cs_autonomous_rank_remaining s, BudgetError ''autonomous-operation rank is exhausted'')]
     (bindE (mapE (consume_balance token) (cs_budgets s)) (\<lambda>updated.
      requireE (list_ex (\<lambda>b. bb_token b = token) (cs_budgets s))
        (BudgetError (''attempt budget is not declared: '' @ budget_token_value token))
     (bindE (budget_receipt_post_init
        \<lparr>br_request_id = request_id, br_token = token, br_revision = cs_revision s + 1\<rparr>) (\<lambda>receipt.
      snapshot_post_init
        (s\<lparr>cs_budgets := updated, cs_budget_receipts := cs_budget_receipts s @ [receipt],
           cs_autonomous_rank_remaining := cs_autonomous_rank_remaining s - 1\<rparr>)))))"

definition consume_automated :: "campaign_snapshot \<Rightarrow> event \<Rightarrow> budget_token \<Rightarrow> campaign_snapshot res" where
  "consume_automated s e token =
     (if sp_mode (cs_spec s) = MANUAL then Inr s
      else bindE (py_get (ev_payload e) ''budget_token'' PNone) (\<lambda>supplied.
        requireE (py_eq supplied (PStr (budget_token_value token)))
          (BudgetError (event_type_value (ev_event_type e) @ '' requires budget token '' @ budget_token_value token))
          (consume_budget s token (ev_event_id e))))"

text \<open>\<open>_effect\<close> with an explicit payload, which every caller supplies.  An empty
  \<open>operation_id\<close> stands for an absent one, as \<open>operation_id or ...\<close> does.\<close>

definition make_effect :: "campaign_snapshot \<Rightarrow> event \<Rightarrow> effect_kind \<Rightarrow> bool \<Rightarrow> pyval \<Rightarrow> string \<Rightarrow> effect_intent res" where
  "make_effect s e kind external payload operation_id =
     bindE (if operation_id \<noteq> [] then Inr operation_id else payload_text e ''operation_id'') (\<lambda>identity.
     require (identity \<noteq> []) (event_type_value (ev_event_type e) @ '' requires stable operation_id'')
    (effect_post_init
       \<lparr>ef_operation_id = identity, ef_campaign_id = sp_campaign_id (cs_spec s),
        ef_node_id = ev_node_id e, ef_kind = kind, ef_state = ES_PREPARED, ef_payload = payload,
        ef_authority_epoch = cs_authority_epoch s, ef_cancellation_epoch = cs_cancellation_epoch s,
        ef_fencing_epoch = ev_fencing_epoch e, ef_external = external\<rparr>))"

type_synonym reduction = "campaign_snapshot \<times> effect_intent list"

definition dispatch_effect :: "campaign_snapshot \<Rightarrow> event \<Rightarrow> string \<Rightarrow> reduction res" where
  "dispatch_effect s e role =
     (case dispatch_token (ev_event_type e) of
        None \<Rightarrow> Inl (KeyError (event_type_value (ev_event_type e)))
      | Some token \<Rightarrow>
          bindE (consume_automated s e token) (\<lambda>next.
          bindE (payload_text e ''operation_id'') (\<lambda>operation_id.
          if operation_id = []
          then require (sp_mode (cs_spec s) \<noteq> AUTOMATED)
                 ''automated dispatch requires stable operation_id'' (Inr (next, []))
          else bindE (py_get (ev_payload e) ''effect_payload'' (PDict [])) (\<lambda>p.
               bindE (py_dict p) (\<lambda>payload.
               bindE (make_effect next e EK_DISPATCH_WORKER False
                  (PDict (dict_set ''node_id'' (py_opt_str (ev_node_id e))
                     (dict_set ''campaign_id'' (PStr (sp_campaign_id (cs_spec s)))
                       (dict_set ''role'' (PStr role) payload)))) operation_id) (\<lambda>effect.
               Inr (next, [effect])))))))"

definition fail_exact_node :: "campaign_snapshot \<Rightarrow> node_snapshot \<Rightarrow> string \<Rightarrow> campaign_snapshot res" where
  "fail_exact_node s n reason =
     bindE (update_node s
       (n\<lparr>ns_state := NS_FAILED_EXACT_NODE, ns_failure_reason := Some reason,
          ns_fencing_epoch := ns_fencing_epoch n + 1, ns_lease_actor_id := None\<rparr>)) (\<lambda>t.
     snapshot_post_init
       (t\<lparr>cs_state := CS_FAILED, cs_active_node_id := None, cs_failure_reason := Some reason\<rparr>))"

definition finish_revision :: "campaign_snapshot \<Rightarrow> reduction \<Rightarrow> reduction res" where
  "finish_revision previous = (\<lambda>(next, effects).
     let receipt_delta = int (length (cs_budget_receipts next)) - int (length (cs_budget_receipts previous));
         rank_delta = cs_autonomous_rank_remaining previous - cs_autonomous_rank_remaining next
     in requireAll
       [(cs_spec next = cs_spec previous, TransitionError ''approved campaign specification is immutable''),
        (sp_specification_digest (cs_spec next) = sp_specification_digest (cs_spec previous),
         TransitionError ''approved campaign digest is immutable''),
        (cs_autonomous_rank_remaining next \<le> cs_autonomous_rank_remaining previous,
         TransitionError ''autonomous-operation rank may never increase''),
        (receipt_delta = rank_delta \<and> receipt_delta \<in> {0, 1},
         TransitionError ''each autonomous operation must consume exactly one rank and budget token'')]
       (bindE (snapshot_post_init (next\<lparr>cs_revision := cs_revision previous + 1\<rparr>)) (\<lambda>s. Inr (s, effects))))"

text \<open>A branch that emits no effect.\<close>

definition silent :: "campaign_snapshot res \<Rightarrow> reduction res" where
  "silent m = bindE m (\<lambda>s. Inr (s, []))"

section \<open>Campaign events\<close>

definition reduce_approve :: "campaign_snapshot \<Rightarrow> event \<Rightarrow> campaign_snapshot res" where
  "reduce_approve s e =
     require (cs_state s = CS_DRAFT) ''only draft campaigns can be approved''
    (bindE (verify_digest (cs_spec s)) (\<lambda>_.
     bindE (py_get (ev_payload e) ''specification_digest'' PNone) (\<lambda>supplied.
     require (py_eq supplied (PStr (sp_specification_digest (cs_spec s))))
       ''approval must bind the exact specification digest''
       (snapshot_post_init (s\<lparr>cs_state := CS_APPROVED\<rparr>)))))"

definition reduce_start :: "campaign_snapshot \<Rightarrow> campaign_snapshot res" where
  "reduce_start s =
     require (cs_state s = CS_APPROVED) ''campaign is not approved''
       (snapshot_post_init (s\<lparr>cs_state := CS_RUNNING\<rparr>))"

definition reduce_wait :: "campaign_snapshot \<Rightarrow> event \<Rightarrow> campaign_snapshot res" where
  "reduce_wait s e =
     require (cs_state s = CS_RUNNING) ''only running campaigns may wait''
       (snapshot_post_init (s\<lparr>cs_state :=
          (if ev_event_type e = EV_WAIT_EXTERNAL then CS_WAITING_EXTERNAL else CS_WAITING_HUMAN)\<rparr>))"

definition reduce_resume :: "campaign_snapshot \<Rightarrow> campaign_snapshot res" where
  "reduce_resume s =
     require (cs_state s \<in> {CS_WAITING_EXTERNAL, CS_WAITING_HUMAN}) ''campaign is not waiting''
       (snapshot_post_init (s\<lparr>cs_state := CS_RUNNING\<rparr>))"

definition reduce_advance_authority :: "campaign_snapshot \<Rightarrow> event \<Rightarrow> campaign_snapshot res" where
  "reduce_advance_authority s e =
     require (cs_state s = CS_WAITING_HUMAN) ''authority may rotate only while waiting for a human event''
    (bindE (get_int (ev_payload e) ''new_authority_epoch'' (-1)) (\<lambda>requested.
     require (requested = cs_authority_epoch s + 1) ''authority epoch must advance by one''
    (bindE (mapE (\<lambda>n. node_post_init (n\<lparr>ns_lease_actor_id := None\<rparr>)) (cs_nodes s)) (\<lambda>nodes.
     snapshot_post_init (s\<lparr>cs_authority_epoch := requested, cs_nodes := nodes\<rparr>)))))"

definition cancel_node :: "node_snapshot \<Rightarrow> node_snapshot res" where
  "cancel_node n =
     (if ns_state n \<in> TERMINAL_NODE_STATES then Inr n
      else node_post_init (n\<lparr>ns_state := NS_CANCELLED, ns_lease_actor_id := None\<rparr>))"

definition reduce_cancel :: "campaign_snapshot \<Rightarrow> event \<Rightarrow> reduction res" where
  "reduce_cancel s e =
     bindE (mapE cancel_node (cs_nodes s)) (\<lambda>nodes.
     bindE (payload_str e ''reason'' ''STOP'') (\<lambda>reason.
     bindE (snapshot_post_init
       (s\<lparr>cs_state := CS_CANCELLED, cs_cancellation_state := CN_CANCELLED,
          cs_cancellation_epoch := cs_cancellation_epoch s + 1, cs_nodes := nodes,
          cs_active_node_id := None, cs_failure_reason := Some reason\<rparr>)) (\<lambda>next.
     bindE (make_effect s e EK_INTERRUPT_WORKER False (PDict [(''reason'', PStr reason)])
       (ev_event_id e @ '':interrupt'')) (\<lambda>interrupt.
     bindE (make_effect s e EK_RECONCILE_EFFECT False (PDict [(''reason'', PStr ''campaign_cancelled'')])
       (ev_event_id e @ '':reconcile'')) (\<lambda>reconcile.
     Inr (next, [interrupt, reconcile]))))))"

definition reduce_consume_budget :: "campaign_snapshot \<Rightarrow> event \<Rightarrow> campaign_snapshot res" where
  "reduce_consume_budget s e =
     require (cs_state s = CS_RUNNING) ''campaign is not running''
    (case bindE (item_str (ev_payload e) ''token'') (enum_new budget_tokens budget_token_value ''BudgetToken'') of
       Inr token \<Rightarrow> consume_budget s token (ev_event_id e)
     | Inl (KeyError _) \<Rightarrow> Inl (BudgetError ''consume-budget event has an invalid token'')
     | Inl (ValueError _) \<Rightarrow> Inl (BudgetError ''consume-budget event has an invalid token'')
     | Inl err \<Rightarrow> Inl err)"

section \<open>Admission and leases\<close>

definition reduce_admit_node :: "campaign_snapshot \<Rightarrow> event \<Rightarrow> campaign_snapshot res" where
  "reduce_admit_node s e =
     require (cs_state s = CS_RUNNING) ''campaign is not running''
    (bindE (node_for s e) (\<lambda>n.
     require (ns_state n = NS_PENDING) ''node is not pending''
    (require (cs_active_node_id s \<in> {None, Some (ns_node_id n)})
       ''deterministic supervisor already has an active node''
    (bindE (snapshot_node_spec s (ns_node_id n)) (\<lambda>node_spec.
     bindE (mapE (\<lambda>dependency. bindE (snapshot_node s dependency) (\<lambda>d.
         require (ns_state d = NS_DONE) (''dependency is not done: '' @ dependency) (Inr ())))
       (nd_dependencies node_spec)) (\<lambda>_.
     bindE (payload_text e ''start_head'') (\<lambda>text.
     let start_head = casefold text
     in require (length start_head = 40 \<and> list_all hex_lower start_head)
          ''node admission requires the exact 40-character start_head''
       (require (ns_start_head n = None) ''node start head is already frozen''
       (bindE (update_node s (n\<lparr>ns_state := NS_ADMITTED, ns_start_head := Some start_head\<rparr>)) (\<lambda>t.
        snapshot_post_init (t\<lparr>cs_active_node_id := Some (ns_node_id n)\<rparr>)))))))))))"

definition reduce_acquire_lease :: "campaign_snapshot \<Rightarrow> event \<Rightarrow> campaign_snapshot res" where
  "reduce_acquire_lease s e =
     require (cs_state s = CS_RUNNING) ''campaign is not running''
    (bindE (node_for s e) (\<lambda>n.
     require (ns_state n \<notin> TERMINAL_NODE_STATES) ''terminal node cannot be leased''
    (require (ns_lease_actor_id n = None) ''node already has an active actor lease''
    (require (ev_actor_id e \<noteq> None \<and> ev_actor_id e \<noteq> Some []) ''lease acquisition requires actor_id''
    (case ev_fencing_epoch e of
       None \<Rightarrow> Inl (TransitionError ''lease fencing epoch must advance beyond the node fence'')
     | Some epoch \<Rightarrow>
         require (ns_fencing_epoch n < epoch) ''lease fencing epoch must advance beyond the node fence''
           (update_node s (n\<lparr>ns_fencing_epoch := epoch, ns_lease_actor_id := ev_actor_id e\<rparr>)))))))"

definition reduce_release_lease :: "campaign_snapshot \<Rightarrow> event \<Rightarrow> campaign_snapshot res" where
  "reduce_release_lease s e =
     bindE (node_for s e) (\<lambda>n.
     require (ns_lease_actor_id n \<noteq> None) ''node has no active actor lease''
    (requireE (ev_actor_id e = ns_lease_actor_id n \<and> ev_fencing_epoch e = Some (ns_fencing_epoch n))
       (FencingError ''only the exact fenced lease owner can release a lease'')
       (update_node s (n\<lparr>ns_lease_actor_id := None\<rparr>))))"

section \<open>Implementation and validation\<close>

text \<open>\<open>node = next_snapshot.node(node.node_id)\<close> after a dispatch, then its update.\<close>

definition dispatched_update ::
  "campaign_snapshot \<Rightarrow> event \<Rightarrow> string \<Rightarrow> node_snapshot \<Rightarrow> (node_snapshot \<Rightarrow> node_snapshot) \<Rightarrow> reduction res" where
  "dispatched_update s e role n f =
     bindE (dispatch_effect s e role) (\<lambda>(next, effects).
     bindE (snapshot_node next (ns_node_id n)) (\<lambda>m.
     bindE (update_node next (f m)) (\<lambda>t. Inr (t, effects))))"

definition reduce_start_implementation :: "campaign_snapshot \<Rightarrow> event \<Rightarrow> reduction res" where
  "reduce_start_implementation s e =
     require (cs_state s = CS_RUNNING) ''campaign is not running''
    (bindE (node_for s e) (\<lambda>n.
     bindE (check_fence s e n) (\<lambda>_.
     require (ns_state n = NS_ADMITTED) ''node is not admitted''
    (require (ns_start_head n \<noteq> None \<and> ns_start_head n \<noteq> Some [])
       ''node has no immutable admitted start head''
    (require (ns_implementation_attempts n = 0) ''implementation generation already used''
    (dispatched_update s e ''IMPLEMENTER'' n
       (\<lambda>m. m\<lparr>ns_state := NS_IMPLEMENTING, ns_implementation_attempts := 1\<rparr>)))))))"

definition reduce_implementation_completed :: "campaign_snapshot \<Rightarrow> event \<Rightarrow> campaign_snapshot res" where
  "reduce_implementation_completed s e =
     bindE (node_for s e) (\<lambda>n.
     bindE (check_fence s e n) (\<lambda>_.
     require (ns_state n = NS_IMPLEMENTING) ''node is not implementing''
       (update_node s (n\<lparr>ns_state := NS_VALIDATING\<rparr>))))"

text \<open>The three conditions of the validation correction: an approved command with a policy, the
  binding of the evidence to the campaign, and the recognition of the failure.\<close>

definition correction_approved :: "campaign_snapshot \<Rightarrow> node_snapshot \<Rightarrow> validation_command option \<Rightarrow> bool res" where
  "correction_approved s n command =
     (case command of
        None \<Rightarrow> Inr False
      | Some c \<Rightarrow>
          if vc_correction_policy c = PNone then Inr False
          else bindE (snapshot_node_spec s (ns_node_id n)) (\<lambda>spec.
            Inr (vc_command_id c \<in> set (nd_validation_command_ids spec))))"

definition correction_binds :: "campaign_snapshot \<Rightarrow> validation_command \<Rightarrow> pydict \<Rightarrow> bool res" where
  "correction_binds s c correction =
     (let get = (\<lambda>k. dict_get correction k PNone);
          same_item = (\<lambda>k. bindE (py_item (vc_correction_policy c) k) (\<lambda>x. Inr (py_eq (get k) x)))
      in all_res
        [Inr (py_eq (get ''specification_digest'') (PStr (sp_specification_digest (cs_spec s)))),
         Inr (py_eq (get ''authority_epoch'') (PInt (cs_authority_epoch s))),
         Inr (py_eq (get ''cancellation_epoch'') (PInt (cs_cancellation_epoch s))),
         same_item ''expectation_id'', same_item ''test_id'', same_item ''adapter'',
         Inr (py_truthy (get ''evidence_id'')), Inr (py_truthy (get ''evidence_digest'')),
         Inr (py_truthy (get ''candidate_head''))])"

definition correction_recognized :: "validation_command \<Rightarrow> pydict \<Rightarrow> bool res" where
  "correction_recognized c correction =
     (let failure = dict_get correction ''failure_evidence'' (PDict []);
          same = (\<lambda>k k'. bindE (py_get failure k PNone) (\<lambda>x.
                   bindE (py_item (PDict correction) k') (\<lambda>y. Inr (py_eq x y))))
      in all_res
        [recognizes_correction c failure, same ''evidence_sha256'' ''evidence_digest'',
         same ''candidate_head'' ''candidate_head''])"

definition check_correction_budget :: "campaign_snapshot \<Rightarrow> node_snapshot \<Rightarrow> unit res" where
  "check_correction_budget s n =
     (if sp_mode (cs_spec s) = AUTOMATED then
        bindE (correction_budget_requirements s (ns_node_id n)) (\<lambda>needed.
        let remaining = map_of (rev (map (\<lambda>b. (bb_token b, bb_remaining b)) (cs_budgets s)))
        in requireE (sum_list (map snd needed) \<le> cs_autonomous_rank_remaining s
              \<and> list_all (\<lambda>(token, count).
                   count \<le> (case remaining token of None \<Rightarrow> 0 | Some r \<Rightarrow> r)) needed)
             (BudgetError ''validation correction has insufficient remaining budget'') (Inr ()))
      else Inr ())"

definition reduce_request_validation_correction :: "campaign_snapshot \<Rightarrow> event \<Rightarrow> campaign_snapshot res" where
  "reduce_request_validation_correction s e =
     bindE (node_for s e) (\<lambda>n.
     bindE (check_fence s e n) (\<lambda>_.
     require (cs_state s = CS_RUNNING) ''campaign is not running''
    (require (ns_state n = NS_VALIDATING) ''node is not validating''
    (require (ns_validation_corrections n = 0) ''pre-review validation correction has already been used''
    (require (ns_candidate_head n = None) ''frozen candidate cannot return to implementation''
    (bindE (py_get (ev_payload e) ''correction'' (PDict [])) (\<lambda>correction.
     case as_mapping correction of
       None \<Rightarrow> Inl (TransitionError ''correction evidence must be an object'')
     | Some d \<Rightarrow>
        let command = find (\<lambda>c. py_eq (PStr (vc_command_id c)) (dict_get d ''command_id'' PNone))
              (sp_required_validation_commands (cs_spec s))
        in bindE (correction_approved s n command) (\<lambda>approved.
           require approved ''correction requires an approved typed validation expectation''
          (bindE (correction_binds s (the command) d) (\<lambda>binds.
           require binds ''correction must bind the exact failed evidence and approved authority''
          (bindE (correction_recognized (the command) d) (\<lambda>recognized.
           require recognized ''correction requires recognized exact failed command evidence''
          (bindE (check_correction_budget s n) (\<lambda>_.
           update_node s
             (n\<lparr>ns_state := NS_IMPLEMENTING, ns_validation_corrections := 1,
                ns_validation_correction := PDict (dict_remove ''failure_evidence'' d)\<rparr>)))))))))))))))"

text \<open>The identity of a candidate: its commit, its tree and the two diff digests.\<close>

definition candidate_identity :: "event \<Rightarrow> string \<Rightarrow> (string \<times> string \<times> string \<times> string) res" where
  "candidate_identity e msg =
     bindE (payload_text e ''candidate_head'') (\<lambda>head.
     bindE (payload_text e ''candidate_tree'') (\<lambda>tree.
     bindE (payload_text e ''candidate_diff_digest'') (\<lambda>diff.
     bindE (payload_text e ''candidate_node_diff_digest'') (\<lambda>node_diff.
     require (head \<noteq> [] \<and> tree \<noteq> [] \<and> diff \<noteq> [] \<and> node_diff \<noteq> []) msg
       (Inr (head, tree, diff, node_diff))))))"

definition set_candidate :: "string \<times> string \<times> string \<times> string \<Rightarrow> node_snapshot \<Rightarrow> node_snapshot" where
  "set_candidate = (\<lambda>(head, tree, diff, node_diff) n.
     n\<lparr>ns_candidate_head := Some head, ns_candidate_tree := Some tree,
       ns_candidate_diff_digest := Some diff, ns_candidate_node_diff_digest := Some node_diff\<rparr>)"

definition reduce_validation_passed :: "campaign_snapshot \<Rightarrow> event \<Rightarrow> campaign_snapshot res" where
  "reduce_validation_passed s e =
     bindE (node_for s e) (\<lambda>n.
     bindE (check_fence s e n) (\<lambda>_.
     require (ns_state n = NS_VALIDATING) ''node is not validating''
    (bindE (candidate_identity e
       ''candidate identity must be complete and include campaign and node-local diff evidence'') (\<lambda>c.
     update_node s (set_candidate c (n\<lparr>ns_state := NS_CANDIDATE_FROZEN\<rparr>))))))"

definition reduce_validation_failed :: "campaign_snapshot \<Rightarrow> event \<Rightarrow> campaign_snapshot res" where
  "reduce_validation_failed s e =
     bindE (node_for s e) (\<lambda>n.
     bindE (check_fence s e n) (\<lambda>_.
     require (ns_state n = NS_VALIDATING) ''node is not validating''
    (bindE (payload_str e ''reason'' ''validation_failed'') (fail_exact_node s n))))"

section \<open>Review, repair and closure\<close>

definition reduce_start_review :: "campaign_snapshot \<Rightarrow> event \<Rightarrow> reduction res" where
  "reduce_start_review s e =
     bindE (node_for s e) (\<lambda>n.
     require (ns_state n = NS_CANDIDATE_FROZEN) ''candidate is not frozen''
    (require (ns_review_generations n = 0) ''review generation already used''
    (bindE (get_strs (ev_payload e) ''review_cohort'') (\<lambda>cohort.
     require (cohort = sp_required_review_cohort (cs_spec s))
       ''review dispatch must bind the exact required cohort''
    (dispatched_update s e ''REVIEWER'' n
       (\<lambda>m. m\<lparr>ns_state := NS_CHECKS_AND_REVIEW, ns_review_generations := 1\<rparr>))))))"

definition reduce_freeze_findings :: "campaign_snapshot \<Rightarrow> event \<Rightarrow> campaign_snapshot res" where
  "reduce_freeze_findings s e =
     bindE (node_for s e) (\<lambda>n.
     require (ns_state n = NS_CHECKS_AND_REVIEW) ''node is not in review''
    (require (ns_findings n = []) ''finding set is already frozen''
    (bindE (get_tuple (ev_payload e) ''findings'') (\<lambda>vs.
     bindE (unique_findings vs FO_REVIEW) (\<lambda>findings.
     update_node s (n\<lparr>ns_state := NS_FINDINGS_FROZEN, ns_findings := findings\<rparr>))))))"

definition blockers :: "node_snapshot \<Rightarrow> string list" where
  "blockers n = map fi_finding_id (filter fi_blocking (ns_findings n))"

definition reduce_mark_ready_to_publish :: "campaign_snapshot \<Rightarrow> event \<Rightarrow> campaign_snapshot res" where
  "reduce_mark_ready_to_publish s e =
     bindE (node_for s e) (\<lambda>n.
     require (ns_state n = NS_FINDINGS_FROZEN)
       ''node is not eligible for clean publication before findings freeze''
    (require (\<not> list_ex fi_blocking (ns_findings n)) ''blocking findings require repair''
       (update_node s (n\<lparr>ns_state := NS_READY_TO_PUBLISH\<rparr>))))"

definition reduce_authorize_repair :: "campaign_snapshot \<Rightarrow> event \<Rightarrow> campaign_snapshot res" where
  "reduce_authorize_repair s e =
     bindE (node_for s e) (\<lambda>n.
     require (ns_state n = NS_FINDINGS_FROZEN) ''findings are not frozen''
    (require (list_ex fi_blocking (ns_findings n)) ''there are no blockers to repair''
    (require (ns_repair_attempts n = 0) ''combined repair already used''
    (bindE (get_strs (ev_payload e) ''finding_ids'') (\<lambda>requested.
     require (requested = blockers n) ''repair must bind the exact frozen blocker set''
    (bindE (payload_text e ''authorization_receipt_id'') (\<lambda>receipt_id.
     bindE (if receipt_id = [] then Inr [] else payload_text e ''authorization_receipt_digest'')
       (\<lambda>receipt_digest.
     require (receipt_id \<noteq> [] \<and> receipt_digest \<noteq> [])
       ''repair requires a consumed one-use human authorization receipt''
       (update_node s (n\<lparr>ns_state := NS_REPAIR_AUTHORIZED\<rparr>))))))))))"

definition reduce_start_repair :: "campaign_snapshot \<Rightarrow> event \<Rightarrow> reduction res" where
  "reduce_start_repair s e =
     bindE (node_for s e) (\<lambda>n.
     bindE (check_fence s e n) (\<lambda>_.
     require (ns_state n = NS_REPAIR_AUTHORIZED) ''repair is not authorized''
    (require (ns_repair_attempts n = 0) ''combined repair already used''
    (dispatched_update s e ''REPAIRER'' n
       (\<lambda>m. m\<lparr>ns_state := NS_REPAIRING, ns_repair_attempts := 1\<rparr>)))))"

definition reduce_repair_completed :: "campaign_snapshot \<Rightarrow> event \<Rightarrow> campaign_snapshot res" where
  "reduce_repair_completed s e =
     bindE (node_for s e) (\<lambda>n.
     bindE (check_fence s e n) (\<lambda>_.
     require (ns_state n = NS_REPAIRING) ''node is not repairing''
       (update_node s (n\<lparr>ns_state := NS_REVALIDATING\<rparr>))))"

definition reduce_revalidation_passed :: "campaign_snapshot \<Rightarrow> event \<Rightarrow> reduction res" where
  "reduce_revalidation_passed s e =
     bindE (node_for s e) (\<lambda>n.
     bindE (check_fence s e n) (\<lambda>_.
     require (ns_state n = NS_REVALIDATING) ''node is not revalidating''
    (require (ns_closure_generations n = 0) ''closure generation already used''
    (bindE (candidate_identity e
       ''revalidated candidate identity must be complete and include campaign and node-local diff evidence'') (\<lambda>c.
     dispatched_update s e ''CLOSURE_REVIEWER'' n
       (\<lambda>m. set_candidate c (m\<lparr>ns_state := NS_CLOSURE, ns_closure_generations := 1\<rparr>)))))))"

definition reduce_revalidation_failed :: "campaign_snapshot \<Rightarrow> event \<Rightarrow> campaign_snapshot res" where
  "reduce_revalidation_failed s e =
     bindE (node_for s e) (\<lambda>n.
     bindE (check_fence s e n) (\<lambda>_.
     require (ns_state n = NS_REVALIDATING) ''node is not revalidating''
    (bindE (payload_str e ''reason'' ''revalidation_failed'') (fail_exact_node s n))))"

definition closure_reason :: "string list \<Rightarrow> string list \<Rightarrow> string" where
  "closure_reason remaining new_blockers =
     ''closure_failed:'' @ join '';''
       ((if remaining = [] then [] else [''remaining='' @ join '','' (sort remaining)])
        @ (if new_blockers = [] then [] else [''new='' @ join '','' new_blockers]))"

definition reduce_complete_closure :: "campaign_snapshot \<Rightarrow> event \<Rightarrow> campaign_snapshot res" where
  "reduce_complete_closure s e =
     bindE (node_for s e) (\<lambda>n.
     require (ns_state n = NS_CLOSURE) ''node is not in closure''
    (bindE (get_tuple (ev_payload e) ''findings'') (\<lambda>vs.
     bindE (unique_findings vs FO_CLOSURE) (\<lambda>new_findings.
     bindE (get_strs (ev_payload e) ''resolved_finding_ids'') (\<lambda>resolved.
     let new_blockers = map fi_finding_id (filter closure_blocking new_findings);
         original_ids = remdups (blockers n);
         remaining = filter (\<lambda>i. i \<notin> set resolved) original_ids;
         closed = n\<lparr>ns_closure_findings := new_findings, ns_resolved_finding_ids := resolved\<rparr>
     in require (distinct resolved) ''closure resolution identifiers must be unique''
       (require (set (map fi_finding_id new_findings) \<inter> set original_ids = {})
          ''closure cannot relabel a frozen blocker as a new observation''
       (require (set resolved \<subseteq> set original_ids) ''closure resolved unknown finding identifiers''
       (bindE (node_post_init closed) (\<lambda>closed.
        if remaining \<noteq> [] \<or> new_blockers \<noteq> []
        then fail_exact_node s closed (closure_reason remaining new_blockers)
        else update_node s (closed\<lparr>ns_state := NS_READY_TO_PUBLISH\<rparr>))))))))))"

section \<open>Publication\<close>

definition publication_automated :: "campaign_snapshot \<Rightarrow> bool res" where
  "publication_automated s =
     bindE (py_get (sp_publication_authority (cs_spec s)) ''automated'' (PBool False))
       (\<lambda>v. Inr (py_truthy v))"

text \<open>\<open>tuple(authority.get("required_effects", allowed))\<close> with the allowed effects as the default\<close>

definition allowed_effects :: "campaign_snapshot \<Rightarrow> pyval list res" where
  "allowed_effects s = authority_allowed (sp_publication_authority (cs_spec s))"

definition required_effects :: "campaign_snapshot \<Rightarrow> pyval list res" where
  "required_effects s =
     bindE (allowed_effects s) (authority_required (sp_publication_authority (cs_spec s)))"

definition nonempty_opt :: "string option \<Rightarrow> bool" where
  "nonempty_opt x \<longleftrightarrow> x \<noteq> None \<and> x \<noteq> Some []"

definition reduce_authorize_publication :: "campaign_snapshot \<Rightarrow> event \<Rightarrow> campaign_snapshot res" where
  "reduce_authorize_publication s e =
     bindE (node_for s e) (\<lambda>n.
     bindE (publication_automated s) (\<lambda>automated.
     require (\<not> automated) ''automated publication does not accept a human authorization event''
    (require (ns_state n = NS_READY_TO_PUBLISH) ''node is not ready to publish''
    (require (ns_publication_authorization_receipt_id n = None)
       ''publication authorization receipt was already consumed''
    (bindE (payload_text e ''authorization_receipt_id'') (\<lambda>receipt_id.
     bindE (payload_text e ''authorization_receipt_digest'') (\<lambda>receipt_digest.
     require (receipt_id \<noteq> [] \<and> receipt_digest \<noteq> [])
       ''publication requires a consumed one-use human authorization receipt''
       (update_node s
         (n\<lparr>ns_publication_authorization_receipt_id := Some receipt_id,
            ns_publication_authorization_receipt_digest := Some receipt_digest\<rparr>)))))))))"

text \<open>\<open>EffectKind(str(event.payload["effect_kind"]))\<close> with its two exceptions turned into one.\<close>

definition publish_kind :: "event \<Rightarrow> effect_kind res" where
  "publish_kind e =
     (case bindE (item_str (ev_payload e) ''effect_kind'') (enum_new effect_kinds effect_kind_value ''EffectKind'') of
        Inr kind \<Rightarrow> Inr kind
      | Inl (KeyError _) \<Rightarrow> Inl (TransitionError ''publication effect kind is invalid'')
      | Inl (ValueError _) \<Rightarrow> Inl (TransitionError ''publication effect kind is invalid'')
      | Inl err \<Rightarrow> Inl err)"

text \<open>The order check: the effect is allowed and is the next one of the required sequence.\<close>

definition check_publication_order :: "campaign_snapshot \<Rightarrow> node_snapshot \<Rightarrow> effect_kind \<Rightarrow> unit res" where
  "check_publication_order s n kind =
     bindE (allowed_effects s) (\<lambda>allowed.
     require (\<exists>x \<in> set allowed. py_eq (PStr (effect_kind_value kind)) x)
       ''publication effect lacks recorded authority''
    (bindE (required_effects s) (\<lambda>required.
     let position = length (ns_completed_publication_effects n)
     in require (position < length required) ''publication sequence is already complete''
       (require (py_eq (PStr (effect_kind_value kind)) (required ! position))
          (''publication effect is out of order; expected '' @ py_str (required ! position)) (Inr ())))))"

text \<open>\<open>effect_payload.setdefault("candidate_head", head)\<close>\<close>

definition setdefault :: "string \<Rightarrow> pyval \<Rightarrow> pydict \<Rightarrow> pydict" where
  "setdefault k v d = (if k \<in> set (map fst d) then d else d @ [(k, v)])"

definition reduce_start_publish :: "campaign_snapshot \<Rightarrow> event \<Rightarrow> reduction res" where
  "reduce_start_publish s e =
     bindE (node_for s e) (\<lambda>n.
     require (ns_state n = NS_READY_TO_PUBLISH) ''node is not ready to publish''
    (bindE (publication_automated s) (\<lambda>automated.
     require (automated \<or> nonempty_opt (ns_publication_authorization_receipt_id n)
                \<and> nonempty_opt (ns_publication_authorization_receipt_digest n))
       ''manual publication requires a consumed human authorization receipt''
    (require (ns_pending_publication_operation_id n = None)
       ''node already has a prepared publication effect''
    (bindE (publish_kind e) (\<lambda>kind.
     case publish_token kind of
       None \<Rightarrow> Inl (TransitionError ''effect is not a publication mutation'')
     | Some token \<Rightarrow>
     bindE (check_publication_order s n kind) (\<lambda>_.
     bindE (payload_text e ''operation_id'') (\<lambda>operation_id.
     require (operation_id \<noteq> []) ''publication requires stable operation_id''
    (require (operation_id \<notin> set (ns_publication_operation_ids n))
       ''publication operation identity was already confirmed''
    (bindE (consume_automated s e token) (\<lambda>next.
     bindE (py_get (ev_payload e) ''effect_payload'' (PDict [])) (\<lambda>p.
     bindE (py_dict p) (\<lambda>d.
     let effect_payload = setdefault ''candidate_head'' (py_opt_str (ns_candidate_head n)) d
     in require (py_eq (dict_get effect_payload ''candidate_head'' PNone) (py_opt_str (ns_candidate_head n)))
          ''publication must bind the exact frozen candidate head''
       (bindE (make_effect next e kind True (PDict effect_payload) []) (\<lambda>effect.
        bindE (snapshot_node next (ns_node_id n)) (\<lambda>m.
        bindE (update_node next
          (m\<lparr>ns_state := NS_PUBLISHING,
             ns_pending_publication_effect := Some (effect_kind_value kind),
             ns_pending_publication_operation_id := Some operation_id\<rparr>)) (\<lambda>t.
        Inr (t, [effect]))))))))))))))))))"

definition opt_text :: "string option \<Rightarrow> string" where
  "opt_text x = (case x of None \<Rightarrow> ''None'' | Some s \<Rightarrow> s)"

definition reduce_publish_confirmed :: "campaign_snapshot \<Rightarrow> event \<Rightarrow> campaign_snapshot res" where
  "reduce_publish_confirmed s e =
     bindE (node_for s e) (\<lambda>n.
     require (ns_state n = NS_PUBLISHING) ''node is not publishing''
    (bindE (py_get (ev_payload e) ''candidate_head'' PNone) (\<lambda>head.
     require (py_eq head (py_opt_str (ns_candidate_head n)))
       ''publication confirmation head differs from frozen candidate''
    (bindE (py_get (ev_payload e) ''operation_id'' PNone) (\<lambda>operation.
     require (py_eq operation (py_opt_str (ns_pending_publication_operation_id n)))
       ''publication confirmation operation differs from prepared effect''
    (require (nonempty_opt (ns_pending_publication_effect n))
       ''publishing node has no pending effect identity''
    (let completed = ns_completed_publication_effects n @ [opt_text (ns_pending_publication_effect n)];
         operation_ids = ns_publication_operation_ids n @ [opt_text (ns_pending_publication_operation_id n)]
     in bindE (required_effects s) (\<lambda>required.
        let complete = py_eq (PTuple (map PStr completed)) (PTuple required)
        in bindE (update_node s
             (n\<lparr>ns_state := (if complete then NS_DONE else NS_READY_TO_PUBLISH),
                ns_completed_publication_effects := completed,
                ns_publication_operation_ids := operation_ids,
                ns_pending_publication_effect := None,
                ns_pending_publication_operation_id := None\<rparr>)) (\<lambda>t.
           if complete \<and> list_all (\<lambda>m. ns_state m = NS_DONE) (cs_nodes t)
           then snapshot_post_init (t\<lparr>cs_state := CS_COMPLETED, cs_active_node_id := None\<rparr>)
           else if complete then snapshot_post_init (t\<lparr>cs_active_node_id := None\<rparr>)
           else Inr t)))))))))"

definition reduce_publish_failed :: "campaign_snapshot \<Rightarrow> event \<Rightarrow> campaign_snapshot res" where
  "reduce_publish_failed s e =
     bindE (node_for s e) (\<lambda>n.
     require (ns_state n = NS_PUBLISHING) ''node is not publishing''
    (bindE (payload_str e ''reason'' ''publication_failed'') (fail_exact_node s n)))"

definition reduce_fail_node :: "campaign_snapshot \<Rightarrow> event \<Rightarrow> campaign_snapshot res" where
  "reduce_fail_node s e =
     bindE (node_for s e) (\<lambda>n.
     require (ns_state n \<notin> TERMINAL_NODE_STATES) ''node is already terminal''
    (bindE (payload_str e ''reason'' ''node_failed'') (fail_exact_node s n)))"

section \<open>The reducer\<close>

definition reduce_branch :: "campaign_snapshot \<Rightarrow> event \<Rightarrow> reduction res" where
  "reduce_branch s e =
     (case ev_event_type e of
        EV_APPROVE \<Rightarrow> silent (reduce_approve s e)
      | EV_START \<Rightarrow> silent (reduce_start s)
      | EV_WAIT_EXTERNAL \<Rightarrow> silent (reduce_wait s e)
      | EV_WAIT_HUMAN \<Rightarrow> silent (reduce_wait s e)
      | EV_RESUME \<Rightarrow> silent (reduce_resume s)
      | EV_ADVANCE_AUTHORITY \<Rightarrow> silent (reduce_advance_authority s e)
      | EV_CANCEL \<Rightarrow> reduce_cancel s e
      | EV_CONSUME_BUDGET \<Rightarrow> silent (reduce_consume_budget s e)
      | EV_ADMIT_NODE \<Rightarrow> silent (reduce_admit_node s e)
      | EV_ACQUIRE_LEASE \<Rightarrow> silent (reduce_acquire_lease s e)
      | EV_RELEASE_LEASE \<Rightarrow> silent (reduce_release_lease s e)
      | EV_START_IMPLEMENTATION \<Rightarrow> reduce_start_implementation s e
      | EV_IMPLEMENTATION_COMPLETED \<Rightarrow> silent (reduce_implementation_completed s e)
      | EV_REQUEST_VALIDATION_CORRECTION \<Rightarrow> silent (reduce_request_validation_correction s e)
      | EV_VALIDATION_PASSED \<Rightarrow> silent (reduce_validation_passed s e)
      | EV_VALIDATION_FAILED \<Rightarrow> silent (reduce_validation_failed s e)
      | EV_START_REVIEW \<Rightarrow> reduce_start_review s e
      | EV_FREEZE_FINDINGS \<Rightarrow> silent (reduce_freeze_findings s e)
      | EV_MARK_READY_TO_PUBLISH \<Rightarrow> silent (reduce_mark_ready_to_publish s e)
      | EV_AUTHORIZE_REPAIR \<Rightarrow> silent (reduce_authorize_repair s e)
      | EV_START_REPAIR \<Rightarrow> reduce_start_repair s e
      | EV_REPAIR_COMPLETED \<Rightarrow> silent (reduce_repair_completed s e)
      | EV_REVALIDATION_PASSED \<Rightarrow> reduce_revalidation_passed s e
      | EV_START_CLOSURE \<Rightarrow>
          Inl (TransitionError ''closure can begin only through trusted REVALIDATION_PASSED evidence'')
      | EV_REVALIDATION_FAILED \<Rightarrow> silent (reduce_revalidation_failed s e)
      | EV_COMPLETE_CLOSURE \<Rightarrow> silent (reduce_complete_closure s e)
      | EV_AUTHORIZE_PUBLICATION \<Rightarrow> silent (reduce_authorize_publication s e)
      | EV_START_PUBLISH \<Rightarrow> reduce_start_publish s e
      | EV_PUBLISH_CONFIRMED \<Rightarrow> silent (reduce_publish_confirmed s e)
      | EV_PUBLISH_FAILED \<Rightarrow> silent (reduce_publish_failed s e)
      | EV_FAIL_NODE \<Rightarrow> silent (reduce_fail_node s e))"

definition reduce_event :: "campaign_snapshot \<Rightarrow> event \<Rightarrow> reduction res" where
  "reduce_event s e =
     requireAll
       [(ev_campaign_id e = sp_campaign_id (cs_spec s),
         TransitionError ''event campaign identifier does not match snapshot''),
        (ev_expected_revision e = cs_revision s,
         RevisionConflict (''expected revision '' @ show_int (ev_expected_revision e)
           @ '', current '' @ show_int (cs_revision s))),
        (ev_authority_epoch e = cs_authority_epoch s,
         AuthorityError (''expected authority epoch '' @ show_int (cs_authority_epoch s)
           @ '', got '' @ show_int (ev_authority_epoch e))),
        (ev_cancellation_epoch e = cs_cancellation_epoch s,
         CancellationError (''expected cancellation epoch '' @ show_int (cs_cancellation_epoch s)
           @ '', got '' @ show_int (ev_cancellation_epoch e))),
        (cs_cancellation_state s \<noteq> CN_CANCELLED,
         CancellationError ''cancelled campaigns cannot resume or accept late results''),
        (cs_state s \<notin> TERMINAL_CAMPAIGN_STATES,
         TransitionError (''campaign is terminal: '' @ campaign_state_value (cs_state s)))]
       (bindE (reduce_branch s e) (finish_revision s))"

end
