(* ===== verification/Reducer_Steps.thy ===== *)
theory Reducer_Steps
  imports Reducer
begin

text \<open>
  What an accepted event does, as a step relation.  \<open>node_step\<close> has one rule per way in
  which an event changes the record of its node, with the guards the reducer has checked;
  \<open>step\<close> adds the campaign events and says how the rest of the snapshot follows.  The
  theorem \<open>reduce_step\<close> shows that every accepted event of \<open>reduce_event\<close> is a step,
  so the invariants of the reducer are proved by cases on these relations.
\<close>

section \<open>What the checked constructors return\<close>

definition node_ok :: "node_snapshot \<Rightarrow> bool" where
  "node_ok n \<longleftrightarrow> py_strip (ns_node_id n) \<noteq> [] \<and> 0 \<le> ns_fencing_epoch n \<and> 0 \<le> ns_implementation_attempts n
     \<and> 0 \<le> ns_validation_corrections n \<and> 0 \<le> ns_review_generations n
     \<and> 0 \<le> ns_repair_attempts n \<and> 0 \<le> ns_closure_generations n"

definition node_frozen :: "node_snapshot \<Rightarrow> node_snapshot" where
  "node_frozen n = n\<lparr>ns_validation_correction := py_freeze (ns_validation_correction n)\<rparr>"

definition snapshot_ok :: "campaign_snapshot \<Rightarrow> bool" where
  "snapshot_ok s \<longleftrightarrow> 0 \<le> cs_revision s \<and> 0 \<le> cs_authority_epoch s \<and> 0 \<le> cs_cancellation_epoch s
     \<and> 0 \<le> cs_autonomous_rank_remaining s
     \<and> set (map ns_node_id (cs_nodes s)) = set (map nd_node_id (sp_nodes (cs_spec s)))"

definition put_node :: "campaign_snapshot \<Rightarrow> node_snapshot \<Rightarrow> campaign_snapshot" where
  "put_node s n = s\<lparr>cs_nodes := map (\<lambda>m. if ns_node_id m = ns_node_id n then n else m) (cs_nodes s)\<rparr>"

lemma node_frozen_simps [simp]:
  "ns_node_id (node_frozen n) = ns_node_id n"
  "ns_state (node_frozen n) = ns_state n"
  "ns_fencing_epoch (node_frozen n) = ns_fencing_epoch n"
  "ns_lease_actor_id (node_frozen n) = ns_lease_actor_id n"
  "ns_implementation_attempts (node_frozen n) = ns_implementation_attempts n"
  "ns_validation_corrections (node_frozen n) = ns_validation_corrections n"
  "ns_review_generations (node_frozen n) = ns_review_generations n"
  "ns_repair_attempts (node_frozen n) = ns_repair_attempts n"
  "ns_closure_generations (node_frozen n) = ns_closure_generations n"
  "ns_start_head (node_frozen n) = ns_start_head n"
  "ns_candidate_head (node_frozen n) = ns_candidate_head n"
  "ns_candidate_tree (node_frozen n) = ns_candidate_tree n"
  "ns_candidate_diff_digest (node_frozen n) = ns_candidate_diff_digest n"
  "ns_candidate_node_diff_digest (node_frozen n) = ns_candidate_node_diff_digest n"
  "ns_findings (node_frozen n) = ns_findings n"
  "ns_closure_findings (node_frozen n) = ns_closure_findings n"
  "ns_resolved_finding_ids (node_frozen n) = ns_resolved_finding_ids n"
  "ns_completed_publication_effects (node_frozen n) = ns_completed_publication_effects n"
  "ns_publication_operation_ids (node_frozen n) = ns_publication_operation_ids n"
  "ns_pending_publication_effect (node_frozen n) = ns_pending_publication_effect n"
  "ns_pending_publication_operation_id (node_frozen n) = ns_pending_publication_operation_id n"
  "ns_publication_authorization_receipt_id (node_frozen n) = ns_publication_authorization_receipt_id n"
  "ns_publication_authorization_receipt_digest (node_frozen n) = ns_publication_authorization_receipt_digest n"
  "ns_failure_reason (node_frozen n) = ns_failure_reason n"
  "blockers (node_frozen n) = blockers n"
  by (simp_all add: node_frozen_def blockers_def)

lemma node_post_init_eq:
  "node_post_init n = Inr m \<longleftrightarrow> node_ok n \<and> m = node_frozen n"
proof -
  have "n = n\<lparr>ns_validation_correction := PNone\<rparr>" if "ns_validation_correction n = PNone"
    using that by simp
  then show ?thesis
    by (auto simp: node_post_init_def node_ok_def node_frozen_def res_simps)
qed

lemma snapshot_post_init_eq: "snapshot_post_init s = Inr t \<longleftrightarrow> snapshot_ok s \<and> t = s"
  by (auto simp: snapshot_post_init_def snapshot_ok_def res_simps)

lemma replace_node_eq: "replace_node s n = Inr t \<longleftrightarrow> snapshot_ok (put_node s n) \<and> t = put_node s n"
  by (simp add: replace_node_def snapshot_post_init_eq put_node_def)

lemma update_node_eq:
  "update_node s n = Inr t \<longleftrightarrow> node_ok n \<and> snapshot_ok t \<and> t = put_node s (node_frozen n)"
  by (auto simp: update_node_def bindE_Inr_iff node_post_init_eq replace_node_eq)

lemma put_node_simps [simp]:
  "cs_spec (put_node s n) = cs_spec s" "cs_revision (put_node s n) = cs_revision s"
  "cs_state (put_node s n) = cs_state s" "cs_authority_epoch (put_node s n) = cs_authority_epoch s"
  "cs_cancellation_epoch (put_node s n) = cs_cancellation_epoch s"
  "cs_cancellation_state (put_node s n) = cs_cancellation_state s"
  "cs_budgets (put_node s n) = cs_budgets s" "cs_budget_receipts (put_node s n) = cs_budget_receipts s"
  "cs_autonomous_rank_remaining (put_node s n) = cs_autonomous_rank_remaining s"
  "cs_active_node_id (put_node s n) = cs_active_node_id s"
  "cs_failure_reason (put_node s n) = cs_failure_reason s"
  by (simp_all add: put_node_def)

lemma put_node_nodes:
  "cs_nodes (put_node s n) = map (\<lambda>m. if ns_node_id m = ns_node_id n then n else m) (cs_nodes s)"
  by (simp add: put_node_def)

lemma put_node_ids [simp]: "map ns_node_id (cs_nodes (put_node s n)) = map ns_node_id (cs_nodes s)"
  by (simp add: put_node_nodes)

section \<open>Finding the node of an event\<close>

definition found :: "campaign_snapshot \<Rightarrow> event \<Rightarrow> node_snapshot \<Rightarrow> bool" where
  "found s e n \<longleftrightarrow> ev_node_id e = Some (ns_node_id n) \<and> ns_node_id n \<noteq> []
     \<and> find (\<lambda>m. ns_node_id m = ns_node_id n) (cs_nodes s) = Some n"

lemma snapshot_node_eq:
  "snapshot_node s i = Inr n \<longleftrightarrow> find (\<lambda>m. ns_node_id m = i) (cs_nodes s) = Some n"
  by (auto simp: snapshot_node_def split: option.splits)

lemma snapshot_node_set: "snapshot_node s i = Inr n \<Longrightarrow> n \<in> set (cs_nodes s) \<and> ns_node_id n = i"
  by (auto simp: snapshot_node_eq dest: find_Some_set)

lemma node_for_eq: "node_for s e = Inr n \<longleftrightarrow> found s e n"
proof (cases "ev_node_id e")
  case None
  then show ?thesis by (simp add: node_for_def found_def)
next
  case (Some i)
  show ?thesis
  proof (cases i)
    case Nil
    with Some show ?thesis by (simp add: node_for_def found_def)
  next
    case (Cons c cs)
    have l: "node_for s e = snapshot_node s i" using Some Cons by (simp add: node_for_def)
    have r: "found s e n \<longleftrightarrow> i = ns_node_id n \<and> snapshot_node s (ns_node_id n) = Inr n"
      using Some Cons by (auto simp only: found_def snapshot_node_eq option.inject)
    show ?thesis unfolding l r using snapshot_node_set by blast
  qed
qed

lemma found_set: "found s e n \<Longrightarrow> n \<in> set (cs_nodes s)"
  by (auto simp: found_def dest: find_Some_set)

lemma found_node: "found s e n \<Longrightarrow> snapshot_node s (ns_node_id n) = Inr n"
  by (simp add: found_def snapshot_node_eq)

definition fence_ok :: "campaign_snapshot \<Rightarrow> event \<Rightarrow> node_snapshot \<Rightarrow> bool" where
  "fence_ok s e n \<longleftrightarrow>
     sp_mode (cs_spec s) = MANUAL \<and> ns_lease_actor_id n = None
     \<or> ns_lease_actor_id n \<noteq> None \<and> ev_actor_id e = ns_lease_actor_id n
        \<and> ev_fencing_epoch e = Some (ns_fencing_epoch n)"

lemma check_fence_eq:
  "check_fence s e n = Inr u \<longleftrightarrow> ev_event_type e \<notin> FENCED_EVENTS \<or> fence_ok s e n"
  by (auto simp: check_fence_def fence_ok_def res_simps)

section \<open>Spending a token\<close>

definition spendable :: "campaign_snapshot \<Rightarrow> budget_token \<Rightarrow> string \<Rightarrow> bool" where
  "spendable s t r \<longleftrightarrow>
     (\<forall>x \<in> set (cs_budget_receipts s). br_request_id x \<noteq> r) \<and> 0 < cs_autonomous_rank_remaining s
     \<and> (\<exists>b \<in> set (cs_budgets s). bb_token b = t)
     \<and> (\<forall>b \<in> set (cs_budgets s). bb_token b = t \<longrightarrow> 0 \<le> bb_limit b \<and> 0 < bb_remaining b \<and> -1 \<le> bb_consumed b)
     \<and> py_strip r \<noteq> []"

definition spend :: "budget_token \<Rightarrow> string \<Rightarrow> campaign_snapshot \<Rightarrow> campaign_snapshot" where
  "spend t r s = s\<lparr>cs_budgets := map (\<lambda>b. if bb_token b = t then b\<lparr>bb_consumed := bb_consumed b + 1\<rparr> else b) (cs_budgets s),
     cs_budget_receipts := cs_budget_receipts s @ [\<lparr>br_request_id = r, br_token = t, br_revision = cs_revision s + 1\<rparr>],
     cs_autonomous_rank_remaining := cs_autonomous_rank_remaining s - 1\<rparr>"

lemma spend_simps [simp]:
  "cs_spec (spend t r s) = cs_spec s" "cs_revision (spend t r s) = cs_revision s"
  "cs_state (spend t r s) = cs_state s" "cs_authority_epoch (spend t r s) = cs_authority_epoch s"
  "cs_cancellation_epoch (spend t r s) = cs_cancellation_epoch s"
  "cs_cancellation_state (spend t r s) = cs_cancellation_state s"
  "cs_nodes (spend t r s) = cs_nodes s" "cs_active_node_id (spend t r s) = cs_active_node_id s"
  "cs_failure_reason (spend t r s) = cs_failure_reason s"
  "cs_autonomous_rank_remaining (spend t r s) = cs_autonomous_rank_remaining s - 1"
  "cs_budget_receipts (spend t r s) = cs_budget_receipts s
     @ [\<lparr>br_request_id = r, br_token = t, br_revision = cs_revision s + 1\<rparr>]"
  "cs_budgets (spend t r s) = map (\<lambda>b. if bb_token b = t then b\<lparr>bb_consumed := bb_consumed b + 1\<rparr> else b) (cs_budgets s)"
  by (simp_all add: spend_def)

lemma consume_balance_eq:
  "consume_balance t b = Inr c \<longleftrightarrow>
     (if bb_token b = t then 0 < bb_remaining b \<and> 0 \<le> bb_limit b \<and> -1 \<le> bb_consumed b
        \<and> c = b\<lparr>bb_consumed := bb_consumed b + 1\<rparr> else c = b)"
  by (auto simp: consume_balance_def requireE_Inr_iff budget_balance_post_init_def bb_remaining_def)

lemma mapE_consume_balance:
  "mapE (consume_balance t) bs = Inr cs \<longleftrightarrow>
     (\<forall>b \<in> set bs. bb_token b = t \<longrightarrow> 0 \<le> bb_limit b \<and> 0 < bb_remaining b \<and> -1 \<le> bb_consumed b)
     \<and> cs = map (\<lambda>b. if bb_token b = t then b\<lparr>bb_consumed := bb_consumed b + 1\<rparr> else b) bs"
  by (induction bs arbitrary: cs) (auto simp: bindE_Inr_iff consume_balance_eq)

lemma consume_budget_eq:
  "consume_budget s t r = Inr u \<longleftrightarrow> spendable s t r \<and> snapshot_ok u \<and> u = spend t r s"
  by (auto simp: consume_budget_def spendable_def spend_def res_simps mapE_consume_balance budget_receipt_post_init_def snapshot_post_init_eq
      list_ex_iff)

text \<open>The token a node event spends in an automated campaign.\<close>

definition step_token :: "event \<Rightarrow> node_snapshot \<Rightarrow> budget_token option" where
  "step_token e n' =
     (if ev_event_type e = EV_START_PUBLISH
      then Option.bind (ns_pending_publication_effect n')
        (\<lambda>v. Option.bind (enum_parse effect_kinds effect_kind_value v) publish_token)
      else dispatch_token (ev_event_type e))"

definition fund :: "event \<Rightarrow> node_snapshot \<Rightarrow> campaign_snapshot \<Rightarrow> campaign_snapshot" where
  "fund e n' s =
     (case step_token e n' of
        None \<Rightarrow> s
      | Some t \<Rightarrow> if sp_mode (cs_spec s) = MANUAL then s else spend t (ev_event_id e) s)"

definition funded :: "event \<Rightarrow> node_snapshot \<Rightarrow> campaign_snapshot \<Rightarrow> bool" where
  "funded e n' s \<longleftrightarrow>
     (case step_token e n' of
        None \<Rightarrow> True
      | Some t \<Rightarrow> sp_mode (cs_spec s) = MANUAL \<or> spendable s t (ev_event_id e))"

lemma fund_simps [simp]:
  "cs_spec (fund e n s) = cs_spec s" "cs_revision (fund e n s) = cs_revision s"
  "cs_state (fund e n s) = cs_state s" "cs_authority_epoch (fund e n s) = cs_authority_epoch s"
  "cs_cancellation_epoch (fund e n s) = cs_cancellation_epoch s"
  "cs_cancellation_state (fund e n s) = cs_cancellation_state s"
  "cs_nodes (fund e n s) = cs_nodes s" "cs_active_node_id (fund e n s) = cs_active_node_id s"
  "cs_failure_reason (fund e n s) = cs_failure_reason s"
  by (auto simp: fund_def split: option.splits)

lemma consume_automated_eq:
  "consume_automated s e t = Inr u \<longleftrightarrow>
     (if sp_mode (cs_spec s) = MANUAL then u = s
      else py_get (ev_payload e) ''budget_token'' PNone = Inr (PStr (budget_token_value t))
        \<and> spendable s t (ev_event_id e) \<and> snapshot_ok u \<and> u = spend t (ev_event_id e) s)"
  by (auto simp: consume_automated_def bindE_Inr_iff requireE_Inr_iff consume_budget_eq)

section \<open>The steps of a node\<close>

definition failed_node :: "node_snapshot \<Rightarrow> string \<Rightarrow> node_snapshot" where
  "failed_node n reason =
     n\<lparr>ns_state := NS_FAILED_EXACT_NODE, ns_failure_reason := Some reason,
       ns_fencing_epoch := ns_fencing_epoch n + 1, ns_lease_actor_id := None\<rparr>"

definition full_candidate :: "string \<times> string \<times> string \<times> string \<Rightarrow> bool" where
  "full_candidate = (\<lambda>(head, tree, diff, node_diff).
     head \<noteq> [] \<and> tree \<noteq> [] \<and> diff \<noteq> [] \<and> node_diff \<noteq> [])"

definition closed_node :: "node_snapshot \<Rightarrow> finding list \<Rightarrow> string list \<Rightarrow> node_snapshot" where
  "closed_node n fs resolved = n\<lparr>ns_closure_findings := fs, ns_resolved_finding_ids := resolved\<rparr>"

text \<open>The reason of a failure is the payload's \<open>reason\<close> or a nonempty default.\<close>

definition reason_of :: "event \<Rightarrow> string \<Rightarrow> bool" where
  "reason_of e r \<longleftrightarrow> (\<exists>d. d \<noteq> [] \<and> payload_str e ''reason'' d = Inr r)"

inductive node_step :: "campaign_snapshot \<Rightarrow> event \<Rightarrow> node_snapshot \<Rightarrow> node_snapshot \<Rightarrow> bool"
  for s :: campaign_snapshot and e :: event
where
  admit:
  "ev_event_type e = EV_ADMIT_NODE \<Longrightarrow> cs_state s = CS_RUNNING \<Longrightarrow> ns_state n = NS_PENDING \<Longrightarrow>
   cs_active_node_id s \<in> {None, Some (ns_node_id n)} \<Longrightarrow>
   snapshot_node_spec s (ns_node_id n) = Inr spec \<Longrightarrow>
   (\<And>d. d \<in> set (nd_dependencies spec) \<Longrightarrow> \<exists>m. snapshot_node s d = Inr m \<and> ns_state m = NS_DONE) \<Longrightarrow>
   length head = 40 \<Longrightarrow> list_all hex_lower head \<Longrightarrow> ns_start_head n = None \<Longrightarrow>
   node_step s e n (n\<lparr>ns_state := NS_ADMITTED, ns_start_head := Some head\<rparr>)"
| acquire:
  "ev_event_type e = EV_ACQUIRE_LEASE \<Longrightarrow> cs_state s = CS_RUNNING \<Longrightarrow>
   ns_state n \<notin> TERMINAL_NODE_STATES \<Longrightarrow> ns_lease_actor_id n = None \<Longrightarrow>
   ev_actor_id e = Some a \<Longrightarrow> a \<noteq> [] \<Longrightarrow> ev_fencing_epoch e = Some f \<Longrightarrow> ns_fencing_epoch n < f \<Longrightarrow>
   node_step s e n (n\<lparr>ns_fencing_epoch := f, ns_lease_actor_id := Some a\<rparr>)"
| release:
  "ev_event_type e = EV_RELEASE_LEASE \<Longrightarrow> ns_lease_actor_id n \<noteq> None \<Longrightarrow>
   ev_actor_id e = ns_lease_actor_id n \<Longrightarrow> ev_fencing_epoch e = Some (ns_fencing_epoch n) \<Longrightarrow>
   node_step s e n (n\<lparr>ns_lease_actor_id := None\<rparr>)"
| implement:
  "ev_event_type e = EV_START_IMPLEMENTATION \<Longrightarrow> cs_state s = CS_RUNNING \<Longrightarrow> fence_ok s e n \<Longrightarrow>
   ns_state n = NS_ADMITTED \<Longrightarrow> nonempty_opt (ns_start_head n) \<Longrightarrow> ns_implementation_attempts n = 0 \<Longrightarrow>
   node_step s e n (n\<lparr>ns_state := NS_IMPLEMENTING, ns_implementation_attempts := 1\<rparr>)"
| implemented:
  "ev_event_type e = EV_IMPLEMENTATION_COMPLETED \<Longrightarrow> fence_ok s e n \<Longrightarrow> ns_state n = NS_IMPLEMENTING \<Longrightarrow>
   node_step s e n (n\<lparr>ns_state := NS_VALIDATING\<rparr>)"
| correct:
  "ev_event_type e = EV_REQUEST_VALIDATION_CORRECTION \<Longrightarrow> cs_state s = CS_RUNNING \<Longrightarrow> fence_ok s e n \<Longrightarrow>
   ns_state n = NS_VALIDATING \<Longrightarrow> ns_validation_corrections n = 0 \<Longrightarrow> ns_candidate_head n = None \<Longrightarrow>
   command \<in> set (sp_required_validation_commands (cs_spec s)) \<Longrightarrow>
   correction_approved s n (Some command) = Inr True \<Longrightarrow> correction_binds s command d = Inr True \<Longrightarrow>
   correction_recognized command d = Inr True \<Longrightarrow> check_correction_budget s n = Inr () \<Longrightarrow>
   py_get (ev_payload e) ''correction'' (PDict []) = Inr correction \<Longrightarrow> as_mapping correction = Some d \<Longrightarrow>
   node_step s e n (n\<lparr>ns_state := NS_IMPLEMENTING, ns_validation_corrections := 1,
     ns_validation_correction := PDict (dict_remove ''failure_evidence'' d)\<rparr>)"
| validated:
  "ev_event_type e = EV_VALIDATION_PASSED \<Longrightarrow> fence_ok s e n \<Longrightarrow> ns_state n = NS_VALIDATING \<Longrightarrow>
   full_candidate c \<Longrightarrow> node_step s e n (set_candidate c (n\<lparr>ns_state := NS_CANDIDATE_FROZEN\<rparr>))"
| invalid:
  "ev_event_type e = EV_VALIDATION_FAILED \<Longrightarrow> fence_ok s e n \<Longrightarrow> ns_state n = NS_VALIDATING \<Longrightarrow>
   reason_of e reason \<Longrightarrow> node_step s e n (failed_node n reason)"
| review:
  "ev_event_type e = EV_START_REVIEW \<Longrightarrow> ns_state n = NS_CANDIDATE_FROZEN \<Longrightarrow> ns_review_generations n = 0 \<Longrightarrow>
   get_strs (ev_payload e) ''review_cohort'' = Inr (sp_required_review_cohort (cs_spec s)) \<Longrightarrow>
   node_step s e n (n\<lparr>ns_state := NS_CHECKS_AND_REVIEW, ns_review_generations := 1\<rparr>)"
| freeze:
  "ev_event_type e = EV_FREEZE_FINDINGS \<Longrightarrow> ns_state n = NS_CHECKS_AND_REVIEW \<Longrightarrow> ns_findings n = [] \<Longrightarrow>
   get_tuple (ev_payload e) ''findings'' = Inr vs \<Longrightarrow> unique_findings vs FO_REVIEW = Inr fs \<Longrightarrow>
   node_step s e n (n\<lparr>ns_state := NS_FINDINGS_FROZEN, ns_findings := fs\<rparr>)"
| mark_ready:
  "ev_event_type e = EV_MARK_READY_TO_PUBLISH \<Longrightarrow> ns_state n = NS_FINDINGS_FROZEN \<Longrightarrow> blockers n = [] \<Longrightarrow>
   node_step s e n (n\<lparr>ns_state := NS_READY_TO_PUBLISH\<rparr>)"
| authorize_repair:
  "ev_event_type e = EV_AUTHORIZE_REPAIR \<Longrightarrow> ns_state n = NS_FINDINGS_FROZEN \<Longrightarrow> blockers n \<noteq> [] \<Longrightarrow>
   ns_repair_attempts n = 0 \<Longrightarrow> get_strs (ev_payload e) ''finding_ids'' = Inr (blockers n) \<Longrightarrow>
   payload_text e ''authorization_receipt_id'' = Inr i \<Longrightarrow> i \<noteq> [] \<Longrightarrow>
   payload_text e ''authorization_receipt_digest'' = Inr g \<Longrightarrow> g \<noteq> [] \<Longrightarrow>
   node_step s e n (n\<lparr>ns_state := NS_REPAIR_AUTHORIZED\<rparr>)"
| repair:
  "ev_event_type e = EV_START_REPAIR \<Longrightarrow> fence_ok s e n \<Longrightarrow> ns_state n = NS_REPAIR_AUTHORIZED \<Longrightarrow>
   ns_repair_attempts n = 0 \<Longrightarrow>
   node_step s e n (n\<lparr>ns_state := NS_REPAIRING, ns_repair_attempts := 1\<rparr>)"
| repaired:
  "ev_event_type e = EV_REPAIR_COMPLETED \<Longrightarrow> fence_ok s e n \<Longrightarrow> ns_state n = NS_REPAIRING \<Longrightarrow>
   node_step s e n (n\<lparr>ns_state := NS_REVALIDATING\<rparr>)"
| revalidated:
  "ev_event_type e = EV_REVALIDATION_PASSED \<Longrightarrow> fence_ok s e n \<Longrightarrow> ns_state n = NS_REVALIDATING \<Longrightarrow>
   ns_closure_generations n = 0 \<Longrightarrow> full_candidate c \<Longrightarrow>
   node_step s e n (set_candidate c (n\<lparr>ns_state := NS_CLOSURE, ns_closure_generations := 1\<rparr>))"
| revalidation_failed:
  "ev_event_type e = EV_REVALIDATION_FAILED \<Longrightarrow> fence_ok s e n \<Longrightarrow> ns_state n = NS_REVALIDATING \<Longrightarrow>
   reason_of e reason \<Longrightarrow> node_step s e n (failed_node n reason)"
| closure_passed:
  "ev_event_type e = EV_COMPLETE_CLOSURE \<Longrightarrow> ns_state n = NS_CLOSURE \<Longrightarrow>
   get_tuple (ev_payload e) ''findings'' = Inr vs \<Longrightarrow> unique_findings vs FO_CLOSURE = Inr fs \<Longrightarrow> distinct resolved \<Longrightarrow>
   set (map fi_finding_id fs) \<inter> set (blockers n) = {} \<Longrightarrow> set resolved = set (blockers n) \<Longrightarrow>
   \<not> list_ex closure_blocking fs \<Longrightarrow>
   node_step s e n (closed_node n fs resolved\<lparr>ns_state := NS_READY_TO_PUBLISH\<rparr>)"
| closure_failed:
  "ev_event_type e = EV_COMPLETE_CLOSURE \<Longrightarrow> ns_state n = NS_CLOSURE \<Longrightarrow>
   get_tuple (ev_payload e) ''findings'' = Inr vs \<Longrightarrow> unique_findings vs FO_CLOSURE = Inr fs \<Longrightarrow> distinct resolved \<Longrightarrow>
   set (map fi_finding_id fs) \<inter> set (blockers n) = {} \<Longrightarrow> set resolved \<subseteq> set (blockers n) \<Longrightarrow>
   set resolved \<noteq> set (blockers n) \<or> list_ex closure_blocking fs \<Longrightarrow> reason \<noteq> [] \<Longrightarrow>
   node_step s e n (failed_node (closed_node n fs resolved) reason)"
| authorize_publication:
  "ev_event_type e = EV_AUTHORIZE_PUBLICATION \<Longrightarrow> publication_automated s = Inr False \<Longrightarrow>
   ns_state n = NS_READY_TO_PUBLISH \<Longrightarrow> ns_publication_authorization_receipt_id n = None \<Longrightarrow>
   i \<noteq> [] \<Longrightarrow> g \<noteq> [] \<Longrightarrow>
   node_step s e n (n\<lparr>ns_publication_authorization_receipt_id := Some i,
     ns_publication_authorization_receipt_digest := Some g\<rparr>)"
| publish:
  "ev_event_type e = EV_START_PUBLISH \<Longrightarrow> ns_state n = NS_READY_TO_PUBLISH \<Longrightarrow>
   publication_automated s = Inr automated \<Longrightarrow>
   automated \<or> nonempty_opt (ns_publication_authorization_receipt_id n)
     \<and> nonempty_opt (ns_publication_authorization_receipt_digest n) \<Longrightarrow>
   ns_pending_publication_operation_id n = None \<Longrightarrow> publish_token kind \<noteq> None \<Longrightarrow>
   required_effects s = Inr required \<Longrightarrow> length (ns_completed_publication_effects n) < length required \<Longrightarrow>
   required ! length (ns_completed_publication_effects n) = PStr (effect_kind_value kind) \<Longrightarrow>
   op \<noteq> [] \<Longrightarrow> op \<notin> set (ns_publication_operation_ids n) \<Longrightarrow>
   node_step s e n (n\<lparr>ns_state := NS_PUBLISHING,
     ns_pending_publication_effect := Some (effect_kind_value kind),
     ns_pending_publication_operation_id := Some op\<rparr>)"
| confirmed:
  "ev_event_type e = EV_PUBLISH_CONFIRMED \<Longrightarrow> ns_state n = NS_PUBLISHING \<Longrightarrow>
   py_get (ev_payload e) ''candidate_head'' PNone = Inr (py_opt_str (ns_candidate_head n)) \<Longrightarrow>
   py_get (ev_payload e) ''operation_id'' PNone = Inr (py_opt_str (ns_pending_publication_operation_id n)) \<Longrightarrow>
   ns_pending_publication_effect n = Some k \<Longrightarrow> k \<noteq> [] \<Longrightarrow> required_effects s = Inr required \<Longrightarrow>
   node_step s e n (n\<lparr>
     ns_state := (if py_eq (PTuple (map PStr (ns_completed_publication_effects n @ [k]))) (PTuple required)
                  then NS_DONE else NS_READY_TO_PUBLISH),
     ns_completed_publication_effects := ns_completed_publication_effects n @ [k],
     ns_publication_operation_ids := ns_publication_operation_ids n @ [opt_text (ns_pending_publication_operation_id n)],
     ns_pending_publication_effect := None, ns_pending_publication_operation_id := None\<rparr>)"
| publish_failed:
  "ev_event_type e = EV_PUBLISH_FAILED \<Longrightarrow> ns_state n = NS_PUBLISHING \<Longrightarrow> reason_of e reason \<Longrightarrow>
   node_step s e n (failed_node n reason)"
| fail:
  "ev_event_type e = EV_FAIL_NODE \<Longrightarrow> ns_state n \<notin> TERMINAL_NODE_STATES \<Longrightarrow> reason_of e reason \<Longrightarrow>
   node_step s e n (failed_node n reason)"

text \<open>How the snapshot follows its node: a failed node fails the campaign, an admitted node
  becomes the active one, and the last node that is done completes the campaign.\<close>

definition settle :: "event \<Rightarrow> node_snapshot \<Rightarrow> campaign_snapshot \<Rightarrow> campaign_snapshot" where
  "settle e n' t =
     (if ns_state n' = NS_FAILED_EXACT_NODE \<and> ev_event_type e \<noteq> EV_RELEASE_LEASE
      then t\<lparr>cs_state := CS_FAILED, cs_active_node_id := None, cs_failure_reason := ns_failure_reason n'\<rparr>
      else if ev_event_type e = EV_ADMIT_NODE then t\<lparr>cs_active_node_id := Some (ns_node_id n')\<rparr>
      else if ev_event_type e = EV_PUBLISH_CONFIRMED \<and> ns_state n' = NS_DONE
      then t\<lparr>cs_state := (if list_all (\<lambda>m. ns_state m = NS_DONE) (cs_nodes t) then CS_COMPLETED else cs_state t),
             cs_active_node_id := None\<rparr>
      else t)"

definition node_move :: "campaign_snapshot \<Rightarrow> event \<Rightarrow> campaign_snapshot \<Rightarrow> bool" where
  "node_move s e t \<longleftrightarrow> (\<exists>n n'. found s e n \<and> node_step s e n n' \<and> funded e n' s \<and> node_ok n'
     \<and> t = settle e n' (put_node (fund e n' s) (node_frozen n')))"

lemma settle_simps [simp]:
  "cs_spec (settle e n t) = cs_spec t" "cs_revision (settle e n t) = cs_revision t"
  "cs_authority_epoch (settle e n t) = cs_authority_epoch t"
  "cs_cancellation_epoch (settle e n t) = cs_cancellation_epoch t"
  "cs_cancellation_state (settle e n t) = cs_cancellation_state t"
  "cs_nodes (settle e n t) = cs_nodes t" "cs_budgets (settle e n t) = cs_budgets t"
  "cs_budget_receipts (settle e n t) = cs_budget_receipts t"
  "cs_autonomous_rank_remaining (settle e n t) = cs_autonomous_rank_remaining t"
  by (simp_all add: settle_def)

section \<open>Accepted branches are moves\<close>

lemma node_frozen_idem [simp]: "node_frozen (node_frozen n) = node_frozen n"
  by (simp add: node_frozen_def)

lemma node_frozen_failed [simp]: "node_frozen (failed_node (node_frozen n) r) = node_frozen (failed_node n r)"
  by (simp add: node_frozen_def failed_node_def)

lemma node_frozen_state [simp]:
  "node_frozen (node_frozen n\<lparr>ns_state := st\<rparr>) = node_frozen (n\<lparr>ns_state := st\<rparr>)"
  by (simp add: node_frozen_def)

lemma failed_node_simps [simp]:
  "ns_state (failed_node n r) = NS_FAILED_EXACT_NODE" "ns_failure_reason (failed_node n r) = Some r"
  "ns_node_id (failed_node n r) = ns_node_id n"
  by (simp_all add: failed_node_def)

lemma node_moveI:
  assumes "found s e n" "node_step s e n n'" "funded e n' s" "update_node (fund e n' s) n' = Inr u"
    and "t = settle e n' u"
  shows "node_move s e t"
  using assms unfolding node_move_def update_node_eq by blast

lemma plain_move:
  assumes "found s e n" "node_step s e n n'" "update_node s n' = Inr t"
    and "dispatch_token (ev_event_type e) = None"
    and "ev_event_type e \<notin> {EV_START_PUBLISH, EV_ADMIT_NODE, EV_PUBLISH_CONFIRMED}"
    and "ns_state n' \<noteq> NS_FAILED_EXACT_NODE \<or> ev_event_type e = EV_RELEASE_LEASE"
  shows "node_move s e t"
proof -
  have "step_token e n' = None" using assms(4,5) by (simp add: step_token_def)
  then have "funded e n' s" "fund e n' s = s" by (simp_all add: funded_def fund_def)
  moreover have "settle e n' t = t" using assms(5,6) by (auto simp: settle_def)
  ultimately show ?thesis using node_moveI [OF assms(1,2), of t t] assms(3) by simp
qed

lemma fail_move:
  assumes "found s e n" "node_step s e n (failed_node m r)" "fail_exact_node s m' r = Inr t"
    and "node_frozen m' = node_frozen m"
    and "dispatch_token (ev_event_type e) = None"
    and "ev_event_type e \<notin> {EV_START_PUBLISH, EV_RELEASE_LEASE}"
  shows "node_move s e t"
proof -
  let ?n = "failed_node m r"
  have "step_token e ?n = None" using assms(5,6) by (simp add: step_token_def)
  then have f: "funded e ?n s" "fund e ?n s = s" by (simp_all add: funded_def fund_def)
  from assms(3) obtain u where u: "update_node s (failed_node m' r) = Inr u"
    and t: "t = u\<lparr>cs_state := CS_FAILED, cs_active_node_id := None, cs_failure_reason := Some r\<rparr>"
    by (auto simp: fail_exact_node_def failed_node_def bindE_Inr_iff snapshot_post_init_eq)
  have fz: "node_frozen (failed_node m' r) = node_frozen ?n"
    using assms(4) by (metis node_frozen_failed)
  have "node_ok (node_frozen x) = node_ok x" for x by (simp add: node_ok_def)
  with fz have "node_ok (failed_node m' r) = node_ok ?n" by metis
  with u fz have "update_node s ?n = Inr u" by (metis update_node_eq)
  moreover have "t = settle e ?n u" using assms(6) t by (simp add: settle_def)
  ultimately show ?thesis using node_moveI [OF assms(1,2), of u t] f by simp
qed

lemma dispatch_effect_snapshot:
  assumes "dispatch_effect s e role = Inr (u, fx)" and "ev_event_type e \<noteq> EV_START_PUBLISH"
  shows "funded e n' s \<and> u = fund e n' s"
  using assms
  by (auto simp: dispatch_effect_def funded_def fund_def step_token_def bindE_Inr_iff requireE_Inr_iff
      consume_automated_eq split: option.splits if_splits)

lemma dispatch_move:
  assumes "found s e n" "node_step s e n (f n)" "dispatched_update s e role n f = Inr (t, fx)"
    and "ev_event_type e \<notin> {EV_START_PUBLISH, EV_ADMIT_NODE, EV_PUBLISH_CONFIRMED}"
    and "ns_state (f n) \<noteq> NS_FAILED_EXACT_NODE"
  shows "node_move s e t"
proof -
  from assms(3) obtain u m where d: "dispatch_effect s e role = Inr (u, fx)"
    and m: "snapshot_node u (ns_node_id n) = Inr m" and t: "update_node u (f m) = Inr t"
    by (auto simp: dispatched_update_def bindE_Inr_iff)
  from dispatch_effect_snapshot [OF d] assms(4) have u: "funded e (f n) s" "u = fund e (f n) s" by auto
  then have "cs_nodes u = cs_nodes s" by simp
  with m found_node [OF assms(1)] have "m = n" by (simp add: snapshot_node_def split: option.splits)
  moreover have "settle e (f n) t = t" using assms(4,5) by (auto simp: settle_def)
  ultimately show ?thesis using node_moveI [OF assms(1,2) _ _ refl, of t] u t by simp
qed

lemmas branch_simps = bindE_Inr_iff requireE_Inr_iff node_for_eq check_fence_eq snapshot_post_init_eq
  FENCED_EVENTS_def

lemma reduce_admit_node_move:
  assumes "reduce_admit_node s e = Inr t" and ty: "ev_event_type e = EV_ADMIT_NODE"
  shows "node_move s e t"
proof -
  from assms(1) obtain n spec us head u where
    n: "found s e n" and run: "cs_state s = CS_RUNNING" and st: "ns_state n = NS_PENDING"
    and act: "cs_active_node_id s \<in> {None, Some (ns_node_id n)}"
    and spec: "snapshot_node_spec s (ns_node_id n) = Inr spec"
    and deps: "mapE (\<lambda>dependency. bindE (snapshot_node s dependency) (\<lambda>d.
         require (ns_state d = NS_DONE) (''dependency is not done: '' @ dependency) (Inr ())))
       (nd_dependencies spec) = Inr us"
    and hd40: "length (casefold head) = 40" "list_all hex_lower (casefold head)" "ns_start_head n = None"
    and u: "update_node s (n\<lparr>ns_state := NS_ADMITTED, ns_start_head := Some (casefold head)\<rparr>) = Inr u"
    and t: "t = u\<lparr>cs_active_node_id := Some (ns_node_id n)\<rparr>"
    by (auto simp: reduce_admit_node_def branch_simps Let_def)
  let ?n = "n\<lparr>ns_state := NS_ADMITTED, ns_start_head := Some (casefold head)\<rparr>"
  from deps have deps_done: "\<exists>m. snapshot_node s d = Inr m \<and> ns_state m = NS_DONE"
    if "d \<in> set (nd_dependencies spec)" for d
    using that by (auto simp: mapE_Inr_iff list_all2_conv_all_nth in_set_conv_nth branch_simps)
  have "node_step s e n ?n"
    by (rule node_step.admit [OF ty run st act spec deps_done hd40]) assumption
  moreover have "step_token e ?n = None" using ty by (simp add: step_token_def)
  moreover have "t = settle e ?n u" using ty t by (simp add: settle_def)
  ultimately show ?thesis
    using node_moveI [OF n, of ?n u t] u by (simp add: funded_def fund_def)
qed

lemma reduce_acquire_lease_move:
  assumes "reduce_acquire_lease s e = Inr t" and ty: "ev_event_type e = EV_ACQUIRE_LEASE"
  shows "node_move s e t"
proof -
  from assms(1) obtain n a f where n: "found s e n" and g: "cs_state s = CS_RUNNING"
      "ns_state n \<notin> TERMINAL_NODE_STATES" "ns_lease_actor_id n = None"
      "ev_actor_id e = Some a" "a \<noteq> []" "ev_fencing_epoch e = Some f" "ns_fencing_epoch n < f"
    and u: "update_node s (n\<lparr>ns_fencing_epoch := f, ns_lease_actor_id := Some a\<rparr>) = Inr t"
    by (auto simp: reduce_acquire_lease_def branch_simps split: option.splits)
  show ?thesis
    by (rule plain_move [OF n node_step.acquire [OF ty g] u])
      (use ty g in \<open>auto simp: TERMINAL_NODE_STATES_def\<close>)
qed

lemma reduce_release_lease_move:
  assumes "reduce_release_lease s e = Inr t" and ty: "ev_event_type e = EV_RELEASE_LEASE"
  shows "node_move s e t"
proof -
  from assms(1) obtain n where n: "found s e n" and g: "ns_lease_actor_id n \<noteq> None"
      "ev_actor_id e = ns_lease_actor_id n" "ev_fencing_epoch e = Some (ns_fencing_epoch n)"
    and u: "update_node s (n\<lparr>ns_lease_actor_id := None\<rparr>) = Inr t"
    by (auto simp: reduce_release_lease_def branch_simps)
  show ?thesis by (rule plain_move [OF n node_step.release [OF ty g] u]) (use ty in auto)
qed

lemma reduce_start_implementation_move:
  assumes "reduce_start_implementation s e = Inr (t, fx)" and ty: "ev_event_type e = EV_START_IMPLEMENTATION"
  shows "node_move s e t"
proof -
  from assms obtain n where n: "found s e n" and g: "cs_state s = CS_RUNNING" "fence_ok s e n"
      "ns_state n = NS_ADMITTED" "nonempty_opt (ns_start_head n)" "ns_implementation_attempts n = 0"
    and d: "dispatched_update s e ''IMPLEMENTER'' n
       (\<lambda>m. m\<lparr>ns_state := NS_IMPLEMENTING, ns_implementation_attempts := 1\<rparr>) = Inr (t, fx)"
    by (auto simp: reduce_start_implementation_def branch_simps nonempty_opt_def)
  show ?thesis by (rule dispatch_move [OF n node_step.implement [OF ty g] d]) (use ty in auto)
qed

lemma reduce_implementation_completed_move:
  assumes "reduce_implementation_completed s e = Inr t" and ty: "ev_event_type e = EV_IMPLEMENTATION_COMPLETED"
  shows "node_move s e t"
proof -
  from assms obtain n where n: "found s e n" and g: "fence_ok s e n" "ns_state n = NS_IMPLEMENTING"
    and u: "update_node s (n\<lparr>ns_state := NS_VALIDATING\<rparr>) = Inr t"
    by (auto simp: reduce_implementation_completed_def branch_simps)
  show ?thesis by (rule plain_move [OF n node_step.implemented [OF ty g] u]) (use ty in auto)
qed

lemma reduce_request_validation_correction_move:
  assumes "reduce_request_validation_correction s e = Inr t"
    and ty: "ev_event_type e = EV_REQUEST_VALIDATION_CORRECTION"
  shows "node_move s e t"
proof -
  define cmd where "cmd d = find (\<lambda>c. py_eq (PStr (vc_command_id c)) (dict_get d ''command_id'' PNone))
      (sp_required_validation_commands (cs_spec s))" for d
  from assms obtain n d correction where n: "found s e n" and g: "cs_state s = CS_RUNNING" "fence_ok s e n"
      "ns_state n = NS_VALIDATING" "ns_validation_corrections n = 0" "ns_candidate_head n = None"
    and c: "correction_approved s n (cmd d) = Inr True" "correction_binds s (the (cmd d)) d = Inr True"
      "correction_recognized (the (cmd d)) d = Inr True" "check_correction_budget s n = Inr ()"
      "py_get (ev_payload e) ''correction'' (PDict []) = Inr correction" "as_mapping correction = Some d"
    and u: "update_node s (n\<lparr>ns_state := NS_IMPLEMENTING, ns_validation_corrections := 1,
     ns_validation_correction := PDict (dict_remove ''failure_evidence'' d)\<rparr>) = Inr t"
    by (auto simp: reduce_request_validation_correction_def branch_simps Let_def cmd_def split: option.splits)
  from c(1) obtain command where cd: "cmd d = Some command"
    by (auto simp: correction_approved_def split: option.splits)
  then have "command \<in> set (sp_required_validation_commands (cs_spec s))"
    unfolding cmd_def by (auto dest: find_Some_set)
  from node_step.correct [OF ty g this] c cd
  have step: "node_step s e n (n\<lparr>ns_state := NS_IMPLEMENTING, ns_validation_corrections := 1,
     ns_validation_correction := PDict (dict_remove ''failure_evidence'' d)\<rparr>)" by simp
  show ?thesis by (rule plain_move [OF n step u]) (use ty in auto)
qed

lemma candidate_identity_eq:
  "candidate_identity e msg = Inr c \<Longrightarrow> full_candidate c"
  by (auto simp: candidate_identity_def full_candidate_def branch_simps)

lemma set_candidate_state [simp]: "ns_state (set_candidate c n) = ns_state n"
  by (cases c) (simp add: set_candidate_def)

lemma reduce_validation_passed_move:
  assumes "reduce_validation_passed s e = Inr t" and ty: "ev_event_type e = EV_VALIDATION_PASSED"
  shows "node_move s e t"
proof -
  from assms obtain n c where n: "found s e n" and g: "fence_ok s e n" "ns_state n = NS_VALIDATING"
      "full_candidate c"
    and u: "update_node s (set_candidate c (n\<lparr>ns_state := NS_CANDIDATE_FROZEN\<rparr>)) = Inr t"
    by (auto simp: reduce_validation_passed_def branch_simps dest: candidate_identity_eq)
  show ?thesis by (rule plain_move [OF n node_step.validated [OF ty g] u]) (use ty in auto)
qed

lemma reduce_validation_failed_move:
  assumes "reduce_validation_failed s e = Inr t" and ty: "ev_event_type e = EV_VALIDATION_FAILED"
  shows "node_move s e t"
proof -
  from assms obtain n r where n: "found s e n" and g: "fence_ok s e n" "ns_state n = NS_VALIDATING"
    and p: "payload_str e ''reason'' ''validation_failed'' = Inr r" and f: "fail_exact_node s n r = Inr t"
    by (auto simp: reduce_validation_failed_def branch_simps)
  have r: "reason_of e r" using p unfolding reason_of_def by blast
  show ?thesis by (rule fail_move [OF n node_step.invalid [OF ty g r] f refl]) (use ty in auto)
qed

lemma reduce_start_review_move:
  assumes "reduce_start_review s e = Inr (t, fx)" and ty: "ev_event_type e = EV_START_REVIEW"
  shows "node_move s e t"
proof -
  from assms obtain n where n: "found s e n" and g: "ns_state n = NS_CANDIDATE_FROZEN"
      "ns_review_generations n = 0"
      "get_strs (ev_payload e) ''review_cohort'' = Inr (sp_required_review_cohort (cs_spec s))"
    and d: "dispatched_update s e ''REVIEWER'' n
       (\<lambda>m. m\<lparr>ns_state := NS_CHECKS_AND_REVIEW, ns_review_generations := 1\<rparr>) = Inr (t, fx)"
    by (auto simp: reduce_start_review_def branch_simps)
  show ?thesis by (rule dispatch_move [OF n node_step.review [OF ty g] d]) (use ty in auto)
qed

lemma reduce_freeze_findings_move:
  assumes "reduce_freeze_findings s e = Inr t" and ty: "ev_event_type e = EV_FREEZE_FINDINGS"
  shows "node_move s e t"
proof -
  from assms obtain n vs fs where n: "found s e n" and g: "ns_state n = NS_CHECKS_AND_REVIEW"
      "ns_findings n = []" "get_tuple (ev_payload e) ''findings'' = Inr vs" "unique_findings vs FO_REVIEW = Inr fs"
    and u: "update_node s (n\<lparr>ns_state := NS_FINDINGS_FROZEN, ns_findings := fs\<rparr>) = Inr t"
    by (auto simp: reduce_freeze_findings_def branch_simps)
  show ?thesis by (rule plain_move [OF n node_step.freeze [OF ty g] u]) (use ty in auto)
qed

lemma blockers_Nil: "blockers n = [] \<longleftrightarrow> \<not> list_ex fi_blocking (ns_findings n)"
  by (auto simp: blockers_def filter_empty_conv list_ex_iff)

lemma reduce_mark_ready_to_publish_move:
  assumes "reduce_mark_ready_to_publish s e = Inr t" and ty: "ev_event_type e = EV_MARK_READY_TO_PUBLISH"
  shows "node_move s e t"
proof -
  from assms obtain n where n: "found s e n" and g: "ns_state n = NS_FINDINGS_FROZEN" "blockers n = []"
    and u: "update_node s (n\<lparr>ns_state := NS_READY_TO_PUBLISH\<rparr>) = Inr t"
    by (auto simp: reduce_mark_ready_to_publish_def branch_simps blockers_Nil)
  show ?thesis by (rule plain_move [OF n node_step.mark_ready [OF ty g] u]) (use ty in auto)
qed

lemma reduce_authorize_repair_move:
  assumes "reduce_authorize_repair s e = Inr t" and ty: "ev_event_type e = EV_AUTHORIZE_REPAIR"
  shows "node_move s e t"
proof -
  from assms obtain n i g where n: "found s e n" and h: "ns_state n = NS_FINDINGS_FROZEN"
      "blockers n \<noteq> []" "ns_repair_attempts n = 0"
      "get_strs (ev_payload e) ''finding_ids'' = Inr (blockers n)"
      "payload_text e ''authorization_receipt_id'' = Inr i" "i \<noteq> []"
      "payload_text e ''authorization_receipt_digest'' = Inr g" "g \<noteq> []"
    and u: "update_node s (n\<lparr>ns_state := NS_REPAIR_AUTHORIZED\<rparr>) = Inr t"
    by (auto simp: reduce_authorize_repair_def branch_simps blockers_Nil)
  show ?thesis by (rule plain_move [OF n node_step.authorize_repair [OF ty h] u]) (use ty in auto)
qed

lemma reduce_start_repair_move:
  assumes "reduce_start_repair s e = Inr (t, fx)" and ty: "ev_event_type e = EV_START_REPAIR"
  shows "node_move s e t"
proof -
  from assms obtain n where n: "found s e n" and g: "fence_ok s e n" "ns_state n = NS_REPAIR_AUTHORIZED"
      "ns_repair_attempts n = 0"
    and d: "dispatched_update s e ''REPAIRER'' n
       (\<lambda>m. m\<lparr>ns_state := NS_REPAIRING, ns_repair_attempts := 1\<rparr>) = Inr (t, fx)"
    by (auto simp: reduce_start_repair_def branch_simps)
  show ?thesis by (rule dispatch_move [OF n node_step.repair [OF ty g] d]) (use ty in auto)
qed

lemma reduce_repair_completed_move:
  assumes "reduce_repair_completed s e = Inr t" and ty: "ev_event_type e = EV_REPAIR_COMPLETED"
  shows "node_move s e t"
proof -
  from assms obtain n where n: "found s e n" and g: "fence_ok s e n" "ns_state n = NS_REPAIRING"
    and u: "update_node s (n\<lparr>ns_state := NS_REVALIDATING\<rparr>) = Inr t"
    by (auto simp: reduce_repair_completed_def branch_simps)
  show ?thesis by (rule plain_move [OF n node_step.repaired [OF ty g] u]) (use ty in auto)
qed

lemma reduce_revalidation_passed_move:
  assumes "reduce_revalidation_passed s e = Inr (t, fx)" and ty: "ev_event_type e = EV_REVALIDATION_PASSED"
  shows "node_move s e t"
proof -
  from assms obtain n c where n: "found s e n" and g: "fence_ok s e n" "ns_state n = NS_REVALIDATING"
      "ns_closure_generations n = 0" "full_candidate c"
    and d: "dispatched_update s e ''CLOSURE_REVIEWER'' n
       (\<lambda>m. set_candidate c (m\<lparr>ns_state := NS_CLOSURE, ns_closure_generations := 1\<rparr>)) = Inr (t, fx)"
    by (auto simp: reduce_revalidation_passed_def branch_simps dest: candidate_identity_eq)
  show ?thesis by (rule dispatch_move [OF n node_step.revalidated [OF ty g] d]) (use ty in auto)
qed

lemma reduce_revalidation_failed_move:
  assumes "reduce_revalidation_failed s e = Inr t" and ty: "ev_event_type e = EV_REVALIDATION_FAILED"
  shows "node_move s e t"
proof -
  from assms obtain n r where n: "found s e n" and g: "fence_ok s e n" "ns_state n = NS_REVALIDATING"
    and p: "payload_str e ''reason'' ''revalidation_failed'' = Inr r" and f: "fail_exact_node s n r = Inr t"
    by (auto simp: reduce_revalidation_failed_def branch_simps)
  have r: "reason_of e r" using p unfolding reason_of_def by blast
  show ?thesis by (rule fail_move [OF n node_step.revalidation_failed [OF ty g r] f refl]) (use ty in auto)
qed

lemma reduce_publish_failed_move:
  assumes "reduce_publish_failed s e = Inr t" and ty: "ev_event_type e = EV_PUBLISH_FAILED"
  shows "node_move s e t"
proof -
  from assms obtain n r where n: "found s e n" and g: "ns_state n = NS_PUBLISHING"
    and p: "payload_str e ''reason'' ''publication_failed'' = Inr r" and f: "fail_exact_node s n r = Inr t"
    by (auto simp: reduce_publish_failed_def branch_simps)
  have r: "reason_of e r" using p unfolding reason_of_def by blast
  show ?thesis by (rule fail_move [OF n node_step.publish_failed [OF ty g r] f refl]) (use ty in auto)
qed

lemma reduce_fail_node_move:
  assumes "reduce_fail_node s e = Inr t" and ty: "ev_event_type e = EV_FAIL_NODE"
  shows "node_move s e t"
proof -
  from assms obtain n r where n: "found s e n" and g: "ns_state n \<notin> TERMINAL_NODE_STATES"
    and p: "payload_str e ''reason'' ''node_failed'' = Inr r" and f: "fail_exact_node s n r = Inr t"
    by (auto simp: reduce_fail_node_def branch_simps)
  have r: "reason_of e r" using p unfolding reason_of_def by blast
  show ?thesis by (rule fail_move [OF n node_step.fail [OF ty g r] f refl]) (use ty in auto)
qed

lemma reduce_authorize_publication_move:
  assumes "reduce_authorize_publication s e = Inr t" and ty: "ev_event_type e = EV_AUTHORIZE_PUBLICATION"
  shows "node_move s e t"
proof -
  from assms obtain n i g where n: "found s e n" and h: "publication_automated s = Inr False"
      "ns_state n = NS_READY_TO_PUBLISH" "ns_publication_authorization_receipt_id n = None"
      "i \<noteq> []" "g \<noteq> []"
    and u: "update_node s (n\<lparr>ns_publication_authorization_receipt_id := Some i,
     ns_publication_authorization_receipt_digest := Some g\<rparr>) = Inr t"
    by (auto simp: reduce_authorize_publication_def branch_simps)
  show ?thesis
    by (rule plain_move [OF n node_step.authorize_publication [OF ty h] u]) (use ty h in auto)
qed

lemma reduce_complete_closure_move:
  assumes "reduce_complete_closure s e = Inr t" and ty: "ev_event_type e = EV_COMPLETE_CLOSURE"
  shows "node_move s e t"
proof -
  define rest where "rest n resolved = filter (\<lambda>i. i \<notin> set resolved) (remdups (blockers n))"
    for n and resolved :: "string list"
  define new where "new fs = map fi_finding_id (filter closure_blocking fs)" for fs
  from assms obtain n vs fs resolved where n: "found s e n" and g: "ns_state n = NS_CLOSURE"
      "get_tuple (ev_payload e) ''findings'' = Inr vs" "unique_findings vs FO_CLOSURE = Inr fs" "distinct resolved"
      "set (map fi_finding_id fs) \<inter> set (blockers n) = {}"
    and sub: "set resolved \<subseteq> set (blockers n)"
    and u: "(if rest n resolved \<noteq> [] \<or> new fs \<noteq> []
        then fail_exact_node s (node_frozen (closed_node n fs resolved)) (closure_reason (rest n resolved) (new fs))
        else update_node s (node_frozen (closed_node n fs resolved)\<lparr>ns_state := NS_READY_TO_PUBLISH\<rparr>)) = Inr t"
    unfolding rest_def new_def closed_node_def
    by (auto simp: reduce_complete_closure_def branch_simps Let_def node_post_init_eq simp del: set_map)
  have all: "rest n resolved = [] \<longleftrightarrow> set resolved = set (blockers n)"
    using sub by (auto simp: rest_def filter_empty_conv)
  have none: "new fs = [] \<longleftrightarrow> \<not> list_ex closure_blocking fs"
    by (auto simp: new_def filter_empty_conv list_ex_iff)
  show ?thesis
  proof (cases "rest n resolved \<noteq> [] \<or> new fs \<noteq> []")
    case True
    with u have f: "fail_exact_node s (node_frozen (closed_node n fs resolved))
        (closure_reason (rest n resolved) (new fs)) = Inr t" by simp
    from True all none have bad: "set resolved \<noteq> set (blockers n) \<or> list_ex closure_blocking fs" by simp
    have "closure_reason (rest n resolved) (new fs) \<noteq> []" by (simp add: closure_reason_def)
    from node_step.closure_failed [OF ty g sub bad this]
    show ?thesis by (rule fail_move [OF n _ f]) (use ty in auto)
  next
    case False
    let ?m = "closed_node n fs resolved\<lparr>ns_state := NS_READY_TO_PUBLISH\<rparr>"
    from False all none have ok: "set resolved = set (blockers n)" "\<not> list_ex closure_blocking fs" by simp_all
    from False u have "update_node s (node_frozen (closed_node n fs resolved)\<lparr>ns_state := NS_READY_TO_PUBLISH\<rparr>) = Inr t"
      by simp
    then have u': "update_node s ?m = Inr t" by (auto simp: update_node_eq node_ok_def)
    show ?thesis
      by (rule plain_move [OF n node_step.closure_passed [OF ty g ok] u']) (use ty in auto)
  qed
qed

lemma publish_kind_token:
  "publish_token kind = Some t \<Longrightarrow> ev_event_type e = EV_START_PUBLISH \<Longrightarrow>
   ns_pending_publication_effect n' = Some (effect_kind_value kind) \<Longrightarrow> step_token e n' = Some t"
  by (simp add: step_token_def effect_kind_enum.parse_value)

lemma reduce_start_publish_move:
  assumes "reduce_start_publish s e = Inr (t, fx)" and ty: "ev_event_type e = EV_START_PUBLISH"
  shows "node_move s e t"
proof -
  from assms obtain n automated kind token op nx m where n: "found s e n"
    and g: "ns_state n = NS_READY_TO_PUBLISH" "publication_automated s = Inr automated"
      "automated \<or> nonempty_opt (ns_publication_authorization_receipt_id n)
         \<and> nonempty_opt (ns_publication_authorization_receipt_digest n)"
      "ns_pending_publication_operation_id n = None"
    and token: "publish_token kind = Some token"
    and order: "check_publication_order s n kind = Inr ()"
    and op: "op \<noteq> []" "op \<notin> set (ns_publication_operation_ids n)"
    and spend: "consume_automated s e token = Inr nx"
    and m: "snapshot_node nx (ns_node_id n) = Inr m"
    and u: "update_node nx (m\<lparr>ns_state := NS_PUBLISHING,
             ns_pending_publication_effect := Some (effect_kind_value kind),
             ns_pending_publication_operation_id := Some op\<rparr>) = Inr t"
    by (auto simp: reduce_start_publish_def branch_simps Let_def split: option.splits)
  let ?n = "n\<lparr>ns_state := NS_PUBLISHING, ns_pending_publication_effect := Some (effect_kind_value kind),
     ns_pending_publication_operation_id := Some op\<rparr>"
  from order obtain required where o: "required_effects s = Inr required"
      "length (ns_completed_publication_effects n) < length required"
      "required ! length (ns_completed_publication_effects n) = PStr (effect_kind_value kind)"
    by (auto simp: check_publication_order_def branch_simps Let_def)
  from token have "publish_token kind \<noteq> None" by simp
  from node_step.publish [OF ty g this o op] have step: "node_step s e n ?n" .
  have tok: "step_token e ?n = Some token" by (rule publish_kind_token [OF token ty]) simp
  from spend have f: "funded e ?n s" "nx = fund e ?n s"
    by (simp_all add: funded_def fund_def tok consume_automated_eq split: if_splits)
  then have "cs_nodes nx = cs_nodes s" by simp
  with m found_node [OF n] have "m = n" by (simp add: snapshot_node_def split: option.splits)
  with u f have "update_node (fund e ?n s) ?n = Inr t" by simp
  moreover have "t = settle e ?n t" using ty by (simp add: settle_def)
  ultimately show ?thesis using node_moveI [OF n step f(1)] by blast
qed

lemma opt_text_Some [simp]: "opt_text (Some x) = x"
  by (simp add: opt_text_def)

lemma reduce_publish_confirmed_move:
  assumes "reduce_publish_confirmed s e = Inr t" and ty: "ev_event_type e = EV_PUBLISH_CONFIRMED"
  shows "node_move s e t"
proof -
  define finished where "finished n k required \<longleftrightarrow>
      py_eq (PTuple (map PStr (ns_completed_publication_effects n @ [k]))) (PTuple required)" for n :: node_snapshot and k required
  define after where "after n k required = n\<lparr>
     ns_state := (if finished n k required then NS_DONE else NS_READY_TO_PUBLISH),
     ns_completed_publication_effects := ns_completed_publication_effects n @ [k],
     ns_publication_operation_ids := ns_publication_operation_ids n @ [opt_text (ns_pending_publication_operation_id n)],
     ns_pending_publication_effect := None, ns_pending_publication_operation_id := None\<rparr>" for n :: node_snapshot and k required
  from assms obtain n k required u where n: "found s e n"
    and g: "ns_state n = NS_PUBLISHING"
      "py_get (ev_payload e) ''candidate_head'' PNone = Inr (py_opt_str (ns_candidate_head n))"
      "py_get (ev_payload e) ''operation_id'' PNone = Inr (py_opt_str (ns_pending_publication_operation_id n))"
      "ns_pending_publication_effect n = Some k" "k \<noteq> []" "required_effects s = Inr required"
    and u: "update_node s (after n k required) = Inr u"
    and t: "(if finished n k required \<and> list_all (\<lambda>m. ns_state m = NS_DONE) (cs_nodes u)
           then snapshot_post_init (u\<lparr>cs_state := CS_COMPLETED, cs_active_node_id := None\<rparr>)
           else if finished n k required then snapshot_post_init (u\<lparr>cs_active_node_id := None\<rparr>)
           else Inr u) = Inr t"
    unfolding finished_def after_def
    by (auto simp: reduce_publish_confirmed_def branch_simps Let_def nonempty_opt_def
        simp del: py_norm.simps cong: if_cong)
  from node_step.confirmed [OF ty g] have step: "node_step s e n (after n k required)"
    unfolding after_def finished_def .
  have st: "ns_state (after n k required) = (if finished n k required then NS_DONE else NS_READY_TO_PUBLISH)"
    by (simp add: after_def)
  have "step_token e (after n k required) = None" using ty by (simp add: step_token_def)
  then have f: "funded e (after n k required) s" "fund e (after n k required) s = s"
    by (simp_all add: funded_def fund_def)
  have "u\<lparr>cs_state := cs_state u\<rparr> = u" by simp
  with t ty have "t = settle e (after n k required) u"
    by (auto simp: settle_def st snapshot_post_init_eq split: if_splits)
  with node_moveI [OF n step f(1)] f(2) u show ?thesis by simp
qed

section \<open>The step relation\<close>

definition campaign_edges :: "(event_type \<times> campaign_state \<times> campaign_state) set" where
  "campaign_edges =
     {(EV_APPROVE, CS_DRAFT, CS_APPROVED), (EV_START, CS_APPROVED, CS_RUNNING),
      (EV_WAIT_EXTERNAL, CS_RUNNING, CS_WAITING_EXTERNAL), (EV_WAIT_HUMAN, CS_RUNNING, CS_WAITING_HUMAN),
      (EV_RESUME, CS_WAITING_EXTERNAL, CS_RUNNING), (EV_RESUME, CS_WAITING_HUMAN, CS_RUNNING)}"

definition approval_binds :: "campaign_snapshot \<Rightarrow> event \<Rightarrow> bool" where
  "approval_binds s e \<longleftrightarrow> sp_specification_digest (cs_spec s) = compute_digest (cs_spec s)
     \<and> py_get (ev_payload e) ''specification_digest'' PNone = Inr (PStr (compute_digest (cs_spec s)))"

definition unleased :: "node_snapshot \<Rightarrow> node_snapshot" where
  "unleased n = node_frozen (n\<lparr>ns_lease_actor_id := None\<rparr>)"

definition cancelled :: "node_snapshot \<Rightarrow> node_snapshot" where
  "cancelled n = (if ns_state n \<in> TERMINAL_NODE_STATES then n
     else node_frozen (n\<lparr>ns_state := NS_CANCELLED, ns_lease_actor_id := None\<rparr>))"

inductive step :: "campaign_snapshot \<Rightarrow> event \<Rightarrow> campaign_snapshot \<Rightarrow> bool"
  for s :: campaign_snapshot and e :: event
where
  campaign:
  "(ev_event_type e, cs_state s, st) \<in> campaign_edges \<Longrightarrow> ev_event_type e = EV_APPROVE \<longrightarrow> approval_binds s e \<Longrightarrow>
   step s e (s\<lparr>cs_state := st\<rparr>)"
| authority:
  "ev_event_type e = EV_ADVANCE_AUTHORITY \<Longrightarrow> cs_state s = CS_WAITING_HUMAN \<Longrightarrow>
   get_int (ev_payload e) ''new_authority_epoch'' (-1) = Inr (cs_authority_epoch s + 1) \<Longrightarrow>
   step s e (s\<lparr>cs_authority_epoch := cs_authority_epoch s + 1, cs_nodes := map unleased (cs_nodes s)\<rparr>)"
| cancel:
  "ev_event_type e = EV_CANCEL \<Longrightarrow> payload_str e ''reason'' ''STOP'' = Inr reason \<Longrightarrow>
   step s e (s\<lparr>cs_state := CS_CANCELLED, cs_cancellation_state := CN_CANCELLED,
     cs_cancellation_epoch := cs_cancellation_epoch s + 1, cs_nodes := map cancelled (cs_nodes s),
     cs_active_node_id := None, cs_failure_reason := Some reason\<rparr>)"
| budget:
  "ev_event_type e = EV_CONSUME_BUDGET \<Longrightarrow> cs_state s = CS_RUNNING \<Longrightarrow> spendable s token (ev_event_id e) \<Longrightarrow>
   step s e (spend token (ev_event_id e) s)"
| node:
  "found s e n \<Longrightarrow> node_step s e n n' \<Longrightarrow> funded e n' s \<Longrightarrow> node_ok n' \<Longrightarrow>
   step s e (settle e n' (put_node (fund e n' s) (node_frozen n')))"

lemma node_move_step: "node_move s e t \<Longrightarrow> step s e t"
  by (auto simp: node_move_def intro: step.node)

lemma verify_digest_eq:
  "verify_digest spec = Inr u \<longleftrightarrow> sp_specification_digest spec \<noteq> []
     \<and> sp_specification_digest spec = compute_digest spec"
  by (auto simp: verify_digest_def res_simps)

lemma mapE_node_post_init:
  "mapE (\<lambda>n. node_post_init (f n)) ns = Inr ms \<Longrightarrow> ms = map (\<lambda>n. node_frozen (f n)) ns"
  by (induction ns arbitrary: ms) (auto simp: bindE_Inr_iff node_post_init_eq)

lemma mapE_cancel_node: "mapE cancel_node ns = Inr ms \<Longrightarrow> ms = map cancelled ns"
  by (induction ns arbitrary: ms)
    (auto simp: bindE_Inr_iff cancel_node_def cancelled_def node_post_init_eq split: if_splits)

lemma reduce_campaign_steps:
  "reduce_approve s e = Inr t \<Longrightarrow> ev_event_type e = EV_APPROVE \<Longrightarrow> step s e t"
  "reduce_start s = Inr t \<Longrightarrow> ev_event_type e = EV_START \<Longrightarrow> step s e t"
  "reduce_wait s e = Inr t \<Longrightarrow> ev_event_type e = EV_WAIT_EXTERNAL \<Longrightarrow> step s e t"
  "reduce_wait s e = Inr t \<Longrightarrow> ev_event_type e = EV_WAIT_HUMAN \<Longrightarrow> step s e t"
  "reduce_resume s = Inr t \<Longrightarrow> ev_event_type e = EV_RESUME \<Longrightarrow> step s e t"
  by (auto simp: reduce_approve_def reduce_start_def reduce_wait_def reduce_resume_def branch_simps
      verify_digest_eq campaign_edges_def approval_binds_def intro!: step.campaign)

lemma reduce_advance_authority_step:
  "reduce_advance_authority s e = Inr t \<Longrightarrow> ev_event_type e = EV_ADVANCE_AUTHORITY \<Longrightarrow> step s e t"
  using step.authority [of e s]
  by (auto simp: reduce_advance_authority_def branch_simps unleased_def [abs_def] dest!: mapE_node_post_init)

lemma reduce_cancel_step:
  "reduce_cancel s e = Inr (t, fx) \<Longrightarrow> ev_event_type e = EV_CANCEL \<Longrightarrow> step s e t"
  by (auto simp: reduce_cancel_def branch_simps dest!: mapE_cancel_node intro: step.cancel)

lemma reduce_consume_budget_step:
  "reduce_consume_budget s e = Inr t \<Longrightarrow> ev_event_type e = EV_CONSUME_BUDGET \<Longrightarrow> step s e t"
  by (auto simp: reduce_consume_budget_def requireE_Inr_iff consume_budget_eq
      split: sum.splits error.splits intro: step.budget)

lemma silent_eq: "silent m = Inr (t, fx) \<longleftrightarrow> m = Inr t \<and> fx = []"
  by (auto simp: silent_def bindE_Inr_iff)

lemma reduce_branch_step:
  assumes "reduce_branch s e = Inr (t, fx)"
  shows "step s e t"
proof (cases "ev_event_type e")
qed (use assms in \<open>simp_all add: reduce_branch_def silent_eq reduce_campaign_steps
    reduce_advance_authority_step reduce_cancel_step reduce_consume_budget_step
    node_move_step reduce_admit_node_move reduce_acquire_lease_move reduce_release_lease_move
    reduce_start_implementation_move reduce_implementation_completed_move
    reduce_request_validation_correction_move reduce_validation_passed_move
    reduce_validation_failed_move reduce_start_review_move reduce_freeze_findings_move
    reduce_mark_ready_to_publish_move reduce_authorize_repair_move reduce_start_repair_move
    reduce_repair_completed_move reduce_revalidation_passed_move reduce_revalidation_failed_move
    reduce_complete_closure_move reduce_authorize_publication_move reduce_start_publish_move
    reduce_publish_confirmed_move reduce_publish_failed_move reduce_fail_node_move\<close>)

text \<open>The envelope every accepted event carries.\<close>

definition envelope_ok :: "campaign_snapshot \<Rightarrow> event \<Rightarrow> bool" where
  "envelope_ok s e \<longleftrightarrow> ev_campaign_id e = sp_campaign_id (cs_spec s)
     \<and> ev_expected_revision e = cs_revision s \<and> ev_authority_epoch e = cs_authority_epoch s
     \<and> ev_cancellation_epoch e = cs_cancellation_epoch s
     \<and> cs_cancellation_state s \<noteq> CN_CANCELLED \<and> cs_state s \<notin> TERMINAL_CAMPAIGN_STATES"

lemma reduce_event_Inr:
  "reduce_event s e = Inr (s', fx) \<longleftrightarrow>
     envelope_ok s e \<and> (\<exists>t. reduce_branch s e = Inr (t, fx) \<and> finish_revision s (t, fx) = Inr (s', fx))"
  unfolding reduce_event_def envelope_ok_def
  by (auto simp: res_simps finish_revision_def Let_def)

lemma finish_revision_eq:
  "finish_revision s (t, fx) = Inr (s', fx') \<longleftrightarrow>
     fx' = fx \<and> s' = t\<lparr>cs_revision := cs_revision s + 1\<rparr> \<and> snapshot_ok s' \<and> cs_spec t = cs_spec s
     \<and> int (length (cs_budget_receipts t)) - int (length (cs_budget_receipts s))
         = cs_autonomous_rank_remaining s - cs_autonomous_rank_remaining t
     \<and> cs_autonomous_rank_remaining s - cs_autonomous_rank_remaining t \<in> {0, 1}"
  by (auto simp: finish_revision_def Let_def res_simps snapshot_post_init_eq)

theorem reduce_step:
  assumes "reduce_event s e = Inr (s', fx)"
  obtains t where "envelope_ok s e" "step s e t" "s' = t\<lparr>cs_revision := cs_revision s + 1\<rparr>"
    "snapshot_ok s'" "cs_spec t = cs_spec s" "reduce_branch s e = Inr (t, fx)"
    "cs_autonomous_rank_remaining s - cs_autonomous_rank_remaining t \<in> {0, 1}"
    "int (length (cs_budget_receipts t)) - int (length (cs_budget_receipts s))
         = cs_autonomous_rank_remaining s - cs_autonomous_rank_remaining t"
  using assms reduce_branch_step unfolding reduce_event_Inr finish_revision_eq by blast

end
