(* ===== verification/Reducer_Invariants.thy ===== *)
theory Reducer_Invariants
  imports Reducer_Steps
begin

text \<open>
  Executions of the reducer and the induction principles for their invariants.
  \<open>reachable\<close> holds for the snapshots that accepted events can produce from
  \<open>CampaignSnapshot.initial\<close>.  The locale \<open>snapshot_invariant\<close> turns a property kept
  by every step into one of every reachable snapshot, and \<open>node_invariant\<close>, which extends
  it, does so for a property of single nodes.  The invariants of the lifecycle are their
  interpretations.
\<close>

section \<open>Executions\<close>

inductive reachable :: "campaign_spec \<Rightarrow> campaign_snapshot \<Rightarrow> bool" for spec where
  init: "snapshot_initial spec = Inr s \<Longrightarrow> reachable spec s"
| event: "reachable spec s \<Longrightarrow> reduce_event s e = Inr (s', fx) \<Longrightarrow> reachable spec s'"

inductive_cases node_stepE: "node_step s e n n'"
inductive_cases stepE: "step s e t"

lemma snapshot_initial_eq:
  assumes "snapshot_initial spec = Inr s"
  shows "cs_spec s = spec" "cs_nodes s = map (\<lambda>n. node_default (nd_node_id n)) (sp_nodes spec)"
    "cs_budgets s = map (\<lambda>b. \<lparr>bb_token = ab_token b, bb_limit = ab_limit b, bb_consumed = 0\<rparr>)
        (sort_key (\<lambda>b. budget_token_value (ab_token b)) (sp_attempt_budgets spec))"
    "cs_budget_receipts s = []" "cs_autonomous_rank_remaining s = sp_autonomous_rank spec"
    "cs_state s = CS_DRAFT" "cs_revision s = 0" "cs_authority_epoch s = sp_authority_epoch spec"
    "cs_cancellation_epoch s = sp_cancellation_epoch spec" "cs_cancellation_state s = CN_ACTIVE"
    "cs_active_node_id s = None" "cs_failure_reason s = None" "snapshot_ok s"
    "\<forall>n \<in> set (cs_nodes s). node_ok n"
    "\<forall>b \<in> set (sp_attempt_budgets spec). 0 \<le> ab_limit b"
    "sp_specification_digest spec = compute_digest spec"
proof -
  from assms obtain ns bs where ns: "mapE node_post_init (map (\<lambda>n. node_default (nd_node_id n)) (sp_nodes spec)) = Inr ns"
    and bs: "mapE (\<lambda>b. budget_balance_post_init
              \<lparr>bb_token = ab_token b, bb_limit = ab_limit b, bb_consumed = 0\<rparr>)
            (sort_key (\<lambda>b. budget_token_value (ab_token b)) (sp_attempt_budgets spec)) = Inr bs"
    and s: "s = \<lparr>cs_spec = spec, cs_revision = 0, cs_state = CS_DRAFT,
        cs_authority_epoch = sp_authority_epoch spec,
        cs_cancellation_epoch = sp_cancellation_epoch spec, cs_cancellation_state = CN_ACTIVE,
        cs_nodes = ns, cs_budgets = bs, cs_budget_receipts = [],
        cs_autonomous_rank_remaining = sp_autonomous_rank spec, cs_active_node_id = None,
        cs_failure_reason = None\<rparr>" and ok: "snapshot_ok s"
    and digest: "sp_specification_digest spec = compute_digest spec"
    by (auto simp: snapshot_initial_def bindE_Inr_iff snapshot_post_init_eq verify_digest_eq)
  have frozen: "node_frozen (node_default i) = node_default i" for i
    by (simp add: node_frozen_def node_default_def)
  have nodes: "ns = map (\<lambda>n. node_default (nd_node_id n)) nds \<and> (\<forall>n \<in> set ns. node_ok n)"
    if "mapE node_post_init (map (\<lambda>n. node_default (nd_node_id n)) nds) = Inr ns" for nds ns
    using that by (induction nds arbitrary: ns) (auto simp: bindE_Inr_iff node_post_init_eq frozen)
  have budgets: "bs = map (\<lambda>b. \<lparr>bb_token = ab_token b, bb_limit = ab_limit b, bb_consumed = 0\<rparr>) abs
      \<and> (\<forall>b \<in> set abs. 0 \<le> ab_limit b)"
    if "mapE (\<lambda>b. budget_balance_post_init
              \<lparr>bb_token = ab_token b, bb_limit = ab_limit b, bb_consumed = 0\<rparr>) abs = Inr bs" for abs bs
    using that by (induction abs arbitrary: bs)
      (auto simp: bindE_Inr_iff budget_balance_post_init_def requireE_Inr_iff)
  show "cs_spec s = spec" "cs_nodes s = map (\<lambda>n. node_default (nd_node_id n)) (sp_nodes spec)"
    "cs_budgets s = map (\<lambda>b. \<lparr>bb_token = ab_token b, bb_limit = ab_limit b, bb_consumed = 0\<rparr>)
        (sort_key (\<lambda>b. budget_token_value (ab_token b)) (sp_attempt_budgets spec))"
    "cs_budget_receipts s = []" "cs_autonomous_rank_remaining s = sp_autonomous_rank spec"
    "cs_state s = CS_DRAFT" "cs_revision s = 0" "cs_authority_epoch s = sp_authority_epoch spec"
    "cs_cancellation_epoch s = sp_cancellation_epoch spec" "cs_cancellation_state s = CN_ACTIVE"
    "cs_active_node_id s = None" "cs_failure_reason s = None" "snapshot_ok s"
    "\<forall>n \<in> set (cs_nodes s). node_ok n"
    "\<forall>b \<in> set (sp_attempt_budgets spec). 0 \<le> ab_limit b"
    "sp_specification_digest spec = compute_digest spec"
    using nodes [OF ns] budgets [OF bs] ok digest by (auto simp: s)
qed

section \<open>Invariants of snapshots and of nodes\<close>

text \<open>The revision is not part of a step, so an invariant must not depend on it.\<close>

locale snapshot_invariant =
  fixes inv :: "campaign_spec \<Rightarrow> campaign_snapshot \<Rightarrow> bool"
  assumes inv_init: "snapshot_initial spec = Inr s \<Longrightarrow> inv spec s"
    and inv_step: "inv spec s \<Longrightarrow> envelope_ok s e \<Longrightarrow> step s e t \<Longrightarrow> inv spec t"
    and inv_revision: "inv spec t \<Longrightarrow> inv spec (t\<lparr>cs_revision := r\<rparr>)"
begin

lemma event: "inv spec s \<Longrightarrow> reduce_event s e = Inr (s', fx) \<Longrightarrow> inv spec s'"
  by (elim reduce_step) (auto intro: inv_step inv_revision)

lemma reachable: "reachable spec s \<Longrightarrow> inv spec s"
  by (induction rule: reachable.induct) (auto intro: inv_init event)

end

lemma put_node_set:
  "m \<in> set (cs_nodes (put_node s n)) \<Longrightarrow> m = n \<or> m \<in> set (cs_nodes s) \<and> ns_node_id m \<noteq> ns_node_id n"
  by (auto simp: put_node_nodes)

locale node_invariant =
  fixes P :: "campaign_spec \<Rightarrow> node_snapshot \<Rightarrow> bool"
  assumes node_init: "node_ok (node_default i) \<Longrightarrow> P spec (node_default i)"
    and node_unleased: "P spec n \<Longrightarrow> P spec (unleased n)"
    and node_cancelled: "P spec n \<Longrightarrow> P spec (cancelled n)"
    and node_steps: "P spec n \<Longrightarrow> cs_spec s = spec \<Longrightarrow> node_ok n' \<Longrightarrow> node_step s e n n' \<Longrightarrow> P spec (node_frozen n')"

definition all_nodes :: "(campaign_spec \<Rightarrow> node_snapshot \<Rightarrow> bool) \<Rightarrow> campaign_spec \<Rightarrow> campaign_snapshot \<Rightarrow> bool" where
  "all_nodes P spec s \<longleftrightarrow> cs_spec s = spec \<and> (\<forall>n \<in> set (cs_nodes s). P spec n)"

sublocale node_invariant \<subseteq> snapshot_invariant "all_nodes P"
proof
  fix spec s assume i: "snapshot_initial spec = Inr s"
  show "all_nodes P spec s"
    using snapshot_initial_eq(1,2,14) [OF i] by (auto simp: all_nodes_def intro: node_init)
next
  fix spec s e t assume inv: "all_nodes P spec s" and st: "step s e t"
  from st show "all_nodes P spec t"
  proof cases
    case (node n n')
    from inv have P: "P spec m" if "m \<in> set (cs_nodes s)" for m using that by (simp add: all_nodes_def)
    from inv have sp: "cs_spec s = spec" by (simp add: all_nodes_def)
    have new: "P spec (node_frozen n')"
      by (rule node_steps [OF P [OF found_set] sp]) (use node in auto)
    show ?thesis
      unfolding all_nodes_def
    proof (intro conjI ballI)
      show "cs_spec t = spec" using node(1) sp by simp
      fix m assume "m \<in> set (cs_nodes t)"
      with node(1) have "m = node_frozen n' \<or> m \<in> set (cs_nodes s)"
        using put_node_set [of m "fund e n' s" "node_frozen n'"] by auto
      with new P show "P spec m" by auto
    qed
  qed (use inv in \<open>auto simp: all_nodes_def intro: node_unleased node_cancelled\<close>)
next
  fix spec t r assume "all_nodes P spec t"
  then show "all_nodes P spec (t\<lparr>cs_revision := r\<rparr>)" by (simp add: all_nodes_def)
qed

context node_invariant begin

lemma reachable_node: "reachable spec s \<Longrightarrow> n \<in> set (cs_nodes s) \<Longrightarrow> P spec n"
  using reachable by (auto simp: all_nodes_def)

end

end
