(* ===== verification/Lifecycle.thy ===== *)
theory Lifecycle
  imports Reducer_Invariants
begin

text \<open>
  The invariants of single nodes: the attempt counters follow the state, the identity of the
  candidate is complete once it is frozen, blockers are resolved before publication, and the
  confirmed publication effects are a prefix of the required sequence.  Each is an
  interpretation of \<open>node_invariant\<close>.  The relations between a node before and after an
  event (its edges, its fence, what may never change) are interpretations of
  \<open>node_evolution\<close>.
\<close>

section \<open>Simplification of updated nodes\<close>

lemma set_candidate_simps [simp]:
  "ns_node_id (set_candidate c n) = ns_node_id n"
  "ns_fencing_epoch (set_candidate c n) = ns_fencing_epoch n"
  "ns_lease_actor_id (set_candidate c n) = ns_lease_actor_id n"
  "ns_implementation_attempts (set_candidate c n) = ns_implementation_attempts n"
  "ns_validation_corrections (set_candidate c n) = ns_validation_corrections n"
  "ns_review_generations (set_candidate c n) = ns_review_generations n"
  "ns_repair_attempts (set_candidate c n) = ns_repair_attempts n"
  "ns_closure_generations (set_candidate c n) = ns_closure_generations n"
  "ns_start_head (set_candidate c n) = ns_start_head n"
  "ns_candidate_head (set_candidate c n) = Some (fst c)"
  "ns_candidate_tree (set_candidate c n) = Some (fst (snd c))"
  "ns_candidate_diff_digest (set_candidate c n) = Some (fst (snd (snd c)))"
  "ns_candidate_node_diff_digest (set_candidate c n) = Some (snd (snd (snd c)))"
  "ns_findings (set_candidate c n) = ns_findings n"
  "ns_closure_findings (set_candidate c n) = ns_closure_findings n"
  "ns_resolved_finding_ids (set_candidate c n) = ns_resolved_finding_ids n"
  "ns_completed_publication_effects (set_candidate c n) = ns_completed_publication_effects n"
  "ns_publication_operation_ids (set_candidate c n) = ns_publication_operation_ids n"
  "ns_pending_publication_effect (set_candidate c n) = ns_pending_publication_effect n"
  "ns_pending_publication_operation_id (set_candidate c n) = ns_pending_publication_operation_id n"
  "ns_publication_authorization_receipt_id (set_candidate c n) = ns_publication_authorization_receipt_id n"
  "ns_publication_authorization_receipt_digest (set_candidate c n) = ns_publication_authorization_receipt_digest n"
  "ns_failure_reason (set_candidate c n) = ns_failure_reason n"
  by (cases c; simp add: set_candidate_def)+

lemmas node_update_defs = failed_node_def closed_node_def unleased_def cancelled_def TERMINAL_NODE_STATES_def
  blockers_def

lemma cancelled_cases: "cancelled n = n \<or> cancelled n = node_frozen (n\<lparr>ns_state := NS_CANCELLED, ns_lease_actor_id := None\<rparr>)"
  by (simp add: cancelled_def)

section \<open>Attempt counters\<close>

text \<open>Which generations a node has used in each of its states.\<close>

definition at_most_once :: "node_snapshot \<Rightarrow> bool" where
  "at_most_once n \<longleftrightarrow> ns_implementation_attempts n \<in> {0, 1} \<and> ns_validation_corrections n \<in> {0, 1}
     \<and> ns_review_generations n \<in> {0, 1} \<and> ns_repair_attempts n \<in> {0, 1}
     \<and> ns_closure_generations n \<in> {0, 1}"

definition generations :: "node_snapshot \<Rightarrow> int \<times> int \<times> int \<times> int" where
  "generations n = (ns_implementation_attempts n, ns_review_generations n, ns_repair_attempts n,
     ns_closure_generations n)"

fun generations_fit :: "node_state \<Rightarrow> int \<times> int \<times> int \<times> int \<Rightarrow> bool" where
  "generations_fit NS_PENDING g = (g = (0, 0, 0, 0))"
| "generations_fit NS_ADMITTED g = (g = (0, 0, 0, 0))"
| "generations_fit NS_IMPLEMENTING g = (g = (1, 0, 0, 0))"
| "generations_fit NS_VALIDATING g = (g = (1, 0, 0, 0))"
| "generations_fit NS_CANDIDATE_FROZEN g = (g = (1, 0, 0, 0))"
| "generations_fit NS_CHECKS_AND_REVIEW g = (g = (1, 1, 0, 0))"
| "generations_fit NS_FINDINGS_FROZEN g = (g = (1, 1, 0, 0))"
| "generations_fit NS_REPAIR_AUTHORIZED g = (g = (1, 1, 0, 0))"
| "generations_fit NS_REPAIRING g = (g = (1, 1, 1, 0))"
| "generations_fit NS_REVALIDATING g = (g = (1, 1, 1, 0))"
| "generations_fit NS_CLOSURE g = (g = (1, 1, 1, 1))"
| "generations_fit NS_READY_TO_PUBLISH g = (g = (1, 1, 0, 0) \<or> g = (1, 1, 1, 1))"
| "generations_fit NS_PUBLISHING g = (g = (1, 1, 0, 0) \<or> g = (1, 1, 1, 1))"
| "generations_fit NS_DONE g = (g = (1, 1, 0, 0) \<or> g = (1, 1, 1, 1))"
| "generations_fit NS_FAILED_EXACT_NODE g = True"
| "generations_fit NS_CANCELLED g = True"

definition lifecycle_ok :: "campaign_spec \<Rightarrow> node_snapshot \<Rightarrow> bool" where
  "lifecycle_ok spec n \<longleftrightarrow> at_most_once n \<and> generations_fit (ns_state n) (generations n)
     \<and> (ns_state n \<in> {NS_PENDING, NS_ADMITTED} \<longrightarrow> ns_validation_corrections n = 0)"

lemmas lifecycle_defs = lifecycle_ok_def at_most_once_def generations_def

interpretation lifecycle: node_invariant lifecycle_ok
proof
  fix spec n assume "lifecycle_ok spec n"
  then show "lifecycle_ok spec (unleased n)" "lifecycle_ok spec (cancelled n)"
    by (auto simp: lifecycle_defs node_update_defs)
next
  fix spec s e n n' assume P: "lifecycle_ok spec n" and st: "node_step s e n n'"
  from st show "lifecycle_ok spec (node_frozen n')"
    by cases (use P in \<open>auto simp: lifecycle_defs node_update_defs\<close>)
qed (simp add: lifecycle_defs node_default_def)

section \<open>Candidate identity\<close>

definition candidate_states :: "node_state set" where
  "candidate_states = {NS_CANDIDATE_FROZEN, NS_CHECKS_AND_REVIEW, NS_FINDINGS_FROZEN,
     NS_REPAIR_AUTHORIZED, NS_REPAIRING, NS_REVALIDATING, NS_CLOSURE, NS_READY_TO_PUBLISH,
     NS_PUBLISHING, NS_DONE}"

definition candidate_complete :: "node_snapshot \<Rightarrow> bool" where
  "candidate_complete n \<longleftrightarrow> nonempty_opt (ns_candidate_head n) \<and> nonempty_opt (ns_candidate_tree n)
     \<and> nonempty_opt (ns_candidate_diff_digest n) \<and> nonempty_opt (ns_candidate_node_diff_digest n)"

definition start_head_ok :: "node_snapshot \<Rightarrow> bool" where
  "start_head_ok n \<longleftrightarrow> (\<exists>h. ns_start_head n = Some h \<and> length h = 40 \<and> list_all hex_lower h)"

definition candidate_ok :: "campaign_spec \<Rightarrow> node_snapshot \<Rightarrow> bool" where
  "candidate_ok spec n \<longleftrightarrow>
     (ns_state n \<in> candidate_states \<longrightarrow> candidate_complete n)
     \<and> (ns_state n \<in> {NS_PENDING, NS_ADMITTED, NS_IMPLEMENTING, NS_VALIDATING} \<longrightarrow> ns_candidate_head n = None)
     \<and> (ns_state n = NS_PENDING \<longrightarrow> ns_start_head n = None)
     \<and> (ns_state n \<notin> {NS_PENDING, NS_FAILED_EXACT_NODE, NS_CANCELLED} \<longrightarrow> start_head_ok n)"

lemmas candidate_defs = candidate_ok_def candidate_complete_def candidate_states_def start_head_ok_def
  nonempty_opt_def full_candidate_def

interpretation candidate: node_invariant candidate_ok
proof
  fix spec n assume "candidate_ok spec n"
  then show "candidate_ok spec (unleased n)" "candidate_ok spec (cancelled n)"
    by (auto simp: candidate_defs node_update_defs)
next
  fix spec s e n n' assume P: "candidate_ok spec n" and st: "node_step s e n n'"
  from st show "candidate_ok spec (node_frozen n')"
    by cases (use P in \<open>auto simp: candidate_defs node_update_defs\<close>)
qed (simp add: candidate_defs node_default_def)

section \<open>Findings\<close>

definition findings_ok :: "campaign_spec \<Rightarrow> node_snapshot \<Rightarrow> bool" where
  "findings_ok spec n \<longleftrightarrow>
     (ns_state n \<in> {NS_REPAIR_AUTHORIZED, NS_REPAIRING, NS_REVALIDATING, NS_CLOSURE} \<longrightarrow> blockers n \<noteq> [])
     \<and> (ns_state n \<in> {NS_READY_TO_PUBLISH, NS_PUBLISHING, NS_DONE} \<longrightarrow>
          set (ns_resolved_finding_ids n) = set (blockers n)
          \<and> \<not> list_ex closure_blocking (ns_closure_findings n))
     \<and> (ns_state n \<in> {NS_PENDING, NS_ADMITTED, NS_IMPLEMENTING, NS_VALIDATING, NS_CANDIDATE_FROZEN,
           NS_CHECKS_AND_REVIEW} \<longrightarrow> ns_findings n = [])
     \<and> (ns_state n \<notin> {NS_CLOSURE, NS_READY_TO_PUBLISH, NS_PUBLISHING, NS_DONE,
           NS_FAILED_EXACT_NODE, NS_CANCELLED} \<longrightarrow> ns_closure_findings n = [] \<and> ns_resolved_finding_ids n = [])"

interpretation findings: node_invariant findings_ok
proof
  fix spec n assume "findings_ok spec n"
  then show "findings_ok spec (unleased n)" "findings_ok spec (cancelled n)"
    by (auto simp: findings_ok_def node_update_defs)
next
  fix spec s e n n' assume P: "findings_ok spec n" and st: "node_step s e n n'"
  from st show "findings_ok spec (node_frozen n')"
    by cases (use P in \<open>auto simp: findings_ok_def node_update_defs\<close>)
qed (simp add: findings_ok_def node_default_def blockers_def)

section \<open>Leases\<close>

definition lease_ok :: "campaign_spec \<Rightarrow> node_snapshot \<Rightarrow> bool" where
  "lease_ok spec n \<longleftrightarrow> 0 \<le> ns_fencing_epoch n
     \<and> (ns_lease_actor_id n \<noteq> None \<longrightarrow> nonempty_opt (ns_lease_actor_id n) \<and> 0 < ns_fencing_epoch n
          \<and> ns_state n \<notin> {NS_FAILED_EXACT_NODE, NS_CANCELLED})"

interpretation lease: node_invariant lease_ok
proof
  fix spec n assume "lease_ok spec n"
  then show "lease_ok spec (unleased n)" "lease_ok spec (cancelled n)"
    by (auto simp: lease_ok_def node_update_defs)
next
  fix spec s e n n' assume P: "lease_ok spec n" and st: "node_step s e n n'"
  from st show "lease_ok spec (node_frozen n')"
    by cases (use P in \<open>auto simp: lease_ok_def nonempty_opt_def node_update_defs\<close>)
qed (simp add: lease_ok_def node_default_def)

section \<open>Publication\<close>

definition required_of :: "campaign_spec \<Rightarrow> pyval list res" where
  "required_of spec =
     bindE (authority_allowed (sp_publication_authority spec)) (authority_required (sp_publication_authority spec))"

lemma required_effects_of [simp]: "required_effects s = required_of (cs_spec s)"
  by (simp add: required_effects_def required_of_def allowed_effects_def)

lemma py_eq_strings: "py_eq (PTuple (map PStr xs)) (PTuple vs) \<longleftrightarrow> vs = map PStr xs"
proof
  assume "py_eq (PTuple (map PStr xs)) (PTuple vs)"
  then have "map py_norm vs = map PStr xs" by (simp add: py_eq_def comp_def)
  then show "vs = map PStr xs"
  proof (induction vs arbitrary: xs)
    case (Cons v vs)
    then obtain x ys where xs: "xs = x # ys" "py_norm v = PStr x" "map py_norm vs = map PStr ys"
      by (cases xs) auto
    then have "v = PStr x" by (cases v) auto
    with Cons.IH xs show ?case by simp
  qed simp
qed (simp add: py_eq_def comp_def)

definition pending_list :: "node_snapshot \<Rightarrow> string list" where
  "pending_list n = (case ns_pending_publication_effect n of None \<Rightarrow> [] | Some k \<Rightarrow> [k])"

definition published_prefix :: "campaign_spec \<Rightarrow> string list \<Rightarrow> bool" where
  "published_prefix spec ks \<longleftrightarrow> ks = [] \<or> (\<exists>required. required_of spec = Inr required \<and> take (length ks) required = map PStr ks)"

definition publication_ok :: "campaign_spec \<Rightarrow> node_snapshot \<Rightarrow> bool" where
  "publication_ok spec n \<longleftrightarrow>
     published_prefix spec (ns_completed_publication_effects n @ pending_list n)
     \<and> length (ns_publication_operation_ids n) = length (ns_completed_publication_effects n)
     \<and> distinct (ns_publication_operation_ids n)
     \<and> (ns_state n = NS_PUBLISHING \<longrightarrow> ns_pending_publication_effect n \<noteq> None
          \<and> nonempty_opt (ns_pending_publication_operation_id n)
          \<and> the (ns_pending_publication_operation_id n) \<notin> set (ns_publication_operation_ids n))
     \<and> (ns_state n \<notin> {NS_PUBLISHING, NS_FAILED_EXACT_NODE, NS_CANCELLED} \<longrightarrow>
          ns_pending_publication_effect n = None \<and> ns_pending_publication_operation_id n = None)
     \<and> (ns_state n = NS_DONE \<longrightarrow> required_of spec = Inr (map PStr (ns_completed_publication_effects n)))
     \<and> (ns_state n \<notin> {NS_READY_TO_PUBLISH, NS_PUBLISHING, NS_DONE, NS_FAILED_EXACT_NODE, NS_CANCELLED} \<longrightarrow>
          ns_completed_publication_effects n = [])
     \<and> (ns_state n = NS_READY_TO_PUBLISH \<longrightarrow> ns_completed_publication_effects n = []
          \<or> required_of spec \<noteq> Inr (map PStr (ns_completed_publication_effects n)))"

lemma published_prefix_snoc:
  assumes "published_prefix spec ks" "required_of spec = Inr required"
    and "length ks < length required" "required ! length ks = PStr k"
  shows "published_prefix spec (ks @ [k])"
  using assms by (auto simp: published_prefix_def take_Suc_conv_app_nth)

lemma published_prefix_butlast: "published_prefix spec (ks @ ks') \<Longrightarrow> published_prefix spec ks"
proof (cases "ks = []")
  case False
  assume "published_prefix spec (ks @ ks')"
  with False obtain required where r: "required_of spec = Inr required"
    and t: "take (length (ks @ ks')) required = map PStr (ks @ ks')" by (auto simp: published_prefix_def)
  have "take (length ks) required = take (length ks) (take (length (ks @ ks')) required)" by simp
  also have "\<dots> = map PStr ks" unfolding t by simp
  finally show ?thesis using r by (auto simp: published_prefix_def)
qed (simp add: published_prefix_def)

lemma pending_list_simps [simp]:
  "ns_pending_publication_effect n = None \<Longrightarrow> pending_list n = []"
  "ns_pending_publication_effect n = Some k \<Longrightarrow> pending_list n = [k]"
  by (simp_all add: pending_list_def)

lemma pending_list_frozen [simp]: "pending_list (node_frozen n) = pending_list n"
  by (simp add: pending_list_def)

lemma pending_list_set_candidate [simp]: "pending_list (set_candidate c n) = pending_list n"
  by (simp add: pending_list_def)

lemma publication_ok_publish:
  assumes P: "publication_ok spec n" and st: "ns_state n = NS_READY_TO_PUBLISH"
    and r: "required_of spec = Inr required" "length (ns_completed_publication_effects n) < length required"
      "required ! length (ns_completed_publication_effects n) = PStr k"
    and op: "op \<noteq> []" "op \<notin> set (ns_publication_operation_ids n)"
  shows "publication_ok spec (n\<lparr>ns_state := NS_PUBLISHING, ns_pending_publication_effect := Some k,
     ns_pending_publication_operation_id := Some op\<rparr>)"
proof -
  from P st have "published_prefix spec (ns_completed_publication_effects n)"
    by (auto simp: publication_ok_def)
  from published_prefix_snoc [OF this r] P st op show ?thesis
    by (auto simp: publication_ok_def pending_list_def nonempty_opt_def)
qed

lemma publication_ok_confirm:
  assumes P: "publication_ok spec n" and st: "ns_state n = NS_PUBLISHING"
    and k: "ns_pending_publication_effect n = Some k" and r: "required_of spec = Inr required"
  shows "publication_ok spec (n\<lparr>
     ns_state := (if required = map PStr (ns_completed_publication_effects n @ [k])
                  then NS_DONE else NS_READY_TO_PUBLISH),
     ns_completed_publication_effects := ns_completed_publication_effects n @ [k],
     ns_publication_operation_ids := ns_publication_operation_ids n @ [opt_text (ns_pending_publication_operation_id n)],
     ns_pending_publication_effect := None, ns_pending_publication_operation_id := None\<rparr>)"
proof -
  from P st obtain op where op: "ns_pending_publication_operation_id n = Some op"
    "op \<notin> set (ns_publication_operation_ids n)"
    by (auto simp: publication_ok_def nonempty_opt_def)
  from P st k op r show ?thesis
    by (auto simp: publication_ok_def pending_list_def)
qed

lemma publication_ok_same:
  assumes "publication_ok spec n"
    and "ns_completed_publication_effects m = ns_completed_publication_effects n"
    and "ns_publication_operation_ids m = ns_publication_operation_ids n"
    and "ns_pending_publication_effect m = ns_pending_publication_effect n"
    and "ns_pending_publication_operation_id m = ns_pending_publication_operation_id n"
    and "ns_state m = ns_state n \<or> ns_state m \<in> {NS_FAILED_EXACT_NODE, NS_CANCELLED}
      \<or> ns_state n \<notin> {NS_READY_TO_PUBLISH, NS_PUBLISHING, NS_DONE, NS_FAILED_EXACT_NODE, NS_CANCELLED}
         \<and> ns_state m \<notin> {NS_PUBLISHING, NS_DONE}"
  shows "publication_ok spec m"
proof -
  have pl: "pending_list m = pending_list n" by (simp add: pending_list_def assms(4))
  from assms(6) show ?thesis
  proof (elim disjE)
    assume "ns_state m = ns_state n"
    with assms(1) show ?thesis unfolding publication_ok_def assms(2-5) pl by simp
  next
    assume "ns_state m \<in> {NS_FAILED_EXACT_NODE, NS_CANCELLED}"
    with assms(1) show ?thesis unfolding publication_ok_def assms(2-5) pl by (elim insertE) simp_all
  next
    assume st: "ns_state n \<notin> {NS_READY_TO_PUBLISH, NS_PUBLISHING, NS_DONE, NS_FAILED_EXACT_NODE, NS_CANCELLED}
         \<and> ns_state m \<notin> {NS_PUBLISHING, NS_DONE}"
    with assms(1) have "ns_completed_publication_effects n = []" "ns_pending_publication_effect n = None"
      "ns_pending_publication_operation_id n = None"
      and "length (ns_publication_operation_ids n) = length (ns_completed_publication_effects n)"
      by (simp_all add: publication_ok_def)
    with st show ?thesis
      by (simp add: publication_ok_def assms(2-5) published_prefix_def pl)
  qed
qed

interpretation publication: node_invariant publication_ok
proof
  fix spec n assume P: "publication_ok spec n"
  show "publication_ok spec (unleased n)"
    by (rule publication_ok_same [OF P]) (simp_all add: unleased_def)
  show "publication_ok spec (cancelled n)"
    by (rule publication_ok_same [OF P]) (simp_all add: cancelled_def)
next
  fix spec s e n n'
  assume P: "publication_ok spec n" and sp: "cs_spec s = spec" and st: "node_step s e n n'"
  have "publication_ok spec n'" using st
  proof cases
    case (publish automated kind required op)
    with P sp show ?thesis by (auto intro!: publication_ok_publish)
  next
    case (confirmed k required)
    with publication_ok_confirm [OF P, of k required] sp show ?thesis by (simp add: py_eq_strings del: map_append)
  qed (rule publication_ok_same [OF P]; simp add: node_update_defs)+
  then show "publication_ok spec (node_frozen n')"
    by (rule publication_ok_same) simp_all
qed (simp add: publication_ok_def node_default_def pending_list_def published_prefix_def)

section \<open>Nodes before and after an event\<close>

locale node_evolution =
  fixes R :: "event \<Rightarrow> node_snapshot \<Rightarrow> node_snapshot \<Rightarrow> bool"
  assumes same: "R e n n"
    and by_authority: "ev_event_type e = EV_ADVANCE_AUTHORITY \<Longrightarrow> R e n (unleased n)"
    and by_cancel: "ev_event_type e = EV_CANCEL \<Longrightarrow> R e n (cancelled n)"
    and by_step: "node_step s e n n' \<Longrightarrow> R e n (node_frozen n')"
begin

lemma step_nodes:
  assumes "distinct (map ns_node_id (cs_nodes s))" "step s e t"
  shows "list_all2 (R e) (cs_nodes s) (cs_nodes t)"
  using assms(2)
proof cases
  case (node n n')
  have "R e m (if ns_node_id m = ns_node_id (node_frozen n') then node_frozen n' else m)"
    if m: "m \<in> set (cs_nodes s)" for m
  proof (cases "ns_node_id m = ns_node_id n'")
    case True
    have "ns_node_id n' = ns_node_id n" using node(3) by cases (simp_all add: node_update_defs)
    with True m found_set [OF node(2)] assms(1) have "m = n"
      by (metis distinct_map inj_onD)
    with by_step [OF node(3)] True show ?thesis by simp
  qed (simp add: same)
  then show ?thesis
    by (simp add: node(1) put_node_nodes list_all2_conv_all_nth)
qed (auto simp: list_all2_conv_all_nth same intro: by_authority by_cancel)

lemma event_nodes:
  assumes "distinct (map ns_node_id (cs_nodes s))" "reduce_event s e = Inr (s', fx)"
  shows "list_all2 (R e) (cs_nodes s) (cs_nodes s')"
  using assms(2) by (elim reduce_step) (simp add: step_nodes [OF assms(1)])

end

text \<open>The edges of the node lifecycle: \<open>CoreReducerNodeTransitions\<close> of Campaign.tla.\<close>

definition node_edges :: "(event_type \<times> node_state \<times> node_state) set" where
  "node_edges = {
     (EV_ADMIT_NODE, NS_PENDING, NS_ADMITTED),
     (EV_START_IMPLEMENTATION, NS_ADMITTED, NS_IMPLEMENTING),
     (EV_IMPLEMENTATION_COMPLETED, NS_IMPLEMENTING, NS_VALIDATING),
     (EV_REQUEST_VALIDATION_CORRECTION, NS_VALIDATING, NS_IMPLEMENTING),
     (EV_VALIDATION_PASSED, NS_VALIDATING, NS_CANDIDATE_FROZEN),
     (EV_VALIDATION_FAILED, NS_VALIDATING, NS_FAILED_EXACT_NODE),
     (EV_START_REVIEW, NS_CANDIDATE_FROZEN, NS_CHECKS_AND_REVIEW),
     (EV_FREEZE_FINDINGS, NS_CHECKS_AND_REVIEW, NS_FINDINGS_FROZEN),
     (EV_MARK_READY_TO_PUBLISH, NS_FINDINGS_FROZEN, NS_READY_TO_PUBLISH),
     (EV_AUTHORIZE_REPAIR, NS_FINDINGS_FROZEN, NS_REPAIR_AUTHORIZED),
     (EV_START_REPAIR, NS_REPAIR_AUTHORIZED, NS_REPAIRING),
     (EV_REPAIR_COMPLETED, NS_REPAIRING, NS_REVALIDATING),
     (EV_REVALIDATION_PASSED, NS_REVALIDATING, NS_CLOSURE),
     (EV_REVALIDATION_FAILED, NS_REVALIDATING, NS_FAILED_EXACT_NODE),
     (EV_COMPLETE_CLOSURE, NS_CLOSURE, NS_READY_TO_PUBLISH),
     (EV_COMPLETE_CLOSURE, NS_CLOSURE, NS_FAILED_EXACT_NODE),
     (EV_START_PUBLISH, NS_READY_TO_PUBLISH, NS_PUBLISHING),
     (EV_PUBLISH_CONFIRMED, NS_PUBLISHING, NS_READY_TO_PUBLISH),
     (EV_PUBLISH_CONFIRMED, NS_PUBLISHING, NS_DONE),
     (EV_PUBLISH_FAILED, NS_PUBLISHING, NS_FAILED_EXACT_NODE)}"

text \<open>The remaining ways in which a node changes its state: a failure by an explicit
  \<open>FAIL_NODE\<close> and the cancellation of the campaign, both from a state that is not terminal.\<close>

definition edge_ok :: "event \<Rightarrow> node_snapshot \<Rightarrow> node_snapshot \<Rightarrow> bool" where
  "edge_ok e n n' \<longleftrightarrow> ns_node_id n' = ns_node_id n
     \<and> (ns_state n' = ns_state n
        \<or> (ev_event_type e, ns_state n, ns_state n') \<in> node_edges
        \<or> ns_state n \<notin> TERMINAL_NODE_STATES
           \<and> (ev_event_type e, ns_state n') \<in> {(EV_FAIL_NODE, NS_FAILED_EXACT_NODE), (EV_CANCEL, NS_CANCELLED)})"

interpretation edges: node_evolution edge_ok
proof
  fix s e n n' assume "node_step s e n n'"
  then show "edge_ok e n (node_frozen n')"
    by cases (simp_all add: edge_ok_def node_edges_def failed_node_def closed_node_def)
qed (auto simp: edge_ok_def unleased_def cancelled_def)

text \<open>The fence: its epoch never decreases, and a lease that appears comes with a larger epoch.\<close>

definition fence_monotone :: "event \<Rightarrow> node_snapshot \<Rightarrow> node_snapshot \<Rightarrow> bool" where
  "fence_monotone e n n' \<longleftrightarrow> ns_fencing_epoch n \<le> ns_fencing_epoch n'
     \<and> (ns_lease_actor_id n' \<noteq> ns_lease_actor_id n \<longrightarrow>
          ns_lease_actor_id n' = None \<or> ns_lease_actor_id n = None \<and> ns_fencing_epoch n < ns_fencing_epoch n')"

interpretation fence: node_evolution fence_monotone
proof
  fix s e n n' assume "node_step s e n n'"
  then show "fence_monotone e n (node_frozen n')"
    by cases (simp_all add: fence_monotone_def failed_node_def closed_node_def)
qed (auto simp: fence_monotone_def unleased_def cancelled_def)

text \<open>What is frozen: the start head once set, the findings of the review once frozen, the
  confirmed publication effects (which only grow), and the candidate except by a correction
  that returns to validation or by the revalidation of a repair.\<close>

definition candidate_of :: "node_snapshot \<Rightarrow> string option \<times> string option \<times> string option \<times> string option" where
  "candidate_of n = (ns_candidate_head n, ns_candidate_tree n, ns_candidate_diff_digest n,
     ns_candidate_node_diff_digest n)"

definition frozen_kept :: "event \<Rightarrow> node_snapshot \<Rightarrow> node_snapshot \<Rightarrow> bool" where
  "frozen_kept e n n' \<longleftrightarrow>
     (ns_start_head n \<noteq> None \<longrightarrow> ns_start_head n' = ns_start_head n)
     \<and> (ns_findings n' \<noteq> ns_findings n \<longrightarrow> ns_findings n = [] \<and> ev_event_type e = EV_FREEZE_FINDINGS)
     \<and> (candidate_of n' \<noteq> candidate_of n \<longrightarrow>
          (ev_event_type e, ns_state n) \<in> {(EV_VALIDATION_PASSED, NS_VALIDATING), (EV_REVALIDATION_PASSED, NS_REVALIDATING)})
     \<and> (\<exists>ks. ns_completed_publication_effects n' = ns_completed_publication_effects n @ ks
          \<and> (ks \<noteq> [] \<longrightarrow> ev_event_type e = EV_PUBLISH_CONFIRMED))"

interpretation frozen: node_evolution frozen_kept
proof
  fix s e n n' assume "node_step s e n n'"
  then show "frozen_kept e n (node_frozen n')"
    by cases (simp_all add: frozen_kept_def candidate_of_def failed_node_def closed_node_def)
qed (auto simp: frozen_kept_def candidate_of_def unleased_def cancelled_def)

text \<open>A terminal node keeps everything but its lease.\<close>

definition terminal_kept :: "event \<Rightarrow> node_snapshot \<Rightarrow> node_snapshot \<Rightarrow> bool" where
  "terminal_kept e n n' \<longleftrightarrow> (ns_state n \<in> TERMINAL_NODE_STATES \<longrightarrow>
     n' = node_frozen (n\<lparr>ns_lease_actor_id := ns_lease_actor_id n'\<rparr>) \<or> n' = n)"

interpretation terminal: node_evolution terminal_kept
proof
  fix s e n n' assume "node_step s e n n'"
  then show "terminal_kept e n (node_frozen n')"
    by cases (simp_all add: terminal_kept_def failed_node_def closed_node_def TERMINAL_NODE_STATES_def)
qed (auto simp: terminal_kept_def unleased_def cancelled_def)

section \<open>Progress\<close>

text \<open>How many state changes a node has left: a bound that every edge of the lifecycle lowers.
  Validation may go back once; each publication effect takes two edges.\<close>

fun stage :: "node_state \<Rightarrow> int" where
  "stage NS_PENDING = 14"
| "stage NS_ADMITTED = 13"
| "stage NS_IMPLEMENTING = 12"
| "stage NS_VALIDATING = 11"
| "stage NS_CANDIDATE_FROZEN = 10"
| "stage NS_CHECKS_AND_REVIEW = 9"
| "stage NS_FINDINGS_FROZEN = 8"
| "stage NS_REPAIR_AUTHORIZED = 7"
| "stage NS_REPAIRING = 6"
| "stage NS_REVALIDATING = 5"
| "stage NS_CLOSURE = 4"
| "stage NS_READY_TO_PUBLISH = 3"
| "stage NS_PUBLISHING = 2"
| "stage NS_DONE = 0"
| "stage NS_FAILED_EXACT_NODE = 0"
| "stage NS_CANCELLED = 0"

definition required_count :: "campaign_spec \<Rightarrow> int" where
  "required_count spec = (case required_of spec of Inr required \<Rightarrow> int (length required) | Inl _ \<Rightarrow> 0)"

definition edges_left :: "campaign_spec \<Rightarrow> node_snapshot \<Rightarrow> int" where
  "edges_left spec n =
     (if ns_state n \<in> TERMINAL_NODE_STATES then 0
      else stage (ns_state n) + 2 * (1 - ns_validation_corrections n)
        + 2 * (required_count spec - int (length (ns_completed_publication_effects n))))"

lemma published_length:
  "publication_ok spec n \<Longrightarrow> int (length (ns_completed_publication_effects n @ pending_list n)) \<le> required_count spec"
proof (cases "ns_completed_publication_effects n @ pending_list n = []")
  case False
  assume "publication_ok spec n"
  with False obtain required where r: "required_of spec = Inr required"
    and t: "take (length (ns_completed_publication_effects n @ pending_list n)) required
      = map PStr (ns_completed_publication_effects n @ pending_list n)"
    unfolding publication_ok_def published_prefix_def by blast
  from t have "length (ns_completed_publication_effects n @ pending_list n) \<le> length required"
    by (metis length_map length_take min.absorb_iff2 min.commute)
  then show ?thesis by (simp add: r required_count_def)
qed (auto simp: required_count_def split: sum.splits)

lemma edges_left_pos:
  assumes "publication_ok spec n" "lifecycle_ok spec n" "ns_state n \<notin> TERMINAL_NODE_STATES"
  shows "0 < edges_left spec n"
proof -
  have "2 \<le> stage (ns_state n)" using assms(3) by (cases "ns_state n") (simp_all add: TERMINAL_NODE_STATES_def)
  moreover have "ns_validation_corrections n \<le> 1" using assms(2) by (auto simp: lifecycle_defs)
  ultimately show ?thesis
    using published_length [OF assms(1)] assms(3) by (simp add: edges_left_def)
qed

lemma edges_left_frozen [simp]: "edges_left spec (node_frozen n) = edges_left spec n"
  by (simp add: edges_left_def)

text \<open>Events that move no node along an edge.\<close>

definition still_events :: "event_type set" where
  "still_events = {EV_ACQUIRE_LEASE, EV_RELEASE_LEASE, EV_AUTHORIZE_PUBLICATION}"

lemma edges_left_step:
  assumes P: "publication_ok (cs_spec s) n" and L: "lifecycle_ok (cs_spec s) n" and st: "node_step s e n n'"
  shows "edges_left (cs_spec s) n' \<le> edges_left (cs_spec s) n - (if ev_event_type e \<in> still_events then 0 else 1)"
proof -
  have pos: "ns_state n \<notin> TERMINAL_NODE_STATES \<Longrightarrow> 0 < edges_left (cs_spec s) n"
    using edges_left_pos [OF P L] .
  from st show ?thesis
  proof cases
    case (confirmed k required)
    with pos show ?thesis
      by (auto simp: edges_left_def still_events_def TERMINAL_NODE_STATES_def)
  qed (use pos L in \<open>auto simp: edges_left_def still_events_def TERMINAL_NODE_STATES_def failed_node_def
      closed_node_def lifecycle_defs\<close>)
qed

end
