(* ===== verification/Campaign_Invariants.thy ===== *)
theory Campaign_Invariants
  imports Lifecycle
begin

text \<open>
  The invariants of whole snapshots: the node table stays that of the specification, the
  durable budget is accounted for receipt by receipt, the state of the campaign agrees with
  the states of its nodes, at most one node is at work, and no node leaves \<open>PENDING\<close>
  before its dependencies are done.  Each interprets \<open>snapshot_invariant\<close>.
\<close>

section \<open>What a validated specification guarantees\<close>

definition spec_ok :: "campaign_spec \<Rightarrow> bool" where
  "spec_ok spec \<longleftrightarrow> distinct (map nd_node_id (sp_nodes spec)) \<and> sp_nodes spec \<noteq> []
     \<and> distinct (map ab_token (sp_attempt_budgets spec))
     \<and> 0 < sp_autonomous_rank spec
     \<and> sp_autonomous_rank spec \<le> sum_list (map ab_limit (sp_attempt_budgets spec))"

lemma spec_post_init_ok:
  assumes "campaign_spec_post_init resolve s0 = Inr spec"
  shows "spec_ok spec"
  using assms
  by (auto simp: campaign_spec_post_init_def validate_uniqueness_and_graph_def spec_ok_def Let_def res_simps)

section \<open>The node table\<close>

lemma node_step_id: "node_step s e n n' \<Longrightarrow> ns_node_id n' = ns_node_id n"
  by (elim node_stepE) (simp_all add: failed_node_def closed_node_def)

lemma unleased_id [simp]: "ns_node_id (unleased n) = ns_node_id n"
  and unleased_state [simp]: "ns_state (unleased n) = ns_state n"
  by (simp_all add: unleased_def)

lemma cancelled_id [simp]: "ns_node_id (cancelled n) = ns_node_id n"
  by (simp add: cancelled_def)

lemma cancelled_state: "ns_state (cancelled n) = (if ns_state n \<in> TERMINAL_NODE_STATES then ns_state n else NS_CANCELLED)"
  by (simp add: cancelled_def)

definition table_ok :: "campaign_spec \<Rightarrow> campaign_snapshot \<Rightarrow> bool" where
  "table_ok spec s \<longleftrightarrow> cs_spec s = spec \<and> map ns_node_id (cs_nodes s) = map nd_node_id (sp_nodes spec)
     \<and> (\<forall>n \<in> set (cs_nodes s). node_ok n)"

lemma node_ok_kept [simp]:
  "node_ok (node_frozen n) = node_ok n" "node_ok (unleased n) = node_ok n" "node_ok (cancelled n) = node_ok n"
  by (simp_all add: node_ok_def unleased_def cancelled_def)

interpretation node_table: snapshot_invariant table_ok
proof
  fix spec s assume "snapshot_initial spec = Inr s"
  then show "table_ok spec s"
    using snapshot_initial_eq(1,2,14) by (auto simp: table_ok_def node_default_def comp_def)
next
  fix spec s e t assume inv: "table_ok spec s" and st: "step s e t"
  from st show "table_ok spec t"
  proof cases
    case (node n n')
    then show ?thesis
      using inv put_node_ids [of "fund e n' s" "node_frozen n'"]
      by (auto simp: table_ok_def put_node_nodes simp del: put_node_ids)
  qed (use inv in \<open>auto simp: table_ok_def comp_def\<close>)
qed (simp add: table_ok_def)

lemma table_distinct: "spec_ok spec \<Longrightarrow> table_ok spec s \<Longrightarrow> distinct (map ns_node_id (cs_nodes s))"
  by (simp add: spec_ok_def table_ok_def)

lemma reachable_distinct: "spec_ok spec \<Longrightarrow> reachable spec s \<Longrightarrow> distinct (map ns_node_id (cs_nodes s))"
  using node_table.reachable table_distinct by blast

section \<open>The durable budget\<close>

definition receipts_for :: "campaign_snapshot \<Rightarrow> budget_token \<Rightarrow> budget_receipt list" where
  "receipts_for s t = filter (\<lambda>r. br_token r = t) (cs_budget_receipts s)"

definition declared_budgets :: "campaign_spec \<Rightarrow> (budget_token \<times> int) list" where
  "declared_budgets spec = map (\<lambda>b. (ab_token b, ab_limit b))
     (sort_key (\<lambda>b. budget_token_value (ab_token b)) (sp_attempt_budgets spec))"

definition budget_ok :: "campaign_spec \<Rightarrow> campaign_snapshot \<Rightarrow> bool" where
  "budget_ok spec s \<longleftrightarrow>
     map (\<lambda>b. (bb_token b, bb_limit b)) (cs_budgets s) = declared_budgets spec
     \<and> cs_autonomous_rank_remaining s + int (length (cs_budget_receipts s)) = sp_autonomous_rank spec
     \<and> (\<forall>b \<in> set (cs_budgets s). bb_consumed b = int (length (receipts_for s (bb_token b)))
          \<and> bb_consumed b \<le> bb_limit b)
     \<and> distinct (map br_request_id (cs_budget_receipts s))
     \<and> (\<forall>r \<in> set (cs_budget_receipts s). br_token r \<in> fst ` set (declared_budgets spec))"

lemma budget_ok_spend:
  assumes inv: "budget_ok spec s" and sp: "spendable s t r"
  shows "budget_ok spec (spend t r s)"
proof -
  from inv have m: "map (\<lambda>b. (bb_token b, bb_limit b)) (cs_budgets s) = declared_budgets spec"
    by (simp add: budget_ok_def)
  have same: "map (\<lambda>b. (bb_token b, bb_limit b)) (cs_budgets (spend t r s)) = declared_budgets spec"
    unfolding m [symmetric] spend_simps map_map by (rule map_cong [OF refl]) simp
  have in_decl: "t \<in> fst ` set (declared_budgets spec)"
    using sp unfolding m [symmetric] by (force simp: spendable_def)
  show ?thesis
    using inv sp same in_decl
    by (auto simp: budget_ok_def spendable_def receipts_for_def bb_remaining_def)
qed

lemma budget_ok_same:
  assumes "budget_ok spec s" "cs_budgets t = cs_budgets s" "cs_budget_receipts t = cs_budget_receipts s"
    and "cs_autonomous_rank_remaining t = cs_autonomous_rank_remaining s"
  shows "budget_ok spec t"
  using assms(1) unfolding budget_ok_def receipts_for_def assms(2-4) .

lemma budget_ok_fund: "budget_ok spec s \<Longrightarrow> funded e n s \<Longrightarrow> budget_ok spec (fund e n s)"
  by (auto simp: funded_def fund_def budget_ok_spend split: option.splits)

interpretation budget: snapshot_invariant budget_ok
proof
  fix spec s assume "snapshot_initial spec = Inr s"
  note i = snapshot_initial_eq(3,4,5,15) [OF this]
  have "0 \<le> ab_limit b" if "b \<in> set (sp_attempt_budgets spec)" for b using that i(4) by simp
  then show "budget_ok spec s"
    using i(1-3) by (auto simp: budget_ok_def declared_budgets_def receipts_for_def comp_def)
next
  fix spec s e t assume inv: "budget_ok spec s" and st: "step s e t"
  from st show "budget_ok spec t"
  proof cases
    case (node n n')
    from budget_ok_fund [OF inv node(4)] show ?thesis
      by (rule budget_ok_same) (simp_all add: node(1))
  next
    case (budget token)
    with inv show ?thesis by (simp add: budget_ok_spend)
  qed (use inv in \<open>auto elim!: budget_ok_same\<close>)
qed (auto elim!: budget_ok_same)

section \<open>The campaign and its nodes\<close>

definition working :: "node_state \<Rightarrow> bool" where
  "working st \<longleftrightarrow> st \<noteq> NS_PENDING \<and> st \<notin> TERMINAL_NODE_STATES"

text \<open>The five ways in which an event moves its node, seen from the campaign.\<close>

lemma node_step_kinds:
  assumes "node_step s e n n'"
  obtains (still) "ns_state n' = ns_state n" "ev_event_type e \<in> still_events"
  | (admit) "ev_event_type e = EV_ADMIT_NODE" "cs_state s = CS_RUNNING" "ns_state n = NS_PENDING"
      "ns_state n' = NS_ADMITTED" "cs_active_node_id s \<in> {None, Some (ns_node_id n)}"
  | (work) "working (ns_state n)" "working (ns_state n')"
      "ev_event_type e \<notin> insert EV_ADMIT_NODE still_events"
  | (finish) "ev_event_type e = EV_PUBLISH_CONFIRMED" "ns_state n = NS_PUBLISHING" "ns_state n' = NS_DONE"
  | (fail) "ns_state n \<notin> TERMINAL_NODE_STATES" "ns_state n' = NS_FAILED_EXACT_NODE"
      "ev_event_type e \<notin> insert EV_ADMIT_NODE still_events"
  using assms
proof cases
  case (confirmed k required)
  then have "ns_state n' = NS_DONE \<or> ns_state n' = NS_READY_TO_PUBLISH" by simp
  then show thesis
  proof
    assume "ns_state n' = NS_DONE"
    with confirmed(2,3) show thesis by (rule that(4))
  next
    assume "ns_state n' = NS_READY_TO_PUBLISH"
    with confirmed(2,3) show thesis
      by (intro that(3)) (simp_all add: working_def TERMINAL_NODE_STATES_def still_events_def)
  qed
qed (simp_all add: that working_def TERMINAL_NODE_STATES_def still_events_def failed_node_def closed_node_def)

definition campaign_ok :: "campaign_snapshot \<Rightarrow> bool" where
  "campaign_ok s \<longleftrightarrow>
     (cs_state s \<in> {CS_DRAFT, CS_APPROVED} \<longrightarrow> (\<forall>n \<in> set (cs_nodes s). ns_state n = NS_PENDING))
     \<and> (cs_state s = CS_FAILED \<longleftrightarrow> (\<exists>n \<in> set (cs_nodes s). ns_state n = NS_FAILED_EXACT_NODE))
     \<and> (cs_state s = CS_COMPLETED \<longleftrightarrow> (\<forall>n \<in> set (cs_nodes s). ns_state n = NS_DONE))
     \<and> (cs_state s = CS_CANCELLED \<longleftrightarrow> cs_cancellation_state s = CN_CANCELLED)
     \<and> (cs_state s = CS_CANCELLED \<longrightarrow> (\<forall>n \<in> set (cs_nodes s). ns_state n \<in> TERMINAL_NODE_STATES))
     \<and> ((\<exists>n \<in> set (cs_nodes s). ns_state n = NS_CANCELLED) \<longrightarrow> cs_state s = CS_CANCELLED)
     \<and> (cs_state s \<notin> TERMINAL_CAMPAIGN_STATES \<longrightarrow>
          (\<forall>n \<in> set (cs_nodes s). working (ns_state n) \<longleftrightarrow> cs_active_node_id s = Some (ns_node_id n)))
     \<and> (cs_state s \<in> TERMINAL_CAMPAIGN_STATES \<longrightarrow> cs_active_node_id s = None)
     \<and> (\<forall>i. cs_active_node_id s = Some i \<longrightarrow> i \<in> ns_node_id ` set (cs_nodes s))"

text \<open>The nodes after a node event, for distinct identifiers.\<close>

lemma moved_nodes:
  assumes "distinct (map ns_node_id (cs_nodes s))" and "n \<in> set (cs_nodes s)" and "ns_node_id m = ns_node_id n"
  shows "set (cs_nodes (put_node s m)) = insert m (set (cs_nodes s) - {n})"
proof -
  have "x = n" if "x \<in> set (cs_nodes s)" "ns_node_id x = ns_node_id n" for x
    using that assms(1,2) by (metis distinct_map inj_onD)
  with assms(2,3) show ?thesis by (auto simp: put_node_nodes image_iff)
qed


text \<open>The invariant of a campaign that is neither finished nor stopped.\<close>

definition live :: "campaign_snapshot \<Rightarrow> bool" where
  "live s \<longleftrightarrow> cs_state s \<notin> TERMINAL_CAMPAIGN_STATES \<and> cs_cancellation_state s \<noteq> CN_CANCELLED
     \<and> (cs_state s \<in> {CS_DRAFT, CS_APPROVED} \<longrightarrow> (\<forall>n \<in> set (cs_nodes s). ns_state n = NS_PENDING))
     \<and> (\<forall>n \<in> set (cs_nodes s). ns_state n \<notin> {NS_FAILED_EXACT_NODE, NS_CANCELLED})
     \<and> (\<exists>n \<in> set (cs_nodes s). ns_state n \<noteq> NS_DONE)
     \<and> (\<forall>n \<in> set (cs_nodes s). working (ns_state n) \<longleftrightarrow> cs_active_node_id s = Some (ns_node_id n))
     \<and> (\<forall>i. cs_active_node_id s = Some i \<longrightarrow> i \<in> ns_node_id ` set (cs_nodes s))"

lemma live_iff:
  "cs_state s \<notin> TERMINAL_CAMPAIGN_STATES \<Longrightarrow> campaign_ok s \<longleftrightarrow> live s"
  unfolding campaign_ok_def live_def TERMINAL_CAMPAIGN_STATES_def by (cases "cs_state s"; simp; blast)

text \<open>The effect of a node event on the campaign invariant, kind by kind.\<close>

lemma campaign_ok_node:
  assumes inv: "live s" and d: "distinct (map ns_node_id (cs_nodes s))"
    and f: "found s e n" and st: "node_step s e n n'"
  shows "campaign_ok (settle e n' (put_node (fund e n' s) (node_frozen n')))"
proof -
  let ?m = "node_frozen n'" and ?p = "put_node (fund e n' s) (node_frozen n')"
  note id = node_step_id [OF st] and n = found_set [OF f]
  have nodes: "set (cs_nodes ?p) = insert ?m (set (cs_nodes s) - {n})"
    using moved_nodes [of "fund e n' s" n ?m] d n id by simp
  have uniq: "ns_node_id x \<noteq> ns_node_id n" if "x \<in> set (cs_nodes s)" "x \<noteq> n" for x
    using that d n by (metis distinct_map inj_onD)
  have ids: "ns_node_id ` set (cs_nodes ?p) = ns_node_id ` set (cs_nodes s)"
    using arg_cong [OF put_node_ids [of "fund e n' s" ?m], of set] unfolding set_map fund_simps .
  have pst: "cs_state ?p = cs_state s" "cs_active_node_id ?p = cs_active_node_id s"
    "cs_cancellation_state ?p = cs_cancellation_state s" by simp_all
  define p where "p = ?p"
  note nodes = nodes [folded p_def] and ids = ids [folded p_def] and pst = pst [folded p_def]
  from inv have l: "cs_state s \<notin> TERMINAL_CAMPAIGN_STATES" "cs_cancellation_state s \<noteq> CN_CANCELLED"
    and start: "cs_state s \<in> {CS_DRAFT, CS_APPROVED} \<Longrightarrow> x \<in> set (cs_nodes s) \<Longrightarrow> ns_state x = NS_PENDING"
    and good: "x \<in> set (cs_nodes s) \<Longrightarrow> ns_state x \<notin> {NS_FAILED_EXACT_NODE, NS_CANCELLED}"
    and undone: "\<exists>n \<in> set (cs_nodes s). ns_state n \<noteq> NS_DONE"
    and active: "x \<in> set (cs_nodes s) \<Longrightarrow> working (ns_state x) \<longleftrightarrow> cs_active_node_id s = Some (ns_node_id x)"
    and known: "cs_active_node_id s = Some i \<Longrightarrow> i \<in> ns_node_id ` set (cs_nodes s)" for x i
    unfolding live_def by blast+
  have pn: "x = ?m \<or> x \<in> set (cs_nodes s) \<and> x \<noteq> n" if "x \<in> set (cs_nodes p)" for x
    using that nodes by auto
  have live_p: "live p"
    if "ns_state n' = ns_state n \<or> working (ns_state n) \<and> working (ns_state n')"
  proof -
    have eq: "working (ns_state n') \<longleftrightarrow> working (ns_state n)" using that by auto
    have fine: "ns_state n' \<notin> {NS_FAILED_EXACT_NODE, NS_CANCELLED}"
      using that good [OF n] by (auto simp: working_def TERMINAL_NODE_STATES_def)
    have "ns_state n' = NS_DONE \<Longrightarrow> ns_state n = NS_DONE"
      using that by (auto simp: working_def TERMINAL_NODE_STATES_def)
    then have undone': "\<exists>x \<in> set (cs_nodes p). ns_state x \<noteq> NS_DONE"
      using undone nodes by (metis Diff_iff insertCI node_frozen_simps(2) singletonD)
    have "ns_state n' = NS_PENDING" if "cs_state s \<in> {CS_DRAFT, CS_APPROVED}"
      using start [OF that n] \<open>ns_state n' = ns_state n \<or> _\<close> by (auto simp: working_def)
    then have start': "\<forall>x \<in> set (cs_nodes p). ns_state x = NS_PENDING" if "cs_state s \<in> {CS_DRAFT, CS_APPROVED}"
      using that start pn by fastforce
    have good': "\<forall>x \<in> set (cs_nodes p). ns_state x \<notin> {NS_FAILED_EXACT_NODE, NS_CANCELLED}"
      using pn good fine by fastforce
    have active': "\<forall>x \<in> set (cs_nodes p). working (ns_state x) \<longleftrightarrow> cs_active_node_id s = Some (ns_node_id x)"
      using pn active eq id n by fastforce
    show ?thesis
      unfolding live_def pst ids using l start' good' undone' active' known by blast
  qed
  have "campaign_ok (settle e n' p)"
    using st
  proof (cases rule: node_step_kinds)
    case still
    then have "ev_event_type e \<notin> {EV_ADMIT_NODE, EV_PUBLISH_CONFIRMED}" "ns_state n' \<noteq> NS_FAILED_EXACT_NODE"
      using good [OF n] by (auto simp: still_events_def)
    then have "settle e n' p = p" by (simp add: settle_def)
    with live_p still l pst show ?thesis by (simp add: live_iff)
  next
    case work
    then have "settle e n' p = p" by (auto simp: settle_def working_def TERMINAL_NODE_STATES_def)
    with live_p work l pst show ?thesis by (simp add: live_iff)
  next
    case admit
    then have t: "settle e n' p = p\<lparr>cs_active_node_id := Some (ns_node_id n)\<rparr>" using id by (simp add: settle_def)
    have idle: "\<not> working (ns_state x)" if "x \<in> set (cs_nodes s)" "x \<noteq> n" for x
      using active [OF that(1)] uniq [OF that] admit(5) by auto
    have w: "working (ns_state n')" using admit(4) by (simp add: working_def TERMINAL_NODE_STATES_def)
    have "\<forall>x \<in> set (cs_nodes p). ns_state x \<notin> {NS_FAILED_EXACT_NODE, NS_CANCELLED}"
      using pn good admit(4) by fastforce
    moreover have "\<exists>x \<in> set (cs_nodes p). ns_state x \<noteq> NS_DONE"
      using nodes admit(4) by auto
    moreover have "\<forall>x \<in> set (cs_nodes p). working (ns_state x) \<longleftrightarrow> ns_node_id n = ns_node_id x"
    proof
      fix x assume "x \<in> set (cs_nodes p)"
      from pn [OF this] show "working (ns_state x) \<longleftrightarrow> ns_node_id n = ns_node_id x"
      proof (elim disjE conjE)
        assume "x = ?m"
        with w id show ?thesis by simp
      next
        assume "x \<in> set (cs_nodes s)" "x \<noteq> n"
        with idle uniq show ?thesis by metis
      qed
    qed
    moreover have "ns_node_id n \<in> ns_node_id ` set (cs_nodes p)" unfolding ids using n by (rule imageI)
    ultimately have "live (p\<lparr>cs_active_node_id := Some (ns_node_id n)\<rparr>)"
      unfolding live_def using l admit(2) pst by simp
    then show ?thesis unfolding t using l pst by (simp add: live_iff)
  next
    case finish
    define all where "all \<longleftrightarrow> list_all (\<lambda>m. ns_state m = NS_DONE) (cs_nodes p)"
    from finish have t: "settle e n' p = p\<lparr>cs_state := (if all then CS_COMPLETED else cs_state p), cs_active_node_id := None\<rparr>"
      by (simp add: settle_def all_def)
    have act: "cs_active_node_id s = Some (ns_node_id n)"
      using active [OF n] finish(2) by (simp add: working_def TERMINAL_NODE_STATES_def)
    have idle: "\<not> working (ns_state x)" if "x \<in> set (cs_nodes s)" "x \<noteq> n" for x
      using active [OF that(1)] uniq [OF that] act by auto
    have run: "cs_state s \<notin> {CS_DRAFT, CS_APPROVED}" using start n finish(2) by auto
    have fine: "ns_state x \<notin> {NS_FAILED_EXACT_NODE, NS_CANCELLED}" "\<not> working (ns_state x)"
      if "x \<in> set (cs_nodes p)" for x
      using pn [OF that] good idle finish(3) by (auto simp: working_def TERMINAL_NODE_STATES_def)
    show ?thesis
    proof (cases all)
      case True
      then have "\<forall>x \<in> set (cs_nodes p). ns_state x = NS_DONE" by (simp add: all_def list_all_iff)
      with True show ?thesis
        unfolding t campaign_ok_def using l pst by (simp add: TERMINAL_CAMPAIGN_STATES_def)
    next
      case False
      then have "\<exists>x \<in> set (cs_nodes p). ns_state x \<noteq> NS_DONE" by (simp add: all_def list_all_iff)
      with False run l fine have "live (settle e n' p)" unfolding t live_def by (simp add: pst)
      with False l pst show ?thesis unfolding t by (simp add: live_iff)
    qed
  next
    case fail
    then have t: "settle e n' p = p\<lparr>cs_state := CS_FAILED, cs_active_node_id := None, cs_failure_reason := ns_failure_reason n'\<rparr>"
      by (auto simp: settle_def still_events_def)
    have m: "?m \<in> set (cs_nodes p)" "ns_state ?m = NS_FAILED_EXACT_NODE" using nodes fail(2) by simp_all
    from m have "\<exists>n \<in> set (cs_nodes p). ns_state n = NS_FAILED_EXACT_NODE"
      "\<exists>n \<in> set (cs_nodes p). ns_state n \<noteq> NS_DONE" by (auto intro!: bexI [of _ ?m])
    moreover have "ns_state x \<noteq> NS_CANCELLED" if "x \<in> set (cs_nodes p)" for x
      using pn [OF that] good fail(2) by auto
    ultimately show ?thesis
      unfolding t campaign_ok_def using l by (auto simp: TERMINAL_CAMPAIGN_STATES_def pst)
  qed
  then show ?thesis unfolding p_def .
qed

definition consistent :: "campaign_spec \<Rightarrow> campaign_snapshot \<Rightarrow> bool" where
  "consistent spec s \<longleftrightarrow> table_ok spec s \<and> (spec_ok spec \<longrightarrow> campaign_ok s)"

lemma campaign_ok_edge:
  assumes "live s" and "(ty, cs_state s, st) \<in> campaign_edges"
  shows "campaign_ok (s\<lparr>cs_state := st\<rparr>)"
proof -
  from assms have "st \<notin> TERMINAL_CAMPAIGN_STATES" "live (s\<lparr>cs_state := st\<rparr>)"
    by (auto simp: live_def campaign_edges_def TERMINAL_CAMPAIGN_STATES_def)
  then show ?thesis by (simp add: live_iff)
qed

lemma campaign_ok_authority:
  assumes "live s"
  shows "campaign_ok (s\<lparr>cs_authority_epoch := a, cs_nodes := map unleased (cs_nodes s)\<rparr>)"
proof -
  from assms have "live (s\<lparr>cs_authority_epoch := a, cs_nodes := map unleased (cs_nodes s)\<rparr>)"
    by (simp add: live_def image_image)
  moreover from assms have "cs_state s \<notin> TERMINAL_CAMPAIGN_STATES" by (simp add: live_def)
  ultimately show ?thesis by (simp add: live_iff)
qed

lemma campaign_ok_cancel:
  assumes "live s"
  shows "campaign_ok (s\<lparr>cs_state := CS_CANCELLED, cs_cancellation_state := CN_CANCELLED,
     cs_cancellation_epoch := c, cs_nodes := map cancelled (cs_nodes s),
     cs_active_node_id := None, cs_failure_reason := r\<rparr>)"
  using assms
  by (auto simp: live_def campaign_ok_def cancelled_state TERMINAL_NODE_STATES_def TERMINAL_CAMPAIGN_STATES_def)

lemma campaign_ok_spend [simp]: "campaign_ok (spend t r s) = campaign_ok s"
  by (simp add: campaign_ok_def)

lemma campaign_ok_revision [simp]: "campaign_ok (t\<lparr>cs_revision := r\<rparr>) = campaign_ok t"
  by (simp add: campaign_ok_def)

interpretation campaign: snapshot_invariant consistent
proof
  fix spec s assume i: "snapshot_initial spec = Inr s"
  have "campaign_ok s" if "spec_ok spec"
    using that snapshot_initial_eq(2,6,10,11) [OF i]
    by (auto simp: campaign_ok_def spec_ok_def node_default_def working_def TERMINAL_CAMPAIGN_STATES_def
        neq_Nil_conv)
  with node_table.inv_init [OF i] show "consistent spec s" by (simp add: consistent_def)
next
  fix spec s e t assume inv: "consistent spec s" and env: "envelope_ok s e" and st: "step s e t"
  have "campaign_ok t" if ok: "spec_ok spec"
  proof -
    from inv ok env have l: "live s"
      by (simp add: consistent_def live_iff [symmetric] envelope_ok_def)
    from inv ok have d: "distinct (map ns_node_id (cs_nodes s))"
      by (simp add: consistent_def table_distinct)
    from st show ?thesis
    proof cases
      case (campaign st)
      with l show ?thesis by (simp add: campaign_ok_edge)
    next
      case (budget token)
      from env l have "campaign_ok s" by (simp add: live_iff envelope_ok_def)
      with budget show ?thesis by simp
    next
      case (node n n')
      with campaign_ok_node [OF l d] show ?thesis by simp
    qed (use l in \<open>simp_all add: campaign_ok_authority campaign_ok_cancel\<close>)
  qed
  moreover have "table_ok spec t" using inv env st by (auto simp: consistent_def intro: node_table.inv_step)
  ultimately show "consistent spec t" by (simp add: consistent_def)
qed (simp add: consistent_def node_table.inv_revision)

lemma reachable_campaign_ok: "spec_ok spec \<Longrightarrow> reachable spec s \<Longrightarrow> campaign_ok s"
  using campaign.reachable by (auto simp: consistent_def)

section \<open>Dependencies\<close>

definition dependencies_ok :: "campaign_spec \<Rightarrow> campaign_snapshot \<Rightarrow> bool" where
  "dependencies_ok spec s \<longleftrightarrow> table_ok spec s \<and> (spec_ok spec \<longrightarrow>
     (\<forall>n \<in> set (cs_nodes s). \<forall>nd \<in> set (sp_nodes spec).
        nd_node_id nd = ns_node_id n \<and> (working (ns_state n) \<or> ns_state n = NS_DONE) \<longrightarrow>
        (\<forall>d \<in> set (nd_dependencies nd). \<exists>m \<in> set (cs_nodes s). ns_node_id m = d \<and> ns_state m = NS_DONE)))"

text \<open>A done node stays done, so a dependency that was done when its dependent was admitted is
  done ever after.\<close>

definition done_kept :: "event \<Rightarrow> node_snapshot \<Rightarrow> node_snapshot \<Rightarrow> bool" where
  "done_kept e n n' \<longleftrightarrow> ns_node_id n' = ns_node_id n \<and> (ns_state n = NS_DONE \<longrightarrow> ns_state n' = NS_DONE)
     \<and> (working (ns_state n') \<or> ns_state n' = NS_DONE \<longrightarrow>
          working (ns_state n) \<or> ns_state n = NS_DONE \<or> ev_event_type e = EV_ADMIT_NODE)"

interpretation done_nodes: node_evolution done_kept
proof
  fix s e n n' assume st: "node_step s e n n'"
  note id = node_step_id [OF this]
  from st show "done_kept e n (node_frozen n')"
    by (cases rule: node_step_kinds) (auto simp: done_kept_def id working_def TERMINAL_NODE_STATES_def)
qed (auto simp: done_kept_def cancelled_state working_def TERMINAL_NODE_STATES_def)

lemma list_all2_set1: "list_all2 R xs ys \<Longrightarrow> x \<in> set xs \<Longrightarrow> \<exists>y \<in> set ys. R x y"
  by (induction rule: list_all2_induct) auto

lemma list_all2_set2: "list_all2 R xs ys \<Longrightarrow> y \<in> set ys \<Longrightarrow> \<exists>x \<in> set xs. R x y"
  by (induction rule: list_all2_induct) auto

lemma dependencies_ok_step:
  assumes inv: "dependencies_ok spec s" and st: "step s e t" and ok: "spec_ok spec"
    and n: "n \<in> set (cs_nodes t)" and nd: "nd \<in> set (sp_nodes spec)" "nd_node_id nd = ns_node_id n"
    and w: "working (ns_state n) \<or> ns_state n = NS_DONE" and d: "d \<in> set (nd_dependencies nd)"
  shows "\<exists>m \<in> set (cs_nodes t). ns_node_id m = d \<and> ns_state m = NS_DONE"
proof -
  from inv have sp: "table_ok spec s" "cs_spec s = spec" by (simp_all add: dependencies_ok_def table_ok_def)
  have all: "list_all2 (done_kept e) (cs_nodes s) (cs_nodes t)"
    by (rule done_nodes.step_nodes [OF table_distinct [OF ok sp(1)] st])
  from list_all2_set2 [OF all n] obtain n0 where n0: "n0 \<in> set (cs_nodes s)" and k: "done_kept e n0 n" by blast
  have "\<exists>m \<in> set (cs_nodes s). ns_node_id m = d \<and> ns_state m = NS_DONE"
  proof (cases "working (ns_state n0) \<or> ns_state n0 = NS_DONE")
    case True
    with inv ok n0 nd d k show ?thesis by (auto simp: dependencies_ok_def done_kept_def)
  next
    case False
    with k w have ty: "ev_event_type e = EV_ADMIT_NODE" by (auto simp: done_kept_def)
    from st show ?thesis
    proof cases
      case (node x x')
      from node(3) ty have adm: "\<exists>nd'. snapshot_node_spec s (ns_node_id x) = Inr nd'
          \<and> (\<forall>d \<in> set (nd_dependencies nd'). \<exists>m. snapshot_node s d = Inr m \<and> ns_state m = NS_DONE)"
        by cases auto
      have "ns_node_id x = ns_node_id n"
      proof (rule ccontr)
        assume neq: "ns_node_id x \<noteq> ns_node_id n"
        from n node(1) have "n = node_frozen x' \<or> n \<in> set (cs_nodes s)"
          using put_node_set [of n "fund e x' s" "node_frozen x'"] by auto
        with neq node_step_id [OF node(3)] have "n \<in> set (cs_nodes s)" by auto
        with n0 k table_distinct [OF ok sp(1)] have "n0 = n"
          by (auto simp: done_kept_def distinct_map dest: inj_onD)
        with False w show False by blast
      qed
      with adm obtain nd' where nd': "snapshot_node_spec s (ns_node_id n) = Inr nd'"
        and done_deps: "\<And>d. d \<in> set (nd_dependencies nd') \<Longrightarrow> \<exists>m. snapshot_node s d = Inr m \<and> ns_state m = NS_DONE"
        by auto
      have "find (\<lambda>x. nd_node_id x = nd_node_id nd) (sp_nodes spec) = Some nd"
        using ok nd(1) by (auto simp: spec_ok_def intro: find_distinct_eq)
      with nd' sp(2) nd(2) have "nd' = nd" by (simp add: snapshot_node_spec_def split: option.splits)
      with done_deps [of d] d show ?thesis by (auto dest: snapshot_node_set)
    qed (use ty in \<open>auto simp: campaign_edges_def\<close>)
  qed
  then obtain m where m: "m \<in> set (cs_nodes s)" "ns_node_id m = d" "ns_state m = NS_DONE" by blast
  from list_all2_set1 [OF all m(1)] m show ?thesis by (auto simp: done_kept_def)
qed

interpretation dependencies: snapshot_invariant dependencies_ok
proof
  fix spec s assume i: "snapshot_initial spec = Inr s"
  show "dependencies_ok spec s"
    using node_table.inv_init [OF i] snapshot_initial_eq(2) [OF i]
    by (auto simp: dependencies_ok_def node_default_def working_def)
next
  fix spec s e t assume inv: "dependencies_ok spec s" and env: "envelope_ok s e" and st: "step s e t"
  have "table_ok spec t" using inv env st by (auto simp: dependencies_ok_def intro: node_table.inv_step)
  with dependencies_ok_step [OF inv st] show "dependencies_ok spec t" by (auto simp: dependencies_ok_def)
qed (simp add: dependencies_ok_def node_table.inv_revision)

end
