(* ===== verification/Dependency_Graph.thy ===== *)
theory Dependency_Graph
  imports Campaign_Spec
begin

text \<open>
  The depth-first search of \<open>_validate_uniqueness_and_graph\<close> decides acyclicity: it
  returns exactly when no node depends on itself through any chain of dependencies, and the
  order in which it marks the nodes visited is a topological order of the graph.
\<close>

section \<open>Topological orders\<close>

text \<open>A list of nodes, the latest first, each after all of its dependencies.\<close>

fun topological :: "(string \<times> string list) list \<Rightarrow> string list \<Rightarrow> bool" where
  "topological g [] = True"
| "topological g (v # vs) =
     (v \<notin> set vs \<and> (case map_of g v of None \<Rightarrow> False | Some ds \<Rightarrow> set ds \<subseteq> set vs) \<and> topological g vs)"

definition depends :: "(string \<times> string list) list \<Rightarrow> (string \<times> string) set" where
  "depends g = {(d, v). \<exists>ds. map_of g v = Some ds \<and> d \<in> set ds}"

lemma topological_depends:
  "topological g vs \<Longrightarrow> v \<in> set vs \<Longrightarrow> (d, v) \<in> depends g \<Longrightarrow> d \<in> set vs"
  by (induction vs) (auto simp: depends_def split: option.splits)

lemma topological_known: "topological g vs \<Longrightarrow> v \<in> set vs \<Longrightarrow> v \<in> fst ` set g"
  by (induction vs) (auto split: option.splits dest!: map_of_SomeD intro: rev_image_eqI)

lemma topological_index:
  assumes "topological g vs" "v \<in> set vs" "(d, v) \<in> depends g"
  shows "length (takeWhile (\<lambda>x. x \<noteq> v) vs) < length (takeWhile (\<lambda>x. x \<noteq> d) vs)"
  using assms
proof (induction vs)
  case (Cons x vs)
  show ?case
  proof (cases "x = v")
    case True
    with Cons.prems have "d \<in> set vs" "x \<notin> set vs" by (auto simp: depends_def split: option.splits)
    with True show ?thesis by auto
  next
    case False
    with Cons.prems have v: "v \<in> set vs" "topological g vs" by auto
    with Cons.prems(3) topological_depends have "d \<in> set vs" by blast
    with Cons.prems have "x \<noteq> d" by auto
    with False Cons.IH [OF v(2,1) Cons.prems(3)] show ?thesis by simp
  qed
qed simp

lemma topological_acyclic:
  assumes t: "topological g vs" and all: "fst ` set g \<subseteq> set vs"
  shows "acyclic (depends g)"
proof -
  define ix where "ix v = length (takeWhile (\<lambda>x. x \<noteq> v) vs)" for v
  have less: "ix v < ix d" if d: "(d, v) \<in> depends g" for d v
  proof -
    from d have "v \<in> fst ` set g" by (auto simp: depends_def dest!: map_of_SomeD intro: rev_image_eqI)
    with all topological_index [OF t _ d] show "ix v < ix d" by (auto simp: ix_def)
  qed
  have "(a, b) \<in> (depends g)\<^sup>+ \<Longrightarrow> ix b < ix a" for a b
    by (induction rule: trancl_induct) (auto dest: less intro: less_trans)
  then show ?thesis by (auto simp: acyclic_def)
qed

section \<open>The search returns a topological order\<close>

lemma visit_sound:
  assumes "visit g path v visited = Inr visited'" "topological g visited"
  shows "topological g visited' \<and> set visited \<subseteq> set visited' \<and> v \<in> set visited'
    \<and> (set visited' - set visited) \<inter> set path = {}"
  using assms
proof (induction g path v visited arbitrary: visited' rule: visit.induct)
  case (1 g path v visited)
  show ?case
  proof (cases "v \<in> set visited")
    case True
    with "1.prems" show ?thesis by (auto simp: visit.simps [of g path v] split: if_splits)
  next
    case False
    with "1.prems" obtain ds w where v: "v \<notin> set path" and ds: "map_of g v = Some ds"
      and w: "foldE (visit g (v # path)) ds visited = Inr w" and eq: "visited' = v # w"
      by (auto simp: visit.simps [of g path v] bindE_Inr_iff split: if_splits option.splits)
    have fold: "topological g w \<and> set u \<subseteq> set w \<and> set xs \<subseteq> set w \<and> (set w - set u) \<inter> set (v # path) = {}"
      if "foldE (visit g (v # path)) xs u = Inr w" "topological g u" "set xs \<subseteq> set ds" for xs u
      using that
    proof (induction xs arbitrary: u)
      case (Cons x xs)
      then obtain u' where u': "visit g (v # path) x u = Inr u'" and r: "foldE (visit g (v # path)) xs u' = Inr w"
        by (auto simp: bindE_Inr_iff)
      from Cons.prems have "x \<in> set ds" by simp
      note first = "1.IH" [OF v False ds this u' Cons.prems(2)]
      then have "topological g u'" by blast
      with Cons.IH [OF r] Cons.prems first show ?case by auto
    qed simp
    from fold [OF w "1.prems"(2)] v ds eq False show ?thesis by auto
  qed
qed

text \<open>The only failures of the search are a cycle through the current path and an unknown node.\<close>

lemma visit_complete:
  assumes "acyclic (depends g)" and "\<forall>x ds d. map_of g x = Some ds \<longrightarrow> d \<in> set ds \<longrightarrow> map_of g d \<noteq> None"
    and "map_of g v \<noteq> None" and "\<forall>p \<in> set path. (v, p) \<in> (depends g)\<^sup>+"
  shows "\<exists>visited'. visit g path v visited = Inr visited'"
  using assms
proof (induction g path v visited rule: visit.induct)
  case (1 g path v visited)
  note closed = "1.prems"(2) and path = "1.prems"(4)
  obtain ds where ds: "map_of g v = Some ds" using "1.prems"(3) by auto
  have np: "v \<notin> set path" using path "1.prems"(1) by (auto simp: acyclic_def)
  show ?case
  proof (cases "v \<in> set visited")
    case True
    with np show ?thesis by (simp add: visit.simps [of g path v])
  next
    case False
    have sub: "\<exists>u'. visit g (v # path) d u = Inr u'" if d: "d \<in> set ds" for d u
    proof -
      have dv: "(d, v) \<in> depends g" using ds d by (auto simp: depends_def)
      have p: "\<forall>p \<in> set (v # path). (d, p) \<in> (depends g)\<^sup>+"
        using path dv by (auto intro: trancl_into_trancl2)
      have "map_of g d \<noteq> None" using closed ds d by blast
      from "1.IH" [OF np False ds d "1.prems"(1) closed this p] show ?thesis by blast
    qed
    have "\<exists>w. foldE (visit g (v # path)) xs u = Inr w" if "set xs \<subseteq> set ds" for xs u
      using that
    proof (induction xs arbitrary: u)
      case (Cons x xs)
      then obtain u' where "visit g (v # path) x u = Inr u'" using sub [of x u] by auto
      with Cons show ?case by simp
    qed simp
    from this [of ds visited] np False ds show ?thesis
      by (auto simp: visit.simps [of g path v])
  qed
qed

definition graph_of :: "node_spec list \<Rightarrow> (string \<times> string list) list" where
  "graph_of nodes = map (\<lambda>n. (nd_node_id n, nd_dependencies n)) nodes"

lemma check_acyclic_order:
  assumes "check_acyclic nodes = Inr ()"
  shows "\<exists>vs. topological (graph_of nodes) vs \<and> set (map nd_node_id nodes) \<subseteq> set vs"
proof -
  let ?g = "graph_of nodes"
  from assms obtain vs where vs: "foldE (visit ?g []) (sort (map fst ?g)) [] = Inr vs"
    by (auto simp: check_acyclic_def graph_of_def Let_def bindE_Inr_iff)
  have "topological ?g vs \<and> set u \<subseteq> set vs \<and> set xs \<subseteq> set vs"
    if "foldE (visit ?g []) xs u = Inr vs" "topological ?g u" for xs u
    using that
  proof (induction xs arbitrary: u)
    case (Cons x xs)
    then obtain u' where u': "visit ?g [] x u = Inr u'" and r: "foldE (visit ?g []) xs u' = Inr vs"
      by (auto simp: bindE_Inr_iff)
    note first = visit_sound [OF u' Cons.prems(2)]
    with Cons.IH [OF r] show ?case by auto
  qed simp
  from this [OF vs] show ?thesis by (auto simp: graph_of_def)
qed

lemma check_acyclic_iff:
  assumes known: "\<And>n d. n \<in> set nodes \<Longrightarrow> d \<in> set (nd_dependencies n) \<Longrightarrow> d \<in> nd_node_id ` set nodes"
  shows "check_acyclic nodes = Inr () \<longleftrightarrow> acyclic (depends (graph_of nodes))"
proof
  assume "check_acyclic nodes = Inr ()"
  from check_acyclic_order [OF this] obtain vs where "topological (graph_of nodes) vs"
    "set (map nd_node_id nodes) \<subseteq> set vs" by blast
  then show "acyclic (depends (graph_of nodes))"
    by (intro topological_acyclic) (auto simp: graph_of_def)
next
  let ?g = "graph_of nodes"
  assume ac: "acyclic (depends ?g)"
  have keys: "map_of ?g x \<noteq> None \<longleftrightarrow> x \<in> nd_node_id ` set nodes" for x
    by (auto simp: graph_of_def map_of_eq_None_iff image_image)
  have closed: "\<forall>x ds d. map_of ?g x = Some ds \<longrightarrow> d \<in> set ds \<longrightarrow> map_of ?g d \<noteq> None"
  proof (intro allI impI)
    fix x ds d assume "map_of ?g x = Some ds" "d \<in> set ds"
    then show "map_of ?g d \<noteq> None"
      using known unfolding keys by (auto simp: graph_of_def dest!: map_of_SomeD)
  qed
  have "\<exists>w. foldE (visit ?g []) xs u = Inr w" if "set xs \<subseteq> nd_node_id ` set nodes" for xs u
    using that
  proof (induction xs arbitrary: u)
    case (Cons x xs)
    then have "map_of ?g x \<noteq> None" using keys by simp
    from visit_complete [OF ac closed this] obtain u' where "visit ?g [] x u = Inr u'" by fastforce
    with Cons show ?case by simp
  qed simp
  from this [of "sort (map fst ?g)" "[]"] show "check_acyclic nodes = Inr ()"
    by (auto simp: check_acyclic_def graph_of_def Let_def comp_def)
qed

end
