(* ===== verification/Scheduling.thy ===== *)
theory Scheduling
  imports Campaign_Invariants Dependency_Graph
begin

text \<open>
  What the reducer accepts: the admission of a pending node whose dependencies are done, the
  failure of any node that is not terminal, and the cancellation of any campaign that is not
  over.  With the topological order of the dependency graph it follows that a running campaign
  without an active node can always admit one.
\<close>

section \<open>Acceptance\<close>

lemma accepted_event:
  assumes "envelope_ok s e" "reduce_branch s e = Inr (t, fx)" "cs_spec t = cs_spec s"
    and "snapshot_ok (t\<lparr>cs_revision := cs_revision s + 1\<rparr>)"
    and "cs_budget_receipts t = cs_budget_receipts s"
    and "cs_autonomous_rank_remaining t = cs_autonomous_rank_remaining s"
  shows "reduce_event s e = Inr (t\<lparr>cs_revision := cs_revision s + 1\<rparr>, fx)"
  using assms by (auto simp: reduce_event_Inr finish_revision_eq)

lemma snapshot_ok_put_node [simp]: "snapshot_ok (put_node s n) = snapshot_ok s"
proof -
  have "ns_node_id ` set (cs_nodes (put_node s n)) = ns_node_id ` set (cs_nodes s)"
    using arg_cong [OF put_node_ids [of s n], of set] unfolding set_map .
  then show ?thesis by (simp add: snapshot_ok_def)
qed

lemma snapshot_ok_parts:
  assumes "snapshot_ok s"
  shows "snapshot_ok (s\<lparr>cs_revision := cs_revision s + 1\<rparr>)" "snapshot_ok (s\<lparr>cs_state := st\<rparr>)"
    "snapshot_ok (s\<lparr>cs_active_node_id := a\<rparr>)" "snapshot_ok (s\<lparr>cs_failure_reason := r\<rparr>)"
  using assms by (simp_all add: snapshot_ok_def)

lemma reachable_snapshot_ok: "reachable spec s \<Longrightarrow> snapshot_ok s"
  by (induction rule: reachable.induct) (auto intro: snapshot_initial_eq elim: reduce_step)

lemma reachable_table: "reachable spec s \<Longrightarrow> table_ok spec s"
  by (rule node_table.reachable)

lemma reachable_node_ok: "reachable spec s \<Longrightarrow> n \<in> set (cs_nodes s) \<Longrightarrow> node_ok n"
  using reachable_table by (auto simp: table_ok_def)

lemma found_distinct:
  assumes "distinct (map ns_node_id (cs_nodes s))" "n \<in> set (cs_nodes s)"
    and "ev_node_id e = Some (ns_node_id n)" "node_ok n"
  shows "found s e n"
proof -
  have "ns_node_id n \<noteq> []" using assms(4) by (auto simp: node_ok_def)
  with assms find_distinct_eq [OF assms(1,2)] show ?thesis by (simp add: found_def)
qed

text \<open>The last two lines of a branch that updates its node and settles the campaign.\<close>

lemma update_node_ok:
  "snapshot_ok s \<Longrightarrow> node_ok n \<Longrightarrow> update_node s n = Inr (put_node s (node_frozen n))"
  by (simp add: update_node_eq)

lemma fail_node_accepted:
  assumes env: "envelope_ok s e" and ty: "ev_event_type e = EV_FAIL_NODE" and f: "found s e n"
    and n: "ns_state n \<notin> TERMINAL_NODE_STATES" "node_ok n" and ok: "snapshot_ok s"
    and r: "payload_str e ''reason'' ''node_failed'' = Inr r"
  shows "\<exists>s'. reduce_event s e = Inr (s', []) \<and> cs_state s' = CS_FAILED \<and> cs_failure_reason s' = Some r"
proof -
  let ?m = "n\<lparr>ns_state := NS_FAILED_EXACT_NODE, ns_failure_reason := Some r,
          ns_fencing_epoch := ns_fencing_epoch n + 1, ns_lease_actor_id := None\<rparr>"
  let ?t = "put_node s (node_frozen ?m)\<lparr>cs_state := CS_FAILED, cs_active_node_id := None, cs_failure_reason := Some r\<rparr>"
  have "node_for s e = Inr n" using f by (simp add: node_for_eq)
  moreover have "node_ok ?m" using n(2) by (simp add: node_ok_def)
  moreover have okt: "snapshot_ok ?t" using snapshot_ok_put_node [of s "node_frozen ?m"] ok
    by (simp add: snapshot_ok_def put_node_nodes)
  ultimately have "reduce_fail_node s e = Inr ?t"
    using n(1) ok r
    by (simp add: reduce_fail_node_def fail_exact_node_def update_node_ok snapshot_post_init_eq [THEN iffD2])
  then have b: "reduce_branch s e = Inr (?t, [])" by (simp add: reduce_branch_def ty silent_def)
  have "reduce_event s e = Inr (?t\<lparr>cs_revision := cs_revision s + 1\<rparr>, [])"
    by (rule accepted_event [OF env b])
      (use okt snapshot_ok_parts(1) [OF okt] in \<open>simp_all add: snapshot_ok_def\<close>)
  then show ?thesis by auto
qed

lemma mapE_cancel_accepted:
  "\<forall>n \<in> set ns. node_ok n \<Longrightarrow> mapE cancel_node ns = Inr (map cancelled ns)"
  by (rule mapE_Inr) (auto simp: cancel_node_def cancelled_def node_post_init_eq node_ok_def)

lemma py_strip_Nil_iff: "py_strip s = [] \<longleftrightarrow> (\<forall>c \<in> set s. py_space c)"
proof
  assume "py_strip s = []"
  then have "\<forall>c \<in> set (rev (dropWhile py_space s)). py_space c"
    unfolding py_strip_def rev_is_Nil_conv dropWhile_eq_Nil_conv .
  then have a: "\<forall>c \<in> set (dropWhile py_space s). py_space c" unfolding set_rev .
  have "dropWhile py_space s = []"
    using a by (metis dropWhile_eq_Nil_conv hd_dropWhile hd_in_set)
  then show "\<forall>c \<in> set s. py_space c" by (simp add: dropWhile_eq_Nil_conv)
next
  assume "\<forall>c \<in> set s. py_space c"
  then have "dropWhile py_space s = []" by (simp add: dropWhile_eq_Nil_conv)
  then show "py_strip s = []" by (simp only: py_strip_def rev.simps dropWhile.simps)
qed

lemma make_effect_accepted:
  assumes "c \<in> set op" "\<not> py_space c" "py_strip (sp_campaign_id (cs_spec s)) \<noteq> []"
  shows "make_effect s e kind external payload op = Inr
       \<lparr>ef_operation_id = op, ef_campaign_id = sp_campaign_id (cs_spec s),
        ef_node_id = ev_node_id e, ef_kind = kind, ef_state = ES_PREPARED, ef_payload = py_freeze payload,
        ef_authority_epoch = cs_authority_epoch s, ef_cancellation_epoch = cs_cancellation_epoch s,
        ef_fencing_epoch = ev_fencing_epoch e, ef_external = external\<rparr>"
proof -
  have "op \<noteq> []" "py_strip op \<noteq> []" using assms(1,2) by (auto simp: py_strip_Nil_iff)
  with assms(3) show ?thesis by (simp add: make_effect_def effect_post_init_def named_def)
qed

lemma cancel_accepted:
  assumes env: "envelope_ok s e" and ty: "ev_event_type e = EV_CANCEL"
    and ns: "\<forall>n \<in> set (cs_nodes s). node_ok n" and ok: "snapshot_ok s"
    and ids: "py_strip (sp_campaign_id (cs_spec s)) \<noteq> []"
    and r: "payload_str e ''reason'' ''STOP'' = Inr r"
  shows "\<exists>s' fx. reduce_event s e = Inr (s', fx) \<and> cs_state s' = CS_CANCELLED
    \<and> cs_cancellation_epoch s' = cs_cancellation_epoch s + 1
    \<and> map (\<lambda>f. (ef_kind f, ef_operation_id f)) fx =
        [(EK_INTERRUPT_WORKER, ev_event_id e @ '':interrupt''), (EK_RECONCILE_EFFECT, ev_event_id e @ '':reconcile'')]"
proof -
  let ?t = "s\<lparr>cs_state := CS_CANCELLED, cs_cancellation_state := CN_CANCELLED,
          cs_cancellation_epoch := cs_cancellation_epoch s + 1, cs_nodes := map cancelled (cs_nodes s),
          cs_active_node_id := None, cs_failure_reason := Some r\<rparr>"
  have okt: "snapshot_ok ?t" using ok by (simp add: snapshot_ok_def image_image)
  have sep: "CHR '':'' \<in> set (ev_event_id e @ CHR '':'' # xs)" "\<not> py_space (CHR '':'')" for xs
    by (simp_all add: py_space_def)
  note fx = make_effect_accepted [OF sep ids, of e]
  obtain f g where b: "reduce_branch s e = Inr (?t, [f, g])"
    and fg: "map (\<lambda>f. (ef_kind f, ef_operation_id f)) [f, g] =
        [(EK_INTERRUPT_WORKER, ev_event_id e @ '':interrupt''), (EK_RECONCILE_EFFECT, ev_event_id e @ '':reconcile'')]"
    using okt by (simp add: reduce_branch_def ty reduce_cancel_def mapE_cancel_accepted [OF ns] r fx
        snapshot_post_init_eq [THEN iffD2])
  have "reduce_event s e = Inr (?t\<lparr>cs_revision := cs_revision s + 1\<rparr>, [f, g])"
    by (rule accepted_event [OF env b])
      (use okt snapshot_ok_parts(1) [OF okt] in \<open>simp_all add: snapshot_ok_def\<close>)
  with fg show ?thesis by force
qed

section \<open>Admission\<close>

lemma admit_accepted:
  assumes env: "envelope_ok s e" and ty: "ev_event_type e = EV_ADMIT_NODE" and run: "cs_state s = CS_RUNNING"
    and f: "found s e n" and n: "ns_state n = NS_PENDING" "ns_start_head n = None" "node_ok n"
    and idle: "cs_active_node_id s = None" and ok: "snapshot_ok s"
    and nd: "snapshot_node_spec s (ns_node_id n) = Inr nd"
    and deps: "\<forall>d \<in> set (nd_dependencies nd). \<exists>m. snapshot_node s d = Inr m \<and> ns_state m = NS_DONE"
    and h: "payload_text e ''start_head'' = Inr h" "length h = 40" "list_all hex_lower (casefold h)"
  shows "\<exists>s'. reduce_event s e = Inr (s', []) \<and> cs_active_node_id s' = Some (ns_node_id n)"
proof -
  let ?m = "n\<lparr>ns_state := NS_ADMITTED, ns_start_head := Some (casefold h)\<rparr>"
  let ?t = "put_node s (node_frozen ?m)\<lparr>cs_active_node_id := Some (ns_node_id n)\<rparr>"
  have len: "length (casefold h) = 40" using h(2) by (simp add: casefold_def)
  have okm: "node_ok ?m" using n(3) by (simp add: node_ok_def)
  have okt: "snapshot_ok ?t" using snapshot_ok_put_node [of s "node_frozen ?m"] ok
    by (simp add: snapshot_ok_def put_node_nodes)
  have "mapE (\<lambda>dependency. bindE (snapshot_node s dependency) (\<lambda>d.
         require (ns_state d = NS_DONE) (''dependency is not done: '' @ dependency) (Inr ())))
       (nd_dependencies nd) = Inr (map (\<lambda>_. ()) (nd_dependencies nd))"
    using deps by (intro mapE_Inr) fastforce
  then have "reduce_admit_node s e = Inr ?t"
    using f run n nd idle h len ok okm okt
    by (simp add: reduce_admit_node_def node_for_eq [THEN iffD2] Let_def update_node_ok
        snapshot_post_init_eq [THEN iffD2])
  then have b: "reduce_branch s e = Inr (?t, [])" by (simp add: reduce_branch_def ty silent_def)
  have "reduce_event s e = Inr (?t\<lparr>cs_revision := cs_revision s + 1\<rparr>, [])"
    by (rule accepted_event [OF env b])
      (use okt snapshot_ok_parts(1) [OF okt] in \<open>simp_all add: snapshot_ok_def\<close>)
  then show ?thesis by auto
qed

section \<open>A running campaign is never stuck for want of a node\<close>

text \<open>The first pending node of a topological order has only done dependencies.\<close>

lemma first_undone:
  assumes "topological g vs" and "v \<in> set vs" and "\<not> done v"
  shows "\<exists>x \<in> set vs. \<not> done x \<and> (\<forall>ds. map_of g x = Some ds \<longrightarrow> (\<forall>d \<in> set ds. done d))"
  using assms
proof (induction vs arbitrary: v)
  case (Cons x vs)
  show ?case
  proof (cases "\<exists>y \<in> set vs. \<not> done y")
    case True
    then obtain y where "y \<in> set vs" "\<not> done y" by blast
    with Cons.IH [of y] Cons.prems(1) show ?thesis by auto
  next
    case False
    with Cons.prems show ?thesis by (auto split: option.splits)
  qed
qed simp

definition dependencies_known :: "campaign_spec \<Rightarrow> bool" where
  "dependencies_known spec \<longleftrightarrow> check_acyclic (sp_nodes spec) = Inr ()
     \<and> (\<forall>nd \<in> set (sp_nodes spec). set (nd_dependencies nd) \<subseteq> nd_node_id ` set (sp_nodes spec))"

lemma spec_post_init_known:
  assumes "campaign_spec_post_init resolve s0 = Inr spec"
  shows "dependencies_known spec"
proof -
  from assms obtain us where v: "mapE (check_node spec) (sp_nodes spec) = Inr us"
    and c: "check_acyclic (sp_nodes spec) = Inr ()"
    by (auto simp: campaign_spec_post_init_def validate_uniqueness_and_graph_def Let_def res_simps)
  have "set (nd_dependencies nd) \<subseteq> nd_node_id ` set (sp_nodes spec)" if "nd \<in> set (sp_nodes spec)" for nd
  proof -
    from v that have "\<exists>u. check_node spec nd = Inr u"
      by (auto simp: mapE_Inr_iff list_all2_conv_all_nth in_set_conv_nth)
    then show ?thesis by (auto simp: check_node_def Let_def res_simps filter_empty_conv)
  qed
  with c show ?thesis by (simp add: dependencies_known_def)
qed

lemma admissible_node:
  assumes ok: "spec_ok spec" and known: "dependencies_known spec" and r: "reachable spec s"
    and run: "cs_state s = CS_RUNNING" and idle: "cs_active_node_id s = None"
  shows "\<exists>n nd. n \<in> set (cs_nodes s) \<and> ns_state n = NS_PENDING
    \<and> snapshot_node_spec s (ns_node_id n) = Inr nd
    \<and> (\<forall>d \<in> set (nd_dependencies nd). \<exists>m. snapshot_node s d = Inr m \<and> ns_state m = NS_DONE)"
proof -
  define is_done where "is_done i \<longleftrightarrow> (\<exists>m. snapshot_node s i = Inr m \<and> ns_state m = NS_DONE)" for i
  have l: "live s" using reachable_campaign_ok [OF ok r] run by (simp add: live_iff TERMINAL_CAMPAIGN_STATES_def)
  have tab: "cs_spec s = spec" "map ns_node_id (cs_nodes s) = map nd_node_id (sp_nodes spec)"
    using reachable_table [OF r] by (simp_all add: table_ok_def)
  have dist: "distinct (map ns_node_id (cs_nodes s))" by (rule reachable_distinct [OF ok r])
  have sn: "snapshot_node s (ns_node_id m) = Inr m" if "m \<in> set (cs_nodes s)" for m
    using find_distinct_eq [OF dist that] by (simp add: snapshot_node_eq)
  have states: "ns_state m = NS_PENDING \<or> ns_state m = NS_DONE" if "m \<in> set (cs_nodes s)" for m
    using l that idle by (auto simp: live_def working_def TERMINAL_NODE_STATES_def)
  from known obtain vs where vs: "topological (graph_of (sp_nodes spec)) vs"
    "set (map nd_node_id (sp_nodes spec)) \<subseteq> set vs"
    using check_acyclic_order [of "sp_nodes spec"] unfolding dependencies_known_def by blast
  from l obtain n0 where n0: "n0 \<in> set (cs_nodes s)" "ns_state n0 \<noteq> NS_DONE" by (auto simp: live_def)
  then have "\<not> is_done (ns_node_id n0)" by (simp add: is_done_def sn)
  moreover have "ns_node_id n0 \<in> set vs" using n0(1) vs(2) tab(2) by (metis image_eqI list.set_map subsetD)
  ultimately obtain x where x: "x \<in> set vs" "\<not> is_done x"
    "\<And>ds d. map_of (graph_of (sp_nodes spec)) x = Some ds \<Longrightarrow> d \<in> set ds \<Longrightarrow> is_done d"
    using first_undone [OF vs(1), of "ns_node_id n0" is_done] by blast
  from x(1) topological_known [OF vs(1)] obtain nd where nd: "nd \<in> set (sp_nodes spec)" "nd_node_id nd = x"
    by (force simp: graph_of_def)
  have f: "find (\<lambda>y. nd_node_id y = nd_node_id nd) (sp_nodes spec) = Some nd"
    using ok nd(1) by (auto simp: spec_ok_def intro: find_distinct_eq)
  then have spec: "snapshot_node_spec s x = Inr nd" using nd(2) tab(1) by (simp add: snapshot_node_spec_def)
  from nd tab(2) obtain n where n: "n \<in> set (cs_nodes s)" "ns_node_id n = x"
    by (metis (no_types, lifting) image_iff list.set_map)
  with x(2) states [OF n(1)] sn [OF n(1)] have "ns_state n = NS_PENDING" by (auto simp: is_done_def)
  moreover have "map_of (graph_of (sp_nodes spec)) x = Some (nd_dependencies nd)"
    using ok nd by (auto simp: graph_of_def spec_ok_def comp_def intro!: map_of_is_SomeI)
  ultimately show ?thesis using n spec x(3) unfolding is_done_def by blast
qed

end
