(* ===== verification/Example_Campaign.thy ===== *)
theory Example_Campaign
  imports Scheduling
begin

text \<open>
  A concrete automated campaign of two nodes, the second depending on the first: a blocking
  finding of the first is repaired and closed, the second is clean, and each has one
  publication effect.  Its events are applied one by one with \<open>reduce_event\<close>; the
  snapshots in between are the concrete inputs at which the properties of the development are
  instantiated, and the run as a whole shows that the lifecycle can be completed.  The
  specification digest stays symbolic.
\<close>

section \<open>The specification\<close>

definition example_base :: campaign_spec where
  "example_base =
     \<lparr>sp_campaign_id = ''c'', sp_specification_revision = 1, sp_specification_digest = [],
      sp_authority_epoch = 3, sp_cancellation_epoch = 0, sp_mode = AUTOMATED, sp_objective = ''o'',
      sp_objective_kind = hd objective_kinds, sp_repository_remote = ''r'', sp_git_root = ''g'', sp_worktree = ''w'',
      sp_branch = ''b'', sp_base_sha = ''0'', sp_allowed_paths = [''src''],
      sp_nodes = [\<lparr>nd_node_id = ''n'', nd_objective = ''o'', nd_dependencies = [],
        nd_allowed_paths = [''src''], nd_validation_command_ids = [''v''], nd_deadline_utc = None,
        nd_acceptance_scenarios = [], nd_required_tools = []\<rparr>,
       \<lparr>nd_node_id = ''k'', nd_objective = ''o'', nd_dependencies = [''n''],
        nd_allowed_paths = [''src''], nd_validation_command_ids = [''v''], nd_deadline_utc = None,
        nd_acceptance_scenarios = [], nd_required_tools = []\<rparr>],
      sp_required_validation_commands = [\<lparr>vc_command_id = ''v'', vc_executable = ''x'', vc_arguments = [],
        vc_working_directory = ''w'', vc_environment_allowlist = [], vc_timeout_seconds = 1,
        vc_output_limit_bytes = 1, vc_expected_worktree_condition = ''CLEAN'',
        vc_expected_status_sha256 = None, vc_required_exit_code = 0, vc_correction_policy = PNone\<rparr>],
      sp_required_review_cohort = [''q''],
      sp_publication_authority = PProxy [(''allowed_effects'', PTuple [PStr ''PUSH'']), (''automated'', PBool True)],
      sp_attempt_budgets = [\<lparr>ab_token = BT_CHILD_START, ab_limit = 2\<rparr>,
        \<lparr>ab_token = BT_CLOSURE_DISPATCH, ab_limit = 2\<rparr>, \<lparr>ab_token = BT_PUSH, ab_limit = 2\<rparr>,
        \<lparr>ab_token = BT_REPAIR_DISPATCH, ab_limit = 2\<rparr>, \<lparr>ab_token = BT_REVIEW_DISPATCH, ab_limit = 2\<rparr>],
      sp_stop_conditions = [''s''], sp_installed_source_commit = ''i'', sp_installed_bundle_digest = ''d'',
      sp_install_transaction = ''t'', sp_protocol_version = PROTOCOL_VERSION,
      sp_schema_compatibility = SCHEMA_COMPATIBILITY,
      sp_host_capability_probe_version = HOST_CAPABILITY_PROBE_VERSION, sp_autonomous_rank = 8,
      sp_deadline_utc = None\<rparr>"

definition example_spec :: campaign_spec where
  "example_spec = example_base\<lparr>sp_specification_digest := compute_digest example_base\<rparr>"

lemma compute_digest_independent: "compute_digest (s\<lparr>sp_specification_digest := d\<rparr>) = compute_digest s"
  by (simp add: compute_digest_def campaign_spec_to_dict_def dict_remove_def)

lemma compute_digest_nonempty [simp]: "compute_digest s \<noteq> []"
  by (simp add: compute_digest_def campaign_spec_to_dict_def)

lemma example_spec_simps [simp]:
  "sp_campaign_id example_spec = ''c''" "sp_mode example_spec = AUTOMATED"
  "sp_authority_epoch example_spec = 3" "sp_cancellation_epoch example_spec = 0"
  "sp_specification_digest example_spec = compute_digest example_spec"
  "map nd_node_id (sp_nodes example_spec) = [''n'', ''k'']"
  "sp_required_review_cohort example_spec = [''q'']"
  "sp_publication_authority example_spec =
     PProxy [(''allowed_effects'', PTuple [PStr ''PUSH'']), (''automated'', PBool True)]"
  "sp_autonomous_rank example_spec = 8"
  using compute_digest_independent [of "compute_digest example_base" example_base]
  by (simp_all add: example_spec_def example_base_def)

lemma example_nodes: "sp_nodes example_spec = [\<lparr>nd_node_id = ''n'', nd_objective = ''o'', nd_dependencies = [],
        nd_allowed_paths = [''src''], nd_validation_command_ids = [''v''], nd_deadline_utc = None,
        nd_acceptance_scenarios = [], nd_required_tools = []\<rparr>,
       \<lparr>nd_node_id = ''k'', nd_objective = ''o'', nd_dependencies = [''n''],
        nd_allowed_paths = [''src''], nd_validation_command_ids = [''v''], nd_deadline_utc = None,
        nd_acceptance_scenarios = [], nd_required_tools = []\<rparr>]"
  by (simp add: example_spec_def example_base_def)

lemma example_valid: "campaign_spec_post_init id example_spec = Inr example_spec"
proof -
  have "campaign_spec_post_init id (example_base\<lparr>sp_specification_digest := d\<rparr>)
      = Inr (example_base\<lparr>sp_specification_digest := d\<rparr>)" for d
    by code_simp
  then show ?thesis by (simp add: example_spec_def)
qed

section \<open>Its events\<close>

text \<open>A run applies events in order and stops at the first rejection.\<close>

definition run :: "event list \<Rightarrow> campaign_snapshot \<Rightarrow> campaign_snapshot res" where
  "run es s = foldE (\<lambda>e s. bindE (reduce_event s e) (\<lambda>(t, _). Inr t)) es s"

lemma run_reachable: "reachable spec s \<Longrightarrow> run es s = Inr t \<Longrightarrow> reachable spec t"
proof (induction es arbitrary: s)
  case (Cons e es)
  then obtain u fx where "reduce_event s e = Inr (u, fx)" "run es u = Inr t"
    by (auto simp: run_def bindE_Inr_iff)
  with Cons show ?case by (blast intro: reachable.event)
qed (simp add: run_def)

lemma run_append: "run (es @ fs) s = bindE (run es s) (run fs)"
  unfolding run_def foldE_append by (rule bindE_cong) (simp_all add: run_def)

text \<open>An event of the example: its type, its node, the revision it expects, its actor, its fence
  and its payload.\<close>

definition example_event :: "event_type \<Rightarrow> string \<Rightarrow> int \<Rightarrow> string option \<Rightarrow> int option \<Rightarrow> pydict \<Rightarrow> event" where
  "example_event ty i r actor fence payload =
     \<lparr>ev_event_id = ''e'' @ show_int r, ev_campaign_id = ''c'', ev_event_type = ty, ev_expected_revision = r,
      ev_authority_epoch = 3, ev_cancellation_epoch = 0, ev_node_id = Some i, ev_actor_id = actor,
      ev_fencing_epoch = fence, ev_payload = PProxy payload\<rparr>"

definition example_candidate :: pydict where
  "example_candidate = [(''candidate_head'', PStr ''h''), (''candidate_tree'', PStr ''t''),
     (''candidate_diff_digest'', PStr ''x''), (''candidate_node_diff_digest'', PStr ''y'')]"

definition example_events :: "event list" where
  "example_events =
     [example_event EV_ADMIT_NODE ''n'' 2 None None
        [(''start_head'', PStr (replicate 40 (CHR ''a'')))],
      example_event EV_ACQUIRE_LEASE ''n'' 3 (Some ''a'') (Some 1) [],
      example_event EV_START_IMPLEMENTATION ''n'' 4 (Some ''a'') (Some 1)
        [(''budget_token'', PStr ''CHILD_START''), (''operation_id'', PStr ''o1'')],
      example_event EV_IMPLEMENTATION_COMPLETED ''n'' 5 (Some ''a'') (Some 1) [],
      example_event EV_VALIDATION_PASSED ''n'' 6 (Some ''a'') (Some 1) example_candidate,
      example_event EV_START_REVIEW ''n'' 7 None None
        [(''budget_token'', PStr ''REVIEW_DISPATCH''), (''operation_id'', PStr ''o2''),
         (''review_cohort'', PTuple [PStr ''q''])],
      example_event EV_FREEZE_FINDINGS ''n'' 8 None None
        [(''findings'', PTuple [PProxy [(''finding_id'', PStr ''f''), (''title'', PStr ''t''), (''blocking'', PBool True)]])],
      example_event EV_AUTHORIZE_REPAIR ''n'' 9 None None
        [(''finding_ids'', PTuple [PStr ''f'']), (''authorization_receipt_id'', PStr ''i''),
         (''authorization_receipt_digest'', PStr ''g'')],
      example_event EV_START_REPAIR ''n'' 10 (Some ''a'') (Some 1)
        [(''budget_token'', PStr ''REPAIR_DISPATCH''), (''operation_id'', PStr ''o3'')],
      example_event EV_REPAIR_COMPLETED ''n'' 11 (Some ''a'') (Some 1) [],
      example_event EV_REVALIDATION_PASSED ''n'' 12 (Some ''a'') (Some 1)
        ([(''budget_token'', PStr ''CLOSURE_DISPATCH''), (''operation_id'', PStr ''o4'')] @ example_candidate),
      example_event EV_COMPLETE_CLOSURE ''n'' 13 None None [(''resolved_finding_ids'', PTuple [PStr ''f''])],
      example_event EV_START_PUBLISH ''n'' 14 None None
        [(''budget_token'', PStr ''PUSH''), (''effect_kind'', PStr ''PUSH''), (''operation_id'', PStr ''o5'')],
      example_event EV_PUBLISH_CONFIRMED ''n'' 15 None None
        [(''candidate_head'', PStr ''h''), (''operation_id'', PStr ''o5'')],
      example_event EV_ADMIT_NODE ''k'' 16 None None
        [(''start_head'', PStr (replicate 40 (CHR ''b'')))],
      example_event EV_ACQUIRE_LEASE ''k'' 17 (Some ''a'') (Some 1) [],
      example_event EV_START_IMPLEMENTATION ''k'' 18 (Some ''a'') (Some 1)
        [(''budget_token'', PStr ''CHILD_START''), (''operation_id'', PStr ''o6'')],
      example_event EV_IMPLEMENTATION_COMPLETED ''k'' 19 (Some ''a'') (Some 1) [],
      example_event EV_VALIDATION_PASSED ''k'' 20 (Some ''a'') (Some 1) example_candidate,
      example_event EV_START_REVIEW ''k'' 21 None None
        [(''budget_token'', PStr ''REVIEW_DISPATCH''), (''operation_id'', PStr ''o7''),
         (''review_cohort'', PTuple [PStr ''q''])],
      example_event EV_FREEZE_FINDINGS ''k'' 22 None None [],
      example_event EV_MARK_READY_TO_PUBLISH ''k'' 23 None None [],
      example_event EV_START_PUBLISH ''k'' 24 None None
        [(''budget_token'', PStr ''PUSH''), (''effect_kind'', PStr ''PUSH''), (''operation_id'', PStr ''o8'')],
      example_event EV_PUBLISH_CONFIRMED ''k'' 25 None None
        [(''candidate_head'', PStr ''h''), (''operation_id'', PStr ''o8'')]]"

definition example_start :: "string \<Rightarrow> campaign_snapshot" where
  "example_start d =
     \<lparr>cs_spec = example_base\<lparr>sp_specification_digest := d\<rparr>, cs_revision = 2, cs_state = CS_RUNNING,
      cs_authority_epoch = 3, cs_cancellation_epoch = 0, cs_cancellation_state = CN_ACTIVE,
      cs_nodes = [node_default ''n'', node_default ''k''],
      cs_budgets = map (\<lambda>t. \<lparr>bb_token = t, bb_limit = 2, bb_consumed = 0\<rparr>)
        [BT_CHILD_START, BT_CLOSURE_DISPATCH, BT_PUSH, BT_REPAIR_DISPATCH, BT_REVIEW_DISPATCH],
      cs_budget_receipts = [], cs_autonomous_rank_remaining = 8, cs_active_node_id = None,
      cs_failure_reason = None\<rparr>"

text \<open>The first node and the snapshot once the repair is closed, while the publication effect is
  pending, once the second node is admitted, and at the end.\<close>

definition example_node :: node_snapshot where
  "example_node = (node_default ''n'')
     \<lparr>ns_state := NS_READY_TO_PUBLISH, ns_fencing_epoch := 1, ns_lease_actor_id := Some ''a'',
      ns_implementation_attempts := 1, ns_review_generations := 1, ns_repair_attempts := 1,
      ns_closure_generations := 1, ns_start_head := Some (replicate 40 (CHR ''a'')),
      ns_candidate_head := Some ''h'', ns_candidate_tree := Some ''t'',
      ns_candidate_diff_digest := Some ''x'', ns_candidate_node_diff_digest := Some ''y'',
      ns_findings := [\<lparr>fi_finding_id = ''f'', fi_title = ''t'', fi_blocking = True, fi_origin = FO_REVIEW,
         fi_details = PProxy []\<rparr>],
      ns_resolved_finding_ids := [''f'']\<rparr>"

definition example_node_done :: node_snapshot where
  "example_node_done = example_node\<lparr>ns_state := NS_DONE, ns_completed_publication_effects := [''PUSH''],
        ns_publication_operation_ids := [''o5'']\<rparr>"

definition example_second_node :: node_snapshot where
  "example_second_node = (node_default ''k'')
     \<lparr>ns_state := NS_ADMITTED, ns_start_head := Some (replicate 40 (CHR ''b''))\<rparr>"

definition example_receipts :: "budget_receipt list" where
  "example_receipts =
     [\<lparr>br_request_id = ''e4'', br_token = BT_CHILD_START, br_revision = 5\<rparr>,
      \<lparr>br_request_id = ''e7'', br_token = BT_REVIEW_DISPATCH, br_revision = 8\<rparr>,
      \<lparr>br_request_id = ''e10'', br_token = BT_REPAIR_DISPATCH, br_revision = 11\<rparr>,
      \<lparr>br_request_id = ''e12'', br_token = BT_CLOSURE_DISPATCH, br_revision = 13\<rparr>]"

definition example_balances :: "int \<Rightarrow> int \<Rightarrow> int \<Rightarrow> budget_balance list" where
  "example_balances child push review =
     [\<lparr>bb_token = BT_CHILD_START, bb_limit = 2, bb_consumed = child\<rparr>,
      \<lparr>bb_token = BT_CLOSURE_DISPATCH, bb_limit = 2, bb_consumed = 1\<rparr>,
      \<lparr>bb_token = BT_PUSH, bb_limit = 2, bb_consumed = push\<rparr>,
      \<lparr>bb_token = BT_REPAIR_DISPATCH, bb_limit = 2, bb_consumed = 1\<rparr>,
      \<lparr>bb_token = BT_REVIEW_DISPATCH, bb_limit = 2, bb_consumed = review\<rparr>]"

definition example_ready :: "string \<Rightarrow> campaign_snapshot" where
  "example_ready d = (example_start d)
     \<lparr>cs_revision := 14, cs_nodes := [example_node, node_default ''k''],
      cs_budgets := example_balances 1 0 1, cs_budget_receipts := example_receipts,
      cs_autonomous_rank_remaining := 4, cs_active_node_id := Some ''n''\<rparr>"

definition example_publishing :: "string \<Rightarrow> campaign_snapshot" where
  "example_publishing d = (example_ready d)
     \<lparr>cs_revision := 15,
      cs_nodes := [example_node\<lparr>ns_state := NS_PUBLISHING, ns_pending_publication_effect := Some ''PUSH'',
        ns_pending_publication_operation_id := Some ''o5''\<rparr>, node_default ''k''],
      cs_budgets := example_balances 1 1 1,
      cs_budget_receipts := example_receipts @ [\<lparr>br_request_id = ''e14'', br_token = BT_PUSH, br_revision = 15\<rparr>],
      cs_autonomous_rank_remaining := 3\<rparr>"

definition example_between :: "string \<Rightarrow> campaign_snapshot" where
  "example_between d = (example_publishing d)
     \<lparr>cs_revision := 16, cs_nodes := [example_node_done, node_default ''k''], cs_active_node_id := None\<rparr>"

definition example_second :: "string \<Rightarrow> campaign_snapshot" where
  "example_second d = (example_between d)
     \<lparr>cs_revision := 17, cs_nodes := [example_node_done, example_second_node], cs_active_node_id := Some ''k''\<rparr>"

definition example_done :: "string \<Rightarrow> campaign_snapshot" where
  "example_done d = (example_second d)
     \<lparr>cs_revision := 26, cs_state := CS_COMPLETED, cs_active_node_id := None,
      cs_nodes := [example_node_done, example_second_node
        \<lparr>ns_state := NS_DONE, ns_fencing_epoch := 1, ns_lease_actor_id := Some ''a'',
         ns_implementation_attempts := 1, ns_review_generations := 1,
         ns_candidate_head := Some ''h'', ns_candidate_tree := Some ''t'',
         ns_candidate_diff_digest := Some ''x'', ns_candidate_node_diff_digest := Some ''y'',
         ns_completed_publication_effects := [''PUSH''], ns_publication_operation_ids := [''o8'']\<rparr>],
      cs_budgets := example_balances 2 2 2,
      cs_budget_receipts := example_receipts @
        [\<lparr>br_request_id = ''e14'', br_token = BT_PUSH, br_revision = 15\<rparr>,
         \<lparr>br_request_id = ''e18'', br_token = BT_CHILD_START, br_revision = 19\<rparr>,
         \<lparr>br_request_id = ''e21'', br_token = BT_REVIEW_DISPATCH, br_revision = 22\<rparr>,
         \<lparr>br_request_id = ''e24'', br_token = BT_PUSH, br_revision = 25\<rparr>],
      cs_autonomous_rank_remaining := 0\<rparr>"

lemma example_run_ready: "run (take 12 example_events) (example_start d) = Inr (example_ready d)"
  by code_simp

lemma example_publish: "run [example_events ! 12] (example_ready d) = Inr (example_publishing d)"
  by code_simp

lemma example_confirm: "run [example_events ! 13] (example_publishing d) = Inr (example_between d)"
  by code_simp

lemma example_admit: "run [example_events ! 14] (example_between d) = Inr (example_second d)"
  by code_simp

lemma example_rest: "run (drop 15 example_events) (example_second d) = Inr (example_done d)"
  by code_simp

lemma example_run: "run example_events (example_start d) = Inr (example_done d)"
proof -
  have "example_events = take 12 example_events @ [example_events ! 12] @ [example_events ! 13]
      @ [example_events ! 14] @ drop 15 example_events"
    by (simp add: example_events_def)
  then have "run example_events (example_start d) = run (take 12 example_events @ [example_events ! 12]
      @ [example_events ! 13] @ [example_events ! 14] @ drop 15 example_events) (example_start d)"
    by (rule arg_cong)
  then show ?thesis
    by (simp only: run_append bindE_simps example_run_ready example_publish example_confirm example_admit
        example_rest)
qed

text \<open>The approval and the start, where the digest matters, by rewriting.\<close>

definition example_digest :: string where
  "example_digest = compute_digest example_base"

lemma example_digest_nonempty [simp]: "example_digest \<noteq> []"
  by (simp add: example_digest_def)

lemma example_spec_digest: "example_spec = example_base\<lparr>sp_specification_digest := example_digest\<rparr>"
  by (simp add: example_spec_def example_digest_def)

lemma example_spec_ok: "spec_ok example_spec"
  by (rule spec_post_init_ok [OF example_valid])

lemma example_known: "dependencies_known example_spec"
  by (rule spec_post_init_known [OF example_valid])

definition example_initial :: campaign_snapshot where
  "example_initial = (example_start example_digest)\<lparr>cs_state := CS_DRAFT, cs_revision := 0\<rparr>"

lemma example_initial_simps:
  "cs_spec example_initial = example_spec" "cs_state example_initial = CS_DRAFT"
  "cs_revision example_initial = 0" "cs_authority_epoch example_initial = 3"
  "cs_cancellation_epoch example_initial = 0" "cs_cancellation_state example_initial = CN_ACTIVE"
  "cs_autonomous_rank_remaining example_initial = 8" "cs_nodes example_initial = [node_default ''n'', node_default ''k'']"
  "cs_budget_receipts example_initial = []"
  by (simp_all add: example_initial_def example_start_def example_spec_digest)

lemma example_initial_ok:
  "0 \<le> r \<Longrightarrow> snapshot_ok (example_initial\<lparr>cs_state := st, cs_revision := r\<rparr>)"
  "snapshot_ok (example_initial\<lparr>cs_state := st\<rparr>)" "snapshot_ok example_initial"
  by (simp_all add: snapshot_ok_def example_initial_simps example_nodes node_default_def)

lemma example_initial: "snapshot_initial example_spec = Inr example_initial"
proof -
  have 1: "verify_digest example_spec = Inr ()" by (simp add: verify_digest_def)
  have nodes: "sp_nodes example_spec = sp_nodes example_base" and
    budgets: "sp_attempt_budgets example_spec = sp_attempt_budgets example_base"
    by (simp_all add: example_spec_digest)
  have 2: "mapE node_post_init (map (\<lambda>n. node_default (nd_node_id n)) (sp_nodes example_spec)) = Inr [node_default ''n'', node_default ''k'']"
    unfolding nodes by code_simp
  have 3: "mapE (\<lambda>b. budget_balance_post_init
              \<lparr>bb_token = ab_token b, bb_limit = ab_limit b, bb_consumed = 0\<rparr>)
            (sort_key (\<lambda>b. budget_token_value (ab_token b)) (sp_attempt_budgets example_spec))
     = Inr (map (\<lambda>t. \<lparr>bb_token = t, bb_limit = 2, bb_consumed = 0\<rparr>)
        [BT_CHILD_START, BT_CLOSURE_DISPATCH, BT_PUSH, BT_REPAIR_DISPATCH, BT_REVIEW_DISPATCH])"
    unfolding budgets by code_simp
  have 4: "snapshot_post_init example_initial = Inr example_initial"
    by (simp add: snapshot_post_init_eq example_initial_ok)
  show ?thesis
    unfolding snapshot_initial_def 1 2 3 bindE_simps 4 [symmetric]
    unfolding example_initial_def example_start_def example_spec_digest [symmetric] by simp
qed

lemma reduce_event_plain:
  assumes "envelope_ok s e" "reduce_branch s e = Inr (s\<lparr>cs_state := st\<rparr>, [])"
    and "snapshot_ok (s\<lparr>cs_state := st, cs_revision := cs_revision s + 1\<rparr>)"
  shows "reduce_event s e = Inr (s\<lparr>cs_state := st, cs_revision := cs_revision s + 1\<rparr>, [])"
  using accepted_event [OF assms(1,2)] assms(3) by simp

definition example_approval :: event where
  "example_approval = example_event EV_APPROVE ''n'' 0 None None [(''specification_digest'', PStr example_digest)]"

lemma example_approved:
  "reduce_event example_initial example_approval
     = Inr (example_initial\<lparr>cs_state := CS_APPROVED, cs_revision := 1\<rparr>, [])"
proof -
  have dg: "compute_digest example_spec = example_digest"
    using compute_digest_independent [of example_digest example_base]
    by (simp add: example_spec_digest example_digest_def)
  have "reduce_approve example_initial example_approval = Inr (example_initial\<lparr>cs_state := CS_APPROVED\<rparr>)"
    by (simp add: reduce_approve_def example_initial_simps verify_digest_def dg example_approval_def
        example_event_def snapshot_post_init_eq example_initial_ok)
  then show ?thesis
    using reduce_event_plain [of example_initial example_approval CS_APPROVED] example_initial_ok(1) [of 1 CS_APPROVED]
    by (simp add: envelope_ok_def example_initial_simps example_approval_def example_event_def
        reduce_branch_def silent_def TERMINAL_CAMPAIGN_STATES_def)
qed

lemma example_start_reachable: "reachable example_spec (example_start example_digest)"
proof -
  define e1 where "e1 = example_event EV_START ''n'' 1 None None []"
  let ?s1 = "example_initial\<lparr>cs_state := CS_APPROVED, cs_revision := 1\<rparr>"
  have "reduce_start ?s1 = Inr (?s1\<lparr>cs_state := CS_RUNNING\<rparr>)"
    using example_initial_ok(1) [of 1 CS_RUNNING] by (simp add: reduce_start_def snapshot_post_init_eq snapshot_ok_def)
  then have "reduce_event ?s1 e1 = Inr (?s1\<lparr>cs_state := CS_RUNNING, cs_revision := 2\<rparr>, [])"
    using reduce_event_plain [of ?s1 e1 CS_RUNNING] example_initial_ok(1) [of 2 CS_RUNNING]
    by (simp add: envelope_ok_def example_initial_simps e1_def example_event_def reduce_branch_def silent_def
        TERMINAL_CAMPAIGN_STATES_def)
  moreover have "?s1\<lparr>cs_state := CS_RUNNING, cs_revision := 2\<rparr> = example_start example_digest"
    by (simp add: example_initial_def example_start_def)
  ultimately show ?thesis
    using reachable.init [OF example_initial] example_approved by (metis reachable.event)
qed

lemma example_reachable:
  "reachable example_spec (example_ready example_digest)"
  "reachable example_spec (example_publishing example_digest)"
  "reachable example_spec (example_between example_digest)"
  "reachable example_spec (example_second example_digest)"
  "reachable example_spec (example_done example_digest)"
proof -
  show r: "reachable example_spec (example_ready example_digest)"
    by (rule run_reachable [OF example_start_reachable example_run_ready])
  show p: "reachable example_spec (example_publishing example_digest)"
    by (rule run_reachable [OF r example_publish])
  show b: "reachable example_spec (example_between example_digest)"
    by (rule run_reachable [OF p example_confirm])
  show t: "reachable example_spec (example_second example_digest)"
    by (rule run_reachable [OF b example_admit])
  show "reachable example_spec (example_done example_digest)"
    by (rule run_reachable [OF t example_rest])
qed

end
