(* ===== verification/Progress.thy ===== *)
theory Progress
  imports Example_Campaign
begin

text \<open>
  A bound on the work of a campaign.  \<open>work_left\<close> adds the edges its nodes have left
  and the rank that remains; every event but the campaign controls, the lease events and the
  authorization of a publication lowers it.  So a run contains at most \<open>work_left\<close> of them.
\<close>

definition work_left :: "campaign_spec \<Rightarrow> campaign_snapshot \<Rightarrow> int" where
  "work_left spec s =
     (if cs_state s \<in> TERMINAL_CAMPAIGN_STATES then 0
      else sum_list (map (edges_left spec) (cs_nodes s)) + cs_autonomous_rank_remaining s)"

definition control_events :: "event_type set" where
  "control_events = still_events \<union> {EV_APPROVE, EV_START, EV_WAIT_EXTERNAL, EV_WAIT_HUMAN, EV_RESUME,
     EV_ADVANCE_AUTHORITY}"

lemma edges_left_nonneg:
  assumes "publication_ok spec n" "lifecycle_ok spec n"
  shows "0 \<le> edges_left spec n"
proof (cases "ns_state n \<in> TERMINAL_NODE_STATES")
  case False
  with edges_left_pos [OF assms] show ?thesis by simp
qed (simp add: edges_left_def)

lemma work_left_nonneg:
  assumes "reachable spec s"
  shows "0 \<le> work_left spec s"
proof -
  have "0 \<le> sum_list (map (edges_left spec) (cs_nodes s))"
    by (rule sum_list_nonneg)
      (auto intro: edges_left_nonneg publication.reachable_node [OF assms] lifecycle.reachable_node [OF assms])
  moreover have "0 \<le> cs_autonomous_rank_remaining s"
    using reachable_snapshot_ok [OF assms] by (simp add: snapshot_ok_def)
  ultimately show ?thesis by (simp add: work_left_def)
qed

text \<open>A campaign that is not over has a node that is not over.\<close>

lemma edges_sum_pos:
  assumes ok: "spec_ok spec" and r: "reachable spec s" and st: "cs_state s \<notin> TERMINAL_CAMPAIGN_STATES"
  shows "0 < sum_list (map (edges_left spec) (cs_nodes s))"
proof -
  have "live s" using reachable_campaign_ok [OF ok r] st by (simp add: live_iff)
  then obtain n where n: "n \<in> set (cs_nodes s)" "ns_state n \<notin> TERMINAL_NODE_STATES"
    by (auto simp: live_def TERMINAL_NODE_STATES_def)
  have nn: "0 \<le> edges_left spec m" if "m \<in> set (cs_nodes s)" for m
    using that by (intro edges_left_nonneg publication.reachable_node [OF r] lifecycle.reachable_node [OF r])
  have "0 < edges_left spec n"
    by (rule edges_left_pos [OF publication.reachable_node [OF r n(1)] lifecycle.reachable_node [OF r n(1)] n(2)])
  also have "edges_left spec n \<le> sum_list (map (edges_left spec) (cs_nodes s))"
    using n(1) nn by (intro member_le_sum_list) auto
  finally show ?thesis .
qed

lemma edges_sum_node:
  assumes d: "distinct (map ns_node_id (cs_nodes s))" and n: "n \<in> set (cs_nodes s)"
    and id: "ns_node_id m = ns_node_id n" and le: "edges_left spec m \<le> edges_left spec n - k" and k: "0 \<le> k"
  shows "sum_list (map (edges_left spec) (cs_nodes (put_node s m)))
      \<le> sum_list (map (edges_left spec) (cs_nodes s)) - k"
proof -
  let ?P = "\<lambda>x. ns_node_id x = ns_node_id m" and ?d = "edges_left spec m - edges_left spec n"
  have uniq: "x = n" if "x \<in> set (cs_nodes s)" "?P x" for x
    using that d n id by (metis distinct_map inj_onD)
  have "sum_list (map (edges_left spec) (cs_nodes (put_node s m)))
      = sum_list (map (edges_left spec) (cs_nodes s)) + ?d * int (length (filter ?P (cs_nodes s)))"
    unfolding put_node_nodes using uniq by (intro sum_list_map_if) auto
  moreover have "filter ?P (cs_nodes s) \<noteq> []" using n id by (auto simp: filter_empty_conv)
  then have "1 \<le> int (length (filter ?P (cs_nodes s)))" by (cases "filter ?P (cs_nodes s)") simp_all
  then have "?d * int (length (filter ?P (cs_nodes s))) \<le> ?d * 1"
    using le k by (intro mult_left_mono_neg) auto
  ultimately show ?thesis using le by simp
qed

lemma work_left_event:
  assumes ok: "spec_ok spec" and r: "reachable spec s" and e: "reduce_event s e = Inr (s', fx)"
  shows "work_left spec s' \<le> work_left spec s - (if ev_event_type e \<in> control_events then 0 else 1)"
proof (rule reduce_step [OF e])
  fix t
  assume env: "envelope_ok s e" and st: "step s e t" and s': "s' = t\<lparr>cs_revision := cs_revision s + 1\<rparr>"
    and rank: "cs_autonomous_rank_remaining s - cs_autonomous_rank_remaining t \<in> {0, 1}"
  note pos = edges_sum_pos [OF ok r] and d = reachable_distinct [OF ok r]
  have nt: "cs_state s \<notin> TERMINAL_CAMPAIGN_STATES" using env by (simp add: envelope_ok_def)
  have spec: "cs_spec s = spec" using reachable_table [OF r] by (simp add: table_ok_def)
  have rk: "0 \<le> cs_autonomous_rank_remaining s"
    using reachable_snapshot_ok [OF r] by (simp add: snapshot_ok_def)
  have eq: "work_left spec s' = work_left spec t" by (simp add: s' work_left_def)
  have old: "work_left spec s = sum_list (map (edges_left spec) (cs_nodes s)) + cs_autonomous_rank_remaining s"
    using nt by (simp add: work_left_def)
  from st have "work_left spec t \<le> work_left spec s - (if ev_event_type e \<in> control_events then 0 else 1)"
  proof cases
    case authority
    then have "map (edges_left spec) (cs_nodes t) = map (edges_left spec) (cs_nodes s)"
      by (simp add: unleased_def edges_left_def)
    then have "sum_list (map (edges_left spec) (cs_nodes t)) = sum_list (map (edges_left spec) (cs_nodes s))"
      by (rule arg_cong)
    with authority(1,2) old nt show ?thesis by (simp add: work_left_def control_events_def)
  next
    case (node n n')
    let ?k = "if ev_event_type e \<in> still_events then 0 else 1 :: int"
    note n = found_set [OF node(2)]
    have le: "edges_left spec (node_frozen n') \<le> edges_left spec n - ?k"
      using edges_left_step [OF _ _ node(3)] publication.reachable_node [OF r n] lifecycle.reachable_node [OF r n]
      by (simp add: spec)
    have "sum_list (map (edges_left spec) (cs_nodes (put_node (fund e n' s) (node_frozen n'))))
        \<le> sum_list (map (edges_left spec) (cs_nodes s)) - ?k"
      using edges_sum_node [of "fund e n' s" n "node_frozen n'"] d n le node_step_id [OF node(3)] by simp
    then have "sum_list (map (edges_left spec) (cs_nodes t)) \<le> sum_list (map (edges_left spec) (cs_nodes s)) - ?k"
      by (simp add: node(1))
    moreover have "(if ev_event_type e \<in> control_events then 0 else 1) \<le> ?k" by (simp add: control_events_def)
    moreover have "cs_autonomous_rank_remaining t \<le> cs_autonomous_rank_remaining s" using rank by auto
    moreover have "work_left spec t \<le> 0 \<or> work_left spec t = sum_list (map (edges_left spec) (cs_nodes t))
        + cs_autonomous_rank_remaining t" by (simp add: work_left_def)
    ultimately show ?thesis using pos [OF nt] old rk by (cases "ev_event_type e \<in> control_events") (simp, linarith)+
  qed (use pos [OF nt] old rk in \<open>auto simp: work_left_def control_events_def still_events_def campaign_edges_def
      TERMINAL_CAMPAIGN_STATES_def\<close>)
  then show ?thesis by (simp add: eq)
qed

lemma run_work_bound:
  assumes ok: "spec_ok spec" and "reachable spec s" "run es s = Inr t"
  shows "int (length (filter (\<lambda>e. ev_event_type e \<notin> control_events) es)) \<le> work_left spec s - work_left spec t"
  using assms(2,3)
proof (induction es arbitrary: s)
  case (Cons e es)
  then obtain u fx where u: "reduce_event s e = Inr (u, fx)" "run es u = Inr t"
    by (auto simp: run_def bindE_Inr_iff)
  have "reachable spec u" using Cons.prems(1) u(1) by (rule reachable.event)
  with Cons.IH u(2) work_left_event [OF ok Cons.prems(1) u(1)] show ?case by fastforce
qed (simp add: run_def)

end
