(* ===== verification/Reducer_Properties.thy ===== *)
theory Reducer_Properties
  imports Progress
begin

text \<open>
  The properties of the lifecycle reducer, each stated over \<open>reduce_event\<close> or over the
  snapshots it can reach, with a witness on the campaign of \<open>Example_Campaign\<close> where it has
  hypotheses.
\<close>

section \<open>Budget\<close>

text \<open>C1: In every reachable snapshot the durable budget is accounted for: the remaining rank and
  the receipts add up to the rank of the specification, the balance of each token has consumed
  exactly as many units as there are receipts for it and never more than its declared limit, and no
  request identifier was charged twice.\<close>

theorem budget_accounting:
  assumes "reachable spec s"
  shows "cs_autonomous_rank_remaining s + int (length (cs_budget_receipts s)) = sp_autonomous_rank spec
    \<and> map (\<lambda>b. (bb_token b, bb_limit b)) (cs_budgets s) = declared_budgets spec
    \<and> (\<forall>b \<in> set (cs_budgets s). bb_consumed b = int (length (receipts_for s (bb_token b))) \<and> bb_consumed b \<le> bb_limit b)
    \<and> distinct (map br_request_id (cs_budget_receipts s))"
  using budget.reachable [OF assms] unfolding budget_ok_def by blast

theorem budget_accounting_witness:
  "cs_autonomous_rank_remaining (example_done example_digest)
     + int (length (cs_budget_receipts (example_done example_digest))) = sp_autonomous_rank example_spec"
  using budget_accounting [OF example_reachable(5)] by blast

text \<open>Every accepted event increases the revision by exactly one, leaves the specification as it
  was, charges at most one unit of budget together with one receipt for it, and moves the
  authority and cancellation epochs forward by at most one.\<close>

theorem accepted_event_shape:
  assumes "reduce_event s e = Inr (s', fx)"
  shows "cs_revision s' = cs_revision s + 1 \<and> cs_spec s' = cs_spec s
    \<and> cs_authority_epoch s' = cs_authority_epoch s + (if ev_event_type e = EV_ADVANCE_AUTHORITY then 1 else 0)
    \<and> cs_cancellation_epoch s' = cs_cancellation_epoch s + (if ev_event_type e = EV_CANCEL then 1 else 0)
    \<and> int (length (cs_budget_receipts s')) - int (length (cs_budget_receipts s))
        = cs_autonomous_rank_remaining s - cs_autonomous_rank_remaining s'
    \<and> cs_autonomous_rank_remaining s - cs_autonomous_rank_remaining s' \<in> {0, 1}"
  using assms
proof (elim reduce_step)
  fix t assume t: "step s e t" "s' = t\<lparr>cs_revision := cs_revision s + 1\<rparr>" "cs_spec t = cs_spec s"
    "cs_autonomous_rank_remaining s - cs_autonomous_rank_remaining t \<in> {0, 1}"
    "int (length (cs_budget_receipts t)) - int (length (cs_budget_receipts s))
         = cs_autonomous_rank_remaining s - cs_autonomous_rank_remaining t"
  from t(1) have "cs_authority_epoch t = cs_authority_epoch s + (if ev_event_type e = EV_ADVANCE_AUTHORITY then 1 else 0)
    \<and> cs_cancellation_epoch t = cs_cancellation_epoch s + (if ev_event_type e = EV_CANCEL then 1 else 0)"
  proof cases
    case (node n n')
    from node(3) have "ev_event_type e \<notin> {EV_ADVANCE_AUTHORITY, EV_CANCEL}" by cases simp_all
    with node(1) show ?thesis by simp
  qed (auto simp: campaign_edges_def)
  with t(2-5) show ?thesis by simp
qed

lemma example_publish_event:
  "\<exists>fx. reduce_event (example_ready d) (example_events ! 12) = Inr (example_publishing d, fx)"
  using example_publish [of d] by (auto simp: run_def bindE_Inr_iff)

lemma example_confirm_event:
  "\<exists>fx. reduce_event (example_publishing d) (example_events ! 13) = Inr (example_between d, fx)"
  using example_confirm [of d] by (auto simp: run_def bindE_Inr_iff)

theorem accepted_event_shape_witness:
  "cs_revision (example_publishing example_digest) = cs_revision (example_ready example_digest) + 1"
proof -
  obtain fx where "reduce_event (example_ready example_digest) (example_events ! 12)
      = Inr (example_publishing example_digest, fx)"
    using example_publish_event by blast
  from accepted_event_shape [OF this] show ?thesis by blast
qed

section \<open>The node lifecycle\<close>

text \<open>C10: Every accepted event changes the state of a node only along an edge of the lifecycle
  (\<open>CoreReducerNodeTransitions\<close> of Campaign.tla, an explicit failure, or the cancellation of a
  node that is not terminal).\<close>

theorem node_transitions:
  assumes "spec_ok spec" "reachable spec s" "reduce_event s e = Inr (s', fx)"
  shows "list_all2 (edge_ok e) (cs_nodes s) (cs_nodes s')"
  using reachable_distinct [OF assms(1,2)] assms(3) by (rule edges.event_nodes)

theorem node_transitions_witness:
  "list_all2 (edge_ok (example_events ! 12)) (cs_nodes (example_ready example_digest))
     (cs_nodes (example_publishing example_digest))"
proof -
  obtain fx where "reduce_event (example_ready example_digest) (example_events ! 12)
      = Inr (example_publishing example_digest, fx)"
    using example_publish_event by blast
  from node_transitions [OF example_spec_ok example_reachable(1) this] show ?thesis .
qed

text \<open>A node uses each of its generations (implementation, validation correction, review,
  repair, closure) at most once, and in every state exactly the generations of the stages it has
  passed.\<close>

theorem generations_used_once:
  assumes "reachable spec s" "n \<in> set (cs_nodes s)"
  shows "at_most_once n \<and> generations_fit (ns_state n) (generations n)"
  using lifecycle.reachable_node [OF assms] by (simp add: lifecycle_ok_def)

theorem generations_used_once_witness: "at_most_once example_node \<and> generations example_node = (1, 1, 1, 1)"
proof -
  have "example_node \<in> set (cs_nodes (example_ready example_digest))" by (simp add: example_ready_def)
  from generations_used_once [OF example_reachable(1) this]
  show ?thesis by (simp add: generations_def example_node_def)
qed

text \<open>A terminal node never changes again, except that its lease may be released.\<close>

theorem terminal_nodes_kept:
  assumes "spec_ok spec" "reachable spec s" "reduce_event s e = Inr (s', fx)"
  shows "list_all2 (terminal_kept e) (cs_nodes s) (cs_nodes s')"
  using reachable_distinct [OF assms(1,2)] assms(3) by (rule terminal.event_nodes)

theorem terminal_nodes_kept_witness:
  "list_all2 (terminal_kept (example_events ! 13)) (cs_nodes (example_publishing example_digest))
     (cs_nodes (example_between example_digest))"
proof -
  obtain fx where "reduce_event (example_publishing example_digest) (example_events ! 13)
      = Inr (example_between example_digest, fx)"
    using example_confirm_event by blast
  from terminal_nodes_kept [OF example_spec_ok example_reachable(2) this] show ?thesis .
qed

text \<open>C11: What is frozen stays frozen: the start head of a node, its review findings, and its
  candidate identity outside validation and revalidation never change, and the confirmed
  publication effects only grow, by confirmations.\<close>

theorem frozen_evidence_kept:
  assumes "spec_ok spec" "reachable spec s" "reduce_event s e = Inr (s', fx)"
  shows "list_all2 (frozen_kept e) (cs_nodes s) (cs_nodes s')"
  using reachable_distinct [OF assms(1,2)] assms(3) by (rule frozen.event_nodes)

theorem frozen_evidence_kept_witness:
  "list_all2 (frozen_kept (example_events ! 13)) (cs_nodes (example_publishing example_digest))
     (cs_nodes (example_between example_digest))"
proof -
  obtain fx where "reduce_event (example_publishing example_digest) (example_events ! 13)
      = Inr (example_between example_digest, fx)"
    using example_confirm_event by blast
  from frozen_evidence_kept [OF example_spec_ok example_reachable(2) this] show ?thesis .
qed

section \<open>Publication\<close>

text \<open>C12: A node publishes the required effects in their order: the confirmed effects and the
  pending one are a prefix of the required sequence, each confirmed under its own operation
  identity, and a node is done exactly with the whole sequence.\<close>

theorem publication_in_order:
  assumes "reachable spec s" "n \<in> set (cs_nodes s)"
  shows "published_prefix spec (ns_completed_publication_effects n @ pending_list n)
    \<and> length (ns_publication_operation_ids n) = length (ns_completed_publication_effects n)
    \<and> distinct (ns_publication_operation_ids n)
    \<and> (ns_state n = NS_DONE \<longrightarrow> required_of spec = Inr (map PStr (ns_completed_publication_effects n)))"
  using publication.reachable_node [OF assms] by (simp add: publication_ok_def)

theorem publication_in_order_witness:
  "required_of example_spec = Inr [PStr ''PUSH''] \<and> ns_state example_node_done = NS_DONE"
proof -
  have "example_node_done \<in> set (cs_nodes (example_between example_digest))" by (simp add: example_between_def)
  from publication_in_order [OF example_reachable(3) this] show ?thesis
    by (simp add: example_node_done_def)
qed

text \<open>No node is published with an unresolved blocker: a node that is ready to publish,
  publishing or done has a complete candidate identity, every frozen blocking finding is resolved
  by its closure, and no closure finding blocks.\<close>

theorem published_nodes_clean:
  assumes "reachable spec s" "n \<in> set (cs_nodes s)"
    and "ns_state n \<in> {NS_READY_TO_PUBLISH, NS_PUBLISHING, NS_DONE}"
  shows "candidate_complete n \<and> set (ns_resolved_finding_ids n) = set (blockers n)
    \<and> \<not> list_ex closure_blocking (ns_closure_findings n)"
proof -
  have "ns_state n \<in> candidate_states" using assms(3) by (auto simp: candidate_states_def)
  then have "candidate_complete n"
    using candidate.reachable_node [OF assms(1,2)] unfolding candidate_ok_def by blast
  with findings.reachable_node [OF assms(1,2)] assms(3) show ?thesis
    unfolding findings_ok_def by blast
qed

theorem published_nodes_clean_witness:
  "set (ns_resolved_finding_ids example_node) = set (blockers example_node) \<and> blockers example_node = [''f'']"
proof -
  have "example_node \<in> set (cs_nodes (example_ready example_digest))" by (simp add: example_ready_def)
  moreover have "ns_state example_node \<in> {NS_READY_TO_PUBLISH, NS_PUBLISHING, NS_DONE}"
    by (simp add: example_node_def)
  ultimately have "set (ns_resolved_finding_ids example_node) = set (blockers example_node)"
    using published_nodes_clean [OF example_reachable(1)] by blast
  then show ?thesis by (simp add: blockers_def example_node_def)
qed

section \<open>The campaign and its nodes\<close>

text \<open>The state of the campaign agrees with its nodes: it has failed exactly when a node has
  failed, it is completed exactly when every node is done, it is cancelled exactly when its
  cancellation is recorded (and then every node is terminal), and nothing has started before it
  is approved and running.\<close>

theorem campaign_agrees_with_nodes:
  assumes "spec_ok spec" "reachable spec s"
  shows "(cs_state s = CS_FAILED \<longleftrightarrow> (\<exists>n \<in> set (cs_nodes s). ns_state n = NS_FAILED_EXACT_NODE))
    \<and> (cs_state s = CS_COMPLETED \<longleftrightarrow> (\<forall>n \<in> set (cs_nodes s). ns_state n = NS_DONE))
    \<and> (cs_state s = CS_CANCELLED \<longleftrightarrow> cs_cancellation_state s = CN_CANCELLED)
    \<and> (cs_state s = CS_CANCELLED \<longrightarrow> (\<forall>n \<in> set (cs_nodes s). ns_state n \<in> TERMINAL_NODE_STATES))
    \<and> (cs_state s \<in> {CS_DRAFT, CS_APPROVED} \<longrightarrow> (\<forall>n \<in> set (cs_nodes s). ns_state n = NS_PENDING))"
  using reachable_campaign_ok [OF assms] unfolding campaign_ok_def by blast

theorem campaign_agrees_with_nodes_witness:
  "cs_state (example_done example_digest) = CS_COMPLETED
    \<and> list_all (\<lambda>n. ns_state n = NS_DONE) (cs_nodes (example_done example_digest))"
proof -
  have "cs_state (example_done example_digest) = CS_COMPLETED" by (simp add: example_done_def)
  with campaign_agrees_with_nodes [OF example_spec_ok example_reachable(5)] show ?thesis
    unfolding list_all_iff by blast
qed

text \<open>C13: At most one node is at work: while the campaign is not over, the nodes that are neither
  pending nor terminal are exactly the active node.\<close>

theorem single_active_node:
  assumes "spec_ok spec" "reachable spec s" "cs_state s \<notin> TERMINAL_CAMPAIGN_STATES" "n \<in> set (cs_nodes s)"
  shows "working (ns_state n) \<longleftrightarrow> cs_active_node_id s = Some (ns_node_id n)"
  using reachable_campaign_ok [OF assms(1,2)] assms(3,4) unfolding campaign_ok_def by blast

theorem single_active_node_witness:
  "working (ns_state example_node) \<and> cs_active_node_id (example_ready example_digest) = Some (ns_node_id example_node)"
proof -
  have "cs_state (example_ready example_digest) \<notin> TERMINAL_CAMPAIGN_STATES"
    and "example_node \<in> set (cs_nodes (example_ready example_digest))"
    by (simp_all add: example_ready_def example_start_def TERMINAL_CAMPAIGN_STATES_def)
  from single_active_node [OF example_spec_ok example_reachable(1) this]
  show ?thesis by (simp add: example_node_def working_def TERMINAL_NODE_STATES_def)
qed

text \<open>C14: Work follows the dependency graph: a node that is at work or done has all its
  dependencies done.\<close>

theorem dependencies_done_first:
  assumes "spec_ok spec" "reachable spec s" "n \<in> set (cs_nodes s)" "nd \<in> set (sp_nodes spec)"
    and "nd_node_id nd = ns_node_id n" "working (ns_state n) \<or> ns_state n = NS_DONE" "d \<in> set (nd_dependencies nd)"
  shows "\<exists>m \<in> set (cs_nodes s). ns_node_id m = d \<and> ns_state m = NS_DONE"
  using dependencies.reachable [OF assms(2)] assms(1,3-) unfolding dependencies_ok_def by blast

theorem dependencies_done_first_witness:
  "\<exists>m \<in> set (cs_nodes (example_second example_digest)). ns_node_id m = ''n'' \<and> ns_state m = NS_DONE"
proof -
  have n: "example_second_node \<in> set (cs_nodes (example_second example_digest))"
    by (simp add: example_second_def)
  have nd: "sp_nodes example_spec ! 1 \<in> set (sp_nodes example_spec)"
    "nd_node_id (sp_nodes example_spec ! 1) = ns_node_id example_second_node"
    "''n'' \<in> set (nd_dependencies (sp_nodes example_spec ! 1))"
    by (simp_all add: example_nodes example_second_node_def node_default_def)
  have w: "working (ns_state example_second_node) \<or> ns_state example_second_node = NS_DONE"
    by (simp add: example_second_node_def working_def TERMINAL_NODE_STATES_def)
  show ?thesis by (rule dependencies_done_first [OF example_spec_ok example_reachable(4) n nd(1,2) w nd(3)])
qed

section \<open>What is rejected\<close>

text \<open>The envelope is checked first, in this order, whatever the event is: another campaign, a
  stale revision, a stale authority epoch, a stale cancellation epoch, a cancelled campaign and a
  terminal one are rejected with their own exceptions.\<close>

theorem envelope_checked_first:
  "(ev_campaign_id e \<noteq> sp_campaign_id (cs_spec s) \<longrightarrow>
      reduce_event s e = Inl (TransitionError ''event campaign identifier does not match snapshot''))
    \<and> (ev_campaign_id e = sp_campaign_id (cs_spec s) \<and> ev_expected_revision e \<noteq> cs_revision s \<longrightarrow>
      (\<exists>m. reduce_event s e = Inl (RevisionConflict m)))
    \<and> (ev_campaign_id e = sp_campaign_id (cs_spec s) \<and> ev_expected_revision e = cs_revision s
        \<and> ev_authority_epoch e \<noteq> cs_authority_epoch s \<longrightarrow> (\<exists>m. reduce_event s e = Inl (AuthorityError m)))
    \<and> (ev_campaign_id e = sp_campaign_id (cs_spec s) \<and> ev_expected_revision e = cs_revision s
        \<and> ev_authority_epoch e = cs_authority_epoch s
        \<and> (ev_cancellation_epoch e \<noteq> cs_cancellation_epoch s \<or> cs_cancellation_state s = CN_CANCELLED) \<longrightarrow>
      (\<exists>m. reduce_event s e = Inl (CancellationError m)))
    \<and> (cs_state s \<in> TERMINAL_CAMPAIGN_STATES \<longrightarrow> (\<exists>err. reduce_event s e = Inl err))"
  by (auto simp: reduce_event_def requireE_def)

theorem envelope_checked_first_witness:
  "reduce_event (example_done example_digest) ((example_events ! 13)\<lparr>ev_campaign_id := ''x''\<rparr>)
     = Inl (TransitionError ''event campaign identifier does not match snapshot'')"
proof -
  have "ev_campaign_id ((example_events ! 13)\<lparr>ev_campaign_id := ''x''\<rparr>)
      \<noteq> sp_campaign_id (cs_spec (example_done example_digest))"
    by (simp add: example_done_def example_second_def example_between_def example_publishing_def
        example_ready_def example_start_def example_base_def)
  with envelope_checked_first show ?thesis by blast
qed

text \<open>C15: No late result of a stale worker is accepted: in an automated campaign, a fenced event
  that is accepted comes from the actor that holds the lease of its node and carries the current
  fencing epoch of the node.\<close>

theorem fenced_events_need_the_lease:
  assumes "reduce_event s e = Inr (s', fx)" "ev_event_type e \<in> FENCED_EVENTS" "sp_mode (cs_spec s) = AUTOMATED"
  shows "\<exists>n. found s e n \<and> ns_lease_actor_id n \<noteq> None \<and> ev_actor_id e = ns_lease_actor_id n
    \<and> ev_fencing_epoch e = Some (ns_fencing_epoch n)"
  using assms(1)
proof (elim reduce_step)
  fix t assume "step s e t"
  then show ?thesis
  proof cases
    case (node n n')
    from node(3) assms(2) have "fence_ok s e n" by cases (simp_all add: FENCED_EVENTS_def)
    with node(2) assms(3) show ?thesis by (auto simp: fence_ok_def)
  qed (use assms(2) in \<open>auto simp: FENCED_EVENTS_def campaign_edges_def\<close>)
qed

lemma example_admit_acquire:
  "\<exists>s fx. run (take 2 example_events) (example_start d) = Inr s \<and> cs_spec s = cs_spec (example_start d)
     \<and> map ns_lease_actor_id (cs_nodes s) = [Some ''a'', None]
     \<and> map_sum id snd (reduce_event s (example_events ! 2)) = Inr fx"
proof -
  have "(case run (take 2 example_events) (example_start d) of Inl _ \<Rightarrow> False
    | Inr s \<Rightarrow> cs_spec s = cs_spec (example_start d)
     \<and> map ns_lease_actor_id (cs_nodes s) = [Some ''a'', None]
     \<and> (case reduce_event s (example_events ! 2) of Inl _ \<Rightarrow> False | Inr _ \<Rightarrow> True))"
    by code_simp
  then show ?thesis by (force split: sum.splits)
qed

theorem fenced_events_need_the_lease_witness:
  "\<exists>s s' fx. reduce_event s (example_events ! 2) = Inr (s', fx)
     \<and> (\<exists>n. found s (example_events ! 2) n \<and> ev_actor_id (example_events ! 2) = ns_lease_actor_id n)"
proof -
  obtain s fx where s: "cs_spec s = cs_spec (example_start example_digest)"
    "map_sum id snd (reduce_event s (example_events ! 2)) = Inr fx"
    using example_admit_acquire by blast
  then obtain s' gx where r: "reduce_event s (example_events ! 2) = Inr (s', gx)"
    by (cases "reduce_event s (example_events ! 2)") auto
  moreover have "ev_event_type (example_events ! 2) \<in> FENCED_EVENTS"
    by (simp add: example_events_def example_event_def FENCED_EVENTS_def)
  moreover have "sp_mode (cs_spec s) = AUTOMATED"
    by (simp add: s example_start_def example_base_def)
  ultimately show ?thesis using fenced_events_need_the_lease by blast
qed

text \<open>The fence of a node only moves forward: its epoch never decreases, and a lease is granted
  only to a node without one, under a strictly larger epoch.\<close>

theorem fence_only_advances:
  assumes "spec_ok spec" "reachable spec s" "reduce_event s e = Inr (s', fx)"
  shows "list_all2 (fence_monotone e) (cs_nodes s) (cs_nodes s')"
  using reachable_distinct [OF assms(1,2)] assms(3) by (rule fence.event_nodes)

theorem fence_only_advances_witness:
  "list_all2 (fence_monotone (example_events ! 12)) (cs_nodes (example_ready example_digest))
     (cs_nodes (example_publishing example_digest))"
proof -
  obtain fx where "reduce_event (example_ready example_digest) (example_events ! 12)
      = Inr (example_publishing example_digest, fx)"
    using example_publish_event by blast
  from fence_only_advances [OF example_spec_ok example_reachable(1) this] show ?thesis .
qed

section \<open>What is accepted\<close>

text \<open>C16: STOP always works: a reachable campaign that is not over accepts every cancellation with a
  current envelope; it becomes cancelled under the next cancellation epoch and emits exactly an
  interrupt and a reconciliation effect with operation identities derived from the event.\<close>

theorem cancel_always_accepted:
  assumes "reachable spec s" "py_strip (sp_campaign_id spec) \<noteq> []" "envelope_ok s e"
    and "ev_event_type e = EV_CANCEL" "is_mapping (ev_payload e)"
  shows "\<exists>s' fx. reduce_event s e = Inr (s', fx) \<and> cs_state s' = CS_CANCELLED
    \<and> cs_cancellation_epoch s' = cs_cancellation_epoch s + 1
    \<and> map (\<lambda>f. (ef_kind f, ef_operation_id f)) fx =
        [(EK_INTERRUPT_WORKER, ev_event_id e @ '':interrupt''), (EK_RECONCILE_EFFECT, ev_event_id e @ '':reconcile'')]"
proof -
  from assms(5) obtain r where "payload_str e ''reason'' ''STOP'' = Inr r"
    by (auto simp: payload_str_def get_str_def py_get_def is_mapping_def)
  moreover have "cs_spec s = spec" "\<forall>n \<in> set (cs_nodes s). node_ok n"
    using reachable_table [OF assms(1)] by (simp_all add: table_ok_def)
  ultimately show ?thesis
    using cancel_accepted [OF assms(3,4) _ reachable_snapshot_ok [OF assms(1)]] assms(2) by simp
qed

theorem cancel_always_accepted_witness:
  "\<exists>s' fx. reduce_event (example_publishing example_digest) (example_event EV_CANCEL ''n'' 15 None None []) = Inr (s', fx)
     \<and> cs_state s' = CS_CANCELLED"
proof -
  let ?e = "example_event EV_CANCEL ''n'' 15 None None []"
  have "py_strip (sp_campaign_id example_spec) \<noteq> []" by (simp add: py_strip_Nil_iff py_space_def)
  moreover have "envelope_ok (example_publishing example_digest) ?e"
    by (simp add: envelope_ok_def example_event_def example_publishing_def example_ready_def example_start_def
        example_base_def TERMINAL_CAMPAIGN_STATES_def)
  moreover have "ev_event_type ?e = EV_CANCEL" "is_mapping (ev_payload ?e)"
    by (simp_all add: example_event_def is_mapping_def)
  ultimately show ?thesis using cancel_always_accepted [OF example_reachable(2)] by blast
qed

text \<open>C17: A running campaign is never stuck for want of a node: with a specification that passed
  \<open>__post_init__\<close>, whenever no node is active there is a pending node whose admission, with
  any 40-character head, is accepted.\<close>

theorem admission_never_stuck:
  assumes valid: "campaign_spec_post_init resolve s0 = Inr spec" and r: "reachable spec s"
    and run: "cs_state s = CS_RUNNING" and idle: "cs_active_node_id s = None"
  shows "\<exists>i. \<forall>e h. ev_event_type e = EV_ADMIT_NODE \<and> ev_node_id e = Some i \<and> envelope_ok s e
      \<and> payload_text e ''start_head'' = Inr h \<and> length h = 40 \<and> list_all hex_lower (casefold h) \<longrightarrow>
    (\<exists>s'. reduce_event s e = Inr (s', []) \<and> cs_active_node_id s' = Some i)"
proof -
  note ok = spec_post_init_ok [OF valid] and known = spec_post_init_known [OF valid]
  from admissible_node [OF ok known r run idle] obtain n nd where n: "n \<in> set (cs_nodes s)" "ns_state n = NS_PENDING"
    and nd: "snapshot_node_spec s (ns_node_id n) = Inr nd"
    and deps: "\<forall>d \<in> set (nd_dependencies nd). \<exists>m. snapshot_node s d = Inr m \<and> ns_state m = NS_DONE"
    by blast
  have "ns_start_head n = None" using candidate.reachable_node [OF r n(1)] n(2) by (simp add: candidate_ok_def)
  then have "\<exists>s'. reduce_event s e = Inr (s', []) \<and> cs_active_node_id s' = Some (ns_node_id n)"
    if "ev_event_type e = EV_ADMIT_NODE" "ev_node_id e = Some (ns_node_id n)" "envelope_ok s e"
      "payload_text e ''start_head'' = Inr h" "length h = 40" "list_all hex_lower (casefold h)" for e h
    using admit_accepted [OF that(3,1) run found_distinct [OF reachable_distinct [OF ok r] n(1) that(2)] n(2)]
      reachable_node_ok [OF r n(1)] idle reachable_snapshot_ok [OF r] nd deps that(4-6) by blast
  then show ?thesis by blast
qed

theorem admission_never_stuck_witness:
  "\<exists>i s'. reduce_event (example_between example_digest) ((example_events ! 14)\<lparr>ev_node_id := Some i\<rparr>) = Inr (s', [])
     \<and> cs_active_node_id s' = Some i"
proof -
  let ?s = "example_between example_digest" and ?h = "replicate 40 (CHR ''b'')"
  have st: "cs_state ?s = CS_RUNNING" "cs_active_node_id ?s = None"
    by (simp_all add: example_between_def example_publishing_def example_ready_def example_start_def)
  from admission_never_stuck [OF example_valid example_reachable(3) st] obtain i where
    i: "\<And>e h. ev_event_type e = EV_ADMIT_NODE \<and> ev_node_id e = Some i \<and> envelope_ok ?s e
      \<and> payload_text e ''start_head'' = Inr h \<and> length h = 40 \<and> list_all hex_lower (casefold h) \<Longrightarrow>
    \<exists>s'. reduce_event ?s e = Inr (s', []) \<and> cs_active_node_id s' = Some i" by blast
  let ?e = "(example_events ! 14)\<lparr>ev_node_id := Some i\<rparr>"
  have e: "example_events ! 14 = example_event EV_ADMIT_NODE ''k'' 16 None None [(''start_head'', PStr ?h)]"
    by (simp add: example_events_def)
  have h: "py_strip ?h = ?h" "list_all hex_lower (casefold ?h)" by code_simp+
  then have "payload_text ?e ''start_head'' = Inr ?h"
    by (simp only: e) (simp add: payload_text_def get_str_def example_event_def)
  moreover have "envelope_ok ?s ?e"
    by (simp only: e) (simp add: envelope_ok_def example_event_def example_between_def example_publishing_def
      example_ready_def example_start_def example_base_def TERMINAL_CAMPAIGN_STATES_def)
  moreover have "ev_event_type ?e = EV_ADMIT_NODE" by (simp only: e) (simp add: example_event_def)
  ultimately show ?thesis using i [of ?e ?h] h(2) by auto
qed

text \<open>C18: Autonomy is finite: in any run from a reachable snapshot, the number of accepted events
  other than campaign controls, lease events and publication authorizations is at most the work
  left there, which is a number computed from the stages of the nodes, the required publication
  effects and the remaining rank.\<close>

theorem finite_autonomy:
  assumes "spec_ok spec" "reachable spec s" "run es s = Inr t"
  shows "int (length (filter (\<lambda>e. ev_event_type e \<notin> control_events) es)) \<le> work_left spec s"
  using run_work_bound [OF assms] work_left_nonneg [OF run_reachable [OF assms(2,3)]] by linarith

theorem finite_autonomy_witness:
  "int (length (filter (\<lambda>e. ev_event_type e \<notin> control_events) example_events))
     \<le> work_left example_spec (example_start example_digest)"
  by (rule finite_autonomy [OF example_spec_ok example_start_reachable example_run])

text \<open>The lifecycle can be completed: the example campaign, with a repaired finding and a
  dependent node, runs through every stage to \<open>COMPLETED\<close> and spends its whole rank.\<close>

theorem example_campaign_completes:
  "\<exists>s t. snapshot_initial example_spec = Inr s \<and> reachable example_spec t \<and> cs_state t = CS_COMPLETED
     \<and> cs_autonomous_rank_remaining t = 0 \<and> map ns_state (cs_nodes t) = [NS_DONE, NS_DONE]"
proof -
  have "cs_state (example_done example_digest) = CS_COMPLETED"
     "cs_autonomous_rank_remaining (example_done example_digest) = 0"
     "map ns_state (cs_nodes (example_done example_digest)) = [NS_DONE, NS_DONE]"
    by (simp_all add: example_done_def example_node_done_def)
  then show ?thesis by (intro exI conjI) (rule example_initial example_reachable(5) | assumption)+
qed

text \<open>Approval binds the exact specification: an \<open>APPROVE\<close> event is accepted only for a draft
  whose recorded digest is the digest of its content, and only if the event carries that digest.\<close>

theorem approval_binds_digest:
  assumes "reduce_event s e = Inr (s', fx)" "ev_event_type e = EV_APPROVE"
  shows "cs_state s = CS_DRAFT \<and> cs_state s' = CS_APPROVED
    \<and> sp_specification_digest (cs_spec s) = compute_digest (cs_spec s)
    \<and> py_get (ev_payload e) ''specification_digest'' PNone = Inr (PStr (compute_digest (cs_spec s)))"
  using assms(1)
proof (elim reduce_step)
  fix t assume "step s e t" and s': "s' = t\<lparr>cs_revision := cs_revision s + 1\<rparr>"
  then show ?thesis
  proof cases
    case (campaign st)
    with assms(2) s' show ?thesis by (auto simp: campaign_edges_def approval_binds_def)
  next
    case (node n n')
    from node(3) assms(2) show ?thesis by cases simp_all
  qed (use assms(2) in simp_all)
qed

theorem approval_binds_digest_witness:
  "sp_specification_digest example_spec = compute_digest example_spec"
proof -
  obtain s where s: "reduce_event example_initial example_approval = Inr (s, [])"
    using example_approved by blast
  have "ev_event_type example_approval = EV_APPROVE" by (simp add: example_approval_def example_event_def)
  from approval_binds_digest [OF s this] show ?thesis by (simp add: example_initial_simps)
qed

text \<open>C19: The depth-first search of the specification is exact: over known dependencies it returns
  if and only if no node depends on itself through any chain of dependencies.\<close>

theorem acyclicity_decided:
  assumes "\<And>n d. n \<in> set nodes \<Longrightarrow> d \<in> set (nd_dependencies n) \<Longrightarrow> d \<in> nd_node_id ` set nodes"
  shows "check_acyclic nodes = Inr () \<longleftrightarrow> acyclic (depends (graph_of nodes))"
  using assms by (rule check_acyclic_iff)

theorem acyclicity_decided_witness: "acyclic (depends (graph_of (sp_nodes example_spec)))"
proof -
  have "d \<in> nd_node_id ` set (sp_nodes example_spec)"
    if "n \<in> set (sp_nodes example_spec)" "d \<in> set (nd_dependencies n)" for n d
    using that example_known by (auto simp: dependencies_known_def)
  from acyclicity_decided [OF this] example_known show ?thesis by (simp add: dependencies_known_def)
qed

section \<open>Waiting campaigns\<close>

text \<open>\<open>WaitingYields\<close> and \<open>WaitingConsumesNoAutonomousBudget\<close> of Campaign.tla do not hold of the reducer:
  a campaign that waits for an external event still starts a publication, which orders the push and
  spends a unit.\<close>

lemma waiting_campaign_publishes:
  "run [example_event EV_WAIT_EXTERNAL ''n'' 14 None None []] (example_ready d)
    = Inr ((example_ready d)\<lparr>cs_state := CS_WAITING_EXTERNAL, cs_revision := 15\<rparr>)"
  "cs_autonomous_rank_remaining (example_ready d) = 4"
  "map_sum id (\<lambda>(t, fx). (cs_state t, map ef_kind fx, cs_autonomous_rank_remaining t))
     (reduce_event ((example_ready d)\<lparr>cs_state := CS_WAITING_EXTERNAL, cs_revision := 15\<rparr>)
       (example_event EV_START_PUBLISH ''n'' 15 None None
          [(''budget_token'', PStr ''PUSH''), (''effect_kind'', PStr ''PUSH''), (''operation_id'', PStr ''o5'')]))
    = Inr (CS_WAITING_EXTERNAL, [EK_PUSH], 3)"
  by code_simp+

end
