(* ===== verification/Path_Scopes.thy ===== *)
theory Path_Scopes
  imports Py_Json "HOL-Library.Sublist"
begin

text \<open>
  Allowed paths: \<open>fnmatch.fnmatchcase\<close> of the Python library, with which the store decides
  whether an actor may write a path, and \<open>normalize_allowed_path\<close>, \<open>_scope_prefix\<close>,
  \<open>scopes_overlap\<close> and \<open>assert_no_scope_overlap\<close> of admission.py, with which it decides
  whether two campaigns may be active on one worktree.  The lemmas relate the two: a path that two
  patterns match makes their scopes overlap, provided the first wildcard of each pattern starts
  a component; \<open>missed_overlap\<close> shows that without the proviso the overlap can be missed.
\<close>

section \<open>\<open>fnmatch.fnmatchcase\<close>\<close>

text \<open>A bracket expression holds ranges of characters; a single character is a range of one.\<close>

datatype glob = GStar | GAny | GClass bool "(char \<times> char) list" | GChar char

text \<open>The position of the bracket that closes an expression, counted after the opening one: a
  leading \<open>!\<close> and then a leading \<open>]\<close> do not close it.\<close>

definition class_end :: "string \<Rightarrow> nat option" where
  "class_end cs =
     (let i = (if take 1 cs = ''!'' then 1 else 0);
          j = (if take 1 (drop i cs) = '']'' then Suc i else i);
          k = length (takeWhile (\<lambda>c. c \<noteq> CHR '']'') (drop j cs))
      in if j + k < length cs then Some (j + k) else None)"

fun class_ranges :: "string \<Rightarrow> (char \<times> char) list" where
  "class_ranges [] = []"
| "class_ranges [a] = [(a, a)]"
| "class_ranges [a, b] = [(a, a), (b, b)]"
| "class_ranges (a # b # c # cs) =
     (if b = CHR ''-'' then (a, c) # class_ranges cs else (a, a) # class_ranges (b # c # cs))"

definition class_of :: "string \<Rightarrow> glob" where
  "class_of s = (if take 1 s = ''!'' then GClass False (class_ranges (drop 1 s)) else GClass True (class_ranges s))"

function glob_parse :: "string \<Rightarrow> glob list" where
  "glob_parse [] = []"
| "glob_parse (c # cs) =
     (if c = CHR ''*'' then GStar # glob_parse cs
      else if c = CHR ''?'' then GAny # glob_parse cs
      else if c = CHR ''['' then
        (case class_end cs of
           None \<Rightarrow> GChar c # glob_parse cs
         | Some n \<Rightarrow> class_of (take n cs) # glob_parse (drop (Suc n) cs))
      else GChar c # glob_parse cs)"
  by pat_completeness auto
termination by (relation "measure length") auto

fun glob_char :: "glob \<Rightarrow> char \<Rightarrow> bool" where
  "glob_char GStar c = True"
| "glob_char GAny c = True"
| "glob_char (GClass positive ranges) c =
     (list_ex (\<lambda>(a, b). (of_char a :: nat) \<le> of_char c \<and> (of_char c :: nat) \<le> of_char b) ranges = positive)"
| "glob_char (GChar d) c = (c = d)"

fun glob_match :: "glob list \<Rightarrow> string \<Rightarrow> bool" where
  "glob_match [] s = (s = [])"
| "glob_match (g # gs) [] = (g = GStar \<and> glob_match gs [])"
| "glob_match (g # gs) (c # cs) =
     (if g = GStar then glob_match gs (c # cs) \<or> glob_match (g # gs) cs
      else glob_char g c \<and> glob_match gs cs)"

definition fnmatchcase :: "string \<Rightarrow> string \<Rightarrow> bool" where
  "fnmatchcase name pattern = glob_match (glob_parse pattern) name"

section \<open>Allowed paths and their scopes\<close>

text \<open>\<open>PurePosixPath(raw).parts\<close> of a relative path.\<close>

definition posix_parts :: "string \<Rightarrow> string list" where
  "posix_parts raw = filter (\<lambda>p. p \<notin> {[], ''.''}) (split_on (CHR ''/'') raw)"

definition is_letter :: "char \<Rightarrow> bool" where
  "is_letter c \<longleftrightarrow> (let n = (of_char c :: nat) in 65 \<le> n \<and> n \<le> 90 \<or> 97 \<le> n \<and> n \<le> 122)"

definition drive_path :: "string \<Rightarrow> bool" where
  "drive_path s = (case s of c # d # _ \<Rightarrow> is_letter c \<and> d = CHR '':'' | _ \<Rightarrow> False)"

definition normalize_allowed_path :: "string \<Rightarrow> string res" where
  "normalize_allowed_path v =
     (let raw = py_strip (replace_char (CHR 0x5C) (CHR ''/'') v);
          parts = posix_parts raw
      in requireAll
        [(raw \<noteq> [] \<and> take 1 raw \<noteq> ''/'' \<and> \<not> drive_path raw,
          AdmissionError (''allowed path must be repository-relative: '' @ repr_str v)),
         (''..'' \<notin> set parts, AdmissionError (''allowed path is not canonical: '' @ repr_str v))]
        (case parts of
           [] \<Rightarrow> Inl (IndexError ''tuple index out of range'')
         | p # ps \<Rightarrow> requireE (casefold p \<noteq> ''.git'')
             (AdmissionError ''.git is never an allowed product path'') (Inr (join ''/'' parts))))"

definition wildcard :: "char \<Rightarrow> bool" where
  "wildcard c \<longleftrightarrow> c \<in> set ''*?[''"

text \<open>The loop of \<open>_scope_prefix\<close> over the components: it ends at the first wildcard.\<close>

fun literal_parts :: "string list \<Rightarrow> string list" where
  "literal_parts [] = []"
| "literal_parts (p # ps) =
     (let literal = takeWhile (\<lambda>c. \<not> wildcard c) p
      in if literal = p then casefold p # literal_parts ps
         else if literal \<noteq> [] then [casefold literal] else [])"

definition scope_prefix :: "string \<Rightarrow> string list res" where
  "scope_prefix v = bindE (normalize_allowed_path v) (\<lambda>n. Inr (literal_parts (posix_parts n)))"

definition prefixes_overlap :: "string list \<Rightarrow> string list \<Rightarrow> bool" where
  "prefixes_overlap a b \<longleftrightarrow> a = [] \<or> b = [] \<or> take (length b) a = b \<or> take (length a) b = a"

definition scopes_overlap :: "string list \<Rightarrow> string list \<Rightarrow> bool res" where
  "scopes_overlap left right =
     anyE (\<lambda>first. bindE (scope_prefix first) (\<lambda>a.
       anyE (\<lambda>second. bindE (scope_prefix second) (\<lambda>b. Inr (prefixes_overlap a b))) right)) left"

text \<open>The same call with a generator on the right, which the first element of the left side
  consumes: later elements on the left meet an empty sequence.\<close>

fun scopes_overlap_generator :: "string list \<Rightarrow> string list \<Rightarrow> bool res" where
  "scopes_overlap_generator [] right = Inr False"
| "scopes_overlap_generator (first # rest) right =
     bindE (scope_prefix first) (\<lambda>a.
     bindE (anyE (\<lambda>second. bindE (scope_prefix second) (\<lambda>b. Inr (prefixes_overlap a b))) right) (\<lambda>found.
     if found then Inr True else bindE (mapE scope_prefix rest) (\<lambda>_. Inr False)))"

definition record_paths :: "pyval \<Rightarrow> string list res" where
  "record_paths r =
     bindE (py_get r ''allowed_paths'' PNone) (\<lambda>raw.
     bindE (case raw of PStr s \<Rightarrow> loads s | _ \<Rightarrow> Inr raw) (\<lambda>paths.
     case paths of
       PList vs \<Rightarrow> Inr (map py_str vs)
     | PTuple vs \<Rightarrow> Inr (map py_str vs)
     | _ \<Rightarrow> Inl (ScopeOverlapError ''active scope record has no valid allowed_paths'')))"

definition assert_no_scope_overlap :: "string list \<Rightarrow> pyval list \<Rightarrow> unit res" where
  "assert_no_scope_overlap proposed active_scopes =
     bindE (mapE normalize_allowed_path proposed) (\<lambda>normalized.
     foldE (\<lambda>r _.
       bindE (record_paths r) (\<lambda>paths.
       bindE (scopes_overlap_generator normalized paths) (\<lambda>overlap.
       bindE (py_get r ''campaign_id'' PNone) (\<lambda>campaign.
       bindE (py_get r ''resource'' PNone) (\<lambda>resource.
       let owner = (if py_truthy campaign then py_str campaign
                    else if py_truthy resource then py_str resource else ''unknown'')
       in requireE (\<not> overlap)
            (ScopeOverlapError (''allowed scope overlaps active campaign/resource: '' @ owner)) (Inr ()))))))
       active_scopes ())"

section \<open>What a match says about the literal part of a pattern\<close>

abbreviation literal_text :: "string \<Rightarrow> string" where
  "literal_text p \<equiv> takeWhile (\<lambda>c. \<not> wildcard c) p"

lemma glob_parse_literal: "\<not> wildcard c \<Longrightarrow> glob_parse (c # cs) = GChar c # glob_parse cs"
  by (auto simp: wildcard_def)

lemma match_literal:
  "glob_match (glob_parse p) s \<Longrightarrow> prefix (literal_text p) s"
proof (induction p arbitrary: s)
  case (Cons c cs)
  show ?case
  proof (cases "wildcard c")
    case False
    then have g: "glob_parse (c # cs) = GChar c # glob_parse cs" by (rule glob_parse_literal)
    from Cons.prems g obtain t where s: "s = c # t" and t: "glob_match (glob_parse cs) t"
      by (cases s) auto
    with Cons.IH [OF t] False show ?thesis by simp
  qed simp
qed simp

lemma match_literal_pattern:
  "glob_match (glob_parse p) s \<Longrightarrow> list_all (\<lambda>c. \<not> wildcard c) p \<Longrightarrow> s = p"
proof (induction p arbitrary: s)
  case (Cons c cs)
  then have g: "glob_parse (c # cs) = GChar c # glob_parse cs" by (intro glob_parse_literal) simp
  from Cons.prems g obtain t where "s = c # t" "glob_match (glob_parse cs) t" by (cases s) auto
  with Cons show ?case by simp
qed simp

text \<open>The first component with a wildcard starts with it.\<close>

fun whole_parts :: "string list \<Rightarrow> bool" where
  "whole_parts [] = True"
| "whole_parts (p # ps) =
     (if list_all (\<lambda>c. \<not> wildcard c) p then whole_parts ps else wildcard (hd p))"

lemma takeWhile_all: "takeWhile P xs = xs \<longleftrightarrow> list_all P xs"
  by (induction xs) auto

lemma split_on_append:
  assumes "d \<notin> set p"
  shows "split_on d (p @ d # r) = p # split_on d r"
  using assms by (induction p) (auto split: list.splits)

lemma split_on_single: "d \<notin> set p \<Longrightarrow> split_on d p = [p]"
  by (induction p) auto

lemma split_on_parts: "p \<in> set (split_on d s) \<Longrightarrow> d \<notin> set p"
  by (induction s arbitrary: p) (auto split: list.splits if_splits)

lemma split_join:
  "ps \<noteq> [] \<Longrightarrow> (\<And>p. p \<in> set ps \<Longrightarrow> d \<notin> set p) \<Longrightarrow> split_on d (join [d] ps) = ps"
proof (induction ps)
  case (Cons p ps)
  then show ?case by (cases ps) (auto simp: split_on_append split_on_single)
qed simp

text \<open>A text that starts with the literal part of a joined pattern has the literal components as
  its first components.\<close>

lemma of_char_fold:
  "(of_char (fold_char c) :: nat) = (let n = of_char c in if 65 \<le> n \<and> n \<le> 90 then n + 32 else n)"
  by (simp add: fold_char_def Let_def)

lemma char_code: "c = d \<longleftrightarrow> (of_char c :: nat) = of_char d"
  by simp

lemma fold_wildcard [simp]: "wildcard (fold_char c) = wildcard c"
proof -
  have "wildcard x \<longleftrightarrow> (of_char x :: nat) \<in> {42, 63, 91}" for x
    by (auto simp: wildcard_def char_code simp del: of_char_eq_iff)
  then show ?thesis by (simp add: of_char_fold Let_def)
qed

lemma fold_slash [simp]: "fold_char c = CHR ''/'' \<longleftrightarrow> c = CHR ''/''"
  unfolding char_code [of _ "CHR ''/''"] by (simp add: of_char_fold Let_def)

lemma casefold_casefold [simp]: "casefold (casefold s) = casefold s"
proof -
  have "fold_char (fold_char c) = fold_char c" for c
    unfolding char_code [of "fold_char (fold_char c)"] by (simp add: of_char_fold Let_def)
  then show ?thesis by (simp add: casefold_def)
qed

lemma casefold_literal: "literal_text (casefold p) = casefold (literal_text p)"
  by (induction p) (auto simp: casefold_def)

lemma casefold_all_literal [simp]:
  "list_all (\<lambda>c. \<not> wildcard c) (casefold p) = list_all (\<lambda>c. \<not> wildcard c) p"
  by (simp add: casefold_def list_all_iff)

lemma casefold_join: "casefold (join [CHR ''/''] ps) = join [CHR ''/''] (map casefold ps)"
proof (induction ps)
  case (Cons p ps)
  then show ?case by (cases ps) (auto simp: casefold_def fold_char_def)
qed (simp add: casefold_def)

lemma slash_casefold [simp]: "CHR ''/'' \<in> set (casefold p) \<longleftrightarrow> CHR ''/'' \<in> set p"
proof -
  have "CHR ''/'' = fold_char c \<longleftrightarrow> c = CHR ''/''" for c using fold_slash [of c] by metis
  then show ?thesis by (simp add: casefold_def image_iff)
qed

lemma casefold_Nil [simp]: "casefold p = [] \<longleftrightarrow> p = []"
  by (simp add: casefold_def)

text \<open>A text that a pattern matches has the literal components of the pattern as its first
  components.\<close>

lemma match_parts:
  assumes "glob_match (glob_parse (join ''/'' ps)) s" and "whole_parts ps"
    and "\<And>p. p \<in> set ps \<Longrightarrow> CHR ''/'' \<notin> set p \<and> p \<noteq> []"
  shows "prefix (takeWhile (list_all (\<lambda>c. \<not> wildcard c)) ps) (split_on (CHR ''/'') s)"
  using assms
proof (induction ps arbitrary: s)
  case Nil
  then show ?case by simp
next
  case (Cons p ps)
  show ?case
  proof (cases "list_all (\<lambda>c. \<not> wildcard c) p")
    case lit: True
    show ?thesis
    proof (cases ps)
      case Nil
      with Cons.prems(1) lit have "s = p" by (auto dest: match_literal_pattern)
      with Nil Cons.prems(3) lit show ?thesis by (simp add: split_on_single)
    next
      case (Cons q qs)
      have lit': "list_all (\<lambda>c. \<not> wildcard c) (p @ ''/'')" using lit by (simp add: wildcard_def)
      have parse: "glob_parse (p @ t) = map GChar p @ glob_parse t" for t
        using lit by (induction p) (simp_all add: glob_parse_literal del: glob_parse.simps(2))
      have "glob_parse (join ''/'' (p # ps)) = map GChar p @ GChar (CHR ''/'') # glob_parse (join ''/'' ps)"
        using Cons by (simp add: parse)
      moreover have "\<exists>t. u = p' @ t \<and> glob_match gs t" if "glob_match (map GChar p' @ gs) u" for p' gs u
        using that
      proof (induction p' arbitrary: u)
        case (Cons c p')
        then show ?case by (cases u) auto
      qed simp
      ultimately obtain t where s: "s = p @ t" and t: "glob_match (GChar (CHR ''/'') # glob_parse (join ''/'' ps)) t"
        using Cons.prems(1) by metis
      then obtain r where r: "t = CHR ''/'' # r" "glob_match (glob_parse (join ''/'' ps)) r" by (cases t) auto
      have "prefix (takeWhile (list_all (\<lambda>c. \<not> wildcard c)) ps) (split_on (CHR ''/'') r)"
        by (rule Cons.IH [OF r(2)]) (use Cons.prems(2,3) lit in auto)
      moreover have "split_on (CHR ''/'') s = p # split_on (CHR ''/'') r"
        using Cons.prems(3) [of p] by (simp add: s r(1) split_on_append)
      ultimately show ?thesis using lit by simp
    qed
  qed simp
qed

lemma literal_parts_whole:
  "whole_parts ps \<Longrightarrow> (\<And>p. p \<in> set ps \<Longrightarrow> p \<noteq> []) \<Longrightarrow>
   literal_parts ps = map casefold (takeWhile (list_all (\<lambda>c. \<not> wildcard c)) ps)"
proof (induction ps)
  case (Cons p ps)
  then have "literal_text p = [] \<longleftrightarrow> wildcard (hd p)" by (cases p) auto
  with Cons show ?case
    by (cases "list_all (\<lambda>c. \<not> wildcard c) p") (auto simp: takeWhile_all Let_def simp del: takeWhile_eq_all_conv)
qed simp

section \<open>Overlap is exact on whole components\<close>

lemma prefixes_overlap_common:
  assumes "prefix a s" "prefix b s"
  shows "prefixes_overlap a b"
proof -
  from assms have "prefix a b \<or> prefix b a" using prefix_same_cases by blast
  then show ?thesis by (auto simp: prefixes_overlap_def prefix_def)
qed

lemma prefixes_overlap_sym: "prefixes_overlap a b = prefixes_overlap b a"
  by (auto simp: prefixes_overlap_def)

text \<open>A pattern in normal form whose first wildcard starts a component.\<close>

definition whole_pattern :: "string \<Rightarrow> bool" where
  "whole_pattern p \<longleftrightarrow> normalize_allowed_path p = Inr p \<and> whole_parts (posix_parts p)"

lemma posix_parts_set: "p \<in> set (posix_parts s) \<Longrightarrow> CHR ''/'' \<notin> set p \<and> p \<noteq> []"
  by (auto simp: posix_parts_def dest: split_on_parts)

lemma whole_pattern_join:
  assumes "whole_pattern p"
  shows "p = join ''/'' (posix_parts p)"
proof -
  let ?raw = "py_strip (replace_char (CHR 0x5C) (CHR ''/'') p)"
  from assms have n: "p = join ''/'' (posix_parts ?raw)" "posix_parts ?raw \<noteq> []"
    by (auto simp: whole_pattern_def normalize_allowed_path_def Let_def res_simps split: list.split_asm)
  have "split_on (CHR ''/'') p = posix_parts ?raw"
    using posix_parts_set by (subst n(1)) (rule split_join [OF n(2)], blast)
  moreover have "filter (\<lambda>p. p \<notin> {[], ''.''}) (posix_parts ?raw) = posix_parts ?raw"
    by (simp add: posix_parts_def)
  ultimately have "posix_parts p = posix_parts ?raw" by (simp add: posix_parts_def)
  with n(1) show ?thesis by simp
qed

lemma scope_prefix_match:
  assumes "whole_pattern p" and "fnmatchcase (casefold s) (casefold p)"
  shows "\<exists>a. scope_prefix p = Inr a \<and> prefix a (split_on (CHR ''/'') (casefold s))"
proof -
  let ?ps = "posix_parts p"
  have whole: "whole_parts ?ps" and norm: "normalize_allowed_path p = Inr p"
    using assms(1) by (simp_all add: whole_pattern_def)
  have ne: "CHR ''/'' \<notin> set q \<and> q \<noteq> []" if "q \<in> set ?ps" for q using that by (rule posix_parts_set)
  have fold: "whole_parts (map casefold ps) = whole_parts ps" if "\<And>q. q \<in> set ps \<Longrightarrow> q \<noteq> []" for ps
    using that
  proof (induction ps)
    case (Cons q qs)
    then show ?case by (cases q) (auto simp: casefold_def list_all_iff)
  qed simp
  have "casefold p = join ''/'' (map casefold ?ps)"
    using whole_pattern_join [OF assms(1)] casefold_join [of ?ps] by simp
  with assms(2) have "glob_match (glob_parse (join ''/'' (map casefold ?ps))) (casefold s)"
    by (simp add: fnmatchcase_def)
  then have "prefix (takeWhile (list_all (\<lambda>c. \<not> wildcard c)) (map casefold ?ps)) (split_on (CHR ''/'') (casefold s))"
    by (rule match_parts) (use ne whole fold in auto)
  moreover have "takeWhile (list_all (\<lambda>c. \<not> wildcard c)) (map casefold ps)
      = map casefold (takeWhile (list_all (\<lambda>c. \<not> wildcard c)) ps)" for ps
    by (induction ps) auto
  moreover have "literal_parts ?ps = map casefold (takeWhile (list_all (\<lambda>c. \<not> wildcard c)) ?ps)"
    using whole ne by (intro literal_parts_whole) auto
  ultimately show ?thesis by (simp add: scope_prefix_def norm)
qed

lemma anyE_True:
  "anyE f xs = Inr b \<Longrightarrow> x \<in> set xs \<Longrightarrow> f x = Inr True \<Longrightarrow> b"
  by (induction xs) (auto simp: bindE_Inr_iff split: if_splits)

lemma shared_path_overlaps:
  assumes "list_all whole_pattern left" "list_all whole_pattern right"
    and "list_ex (\<lambda>p. fnmatchcase (casefold s) (casefold p)) left"
    and "list_ex (\<lambda>p. fnmatchcase (casefold s) (casefold p)) right"
  shows "scopes_overlap left right = Inr True"
proof -
  define sp where "sp p = literal_parts (posix_parts p)" for p
  have sp: "scope_prefix p = Inr (sp p)" if "whole_pattern p" for p
    using that by (simp add: scope_prefix_def whole_pattern_def sp_def)
  have inner: "anyE (\<lambda>second. bindE (scope_prefix second) (\<lambda>b. Inr (prefixes_overlap a b))) right
      = Inr (list_ex (\<lambda>q. prefixes_overlap a (sp q)) right)" for a
    using assms(2) by (intro anyE_Inr) (auto simp: list_all_iff sp)
  have eq: "scopes_overlap left right = Inr (list_ex (\<lambda>p. list_ex (\<lambda>q. prefixes_overlap (sp p) (sp q)) right) left)"
    unfolding scopes_overlap_def using assms(1) by (intro anyE_Inr) (auto simp: list_all_iff sp inner)
  from assms(3,4) obtain p q where p: "p \<in> set left" "fnmatchcase (casefold s) (casefold p)"
    and q: "q \<in> set right" "fnmatchcase (casefold s) (casefold q)" by (auto simp: list_ex_iff)
  have "prefix (sp p) (split_on (CHR ''/'') (casefold s))" "prefix (sp q) (split_on (CHR ''/'') (casefold s))"
    using scope_prefix_match [of p s] scope_prefix_match [of q s] p q assms(1,2) by (auto simp: list_all_iff sp)
  then have "prefixes_overlap (sp p) (sp q)" by (rule prefixes_overlap_common)
  with p(1) q(1) show ?thesis unfolding eq by (auto simp: list_ex_iff)
qed

text \<open>A wildcard inside a component is cut off as if it ended the component, so the overlap with
  a longer name is missed; and the generator loses every proposed path but the first.\<close>

lemma missed_overlap:
  "scopes_overlap [''src/foo*''] [''src/foobar.py''] = Inr False
   \<and> fnmatchcase ''src/foobar.py'' ''src/foo*'' \<and> fnmatchcase ''src/foobar.py'' ''src/foobar.py''"
  by code_simp

lemma missed_second_path:
  "assert_no_scope_overlap [''docs/a'', ''src/b''] [PDict [(''allowed_paths'', PList [PStr ''src/b''])]] = Inr ()
   \<and> scopes_overlap [''docs/a'', ''src/b''] [''src/b''] = Inr True"
  by code_simp

lemma dot_path_raises: "normalize_allowed_path ''.'' = Inl (IndexError ''tuple index out of range'')"
  by code_simp

end
