(* ===== verification/Store_Tables.thy ===== *)
theory Store_Tables
  imports Campaign_State Path_Scopes
begin

text \<open>
  The tables of store.py (\<open>SCHEMA_STATEMENTS\<close>).  A table is the list of its rows in the
  order of insertion, which is the order in which SQLite scans a table that has no matching
  index; a row is a record with the table's columns.  Documents are kept as text, as in the
  source.  Each insertion checks what SQLite checks: that every integer fits in 64 bits (Python
  raises \<open>OverflowError\<close> otherwise), the \<open>CHECK\<close> clauses, the keys and unique indexes,
  and the foreign keys.

  The host gives the functions that consult the file system or the clock; they are the
  parameters of the model.
\<close>

section \<open>The host\<close>

text \<open>\<open>h_normcase p\<close> is \<open>os.path.normcase(str(Path(p).expanduser().resolve(strict=False)))\<close>,
  \<open>h_resolve p\<close> is \<open>str(Path(p).resolve(strict=False))\<close>, \<open>h_expand p\<close> is
  \<open>str(Path(p).expanduser().resolve(strict=False))\<close>, \<open>h_relative root p\<close> is the POSIX form
  of the resolved path of \<open>p\<close> (taken under \<open>root\<close> when relative) relative to the resolved
  \<open>root\<close>, \<open>None\<close> when it is outside, and \<open>h_now\<close> is the current time as ISO text.\<close>

record host =
  h_normcase :: "string \<Rightarrow> string"
  h_resolve :: "string \<Rightarrow> string"
  h_expand :: "string \<Rightarrow> string"
  h_relative :: "string \<Rightarrow> string \<Rightarrow> string option"
  h_now :: string

section \<open>Rows\<close>

record campaign_row =
  cr_campaign_id :: string
  cr_specification_revision :: int
  cr_specification_digest :: string
  cr_spec_json :: string
  cr_snapshot_json :: string
  cr_state :: string
  cr_store_revision :: int
  cr_authority_epoch :: int
  cr_cancellation_epoch :: int

record node_row =
  nr_campaign_id :: string
  nr_node_id :: string
  nr_state :: string
  nr_fencing_epoch :: int
  nr_snapshot_json :: string

record dependency_row =
  dr_campaign_id :: string
  dr_node_id :: string
  dr_depends_on_node_id :: string

record actor_row =
  ar_actor_id :: string
  ar_campaign_id :: string
  ar_node_id :: "string option"
  ar_role :: string
  ar_native_thread_id :: string
  ar_identity_digest :: "string option"
  ar_native_identity_json :: string
  ar_host_pid :: "int option"
  ar_authority_epoch :: int
  ar_can_write :: bool
  ar_bound_request_id :: "string option"
  ar_used :: bool
  ar_actor_json :: string

record lease_row =
  lr_lease_id :: string
  lr_campaign_id :: string
  lr_node_id :: string
  lr_resource_key :: string
  lr_actor_id :: string
  lr_fencing_epoch :: int
  lr_cancellation_epoch :: int
  lr_state :: string
  lr_expires_at :: "string option"
  lr_lease_json :: string

record operation_row =
  or_request_id :: string
  or_campaign_id :: "string option"
  or_kind :: string
  or_payload_digest :: string
  or_status :: string
  or_result_json :: "string option"
  or_created_revision :: "int option"

record outbox_row =
  xr_operation_id :: string
  xr_campaign_id :: string
  xr_node_id :: "string option"
  xr_kind :: string
  xr_state :: string
  xr_payload_json :: string
  xr_payload_digest :: string
  xr_authority_epoch :: int
  xr_cancellation_epoch :: int
  xr_fencing_epoch :: "int option"
  xr_created_revision :: int
  xr_updated_revision :: int
  xr_result_json :: "string option"

record evidence_row =
  er_evidence_id :: string
  er_campaign_id :: string
  er_node_id :: "string option"
  er_kind :: string
  er_digest :: string
  er_candidate_head :: "string option"
  er_payload_json :: string

record review_row =
  rr_review_id :: string
  rr_campaign_id :: string
  rr_node_id :: string
  rr_cohort_digest :: string
  rr_candidate_head :: "string option"
  rr_state :: string
  rr_receipt_json :: "string option"

record finding_row =
  fr_campaign_id :: string
  fr_node_id :: string
  fr_finding_id :: string
  fr_origin :: string
  fr_blocking :: bool
  fr_resolved :: bool
  fr_finding_json :: string

record lock_row =
  kr_resource_key :: string
  kr_fencing_epoch :: int
  kr_lease_id :: "string option"
  kr_campaign_id :: "string option"
  kr_node_id :: "string option"

record event_row =
  vr_event_id :: string
  vr_campaign_id :: string
  vr_revision :: int
  vr_event_type :: string
  vr_payload_digest :: string
  vr_event_json :: string
  vr_telemetry_category :: "string option"

record telemetry_row =
  tr_telemetry_id :: string
  tr_campaign_id :: "string option"
  tr_category :: string
  tr_payload_json :: string

record installation_row =
  ir_installation_id :: string
  ir_source_commit :: string
  ir_bundle_digest :: string
  ir_install_transaction :: string
  ir_protocol_version :: string
  ir_schema_compatibility :: string
  ir_host_capability_probe_version :: string
  ir_installation_json :: string

record archive_row =
  gr_archive_id :: string
  gr_source_path :: string
  gr_digest :: string
  gr_last_state :: string
  gr_classification :: string
  gr_evidence_json :: string
  gr_archive_json :: string

record store =
  db_campaigns :: "campaign_row list"
  db_nodes :: "node_row list"
  db_dependencies :: "dependency_row list"
  db_actors :: "actor_row list"
  db_leases :: "lease_row list"
  db_operations :: "operation_row list"
  db_outbox :: "outbox_row list"
  db_evidence :: "evidence_row list"
  db_reviews :: "review_row list"
  db_findings :: "finding_row list"
  db_locks :: "lock_row list"
  db_events :: "event_row list"
  db_telemetry :: "telemetry_row list"
  db_installations :: "installation_row list"
  db_archives :: "archive_row list"

definition empty_store :: store where
  "empty_store =
     \<lparr>db_campaigns = [], db_nodes = [], db_dependencies = [], db_actors = [], db_leases = [],
      db_operations = [], db_outbox = [], db_evidence = [], db_reviews = [], db_findings = [],
      db_locks = [], db_events = [], db_telemetry = [], db_installations = [], db_archives = []\<rparr>"

section \<open>What SQLite checks\<close>

definition int64 :: "int \<Rightarrow> bool" where
  "int64 i \<longleftrightarrow> - (2 ^ 63) \<le> i \<and> i < 2 ^ 63"

definition bind_ints :: "int list \<Rightarrow> 'a res \<Rightarrow> 'a res" where
  "bind_ints is m =
     requireE (list_all int64 is) (OverflowError ''Python int too large to convert to SQLite INTEGER'') m"

text \<open>A value from a document bound to a \<open>TEXT\<close> column: a number becomes its decimal text by the
  column's affinity, and a container cannot be bound.  \<open>None\<close> is \<open>NULL\<close>.\<close>

definition bind_text :: "pyval \<Rightarrow> string option res" where
  "bind_text v =
     (case v of
        PNone \<Rightarrow> Inr None
      | PStr s \<Rightarrow> Inr (Some s)
      | PBool b \<Rightarrow> Inr (Some (if b then ''1'' else ''0''))
      | PInt i \<Rightarrow> bind_ints [i] (Inr (Some (show_int i)))
      | _ \<Rightarrow> Inl (ProgrammingError ''Error binding parameter: type is not supported''))"

definition opt_list :: "'a option \<Rightarrow> 'a list" where
  "opt_list x = (case x of None \<Rightarrow> [] | Some y \<Rightarrow> [y])"

definition constraint :: "bool \<Rightarrow> string \<Rightarrow> 'a res \<Rightarrow> 'a res" where
  "constraint ok name m = requireE ok (IntegrityError name) m"

definition campaign_exists :: "store \<Rightarrow> string \<Rightarrow> bool" where
  "campaign_exists db c = list_ex (\<lambda>r. cr_campaign_id r = c) (db_campaigns db)"

definition node_exists :: "store \<Rightarrow> string \<Rightarrow> string \<Rightarrow> bool" where
  "node_exists db c n = list_ex (\<lambda>r. nr_campaign_id r = c \<and> nr_node_id r = n) (db_nodes db)"

definition actor_exists :: "store \<Rightarrow> string \<Rightarrow> bool" where
  "actor_exists db a = list_ex (\<lambda>r. ar_actor_id r = a) (db_actors db)"

definition insert_campaign_row :: "campaign_row \<Rightarrow> store \<Rightarrow> store res" where
  "insert_campaign_row r db =
     bind_ints [cr_specification_revision r, cr_store_revision r, cr_authority_epoch r, cr_cancellation_epoch r]
    (constraint (0 \<le> cr_store_revision r \<and> 0 \<le> cr_authority_epoch r \<and> 0 \<le> cr_cancellation_epoch r)
       ''CHECK constraint failed: campaigns''
    (constraint (\<not> campaign_exists db (cr_campaign_id r)) ''UNIQUE constraint failed: campaigns.campaign_id''
       (Inr (db\<lparr>db_campaigns := db_campaigns db @ [r]\<rparr>))))"

text \<open>\<open>INSERT INTO nodes ... ON CONFLICT(campaign_id, node_id) DO UPDATE\<close>\<close>

definition upsert_node_row :: "node_row \<Rightarrow> store \<Rightarrow> store res" where
  "upsert_node_row r db =
     bind_ints [nr_fencing_epoch r]
    (constraint (0 \<le> nr_fencing_epoch r) ''CHECK constraint failed: nodes''
    (if node_exists db (nr_campaign_id r) (nr_node_id r)
     then Inr (db\<lparr>db_nodes := map (\<lambda>q. if nr_campaign_id q = nr_campaign_id r \<and> nr_node_id q = nr_node_id r
                                     then r else q) (db_nodes db)\<rparr>)
     else constraint (campaign_exists db (nr_campaign_id r)) ''FOREIGN KEY constraint failed''
            (Inr (db\<lparr>db_nodes := db_nodes db @ [r]\<rparr>))))"

definition insert_dependency_row :: "dependency_row \<Rightarrow> store \<Rightarrow> store res" where
  "insert_dependency_row r db =
     constraint (r \<notin> set (db_dependencies db)) ''UNIQUE constraint failed: dependencies''
    (constraint (node_exists db (dr_campaign_id r) (dr_node_id r)
          \<and> node_exists db (dr_campaign_id r) (dr_depends_on_node_id r)) ''FOREIGN KEY constraint failed''
       (Inr (db\<lparr>db_dependencies := db_dependencies db @ [r]\<rparr>)))"

text \<open>The unique index \<open>actors_native_thread_once\<close> holds for bound threads only.\<close>

definition thread_free :: "store \<Rightarrow> string \<Rightarrow> string \<Rightarrow> bool" where
  "thread_free db a thread \<longleftrightarrow> thread = ''UNBOUND''
     \<or> \<not> list_ex (\<lambda>q. ar_actor_id q \<noteq> a \<and> ar_native_thread_id q = thread) (db_actors db)"

definition insert_actor_row :: "actor_row \<Rightarrow> store \<Rightarrow> store res" where
  "insert_actor_row r db =
     bind_ints (ar_authority_epoch r # opt_list (ar_host_pid r))
    (constraint (\<not> actor_exists db (ar_actor_id r)) ''UNIQUE constraint failed: actors.actor_id''
    (constraint (thread_free db (ar_actor_id r) (ar_native_thread_id r))
       ''UNIQUE constraint failed: actors.native_thread_id''
    (constraint (campaign_exists db (ar_campaign_id r)) ''FOREIGN KEY constraint failed''
       (Inr (db\<lparr>db_actors := db_actors db @ [r]\<rparr>)))))"

text \<open>The unique index \<open>one_active_lease_per_resource\<close>.\<close>

definition insert_lease_row :: "lease_row \<Rightarrow> store \<Rightarrow> store res" where
  "insert_lease_row r db =
     bind_ints [lr_fencing_epoch r, lr_cancellation_epoch r]
    (constraint (0 \<le> lr_fencing_epoch r \<and> 0 \<le> lr_cancellation_epoch r) ''CHECK constraint failed: leases''
    (constraint (\<not> list_ex (\<lambda>q. lr_lease_id q = lr_lease_id r) (db_leases db))
       ''UNIQUE constraint failed: leases.lease_id''
    (constraint (lr_state r = ''ACTIVE'' \<longrightarrow>
          \<not> list_ex (\<lambda>q. lr_resource_key q = lr_resource_key r \<and> lr_state q = ''ACTIVE'') (db_leases db))
       ''UNIQUE constraint failed: leases.resource_key''
    (constraint (node_exists db (lr_campaign_id r) (lr_node_id r) \<and> actor_exists db (lr_actor_id r))
       ''FOREIGN KEY constraint failed''
       (Inr (db\<lparr>db_leases := db_leases db @ [r]\<rparr>))))))"

definition insert_operation_row :: "operation_row \<Rightarrow> store \<Rightarrow> store res" where
  "insert_operation_row r db =
     bind_ints (opt_list (or_created_revision r))
    (constraint (\<not> list_ex (\<lambda>q. or_request_id q = or_request_id r) (db_operations db))
       ''UNIQUE constraint failed: operations.request_id''
       (Inr (db\<lparr>db_operations := db_operations db @ [r]\<rparr>)))"

definition insert_outbox_row :: "outbox_row \<Rightarrow> store \<Rightarrow> store res" where
  "insert_outbox_row r db =
     bind_ints ([xr_authority_epoch r, xr_cancellation_epoch r, xr_created_revision r, xr_updated_revision r]
        @ opt_list (xr_fencing_epoch r))
    (constraint (\<not> list_ex (\<lambda>q. xr_operation_id q = xr_operation_id r) (db_outbox db))
       ''UNIQUE constraint failed: external_effect_outbox.operation_id''
    (constraint (campaign_exists db (xr_campaign_id r)) ''FOREIGN KEY constraint failed''
       (Inr (db\<lparr>db_outbox := db_outbox db @ [r]\<rparr>))))"

definition insert_evidence_row :: "evidence_row \<Rightarrow> store \<Rightarrow> store res" where
  "insert_evidence_row r db =
     constraint (\<not> list_ex (\<lambda>q. er_evidence_id q = er_evidence_id r) (db_evidence db))
       ''UNIQUE constraint failed: evidence.evidence_id''
    (constraint (campaign_exists db (er_campaign_id r)) ''FOREIGN KEY constraint failed''
       (Inr (db\<lparr>db_evidence := db_evidence db @ [r]\<rparr>)))"

definition insert_review_row :: "review_row \<Rightarrow> store \<Rightarrow> store res" where
  "insert_review_row r db =
     constraint (\<not> list_ex (\<lambda>q. rr_review_id q = rr_review_id r) (db_reviews db))
       ''UNIQUE constraint failed: reviews.review_id''
    (constraint (node_exists db (rr_campaign_id r) (rr_node_id r)) ''FOREIGN KEY constraint failed''
       (Inr (db\<lparr>db_reviews := db_reviews db @ [r]\<rparr>)))"

definition insert_finding_row :: "finding_row \<Rightarrow> store \<Rightarrow> store res" where
  "insert_finding_row r db =
     constraint (\<not> list_ex (\<lambda>q. fr_campaign_id q = fr_campaign_id r \<and> fr_node_id q = fr_node_id r
          \<and> fr_finding_id q = fr_finding_id r \<and> fr_origin q = fr_origin r) (db_findings db))
       ''UNIQUE constraint failed: findings''
    (constraint (node_exists db (fr_campaign_id r) (fr_node_id r)) ''FOREIGN KEY constraint failed''
       (Inr (db\<lparr>db_findings := db_findings db @ [r]\<rparr>)))"

text \<open>\<open>INSERT INTO resource_locks ... ON CONFLICT(resource_key) DO UPDATE\<close>\<close>

definition upsert_lock_row :: "lock_row \<Rightarrow> store \<Rightarrow> store res" where
  "upsert_lock_row r db =
     bind_ints [kr_fencing_epoch r]
    (constraint (0 \<le> kr_fencing_epoch r) ''CHECK constraint failed: resource_locks''
    (Inr (if list_ex (\<lambda>q. kr_resource_key q = kr_resource_key r) (db_locks db)
          then db\<lparr>db_locks := map (\<lambda>q. if kr_resource_key q = kr_resource_key r then r else q) (db_locks db)\<rparr>
          else db\<lparr>db_locks := db_locks db @ [r]\<rparr>)))"

definition insert_event_row :: "event_row \<Rightarrow> store \<Rightarrow> store res" where
  "insert_event_row r db =
     bind_ints [vr_revision r]
    (constraint (\<not> list_ex (\<lambda>q. vr_event_id q = vr_event_id r) (db_events db))
       ''UNIQUE constraint failed: events.event_id''
    (constraint (\<not> list_ex (\<lambda>q. vr_campaign_id q = vr_campaign_id r \<and> vr_revision q = vr_revision r) (db_events db))
       ''UNIQUE constraint failed: events.campaign_id, events.revision''
    (constraint (campaign_exists db (vr_campaign_id r)) ''FOREIGN KEY constraint failed''
       (Inr (db\<lparr>db_events := db_events db @ [r]\<rparr>)))))"

text \<open>\<open>INSERT OR IGNORE INTO telemetry\<close>, and the plain insertion.\<close>

definition telemetry_exists :: "store \<Rightarrow> string \<Rightarrow> bool" where
  "telemetry_exists db i = list_ex (\<lambda>q. tr_telemetry_id q = i) (db_telemetry db)"

definition add_telemetry_row :: "telemetry_row \<Rightarrow> store \<Rightarrow> store" where
  "add_telemetry_row r db =
     (if telemetry_exists db (tr_telemetry_id r) then db else db\<lparr>db_telemetry := db_telemetry db @ [r]\<rparr>)"

definition insert_telemetry_row :: "telemetry_row \<Rightarrow> store \<Rightarrow> store res" where
  "insert_telemetry_row r db =
     constraint (\<not> telemetry_exists db (tr_telemetry_id r)) ''UNIQUE constraint failed: telemetry.telemetry_id''
       (Inr (db\<lparr>db_telemetry := db_telemetry db @ [r]\<rparr>))"

lemmas insert_defs = insert_campaign_row_def upsert_node_row_def insert_dependency_row_def
  insert_actor_row_def insert_lease_row_def insert_operation_row_def insert_outbox_row_def
  insert_evidence_row_def insert_review_row_def insert_finding_row_def upsert_lock_row_def
  insert_event_row_def insert_telemetry_row_def

lemma bind_ints_Inr [res_simps]: "bind_ints is m = Inr y \<longleftrightarrow> list_all int64 is \<and> m = Inr y"
  by (simp add: bind_ints_def requireE_Inr_iff)

lemma constraint_Inr [res_simps]: "constraint ok name m = Inr y \<longleftrightarrow> ok \<and> m = Inr y"
  by (simp add: constraint_def requireE_Inr_iff)

section \<open>Transactions\<close>

text \<open>\<open>BEGIN IMMEDIATE\<close>, the body, \<open>commit\<close>, and \<open>rollback\<close> when the body raises: SQLite
  restores the state before the transaction.\<close>

definition transaction :: "(store \<Rightarrow> ('a \<times> store) res) \<Rightarrow> store \<Rightarrow> 'a res \<times> store" where
  "transaction body db =
     (case body db of Inl err \<Rightarrow> (Inl err, db) | Inr (x, db') \<Rightarrow> (Inr x, db'))"

end
