(* ===== verification/Store_Core.thy ===== *)
theory Store_Core
  imports Store_Tables Reducer
begin

text \<open>
  The transition path of \<open>CampaignStore\<close>: reading a snapshot back, the table of operations that
  makes requests idempotent, the mirror of a snapshot in the tables, the creation of a campaign,
  and the application of one event inside one transaction.  An operation takes the store and
  returns its result together with the store after it; a body of a transaction raises without
  returning a store, and \<open>transaction\<close> then keeps the old one.
\<close>

section \<open>Reading a snapshot\<close>

definition find_campaign :: "store \<Rightarrow> string \<Rightarrow> campaign_row option" where
  "find_campaign db c = find (\<lambda>r. cr_campaign_id r = c) (db_campaigns db)"

definition load_snapshot :: "host \<Rightarrow> store \<Rightarrow> string \<Rightarrow> campaign_snapshot res" where
  "load_snapshot h db c =
     (case find_campaign db c of
        None \<Rightarrow> Inl (StoreError (''unknown campaign: '' @ c))
      | Some r \<Rightarrow> bindE (loads (cr_snapshot_json r)) (snapshot_from_dict (h_normcase h)))"

definition get_snapshot :: "host \<Rightarrow> store \<Rightarrow> string \<Rightarrow> campaign_snapshot res" where
  "get_snapshot h db c = load_snapshot h db c"

definition list_campaigns :: "host \<Rightarrow> string option \<Rightarrow> store \<Rightarrow> campaign_snapshot list res" where
  "list_campaigns h repository_root db =
     bindE (mapE (\<lambda>r. bindE (loads (cr_snapshot_json r)) (snapshot_from_dict (h_normcase h)))
       (sort_key cr_campaign_id (db_campaigns db))) (\<lambda>snapshots.
     case repository_root of
       None \<Rightarrow> Inr snapshots
     | Some root \<Rightarrow>
         let requested = casefold (h_expand h root)
         in Inr (filter (\<lambda>s. requested \<in> {casefold (h_expand h (sp_git_root (cs_spec s))),
                                           casefold (h_expand h (sp_worktree (cs_spec s)))}) snapshots))"

section \<open>Operations\<close>

definition find_operation :: "store \<Rightarrow> string \<Rightarrow> operation_row option" where
  "find_operation db i = find (\<lambda>r. or_request_id r = i) (db_operations db)"

definition operation_result :: "store \<Rightarrow> string \<Rightarrow> string \<Rightarrow> pyval option res" where
  "operation_result db request_id digest =
     (case find_operation db request_id of
        None \<Rightarrow> Inr None
      | Some r \<Rightarrow>
          requireE (or_payload_digest r = digest)
            (RequestConflict ''request identifier is already bound to a different payload digest'')
         (case or_result_json r of
            Some text \<Rightarrow>
              requireE (or_status r = ''CONFIRMED'') (StoreError (''request is already in state '' @ or_status r))
                (bindE (loads text) (\<lambda>v. Inr (Some v)))
          | None \<Rightarrow> Inl (StoreError (''request is already in state '' @ or_status r))))"

definition begin_operation ::
  "string \<Rightarrow> string option \<Rightarrow> string \<Rightarrow> string \<Rightarrow> int option \<Rightarrow> store \<Rightarrow> store res" where
  "begin_operation request_id campaign_id kind digest revision db =
     insert_operation_row
       \<lparr>or_request_id = request_id, or_campaign_id = campaign_id, or_kind = kind,
        or_payload_digest = digest, or_status = ''EXECUTING'', or_result_json = None,
        or_created_revision = revision\<rparr> db"

definition finish_operation :: "string \<Rightarrow> pyval \<Rightarrow> store \<Rightarrow> store" where
  "finish_operation request_id result db =
     db\<lparr>db_operations := map (\<lambda>r. if or_request_id r = request_id
          then r\<lparr>or_status := ''CONFIRMED'', or_result_json := Some (canonical_json result)\<rparr> else r)
        (db_operations db)\<rparr>"

section \<open>The mirror of a snapshot\<close>

definition mirror_node :: "string \<Rightarrow> node_snapshot \<Rightarrow> node_row" where
  "mirror_node c n =
     \<lparr>nr_campaign_id = c, nr_node_id = ns_node_id n, nr_state = node_state_value (ns_state n),
      nr_fencing_epoch = ns_fencing_epoch n, nr_snapshot_json = canonical_json (node_to_dict n)\<rparr>"

definition mirror_finding :: "string \<Rightarrow> node_snapshot \<Rightarrow> finding \<Rightarrow> finding_row" where
  "mirror_finding c n f =
     \<lparr>fr_campaign_id = c, fr_node_id = ns_node_id n, fr_finding_id = fi_finding_id f,
      fr_origin = finding_origin_value (fi_origin f), fr_blocking = fi_blocking f,
      fr_resolved = (fi_finding_id f \<in> set (ns_resolved_finding_ids n)),
      fr_finding_json = canonical_json (finding_to_dict f)\<rparr>"

definition sync_snapshot :: "campaign_snapshot \<Rightarrow> store \<Rightarrow> store res" where
  "sync_snapshot s db =
     (let c = sp_campaign_id (cs_spec s)
      in bindE (foldE (\<lambda>n. upsert_node_row (mirror_node c n)) (cs_nodes s) db) (\<lambda>db1.
         let db2 = db1\<lparr>db_findings := filter (\<lambda>r. fr_campaign_id r \<noteq> c) (db_findings db1)\<rparr>
         in foldE (\<lambda>n. foldE (\<lambda>f. insert_finding_row (mirror_finding c n f))
              (ns_findings n @ ns_closure_findings n)) (cs_nodes s) db2))"

definition telemetry_category :: "campaign_snapshot \<Rightarrow> string option" where
  "telemetry_category s =
     (if cs_state s = CS_COMPLETED then Some ''completed''
      else if cs_state s = CS_FAILED then Some ''failed''
      else if cs_state s = CS_CANCELLED then Some ''stopped''
      else None)"

section \<open>Creation\<close>

text \<open>An argument that may be an object or its document.\<close>

definition given :: "(pyval \<Rightarrow> 'a res) \<Rightarrow> pyval + 'a \<Rightarrow> 'a res" where
  "given dec x = (case x of Inl v \<Rightarrow> dec v | Inr a \<Rightarrow> Inr a)"

definition or_else :: "string option \<Rightarrow> string \<Rightarrow> string" where
  "or_else x y = (case x of Some (c # cs) \<Rightarrow> c # cs | _ \<Rightarrow> y)"

definition snapshot_result :: "campaign_snapshot \<Rightarrow> effect_intent list \<Rightarrow> pyval" where
  "snapshot_result s effects =
     PDict [(''snapshot'', snapshot_to_dict s), (''effects'', PList (map effect_to_dict effects))]"

definition campaign_row_of :: "campaign_snapshot \<Rightarrow> campaign_row" where
  "campaign_row_of s =
     \<lparr>cr_campaign_id = sp_campaign_id (cs_spec s),
      cr_specification_revision = sp_specification_revision (cs_spec s),
      cr_specification_digest = sp_specification_digest (cs_spec s),
      cr_spec_json = canonical_json (campaign_spec_to_dict (cs_spec s)),
      cr_snapshot_json = canonical_json (snapshot_to_dict s),
      cr_state = campaign_state_value (cs_state s),
      cr_store_revision = cs_revision s, cr_authority_epoch = cs_authority_epoch s,
      cr_cancellation_epoch = cs_cancellation_epoch s\<rparr>"

definition terminal_state_values :: "string set" where
  "terminal_state_values = {''COMPLETED'', ''FAILED'', ''CANCELLED''}"

text \<open>One round of the loop over the campaigns that are not over.\<close>

definition check_active_scope :: "host \<Rightarrow> campaign_spec \<Rightarrow> campaign_row \<Rightarrow> unit res" where
  "check_active_scope h spec r =
     bindE (bindE (loads (cr_spec_json r)) (campaign_spec_from_dict (h_normcase h) True)) (\<lambda>active.
     if casefold (h_resolve h (sp_worktree active)) \<noteq> casefold (h_resolve h (sp_worktree spec)) then Inr ()
     else bindE (scopes_overlap (sp_allowed_paths spec) (sp_allowed_paths active)) (\<lambda>overlap.
       requireE (\<not> overlap)
         (ScopeOverlapError (''allowed scope overlaps active campaign/resource: '' @ cr_campaign_id r))
         (Inr ())))"

definition create_existing ::
  "host \<Rightarrow> campaign_spec \<Rightarrow> campaign_snapshot \<Rightarrow> string \<Rightarrow> string \<Rightarrow> campaign_row \<Rightarrow> store
    \<Rightarrow> (campaign_snapshot \<times> store) res" where
  "create_existing h spec snapshot request_id digest r db =
     requireE (cr_specification_digest r = sp_specification_digest spec)
       (StoreError ''campaign identifier already owns another specification'')
    (bindE (loads (cr_snapshot_json r)) (\<lambda>v.
     bindE (begin_operation request_id (Some (sp_campaign_id spec)) ''CREATE_CAMPAIGN'' digest
        (Some (cs_revision snapshot)) db) (\<lambda>db1.
     let db2 = finish_operation request_id (PDict [(''snapshot'', v), (''effects'', PList [])]) db1
     in bindE (snapshot_from_dict (h_normcase h) v) (\<lambda>s. Inr (s, db2)))))"

definition create_fresh ::
  "host \<Rightarrow> campaign_spec \<Rightarrow> campaign_snapshot \<Rightarrow> string \<Rightarrow> string \<Rightarrow> store \<Rightarrow> (campaign_snapshot \<times> store) res" where
  "create_fresh h spec snapshot request_id digest db =
     bindE (mapE (check_active_scope h spec)
       (filter (\<lambda>r. cr_state r \<notin> terminal_state_values) (db_campaigns db))) (\<lambda>_.
     bindE (begin_operation request_id (Some (sp_campaign_id spec)) ''CREATE_CAMPAIGN'' digest (Some 0) db) (\<lambda>db1.
     bindE (insert_campaign_row (campaign_row_of snapshot) db1) (\<lambda>db2.
     bindE (sync_snapshot snapshot db2) (\<lambda>db3.
     bindE (foldE (\<lambda>node. foldE (\<lambda>dependency. insert_dependency_row
         \<lparr>dr_campaign_id = sp_campaign_id spec, dr_node_id = nd_node_id node,
          dr_depends_on_node_id = dependency\<rparr>) (nd_dependencies node)) (sp_nodes spec) db3) (\<lambda>db4.
     Inr (snapshot, finish_operation request_id (snapshot_result snapshot []) db4))))))"

definition create_tx ::
  "host \<Rightarrow> campaign_spec \<Rightarrow> campaign_snapshot \<Rightarrow> string \<Rightarrow> string \<Rightarrow> store \<Rightarrow> (campaign_snapshot \<times> store) res" where
  "create_tx h spec snapshot request_id digest db =
     bindE (operation_result db request_id digest) (\<lambda>prior.
     case prior of
       Some v \<Rightarrow> bindE (bindE (py_item v ''snapshot'') (snapshot_from_dict (h_normcase h))) (\<lambda>s. Inr (s, db))
     | None \<Rightarrow>
         (case find_campaign db (sp_campaign_id spec) of
            Some r \<Rightarrow> create_existing h spec snapshot request_id digest r db
          | None \<Rightarrow> create_fresh h spec snapshot request_id digest db))"

definition create_campaign ::
  "host \<Rightarrow> pyval + campaign_spec \<Rightarrow> string option \<Rightarrow> string option \<Rightarrow> store \<Rightarrow> campaign_snapshot res \<times> store" where
  "create_campaign h spec_arg request_id_arg digest_arg db =
     (case bindE (given (campaign_spec_from_dict (h_normcase h) True) spec_arg) (\<lambda>spec.
           bindE (verify_digest spec) (\<lambda>_.
           bindE (snapshot_initial spec) (\<lambda>snapshot.
           let request_id = or_else request_id_arg
                 (''create:'' @ sp_campaign_id spec @ '':'' @ sp_specification_digest spec);
               computed = canonical_json_digest (campaign_spec_to_dict spec)
           in requireE (digest_arg \<in> {None, Some computed})
                (RequestConflict ''declared payload digest differs from campaign specification'')
                (Inr (spec, snapshot, request_id, computed))))) of
        Inl err \<Rightarrow> (Inl err, db)
      | Inr (spec, snapshot, request_id, computed) \<Rightarrow>
          transaction (create_tx h spec snapshot request_id computed) db)"

section \<open>Persisting a transition\<close>

definition insert_effect :: "effect_intent \<Rightarrow> int \<Rightarrow> store \<Rightarrow> store res" where
  "insert_effect intent revision db =
     (let digest = canonical_json_digest (ef_payload intent)
      in case find (\<lambda>r. xr_operation_id r = ef_operation_id intent) (db_outbox db) of
           Some r \<Rightarrow>
             requireE (xr_payload_digest r = digest \<and> xr_kind r = effect_kind_value (ef_kind intent))
               (RequestConflict ''effect operation identity was rebound'') (Inr db)
         | None \<Rightarrow> insert_outbox_row
             \<lparr>xr_operation_id = ef_operation_id intent, xr_campaign_id = ef_campaign_id intent,
              xr_node_id = ef_node_id intent, xr_kind = effect_kind_value (ef_kind intent),
              xr_state = effect_state_value (ef_state intent),
              xr_payload_json = canonical_json (ef_payload intent), xr_payload_digest = digest,
              xr_authority_epoch = ef_authority_epoch intent,
              xr_cancellation_epoch = ef_cancellation_epoch intent,
              xr_fencing_epoch = ef_fencing_epoch intent, xr_created_revision = revision,
              xr_updated_revision = revision, xr_result_json = None\<rparr> db)"

text \<open>\<open>UPDATE leases SET state='INVALIDATED'\<close> and \<open>UPDATE resource_locks SET lease_id=NULL\<close>\<close>

definition invalidate_leases :: "string \<Rightarrow> store \<Rightarrow> store" where
  "invalidate_leases c db =
     db\<lparr>db_leases := map (\<lambda>l. if lr_campaign_id l = c \<and> lr_state l = ''ACTIVE''
                             then l\<lparr>lr_state := ''INVALIDATED''\<rparr> else l) (db_leases db),
        db_locks := map (\<lambda>k. if kr_campaign_id k = Some c then k\<lparr>kr_lease_id := None\<rparr> else k) (db_locks db)\<rparr>"

text \<open>The effects of a cancelled campaign: those not started are cancelled, those in flight are
  ambiguous.\<close>

definition stop_effects :: "string \<Rightarrow> int \<Rightarrow> store \<Rightarrow> store" where
  "stop_effects c revision db =
     db\<lparr>db_outbox := map (\<lambda>x.
          if xr_campaign_id x = c \<and> xr_state x = ''PREPARED''
          then x\<lparr>xr_state := ''CANCELLED'', xr_updated_revision := revision\<rparr>
          else if xr_campaign_id x = c \<and> xr_state x = ''EXECUTING''
          then x\<lparr>xr_state := ''AMBIGUOUS'', xr_updated_revision := revision\<rparr> else x) (db_outbox db)\<rparr>"

definition record_dispatched_review :: "campaign_snapshot \<Rightarrow> event \<Rightarrow> store \<Rightarrow> store res" where
  "record_dispatched_review next e db =
     (if ev_event_type e \<noteq> EV_START_REVIEW then Inr db
      else bindE (payload_str e ''review_id'' (ev_event_id e)) (\<lambda>review_id.
        bindE (get_tuple (ev_payload e) ''review_cohort'') (\<lambda>cohort.
        let node_id = py_str (py_opt_str (ev_node_id e))
        in bindE (snapshot_node next node_id) (\<lambda>n.
           case ev_node_id e of
             None \<Rightarrow> Inl (IntegrityError ''NOT NULL constraint failed: reviews.node_id'')
           | Some i \<Rightarrow> insert_review_row
               \<lparr>rr_review_id = review_id, rr_campaign_id = ev_campaign_id e, rr_node_id = i,
                rr_cohort_digest = canonical_json_digest (PTuple cohort),
                rr_candidate_head = ns_candidate_head n, rr_state = ''DISPATCHED'',
                rr_receipt_json = None\<rparr> db))))"

definition update_campaign_row :: "campaign_snapshot \<Rightarrow> campaign_row \<Rightarrow> campaign_row" where
  "update_campaign_row next r =
     r\<lparr>cr_snapshot_json := canonical_json (snapshot_to_dict next),
       cr_state := campaign_state_value (cs_state next), cr_store_revision := cs_revision next,
       cr_authority_epoch := cs_authority_epoch next,
       cr_cancellation_epoch := cs_cancellation_epoch next\<rparr>"

text \<open>\<open>UPDATE campaigns ... WHERE campaign_id=? AND store_revision=?\<close>, with its row count.\<close>

definition swap_campaign :: "event \<Rightarrow> campaign_snapshot \<Rightarrow> store \<Rightarrow> store res" where
  "swap_campaign e next db =
     (let hit = (\<lambda>r. cr_campaign_id r = ev_campaign_id e \<and> cr_store_revision r = ev_expected_revision e)
      in bind_ints [cs_revision next, cs_authority_epoch next, cs_cancellation_epoch next, ev_expected_revision e]
        (requireE (list_ex hit (db_campaigns db)) (RevisionConflict ''compare-and-swap revision update failed'')
        (constraint (0 \<le> cs_revision next \<and> 0 \<le> cs_authority_epoch next \<and> 0 \<le> cs_cancellation_epoch next)
           ''CHECK constraint failed: campaigns''
           (Inr (db\<lparr>db_campaigns := map (\<lambda>r. if hit r then update_campaign_row next r else r) (db_campaigns db)\<rparr>)))))"

definition persist_transition ::
  "event \<Rightarrow> campaign_snapshot \<Rightarrow> effect_intent list \<Rightarrow> string \<Rightarrow> store \<Rightarrow> store res" where
  "persist_transition e next effects digest db =
     bindE (swap_campaign e next db) (\<lambda>db1.
     bindE (sync_snapshot next db1) (\<lambda>db2.
     let category = telemetry_category next
     in bindE (insert_event_row
          \<lparr>vr_event_id = ev_event_id e, vr_campaign_id = ev_campaign_id e, vr_revision = cs_revision next,
           vr_event_type = event_type_value (ev_event_type e), vr_payload_digest = digest,
           vr_event_json = canonical_json (event_to_dict e), vr_telemetry_category = category\<rparr> db2) (\<lambda>db3.
        let db4 = (case category of
              None \<Rightarrow> db3
            | Some name \<Rightarrow> add_telemetry_row
                \<lparr>tr_telemetry_id = ev_event_id e @ '':'' @ name, tr_campaign_id = Some (ev_campaign_id e),
                 tr_category = name,
                 tr_payload_json = canonical_json (PDict [(''revision'', PInt (cs_revision next))])\<rparr> db3)
        in bindE (foldE (\<lambda>intent db. if ef_external intent then insert_effect intent (cs_revision next) db
             else Inr db) effects db4) (\<lambda>db5.
           bindE (record_dispatched_review next e db5) (\<lambda>db6.
           Inr (if ev_event_type e = EV_CANCEL
                then stop_effects (ev_campaign_id e) (cs_revision next) (invalidate_leases (ev_campaign_id e) db6)
                else if cs_state next = CS_FAILED then invalidate_leases (ev_campaign_id e) db6
                else db6))))))"

section \<open>Applying one event\<close>

definition find_evidence :: "store \<Rightarrow> string \<Rightarrow> evidence_row option" where
  "find_evidence db i = find (\<lambda>r. er_evidence_id r = i) (db_evidence db)"

text \<open>\<open>WHERE evidence_id=?\<close> with a value from a document; \<open>NULL\<close> matches no row.\<close>

definition select_evidence :: "store \<Rightarrow> pyval \<Rightarrow> evidence_row option res" where
  "select_evidence db v =
     bindE (bind_text v) (\<lambda>key. Inr (case key of None \<Rightarrow> None | Some i \<Rightarrow> find_evidence db i))"

definition check_correction_evidence :: "store \<Rightarrow> event \<Rightarrow> unit res" where
  "check_correction_evidence db e =
     (if ev_event_type e \<noteq> EV_REQUEST_VALIDATION_CORRECTION then Inr ()
      else bindE (py_get (ev_payload e) ''correction'' (PDict [])) (\<lambda>correction.
        let get = (\<lambda>k. py_get correction k PNone);
            denied = AuthorityError ''validation correction requires exact persisted failed command evidence''
        in bindE (bindE (get ''evidence_id'') (select_evidence db)) (\<lambda>row.
           case row of
             None \<Rightarrow> Inl denied
           | Some r \<Rightarrow>
               requireE (er_campaign_id r = ev_campaign_id e \<and> er_node_id r = ev_node_id e
                   \<and> er_kind r = evidence_kind_value VK_VALIDATION) denied
              (bindE (get ''evidence_digest'') (\<lambda>digest.
               requireE (py_eq (PStr (er_digest r)) digest) denied
              (bindE (get ''candidate_head'') (\<lambda>head.
               requireE (py_eq (py_opt_str (er_candidate_head r)) head) denied
              (bindE (py_get correction ''failure_evidence'' (PDict [])) (\<lambda>failure.
               requireE (er_payload_json r = canonical_json failure) denied (Inr ()))))))))))"

definition apply_fresh ::
  "host \<Rightarrow> event \<Rightarrow> string \<Rightarrow> store \<Rightarrow> (reduction \<times> store) res" where
  "apply_fresh h e digest db =
     bindE (load_snapshot h db (ev_campaign_id e)) (\<lambda>snapshot.
     bindE (check_correction_evidence db e) (\<lambda>_.
     bindE (begin_operation (ev_event_id e) (Some (ev_campaign_id e)) (event_type_value (ev_event_type e))
        digest (Some (ev_expected_revision e)) db) (\<lambda>db1.
     bindE (reduce_event snapshot e) (\<lambda>(next, effects).
     bindE (persist_transition e next effects digest db1) (\<lambda>db2.
     Inr ((next, effects), finish_operation (ev_event_id e) (snapshot_result next effects) db2))))))"

definition apply_event_tx ::
  "host \<Rightarrow> event \<Rightarrow> string option \<Rightarrow> store \<Rightarrow> (reduction \<times> store) res" where
  "apply_event_tx h e operation_digest db =
     (let digest = or_else operation_digest (canonical_json_digest (event_to_dict e))
      in bindE (operation_result db (ev_event_id e) digest) (\<lambda>prior.
         case prior of
           Some v \<Rightarrow>
             bindE (bindE (py_item v ''snapshot'') (snapshot_from_dict (h_normcase h))) (\<lambda>s.
             bindE (item_list effect_from_dict v ''effects'') (\<lambda>effects. Inr ((s, effects), db)))
         | None \<Rightarrow> apply_fresh h e digest db))"

definition rejection_category :: "error \<Rightarrow> string" where
  "rejection_category err =
     (case err of
        TransitionError m \<Rightarrow>
          (if list_ex (\<lambda>phrase. contains phrase (casefold m))
                [''already used'', ''already been used'', ''generation already'']
           then ''loop_prevented'' else ''denied'')
      | BudgetError m \<Rightarrow> ''loop_prevented''
      | _ \<Rightarrow> ''denied'')"

definition record_rejection :: "event \<Rightarrow> error \<Rightarrow> store \<Rightarrow> store" where
  "record_rejection e err db =
     add_telemetry_row
       \<lparr>tr_telemetry_id = ev_event_id e @ '':'' @ rejection_category err,
        tr_campaign_id = Some (ev_campaign_id e), tr_category = rejection_category err,
        tr_payload_json = canonical_json (PDict
          [(''event_type'', PStr (event_type_value (ev_event_type e))), (''error'', PStr (error_text err))])\<rparr> db"

text \<open>A transaction whose rejection is recorded in a transaction of its own.\<close>

definition recorded :: "event \<Rightarrow> (store \<Rightarrow> ('a \<times> store) res) \<Rightarrow> store \<Rightarrow> 'a res \<times> store" where
  "recorded e body db =
     (case transaction body db of
        (Inl err, db') \<Rightarrow> (Inl err, record_rejection e err db')
      | (Inr x, db') \<Rightarrow> (Inr x, db'))"

definition human_events :: "event_type set" where
  "human_events = {EV_AUTHORIZE_REPAIR, EV_AUTHORIZE_PUBLICATION}"

definition apply_event :: "host \<Rightarrow> pyval + event \<Rightarrow> store \<Rightarrow> reduction res \<times> store" where
  "apply_event h event_arg db =
     (case given event_from_dict event_arg of
        Inl err \<Rightarrow> (Inl err, db)
      | Inr e \<Rightarrow>
          if ev_event_type e \<in> human_events
          then (Inl (AuthorityError (event_type_value (ev_event_type e)
                  @ '' requires a one-use human authorization receipt'')), db)
          else recorded e (apply_event_tx h e None) db)"

section \<open>Budgets and cancellation\<close>

definition budget_event ::
  "string \<Rightarrow> string + budget_token \<Rightarrow> string \<Rightarrow> int \<Rightarrow> int \<Rightarrow> int \<Rightarrow> string option \<Rightarrow> int option \<Rightarrow> event res" where
  "budget_event campaign_id token request_id expected_revision authority_epoch cancellation_epoch node_id fencing_epoch =
     bindE (case token of
        Inl text \<Rightarrow> enum_new budget_tokens budget_token_value ''BudgetToken'' text
      | Inr t \<Rightarrow> Inr t) (\<lambda>t.
     event_post_init
       \<lparr>ev_event_id = request_id, ev_campaign_id = campaign_id, ev_event_type = EV_CONSUME_BUDGET,
        ev_expected_revision = expected_revision, ev_authority_epoch = authority_epoch,
        ev_cancellation_epoch = cancellation_epoch, ev_node_id = node_id, ev_actor_id = None,
        ev_fencing_epoch = fencing_epoch,
        ev_payload = PDict [(''token'', PStr (budget_token_value t))]\<rparr>)"

definition store_consume_budget ::
  "host \<Rightarrow> string \<Rightarrow> string + budget_token \<Rightarrow> string \<Rightarrow> int \<Rightarrow> int \<Rightarrow> int \<Rightarrow> string option \<Rightarrow> int option
    \<Rightarrow> store \<Rightarrow> campaign_snapshot res \<times> store" where
  "store_consume_budget h campaign_id token request_id expected_revision authority_epoch
     cancellation_epoch node_id fencing_epoch db =
     (case budget_event campaign_id token request_id expected_revision authority_epoch
             cancellation_epoch node_id fencing_epoch of
        Inl err \<Rightarrow> (Inl err, db)
      | Inr e \<Rightarrow> map_prod (map_sum id fst) id (apply_event h (Inr e) db))"

definition reserve_tx :: "host \<Rightarrow> event \<Rightarrow> store \<Rightarrow> ((campaign_snapshot \<times> bool) \<times> store) res" where
  "reserve_tx h e db =
     (case find_operation db (ev_event_id e) of
        Some _ \<Rightarrow>
          bindE (operation_result db (ev_event_id e) (canonical_json_digest (event_to_dict e))) (\<lambda>_.
          bindE (load_snapshot h db (ev_campaign_id e)) (\<lambda>current. Inr ((current, False), db)))
      | None \<Rightarrow>
          bindE (apply_event_tx h e None db) (\<lambda>((next, _), db1). Inr ((next, True), db1)))"

definition reserve_budget_attempt ::
  "host \<Rightarrow> string \<Rightarrow> string + budget_token \<Rightarrow> string \<Rightarrow> int \<Rightarrow> int \<Rightarrow> int \<Rightarrow> string option \<Rightarrow> int option
    \<Rightarrow> store \<Rightarrow> (campaign_snapshot \<times> bool) res \<times> store" where
  "reserve_budget_attempt h campaign_id token request_id expected_revision authority_epoch
     cancellation_epoch node_id fencing_epoch db =
     (case budget_event campaign_id token request_id expected_revision authority_epoch
             cancellation_epoch node_id fencing_epoch of
        Inl err \<Rightarrow> (Inl err, db)
      | Inr e \<Rightarrow> recorded e (reserve_tx h e) db)"

definition cancel_event ::
  "campaign_snapshot \<Rightarrow> string \<Rightarrow> string \<Rightarrow> int option \<Rightarrow> int option \<Rightarrow> int option \<Rightarrow> string \<Rightarrow> event res" where
  "cancel_event current campaign_id request_id expected_revision authority_epoch cancellation_epoch reason =
     event_post_init
       \<lparr>ev_event_id = request_id, ev_campaign_id = campaign_id, ev_event_type = EV_CANCEL,
        ev_expected_revision = (case expected_revision of None \<Rightarrow> cs_revision current | Some r \<Rightarrow> r),
        ev_authority_epoch = (case authority_epoch of None \<Rightarrow> cs_authority_epoch current | Some a \<Rightarrow> a),
        ev_cancellation_epoch = (case cancellation_epoch of None \<Rightarrow> cs_cancellation_epoch current | Some c \<Rightarrow> c),
        ev_node_id = None, ev_actor_id = None, ev_fencing_epoch = None,
        ev_payload = PDict [(''reason'', PStr reason)]\<rparr>"

definition cancel_campaign ::
  "host \<Rightarrow> string \<Rightarrow> string \<Rightarrow> int option \<Rightarrow> int option \<Rightarrow> int option \<Rightarrow> string \<Rightarrow> store
    \<Rightarrow> campaign_snapshot res \<times> store" where
  "cancel_campaign h campaign_id request_id expected_revision authority_epoch cancellation_epoch reason db =
     (case bindE (get_snapshot h db campaign_id) (\<lambda>current.
             cancel_event current campaign_id request_id expected_revision authority_epoch
               cancellation_epoch reason) of
        Inl err \<Rightarrow> (Inl err, db)
      | Inr e \<Rightarrow> map_prod (map_sum id fst) id (apply_event h (Inr e) db))"

section \<open>Runtime receipts\<close>

definition record_runtime_operation ::
  "string \<Rightarrow> string \<Rightarrow> string \<Rightarrow> pydict \<Rightarrow> pydict \<Rightarrow> int option \<Rightarrow> store \<Rightarrow> pydict res \<times> store" where
  "record_runtime_operation request_id campaign_id kind payload result revision db =
     (let digest = canonical_json_digest (PDict payload)
      in transaction (\<lambda>db.
        bindE (operation_result db request_id digest) (\<lambda>prior.
        case prior of
          Some v \<Rightarrow> bindE (py_dict v) (\<lambda>d. Inr (d, db))
        | None \<Rightarrow>
            bindE (begin_operation request_id (Some campaign_id) kind digest revision db) (\<lambda>db1.
            let value = [(''payload'', PDict payload), (''result'', PDict result)]
            in Inr (value, finish_operation request_id (PDict value) db1)))) db)"

definition get_runtime_operation :: "string \<Rightarrow> store \<Rightarrow> pydict option res" where
  "get_runtime_operation request_id db =
     (case find_operation db request_id of
        None \<Rightarrow> Inr None
      | Some r \<Rightarrow>
          bindE (case or_result_json r of
             Some (c # cs) \<Rightarrow> loads (c # cs)
           | _ \<Rightarrow> Inr PNone) (\<lambda>result.
          Inr (Some
            [(''request_id'', PStr request_id),
             (''campaign_id'', py_opt_str (or_campaign_id r)),
             (''kind'', PStr (or_kind r)),
             (''payload_digest'', PStr (or_payload_digest r)),
             (''status'', PStr (or_status r)),
             (''result'', result),
             (''created_revision'', py_opt_int (or_created_revision r))])))"

end
