(* ===== verification/Store_Effects.thy ===== *)
theory Store_Effects
  imports Store_Core
begin

text \<open>
  The outbox of external effects of \<open>CampaignStore\<close>: the publication authority, the preparation
  of an effect, the queries, and the compare-and-swap update of an effect's state.
\<close>

section \<open>Publication authority\<close>

definition kind_argument :: "string + effect_kind \<Rightarrow> effect_kind res" where
  "kind_argument x =
     (case x of Inl s \<Rightarrow> enum_new effect_kinds effect_kind_value ''EffectKind'' s | Inr k \<Rightarrow> Inr k)"

definition state_argument :: "string + effect_state \<Rightarrow> effect_state res" where
  "state_argument x =
     (case x of Inl s \<Rightarrow> enum_new effect_states effect_state_value ''EffectState'' s | Inr k \<Rightarrow> Inr k)"

definition effect_allowed :: "campaign_snapshot \<Rightarrow> effect_kind \<Rightarrow> bool res" where
  "effect_allowed s kind =
     bindE (allowed_effects s) (\<lambda>allowed.
     Inr (list_ex (py_eq (PStr (effect_kind_value kind))) allowed))"

text \<open>The state of the node decides what the effect must be.  Here, unlike in the reducer, an
  absent \<open>required_effects\<close> is the empty sequence.\<close>

definition check_publication_stage :: "campaign_snapshot \<Rightarrow> node_snapshot \<Rightarrow> effect_kind \<Rightarrow> unit res" where
  "check_publication_stage s n kind =
     (if kind = EK_EXACT_FILE_REPLACE then
        requireE (ns_state n = NS_DONE \<and> cs_state s = CS_COMPLETED)
          (AuthorityError ''exact-file installation authority requires a completed published node'') (Inr ())
      else if ns_state n = NS_READY_TO_PUBLISH then
        bindE (get_tuple (sp_publication_authority (cs_spec s)) ''required_effects'') (\<lambda>sequence.
        let position = length (ns_completed_publication_effects n);
            expected = (if position < length sequence then sequence ! position else PNone)
        in requireE (py_eq expected (PStr (effect_kind_value kind)))
             (AuthorityError ''publication effect is not the next immutable required effect'') (Inr ()))
      else if ns_state n = NS_PUBLISHING then
        requireE (ns_pending_publication_effect n = Some (effect_kind_value kind))
          (AuthorityError ''publication effect differs from the reducer-prepared operation'') (Inr ())
      else Inl (AuthorityError ''node lifecycle state is not publication-ready''))"

definition verify_publication_authority ::
  "host \<Rightarrow> string \<Rightarrow> string + effect_kind \<Rightarrow> int \<Rightarrow> int \<Rightarrow> string option \<Rightarrow> string option \<Rightarrow> store
    \<Rightarrow> pydict res" where
  "verify_publication_authority h campaign_id effect_kind authority_epoch cancellation_epoch node_id candidate_head db =
     bindE (kind_argument effect_kind) (\<lambda>kind.
     bindE (get_snapshot h db campaign_id) (\<lambda>s.
     requireAll
       [(cs_authority_epoch s = authority_epoch, AuthorityError ''publication authority epoch is stale''),
        (cs_cancellation_epoch s = cancellation_epoch, AuthorityError ''publication cancellation epoch is stale''),
        (cs_state s \<notin> {CS_DRAFT, CS_APPROVED},
         TransitionError ''unstarted campaign has no publication authority''),
        (cs_state s \<notin> {CS_CANCELLED, CS_FAILED},
         TransitionError ''cancelled or failed campaign has no publication authority'')]
    (bindE (effect_allowed s kind) (\<lambda>allowed.
     requireE allowed (AuthorityError (''publication effect is not authorized: '' @ effect_kind_value kind))
    (case (node_id, candidate_head) of
       (Some i, Some head) \<Rightarrow>
         bindE (snapshot_node s i) (\<lambda>n.
         requireE (ns_candidate_head n = Some head)
           (AuthorityError ''publication candidate head differs from frozen node head'')
        (bindE (check_publication_stage s n kind) (\<lambda>_.
         Inr [(''campaign_id'', PStr campaign_id), (''effect_kind'', PStr (effect_kind_value kind)),
              (''authority_epoch'', PInt authority_epoch), (''cancellation_epoch'', PInt cancellation_epoch),
              (''specification_digest'', PStr (sp_specification_digest (cs_spec s))),
              (''authorized'', PBool True), (''node_id'', PStr i),
              (''candidate_head'', py_opt_str (ns_candidate_head n)),
              (''fencing_epoch'', PInt (ns_fencing_epoch n)),
              (''node_state'', PStr (node_state_value (ns_state n))),
              (''campaign_state'', PStr (campaign_state_value (cs_state s)))])))
     | _ \<Rightarrow> Inl (AuthorityError ''publication authority requires one exact node and candidate head''))))))"

section \<open>Reading the outbox\<close>

definition find_effect :: "store \<Rightarrow> string \<Rightarrow> outbox_row option" where
  "find_effect db i = find (\<lambda>x. xr_operation_id x = i) (db_outbox db)"

definition effect_row :: "outbox_row \<Rightarrow> pydict res" where
  "effect_row x =
     bindE (loads (xr_payload_json x)) (\<lambda>payload.
     bindE (case xr_result_json x of Some (c # cs) \<Rightarrow> loads (c # cs) | _ \<Rightarrow> Inr PNone) (\<lambda>result.
     Inr [(''operation_id'', PStr (xr_operation_id x)), (''campaign_id'', PStr (xr_campaign_id x)),
          (''node_id'', py_opt_str (xr_node_id x)), (''kind'', PStr (xr_kind x)),
          (''state'', PStr (xr_state x)), (''payload'', payload),
          (''payload_digest'', PStr (xr_payload_digest x)),
          (''authority_epoch'', PInt (xr_authority_epoch x)),
          (''cancellation_epoch'', PInt (xr_cancellation_epoch x)),
          (''fencing_epoch'', py_opt_int (xr_fencing_epoch x)),
          (''created_revision'', PInt (xr_created_revision x)),
          (''updated_revision'', PInt (xr_updated_revision x)), (''result'', result)]))"

definition get_effect :: "string \<Rightarrow> store \<Rightarrow> pydict res" where
  "get_effect operation_id db =
     (case find_effect db operation_id of
        None \<Rightarrow> Inl (StoreError (''unknown effect operation: '' @ operation_id))
      | Some x \<Rightarrow> effect_row x)"

definition list_outbox :: "(string + effect_state) option \<Rightarrow> string option \<Rightarrow> store \<Rightarrow> pydict list res" where
  "list_outbox state campaign_id db =
     bindE (case state of None \<Rightarrow> Inr None | Some x \<Rightarrow> bindE (state_argument x) (\<lambda>t. Inr (Some t))) (\<lambda>wanted.
     mapE effect_row (sort_key xr_created_revision (sort_key xr_operation_id
       (filter (\<lambda>x. (case wanted of None \<Rightarrow> True | Some t \<Rightarrow> xr_state x = effect_state_value t)
            \<and> (case campaign_id of None \<Rightarrow> True | Some c \<Rightarrow> xr_campaign_id x = c)) (db_outbox db)))))"

section \<open>Preparing an effect\<close>

text \<open>\<open>snapshot.node(node_id) if node_id else None\<close>\<close>

definition effect_node :: "campaign_snapshot \<Rightarrow> string option \<Rightarrow> node_snapshot option res" where
  "effect_node s node_id =
     (if nonempty_opt node_id then bindE (snapshot_node s (opt_text node_id)) (\<lambda>n. Inr (Some n))
      else Inr None)"

definition prepared_publication :: "node_snapshot option \<Rightarrow> effect_kind \<Rightarrow> string \<Rightarrow> bool" where
  "prepared_publication n kind operation_id =
     (case n of None \<Rightarrow> True
      | Some n \<Rightarrow> ns_state n = NS_PUBLISHING \<and> ns_pending_publication_effect n = Some (effect_kind_value kind)
          \<and> ns_pending_publication_operation_id n = Some operation_id)"

definition candidate_unchanged :: "node_snapshot option \<Rightarrow> pydict \<Rightarrow> bool" where
  "candidate_unchanged n payload =
     (case n of None \<Rightarrow> True
      | Some n \<Rightarrow> ns_candidate_head n = None
          \<or> py_eq (dict_get payload ''candidate_head'' PNone) (py_opt_str (ns_candidate_head n)))"

definition prepare_tx ::
  "host \<Rightarrow> string \<Rightarrow> string \<Rightarrow> string option \<Rightarrow> effect_kind \<Rightarrow> pydict \<Rightarrow> store \<Rightarrow> (unit \<times> store) res" where
  "prepare_tx h operation_id campaign_id node_id kind payload db =
     bindE (load_snapshot h db campaign_id) (\<lambda>s.
     requireE (cs_state s \<noteq> CS_CANCELLED)
       (TransitionError ''cancelled campaign cannot prepare new external effects'')
    (bindE (effect_node s node_id) (\<lambda>n.
     bindE (effect_allowed s kind) (\<lambda>allowed.
     requireAll
       [(allowed, AuthorityError (''effect lacks immutable publication authority: '' @ effect_kind_value kind)),
        (candidate_unchanged n payload, AuthorityError ''effect candidate head differs from frozen node head''),
        (prepared_publication n kind operation_id,
         AuthorityError ''node effect is not the exact reducer-prepared publication operation'')]
    (bindE (effect_post_init
       \<lparr>ef_operation_id = operation_id, ef_campaign_id = campaign_id, ef_node_id = node_id,
        ef_kind = kind, ef_state = ES_PREPARED, ef_payload = PDict payload,
        ef_authority_epoch = cs_authority_epoch s, ef_cancellation_epoch = cs_cancellation_epoch s,
        ef_fencing_epoch = map_option ns_fencing_epoch n, ef_external = True\<rparr>) (\<lambda>intent.
     bindE (insert_effect intent (cs_revision s) db) (\<lambda>db1. Inr ((), db1))))))))"

text \<open>An operation that commits and then reads the effect back.\<close>

definition then_get_effect :: "string \<Rightarrow> unit res \<times> store \<Rightarrow> pydict res \<times> store" where
  "then_get_effect operation_id outcome =
     (case outcome of (Inl err, db) \<Rightarrow> (Inl err, db) | (Inr (), db) \<Rightarrow> (get_effect operation_id db, db))"

definition prepare_effect ::
  "host \<Rightarrow> string \<Rightarrow> string \<Rightarrow> string option \<Rightarrow> string + effect_kind \<Rightarrow> pydict \<Rightarrow> string option \<Rightarrow> store
    \<Rightarrow> pydict res \<times> store" where
  "prepare_effect h operation_id campaign_id node_id kind payload payload_digest db =
     (case bindE (kind_argument kind) (\<lambda>k.
           requireE (payload_digest \<in> {None, Some (canonical_json_digest (PDict payload))})
             (RequestConflict ''effect payload digest differs from supplied payload'') (Inr k)) of
        Inl err \<Rightarrow> (Inl err, db)
      | Inr k \<Rightarrow> then_get_effect operation_id
          (transaction (prepare_tx h operation_id campaign_id node_id k payload) db))"

section \<open>The state of an effect\<close>

fun EFFECT_TRANSITIONS :: "effect_state \<Rightarrow> effect_state set" where
  "EFFECT_TRANSITIONS ES_PREPARED = {ES_EXECUTING, ES_CANCELLED}"
| "EFFECT_TRANSITIONS ES_EXECUTING = {ES_CONFIRMED, ES_FAILED, ES_AMBIGUOUS, ES_CANCELLED}"
| "EFFECT_TRANSITIONS ES_AMBIGUOUS = {ES_CONFIRMED, ES_FAILED, ES_CANCELLED}"
| "EFFECT_TRANSITIONS ES_CONFIRMED = {}"
| "EFFECT_TRANSITIONS ES_FAILED = {}"
| "EFFECT_TRANSITIONS ES_CANCELLED = {}"

definition write_effect :: "outbox_row \<Rightarrow> effect_state \<Rightarrow> string option \<Rightarrow> int \<Rightarrow> store \<Rightarrow> store res" where
  "write_effect x target result_json revision db =
     bind_ints [revision] (Inr
       (db\<lparr>db_outbox := map (\<lambda>y. if xr_operation_id y = xr_operation_id x \<and> xr_state y = xr_state x
            then y\<lparr>xr_state := effect_state_value target, xr_result_json := result_json,
                   xr_updated_revision := revision\<rparr> else y) (db_outbox db)\<rparr>))"

definition check_execution :: "campaign_snapshot \<Rightarrow> outbox_row \<Rightarrow> unit res" where
  "check_execution s x =
     requireAll
       [(cs_state s \<noteq> CS_CANCELLED, TransitionError ''cancelled campaign cannot execute a prepared effect''),
        (xr_authority_epoch x = cs_authority_epoch s \<and> xr_cancellation_epoch x = cs_cancellation_epoch s,
         AuthorityError ''effect epochs are stale'')]
      (case (xr_node_id x, xr_fencing_epoch x) of
         (Some i, Some fence) \<Rightarrow>
           bindE (snapshot_node s i) (\<lambda>n.
           requireE (fence = ns_fencing_epoch n) (AuthorityError ''effect fencing epoch is stale'') (Inr ()))
       | _ \<Rightarrow> Inr ())"

definition update_effect_tx ::
  "host \<Rightarrow> string \<Rightarrow> effect_state \<Rightarrow> pydict option \<Rightarrow> (string + effect_state) option \<Rightarrow> store
    \<Rightarrow> (unit \<times> store) res" where
  "update_effect_tx h operation_id target result expected_state db =
     (case find_effect db operation_id of
        None \<Rightarrow> Inl (StoreError (''unknown effect operation: '' @ operation_id))
      | Some x \<Rightarrow>
          bindE (enum_new effect_states effect_state_value ''EffectState'' (xr_state x)) (\<lambda>current.
          bindE (case expected_state of None \<Rightarrow> Inr None
              | Some y \<Rightarrow> bindE (state_argument y) (\<lambda>t. Inr (Some t))) (\<lambda>expected.
          requireE (expected \<in> {None, Some current}) (RevisionConflict ''effect state compare-and-swap failed'')
         (let text = map_option (\<lambda>d. canonical_json (PDict d)) result
          in if target = current then
               (case result of
                  None \<Rightarrow> Inr ((), db)
                | Some _ \<Rightarrow>
                    bindE (load_snapshot h db (xr_campaign_id x)) (\<lambda>s.
                    bindE (write_effect x current text (cs_revision s) db) (\<lambda>db1. Inr ((), db1))))
             else
               requireE (target \<in> EFFECT_TRANSITIONS current)
                 (TransitionError (''effect transition '' @ effect_state_value current @ '' -> ''
                    @ effect_state_value target @ '' is forbidden''))
              (bindE (load_snapshot h db (xr_campaign_id x)) (\<lambda>s.
               bindE (if target = ES_EXECUTING then check_execution s x else Inr ()) (\<lambda>_.
               bindE (write_effect x target text (cs_revision s) db) (\<lambda>db1. Inr ((), db1)))))))))"

definition update_effect ::
  "host \<Rightarrow> string \<Rightarrow> string + effect_state \<Rightarrow> pydict option \<Rightarrow> (string + effect_state) option \<Rightarrow> store
    \<Rightarrow> pydict res \<times> store" where
  "update_effect h operation_id state result expected_state db =
     (case state_argument state of
        Inl err \<Rightarrow> (Inl err, db)
      | Inr target \<Rightarrow> then_get_effect operation_id
          (transaction (update_effect_tx h operation_id target result expected_state) db))"

end
