(* ===== verification/Effect_Driver.thy ===== *)
theory Effect_Driver
  imports Store_Effects
begin

text \<open>
  \<open>ExternalEffectDriver\<close> of effects.py: the preparation, execution and reconciliation of one
  external effect over the store.  The backend (git and GitHub) is a parameter: it answers from
  a world of its own, which every call may change.  The state of the driver is the store, that
  world, and the trace of the operations whose mutation was handed to the backend.
\<close>

section \<open>Operations that keep their state when they raise\<close>

type_synonym ('s, 'e, 'a) proc = "'s \<Rightarrow> ('e + 'a) \<times> 's"

type_synonym ('s, 'a) act = "('s, error, 'a) proc"

definition give :: "'a \<Rightarrow> ('s, 'e, 'a) proc" where
  "give x s = (Inr x, s)"

definition fail :: "'e \<Rightarrow> ('s, 'e, 'a) proc" where
  "fail err s = (Inl err, s)"

definition pure_res :: "'e + 'a \<Rightarrow> ('s, 'e, 'a) proc" where
  "pure_res r s = (r, s)"

definition and_then :: "('s, 'e, 'a) proc \<Rightarrow> ('a \<Rightarrow> ('s, 'e, 'b) proc) \<Rightarrow> ('s, 'e, 'b) proc" where
  "and_then m f s = (case m s of (Inl err, t) \<Rightarrow> (Inl err, t) | (Inr x, t) \<Rightarrow> f x t)"

definition attempt ::
  "('s, 'e, 'a) proc \<Rightarrow> ('e \<Rightarrow> ('s, 'f, 'b) proc) \<Rightarrow> ('a \<Rightarrow> ('s, 'f, 'b) proc) \<Rightarrow> ('s, 'f, 'b) proc" where
  "attempt m handler f s = (case m s of (Inl err, t) \<Rightarrow> handler err t | (Inr x, t) \<Rightarrow> f x t)"

section \<open>The backend and the driver\<close>

record 'w backend =
  bk_query :: "string \<Rightarrow> pyval \<Rightarrow> 'w \<Rightarrow> pyval res \<times> 'w"
  bk_execute :: "string \<Rightarrow> pyval \<Rightarrow> 'w \<Rightarrow> pyval res \<times> 'w"
  bk_sources :: "pyval \<Rightarrow> string option \<Rightarrow> 'w \<Rightarrow> unit res \<times> 'w"

record 'w driver =
  dv_store :: store
  dv_world :: 'w
  dv_executed :: "string list"

definition on_store :: "(store \<Rightarrow> 'a res \<times> store) \<Rightarrow> ('w driver, 'a) act" where
  "on_store f s = (case f (dv_store s) of (r, db) \<Rightarrow> (r, s\<lparr>dv_store := db\<rparr>))"

definition read_store :: "(store \<Rightarrow> 'a res) \<Rightarrow> ('w driver, 'a) act" where
  "read_store f s = (f (dv_store s), s)"

definition on_world :: "('w \<Rightarrow> 'a res \<times> 'w) \<Rightarrow> ('w driver, 'a) act" where
  "on_world f s = (case f (dv_world s) of (r, w) \<Rightarrow> (r, s\<lparr>dv_world := w\<rparr>))"

definition dict_of :: "pyval \<Rightarrow> ('s, pydict) act" where
  "dict_of v = pure_res (py_dict v)"

text \<open>\<open>backend.execute\<close>, which leaves its trace.\<close>

definition execute_effect :: "'w backend \<Rightarrow> string \<Rightarrow> string \<Rightarrow> pyval \<Rightarrow> ('w driver, pydict) act" where
  "execute_effect b operation kind payload =
     and_then (\<lambda>s. on_world (bk_execute b kind payload) (s\<lparr>dv_executed := dv_executed s @ [operation]\<rparr>)) dict_of"

definition query_effect :: "'w backend \<Rightarrow> string \<Rightarrow> pyval \<Rightarrow> ('w driver, pydict) act" where
  "query_effect b kind payload = and_then (on_world (bk_query b kind payload)) dict_of"

section \<open>Intents\<close>

text \<open>\<open>re.fullmatch("[A-Za-z0-9][A-Za-z0-9._:-]{0,255}", text)\<close>\<close>

definition alnum :: "char \<Rightarrow> bool" where
  "alnum c \<longleftrightarrow> c \<in> set ''ABCDEFGHIJKLMNOPQRSTUVWXYZabcdefghijklmnopqrstuvwxyz0123456789''"

definition stable_id :: "string \<Rightarrow> string \<Rightarrow> string res" where
  "stable_id given_text label =
     (let t = py_strip given_text
      in requireE (case t of
            [] \<Rightarrow> False
          | c # cs \<Rightarrow> alnum c \<and> list_all (\<lambda>c. alnum c \<or> c \<in> set ''._:-'') cs \<and> length cs \<le> 255)
           (EffectError (label @ '' is not one stable identifier'')) (Inr t))"

record publication_intent =
  pi_operation_id :: string
  pi_campaign_id :: string
  pi_node_id :: string
  pi_kind :: string
  pi_payload :: pydict
  pi_payload_digest :: string

definition driver_effect_kinds :: "string set" where
  "driver_effect_kinds =
     {''PUSH'', ''CREATE_PULL_REQUEST'', ''UPSERT_COMMENT'', ''MERGE'', ''EXACT_FILE_REPLACE''}"

definition upper_char :: "char \<Rightarrow> char" where
  "upper_char c = (let n = (of_char c :: nat) in if 97 \<le> n \<and> n \<le> 122 then char_of (n - 32) else c)"

definition create_intent ::
  "string \<Rightarrow> string \<Rightarrow> string \<Rightarrow> string \<Rightarrow> pydict \<Rightarrow> publication_intent res" where
  "create_intent operation_id campaign_id node_id kind payload =
     (let normalized_kind = map upper_char kind
      in requireE (normalized_kind \<in> driver_effect_kinds)
           (EffectError (''unsupported external effect kind: '' @ kind))
        (bindE (bindE (loads (canonical_json (PDict payload))) py_dict) (\<lambda>normalized.
         bindE (stable_id operation_id ''operation id'') (\<lambda>operation.
         bindE (stable_id campaign_id ''campaign id'') (\<lambda>campaign.
         bindE (stable_id node_id ''node id'') (\<lambda>node.
         Inr \<lparr>pi_operation_id = operation, pi_campaign_id = campaign, pi_node_id = node,
              pi_kind = normalized_kind, pi_payload = normalized,
              pi_payload_digest = canonical_json_digest (PDict normalized)\<rparr>))))))"

definition driver_prepare :: "host \<Rightarrow> publication_intent \<Rightarrow> ('w driver, pydict) act" where
  "driver_prepare h i = on_store (prepare_effect h (pi_operation_id i) (pi_campaign_id i)
     (Some (pi_node_id i)) (Inl (pi_kind i)) (pi_payload i) (Some (pi_payload_digest i)))"

section \<open>Checks\<close>

text \<open>\<open>payload = record.get("payload"); if isinstance(payload, str): payload = json.loads(payload)\<close>\<close>

definition record_payload :: "pydict \<Rightarrow> pyval res" where
  "record_payload record =
     (case dict_get record ''payload'' PNone of PStr s \<Rightarrow> loads s | v \<Rightarrow> Inr v)"

definition record_text :: "pydict \<Rightarrow> string \<Rightarrow> string res" where
  "record_text record k = item_str (PDict record) k"

definition assert_record :: "pydict \<Rightarrow> unit res" where
  "assert_record record =
     (let state = dict_get record ''state'' PNone
      in requireE (state \<in> (\<lambda>t. PStr (effect_state_value t)) ` set effect_states)
           (EffectError (''external effect has invalid state: '' @ py_str state))
        (bindE (record_payload record) (\<lambda>payload.
         requireE (is_mapping payload
             \<and> py_eq (PStr (canonical_json_digest payload)) (dict_get record ''payload_digest'' PNone))
           (EffectConflict ''external effect payload differs from its durable digest'') (Inr ()))))"

text \<open>The fields of a pull request that the current campaign fixes.\<close>

definition contract_fields :: "campaign_snapshot \<Rightarrow> node_snapshot \<Rightarrow> (string \<times> string option) list" where
  "contract_fields s n =
     [(''expected_campaign_id'', Some (sp_campaign_id (cs_spec s))),
      (''expected_specification_digest'', Some (sp_specification_digest (cs_spec s))),
      (''expected_base_sha'', Some (sp_base_sha (cs_spec s))),
      (''candidate_head'', ns_candidate_head n), (''head'', ns_candidate_head n)]"

definition check_contract_field :: "pyval \<Rightarrow> string \<times> string option \<Rightarrow> unit res" where
  "check_contract_field payload = (\<lambda>(k, expected).
     let differs = EffectConflict (''external effect '' @ k @ '' differs from the current campaign'')
     in requireE (nonempty_opt expected) differs
       (bindE (py_get payload k PNone) (\<lambda>v. requireE (py_eq v (py_opt_str expected)) differs (Inr ()))))"

definition assert_campaign_contract :: "host \<Rightarrow> 'w backend \<Rightarrow> pydict \<Rightarrow> bool \<Rightarrow> ('w driver, unit) act" where
  "assert_campaign_contract h b record check_sources =
     and_then (read_store (\<lambda>db.
        bindE (record_text record ''campaign_id'') (\<lambda>campaign_id.
        bindE (get_snapshot h db campaign_id) (\<lambda>s.
        let node_id = (case dict_get record ''node_id'' PNone of PNone \<Rightarrow> None | v \<Rightarrow> Some (py_str v))
        in requireE (PStr (sp_campaign_id (cs_spec s)) = dict_get record ''campaign_id'' PNone)
             (EffectConflict ''external effect campaign differs from its stored specification'')
          (bindE (py_item (PDict record) ''kind'') (\<lambda>kind.
           bindE (if kind \<in> {PStr ''CREATE_PULL_REQUEST'', PStr ''MERGE''} then
               (case node_id of
                  None \<Rightarrow> Inl (EffectConflict ''campaign pull request publication requires a candidate node'')
                | Some i \<Rightarrow>
                    bindE (snapshot_node s i) (\<lambda>n.
                    bindE (record_payload record) (\<lambda>payload.
                    bindE (mapE (check_contract_field payload) (contract_fields s n)) (\<lambda>_. Inr ()))))
             else Inr ()) (\<lambda>_. Inr (s, node_id))))))))
      (\<lambda>(s, node_id). if check_sources then on_world (bk_sources b (campaign_spec_to_dict (cs_spec s)) node_id)
         else give ())"

section \<open>Steps of an operation\<close>

definition move_effect ::
  "host \<Rightarrow> string \<Rightarrow> string \<Rightarrow> string \<Rightarrow> pydict option \<Rightarrow> ('w driver, pydict) act" where
  "move_effect h operation expected_state state result =
     on_store (update_effect h operation (Inl state) result (Some (Inl expected_state)))"

definition error_result :: "string \<Rightarrow> pydict" where
  "error_result message = [(''error'', PStr message)]"

definition failure_line :: "error \<Rightarrow> string" where
  "failure_line err = error_name err @ '': '' @ error_text err"

text \<open>\<open>_confirm_from_query\<close>: \<open>None\<close> when the query does not confirm the effect\<close>

definition confirm_from_query ::
  "host \<Rightarrow> 'w backend \<Rightarrow> pydict \<Rightarrow> string \<Rightarrow> ('w driver, pydict option) act" where
  "confirm_from_query h b record expected_state =
     and_then (pure_res (record_payload record)) (\<lambda>payload.
     and_then (pure_res (record_text record ''kind'')) (\<lambda>kind.
     and_then (query_effect b kind payload) (\<lambda>query.
     if \<not> py_truthy (dict_get query ''confirmed'' PNone) then give None
     else
       and_then (pure_res (record_text record ''operation_id'')) (\<lambda>operation.
       and_then
         (if expected_state = ''PREPARED''
          then and_then (move_effect h operation ''PREPARED'' ''EXECUTING''
                 (Some [(''query_before_mutation'', PDict query)]))
               (\<lambda>executing. pure_res (record_text executing ''state''))
          else give expected_state) (\<lambda>expected.
       and_then (move_effect h operation expected ''CONFIRMED'' (Some query)) (\<lambda>confirmed.
       give (Some confirmed)))))))"

definition stay_ambiguous :: "host \<Rightarrow> pydict \<Rightarrow> string \<Rightarrow> ('w driver, pydict) act" where
  "stay_ambiguous h record message =
     and_then (pure_res (record_text record ''operation_id'')) (\<lambda>operation.
     move_effect h operation ''AMBIGUOUS'' ''AMBIGUOUS''
       (Some [(''confirmed'', PBool False), (''queried'', PBool True), (''error'', PStr message)]))"

definition reconcile :: "host \<Rightarrow> 'w backend \<Rightarrow> string \<Rightarrow> ('w driver, pydict) act" where
  "reconcile h b operation_id =
     and_then (pure_res (stable_id operation_id ''operation id'')) (\<lambda>operation.
     and_then (read_store (get_effect operation)) (\<lambda>record.
     and_then (pure_res (assert_record record)) (\<lambda>_.
     if dict_get record ''state'' PNone = PStr ''CONFIRMED'' then give record
     else if dict_get record ''state'' PNone \<noteq> PStr ''AMBIGUOUS''
     then fail (EffectConflict ''only an AMBIGUOUS effect can be reconciled'')
     else attempt (confirm_from_query h b record ''AMBIGUOUS'')
       (\<lambda>err. stay_ambiguous h record (''reconciliation query failed: '' @ failure_line err))
       (\<lambda>confirmed. case confirmed of
          Some updated \<Rightarrow> give updated
        | None \<Rightarrow> stay_ambiguous h record ''external query did not prove completion''))))"

definition reconcile_moved :: "host \<Rightarrow> 'w backend \<Rightarrow> string \<Rightarrow> string \<Rightarrow> ('w driver, pydict) act" where
  "reconcile_moved h b operation message =
     and_then (move_effect h operation ''EXECUTING'' ''AMBIGUOUS'' (Some (error_result message))) (\<lambda>ambiguous.
     and_then (pure_res (record_text ambiguous ''operation_id'')) (reconcile h b))"

section \<open>Running an effect\<close>

definition run_cancelled :: "host \<Rightarrow> 'w backend \<Rightarrow> string \<Rightarrow> string \<Rightarrow> ('w driver, pydict) act" where
  "run_cancelled h b operation state =
     (if state = ''EXECUTING'' then
        move_effect h operation ''EXECUTING'' ''AMBIGUOUS''
          (Some (error_result ''campaign cancelled while external effect may have been executing''))
      else if state = ''AMBIGUOUS'' then reconcile h b operation
      else move_effect h operation ''PREPARED'' ''CANCELLED''
        (Some (error_result ''campaign cancellation prevented execution'')))"

definition preflight_failed :: "host \<Rightarrow> string \<Rightarrow> error \<Rightarrow> ('w driver, pydict) act" where
  "preflight_failed h operation err =
     and_then (move_effect h operation ''PREPARED'' ''EXECUTING''
       (Some [(''query_before_mutation_error'', PStr (failure_line err))])) (\<lambda>executing.
     and_then (pure_res (record_text executing ''state'')) (\<lambda>state.
     move_effect h operation state ''FAILED''
       (Some (error_result (''preflight query failed: '' @ failure_line err)))))"

definition execution_failed :: "host \<Rightarrow> 'w backend \<Rightarrow> string \<Rightarrow> error \<Rightarrow> ('w driver, pydict) act" where
  "execution_failed h b operation err =
     (case err of
        SourceDriftError m \<Rightarrow>
          and_then (move_effect h operation ''EXECUTING'' ''FAILED'' (Some (error_result (failure_line err))))
            (\<lambda>_. fail err)
      | AmbiguousMutation m \<Rightarrow> reconcile_moved h b operation m
      | _ \<Rightarrow> move_effect h operation ''EXECUTING'' ''FAILED'' (Some (error_result (failure_line err))))"

definition confirm_execution ::
  "host \<Rightarrow> 'w backend \<Rightarrow> string \<Rightarrow> string \<Rightarrow> pyval \<Rightarrow> pydict \<Rightarrow> ('w driver, pydict) act" where
  "confirm_execution h b operation kind payload result =
     attempt (query_effect b kind payload)
       (\<lambda>err. move_effect h operation ''EXECUTING'' ''AMBIGUOUS''
          (Some [(''execution'', PDict result),
                 (''error'', PStr (''confirmation query failed: '' @ failure_line err))]))
       (\<lambda>query.
          if \<not> py_truthy (dict_get query ''confirmed'' PNone) then
            move_effect h operation ''EXECUTING'' ''AMBIGUOUS''
              (Some [(''execution'', PDict result),
                     (''error'', PStr ''mutation returned but external confirmation is absent'')])
          else move_effect h operation ''EXECUTING'' ''CONFIRMED''
            (Some [(''execution'', PDict result), (''confirmation'', PDict query)]))"

definition execute_prepared :: "host \<Rightarrow> 'w backend \<Rightarrow> string \<Rightarrow> ('w driver, pydict) act" where
  "execute_prepared h b operation =
     and_then (move_effect h operation ''PREPARED'' ''EXECUTING'' None) (\<lambda>executing.
     and_then (pure_res (record_payload executing)) (\<lambda>payload.
     attempt
       (and_then (assert_campaign_contract h b executing True) (\<lambda>_.
        and_then (pure_res (record_text executing ''kind'')) (\<lambda>kind.
        and_then (execute_effect b operation kind payload) (\<lambda>result. give (kind, result)))))
       (execution_failed h b operation)
       (\<lambda>(kind, result). confirm_execution h b operation kind payload result)))"

definition run_prepared :: "host \<Rightarrow> 'w backend \<Rightarrow> string \<Rightarrow> pydict \<Rightarrow> ('w driver, pydict) act" where
  "run_prepared h b operation record =
     attempt
       (and_then (assert_campaign_contract h b record False) (\<lambda>_.
        confirm_from_query h b record ''PREPARED''))
       (preflight_failed h operation)
       (\<lambda>already. case already of
          Some updated \<Rightarrow> give updated
        | None \<Rightarrow> execute_prepared h b operation)"

definition run :: "host \<Rightarrow> 'w backend \<Rightarrow> string \<Rightarrow> bool \<Rightarrow> ('w driver, pydict) act" where
  "run h b operation_id cancelled =
     and_then (pure_res (stable_id operation_id ''operation id'')) (\<lambda>operation.
     and_then (read_store (get_effect operation)) (\<lambda>record.
     and_then (pure_res (assert_record record)) (\<lambda>_.
     and_then (pure_res (record_text record ''state'')) (\<lambda>state.
     if state \<in> {''CONFIRMED'', ''FAILED'', ''CANCELLED''} then give record
     else if cancelled then run_cancelled h b operation state
     else if state = ''AMBIGUOUS'' then reconcile h b operation
     else if state = ''EXECUTING'' then
       reconcile_moved h b operation ''execution outcome was not durably confirmed before restart''
     else if state \<noteq> ''PREPARED'' then
       fail (EffectConflict (''external effect cannot execute from '' @ state))
     else run_prepared h b operation record))))"

end
