(* ===== verification/Store_Leases.thy ===== *)
theory Store_Leases
  imports Store_Core
begin

text \<open>
  Actors and leases of \<open>CampaignStore\<close>: the acquisition of a lease with its fence, the binding of
  the native actor to it, its release, the queries, and \<open>verify_actor_action\<close>, which lets a
  bound actor write one path.
\<close>

section \<open>Roles\<close>

definition READ_ONLY_ACTOR_ROLES :: "actor_role set" where
  "READ_ONLY_ACTOR_ROLES = {AR_REVIEWER, AR_CLOSURE_REVIEWER, AR_VALIDATOR, AR_SUPERVISOR, AR_PARENT}"

definition CONCURRENT_READ_ONLY_ACTOR_ROLES :: "actor_role set" where
  "CONCURRENT_READ_ONLY_ACTOR_ROLES = READ_ONLY_ACTOR_ROLES - {AR_VALIDATOR}"

definition role_of_text :: "string \<Rightarrow> actor_role res" where
  "role_of_text s = enum_new actor_roles actor_role_value ''ActorRole'' s"

definition find_lease :: "store \<Rightarrow> string \<Rightarrow> lease_row option" where
  "find_lease db i = find (\<lambda>l. lr_lease_id l = i) (db_leases db)"

definition find_actor :: "store \<Rightarrow> string \<Rightarrow> actor_row option" where
  "find_actor db i = find (\<lambda>a. ar_actor_id a = i) (db_actors db)"

definition find_lock :: "store \<Rightarrow> string \<Rightarrow> lock_row option" where
  "find_lock db key = find (\<lambda>k. kr_resource_key k = key) (db_locks db)"

section \<open>Acquiring a lease\<close>

text \<open>The arguments of \<open>acquire_lease\<close>.\<close>

record lease_request =
  lq_campaign_id :: string
  lq_node_id :: string
  lq_resource_key :: string
  lq_actor :: actor
  lq_lease_id :: string
  lq_request_id :: string
  lq_expected_revision :: int
  lq_authority_epoch :: int
  lq_cancellation_epoch :: int
  lq_expires_at :: "string option"

definition lease_request_digest :: "lease_request \<Rightarrow> string" where
  "lease_request_digest q = canonical_json_digest (PDict
     [(''campaign_id'', PStr (lq_campaign_id q)), (''node_id'', PStr (lq_node_id q)),
      (''resource_key'', PStr (lq_resource_key q)), (''actor'', actor_to_dict (lq_actor q)),
      (''lease_id'', PStr (lq_lease_id q)), (''expected_revision'', PInt (lq_expected_revision q)),
      (''authority_epoch'', PInt (lq_authority_epoch q)),
      (''cancellation_epoch'', PInt (lq_cancellation_epoch q)),
      (''expires_at'', py_opt_str (lq_expires_at q))])"

definition insert_actor_record :: "actor \<Rightarrow> store \<Rightarrow> store res" where
  "insert_actor_record a db =
     (let text = canonical_json (actor_to_dict a)
      in case find_actor db (ac_actor_id a) of
           Some r \<Rightarrow> requireE (ar_actor_json r = text) (RequestConflict ''actor identifier was rebound'') (Inr db)
         | None \<Rightarrow> insert_actor_row
             \<lparr>ar_actor_id = ac_actor_id a, ar_campaign_id = ac_campaign_id a, ar_node_id = ac_node_id a,
              ar_role = actor_role_value (ac_role a), ar_native_thread_id = ac_native_thread_id a,
              ar_identity_digest = None, ar_native_identity_json = canonical_json (ac_native_identity a),
              ar_host_pid = ac_host_pid a, ar_authority_epoch = ac_authority_epoch a,
              ar_can_write = ac_can_write a, ar_bound_request_id = None, ar_used = False,
              ar_actor_json = text\<rparr> db)"

text \<open>The actors of the active leases of a node: \<open>leases JOIN actors\<close>.\<close>

definition node_lease_actors :: "store \<Rightarrow> string \<Rightarrow> string \<Rightarrow> actor_row list" where
  "node_lease_actors db c n =
     concat (map (\<lambda>l. filter (\<lambda>a. ar_actor_id a = lr_actor_id l) (db_actors db))
       (filter (\<lambda>l. lr_campaign_id l = c \<and> lr_node_id l = n \<and> lr_state l = ''ACTIVE'') (db_leases db)))"

definition check_node_leases :: "store \<Rightarrow> lease_request \<Rightarrow> bool \<Rightarrow> unit res" where
  "check_node_leases db q concurrent =
     (let actors = node_lease_actors db (lq_campaign_id q) (lq_node_id q)
      in if concurrent then
           bindE (anyE (\<lambda>a. if ar_can_write a then Inr True
                else bindE (role_of_text (ar_role a)) (\<lambda>role. Inr (role = AR_VALIDATOR))) actors) (\<lambda>exclusive.
           requireE (\<not> exclusive)
             (StoreError ''concurrent read-only lease conflicts with exclusive actor'') (Inr ()))
         else requireE (actors = [])
           (StoreError ''exclusive lifecycle lease conflicts with active node leases'') (Inr ()))"

definition check_lease_request :: "store \<Rightarrow> campaign_snapshot \<Rightarrow> lease_request \<Rightarrow> unit res" where
  "check_lease_request db s q =
     (let actor = lq_actor q; read_only = ac_role actor \<in> READ_ONLY_ACTOR_ROLES
      in requireAll
        [(ac_campaign_id actor = lq_campaign_id q \<and> ac_node_id actor = Some (lq_node_id q),
          AuthorityError ''actor binding differs from lease campaign or node''),
         (ac_authority_epoch actor = lq_authority_epoch q,
          AuthorityError ''actor authority epoch differs from lease request''),
         (cs_revision s = lq_expected_revision q,
          RevisionConflict (''expected revision '' @ show_int (lq_expected_revision q)
            @ '', current '' @ show_int (cs_revision s))),
         (cs_authority_epoch s = lq_authority_epoch q, AuthorityError ''lease authority epoch is stale''),
         (cs_cancellation_epoch s = lq_cancellation_epoch q,
          AuthorityError ''lease cancellation epoch is stale''),
         (\<not> (read_only \<and> ac_can_write actor),
          AuthorityError ''reviewer, closure reviewer, and parent leases are read-only''),
         (read_only \<or> ac_can_write actor, AuthorityError ''exclusive worker lease must be write-capable''),
         (\<not> list_ex (\<lambda>l. lr_resource_key l = lq_resource_key q \<and> lr_state l = ''ACTIVE'') (db_leases db),
          StoreError (''resource already has active lease: '' @ lq_resource_key q))]
        (check_node_leases db q (ac_role actor \<in> CONCURRENT_READ_ONLY_ACTOR_ROLES)))"

text \<open>The fence of an exclusive lease exceeds every fence of the resource and of the node.\<close>

definition next_fence :: "store \<Rightarrow> string \<Rightarrow> node_snapshot \<Rightarrow> int" where
  "next_fence db key n =
     max (case find_lock db key of Some k \<Rightarrow> kr_fencing_epoch k | None \<Rightarrow> 0) (ns_fencing_epoch n) + 1"

definition acquire_event :: "lease_request \<Rightarrow> int \<Rightarrow> event res" where
  "acquire_event q fence =
     event_post_init
       \<lparr>ev_event_id = lq_request_id q, ev_campaign_id = lq_campaign_id q, ev_event_type = EV_ACQUIRE_LEASE,
        ev_expected_revision = lq_expected_revision q, ev_authority_epoch = lq_authority_epoch q,
        ev_cancellation_epoch = lq_cancellation_epoch q, ev_node_id = Some (lq_node_id q),
        ev_actor_id = Some (ac_actor_id (lq_actor q)), ev_fencing_epoch = Some fence,
        ev_payload = PDict [(''lease_id'', PStr (lq_lease_id q)), (''resource_key'', PStr (lq_resource_key q))]\<rparr>"

definition write_lease :: "lease_request \<Rightarrow> int \<Rightarrow> campaign_snapshot \<Rightarrow> store \<Rightarrow> (lease \<times> store) res" where
  "write_lease q fence next db =
     bindE (insert_actor_record (lq_actor q) db) (\<lambda>db1.
     bindE (lease_post_init
       \<lparr>ls_lease_id = lq_lease_id q, ls_campaign_id = lq_campaign_id q, ls_node_id = lq_node_id q,
        ls_resource_key = lq_resource_key q, ls_actor_id = ac_actor_id (lq_actor q),
        ls_fencing_epoch = fence, ls_cancellation_epoch = cs_cancellation_epoch next,
        ls_state = LS_ACTIVE, ls_expires_at = lq_expires_at q\<rparr>) (\<lambda>lease.
     bindE (insert_lease_row
       \<lparr>lr_lease_id = ls_lease_id lease, lr_campaign_id = ls_campaign_id lease,
        lr_node_id = ls_node_id lease, lr_resource_key = ls_resource_key lease,
        lr_actor_id = ls_actor_id lease, lr_fencing_epoch = ls_fencing_epoch lease,
        lr_cancellation_epoch = ls_cancellation_epoch lease,
        lr_state = lease_state_value (ls_state lease), lr_expires_at = ls_expires_at lease,
        lr_lease_json = canonical_json (lease_to_dict lease)\<rparr> db1) (\<lambda>db2.
     bindE (upsert_lock_row
       \<lparr>kr_resource_key = lq_resource_key q, kr_fencing_epoch = fence, kr_lease_id = Some (lq_lease_id q),
        kr_campaign_id = Some (lq_campaign_id q), kr_node_id = Some (lq_node_id q)\<rparr> db2) (\<lambda>db3.
     Inr (lease, db3)))))"

definition acquire_fresh :: "host \<Rightarrow> lease_request \<Rightarrow> store \<Rightarrow> (lease \<times> store) res" where
  "acquire_fresh h q db =
     bindE (load_snapshot h db (lq_campaign_id q)) (\<lambda>s.
     bindE (check_lease_request db s q) (\<lambda>_.
     bindE (snapshot_node s (lq_node_id q)) (\<lambda>n.
     if ac_role (lq_actor q) \<in> CONCURRENT_READ_ONLY_ACTOR_ROLES then
       bindE (begin_operation (lq_request_id q) (Some (lq_campaign_id q)) ''ACQUIRE_READ_ONLY_LEASE''
         (lease_request_digest q) (Some (lq_expected_revision q)) db) (\<lambda>db1.
       bindE (write_lease q (ns_fencing_epoch n) s db1) (\<lambda>(lease, db2).
       Inr (lease, finish_operation (lq_request_id q)
         (PDict [(''lease'', lease_to_dict lease), (''snapshot'', snapshot_to_dict s)]) db2)))
     else
       let fence = next_fence db (lq_resource_key q) n
       in bindE (acquire_event q fence) (\<lambda>e.
          bindE (apply_event_tx h e (Some (lease_request_digest q)) db) (\<lambda>((next, _), db1).
          write_lease q fence next db1)))))"

definition acquire_tx :: "host \<Rightarrow> lease_request \<Rightarrow> store \<Rightarrow> (lease \<times> store) res" where
  "acquire_tx h q db =
     bindE (operation_result db (lq_request_id q) (lease_request_digest q)) (\<lambda>prior.
     case prior of
       Some _ \<Rightarrow>
         (case find_lease db (lq_lease_id q) of
            None \<Rightarrow> Inl (StoreError ''idempotent lease result is missing'')
          | Some r \<Rightarrow> bindE (bindE (loads (lr_lease_json r)) lease_from_dict) (\<lambda>lease. Inr (lease, db)))
     | None \<Rightarrow> acquire_fresh h q db)"

definition acquire_lease :: "host \<Rightarrow> lease_request \<Rightarrow> store \<Rightarrow> lease res \<times> store" where
  "acquire_lease h q db = transaction (acquire_tx h q) db"

section \<open>Binding the native actor\<close>

record bind_request =
  bq_lease_id :: string
  bq_actor_id :: string
  bq_role :: actor_role
  bq_native_thread_id :: string
  bq_identity_digest :: string
  bq_authority_epoch :: int
  bq_cancellation_epoch :: int
  bq_fencing_epoch :: int
  bq_request_id :: string
  bq_native_identity :: pydict
  bq_host_pid :: "int option"

definition bind_request_digest :: "bind_request \<Rightarrow> string" where
  "bind_request_digest q = canonical_json_digest (PDict
     [(''lease_id'', PStr (bq_lease_id q)), (''actor_id'', PStr (bq_actor_id q)),
      (''role'', PStr (actor_role_value (bq_role q))),
      (''native_thread_id'', PStr (bq_native_thread_id q)),
      (''identity_digest'', PStr (bq_identity_digest q)),
      (''authority_epoch'', PInt (bq_authority_epoch q)),
      (''cancellation_epoch'', PInt (bq_cancellation_epoch q)),
      (''fencing_epoch'', PInt (bq_fencing_epoch q)),
      (''native_identity'', PDict (bq_native_identity q)), (''host_pid'', py_opt_int (bq_host_pid q))])"

definition required_identity :: "string set" where
  "required_identity = {''thread_id'', ''cwd'', ''source_digest'', ''sandbox_type'', ''writable_roots'',
     ''mediated_write_scope'', ''dynamic_tool_digest'', ''native_write_mode'', ''role'', ''lease_digest'',
     ''thread_created_idle''}"

text \<open>\<open>text.replace("\\", "/").rstrip("/").casefold()\<close>\<close>

definition normal_directory :: "string \<Rightarrow> string" where
  "normal_directory s =
     casefold (rev (dropWhile (\<lambda>c. c = CHR ''/'') (rev (replace_char (CHR 0x5C) (CHR ''/'') s))))"

definition identity_text :: "pydict \<Rightarrow> string \<Rightarrow> string" where
  "identity_text d k = py_str (dict_get d k (PStr []))"

text \<open>\<open>native_identity.get("turn_id") not in {None, ""}\<close>: the test hashes the value.\<close>

definition turn_absent :: "pydict \<Rightarrow> bool res" where
  "turn_absent d =
     (let v = dict_get d ''turn_id'' PNone
      in requireE (hashable v) (TypeError ''unhashable type'') (Inr (v \<in> {PNone, PStr []})))"

definition check_idle_identity :: "campaign_snapshot \<Rightarrow> bind_request \<Rightarrow> unit res" where
  "check_idle_identity s q =
     (let d = bq_native_identity q
      in bindE (all_res
        [Inr (dict_get d ''thread_id'' PNone = PStr (bq_native_thread_id q)),
         Inr (dict_get d ''role'' PNone = PStr (actor_role_value (bq_role q))),
         Inr (normal_directory (identity_text d ''cwd'') = normal_directory (sp_worktree (cs_spec s))),
         Inr (dict_get d ''thread_created_idle'' PNone = PBool True),
         turn_absent d]) (\<lambda>idle.
        requireAll
          [(idle, AuthorityError ''native actor was not exactly bound while idle''),
           (length (identity_text d ''source_digest'') = 64 \<and> length (identity_text d ''lease_digest'') = 64,
            AuthorityError ''native actor identity digests are invalid'')] (Inr ())))"

definition check_write_authority :: "campaign_snapshot \<Rightarrow> string \<Rightarrow> bind_request \<Rightarrow> unit res" where
  "check_write_authority s node_id q =
     (let d = bq_native_identity q;
          sandbox = casefold (replace_char (CHR ''_'') (CHR ''-'') (identity_text d ''sandbox_type''));
          read_only_sandbox = sandbox \<in> {''read-only'', ''readonly''};
          tools = length (identity_text d ''dynamic_tool_digest'') = 64;
          mode = identity_text d ''native_write_mode''
      in case (dict_get d ''writable_roots'' PNone, dict_get d ''mediated_write_scope'' PNone) of
           (PList roots, PList scope) \<Rightarrow>
             if bq_role q \<notin> READ_ONLY_ACTOR_ROLES then
               bindE (snapshot_node_spec s node_id) (\<lambda>spec.
               requireE (read_only_sandbox \<and> roots = []
                   \<and> py_eq (PList scope) (PList (map PStr (nd_allowed_paths spec)))
                   \<and> mode = ''scoped-dynamic-tools'' \<and> tools)
                 (AuthorityError ''write actor lacks exact read-only mediated-write authority'') (Inr ()))
             else requireE (read_only_sandbox \<and> roots = [] \<and> scope = [] \<and> mode = ''denied'' \<and> tools)
               (AuthorityError ''read-only actor has writable native authority'') (Inr ())
         | _ \<Rightarrow> Inl (AuthorityError ''native actor writable roots are invalid''))"

definition check_host_process :: "bind_request \<Rightarrow> unit res" where
  "check_host_process q =
     (let d = bq_native_identity q; process = dict_get d ''host_process_identity'' PNone
      in requireE (py_eq (py_opt_int (bq_host_pid q)) (dict_get d ''host_pid'' PNone))
           (AuthorityError ''native host process identity differs from binding'')
        (case bq_host_pid q of
           None \<Rightarrow> requireE (process = PNone)
             (AuthorityError ''actor without a host PID has process identity'') (Inr ())
         | Some pid \<Rightarrow> requireE (case as_mapping process of
               None \<Rightarrow> False
             | Some p \<Rightarrow> py_eq (dict_get p ''pid'' PNone) (PInt pid)
                 \<and> identity_text p ''creation_token'' \<noteq> [] \<and> identity_text p ''executable'' \<noteq> [])
             (AuthorityError ''native host process creation identity is incomplete'') (Inr ())))"

definition bound_row :: "bind_request \<Rightarrow> actor \<Rightarrow> actor_row \<Rightarrow> actor_row" where
  "bound_row q a r =
     r\<lparr>ar_role := actor_role_value (bq_role q), ar_native_thread_id := bq_native_thread_id q,
       ar_identity_digest := Some (bq_identity_digest q),
       ar_native_identity_json := canonical_json (PDict (bq_native_identity q)),
       ar_host_pid := bq_host_pid q, ar_can_write := (bq_role q \<notin> READ_ONLY_ACTOR_ROLES),
       ar_bound_request_id := Some (bq_request_id q), ar_used := True,
       ar_actor_json := canonical_json (actor_to_dict a)\<rparr>"

definition bind_fresh :: "host \<Rightarrow> bind_request \<Rightarrow> store \<Rightarrow> (actor \<times> store) res" where
  "bind_fresh h q db =
     (case find_lease db (bq_lease_id q) of
        None \<Rightarrow> Inl (StoreError ''actor binding requires an active one-use lease'')
      | Some l \<Rightarrow>
          requireAll
            [(lr_state l = ''ACTIVE'', StoreError ''actor binding requires an active one-use lease''),
             (lr_actor_id l = bq_actor_id q, AuthorityError ''actor identifier differs from lease'')]
         (bindE (load_snapshot h db (lr_campaign_id l)) (\<lambda>s.
          requireE (cs_authority_epoch s = bq_authority_epoch q
              \<and> cs_cancellation_epoch s = bq_cancellation_epoch q \<and> lr_fencing_epoch l = bq_fencing_epoch q)
            (AuthorityError ''actor binding epochs differ from current lease authority'')
         (case find_actor db (bq_actor_id q) of
            None \<Rightarrow> Inl (StoreError ''lease actor record is missing'')
          | Some r \<Rightarrow>
              requireAll
                [(ar_role r = actor_role_value (bq_role q),
                  AuthorityError ''bound actor role differs from leased role''),
                 (\<not> ar_used r \<and> ar_native_thread_id r \<in> {''UNBOUND'', bq_native_thread_id q},
                  AuthorityError ''actor lease is already bound or used''),
                 (canonical_json_digest (PDict (bq_native_identity q)) = bq_identity_digest q,
                  AuthorityError ''native actor identity digest is invalid''),
                 (required_identity \<subseteq> set (map fst (bq_native_identity q)),
                  AuthorityError ''native actor identity evidence is incomplete'')]
             (bindE (check_idle_identity s q) (\<lambda>_.
              bindE (check_write_authority s (lr_node_id l) q) (\<lambda>_.
              bindE (check_host_process q) (\<lambda>_.
              bindE (bindE (loads (ar_actor_json r)) actor_from_dict) (\<lambda>leased.
              bindE (actor_post_init
                \<lparr>ac_actor_id = bq_actor_id q, ac_campaign_id = lr_campaign_id l,
                 ac_node_id = Some (lr_node_id l), ac_role = bq_role q,
                 ac_native_thread_id = bq_native_thread_id q, ac_authority_epoch = bq_authority_epoch q,
                 ac_can_write = (bq_role q \<notin> READ_ONLY_ACTOR_ROLES),
                 ac_native_identity = PDict (bq_native_identity q), ac_host_pid = bq_host_pid q,
                 ac_principal_id = ac_principal_id leased\<rparr>) (\<lambda>a.
              bindE (begin_operation (bq_request_id q) (Some (ac_campaign_id a)) ''BIND_ACTOR''
                (bind_request_digest q) (Some (cs_revision s)) db) (\<lambda>db1.
              bind_ints (opt_list (bq_host_pid q))
             (constraint (thread_free db1 (bq_actor_id q) (bq_native_thread_id q))
                ''UNIQUE constraint failed: actors.native_thread_id''
             (let db2 = db1\<lparr>db_actors := map (\<lambda>p. if ar_actor_id p = bq_actor_id q
                    then bound_row q a p else p) (db_actors db1)\<rparr>
              in Inr (a, finish_operation (bq_request_id q) (PDict [(''actor'', actor_to_dict a)]) db2))))))))))))))"

definition bind_tx :: "host \<Rightarrow> bind_request \<Rightarrow> store \<Rightarrow> (actor \<times> store) res" where
  "bind_tx h q db =
     bindE (operation_result db (bq_request_id q) (bind_request_digest q)) (\<lambda>prior.
     case prior of
       Some v \<Rightarrow> bindE (bindE (py_item v ''actor'') actor_from_dict) (\<lambda>a. Inr (a, db))
     | None \<Rightarrow> bind_fresh h q db)"

definition bind_actor :: "host \<Rightarrow> bind_request \<Rightarrow> store \<Rightarrow> actor res \<times> store" where
  "bind_actor h q db = transaction (bind_tx h q) db"

section \<open>Releasing a lease\<close>

record release_request =
  zq_lease_id :: string
  zq_request_id :: string
  zq_expected_revision :: int
  zq_authority_epoch :: int
  zq_cancellation_epoch :: int

definition release_request_digest :: "release_request \<Rightarrow> string" where
  "release_request_digest q = canonical_json_digest (PDict
     [(''lease_id'', PStr (zq_lease_id q)), (''expected_revision'', PInt (zq_expected_revision q)),
      (''authority_epoch'', PInt (zq_authority_epoch q)),
      (''cancellation_epoch'', PInt (zq_cancellation_epoch q))])"

definition release_event :: "release_request \<Rightarrow> lease_row \<Rightarrow> event res" where
  "release_event q l =
     event_post_init
       \<lparr>ev_event_id = zq_request_id q, ev_campaign_id = lr_campaign_id l, ev_event_type = EV_RELEASE_LEASE,
        ev_expected_revision = zq_expected_revision q, ev_authority_epoch = zq_authority_epoch q,
        ev_cancellation_epoch = zq_cancellation_epoch q, ev_node_id = Some (lr_node_id l),
        ev_actor_id = Some (lr_actor_id l), ev_fencing_epoch = Some (lr_fencing_epoch l),
        ev_payload = PDict [(''lease_id'', PStr (zq_lease_id q))]\<rparr>"

text \<open>\<open>released = json.loads(...); released["state"] = "RELEASED"\<close> and the two updates.\<close>

definition mark_released :: "lease_row \<Rightarrow> store \<Rightarrow> store res" where
  "mark_released l db =
     bindE (loads (lr_lease_json l)) (\<lambda>v.
     case as_mapping v of
       None \<Rightarrow> Inl (TypeError ''object does not support item assignment'')
     | Some d \<Rightarrow>
         Inr (db\<lparr>db_leases := map (\<lambda>r. if lr_lease_id r = lr_lease_id l
                  then r\<lparr>lr_state := ''RELEASED'',
                         lr_lease_json := canonical_json (PDict (dict_set ''state'' (PStr ''RELEASED'') d))\<rparr>
                  else r) (db_leases db),
                db_locks := map (\<lambda>k. if kr_lease_id k = Some (lr_lease_id l)
                  then k\<lparr>kr_lease_id := None\<rparr> else k) (db_locks db)\<rparr>))"

definition release_fresh :: "host \<Rightarrow> release_request \<Rightarrow> lease_row \<Rightarrow> store \<Rightarrow> (campaign_snapshot \<times> store) res" where
  "release_fresh h q l db =
     requireE (lr_state l = ''ACTIVE'') (StoreError ''lease is not active'')
    (case find_actor db (lr_actor_id l) of
       None \<Rightarrow> Inl (StoreError ''lease actor is missing'')
     | Some a \<Rightarrow>
         bindE (role_of_text (ar_role a)) (\<lambda>role.
         if role \<in> CONCURRENT_READ_ONLY_ACTOR_ROLES then
           bindE (load_snapshot h db (lr_campaign_id l)) (\<lambda>s.
           requireAll
             [(cs_revision s = zq_expected_revision q,
               RevisionConflict ''read-only lease release revision is stale''),
              (cs_authority_epoch s = zq_authority_epoch q \<and> cs_cancellation_epoch s = zq_cancellation_epoch q,
               AuthorityError ''read-only lease release epochs are stale'')]
          (bindE (begin_operation (zq_request_id q) (Some (lr_campaign_id l)) ''RELEASE_READ_ONLY_LEASE''
             (release_request_digest q) (Some (zq_expected_revision q)) db) (\<lambda>db1.
           bindE (mark_released l db1) (\<lambda>db2.
           Inr (s, finish_operation (zq_request_id q) (snapshot_result s []) db2)))))
         else
           bindE (release_event q l) (\<lambda>e.
           bindE (apply_event_tx h e (Some (release_request_digest q)) db) (\<lambda>((s, _), db1).
           bindE (mark_released l db1) (\<lambda>db2. Inr (s, db2))))))"

definition release_tx :: "host \<Rightarrow> release_request \<Rightarrow> store \<Rightarrow> (campaign_snapshot \<times> store) res" where
  "release_tx h q db =
     (case find_lease db (zq_lease_id q) of
        None \<Rightarrow> Inl (StoreError (''unknown lease: '' @ zq_lease_id q))
      | Some l \<Rightarrow>
          bindE (operation_result db (zq_request_id q) (release_request_digest q)) (\<lambda>prior.
          case prior of
            Some v \<Rightarrow> bindE (bindE (py_item v ''snapshot'') (snapshot_from_dict (h_normcase h))) (\<lambda>s. Inr (s, db))
          | None \<Rightarrow> release_fresh h q l db))"

definition release_lease :: "host \<Rightarrow> release_request \<Rightarrow> store \<Rightarrow> campaign_snapshot res \<times> store" where
  "release_lease h q db = transaction (release_tx h q) db"

section \<open>Queries\<close>

definition list_active_leases :: "string option \<Rightarrow> store \<Rightarrow> lease list res" where
  "list_active_leases campaign_id db =
     mapE (\<lambda>l. bindE (loads (lr_lease_json l)) lease_from_dict)
       (sort_key lr_resource_key (sort_key lr_lease_id
         (filter (\<lambda>l. lr_state l = ''ACTIVE'' \<and> (case campaign_id of None \<Rightarrow> True | Some c \<Rightarrow> lr_campaign_id l = c))
           (db_leases db))))"

definition get_lease :: "string \<Rightarrow> store \<Rightarrow> lease res" where
  "get_lease lease_id db =
     (case find_lease db lease_id of
        None \<Rightarrow> Inl (StoreError (''unknown lease: '' @ lease_id))
      | Some l \<Rightarrow>
          bindE (loads (lr_lease_json l)) (\<lambda>v.
          case as_mapping v of
            None \<Rightarrow> Inl (TypeError ''object does not support item assignment'')
          | Some d \<Rightarrow> lease_from_dict (PDict (dict_set ''state'' (PStr (lr_state l)) d))))"

definition get_actor :: "string \<Rightarrow> store \<Rightarrow> actor res" where
  "get_actor actor_id db =
     (case find_actor db actor_id of
        None \<Rightarrow> Inl (StoreError (''unknown actor: '' @ actor_id))
      | Some r \<Rightarrow> bindE (loads (ar_actor_json r)) actor_from_dict)"

definition identity_record :: "actor_row \<Rightarrow> lease_row \<Rightarrow> pydict res" where
  "identity_record a l =
     bindE (loads (ar_actor_json a)) (\<lambda>actor.
     bindE (loads (ar_native_identity_json a)) (\<lambda>identity.
     Inr [(''actor'', actor), (''identity_digest'', py_opt_str (ar_identity_digest a)),
          (''native_identity'', identity), (''host_pid'', py_opt_int (ar_host_pid a)),
          (''lease_id'', PStr (lr_lease_id l)), (''resource_key'', PStr (lr_resource_key l)),
          (''fencing_epoch'', PInt (lr_fencing_epoch l)),
          (''cancellation_epoch'', PInt (lr_cancellation_epoch l)),
          (''lease_state'', PStr (lr_state l))]))"

definition list_actor_identities :: "string option \<Rightarrow> bool \<Rightarrow> store \<Rightarrow> pydict list res" where
  "list_actor_identities campaign_id active_only db =
     (let leases = filter (\<lambda>l. (active_only \<longrightarrow> lr_state l = ''ACTIVE'')
              \<and> (case campaign_id of None \<Rightarrow> True | Some c \<Rightarrow> lr_campaign_id l = c))
            (sort_key lr_lease_id (db_leases db));
          pairs = concat (map (\<lambda>a. map (Pair a) (filter (\<lambda>l. lr_actor_id l = ar_actor_id a) leases))
            (sort_key ar_actor_id (db_actors db)))
      in mapE (\<lambda>(a, l). identity_record a l) pairs)"

definition list_active_actor_identities :: "string option \<Rightarrow> store \<Rightarrow> pydict list res" where
  "list_active_actor_identities campaign_id db = list_actor_identities campaign_id True db"

definition current_epochs :: "host \<Rightarrow> string \<Rightarrow> string option \<Rightarrow> store \<Rightarrow> pydict res" where
  "current_epochs h campaign_id node_id db =
     bindE (get_snapshot h db campaign_id) (\<lambda>s.
     let result = [(''campaign_id'', PStr campaign_id), (''revision'', PInt (cs_revision s)),
           (''authority_epoch'', PInt (cs_authority_epoch s)),
           (''cancellation_epoch'', PInt (cs_cancellation_epoch s))]
     in case node_id of
          None \<Rightarrow> Inr result
        | Some i \<Rightarrow> bindE (snapshot_node s i) (\<lambda>n. Inr (result @
            [(''node_id'', PStr i), (''fencing_epoch'', PInt (ns_fencing_epoch n)),
             (''lease_actor_id'', py_opt_str (ns_lease_actor_id n))])))"

section \<open>Authorising a write\<close>

record action_request =
  aq_campaign_id :: string
  aq_actor_id :: string
  aq_lease_id :: string
  aq_authority_epoch :: int
  aq_cancellation_epoch :: int
  aq_fencing_epoch :: int
  aq_repository_root :: string
  aq_action :: string
  aq_path :: "string option"

definition bound_actor_row :: "actor_row \<Rightarrow> bool" where
  "bound_actor_row a \<longleftrightarrow> ar_used a \<and> nonempty_opt (ar_bound_request_id a)
     \<and> ar_native_thread_id a \<noteq> ''UNBOUND'' \<and> nonempty_opt (ar_identity_digest a)"

definition find_actor_lease :: "store \<Rightarrow> string \<Rightarrow> string \<Rightarrow> (actor_row \<times> lease_row) option" where
  "find_actor_lease db actor_id lease_id =
     (case (find_actor db actor_id, find_lease db lease_id) of
        (Some a, Some l) \<Rightarrow> if lr_actor_id l = ar_actor_id a then Some (a, l) else None
      | _ \<Rightarrow> None)"

definition check_action_path :: "host \<Rightarrow> campaign_snapshot \<Rightarrow> string \<Rightarrow> action_request \<Rightarrow> string option res" where
  "check_action_path h s node_id q =
     (case aq_path q of
        None \<Rightarrow> Inr None
      | Some path \<Rightarrow>
          (case h_relative h (aq_repository_root q) path of
             None \<Rightarrow> Inl (AuthorityError ''actor path escapes the admitted repository root'')
           | Some relative \<Rightarrow>
               bindE (snapshot_node_spec s node_id) (\<lambda>spec.
               let allowed = (if nd_allowed_paths spec \<noteq> [] then nd_allowed_paths spec
                              else sp_allowed_paths (cs_spec s))
               in requireE (list_ex (\<lambda>p. fnmatchcase (casefold relative) (casefold p)) allowed)
                    (AuthorityError ''actor path is outside the immutable allowed scope'')
                    (Inr (Some relative)))))"

definition verify_actor_action :: "host \<Rightarrow> action_request \<Rightarrow> store \<Rightarrow> pydict res" where
  "verify_actor_action h q db =
     (let action = py_strip (aq_action q)
      in requireE (action \<noteq> []) (AuthorityError ''actor action must not be empty'')
     (bindE (load_snapshot h db (aq_campaign_id q)) (\<lambda>s.
      requireAll
        [(cs_state s \<notin> {CS_CANCELLED, CS_COMPLETED, CS_FAILED},
          AuthorityError ''terminal campaign cannot authorize actor writes''),
         (cs_authority_epoch s = aq_authority_epoch q \<and> cs_cancellation_epoch s = aq_cancellation_epoch q,
          AuthorityError ''actor action epochs are stale'')]
     (case find_actor_lease db (aq_actor_id q) (aq_lease_id q) of
        None \<Rightarrow> Inl (AuthorityError ''actor and lease are not bound to each other'')
      | Some (a, l) \<Rightarrow>
          requireE (lr_state l = ''ACTIVE'' \<and> lr_campaign_id l = aq_campaign_id q \<and> bound_actor_row a)
            (AuthorityError ''actor lease is not active and natively bound'')
         (bindE (role_of_text (ar_role a)) (\<lambda>role.
          requireAll
            [(role \<notin> READ_ONLY_ACTOR_ROLES \<and> ar_can_write a,
              AuthorityError (actor_role_value role @ '' actor is write denied'')),
             (ar_authority_epoch a = aq_authority_epoch q \<and> lr_cancellation_epoch l = aq_cancellation_epoch q
                \<and> lr_fencing_epoch l = aq_fencing_epoch q,
              AuthorityError ''actor lease epochs or fence are stale'')]
         (bindE (snapshot_node s (lr_node_id l)) (\<lambda>n.
          requireAll
            [(ns_fencing_epoch n = aq_fencing_epoch q \<and> ns_lease_actor_id n = Some (aq_actor_id q),
              AuthorityError ''node no longer recognizes the actor lease fence''),
             (casefold (h_expand h (aq_repository_root q)) = casefold (h_expand h (sp_git_root (cs_spec s))),
              AuthorityError ''actor repository root differs from admitted exact Git root'')]
         (bindE (check_action_path h s (lr_node_id l) q) (\<lambda>relative.
          let authorization =
            [(''campaign_id'', PStr (aq_campaign_id q)), (''actor_id'', PStr (aq_actor_id q)),
             (''lease_id'', PStr (aq_lease_id q)), (''node_id'', PStr (lr_node_id l)),
             (''role'', PStr (actor_role_value role)),
             (''native_thread_id'', PStr (ar_native_thread_id a)),
             (''identity_digest'', PStr (opt_text (ar_identity_digest a))),
             (''authority_epoch'', PInt (aq_authority_epoch q)),
             (''cancellation_epoch'', PInt (aq_cancellation_epoch q)),
             (''fencing_epoch'', PInt (aq_fencing_epoch q)),
             (''repository_root'', PStr (h_expand h (sp_git_root (cs_spec s)))),
             (''action'', PStr action), (''path'', py_opt_str relative)]
          in Inr (dict_set ''authorization_digest'' (PStr (canonical_json_digest (PDict authorization)))
               authorization)))))))))))"

end
