(* ===== verification/Campaign_Codecs.thy ===== *)
theory Campaign_Codecs
  imports Campaign_State
begin

text \<open>
  The document forms of the classes of model.py are lossless: for each class, \<open>X_storable\<close>
  holds for the objects that passed their \<open>__post_init__\<close> with frozen payloads and no
  empty optional text where \<open>from_dict\<close> tests for truth, and \<open>from_dict\<close> of the
  normal form of \<open>to_dict\<close> is the object itself.  With \<open>json_loads_canonical\<close> this gives
  the contract \<open>document_codec\<close>: what the store writes as text is what it reads back.
\<close>

section \<open>Reading a document through its fields\<close>

lemma doc_obtain:
  assumes "distinct (map fst d)" and "\<And>v. doc_fields d v \<Longrightarrow> P v"
  shows "P (json_norm (PDict d))"
  using assms(2) [OF doc_fieldsI [OF assms(1)]] .

lemmas storable_simps = requireE_Inr_iff named_def

section \<open>Findings, actors, leases, evidence, effects, budgets and events\<close>

definition finding_storable :: "finding \<Rightarrow> bool" where
  "finding_storable x \<longleftrightarrow> finding_post_init x = Inr x \<and> frozen (fi_details x)"

lemma finding_read_back:
  assumes "finding_storable x"
  shows "finding_from_dict origin (json_norm (finding_to_dict x)) = Inr x"
  using assms unfolding finding_to_dict_def finding_storable_def finding_post_init_def
  apply (cases x)
  apply (rule doc_obtain)
   apply simp
  subgoal premises f for v
    using f(1) by (simp add: finding_from_dict_def finding_post_init_def f(2) storable_simps field_defs
      fields_py_item [OF f(3)] fields_py_get [OF f(3)])
  done

definition actor_storable :: "actor \<Rightarrow> bool" where
  "actor_storable x \<longleftrightarrow> actor_post_init x = Inr x \<and> frozen (ac_native_identity x)"

lemma actor_read_back:
  assumes "actor_storable x"
  shows "actor_from_dict (json_norm (actor_to_dict x)) = Inr x"
  using assms unfolding actor_to_dict_def actor_storable_def actor_post_init_def
  apply (cases x)
  apply (rule doc_obtain)
   apply simp
  subgoal premises f for v
    using f(1) by (simp add: actor_from_dict_def actor_post_init_def f(2) storable_simps field_defs
      fields_py_item [OF f(3)] fields_py_get [OF f(3)])
  done

definition lease_storable :: "lease \<Rightarrow> bool" where
  "lease_storable x \<longleftrightarrow> lease_post_init x = Inr x \<and> kept_text (ls_expires_at x)"

lemma lease_read_back:
  assumes "lease_storable x"
  shows "lease_from_dict (json_norm (lease_to_dict x)) = Inr x"
  using assms unfolding lease_to_dict_def lease_storable_def lease_post_init_def
  apply (cases x)
  apply (rule doc_obtain)
   apply simp
  subgoal premises f for v
    using f(1) by (simp add: lease_from_dict_def lease_post_init_def f(2) storable_simps field_defs
      fields_py_item [OF f(3)] fields_py_get [OF f(3)])
  done

definition evidence_storable :: "evidence \<Rightarrow> bool" where
  "evidence_storable x \<longleftrightarrow> evidence_post_init x = Inr x \<and> frozen (ed_payload x) \<and> kept_text (ed_candidate_head x)"

lemma evidence_read_back:
  assumes "evidence_storable x"
  shows "evidence_from_dict (json_norm (evidence_to_dict x)) = Inr x"
  using assms unfolding evidence_to_dict_def evidence_storable_def evidence_post_init_def
  apply (cases x)
  apply (rule doc_obtain)
   apply simp
  subgoal premises f for v
    using f(1) by (simp add: evidence_from_dict_def evidence_post_init_def f(2) storable_simps field_defs
      fields_py_item [OF f(3)] fields_py_get [OF f(3)])
  done

definition effect_storable :: "effect_intent \<Rightarrow> bool" where
  "effect_storable x \<longleftrightarrow> effect_post_init x = Inr x \<and> frozen (ef_payload x)"

lemma effect_read_back:
  assumes "effect_storable x"
  shows "effect_from_dict (json_norm (effect_to_dict x)) = Inr x"
  using assms unfolding effect_to_dict_def effect_storable_def effect_post_init_def
  apply (cases x)
  apply (rule doc_obtain)
   apply simp
  subgoal premises f for v
    using f(1) by (simp add: effect_from_dict_def effect_post_init_def f(2) storable_simps field_defs
      fields_py_item [OF f(3)] fields_py_get [OF f(3)])
  done

definition budget_balance_storable :: "budget_balance \<Rightarrow> bool" where
  "budget_balance_storable x \<longleftrightarrow> budget_balance_post_init x = Inr x"

lemma budget_balance_read_back:
  assumes "budget_balance_storable x"
  shows "budget_balance_from_dict (json_norm (budget_balance_to_dict x)) = Inr x"
  using assms unfolding budget_balance_to_dict_def budget_balance_storable_def budget_balance_post_init_def
  apply (cases x)
  apply (rule doc_obtain)
   apply simp
  subgoal premises f for v
    using f(1) by (simp add: budget_balance_from_dict_def budget_balance_post_init_def f(2) storable_simps field_defs
      fields_py_item [OF f(3)] fields_py_get [OF f(3)])
  done

definition budget_receipt_storable :: "budget_receipt \<Rightarrow> bool" where
  "budget_receipt_storable x \<longleftrightarrow> budget_receipt_post_init x = Inr x"

lemma budget_receipt_read_back:
  assumes "budget_receipt_storable x"
  shows "budget_receipt_from_dict (json_norm (budget_receipt_to_dict x)) = Inr x"
  using assms unfolding budget_receipt_to_dict_def budget_receipt_storable_def budget_receipt_post_init_def
  apply (cases x)
  apply (rule doc_obtain)
   apply simp
  subgoal premises f for v
    using f(1) by (simp add: budget_receipt_from_dict_def budget_receipt_post_init_def f(2) storable_simps field_defs
      fields_py_item [OF f(3)] fields_py_get [OF f(3)])
  done

definition event_storable :: "event \<Rightarrow> bool" where
  "event_storable x \<longleftrightarrow> event_post_init x = Inr x \<and> frozen (ev_payload x)"

lemma event_read_back:
  assumes "event_storable x"
  shows "event_from_dict (json_norm (event_to_dict x)) = Inr x"
  using assms unfolding event_to_dict_def event_storable_def event_post_init_def
  apply (cases x)
  apply (rule doc_obtain)
   apply simp
  subgoal premises f for v
    using f(1) by (simp add: event_from_dict_def event_post_init_def f(2) storable_simps field_defs
      fields_py_item [OF f(3)] fields_py_get [OF f(3)])
  done

definition attempt_budget_storable :: "attempt_budget \<Rightarrow> bool" where
  "attempt_budget_storable x \<longleftrightarrow> attempt_budget_post_init x = Inr x"

lemma attempt_budget_read_back:
  assumes "attempt_budget_storable x"
  shows "attempt_budget_from_dict (json_norm (attempt_budget_to_dict x)) = Inr x"
  using assms unfolding attempt_budget_to_dict_def attempt_budget_storable_def attempt_budget_post_init_def
  apply (cases x)
  apply (rule doc_obtain)
   apply simp
  subgoal premises f for v
    using f(1) by (simp add: attempt_budget_from_dict_def attempt_budget_post_init_def f(2) storable_simps field_defs
      fields_py_item [OF f(3)] fields_py_get [OF f(3)])
  done

section \<open>Validation commands\<close>

lemma json_norm_str [simp]: "json_norm v = PStr s \<longleftrightarrow> v = PStr s"
  by (cases v) auto

lemma str_case: "(case v of PStr s \<Rightarrow> P s | _ \<Rightarrow> False) \<longleftrightarrow> (\<exists>s. v = PStr s \<and> P s)"
  by (cases v) auto

lemma correction_policy_ok_norm:
  assumes "wf_py (vc_correction_policy c)"
  shows "correction_policy_ok (c\<lparr>vc_correction_policy := json_norm (vc_correction_policy c)\<rparr>) = correction_policy_ok c"
proof (cases "as_mapping (vc_correction_policy c)")
  case None
  then show ?thesis by (cases "vc_correction_policy c") (auto simp: correction_policy_ok_def)
next
  case (Some p)
  with assms have "doc_fields p (json_norm (vc_correction_policy c))"
    by (cases "vc_correction_policy c") (auto simp: doc_fields_def)
  from fields_lookup [OF this] obtain e where
    e: "as_mapping (json_norm (vc_correction_policy c)) = Some e"
      "\<And>k. map_of e k = map_option json_norm (map_of p k)" by auto
  have keys: "set (map fst e) = set (map fst p)"
  proof -
    have "dom (map_of e) = dom (map_of p)" using e(2) by (auto simp: dom_def)
    then show ?thesis by (simp add: dom_map_of_conv_image_fst)
  qed
  have str: "dict_get e k PNone = PStr s \<longleftrightarrow> dict_get p k PNone = PStr s" for k s
    using e(2) [of k] by (auto simp: dict_get_def json_norm_str split: option.splits)
  show ?thesis
    using Some e(1) unfolding correction_policy_ok_def by (simp add: keys [simplified] str str_case)
qed

definition validation_command_storable :: "validation_command \<Rightarrow> bool" where
  "validation_command_storable x \<longleftrightarrow> validation_command_post_init x = Inr x
     \<and> (vc_correction_policy x = PNone \<or> frozen (vc_correction_policy x))"

lemma validation_command_read_back:
  assumes "validation_command_storable x"
  shows "validation_command_from_dict (json_norm (validation_command_to_dict x)) = Inr x"
proof -
  have same: "validation_command_post_init (x\<lparr>vc_correction_policy := json_norm (vc_correction_policy x)\<rparr>) = Inr x"
    using assms correction_policy_ok_norm [of x]
    by (cases x) (auto simp: validation_command_storable_def validation_command_post_init_def storable_simps
      bindE_Inr_iff Let_def frozen_wf split: if_splits)
  show ?thesis
  proof (cases "vc_correction_policy x = PNone")
    case True
    show ?thesis
      using same True unfolding validation_command_to_dict_def
      apply (cases x)
      apply (rule doc_obtain)
       apply simp
      subgoal premises f for v
        using f(1,2) by (simp add: validation_command_from_dict_def f(3) field_defs comp_def
          fields_py_item [OF f(4)] fields_py_get [OF f(4)])
      done
  next
    case False
    show ?thesis
      using same False unfolding validation_command_to_dict_def
      apply (cases x)
      apply (rule doc_obtain)
       apply simp
      subgoal premises f for v
        using f(1,2) by (simp add: validation_command_from_dict_def f(3) field_defs comp_def
          fields_py_item [OF f(4)] fields_py_get [OF f(4)])
      done
  qed
qed

section \<open>Interpretations\<close>

lemma wf_finding: "finding_storable x \<Longrightarrow> wf_py (finding_to_dict x)"
  by (simp add: finding_storable_def finding_to_dict_def frozen_wf)

lemma wf_validation_command: "validation_command_storable x \<Longrightarrow> wf_py (validation_command_to_dict x)"
  by (auto simp: validation_command_storable_def validation_command_to_dict_def frozen_wf)

lemma wf_attempt_budget: "attempt_budget_storable x \<Longrightarrow> wf_py (attempt_budget_to_dict x)"
  by (simp add: attempt_budget_to_dict_def)

lemma wf_actor: "actor_storable x \<Longrightarrow> wf_py (actor_to_dict x)"
  by (simp add: actor_storable_def actor_to_dict_def frozen_wf)

lemma wf_lease: "lease_storable x \<Longrightarrow> wf_py (lease_to_dict x)"
  by (simp add: lease_to_dict_def)

lemma wf_evidence: "evidence_storable x \<Longrightarrow> wf_py (evidence_to_dict x)"
  by (simp add: evidence_storable_def evidence_to_dict_def frozen_wf)

lemma wf_effect: "effect_storable x \<Longrightarrow> wf_py (effect_to_dict x)"
  by (simp add: effect_storable_def effect_to_dict_def frozen_wf)

lemma wf_budget_balance: "budget_balance_storable x \<Longrightarrow> wf_py (budget_balance_to_dict x)"
  by (simp add: budget_balance_to_dict_def)

lemma wf_budget_receipt: "budget_receipt_storable x \<Longrightarrow> wf_py (budget_receipt_to_dict x)"
  by (simp add: budget_receipt_to_dict_def)

lemma wf_event: "event_storable x \<Longrightarrow> wf_py (event_to_dict x)"
  by (simp add: event_storable_def event_to_dict_def frozen_wf)

interpretation finding_doc: document_codec finding_to_dict "finding_from_dict d" finding_storable
  for d by unfold_locales (rule finding_read_back, assumption, rule wf_finding)

interpretation actor_doc: document_codec actor_to_dict actor_from_dict actor_storable
  by unfold_locales (rule actor_read_back, assumption, rule wf_actor)

interpretation lease_doc: document_codec lease_to_dict lease_from_dict lease_storable
  by unfold_locales (rule lease_read_back, assumption, rule wf_lease)

interpretation evidence_doc: document_codec evidence_to_dict evidence_from_dict evidence_storable
  by unfold_locales (rule evidence_read_back, assumption, rule wf_evidence)

interpretation effect_doc: document_codec effect_to_dict effect_from_dict effect_storable
  by unfold_locales (rule effect_read_back, assumption, rule wf_effect)

interpretation balance_doc: document_codec budget_balance_to_dict budget_balance_from_dict budget_balance_storable
  by unfold_locales (rule budget_balance_read_back, assumption, rule wf_budget_balance)

interpretation receipt_doc: document_codec budget_receipt_to_dict budget_receipt_from_dict budget_receipt_storable
  by unfold_locales (rule budget_receipt_read_back, assumption, rule wf_budget_receipt)

interpretation budget_doc: document_codec attempt_budget_to_dict attempt_budget_from_dict attempt_budget_storable
  by unfold_locales (rule attempt_budget_read_back, assumption, rule wf_attempt_budget)

interpretation event_doc: document_codec event_to_dict event_from_dict event_storable
  by unfold_locales (rule event_read_back, assumption, rule wf_event)

interpretation command_doc: document_codec validation_command_to_dict validation_command_from_dict validation_command_storable
  by unfold_locales (rule validation_command_read_back, assumption, rule wf_validation_command)

section \<open>Node snapshots\<close>

definition node_storable :: "node_snapshot \<Rightarrow> bool" where
  "node_storable x \<longleftrightarrow> node_post_init x = Inr x
     \<and> (ns_validation_correction x = PNone \<or> frozen (ns_validation_correction x))
     \<and> list_all kept_text
         [ns_lease_actor_id x, ns_start_head x, ns_candidate_head x, ns_candidate_tree x,
          ns_candidate_diff_digest x, ns_candidate_node_diff_digest x,
          ns_pending_publication_effect x, ns_pending_publication_operation_id x,
          ns_publication_authorization_receipt_id x, ns_publication_authorization_receipt_digest x,
          ns_failure_reason x]
     \<and> list_all finding_storable (ns_findings x) \<and> list_all finding_storable (ns_closure_findings x)"

lemma findings_read_back:
  "list_all finding_storable xs \<Longrightarrow> mapE (finding_from_dict d) (map (\<lambda>x. json_norm (finding_to_dict x)) xs) = Inr xs"
  using finding_doc.dec_list [of xs d] by (simp add: list_all_iff comp_def)

lemma node_read_back:
  assumes "node_storable x"
  shows "node_from_dict (json_norm (node_to_dict x)) = Inr x"
proof -
  have same: "node_post_init (x\<lparr>ns_validation_correction := json_norm (ns_validation_correction x)\<rparr>) = Inr x"
    using assms by (cases x) (auto simp: node_storable_def node_post_init_def storable_simps)
  show ?thesis
  proof (cases "ns_validation_correction x = PNone")
    case True
    show ?thesis
      using same True assms unfolding node_to_dict_def node_storable_def
      apply (cases x)
      apply (rule doc_obtain)
       apply simp
      subgoal premises f for v
        using f(1,2,3) by (simp add: node_from_dict_def f(4) field_defs comp_def findings_read_back
          fields_py_item [OF f(5)] fields_py_get [OF f(5)])
      done
  next
    case False
    show ?thesis
      using same False assms unfolding node_to_dict_def node_storable_def
      apply (cases x)
      apply (rule doc_obtain)
       apply simp
      subgoal premises f for v
        using f(1,2,3) by (simp add: node_from_dict_def f(4) field_defs comp_def findings_read_back
          fields_py_item [OF f(5)] fields_py_get [OF f(5)])
      done
  qed
qed

lemma wf_node: "node_storable x \<Longrightarrow> wf_py (node_to_dict x)"
  by (auto simp: node_storable_def node_to_dict_def frozen_wf list_all_iff wf_finding)

interpretation node_doc: document_codec node_to_dict node_from_dict node_storable
  by unfold_locales (rule node_read_back, assumption, rule wf_node)

end
