(* ===== verification/Snapshot_Codec.thy ===== *)
theory Snapshot_Codec
  imports Campaign_Codecs
begin

text \<open>
  The document forms of \<open>NodeSpec\<close>, \<open>CampaignSpec\<close> and \<open>CampaignSnapshot\<close> are lossless
  too.  A specification is read back with its digest verified, so the text the store keeps
  determines the whole approved contract.
\<close>

section \<open>Node specifications\<close>

definition node_spec_storable :: "node_spec \<Rightarrow> bool" where
  "node_spec_storable x \<longleftrightarrow> node_spec_post_init x = Inr x \<and> kept_text (nd_deadline_utc x)
     \<and> list_all frozen (nd_acceptance_scenarios x)
     \<and> list_all (\<lambda>t. json_norm t = t \<and> wf_py t) (nd_required_tools x)"

lemma frozen_list:
  assumes "list_all frozen vs"
  shows "map py_freeze vs = vs" "map (\<lambda>v. py_freeze (json_norm v)) vs = vs"
  using assms by (auto simp: list_all_iff frozen_def intro!: map_idI)

lemma node_spec_post_init_norm:
  assumes "list_all frozen (nd_acceptance_scenarios x)"
  shows "node_spec_post_init (x\<lparr>nd_acceptance_scenarios := map json_norm (nd_acceptance_scenarios x)\<rparr>)
    = node_spec_post_init x"
  using assms by (simp add: node_spec_post_init_def frozen_list comp_def)

lemma normal_list: "list_all (\<lambda>t. json_norm t = t \<and> wf_py t) vs \<Longrightarrow> map json_norm vs = vs"
  by (auto simp: list_all_iff intro!: map_idI)

lemma node_spec_read_back:
  assumes "node_spec_storable x"
  shows "node_spec_from_dict (json_norm (node_spec_to_dict x)) = Inr x"
proof -
  have same: "node_spec_post_init (x\<lparr>nd_acceptance_scenarios := map json_norm (nd_acceptance_scenarios x)\<rparr>) = Inr x"
    using assms by (simp add: node_spec_storable_def node_spec_post_init_norm)
  have tools: "map json_norm (nd_required_tools x) = nd_required_tools x"
    using assms by (intro normal_list) (simp add: node_spec_storable_def)
  have kept: "kept_text (nd_deadline_utc x)" using assms by (simp add: node_spec_storable_def)
  show ?thesis
    using same tools kept unfolding node_spec_to_dict_def
    apply (cases x; cases "nd_acceptance_scenarios x = []"; cases "nd_required_tools x = []")
       apply (simp_all only: if_True if_False simp_thms append.simps)
       apply (rule doc_obtain, simp, simp add: node_spec_from_dict_def field_defs comp_def fields_py_item fields_py_get)+
    done
qed

lemma wf_node_spec: "node_spec_storable x \<Longrightarrow> wf_py (node_spec_to_dict x)"
  by (auto simp: node_spec_storable_def node_spec_to_dict_def list_all_iff frozen_wf)

interpretation node_spec_doc: document_codec node_spec_to_dict node_spec_from_dict node_spec_storable
  by unfold_locales (rule node_spec_read_back, assumption, rule wf_node_spec)

section \<open>Campaign specifications\<close>

definition spec_storable :: "(string \<Rightarrow> string) \<Rightarrow> campaign_spec \<Rightarrow> bool" where
  "spec_storable resolve s \<longleftrightarrow> campaign_spec_post_init resolve s = Inr s
     \<and> sp_specification_digest s \<noteq> [] \<and> sp_specification_digest s = compute_digest s
     \<and> frozen (sp_publication_authority s) \<and> kept_text (sp_deadline_utc s)
     \<and> list_all node_spec_storable (sp_nodes s)
     \<and> list_all validation_command_storable (sp_required_validation_commands s)
     \<and> list_all attempt_budget_storable (sp_attempt_budgets s)"

lemma graph_ignores_digest:
  "validate_uniqueness_and_graph resolve (s\<lparr>sp_specification_digest := d\<rparr>) = validate_uniqueness_and_graph resolve s"
proof -
  have "check_node (s\<lparr>sp_specification_digest := d\<rparr>) = check_node s"
    by (simp add: check_node_def fun_eq_iff)
  then show ?thesis by (simp add: validate_uniqueness_and_graph_def)
qed

lemma graph_ignores_authority:
  "validate_uniqueness_and_graph resolve (s\<lparr>sp_publication_authority := a\<rparr>) = validate_uniqueness_and_graph resolve s"
proof -
  have "check_node (s\<lparr>sp_publication_authority := a\<rparr>) = check_node s"
    by (simp add: check_node_def fun_eq_iff)
  then show ?thesis by (simp add: validate_uniqueness_and_graph_def)
qed

lemma compute_digest_ignores:
  "compute_digest (s\<lparr>sp_specification_digest := d\<rparr>) = compute_digest s"
  by (simp add: compute_digest_def campaign_spec_to_dict_def dict_remove_def)

lemma spec_post_init_undigested:
  assumes "campaign_spec_post_init resolve s = Inr s" and "frozen (sp_publication_authority s)"
  shows "campaign_spec_post_init resolve
      (s\<lparr>sp_publication_authority := json_norm (sp_publication_authority s), sp_specification_digest := []\<rparr>)
    = Inr (s\<lparr>sp_specification_digest := []\<rparr>)"
proof -
  have f: "py_freeze (sp_publication_authority s) = sp_publication_authority s"
    using assms(2) by (simp add: frozen_def)
  have s: "s\<lparr>sp_publication_authority := sp_publication_authority s\<rparr> = s" by simp
  have d: "s\<lparr>sp_publication_authority := sp_publication_authority s, sp_specification_digest := []\<rparr> = s\<lparr>sp_specification_digest := []\<rparr>" by simp
  from assms(1) have c: "check_publication_effects (sp_publication_authority s) = Inr ()"
    "check_hosted_checks (sp_publication_authority s) = Inr ()"
    "check_human_authorization (sp_publication_authority s) = Inr ()"
    "validate_uniqueness_and_graph resolve s = Inr ()"
    unfolding campaign_spec_post_init_def Let_def f s requireAll_Inr_iff bindE_Inr_iff
    by (metis old.unit.exhaust)+
  show ?thesis
    using assms(1) c unfolding campaign_spec_post_init_def Let_def
    by (simp add: f assms(2) graph_ignores_digest d named_def requireE_Inr_iff)
qed

lemma specs_read_back:
  "list_all node_spec_storable xs \<Longrightarrow> mapE node_spec_from_dict (map (\<lambda>x. json_norm (node_spec_to_dict x)) xs) = Inr xs"
  "list_all validation_command_storable cs \<Longrightarrow> mapE validation_command_from_dict (map (\<lambda>x. json_norm (validation_command_to_dict x)) cs) = Inr cs"
  "list_all attempt_budget_storable bs \<Longrightarrow> mapE attempt_budget_from_dict (map (\<lambda>x. json_norm (attempt_budget_to_dict x)) bs) = Inr bs"
  using node_spec_doc.dec_list [of xs] command_doc.dec_list [of cs] budget_doc.dec_list [of bs]
  by (simp_all add: list_all_iff comp_def)

lemma spec_read_back:
  assumes "spec_storable resolve s"
  shows "campaign_spec_from_dict resolve True (json_norm (campaign_spec_to_dict s)) = Inr s"
proof -
  note st = assms [unfolded spec_storable_def]
  have u: "campaign_spec_post_init resolve
      (s\<lparr>sp_publication_authority := json_norm (sp_publication_authority s), sp_specification_digest := []\<rparr>)
    = Inr (s\<lparr>sp_specification_digest := []\<rparr>)" using st by (intro spec_post_init_undigested) auto
  have dg: "compute_digest (s\<lparr>sp_specification_digest := []\<rparr>) = sp_specification_digest s"
    using st by (simp add: compute_digest_ignores)
  show ?thesis
    using u dg st unfolding campaign_spec_to_dict_def
    apply (cases s)
    apply (rule doc_obtain, simp)
    apply (simp add: campaign_spec_from_dict_def field_defs comp_def fields_py_item fields_py_get specs_read_back)
    done
qed

lemma wf_spec: "spec_storable resolve s \<Longrightarrow> wf_py (campaign_spec_to_dict s)"
  by (auto simp: spec_storable_def campaign_spec_to_dict_def frozen_wf list_all_iff wf_node_spec
      wf_validation_command wf_attempt_budget)

interpretation spec_doc: document_codec campaign_spec_to_dict "campaign_spec_from_dict resolve True" "spec_storable resolve"
  for resolve by unfold_locales (rule spec_read_back, assumption, rule wf_spec)

section \<open>Campaign snapshots\<close>

definition snapshot_storable :: "(string \<Rightarrow> string) \<Rightarrow> campaign_snapshot \<Rightarrow> bool" where
  "snapshot_storable resolve s \<longleftrightarrow> snapshot_post_init s = Inr s \<and> spec_storable resolve (cs_spec s)
     \<and> kept_text (cs_active_node_id s) \<and> kept_text (cs_failure_reason s)
     \<and> list_all node_storable (cs_nodes s)
     \<and> list_all budget_balance_storable (cs_budgets s)
     \<and> list_all budget_receipt_storable (cs_budget_receipts s)"

lemma parts_read_back:
  "list_all node_storable xs \<Longrightarrow> mapE node_from_dict (map (\<lambda>x. json_norm (node_to_dict x)) xs) = Inr xs"
  "list_all budget_balance_storable bs \<Longrightarrow> mapE budget_balance_from_dict (map (\<lambda>x. json_norm (budget_balance_to_dict x)) bs) = Inr bs"
  "list_all budget_receipt_storable rs \<Longrightarrow> mapE budget_receipt_from_dict (map (\<lambda>x. json_norm (budget_receipt_to_dict x)) rs) = Inr rs"
  using node_doc.dec_list [of xs] balance_doc.dec_list [of bs] receipt_doc.dec_list [of rs]
  by (simp_all add: list_all_iff comp_def)

lemma snapshot_read_back:
  assumes "snapshot_storable resolve s"
  shows "snapshot_from_dict resolve (json_norm (snapshot_to_dict s)) = Inr s"
  using assms unfolding snapshot_to_dict_def snapshot_storable_def
  apply (cases s)
  apply (rule doc_obtain, simp)
  apply (simp add: snapshot_from_dict_def field_defs comp_def fields_py_item fields_py_get parts_read_back
      spec_doc.dec_enc)
  done

lemma wf_snapshot: "snapshot_storable resolve s \<Longrightarrow> wf_py (snapshot_to_dict s)"
  by (auto simp: snapshot_storable_def snapshot_to_dict_def list_all_iff wf_spec wf_node
      wf_budget_balance wf_budget_receipt)

interpretation snapshot_doc: document_codec snapshot_to_dict "snapshot_from_dict resolve" "snapshot_storable resolve"
  for resolve by unfold_locales (rule snapshot_read_back, assumption, rule wf_snapshot)

end
