(* ===== verification/Storable_Snapshots.thy ===== *)
theory Storable_Snapshots
  imports Snapshot_Codec Reducer_Invariants
begin

text \<open>
  Accepted events keep a snapshot storable: what the reducer returns can be written by the
  store and read back unchanged, as long as no event carries an empty \<open>reason\<close>, which the
  text would turn into an absent one (\<open>event_readable\<close>).
\<close>

section \<open>What the payload of an event hands over\<close>

definition event_readable :: "event \<Rightarrow> bool" where
  "event_readable e \<longleftrightarrow> wf_py (ev_payload e)
     \<and> (case as_mapping (ev_payload e) of None \<Rightarrow> True | Some d \<Rightarrow> dict_get d ''reason'' PNone \<noteq> PStr [])"

lemma join_nonempty: "x \<noteq> [] \<Longrightarrow> join sep (x # ys) \<noteq> []"
  by (cases ys) simp_all

lemma py_repr_nonempty [simp]: "py_repr v \<noteq> []"
  by (cases v) (auto simp: repr_str_def Let_def show_int_def split: list.splits)

lemma py_str_Nil: "py_str v = [] \<longleftrightarrow> v = PStr []"
  by (cases v) (auto simp: py_str_def simp del: py_repr.simps)

lemma reason_nonempty:
  assumes "reason_of e r" and "event_readable e"
  shows "r \<noteq> []"
  using assms by (auto simp: reason_of_def event_readable_def payload_str_def get_str_def
      bindE_Inr_iff py_get_Inr_iff py_str_Nil dict_get_def split: option.splits)

lemma wf_as_mapping: "wf_py v \<Longrightarrow> as_mapping v = Some d \<Longrightarrow> wf_py (PDict d)"
  by (cases v) auto

lemma wf_dict_get: "wf_py (PDict d) \<Longrightarrow> wf_py x \<Longrightarrow> wf_py (dict_get d k x)"
  by (auto simp: dict_get_def dest!: map_of_SomeD split: option.splits)

lemma wf_py_get: "wf_py v \<Longrightarrow> wf_py x \<Longrightarrow> py_get v k x = Inr y \<Longrightarrow> wf_py y"
  by (auto simp: py_get_Inr_iff intro: wf_dict_get wf_as_mapping)

lemma wf_py_iter: "wf_py v \<Longrightarrow> py_iter v = Inr xs \<Longrightarrow> x \<in> set xs \<Longrightarrow> wf_py x"
  by (cases v) auto

lemma wf_get_tuple: "wf_py v \<Longrightarrow> get_tuple v k = Inr xs \<Longrightarrow> x \<in> set xs \<Longrightarrow> wf_py x"
  unfolding get_tuple_def bindE_Inr_iff
proof (elim exE conjE)
  fix y assume "wf_py v" "py_get v k (PTuple []) = Inr y" "py_iter y = Inr xs" "x \<in> set xs"
  then show "wf_py x" using wf_py_get [of v "PTuple []" k y] wf_py_iter [of y xs x] by simp
qed

section \<open>Findings\<close>

lemma finding_post_init_storable:
  "finding_post_init f = Inr g \<Longrightarrow> wf_py (fi_details f) \<Longrightarrow> finding_storable g"
  by (auto simp: finding_post_init_def finding_storable_def frozen_def storable_simps)

lemma bool_case_Inr:
  "(case b of PBool x \<Rightarrow> f x | _ \<Rightarrow> Inl err) = Inr y \<longleftrightarrow> (\<exists>x. b = PBool x \<and> f x = Inr y)"
  by (cases b) auto

lemma finding_from_dict_storable:
  assumes "finding_from_dict origin v = Inr f" and "wf_py v"
  shows "finding_storable f"
proof -
  from assms(1) obtain details g where d: "py_get v ''details'' (PDict []) = Inr details"
    and g: "finding_post_init g = Inr f" "fi_details g = details"
    by (auto simp: finding_from_dict_def bindE_Inr_iff bool_case_Inr)
  have "wf_py details" by (rule wf_py_get [OF assms(2) _ d]) simp
  with g show ?thesis by (auto intro: finding_post_init_storable)
qed

lemma add_finding_storable:
  assumes "add_finding origin v fs = Inr gs" and "wf_py v" and "list_all finding_storable (map snd fs)"
  shows "list_all finding_storable (map snd gs)"
proof -
  from assms(1) obtain f where f: "finding_from_dict origin v = Inr f"
    by (auto simp: add_finding_def bindE_Inr_iff)
  then have sf: "finding_storable f" using assms(2) by (rule finding_from_dict_storable)
  show ?thesis
  proof (cases "map_of fs (fi_finding_id f)")
    case None
    with assms(1) f have "gs = fs @ [(fi_finding_id f, f)]"
      by (auto simp: add_finding_def requireE_Inr_iff)
    with sf assms(3) show ?thesis by simp
  next
    case (Some prior)
    then have "finding_storable prior" using assms(3) by (auto simp: list_all_iff dest!: map_of_SomeD)
    then have w: "wf_py (fi_details prior)" by (simp add: finding_storable_def frozen_def)
    from assms(1) f Some obtain merged where
      m: "finding_post_init (prior\<lparr>fi_title := min (fi_title prior) (fi_title f)\<rparr>) = Inr merged"
      and gs: "gs = map (\<lambda>(k, g). if k = fi_finding_id f then (k, merged) else (k, g)) fs"
      by (auto simp: add_finding_def requireE_Inr_iff bindE_Inr_iff)
    have "finding_storable merged" by (rule finding_post_init_storable [OF m]) (simp add: w)
    with gs assms(3) show ?thesis by (auto simp: list_all_iff split: if_splits)
  qed
qed

lemma unique_findings_storable:
  assumes "unique_findings vs origin = Inr fs" and "\<And>v. v \<in> set vs \<Longrightarrow> wf_py v"
  shows "list_all finding_storable fs"
proof -
  from assms(1) obtain gs where g: "foldE (add_finding origin) vs [] = Inr gs" and fs: "fs = map snd (sort_key fst gs)"
    by (auto simp: unique_findings_def bindE_Inr_iff)
  have "list_all finding_storable (map snd gs)"
    by (rule foldE_invariant [OF g, where P = "\<lambda>gs. list_all finding_storable (map snd gs)"])
      (auto intro: add_finding_storable assms(2))
  with fs show ?thesis by (simp add: list_all_iff)
qed

section \<open>Nodes\<close>

lemma node_storable_iff:
  "node_storable n \<longleftrightarrow> node_ok n \<and> frozen (ns_validation_correction n)
     \<and> list_all kept_text
         [ns_lease_actor_id n, ns_start_head n, ns_candidate_head n, ns_candidate_tree n,
          ns_candidate_diff_digest n, ns_candidate_node_diff_digest n,
          ns_pending_publication_effect n, ns_pending_publication_operation_id n,
          ns_publication_authorization_receipt_id n, ns_publication_authorization_receipt_digest n,
          ns_failure_reason n]
     \<and> list_all finding_storable (ns_findings n) \<and> list_all finding_storable (ns_closure_findings n)"
proof -
  have "frozen (ns_validation_correction n) \<longleftrightarrow> n = node_frozen n \<and> wf_py (ns_validation_correction n)"
    by (cases n) (auto simp: frozen_def node_frozen_def)
  moreover have "frozen PNone" by (simp add: frozen_def)
  ultimately show ?thesis
    by (auto simp: node_storable_def node_post_init_eq)
qed

lemma kept_Some [simp]: "kept_text (Some x) \<longleftrightarrow> x \<noteq> []" "kept_text None"
  by (simp_all add: kept_text_def)

lemma node_storable_frozen:
  assumes "node_ok n" "wf_py (ns_validation_correction n)"
    "list_all kept_text
         [ns_lease_actor_id n, ns_start_head n, ns_candidate_head n, ns_candidate_tree n,
          ns_candidate_diff_digest n, ns_candidate_node_diff_digest n,
          ns_pending_publication_effect n, ns_pending_publication_operation_id n,
          ns_publication_authorization_receipt_id n, ns_publication_authorization_receipt_digest n,
          ns_failure_reason n]"
    "list_all finding_storable (ns_findings n)" "list_all finding_storable (ns_closure_findings n)"
  shows "node_storable (node_frozen n)"
  using assms by (simp add: node_storable_iff frozen_def node_ok_def) (simp add: node_frozen_def)

lemma effect_kind_value_nonempty [simp]: "effect_kind_value k \<noteq> []"
  by (cases k) simp_all

lemma node_step_storable:
  assumes step: "node_step s e n n'" and n: "node_storable n" and ok: "node_ok n'" and e: "event_readable e"
  shows "node_storable (node_frozen n')"
proof -
  have pw: "wf_py (ev_payload e)" using e by (simp add: event_readable_def)
  have fs: "list_all finding_storable fs"
    if "get_tuple (ev_payload e) ''findings'' = Inr vs" "unique_findings vs k = Inr fs" for vs fs k
    using that wf_get_tuple [OF pw] by (blast intro: unique_findings_storable)
  note n' = n [unfolded node_storable_iff]
  have wn: "wf_py (ns_validation_correction n)" using n' by (simp add: frozen_def)
  show ?thesis
    using step
  proof cases
    case (correct command d correction)
    have "wf_py correction" by (rule wf_py_get [OF pw _ correct(13)]) simp
    then have "wf_py (PDict d)" using correct(14) by (rule wf_as_mapping)
    then have "wf_py (PDict (dict_remove ''failure_evidence'' d))"
      by (auto simp: dict_remove_def distinct_map_filter)
    then show ?thesis using correct n' ok by (intro node_storable_frozen) (auto simp: dict_remove_def)
  next
    case (freeze vs fs')
    then show ?thesis using n' ok wn fs by (intro node_storable_frozen) auto
  next
    case (closure_passed vs fs' resolved)
    then show ?thesis using n' ok wn fs by (intro node_storable_frozen) (auto simp: closed_node_def)
  next
    case (closure_failed vs fs' resolved reason)
    then show ?thesis using n' ok wn fs by (intro node_storable_frozen) (auto simp: closed_node_def failed_node_def)
  qed (use n' ok wn reason_nonempty [OF _ e] in \<open>auto intro!: node_storable_frozen
        simp: failed_node_def set_candidate_def full_candidate_def\<close>)
qed

section \<open>Snapshots\<close>

lemma snapshot_storable_iff:
  "snapshot_storable resolve s \<longleftrightarrow> snapshot_ok s \<and> spec_storable resolve (cs_spec s)
     \<and> kept_text (cs_active_node_id s) \<and> kept_text (cs_failure_reason s)
     \<and> list_all node_storable (cs_nodes s)
     \<and> list_all budget_balance_storable (cs_budgets s)
     \<and> list_all budget_receipt_storable (cs_budget_receipts s)"
  by (auto simp: snapshot_storable_def snapshot_post_init_eq)

text \<open>The parts of a storable snapshot that an event may touch.\<close>

definition parts_storable :: "campaign_snapshot \<Rightarrow> bool" where
  "parts_storable s \<longleftrightarrow> kept_text (cs_active_node_id s) \<and> kept_text (cs_failure_reason s)
     \<and> list_all node_storable (cs_nodes s)
     \<and> list_all budget_balance_storable (cs_budgets s)
     \<and> list_all budget_receipt_storable (cs_budget_receipts s)"

lemma spend_storable:
  assumes "parts_storable s" and "spendable s t r"
  shows "parts_storable (spend t r s)"
  using assms
  by (auto simp: parts_storable_def spend_def spendable_def list_all_iff budget_receipt_storable_def
      budget_receipt_post_init_def budget_balance_storable_def budget_balance_post_init_def bb_remaining_def storable_simps)

lemma unleased_storable: "node_storable n \<Longrightarrow> node_storable (unleased n)"
  unfolding unleased_def
  by (rule node_storable_frozen) (auto simp: node_storable_iff frozen_def node_ok_def)

lemma cancelled_storable: "node_storable n \<Longrightarrow> node_storable (cancelled n)"
  unfolding cancelled_def
proof (cases "ns_state n \<in> TERMINAL_NODE_STATES")
  case False
  assume "node_storable n"
  then have "node_storable (node_frozen (n\<lparr>ns_state := NS_CANCELLED, ns_lease_actor_id := None\<rparr>))"
    by (intro node_storable_frozen) (auto simp: node_storable_iff frozen_def node_ok_def)
  with False show "node_storable (if ns_state n \<in> TERMINAL_NODE_STATES then n
     else node_frozen (n\<lparr>ns_state := NS_CANCELLED, ns_lease_actor_id := None\<rparr>))" by simp
qed simp

lemma step_storable:
  assumes "step s e t" and "parts_storable s" and "event_readable e"
  shows "parts_storable t"
  using assms(1)
proof cases
  case (cancel reason)
  have "reason_of e reason" using cancel(3) unfolding reason_of_def by (intro exI [of _ "''STOP''"]) simp
  then have "reason \<noteq> []" using assms(3) by (rule reason_nonempty)
  with cancel assms(2) show ?thesis by (auto simp: parts_storable_def list_all_iff intro: cancelled_storable)
next
  case authority
  with assms(2) show ?thesis by (auto simp: parts_storable_def list_all_iff intro: unleased_storable)
next
  case (budget token)
  with assms(2) show ?thesis by (simp add: spend_storable)
next
  case (node n n')
  have n: "node_storable n" using assms(2) found_set [OF node(2)] by (auto simp: parts_storable_def list_all_iff)
  have new: "node_storable (node_frozen n')"
    by (rule node_step_storable [OF node(3) n node(5) assms(3)])
  have fund: "parts_storable (fund e n' s)"
    using assms(2) node(4) by (auto simp: fund_def funded_def intro: spend_storable split: option.splits)
  then have put: "parts_storable (put_node (fund e n' s) (node_frozen n'))"
    using new put_node_set [of _ "fund e n' s" "node_frozen n'"]
    by (auto simp: parts_storable_def list_all_iff put_node_def)
  have "ns_node_id n' \<noteq> []" using node(5) by (auto simp: node_ok_def)
  moreover have "kept_text (ns_failure_reason n')" using new by (simp add: node_storable_iff)
  ultimately show ?thesis using put unfolding node(1) by (simp add: settle_def parts_storable_def)
qed (use assms(2) in \<open>simp add: parts_storable_def\<close>)

theorem reduce_storable:
  assumes "reduce_event s e = Inr (s', fx)" and "snapshot_storable resolve s" and "event_readable e"
  shows "snapshot_storable resolve s'"
  using assms(1)
proof (rule reduce_step)
  fix t assume st: "step s e t" and s': "s' = t\<lparr>cs_revision := cs_revision s + 1\<rparr>" and ok: "snapshot_ok s'"
    and spec: "cs_spec t = cs_spec s"
  have "parts_storable s" using assms(2) by (auto simp: snapshot_storable_iff parts_storable_def)
  then have "parts_storable t" using assms(3) by (rule step_storable [OF st])
  with ok spec assms(2) show "snapshot_storable resolve s'"
    by (simp add: snapshot_storable_iff parts_storable_def s')
qed

lemma initial_storable:
  assumes "snapshot_initial spec = Inr s" and "spec_storable resolve spec"
  shows "snapshot_storable resolve s"
proof -
  note i = snapshot_initial_eq [OF assms(1)]
  have "node_storable (node_default i)" if "node_ok (node_default i)" for i
    using that by (auto simp: node_storable_iff node_default_def frozen_def)
  then show ?thesis
    using assms(2) i by (auto simp: snapshot_storable_iff list_all_iff budget_balance_storable_def
        budget_balance_post_init_def storable_simps)
qed

end
