(* ===== verification/Store_Contract.thy ===== *)
theory Store_Contract
  imports Store_Leases Store_Effects Storable_Snapshots
begin

text \<open>
  What the store promises of the campaigns it holds.  \<open>store_ok\<close> says that every campaign row
  holds the text of a snapshot that the reducer can reach from the campaign's specification, and
  that its other columns agree with that snapshot.  Creation and transitions keep it, and a
  transition of the store is a step of the reducer on the snapshot that the row stands for.
\<close>

section \<open>Agreement of a row with a snapshot\<close>

definition row_agrees :: "host \<Rightarrow> campaign_row \<Rightarrow> campaign_snapshot \<Rightarrow> bool" where
  "row_agrees h r s \<longleftrightarrow>
     cr_campaign_id r = sp_campaign_id (cs_spec s)
     \<and> cr_specification_digest r = sp_specification_digest (cs_spec s)
     \<and> cr_spec_json r = canonical_json (campaign_spec_to_dict (cs_spec s))
     \<and> cr_snapshot_json r = canonical_json (snapshot_to_dict s)
     \<and> cr_state r = campaign_state_value (cs_state s) \<and> cr_store_revision r = cs_revision s
     \<and> cr_authority_epoch r = cs_authority_epoch s \<and> cr_cancellation_epoch r = cs_cancellation_epoch s
     \<and> snapshot_storable (h_normcase h) s \<and> reachable (cs_spec s) s"

definition store_ok :: "host \<Rightarrow> store \<Rightarrow> bool" where
  "store_ok h db \<longleftrightarrow> distinct (map cr_campaign_id (db_campaigns db))
     \<and> (\<forall>r \<in> set (db_campaigns db). \<exists>s. row_agrees h r s)"

lemma store_ok_cong: "db_campaigns db' = db_campaigns db \<Longrightarrow> store_ok h db' \<longleftrightarrow> store_ok h db"
  by (simp add: store_ok_def)

lemma load_cong: "db_campaigns db' = db_campaigns db \<Longrightarrow> load_snapshot h db' c = load_snapshot h db c"
  by (simp add: load_snapshot_def find_campaign_def)

lemma empty_store_ok [simp]: "store_ok h empty_store"
  by (simp add: store_ok_def empty_store_def)

lemma snapshot_reads_back:
  assumes "snapshot_storable f s"
  shows "bindE (loads (canonical_json (snapshot_to_dict s))) (snapshot_from_dict f) = Inr s"
  using snapshot_doc.wf_enc [OF assms] snapshot_doc.dec_enc [OF assms] by simp

lemma find_campaign_row:
  "find_campaign db c = Some r \<Longrightarrow> r \<in> set (db_campaigns db) \<and> cr_campaign_id r = c"
  by (auto simp: find_campaign_def dest!: find_Some_set)

lemma load_agrees:
  assumes "find_campaign db c = Some r" and "row_agrees h r s"
  shows "load_snapshot h db c = Inr s"
  using assms snapshot_reads_back [of "h_normcase h" s] by (simp add: load_snapshot_def row_agrees_def)

lemma load_obtains:
  assumes "store_ok h db" and "load_snapshot h db c = Inr s"
  obtains r where "find_campaign db c = Some r" and "row_agrees h r s"
proof -
  from assms(2) obtain r where r: "find_campaign db c = Some r"
    by (auto simp: load_snapshot_def split: option.splits)
  from assms(1) find_campaign_row [OF r] obtain t where t: "row_agrees h r t"
    by (auto simp: store_ok_def)
  have "s = t" using load_agrees [OF r t] assms(2) by simp
  with r t that show thesis by simp
qed

lemma load_reachable: "store_ok h db \<Longrightarrow> load_snapshot h db c = Inr s \<Longrightarrow> reachable (cs_spec s) s"
  by (erule (1) load_obtains) (simp add: row_agrees_def)

lemma load_storable: "store_ok h db \<Longrightarrow> load_snapshot h db c = Inr s \<Longrightarrow> snapshot_storable (h_normcase h) s"
  by (erule (1) load_obtains) (simp add: row_agrees_def)

lemma load_identity: "store_ok h db \<Longrightarrow> load_snapshot h db c = Inr s \<Longrightarrow> sp_campaign_id (cs_spec s) = c"
  by (erule (1) load_obtains) (auto simp: row_agrees_def dest: find_campaign_row)

section \<open>What a transition leaves alone\<close>

lemma fold_findings_frame:
  assumes "foldE (\<lambda>f. insert_finding_row (m f)) fs db = Inr db'"
  shows "\<exists>fs. db' = db\<lparr>db_findings := fs\<rparr>"
proof (rule foldE_invariant [OF assms, where P = "\<lambda>x. \<exists>fs. x = db\<lparr>db_findings := fs\<rparr>"])
  show "\<exists>fs. db = db\<lparr>db_findings := fs\<rparr>" by (rule exI [of _ "db_findings db"]) simp
qed (auto simp: insert_finding_row_def res_simps)

lemma fold_nodes_frame:
  assumes "foldE (\<lambda>n. upsert_node_row (m n)) ns db = Inr db'"
  shows "\<exists>ns. db' = db\<lparr>db_nodes := ns\<rparr>"
proof (rule foldE_invariant [OF assms, where P = "\<lambda>x. \<exists>ns. x = db\<lparr>db_nodes := ns\<rparr>"])
  show "\<exists>ns. db = db\<lparr>db_nodes := ns\<rparr>" by (rule exI [of _ "db_nodes db"]) simp
qed (auto simp: upsert_node_row_def res_simps split: if_splits)

lemma sync_frame:
  assumes "sync_snapshot s db = Inr db'"
  shows "\<exists>ns fs. db' = db\<lparr>db_nodes := ns, db_findings := fs\<rparr>"
proof -
  let ?c = "sp_campaign_id (cs_spec s)"
  from assms obtain db1 where
    a: "foldE (\<lambda>n. upsert_node_row (mirror_node ?c n)) (cs_nodes s) db = Inr db1"
    and b: "foldE (\<lambda>n. foldE (\<lambda>f. insert_finding_row (mirror_finding ?c n f))
              (ns_findings n @ ns_closure_findings n)) (cs_nodes s)
              (db1\<lparr>db_findings := filter (\<lambda>r. fr_campaign_id r \<noteq> ?c) (db_findings db1)\<rparr>) = Inr db'"
    by (auto simp: sync_snapshot_def Let_def bindE_Inr_iff)
  from fold_nodes_frame [OF a] obtain ns where 1: "db1 = db\<lparr>db_nodes := ns\<rparr>" ..
  have "\<exists>fs. db' = db1\<lparr>db_findings := fs\<rparr>"
  proof (rule foldE_invariant [OF b, where P = "\<lambda>x. \<exists>fs. x = db1\<lparr>db_findings := fs\<rparr>"])
    fix n u v
    assume u: "\<exists>fs. u = db1\<lparr>db_findings := fs\<rparr>"
      and v: "foldE (\<lambda>f. insert_finding_row (mirror_finding ?c n f)) (ns_findings n @ ns_closure_findings n) u = Inr v"
    from fold_findings_frame [OF v] u show "\<exists>fs. v = db1\<lparr>db_findings := fs\<rparr>" by auto
  qed blast
  with 1 show ?thesis by auto
qed

text \<open>The tables that mirror a snapshot, the outbox and the reviews aside, a transition changes
  the campaign row, the event log and the telemetry.\<close>

lemma sync_tables:
  assumes "sync_snapshot s db = Inr db'"
  shows "db_campaigns db' = db_campaigns db" "db_dependencies db' = db_dependencies db"
    "db_actors db' = db_actors db" "db_leases db' = db_leases db" "db_operations db' = db_operations db"
    "db_outbox db' = db_outbox db" "db_evidence db' = db_evidence db" "db_reviews db' = db_reviews db"
    "db_locks db' = db_locks db" "db_events db' = db_events db" "db_telemetry db' = db_telemetry db"
    "db_installations db' = db_installations db" "db_archives db' = db_archives db"
  using sync_frame [OF assms] by auto

text \<open>The rows that an effect of a campaign adds belong to that campaign.\<close>

definition ordered_by :: "effect_intent list \<Rightarrow> outbox_row list \<Rightarrow> bool" where
  "ordered_by is xs \<longleftrightarrow> (\<forall>x \<in> set xs. \<exists>i \<in> set is. xr_campaign_id x = ef_campaign_id i)"

lemma insert_effect_frame: "insert_effect i v db = Inr db' \<Longrightarrow>
    \<exists>xs. db' = db\<lparr>db_outbox := db_outbox db @ xs\<rparr> \<and> ordered_by [i] xs"
  by (auto simp: insert_effect_def Let_def insert_outbox_row_def ordered_by_def res_simps split: option.splits
      intro: exI [of _ "[]"])

lemma fold_effects_frame:
  assumes "foldE (\<lambda>i db. if ef_external i then insert_effect i v db else Inr db) is db = Inr db'"
  shows "\<exists>xs. db' = db\<lparr>db_outbox := db_outbox db @ xs\<rparr> \<and> ordered_by is xs"
proof (rule foldE_invariant [OF assms, where P = "\<lambda>x. \<exists>xs. x = db\<lparr>db_outbox := db_outbox db @ xs\<rparr> \<and> ordered_by is xs"])
  show "\<exists>xs. db = db\<lparr>db_outbox := db_outbox db @ xs\<rparr> \<and> ordered_by is xs"
    by (rule exI [of _ "[]"]) (simp add: ordered_by_def)
  fix i u w
  assume i: "i \<in> set is" and "\<exists>xs. u = db\<lparr>db_outbox := db_outbox db @ xs\<rparr> \<and> ordered_by is xs"
    and w: "(if ef_external i then insert_effect i v u else Inr u) = Inr w"
  then obtain xs where u: "u = db\<lparr>db_outbox := db_outbox db @ xs\<rparr>" and xs: "ordered_by is xs" by blast
  from w obtain ys where ys: "w = u\<lparr>db_outbox := db_outbox u @ ys\<rparr>" "ordered_by is ys"
  proof (cases "ef_external i")
    case True
    with w have "insert_effect i v u = Inr w" by simp
    from insert_effect_frame [OF this] obtain zs where
      "w = u\<lparr>db_outbox := db_outbox u @ zs\<rparr>" "ordered_by [i] zs" by blast
    with i show thesis by (intro that [of zs]) (auto simp: ordered_by_def)
  next
    case False
    with w that [of "[]"] show thesis by (simp add: ordered_by_def)
  qed
  then show "\<exists>xs. w = db\<lparr>db_outbox := db_outbox db @ xs\<rparr> \<and> ordered_by is xs"
    using xs unfolding u by (intro exI [of _ "xs @ ys"]) (auto simp: ordered_by_def)
qed

lemma dispatched_review_frame:
  "record_dispatched_review s e db = Inr db' \<Longrightarrow> \<exists>rs. db' = db\<lparr>db_reviews := rs\<rparr>"
  by (auto simp: record_dispatched_review_def Let_def insert_review_row_def res_simps
      split: option.splits if_splits intro: exI [of _ "db_reviews db"])

definition swapped :: "event \<Rightarrow> campaign_snapshot \<Rightarrow> campaign_row list \<Rightarrow> campaign_row list" where
  "swapped e next rows =
     map (\<lambda>r. if cr_campaign_id r = ev_campaign_id e \<and> cr_store_revision r = ev_expected_revision e
       then update_campaign_row next r else r) rows"

lemma swap_shape:
  assumes "swap_campaign e next db = Inr db'"
  shows "db' = db\<lparr>db_campaigns := swapped e next (db_campaigns db)\<rparr>"
    and "\<exists>r \<in> set (db_campaigns db). cr_campaign_id r = ev_campaign_id e \<and> cr_store_revision r = ev_expected_revision e"
  using assms by (auto simp: swap_campaign_def swapped_def Let_def res_simps list_ex_iff)

definition ended_leases :: "event \<Rightarrow> campaign_snapshot \<Rightarrow> bool" where
  "ended_leases e next \<longleftrightarrow> ev_event_type e = EV_CANCEL \<or> cs_state next = CS_FAILED"

text \<open>The store after a transition, table by table.\<close>

lemma persist_shape:
  assumes "persist_transition e next effects digest db = Inr db'"
  obtains ns fs ts xs rs where
    "db' = (if ev_event_type e = EV_CANCEL then stop_effects (ev_campaign_id e) (cs_revision next) else id)
       ((if ended_leases e next then invalidate_leases (ev_campaign_id e) else id)
         (db\<lparr>db_campaigns := swapped e next (db_campaigns db), db_nodes := ns, db_findings := fs,
             db_events := db_events db @
               [\<lparr>vr_event_id = ev_event_id e, vr_campaign_id = ev_campaign_id e, vr_revision = cs_revision next,
                 vr_event_type = event_type_value (ev_event_type e), vr_payload_digest = digest,
                 vr_event_json = canonical_json (event_to_dict e), vr_telemetry_category = telemetry_category next\<rparr>],
             db_telemetry := ts, db_outbox := db_outbox db @ xs, db_reviews := rs\<rparr>))"
    and "ordered_by effects xs"
proof -
  let ?ev = "\<lparr>vr_event_id = ev_event_id e, vr_campaign_id = ev_campaign_id e, vr_revision = cs_revision next,
      vr_event_type = event_type_value (ev_event_type e), vr_payload_digest = digest,
      vr_event_json = canonical_json (event_to_dict e), vr_telemetry_category = telemetry_category next\<rparr>"
  let ?tele = "\<lambda>db. case telemetry_category next of None \<Rightarrow> db
      | Some name \<Rightarrow> add_telemetry_row
          \<lparr>tr_telemetry_id = ev_event_id e @ '':'' @ name, tr_campaign_id = Some (ev_campaign_id e),
           tr_category = name,
           tr_payload_json = canonical_json (PDict [(''revision'', PInt (cs_revision next))])\<rparr> db"
  from assms obtain db1 db2 db3 db5 db6 where
    1: "swap_campaign e next db = Inr db1" and 2: "sync_snapshot next db1 = Inr db2"
    and 3: "insert_event_row ?ev db2 = Inr db3"
    and 5: "foldE (\<lambda>i db. if ef_external i then insert_effect i (cs_revision next) db else Inr db)
              effects (?tele db3) = Inr db5"
    and 6: "record_dispatched_review next e db5 = Inr db6"
    and d: "db' = (if ev_event_type e = EV_CANCEL
        then stop_effects (ev_campaign_id e) (cs_revision next) (invalidate_leases (ev_campaign_id e) db6)
        else if cs_state next = CS_FAILED then invalidate_leases (ev_campaign_id e) db6 else db6)"
    unfolding persist_transition_def Let_def bindE_Inr_iff by auto
  from sync_frame [OF 2] obtain ns fs where s2: "db2 = db1\<lparr>db_nodes := ns, db_findings := fs\<rparr>" by blast
  from 3 have s3: "db3 = db2\<lparr>db_events := db_events db2 @ [?ev]\<rparr>"
    by (auto simp: insert_event_row_def res_simps)
  have "\<exists>ts. ?tele db3 = db3\<lparr>db_telemetry := ts\<rparr>"
    by (auto simp: add_telemetry_row_def split: option.splits intro: exI [of _ "db_telemetry db3"])
  then obtain ts where s4: "?tele db3 = db3\<lparr>db_telemetry := ts\<rparr>" ..
  from fold_effects_frame [OF 5] obtain xs where
    s5: "db5 = (?tele db3)\<lparr>db_outbox := db_outbox (?tele db3) @ xs\<rparr>" and xs: "ordered_by effects xs" by blast
  from dispatched_review_frame [OF 6] obtain rs where s6: "db6 = db5\<lparr>db_reviews := rs\<rparr>" ..
  have "db6 = db\<lparr>db_campaigns := swapped e next (db_campaigns db), db_nodes := ns, db_findings := fs,
      db_events := db_events db @ [?ev], db_telemetry := ts, db_outbox := db_outbox db @ xs, db_reviews := rs\<rparr>"
    unfolding s6 s5 s4 unfolding s3 s2 swap_shape(1) [OF 1] by simp
  with d show thesis
    by (intro that [where ns = ns and fs = fs and ts = ts and xs = xs and rs = rs]) (use xs in \<open>auto simp: ended_leases_def\<close>)
qed

lemma persist_tables:
  assumes "persist_transition e next effects digest db = Inr db'"
  shows "db_campaigns db' = swapped e next (db_campaigns db)" "db_actors db' = db_actors db"
    "db_dependencies db' = db_dependencies db" "db_operations db' = db_operations db"
    "db_evidence db' = db_evidence db" "db_installations db' = db_installations db"
    "db_archives db' = db_archives db"
    "db_leases db' = (if ended_leases e next then db_leases (invalidate_leases (ev_campaign_id e) db) else db_leases db)"
    "db_locks db' = (if ended_leases e next then db_locks (invalidate_leases (ev_campaign_id e) db) else db_locks db)"
  by (rule persist_shape [OF assms]; simp add: stop_effects_def invalidate_leases_def)+

section \<open>A transition of the store is a step of the reducer\<close>

lemma swapped_ids: "\<lbrakk>\<And>r. r \<in> set rows \<Longrightarrow> cr_campaign_id r = cr_campaign_id (update_campaign_row next r)\<rbrakk> \<Longrightarrow>
    map cr_campaign_id (swapped e next rows) = map cr_campaign_id rows"
  by (auto simp: swapped_def)

lemma update_row_id [simp]: "cr_campaign_id (update_campaign_row next r) = cr_campaign_id r"
  by (simp add: update_campaign_row_def)

lemma swapped_id [simp]: "map cr_campaign_id (swapped e next rows) = map cr_campaign_id rows"
  by (rule swapped_ids) simp

lemma find_swapped:
  "find (\<lambda>r. cr_campaign_id r = c) (swapped e next rows) =
     map_option (\<lambda>r. if c = ev_campaign_id e \<and> cr_store_revision r = ev_expected_revision e
       then update_campaign_row next r else r) (find (\<lambda>r. cr_campaign_id r = c) rows)"
  by (induction rows) (auto simp: swapped_def)

lemma agrees_after:
  assumes "row_agrees h r s" and "reduce_event s e = Inr (next, fx)" and "event_readable e"
  shows "row_agrees h (update_campaign_row next r) next"
proof -
  have spec: "cs_spec next = cs_spec s" by (rule reduce_step [OF assms(2)]) simp
  have "snapshot_storable (h_normcase h) next"
    using reduce_storable [OF assms(2) _ assms(3)] assms(1) by (simp add: row_agrees_def)
  moreover have "reachable (cs_spec next) next"
    using assms(1,2) reachable.event [of "cs_spec s" s e "next" fx] by (simp add: row_agrees_def spec)
  ultimately show ?thesis
    using assms(1) by (simp add: row_agrees_def spec update_campaign_row_def)
qed

lemma persist_step:
  assumes ok: "store_ok h db" and e: "event_readable e" and s: "load_snapshot h db (ev_campaign_id e) = Inr s"
    and red: "reduce_event s e = Inr (next, fx)" and p: "persist_transition e next fx digest db = Inr db'"
  shows "store_ok h db'" and "load_snapshot h db' (ev_campaign_id e) = Inr next"
    and "c \<noteq> ev_campaign_id e \<Longrightarrow> load_snapshot h db' c = load_snapshot h db c"
proof -
  from load_obtains [OF ok s] obtain r where r: "find_campaign db (ev_campaign_id e) = Some r"
    and rs: "row_agrees h r s" .
  have env: "ev_campaign_id e = sp_campaign_id (cs_spec s)" "ev_expected_revision e = cs_revision s"
    using red by (simp_all add: reduce_event_Inr envelope_ok_def)
  have same: "cr_store_revision r = ev_expected_revision e"
    using rs env by (simp add: row_agrees_def)
  note rows = persist_tables(1) [OF p]
  have after: "row_agrees h (update_campaign_row next r) next"
    by (rule agrees_after [OF rs red e])
  have found: "find_campaign db' c = (if c = ev_campaign_id e then Some (update_campaign_row next r)
      else find_campaign db c)" for c
    using r same by (auto simp: find_campaign_def rows find_swapped intro: option.map_ident)
  show "load_snapshot h db' (ev_campaign_id e) = Inr next"
    by (rule load_agrees [OF _ after]) (simp add: found)
  show "load_snapshot h db' c = load_snapshot h db c" if "c \<noteq> ev_campaign_id e"
    using that by (simp add: load_snapshot_def found)
  show "store_ok h db'"
    unfolding store_ok_def rows swapped_id
  proof (intro conjI ballI)
    show dist: "distinct (map cr_campaign_id (db_campaigns db))" using ok by (simp add: store_ok_def)
    fix q assume "q \<in> set (swapped e next (db_campaigns db))"
    then obtain q0 where q0: "q0 \<in> set (db_campaigns db)" and
      q: "q = (if cr_campaign_id q0 = ev_campaign_id e \<and> cr_store_revision q0 = ev_expected_revision e
            then update_campaign_row next q0 else q0)" by (auto simp: swapped_def)
    have "q0 = r" if "cr_campaign_id q0 = ev_campaign_id e"
      using that q0 find_campaign_row [OF r] dist by (metis distinct_map inj_onD)
    with q q0 ok after show "\<exists>s. row_agrees h q s" by (auto simp: store_ok_def)
  qed
qed

lemma apply_fresh_parts:
  assumes "apply_fresh h e digest db = Inr ((next, fx), db')"
  obtains s db1 db2 where "load_snapshot h db (ev_campaign_id e) = Inr s"
    and "begin_operation (ev_event_id e) (Some (ev_campaign_id e)) (event_type_value (ev_event_type e))
        digest (Some (ev_expected_revision e)) db = Inr db1"
    and "reduce_event s e = Inr (next, fx)" and "persist_transition e next fx digest db1 = Inr db2"
    and "db' = finish_operation (ev_event_id e) (snapshot_result next fx) db2"
  using assms by (auto simp: apply_fresh_def bindE_Inr_iff)

lemma begin_tables:
  "begin_operation i c k d v db = Inr db' \<Longrightarrow> db' = db\<lparr>db_operations := db_operations db @
     [\<lparr>or_request_id = i, or_campaign_id = c, or_kind = k, or_payload_digest = d,
       or_status = ''EXECUTING'', or_result_json = None, or_created_revision = v\<rparr>]\<rparr>"
  by (auto simp: begin_operation_def insert_operation_row_def res_simps)

lemma finish_campaigns [simp]: "db_campaigns (finish_operation i v db) = db_campaigns db"
  by (simp add: finish_operation_def)

lemma apply_fresh_step:
  assumes ok: "store_ok h db" and e: "event_readable e"
    and run: "apply_fresh h e digest db = Inr ((next, fx), db')"
  obtains s where "load_snapshot h db (ev_campaign_id e) = Inr s" and "reduce_event s e = Inr (next, fx)"
    and "store_ok h db'" and "load_snapshot h db' (ev_campaign_id e) = Inr next"
    and "\<And>c. c \<noteq> ev_campaign_id e \<Longrightarrow> load_snapshot h db' c = load_snapshot h db c"
proof (rule apply_fresh_parts [OF run])
  fix s db1 db2
  assume s: "load_snapshot h db (ev_campaign_id e) = Inr s"
    and b: "begin_operation (ev_event_id e) (Some (ev_campaign_id e)) (event_type_value (ev_event_type e))
        digest (Some (ev_expected_revision e)) db = Inr db1"
    and red: "reduce_event s e = Inr (next, fx)" and p: "persist_transition e next fx digest db1 = Inr db2"
    and d: "db' = finish_operation (ev_event_id e) (snapshot_result next fx) db2"
  have c1: "db_campaigns db1 = db_campaigns db" using begin_tables [OF b] by simp
  have 1: "store_ok h db1" "load_snapshot h db1 (ev_campaign_id e) = Inr s"
    using ok s store_ok_cong [OF c1] load_cong [OF c1] by simp_all
  note step = persist_step [OF 1(1) e 1(2) red p]
  show thesis
    by (rule that [OF s red]) (use step load_cong [OF c1] in \<open>auto simp: d cong: store_ok_cong load_cong\<close>)
qed

end
