(* ===== verification/Store_Evidence.thy ===== *)
theory Store_Evidence
  imports Store_Leases
begin

text \<open>
  The evidence, reviews, findings, installations and archives of \<open>CampaignStore\<close>: immutable
  receipts keyed by an identifier that cannot be bound to another content, and the attestation
  of a native terminal receipt against the lease of its actor.
\<close>

section \<open>Digests of receipts\<close>

definition TERMINAL_PROTOCOL :: string where
  "TERMINAL_PROTOCOL = ''ccos-native-terminal-receipt-v1''"

text \<open>\<open>str(payload.pop(key, ""))\<close> and the digest of what remains\<close>

definition popped_digest :: "pydict \<Rightarrow> string \<Rightarrow> string \<times> string" where
  "popped_digest d key =
     (py_str (dict_get d key (PStr [])), canonical_json_digest (PDict (dict_remove key d)))"

definition admission_identity :: "pydict \<Rightarrow> pydict" where
  "admission_identity d =
     map (\<lambda>k. (k, dict_get d k PNone))
       ([''repository'', ''installed_runtime'', ''allowed_paths'', ''validation_commands'',
         ''human_authorization_verifier'']
        @ (if ''acceptance_sources'' \<in> set (map fst d) then [''acceptance_sources''] else []))"

definition claimed_digest :: "pydict \<Rightarrow> bool \<Rightarrow> (string \<times> string) res" where
  "claimed_digest d terminal =
     (if terminal then Inr (popped_digest d ''receipt_digest'')
      else if ''evidence_sha256'' \<in> set (map fst d) then Inr (popped_digest d ''evidence_sha256'')
      else if ''admission_sha256'' \<in> set (map fst d)
      then Inr (py_str (dict_get d ''admission_sha256'' (PStr [])),
                canonical_json_digest (PDict (admission_identity d)))
      else Inl (AuthorityError ''evidence payload has no recognized digest field''))"

text \<open>\<open>json.loads(canonical_json(item.payload))\<close>, whose methods need a dict\<close>

definition evidence_document :: "evidence \<Rightarrow> pydict res" where
  "evidence_document item =
     bindE (loads (canonical_json (ed_payload item))) (\<lambda>v.
     case as_mapping v of
       Some d \<Rightarrow> Inr d | None \<Rightarrow> Inl (AttributeError ''object has no attribute get''))"

definition verify_evidence_digest :: "evidence \<Rightarrow> bool \<Rightarrow> unit res" where
  "verify_evidence_digest item terminal =
     bindE (evidence_document item) (\<lambda>d.
     let is_terminal = (py_str (dict_get d ''protocol_version'' (PStr [])) = TERMINAL_PROTOCOL)
     in requireE (is_terminal = terminal)
          (AuthorityError (if is_terminal then ''native terminal receipts require the attested evidence path''
             else ''terminal evidence has the wrong receipt protocol''))
       (bindE (claimed_digest d is_terminal) (\<lambda>(claimed, expected).
        requireE (claimed \<noteq> [] \<and> claimed = ed_digest item \<and> expected = ed_digest item)
          (AuthorityError ''evidence digest does not match its canonical payload'') (Inr ()))))"

section \<open>Recording evidence\<close>

definition insert_evidence :: "evidence \<Rightarrow> store \<Rightarrow> store res" where
  "insert_evidence item db =
     (let text = canonical_json (ed_payload item)
      in case find_evidence db (ed_evidence_id item) of
           Some r \<Rightarrow> requireE (er_digest r = ed_digest item \<and> er_payload_json r = text)
             (RequestConflict ''evidence identifier was rebound'') (Inr db)
         | None \<Rightarrow> insert_evidence_row
             \<lparr>er_evidence_id = ed_evidence_id item, er_campaign_id = ed_campaign_id item,
              er_node_id = ed_node_id item, er_kind = evidence_kind_value (ed_kind item),
              er_digest = ed_digest item, er_candidate_head = ed_candidate_head item,
              er_payload_json = text\<rparr> db)"

definition record_evidence :: "pyval + evidence \<Rightarrow> store \<Rightarrow> evidence res \<times> store" where
  "record_evidence evidence_arg db =
     (case bindE (given evidence_from_dict evidence_arg) (\<lambda>item.
           bindE (verify_evidence_digest item False) (\<lambda>_. Inr item)) of
        Inl err \<Rightarrow> (Inl err, db)
      | Inr item \<Rightarrow> transaction (\<lambda>db. bindE (insert_evidence item db) (\<lambda>db1. Inr (item, db1))) db)"

section \<open>Attesting a terminal receipt\<close>

text \<open>The receipt repeats the binding of its actor; the comparisons are made in the source's
  order, since the conversions of the later ones may raise.\<close>

definition terminal_binding ::
  "evidence \<Rightarrow> pyval \<Rightarrow> actor \<Rightarrow> actor_row \<Rightarrow> lease_row \<Rightarrow> campaign_snapshot \<Rightarrow> bool res" where
  "terminal_binding item payload a r l s =
     (let field = (\<lambda>k. py_get payload k PNone)
      in all_res
        [Inr (lr_state l = ''ACTIVE'' \<and> ar_used r \<and> nonempty_opt (ar_bound_request_id r)
            \<and> nonempty_opt (ar_identity_digest r) \<and> ac_campaign_id a = ed_campaign_id item
            \<and> ac_node_id a = ed_node_id item \<and> lr_campaign_id l = ed_campaign_id item
            \<and> Some (lr_node_id l) = ed_node_id item),
         bindE (field ''role'') (\<lambda>v. Inr (py_eq (PStr (actor_role_value (ac_role a))) v)),
         bindE (field ''native_thread_id'') (\<lambda>v. Inr (py_eq (PStr (ac_native_thread_id a)) v)),
         bindE (get_int payload ''fencing_epoch'' (- 1)) (\<lambda>i. Inr (lr_fencing_epoch l = i)),
         bindE (get_int payload ''cancellation_epoch'' (- 1)) (\<lambda>i. Inr (lr_cancellation_epoch l = i)),
         bindE (get_int payload ''authority_epoch'' (- 1)) (\<lambda>i. Inr (ac_authority_epoch a = i)),
         Inr (cs_authority_epoch s = ac_authority_epoch a
            \<and> cs_cancellation_epoch s = lr_cancellation_epoch l),
         bindE (get_str payload ''native_turn_id'' []) (\<lambda>t. Inr (t \<noteq> []))])"

definition review_binding :: "evidence \<Rightarrow> pydict \<Rightarrow> actor \<Rightarrow> campaign_snapshot \<Rightarrow> bool res" where
  "review_binding item d a s =
     (case (nonempty_opt (ac_principal_id a), as_mapping (dict_get d ''result_payload'' PNone)) of
        (True, Some result) \<Rightarrow> all_res
          [Inr (py_eq (dict_get result ''reviewer_id'' PNone) (py_opt_str (ac_principal_id a))),
           bindE (snapshot_node s (py_str (py_opt_str (ed_node_id item)))) (\<lambda>n.
             Inr (ns_candidate_head n = ed_candidate_head item))]
      | _ \<Rightarrow> Inr False)"

definition attest_fresh ::
  "host \<Rightarrow> evidence \<Rightarrow> pydict \<Rightarrow> string \<Rightarrow> string \<Rightarrow> store \<Rightarrow> (evidence \<times> store) res" where
  "attest_fresh h item d operation_id operation_digest db =
     (let actor_id = py_str (dict_get d ''actor_id'' (PStr []));
          lease_id = py_str (dict_get d ''lease_id'' (PStr []))
      in case find_actor_lease db actor_id lease_id of
           None \<Rightarrow> Inl (AuthorityError ''terminal receipt actor lease is missing'')
         | Some (r, l) \<Rightarrow>
             bindE (bindE (loads (ar_actor_json r)) actor_from_dict) (\<lambda>a.
             bindE (load_snapshot h db (ed_campaign_id item)) (\<lambda>s.
             bindE (terminal_binding item (PDict d) a r l s) (\<lambda>bound.
             requireAll
               [(bound, AuthorityError ''terminal receipt differs from the active native actor binding''),
                (py_eq (py_opt_str (ed_candidate_head item)) (dict_get d ''candidate_head'' PNone),
                 AuthorityError ''terminal receipt candidate head was changed'')]
            (bindE (if ac_role a \<in> {AR_REVIEWER, AR_CLOSURE_REVIEWER} then review_binding item d a s
                    else Inr True) (\<lambda>assigned.
             requireE assigned
               (AuthorityError ''review receipt is not bound to its assigned reviewer and frozen head'')
            (bindE (begin_operation operation_id (Some (ed_campaign_id item)) ''ATTEST_NATIVE_TERMINAL_RECEIPT''
               operation_digest (Some (cs_revision s)) db) (\<lambda>db1.
             bindE (insert_evidence item db1) (\<lambda>db2.
             Inr (item, finish_operation operation_id
               (PDict
                 [(''evidence_id'', PStr (ed_evidence_id item)), (''digest'', PStr (ed_digest item)),
                  (''actor_id'', PStr actor_id), (''lease_id'', PStr lease_id),
                  (''native_thread_id'', dict_get d ''native_thread_id'' PNone),
                  (''native_turn_id'', dict_get d ''native_turn_id'' PNone),
                  (''principal_id'', py_opt_str (ac_principal_id a))]) db2))))))))))"

definition attest_tx :: "host \<Rightarrow> evidence \<Rightarrow> pydict \<Rightarrow> store \<Rightarrow> (evidence \<times> store) res" where
  "attest_tx h item d db =
     (let operation_id = ''attest:'' @ ed_evidence_id item;
          operation_digest = canonical_json_digest (evidence_to_dict item)
      in bindE (operation_result db operation_id operation_digest) (\<lambda>prior.
         case prior of
           Some _ \<Rightarrow> Inr (item, db)
         | None \<Rightarrow> attest_fresh h item d operation_id operation_digest db))"

definition record_terminal_evidence :: "host \<Rightarrow> pyval + evidence \<Rightarrow> store \<Rightarrow> evidence res \<times> store" where
  "record_terminal_evidence h evidence_arg db =
     (case bindE (given evidence_from_dict evidence_arg) (\<lambda>item.
           requireE (ed_kind item \<in> {VK_GIT, VK_REVIEW})
             (AuthorityError ''terminal evidence kind must be GIT or REVIEW'')
          (bindE (verify_evidence_digest item True) (\<lambda>_.
           bindE (evidence_document item) (\<lambda>d. Inr (item, d))))) of
        Inl err \<Rightarrow> (Inl err, db)
      | Inr (item, d) \<Rightarrow> transaction (attest_tx h item d) db)"

definition verify_terminal_evidence_attestation ::
  "string \<Rightarrow> string \<Rightarrow> string \<Rightarrow> string \<Rightarrow> string \<Rightarrow> string \<Rightarrow> string option \<Rightarrow> store \<Rightarrow> pyval res" where
  "verify_terminal_evidence_attestation evidence_id digest actor_id lease_id native_thread_id
     native_turn_id principal_id db =
     (let missing = AuthorityError ''native terminal receipt has no completed attestation''
      in case find_operation db (''attest:'' @ evidence_id) of
           None \<Rightarrow> Inl missing
         | Some r \<Rightarrow>
             requireE (or_status r = ''CONFIRMED'' \<and> nonempty_opt (or_result_json r)) missing
            (bindE (loads (opt_text (or_result_json r))) (\<lambda>result.
             requireE (py_eq result (PDict
                 [(''evidence_id'', PStr evidence_id), (''digest'', PStr digest),
                  (''actor_id'', PStr actor_id), (''lease_id'', PStr lease_id),
                  (''native_thread_id'', PStr native_thread_id), (''native_turn_id'', PStr native_turn_id),
                  (''principal_id'', py_opt_str principal_id)]))
               (AuthorityError ''native terminal receipt attestation tuple differs'') (Inr result))))"

section \<open>Reading evidence\<close>

definition evidence_of_row :: "evidence_row \<Rightarrow> evidence res" where
  "evidence_of_row r =
     bindE (loads (er_payload_json r)) (\<lambda>payload.
     evidence_from_dict (PDict
       [(''evidence_id'', PStr (er_evidence_id r)), (''campaign_id'', PStr (er_campaign_id r)),
        (''node_id'', py_opt_str (er_node_id r)), (''kind'', PStr (er_kind r)),
        (''digest'', PStr (er_digest r)), (''candidate_head'', py_opt_str (er_candidate_head r)),
        (''payload'', payload)]))"

definition get_evidence :: "string \<Rightarrow> store \<Rightarrow> evidence option res" where
  "get_evidence evidence_id db =
     (case find_evidence db evidence_id of
        None \<Rightarrow> Inr None
      | Some r \<Rightarrow> bindE (evidence_of_row r) (\<lambda>item. Inr (Some item)))"

definition find_evidence_by_digest ::
  "string \<Rightarrow> string \<Rightarrow> string \<Rightarrow> evidence_kind \<Rightarrow> string \<Rightarrow> store \<Rightarrow> evidence list res" where
  "find_evidence_by_digest campaign_id node_id digest kind candidate_head db =
     mapE evidence_of_row (sort_key er_evidence_id
       (filter (\<lambda>r. er_campaign_id r = campaign_id \<and> er_node_id r = Some node_id \<and> er_digest r = digest
            \<and> er_kind r = evidence_kind_value kind \<and> er_candidate_head r = Some candidate_head)
         (db_evidence db)))"

section \<open>Reviews and findings\<close>

text \<open>\<open>SET state=?, receipt_json=COALESCE(receipt_json, ?)\<close>\<close>

definition update_review :: "string \<Rightarrow> string option \<Rightarrow> review_row \<Rightarrow> review_row" where
  "update_review state receipt r =
     r\<lparr>rr_state := state,
       rr_receipt_json := (case rr_receipt_json r of None \<Rightarrow> receipt | Some t \<Rightarrow> Some t)\<rparr>"

definition review_tx ::
  "string \<Rightarrow> string \<Rightarrow> string \<Rightarrow> string \<Rightarrow> string \<Rightarrow> string \<Rightarrow> pydict option \<Rightarrow> store \<Rightarrow> (unit \<times> store) res" where
  "review_tx review_id campaign_id node_id cohort_digest candidate_head state receipt db =
     (let text = map_option (\<lambda>d. canonical_json (PDict d)) receipt
      in case find (\<lambda>r. rr_review_id r = review_id) (db_reviews db) of
           Some r \<Rightarrow>
             requireAll
               [(rr_campaign_id r = campaign_id \<and> rr_node_id r = node_id \<and> rr_cohort_digest r = cohort_digest
                   \<and> opt_text (rr_candidate_head r) = candidate_head,
                 RequestConflict ''review identifier was rebound''),
                (rr_receipt_json r = None \<or> text = None \<or> rr_receipt_json r = text,
                 RequestConflict ''frozen review receipt was rebound'')]
               (Inr ((), db\<lparr>db_reviews := map (\<lambda>q. if rr_review_id q = review_id
                    then update_review state text q else q) (db_reviews db)\<rparr>))
         | None \<Rightarrow>
             bindE (insert_review_row
               \<lparr>rr_review_id = review_id, rr_campaign_id = campaign_id, rr_node_id = node_id,
                rr_cohort_digest = cohort_digest, rr_candidate_head = Some candidate_head,
                rr_state = state, rr_receipt_json = text\<rparr> db) (\<lambda>db1. Inr ((), db1)))"

definition record_review ::
  "string \<Rightarrow> string \<Rightarrow> string \<Rightarrow> string \<Rightarrow> string \<Rightarrow> string \<Rightarrow> pydict option \<Rightarrow> store \<Rightarrow> unit res \<times> store" where
  "record_review review_id campaign_id node_id cohort_digest candidate_head state receipt db =
     transaction (review_tx review_id campaign_id node_id cohort_digest candidate_head state receipt) db"

definition record_finding :: "host \<Rightarrow> string \<Rightarrow> string \<Rightarrow> finding \<Rightarrow> store \<Rightarrow> unit res" where
  "record_finding h campaign_id node_id finding db =
     bindE (get_snapshot h db campaign_id) (\<lambda>s.
     bindE (snapshot_node s node_id) (\<lambda>n.
     requireE (fi_finding_id finding \<in> set (map fi_finding_id (ns_findings n @ ns_closure_findings n)))
       (TransitionError ''findings must first be frozen by the lifecycle reducer'') (Inr ())))"

section \<open>Runtime installations\<close>

definition installation_fields :: "string list" where
  "installation_fields =
     [''installation_id'', ''source_commit'', ''bundle_digest'', ''install_transaction'',
      ''protocol_version'', ''schema_compatibility'', ''host_capability_probe_version'']"

definition insert_installation :: "pydict \<Rightarrow> string \<Rightarrow> store \<Rightarrow> store res" where
  "insert_installation d raw db =
     bindE (mapE (\<lambda>k. bind_text (dict_get d k PNone)) installation_fields) (\<lambda>bound.
     let column = (\<lambda>j. opt_text (bound ! j))
     in constraint (None \<notin> set bound) ''NOT NULL constraint failed: runtime_installations''
          (Inr (db\<lparr>db_installations := db_installations db @
            [\<lparr>ir_installation_id = column 0, ir_source_commit = column 1, ir_bundle_digest = column 2,
              ir_install_transaction = column 3, ir_protocol_version = column 4,
              ir_schema_compatibility = column 5, ir_host_capability_probe_version = column 6,
              ir_installation_json = raw\<rparr>]\<rparr>)))"

definition installation_tx :: "pydict \<Rightarrow> store \<Rightarrow> (unit \<times> store) res" where
  "installation_tx d db =
     (let raw = canonical_json (PDict d)
      in bindE (bind_text (dict_get d ''installation_id'' PNone)) (\<lambda>key.
         case find (\<lambda>r. Some (ir_installation_id r) = key) (db_installations db) of
           Some r \<Rightarrow> requireE (ir_installation_json r = raw)
             (RequestConflict ''runtime installation identifier was rebound'') (Inr ((), db))
         | None \<Rightarrow> bindE (insert_installation d raw db) (\<lambda>db1. Inr ((), db1))))"

definition record_runtime_installation :: "pydict \<Rightarrow> store \<Rightarrow> unit res \<times> store" where
  "record_runtime_installation d db =
     (let missing = filter (\<lambda>k. \<not> py_truthy (dict_get d k PNone)) installation_fields
      in if missing \<noteq> []
         then (Inl (StoreError (''runtime installation is missing fields: ''
                 @ py_repr (PList (map PStr missing)))), db)
         else transaction (installation_tx d) db)"

definition list_runtime_installations :: "store \<Rightarrow> pyval list res" where
  "list_runtime_installations db =
     mapE (\<lambda>r. loads (ir_installation_json r)) (sort_key ir_installation_id (db_installations db))"

section \<open>Legacy archives\<close>

definition archive_classifications :: "string set" where
  "archive_classifications = {''LEGACY_ARCHIVED_UNRESOLVED'', ''LEGACY_ARCHIVED_TERMINAL_EVIDENCE''}"

definition archive_tx ::
  "archive_row \<Rightarrow> pydict \<Rightarrow> store \<Rightarrow> (pydict \<times> store) res" where
  "archive_tx row record db =
     (case find (\<lambda>r. gr_archive_id r = gr_archive_id row) (db_archives db) of
        Some r \<Rightarrow> requireE (gr_archive_json r = gr_archive_json row)
          (RequestConflict ''legacy archive identifier was rebound'') (Inr (record, db))
      | None \<Rightarrow> Inr (record, db\<lparr>db_archives := db_archives db @ [row]\<rparr>))"

definition record_legacy_archive ::
  "string \<Rightarrow> string \<Rightarrow> string \<Rightarrow> string \<Rightarrow> string \<Rightarrow> pyval \<Rightarrow> string option \<Rightarrow> store \<Rightarrow> pydict res \<times> store" where
  "record_legacy_archive archive_id source_path digest last_state classification evidence translated_outcome db =
     (if classification \<notin> archive_classifications
      then (Inl (StoreError ''legacy archive classification is not permitted''), db)
      else if translated_outcome \<noteq> None
      then (Inl (StoreError ''legacy archives must never translate into campaign outcomes''), db)
      else
        let record =
          [(''archive_id'', PStr archive_id), (''source_path'', PStr source_path),
           (''digest'', PStr digest), (''last_state'', PStr last_state),
           (''classification'', PStr classification), (''evidence'', evidence),
           (''translated_outcome'', PNone)]
        in transaction (archive_tx
             \<lparr>gr_archive_id = archive_id, gr_source_path = source_path, gr_digest = digest,
              gr_last_state = last_state, gr_classification = classification,
              gr_evidence_json = canonical_json evidence, gr_archive_json = canonical_json (PDict record)\<rparr>
             record) db)"

definition list_legacy_archives :: "store \<Rightarrow> pyval list res" where
  "list_legacy_archives db =
     mapE (\<lambda>r. loads (gr_archive_json r)) (sort_key gr_archive_id (db_archives db))"

end
