(* ===== verification/Ed25519.thy ===== *)
theory Ed25519
  imports Sha256 Base64
begin

text \<open>
  \<open>ed25519.py\<close>: the strict verification of Ed25519 signatures, in extended coordinates over
  unbounded integers, and SHA-512 (FIPS 180-4), which it takes from \<open>hashlib\<close>, on 64-bit
  words.  Bytes are natural numbers below 256.
\<close>

section \<open>SHA-512\<close>

type_synonym w64 = "64 word"

text \<open>The first 64 bits of the fractional parts of the cube roots of the first 80 primes, in decimal.\<close>

definition sha512_k :: "w64 list" where
  "sha512_k = [
     4794697086780616226, 8158064640168781261, 13096744586834688815, 16840607885511220156,
     4131703408338449720, 6480981068601479193, 10538285296894168987, 12329834152419229976,
     15566598209576043074, 1334009975649890238, 2608012711638119052, 6128411473006802146,
     8268148722764581231, 9286055187155687089, 11230858885718282805, 13951009754708518548,
     16472876342353939154, 17275323862435702243, 1135362057144423861, 2597628984639134821,
     3308224258029322869, 5365058923640841347, 6679025012923562964, 8573033837759648693,
     10970295158949994411, 12119686244451234320, 12683024718118986047, 13788192230050041572,
     14330467153632333762, 15395433587784984357, 489312712824947311, 1452737877330783856,
     2861767655752347644, 3322285676063803686, 5560940570517711597, 5996557281743188959,
     7280758554555802590, 8532644243296465576, 9350256976987008742, 10552545826968843579,
     11727347734174303076, 12113106623233404929, 14000437183269869457, 14369950271660146224,
     15101387698204529176, 15463397548674623760, 17586052441742319658, 1182934255886127544,
     1847814050463011016, 2177327727835720531, 2830643537854262169, 3796741975233480872,
     4115178125766777443, 5681478168544905931, 6601373596472566643, 7507060721942968483,
     8399075790359081724, 8693463985226723168, 9568029438360202098, 10144078919501101548,
     10430055236837252648, 11840083180663258601, 13761210420658862357, 14299343276471374635,
     14566680578165727644, 15097957966210449927, 16922976911328602910, 17689382322260857208,
     500013540394364858, 748580250866718886, 1242879168328830382, 1977374033974150939,
     2944078676154940804, 3659926193048069267, 4368137639120453308, 4836135668995329356,
     5532061633213252278, 6448918945643986474, 6902733635092675308, 7801388544844847127]"

text \<open>The same of the square roots of the first 8 primes.\<close>

definition sha512_init :: "w64 list" where
  "sha512_init = [
     7640891576956012808, 13503953896175478587, 4354685564936845355, 11912009170470909681,
     5840696475078001361, 11170449401992604703, 2270897969802886507, 6620516959819538809]"

definition rotr64 :: "nat \<Rightarrow> w64 \<Rightarrow> w64" where
  "rotr64 n x = drop_bit n x OR push_bit (64 - n) x"

definition sigma512_0 :: "w64 \<Rightarrow> w64" where
  "sigma512_0 x = rotr64 28 x XOR rotr64 34 x XOR rotr64 39 x"

definition sigma512_1 :: "w64 \<Rightarrow> w64" where
  "sigma512_1 x = rotr64 14 x XOR rotr64 18 x XOR rotr64 41 x"

definition schedule512_0 :: "w64 \<Rightarrow> w64" where
  "schedule512_0 x = rotr64 1 x XOR rotr64 8 x XOR drop_bit 7 x"

definition schedule512_1 :: "w64 \<Rightarrow> w64" where
  "schedule512_1 x = rotr64 19 x XOR rotr64 61 x XOR drop_bit 6 x"

text \<open>The message schedule, kept with the newest word first.\<close>

fun sha512_extend :: "nat \<Rightarrow> w64 list \<Rightarrow> w64 list" where
  "sha512_extend 0 ws = ws"
| "sha512_extend (Suc n) ws =
     sha512_extend n ((schedule512_1 (ws ! 1) + ws ! 6 + schedule512_0 (ws ! 14) + ws ! 15) # ws)"

fun sha512_round :: "w64 list \<Rightarrow> w64 \<times> w64 \<Rightarrow> w64 list" where
  "sha512_round [a, b, c, d, e, f, g, h] (k, w) =
     (let t1 = h + sigma512_1 e + ((e AND f) XOR (NOT e AND g)) + k + w;
          t2 = sigma512_0 a + ((a AND b) XOR (a AND c) XOR (b AND c))
      in [t1 + t2, a, b, c, d + t1, e, f, g])"
| "sha512_round s _ = s"

definition sha512_block :: "w64 list \<Rightarrow> w64 list \<Rightarrow> w64 list" where
  "sha512_block s ws = map2 (+) s (foldl sha512_round s (zip sha512_k (rev (sha512_extend 64 (rev ws)))))"

definition be_word64 :: "nat list \<Rightarrow> w64" where
  "be_word64 bs = of_nat (foldl (\<lambda>n b. 256 * n + b) 0 bs)"

definition sha512_pad :: "nat list \<Rightarrow> nat list" where
  "sha512_pad bs =
     (let l = length bs
      in bs @ [128] @ replicate ((239 - l mod 128) mod 128) 0 @ be_bytes 16 (8 * l))"

definition sha512_bytes :: "nat list \<Rightarrow> nat list" where
  "sha512_bytes bs =
     concat (map (\<lambda>w. be_bytes 8 (unat w))
       (foldl sha512_block sha512_init (map (\<lambda>c. map be_word64 (chunks 8 c)) (chunks 128 (sha512_pad bs)))))"

section \<open>The field and the curve\<close>

definition FIELD_PRIME :: int where
  "FIELD_PRIME = 2 ^ 255 - 19"

definition GROUP_ORDER :: nat where
  "GROUP_ORDER = 2 ^ 252 + 27742317777372353535851937790883648493"

definition COFACTOR :: nat where
  "COFACTOR = 8"

text \<open>Python's \<open>pow(b, e, m)\<close>, by squaring\<close>

function pow_mod :: "int \<Rightarrow> nat \<Rightarrow> int \<Rightarrow> int" where
  "pow_mod b e m =
     (if e = 0 then 1 mod m
      else let half = pow_mod (b * b mod m) (e div 2) m
           in if odd e then b * half mod m else half)"
  by pat_completeness auto
termination by (relation "measure (\<lambda>(b, e, m). e)") simp_all

declare pow_mod.simps [simp del]

definition CURVE_D :: int where
  "CURVE_D = (- 121665 * pow_mod 121666 (nat (FIELD_PRIME - 2)) FIELD_PRIME) mod FIELD_PRIME"

definition SQRT_MINUS_ONE :: int where
  "SQRT_MINUS_ONE = pow_mod 2 (nat ((FIELD_PRIME - 1) div 4)) FIELD_PRIME"

type_synonym point = "int \<times> int \<times> int \<times> int"

definition IDENTITY :: point where
  "IDENTITY = (0, 1, 1, 0)"

definition point_add :: "point \<Rightarrow> point \<Rightarrow> point" where
  "point_add left right =
     (let (x1, y1, z1, t1) = left; (x2, y2, z2, t2) = right;
          a = ((y1 - x1) * (y2 - x2)) mod FIELD_PRIME;
          b = ((y1 + x1) * (y2 + x2)) mod FIELD_PRIME;
          c = (2 * CURVE_D * t1 * t2) mod FIELD_PRIME;
          d = (2 * z1 * z2) mod FIELD_PRIME;
          e = (b - a) mod FIELD_PRIME;
          f = (d - c) mod FIELD_PRIME;
          g = (d + c) mod FIELD_PRIME;
          h = (b + a) mod FIELD_PRIME
      in ((e * f) mod FIELD_PRIME, (g * h) mod FIELD_PRIME, (f * g) mod FIELD_PRIME, (e * h) mod FIELD_PRIME))"

definition point_double :: "point \<Rightarrow> point" where
  "point_double p =
     (let (x, y, z, _) = p;
          a = (x * x) mod FIELD_PRIME;
          b = (y * y) mod FIELD_PRIME;
          c = (2 * z * z) mod FIELD_PRIME;
          h = (a + b) mod FIELD_PRIME;
          e = (h - (x + y) * (x + y)) mod FIELD_PRIME;
          g = (a - b) mod FIELD_PRIME;
          f = (c + g) mod FIELD_PRIME
      in ((e * f) mod FIELD_PRIME, (g * h) mod FIELD_PRIME, (f * g) mod FIELD_PRIME, (e * h) mod FIELD_PRIME))"

text \<open>The loop of \<open>_scalar_multiply\<close>, on \<open>result\<close>, \<open>addend\<close> and \<open>scalar\<close>\<close>

function scalar_loop :: "point \<Rightarrow> point \<Rightarrow> nat \<Rightarrow> point" where
  "scalar_loop result addend scalar =
     (if scalar = 0 then result
      else scalar_loop (if odd scalar then point_add result addend else result)
             (point_double addend) (scalar div 2))"
  by pat_completeness auto
termination by (relation "measure (\<lambda>(r, a, n). n)") simp_all

declare scalar_loop.simps [simp del]

definition scalar_multiply :: "point \<Rightarrow> nat \<Rightarrow> point" where
  "scalar_multiply p scalar = scalar_loop IDENTITY p scalar"

definition points_equal :: "point \<Rightarrow> point \<Rightarrow> bool" where
  "points_equal left right \<longleftrightarrow>
     (let (x1, y1, z1, _) = left; (x2, y2, z2, _) = right
      in (x1 * z2 - x2 * z1) mod FIELD_PRIME = 0 \<and> (y1 * z2 - y2 * z1) mod FIELD_PRIME = 0)"

definition is_identity :: "point \<Rightarrow> bool" where
  "is_identity p \<longleftrightarrow> (let (x, y, z, _) = p in x mod FIELD_PRIME = 0 \<and> (y - z) mod FIELD_PRIME = 0)"

definition is_on_curve :: "int \<Rightarrow> int \<Rightarrow> bool" where
  "is_on_curve x y \<longleftrightarrow>
     (let x_squared = (x * x) mod FIELD_PRIME; y_squared = (y * y) mod FIELD_PRIME
      in (y_squared - x_squared - 1 - CURVE_D * x_squared * y_squared) mod FIELD_PRIME = 0)"

section \<open>Decoding a point\<close>

text \<open>\<open>int.from_bytes(bs, "little")\<close>\<close>

fun from_little :: "nat list \<Rightarrow> nat" where
  "from_little [] = 0"
| "from_little (b # bs) = b + 256 * from_little bs"

text \<open>The root of \<open>x\<^sup>2 = u / v\<close> that the exponentiation finds, if there is one.\<close>

definition recover_x :: "int \<Rightarrow> int \<Rightarrow> int option" where
  "recover_x u v =
     (let v_cubed = (v * v * v) mod FIELD_PRIME;
          v_seventh = (v_cubed * v_cubed * v) mod FIELD_PRIME;
          x = (u * v_cubed * pow_mod ((u * v_seventh) mod FIELD_PRIME) (nat ((FIELD_PRIME - 5) div 8)) FIELD_PRIME)
                mod FIELD_PRIME;
          root_check = (v * x * x) mod FIELD_PRIME
      in if root_check = (- u) mod FIELD_PRIME then Some ((x * SQRT_MINUS_ONE) mod FIELD_PRIME)
         else if root_check \<noteq> u then None else Some x)"

definition decode_point :: "nat list \<Rightarrow> point option" where
  "decode_point encoded =
     (if length encoded \<noteq> 32 then None
      else
        let number = int (from_little encoded);
            x_sign = number div 2 ^ 255;
            y = number mod 2 ^ 255
        in if FIELD_PRIME \<le> y then None
           else
             let y_squared = (y * y) mod FIELD_PRIME;
                 u = (y_squared - 1) mod FIELD_PRIME;
                 v = (CURVE_D * y_squared + 1) mod FIELD_PRIME
             in if v = 0 then None
                else case recover_x u v of
                    None \<Rightarrow> None
                  | Some x0 \<Rightarrow>
                      if x0 = 0 \<and> x_sign \<noteq> 0 then None
                      else let x = (if x0 mod 2 \<noteq> x_sign then FIELD_PRIME - x0 else x0)
                           in if \<not> is_on_curve x y then None else Some (x, y, 1, (x * y) mod FIELD_PRIME))"

definition is_strict_subgroup_point :: "point \<Rightarrow> bool" where
  "is_strict_subgroup_point p \<longleftrightarrow>
     \<not> is_identity (scalar_multiply p COFACTOR) \<and> is_identity (scalar_multiply p GROUP_ORDER)"

definition BASE_POINT :: "point option" where
  "BASE_POINT = decode_point (0x58 # replicate 31 0x66)"

section \<open>Verification\<close>

definition ed25519_verify :: "nat list \<Rightarrow> nat list \<Rightarrow> nat list \<Rightarrow> bool" where
  "ed25519_verify public_key signature message \<longleftrightarrow>
     (if length public_key \<noteq> 32 \<or> length signature \<noteq> 64 then False
      else
        let encoded_r = take 32 signature; scalar_s = from_little (drop 32 signature)
        in if GROUP_ORDER \<le> scalar_s then False
           else case (decode_point public_key, decode_point encoded_r, BASE_POINT) of
               (Some public_point, Some signature_point, Some base_point) \<Rightarrow>
                 if \<not> is_strict_subgroup_point public_point then False
                 else if \<not> is_strict_subgroup_point signature_point then False
                 else
                   let challenge = from_little (sha512_bytes (encoded_r @ public_key @ message)) mod GROUP_ORDER
                   in points_equal (scalar_multiply base_point scalar_s)
                        (point_add signature_point (scalar_multiply public_point challenge))
             | _ \<Rightarrow> False)"

end
