(* ===== verification/Store_Human.thy ===== *)
theory Store_Human
  imports Store_Core Ed25519
begin

text \<open>
  The transitions that a human authorizes: the check of the signed receipt against the snapshot
  and the event, and the transaction that consumes the receipt together with the transition.
\<close>

section \<open>The signature\<close>

definition decode_signature :: "string \<Rightarrow> string \<Rightarrow> (nat list \<times> nat list) res" where
  "decode_signature encoded_public_key encoded_signature =
     (let invalid = AuthorityError ''human authorization receipt signature encoding is invalid''
      in case (b64_decode encoded_public_key, b64_decode encoded_signature) of
           (Some public_key, Some signature) \<Rightarrow>
             requireAll
               [(b64_encode public_key = encoded_public_key \<and> b64_encode signature = encoded_signature, invalid),
                (length public_key = 32 \<and> length signature = 64,
                 AuthorityError ''human authorization receipt signature dimensions are invalid'')]
               (Inr (public_key, signature))
         | _ \<Rightarrow> Inl invalid)"

definition verify_human_authorization_signature :: "campaign_snapshot \<Rightarrow> pydict \<Rightarrow> unit res" where
  "verify_human_authorization_signature s receipt =
     bindE (py_get (sp_publication_authority (cs_spec s)) ''human_authorization'' PNone) (\<lambda>v.
     case as_mapping v of
       None \<Rightarrow> Inl (AuthorityError ''approved specification has no human authorization verifier'')
     | Some verifier \<Rightarrow>
         requireE (py_eq (dict_get verifier ''algorithm'' PNone) (PStr ''ED25519'')
             \<and> py_eq (dict_get receipt ''signature_algorithm'' PNone) (PStr ''ED25519''))
           (AuthorityError ''human authorization receipt signature algorithm mismatch'')
        (bindE (decode_signature (py_str (dict_get verifier ''public_key_base64'' (PStr [])))
             (py_str (dict_get receipt ''signature_base64'' (PStr [])))) (\<lambda>(public_key, signature).
         requireE (ed25519_verify public_key signature
             (utf8 (canonical_json (PDict (dict_remove ''signature_base64'' receipt)))))
           (AuthorityError ''human authorization receipt signature is invalid'') (Inr ()))))"

section \<open>The bindings of a receipt\<close>

definition receipt_text :: "pydict \<Rightarrow> string \<Rightarrow> string" where
  "receipt_text receipt k = py_strip (py_str (dict_get receipt k (PStr [])))"

fun expected_kind :: "event_type \<Rightarrow> string option" where
  "expected_kind EV_AUTHORIZE_REPAIR = Some ''repair_authorized''"
| "expected_kind EV_AUTHORIZE_PUBLICATION = Some ''publication_authorized''"
| "expected_kind _ = None"

text \<open>A number is compared after \<open>int(observed)\<close> when that conversion works, a text after
  \<open>str(observed or "")\<close>.\<close>

fun binding_holds :: "pyval \<Rightarrow> pyval \<Rightarrow> bool" where
  "binding_holds (PInt i) observed =
     (case py_int observed of Inr j \<Rightarrow> j = i | Inl _ \<Rightarrow> py_eq observed (PInt i))"
| "binding_holds PNone observed = py_eq observed PNone"
| "binding_holds expected observed =
     py_eq (PStr (if py_truthy observed then py_str observed else [])) expected"

definition exact_bindings :: "string \<Rightarrow> campaign_snapshot \<Rightarrow> string \<Rightarrow> node_snapshot \<Rightarrow> pydict" where
  "exact_bindings kind s node_id n =
     [(''event_kind'', PStr kind),
      (''campaign_id'', PStr (sp_campaign_id (cs_spec s))),
      (''specification_digest'', PStr (sp_specification_digest (cs_spec s))),
      (''specification_revision'', PInt (sp_specification_revision (cs_spec s))),
      (''store_revision'', PInt (cs_revision s)),
      (''authority_epoch'', PInt (cs_authority_epoch s)),
      (''cancellation_epoch'', PInt (cs_cancellation_epoch s)),
      (''node_id'', PStr node_id),
      (''candidate_head'', py_opt_str (ns_candidate_head n))]"

definition check_bindings :: "pydict \<Rightarrow> pydict \<Rightarrow> unit res" where
  "check_bindings bindings receipt =
     requireAll (map (\<lambda>(k, expected). (binding_holds expected (dict_get receipt k PNone),
         AuthorityError (''human authorization receipt '' @ k @ '' binding mismatch''))) bindings) (Inr ())"

definition validate_human_authorization_receipt ::
  "campaign_snapshot \<Rightarrow> event \<Rightarrow> pydict \<Rightarrow> (string \<times> string) res" where
  "validate_human_authorization_receipt s e receipt =
     (case expected_kind (ev_event_type e) of
        None \<Rightarrow> Inl (AuthorityError ''event is not a human authorization transition'')
      | Some kind \<Rightarrow>
          requireE (nonempty_opt (ev_node_id e)) (AuthorityError ''human authorization requires an exact node'')
         (bindE (snapshot_node s (opt_text (ev_node_id e))) (\<lambda>n.
          let receipt_id = receipt_text receipt ''receipt_id'';
              authorized_by = receipt_text receipt ''authorized_by''
          in requireE (receipt_id \<noteq> [] \<and> authorized_by \<noteq> [])
               (AuthorityError ''human authorization receipt requires receipt_id and authorized_by'')
            (bindE (verify_human_authorization_signature s receipt) (\<lambda>_.
             bindE (get_str (sp_publication_authority (cs_spec s)) ''authorized_by'' []) (\<lambda>recorded.
             requireE (py_strip recorded \<noteq> [] \<and> authorized_by = py_strip recorded)
               (AuthorityError ''human authorization receipt authorized_by differs from recorded authority'')
            (bindE (get_strs (PDict receipt) ''frozen_blocker_ids'') (\<lambda>supplied.
             bindE (check_bindings (exact_bindings kind s (opt_text (ev_node_id e)) n) receipt) (\<lambda>_.
             requireE (supplied = map fi_finding_id (filter fi_blocking (ns_findings n)))
               (AuthorityError ''human authorization receipt frozen_blocker_ids binding mismatch'')
            (let digest = canonical_json_digest (PDict receipt)
             in bindE (py_get (ev_payload e) ''authorization_receipt_id'' PNone) (\<lambda>event_id.
                bindE (py_get (ev_payload e) ''authorization_receipt_digest'' PNone) (\<lambda>event_digest.
                requireE (py_eq event_id (PStr receipt_id) \<and> py_eq event_digest (PStr digest))
                  (AuthorityError ''authorization event does not bind the exact receipt identity and digest'')
                  (Inr (receipt_id, digest))))))))))))))"

section \<open>Consuming a receipt\<close>

definition human_tx :: "host \<Rightarrow> event \<Rightarrow> pydict \<Rightarrow> store \<Rightarrow> (reduction \<times> store) res" where
  "human_tx h e receipt db =
     bindE (load_snapshot h db (ev_campaign_id e)) (\<lambda>s.
     let receipt_id = receipt_text receipt ''receipt_id'';
         receipt_digest = canonical_json_digest (PDict receipt)
     in requireE (receipt_id \<noteq> []) (AuthorityError ''human authorization receipt requires receipt_id'')
       (case find_operation db receipt_id of
          Some r \<Rightarrow>
            Inl (if or_payload_digest r \<noteq> receipt_digest
                 then RequestConflict ''human authorization receipt identifier was rebound''
                 else AuthorityError ''human authorization receipt was already consumed'')
        | None \<Rightarrow>
            bindE (validate_human_authorization_receipt s e receipt) (\<lambda>validated.
            requireE (validated = (receipt_id, receipt_digest))
              (AuthorityError ''human authorization receipt canonical identity changed'')
           (bindE (begin_operation receipt_id (Some (ev_campaign_id e))
              (''HUMAN_AUTHORIZATION:'' @ event_type_value (ev_event_type e)) receipt_digest
              (Some (cs_revision s)) db) (\<lambda>db1.
            bindE (apply_event_tx h e None db1) (\<lambda>((next, effects), db2).
            Inr ((next, effects), finish_operation receipt_id
              (PDict [(''authorization_receipt_digest'', PStr receipt_digest),
                      (''event_id'', PStr (ev_event_id e)),
                      (''revision'', PInt (cs_revision next))]) db2)))))))"

definition apply_human_authorized_event ::
  "host \<Rightarrow> pyval + event \<Rightarrow> pydict \<Rightarrow> store \<Rightarrow> reduction res \<times> store" where
  "apply_human_authorized_event h event_arg receipt db =
     (case given event_from_dict event_arg of
        Inl err \<Rightarrow> (Inl err, db)
      | Inr e \<Rightarrow> recorded e (human_tx h e receipt) db)"

end
