(* ===== verification/Store_Recovery.thy ===== *)
theory Store_Recovery
  imports Store_Leases
begin

text \<open>
  The recovery of \<open>CampaignStore\<close> after a restart, and its telemetry: the counters that the
  native provider reports, their summary, and the counts of recorded outcomes.
\<close>

section \<open>Recovery\<close>

text \<open>A retained lease must belong to a bound reviewer whose campaign still expects it.\<close>

definition retained_binding :: "actor_row \<Rightarrow> lease_row \<Rightarrow> bool" where
  "retained_binding a l \<longleftrightarrow>
     lr_state l = ''ACTIVE'' \<and> \<not> ar_can_write a \<and> bound_actor_row a
     \<and> ar_role a \<in> {''REVIEWER'', ''CLOSURE_REVIEWER''}"

definition retained_state :: "campaign_snapshot \<Rightarrow> node_snapshot \<Rightarrow> actor_row \<Rightarrow> lease_row \<Rightarrow> bool res" where
  "retained_state s n a l =
     bindE (loads (ar_native_identity_json a)) (\<lambda>identity.
     bindE (loads (ar_actor_json a)) (\<lambda>actor.
     all_res
       [Inr (cs_state s = CS_RUNNING
          \<and> ns_state n = (if ar_role a = ''REVIEWER'' then NS_CHECKS_AND_REVIEW else NS_CLOSURE)
          \<and> cs_active_node_id s = Some (ns_node_id n)),
        bindE (py_get actor ''principal_id'' PNone) (\<lambda>p.
          Inr (list_ex (\<lambda>r. py_eq p (PStr r)) (sp_required_review_cohort (cs_spec s)))),
        Inr (ar_authority_epoch a = cs_authority_epoch s \<and> lr_cancellation_epoch l = cs_cancellation_epoch s
          \<and> lr_fencing_epoch l = ns_fencing_epoch n
          \<and> Some (canonical_json_digest identity) = ar_identity_digest a)]))"

definition check_retained :: "host \<Rightarrow> string list \<Rightarrow> store \<Rightarrow> string \<Rightarrow> unit res" where
  "check_retained h retained db lease_id =
     (let denied = StoreError ''only an active bound read-only reviewer may survive recovery''
      in case find_lease db lease_id of
           None \<Rightarrow> Inl denied
         | Some l \<Rightarrow>
             (case find_actor db (lr_actor_id l) of
                None \<Rightarrow> Inl denied
              | Some a \<Rightarrow>
                  requireE (retained_binding a l) denied
                 (bindE (load_snapshot h db (lr_campaign_id l)) (\<lambda>s.
                  bindE (snapshot_node s (lr_node_id l)) (\<lambda>n.
                  bindE (retained_state s n a l) (\<lambda>same.
                  requireAll
                    [(same, StoreError ''read-only recovery state or identity changed''),
                     (list_all (\<lambda>q. lr_campaign_id q = sp_campaign_id (cs_spec s) \<and> lr_state q = ''ACTIVE''
                          \<longrightarrow> lr_lease_id q \<in> set retained) (db_leases db),
                      StoreError ''read-only recovery must retain the complete active cohort'')] (Inr ())))))))"

definition orphan_lease :: "string list \<Rightarrow> lease_row \<Rightarrow> bool" where
  "orphan_lease retained l \<longleftrightarrow> lr_state l = ''ACTIVE'' \<and> lr_lease_id l \<notin> set retained"

definition recovered_store :: "string list \<Rightarrow> store \<Rightarrow> store" where
  "recovered_store retained db =
     (let leases = map (\<lambda>l. if orphan_lease retained l then l\<lparr>lr_state := ''INVALIDATED''\<rparr> else l) (db_leases db);
          inactive = map lr_lease_id (filter (\<lambda>l. lr_state l \<noteq> ''ACTIVE'') leases)
      in db\<lparr>db_outbox := map (\<lambda>x. if xr_state x = ''EXECUTING'' then x\<lparr>xr_state := ''AMBIGUOUS''\<rparr> else x)
              (db_outbox db),
            db_leases := leases,
            db_locks := map (\<lambda>k. if (case kr_lease_id k of None \<Rightarrow> False | Some i \<Rightarrow> i \<in> set inactive)
              then k\<lparr>kr_lease_id := None\<rparr> else k) (db_locks db)\<rparr>)"

definition recover_tx :: "host \<Rightarrow> string list \<Rightarrow> store \<Rightarrow> (pydict \<times> store) res" where
  "recover_tx h retained db =
     bindE (mapE (check_retained h retained db) retained) (\<lambda>_.
     Inr ([(''ambiguous_effects'', PInt (int (length (filter (\<lambda>x. xr_state x = ''EXECUTING'') (db_outbox db))))),
           (''invalidated_leases'', PInt (int (length (filter (orphan_lease retained) (db_leases db)))))],
          recovered_store retained db))"

definition recover_after_restart :: "host \<Rightarrow> string list \<Rightarrow> store \<Rightarrow> pydict res \<times> store" where
  "recover_after_restart h retained db =
     (if \<not> distinct retained then (Inl (StoreError ''read-only recovery contains duplicate leases''), db)
      else transaction (recover_tx h retained) db)"

section \<open>Native usage\<close>

definition NATIVE_USAGE_CATEGORY :: string where
  "NATIVE_USAGE_CATEGORY = ''native_provider_usage''"

text \<open>The counters with their native names.\<close>

definition NATIVE_USAGE_FIELDS :: "(string \<times> string) list" where
  "NATIVE_USAGE_FIELDS =
     [(''inputTokens'', ''input_tokens''), (''cachedInputTokens'', ''cached_input_tokens''),
      (''cacheWriteInputTokens'', ''cache_write_input_tokens''), (''outputTokens'', ''output_tokens''),
      (''reasoningOutputTokens'', ''reasoning_output_tokens''), (''totalTokens'', ''total_tokens'')]"

definition usage_names :: "string list" where
  "usage_names = map snd NATIVE_USAGE_FIELDS"

definition native_count :: "pydict \<Rightarrow> string \<Rightarrow> int option" where
  "native_count d k =
     (case dict_get d k (if k = ''cacheWriteInputTokens'' then PInt 0 else PNone) of
        PInt i \<Rightarrow> if 0 \<le> i \<and> i < 2 ^ 63 then Some i else None
      | _ \<Rightarrow> None)"

fun native_counts :: "pydict \<Rightarrow> (string \<times> string) list \<Rightarrow> (string \<times> int) list option" where
  "native_counts d [] = Some []"
| "native_counts d ((k, name) # fs) =
     (case native_count d k of
        None \<Rightarrow> None
      | Some i \<Rightarrow> map_option (Cons (name, i)) (native_counts d fs))"

definition count_of :: "(string \<times> int) list \<Rightarrow> string \<Rightarrow> int" where
  "count_of counts name = (case map_of counts name of Some i \<Rightarrow> i | None \<Rightarrow> 0)"

definition native_usage_breakdown :: "pyval \<Rightarrow> (string \<times> int) list option" where
  "native_usage_breakdown v =
     (case as_mapping v of
        None \<Rightarrow> None
      | Some d \<Rightarrow>
          (case native_counts d NATIVE_USAGE_FIELDS of
             None \<Rightarrow> None
           | Some r \<Rightarrow>
               if count_of r ''total_tokens'' \<noteq> count_of r ''input_tokens'' + count_of r ''output_tokens''
                  \<or> count_of r ''cached_input_tokens'' > count_of r ''input_tokens''
                  \<or> count_of r ''cache_write_input_tokens'' > count_of r ''input_tokens''
                  \<or> count_of r ''reasoning_output_tokens'' > count_of r ''output_tokens''
               then None else Some r))"

definition usage_value :: "(string \<times> int) list option \<Rightarrow> pyval" where
  "usage_value u = (case u of None \<Rightarrow> PNone | Some r \<Rightarrow> PDict (map (\<lambda>(k, i). (k, PInt i)) r))"

definition identifier_ok :: "pyval \<Rightarrow> bool" where
  "identifier_ok v = (case v of PStr s \<Rightarrow> s \<noteq> [] \<and> length s \<le> 256 | _ \<Rightarrow> False)"

definition usage_report :: "pydict \<Rightarrow> pydict" where
  "usage_report notification =
     (let usage = (case as_mapping (dict_get notification ''tokenUsage'' PNone) of Some d \<Rightarrow> d | None \<Rightarrow> []);
          cumulative = native_usage_breakdown (dict_get usage ''total'' PNone);
          last_usage = native_usage_breakdown (dict_get usage ''last'' PNone)
      in [(''native_thread_id'', dict_get notification ''threadId'' PNone),
          (''native_turn_id'', dict_get notification ''turnId'' PNone),
          (''cumulative'', usage_value cumulative), (''last'', usage_value last_usage),
          (''status'', PStr (if cumulative \<noteq> None \<and> last_usage \<noteq> None then ''observed'' else ''unavailable''))])"

definition native_usage_tx :: "host \<Rightarrow> string \<Rightarrow> pydict \<Rightarrow> store \<Rightarrow> (pyval \<times> store) res" where
  "native_usage_tx h actor_id report db =
     (let telemetry_id = ''native-usage:'' @ canonical_json_digest
            (PDict [(''actor_id'', PStr actor_id), (''report'', PDict report)]);
          denied = AuthorityError ''native usage does not match a durably bound actor''
      in case find_actor db actor_id of
           None \<Rightarrow> Inl denied
         | Some a \<Rightarrow>
             requireE (bound_actor_row a \<and> PStr (ar_native_thread_id a) = dict_get report ''native_thread_id'' PNone)
               denied
            (case find (\<lambda>t. tr_telemetry_id t = telemetry_id) (db_telemetry db) of
               Some t \<Rightarrow> bindE (loads (tr_payload_json t)) (\<lambda>v. Inr (v, db))
             | None \<Rightarrow>
                 bindE (load_snapshot h db (ar_campaign_id a)) (\<lambda>s.
                 let payload = PDict
                   ([(''protocol_version'', PStr ''ccos-native-provider-usage-v1''),
                     (''source'', PStr ''thread/tokenUsage/updated''),
                     (''actor_id'', PStr actor_id), (''role'', PStr (ar_role a)),
                     (''node_id'', py_opt_str (ar_node_id a)),
                     (''recorded_at_utc'', PStr (h_now h)),
                     (''recorded_campaign_state'', PStr (campaign_state_value (cs_state s)))] @ report)
                 in bindE (insert_telemetry_row
                      \<lparr>tr_telemetry_id = telemetry_id, tr_campaign_id = Some (ar_campaign_id a),
                       tr_category = NATIVE_USAGE_CATEGORY, tr_payload_json = canonical_json payload\<rparr> db)
                      (\<lambda>db1. Inr (payload, db1)))))"

definition record_native_usage :: "host \<Rightarrow> string \<Rightarrow> pydict \<Rightarrow> store \<Rightarrow> pyval res \<times> store" where
  "record_native_usage h actor_id notification db =
     (if \<not> (identifier_ok (dict_get notification ''threadId'' PNone)
             \<and> identifier_ok (dict_get notification ''turnId'' PNone))
      then (Inl (AuthorityError ''native usage requires exact thread and turn identifiers''), db)
      else transaction (native_usage_tx h actor_id (usage_report notification)) db)"

section \<open>The summary of the usage\<close>

text \<open>\<open>item["cumulative"][name]\<close>; a stored counter is an integer.\<close>

definition usage_count :: "pyval \<Rightarrow> string \<Rightarrow> int res" where
  "usage_count cumulative name =
     bindE (py_item cumulative name) (\<lambda>v.
     case v of PInt i \<Rightarrow> Inr i | _ \<Rightarrow> Inl (TypeError ''counters are compared as integers''))"

definition usage_counts :: "pyval \<Rightarrow> int list res" where
  "usage_counts cumulative = mapE (usage_count cumulative) usage_names"

text \<open>\<open>max(valid, key=...)\<close>: the first report with the greatest key.\<close>

fun latest_usage :: "(int \<times> string \<times> pyval) list \<Rightarrow> pyval option" where
  "latest_usage [] = None"
| "latest_usage [(t, c, v)] = Some v"
| "latest_usage ((t, c, v) # (t', c', v') # rs) =
     latest_usage ((if t < t' \<or> t = t' \<and> c < c' then (t', c', v') else (t, c, v)) # rs)"

definition usage_key :: "pyval \<Rightarrow> (int \<times> string \<times> pyval) res" where
  "usage_key report =
     bindE (py_item report ''cumulative'') (\<lambda>c.
     bindE (usage_count c ''total_tokens'') (\<lambda>t. Inr (t, canonical_json c, c)))"

record actor_usage =
  au_status :: string
  au_totals :: "pyval option"
  au_counts :: "int list"
  au_observed :: int
  au_unavailable :: int
  au_discontinuity :: bool

definition report_observed :: "pyval \<Rightarrow> bool res" where
  "report_observed report = bindE (py_item report ''status'') (\<lambda>v. Inr (py_eq v (PStr ''observed'')))"

fun filterE :: "('a \<Rightarrow> bool res) \<Rightarrow> 'a list \<Rightarrow> 'a list res" where
  "filterE p [] = Inr []"
| "filterE p (x # xs) =
     bindE (p x) (\<lambda>keep. bindE (filterE p xs) (\<lambda>ys. Inr (if keep then x # ys else ys)))"

definition summarize_actor :: "pyval list \<Rightarrow> actor_usage res" where
  "summarize_actor observed =
     bindE (filterE report_observed observed) (\<lambda>valid.
     bindE (mapE usage_key valid) (\<lambda>keys.
     let missing = int (length observed) - int (length valid)
     in case latest_usage keys of
          None \<Rightarrow> Inr \<lparr>au_status = ''unavailable'', au_totals = None, au_counts = [],
            au_observed = int (length valid), au_unavailable = missing, au_discontinuity = False\<rparr>
        | Some cumulative \<Rightarrow>
            bindE (anyE (\<lambda>(_, _, c). anyE (\<lambda>name.
                bindE (usage_count c name) (\<lambda>i.
                bindE (usage_count cumulative name) (\<lambda>j. Inr (i > j)))) usage_names) keys) (\<lambda>discontinuity.
            bindE (usage_counts cumulative) (\<lambda>counts.
            Inr \<lparr>au_status = (if missing \<noteq> 0 \<or> discontinuity then ''partial'' else ''observed''),
              au_totals = Some cumulative, au_counts = counts, au_observed = int (length valid),
              au_unavailable = missing, au_discontinuity = discontinuity\<rparr>))))"

definition actor_usage_to_dict :: "actor_row \<Rightarrow> actor_usage \<Rightarrow> pyval" where
  "actor_usage_to_dict a u = PDict
     [(''actor_id'', PStr (ar_actor_id a)), (''role'', PStr (ar_role a)),
      (''node_id'', py_opt_str (ar_node_id a)),
      (''native_thread_id'', if ar_used a then PStr (ar_native_thread_id a) else PNone),
      (''status'', PStr (au_status u)),
      (''totals'', case au_totals u of None \<Rightarrow> PNone | Some c \<Rightarrow> c),
      (''observed_report_count'', PInt (au_observed u)),
      (''unavailable_report_count'', PInt (au_unavailable u)),
      (''counter_discontinuity'', PBool (au_discontinuity u))]"

text \<open>The sum of the counters of the measured actors.\<close>

definition add_counts :: "int list \<Rightarrow> int list \<Rightarrow> int list" where
  "add_counts totals counts = (if counts = [] then totals else map2 (+) totals counts)"

definition usage_totals :: "actor_usage list \<Rightarrow> int list" where
  "usage_totals us = foldl (\<lambda>totals u. add_counts totals (au_counts u)) (map (\<lambda>_. 0) usage_names) us"

definition usage_status :: "actor_usage list \<Rightarrow> string" where
  "usage_status us =
     (if list_all (\<lambda>u. au_totals u = None) us then ''unavailable''
      else if list_all (\<lambda>u. au_status u = ''observed'') us then ''observed'' else ''partial'')"

definition usage_document :: "string \<Rightarrow> actor_row list \<Rightarrow> actor_usage list \<Rightarrow> pydict" where
  "usage_document campaign_id actors us =
     (let measured = length (filter (\<lambda>u. au_totals u \<noteq> None) us)
      in [(''campaign_id'', PStr campaign_id), (''source'', PStr ''native_app_server_notifications''),
          (''status'', PStr (usage_status us)),
          (''totals'', if measured = 0 then PNone
             else PDict (map2 (\<lambda>name i. (name, PInt i)) usage_names (usage_totals us))),
          (''coverage'', PDict
            [(''scope'', PStr ''bound_native_actor_threads''),
             (''actor_count'', PInt (int (length actors))),
             (''bound_actor_count'', PInt (int (length (filter ar_used actors)))),
             (''measured_actor_count'', PInt (int measured)),
             (''unavailable_actor_ids'', PList (map (\<lambda>(a, u). PStr (ar_actor_id a))
                (filter (\<lambda>(a, u). au_status u = ''unavailable'') (zip actors us)))),
             (''unbound_parent_usage'', PStr ''unavailable''),
             (''complete_provider_spend'', PBool False)]),
          (''actors'', PList (map2 actor_usage_to_dict actors us))])"

definition report_actor :: "pyval \<Rightarrow> (pyval \<times> pyval) res" where
  "report_actor report =
     bindE (py_item report ''actor_id'') (\<lambda>i.
     requireE (hashable i) (TypeError ''unhashable type'') (Inr (i, report)))"

definition usage_summary :: "host \<Rightarrow> string \<Rightarrow> store \<Rightarrow> pydict res" where
  "usage_summary h campaign_id db =
     bindE (load_snapshot h db campaign_id) (\<lambda>_.
     let actors = sort_key ar_actor_id (filter (\<lambda>a. ar_campaign_id a = campaign_id) (db_actors db))
     in bindE (mapE (\<lambda>t. loads (tr_payload_json t))
          (filter (\<lambda>t. tr_campaign_id t = Some campaign_id \<and> tr_category t = NATIVE_USAGE_CATEGORY)
            (db_telemetry db))) (\<lambda>reports.
        bindE (mapE report_actor reports) (\<lambda>by_actor.
        bindE (mapE (\<lambda>a. summarize_actor
            (map snd (filter (\<lambda>(i, _). py_eq i (PStr (ar_actor_id a))) by_actor))) actors) (\<lambda>us.
        Inr (usage_document campaign_id actors us)))))"

section \<open>Counts of outcomes\<close>

definition telemetry_counts :: "string option \<Rightarrow> store \<Rightarrow> pydict" where
  "telemetry_counts campaign_id db =
     (let rows = filter (\<lambda>t. case campaign_id of None \<Rightarrow> True | Some c \<Rightarrow> tr_campaign_id t = Some c)
            (db_telemetry db);
          categories = sort (remdups (map tr_category rows))
      in foldl (\<lambda>counts c. dict_set c (PInt (int (length (filter (\<lambda>t. tr_category t = c) rows)))) counts)
           (map (\<lambda>c. (c, PInt 0)) [''completed'', ''failed'', ''stopped'', ''denied'', ''loop_prevented''])
           categories)"

end
