(* ===== verification/Store_Steps.thy ===== *)
theory Store_Steps
  imports Store_Contract Store_Evidence Store_Human Store_Recovery
begin

text \<open>
  Every operation of \<open>CampaignStore\<close> that changes the store, as one step of a state machine, and
  its decomposition into writes.  A write is a change of the tables on which the invariants rest
  (campaigns, leases, locks and the outbox), made the only ways the operations make it; the
  other tables may change in any way that keeps request identifiers bound.  The locale \<open>store_relation\<close> lifts a relation that every
  write respects to every sequence of operations, and \<open>store_invariant\<close> does so for a property of
  stores.
\<close>

section \<open>Writes\<close>

text \<open>Request identifiers stay bound to their payload digests.\<close>

definition requests_kept :: "store \<Rightarrow> store \<Rightarrow> bool" where
  "requests_kept db db' \<longleftrightarrow> (\<forall>i r. find_operation db i = Some r \<longrightarrow>
     (\<exists>r'. find_operation db' i = Some r' \<and> or_payload_digest r' = or_payload_digest r))"

lemma requests_kept_refl [simp]: "requests_kept db db"
  by (simp add: requests_kept_def)

lemma requests_kept_trans: "requests_kept a b \<Longrightarrow> requests_kept b c \<Longrightarrow> requests_kept a c"
  unfolding requests_kept_def by metis

lemma requests_same: "db_operations db' = db_operations db \<Longrightarrow> requests_kept db db'"
  by (simp add: requests_kept_def find_operation_def)

lemma requests_fields [simp]:
  "requests_kept db (u\<lparr>db_campaigns := x1\<rparr>) = requests_kept db u"
  "requests_kept db (u\<lparr>db_nodes := x2\<rparr>) = requests_kept db u"
  "requests_kept db (u\<lparr>db_dependencies := x3\<rparr>) = requests_kept db u"
  "requests_kept db (u\<lparr>db_actors := x4\<rparr>) = requests_kept db u"
  "requests_kept db (u\<lparr>db_leases := x5\<rparr>) = requests_kept db u"
  "requests_kept db (u\<lparr>db_outbox := x6\<rparr>) = requests_kept db u"
  "requests_kept db (u\<lparr>db_evidence := x7\<rparr>) = requests_kept db u"
  "requests_kept db (u\<lparr>db_reviews := x8\<rparr>) = requests_kept db u"
  "requests_kept db (u\<lparr>db_findings := x9\<rparr>) = requests_kept db u"
  "requests_kept db (u\<lparr>db_locks := x10\<rparr>) = requests_kept db u"
  "requests_kept db (u\<lparr>db_events := x11\<rparr>) = requests_kept db u"
  "requests_kept db (u\<lparr>db_telemetry := x12\<rparr>) = requests_kept db u"
  "requests_kept db (u\<lparr>db_installations := x13\<rparr>) = requests_kept db u"
  "requests_kept db (u\<lparr>db_archives := x14\<rparr>) = requests_kept db u"
  by (simp_all add: requests_kept_def find_operation_def)

lemma requests_appended [simp]:
  assumes "requests_kept db u"
  shows "requests_kept db (u\<lparr>db_operations := db_operations u @ xs\<rparr>)"
proof -
  have "find P (ys @ xs) = Some x" if "find P ys = Some x" for P :: "operation_row \<Rightarrow> bool" and ys x
    using that by (induction ys) (auto split: if_splits)
  with assms show ?thesis by (fastforce simp: requests_kept_def find_operation_def)
qed

lemma requests_finished [simp]: "requests_kept db (finish_operation i v db)"
proof -
  let ?f = "\<lambda>r. if or_request_id r = i
          then r\<lparr>or_status := ''CONFIRMED'', or_result_json := Some (canonical_json v)\<rparr> else r"
  have "find (\<lambda>r. or_request_id r = j) (map ?f rs) = map_option ?f (find (\<lambda>r. or_request_id r = j) rs)"
    for j and rs :: "operation_row list"
    by (induction rs) auto
  then show ?thesis
    unfolding requests_kept_def find_operation_def finish_operation_def by (simp del: map_map)
qed

definition same_core :: "store \<Rightarrow> store \<Rightarrow> bool" where
  "same_core db db' \<longleftrightarrow> db_campaigns db' = db_campaigns db \<and> db_leases db' = db_leases db
     \<and> db_locks db' = db_locks db \<and> db_outbox db' = db_outbox db \<and> requests_kept db db'"

lemma same_core_refl [simp]: "same_core db db"
  by (simp add: same_core_def)

lemma same_core_trans: "same_core a b \<Longrightarrow> same_core b c \<Longrightarrow> same_core a c"
  by (auto simp: same_core_def intro: requests_kept_trans)

inductive write_by :: "bool \<Rightarrow> host \<Rightarrow> store \<Rightarrow> store \<Rightarrow> bool" for any h where
  other: "same_core db db' \<Longrightarrow> write_by any h db db'"
| campaign: "snapshot_initial spec = Inr s \<Longrightarrow> spec_storable (h_normcase h) spec
    \<Longrightarrow> mapE (check_active_scope h spec) (filter (\<lambda>r. cr_state r \<notin> terminal_state_values) (db_campaigns db)) = Inr us
    \<Longrightarrow> insert_campaign_row (campaign_row_of s) db = Inr db' \<Longrightarrow> write_by any h db db'"
| transition: "any \<or> event_readable e \<Longrightarrow> load_snapshot h db (ev_campaign_id e) = Inr s
    \<Longrightarrow> reduce_event s e = Inr (t, fx) \<Longrightarrow> persist_transition e t fx digest db = Inr db' \<Longrightarrow> write_by any h db db'"
| lease: "insert_lease_row r db = Inr db1 \<Longrightarrow> upsert_lock_row k db1 = Inr db' \<Longrightarrow> write_by any h db db'"
| release: "mark_released l db = Inr db' \<Longrightarrow> write_by any h db db'"
| recover: "write_by any h db (recovered_store retained db)"
| prepare: "load_snapshot h db (ef_campaign_id intent) = Inr s \<Longrightarrow> cs_state s \<noteq> CS_CANCELLED
    \<Longrightarrow> ef_state intent = ES_PREPARED \<Longrightarrow> insert_effect intent v db = Inr db' \<Longrightarrow> write_by any h db db'"
| effect: "find_effect db i = Some x \<Longrightarrow> xr_state x = effect_state_value current
    \<Longrightarrow> target = current \<or> target \<in> EFFECT_TRANSITIONS current
    \<Longrightarrow> write_effect x target result v db = Inr db' \<Longrightarrow> write_by any h db db'"

abbreviation write_step :: "host \<Rightarrow> store \<Rightarrow> store \<Rightarrow> bool" where
  "write_step \<equiv> write_by False"

abbreviation writes :: "bool \<Rightarrow> host \<Rightarrow> store \<Rightarrow> store \<Rightarrow> bool" where
  "writes any h \<equiv> (write_by any h)\<^sup>*\<^sup>*"

lemma write_by_mono: "write_by any h a b \<Longrightarrow> write_by True h a b"
  by (induction rule: write_by.induct) (auto intro: write_by.intros)

lemma writes_refl [simp]: "writes any h db db" by (rule rtranclp.rtrancl_refl)

lemma writes_trans [trans]: "writes any h a b \<Longrightarrow> writes any h b c \<Longrightarrow> writes any h a c" by (rule rtranclp_trans)

lemma writes_other: "same_core db db' \<Longrightarrow> writes any h db db'"
  by (rule r_into_rtranclp) (rule write_by.other)

section \<open>The pieces of the operations\<close>

lemma begin_writes: "begin_operation i c k d v db = Inr db' \<Longrightarrow> writes any h db db'"
  by (rule writes_other) (auto simp: begin_operation_def insert_operation_row_def same_core_def res_simps)

lemma finish_same: "same_core db (finish_operation i v db)"
  by (simp add: same_core_def) (simp add: finish_operation_def)

lemma finish_writes: "writes any h db db' \<Longrightarrow> writes any h db (finish_operation i v db')"
  by (erule writes_trans) (rule writes_other [OF finish_same])

lemma sync_writes: "sync_snapshot s db = Inr db' \<Longrightarrow> writes any h db db'"
  by (rule writes_other) (simp add: same_core_def sync_tables requests_same)

lemma dependency_writes:
  assumes "foldE (\<lambda>d. insert_dependency_row (m d)) ds db = Inr db'"
  shows "same_core db db'"
  by (rule foldE_invariant [OF assms, where P = "same_core db"])
    (auto simp: insert_dependency_row_def same_core_def res_simps)

lemma dependencies_writes:
  assumes "foldE (\<lambda>n. foldE (\<lambda>d. insert_dependency_row (m n d)) (f n)) ns db = Inr db'"
  shows "writes any h db db'"
proof (rule writes_other, rule foldE_invariant [OF assms, where P = "same_core db"])
  fix n u v assume "same_core db u" and "foldE (\<lambda>d. insert_dependency_row (m n d)) (f n) u = Inr v"
  then show "same_core db v" by (blast intro: same_core_trans dependency_writes)
qed (rule same_core_refl)

lemma actor_writes: "insert_actor_record a db = Inr db' \<Longrightarrow> writes any h db db'"
  by (rule writes_other) (auto simp: insert_actor_record_def insert_actor_row_def same_core_def Let_def res_simps
      split: option.splits)

lemma evidence_writes: "insert_evidence i db = Inr db' \<Longrightarrow> writes any h db db'"
  by (rule writes_other) (auto simp: insert_evidence_def insert_evidence_row_def same_core_def Let_def res_simps
      split: option.splits)

lemma telemetry_same: "same_core db (add_telemetry_row r db)"
  by (simp add: add_telemetry_row_def same_core_def)

lemma write_lease_writes: "write_lease q fence s db = Inr (l, db') \<Longrightarrow> writes any h db db'"
  unfolding write_lease_def bindE_Inr_iff
proof (elim exE conjE)
  fix db1 l' db2 db3
  assume "insert_actor_record (lq_actor q) db = Inr db1"
    and lease: "insert_lease_row
       \<lparr>lr_lease_id = ls_lease_id l', lr_campaign_id = ls_campaign_id l',
        lr_node_id = ls_node_id l', lr_resource_key = ls_resource_key l',
        lr_actor_id = ls_actor_id l', lr_fencing_epoch = ls_fencing_epoch l',
        lr_cancellation_epoch = ls_cancellation_epoch l',
        lr_state = lease_state_value (ls_state l'), lr_expires_at = ls_expires_at l',
        lr_lease_json = canonical_json (lease_to_dict l')\<rparr> db1 = Inr db2"
    and lock: "upsert_lock_row
       \<lparr>kr_resource_key = lq_resource_key q, kr_fencing_epoch = fence, kr_lease_id = Some (lq_lease_id q),
        kr_campaign_id = Some (lq_campaign_id q), kr_node_id = Some (lq_node_id q)\<rparr> db2 = Inr db3"
    and "Inr (l', db3) = Inr (l, db')"
  then have "writes any h db db1" "write_by any h db1 db'"
    by (auto intro: actor_writes write_by.lease)
  then show "writes any h db db'" by simp
qed

lemma apply_fresh_writes:
  assumes "any \<or> event_readable e" and "apply_fresh h e digest db = Inr ((t, fx), db')"
  shows "writes any h db db'"
proof (rule apply_fresh_parts [OF assms(2)])
  fix s db1 db2
  assume s: "load_snapshot h db (ev_campaign_id e) = Inr s"
    and b: "begin_operation (ev_event_id e) (Some (ev_campaign_id e)) (event_type_value (ev_event_type e))
        digest (Some (ev_expected_revision e)) db = Inr db1"
    and red: "reduce_event s e = Inr (t, fx)" and p: "persist_transition e t fx digest db1 = Inr db2"
    and d: "db' = finish_operation (ev_event_id e) (snapshot_result t fx) db2"
  have "load_snapshot h db1 (ev_campaign_id e) = Inr s"
    using s load_cong [of db1 db] begin_tables [OF b] by simp
  then have "write_by any h db1 db2" by (rule write_by.transition [OF assms(1) _ red p])
  with begin_writes [OF b] have "writes any h db db2" by (rule rtranclp.rtrancl_into_rtrancl)
  then show ?thesis unfolding d by (rule finish_writes)
qed

lemma apply_event_tx_writes:
  assumes "any \<or> event_readable e" and "apply_event_tx h e d db = Inr ((t, fx), db')"
  shows "writes any h db db'"
  using assms by (auto simp: apply_event_tx_def Let_def bindE_Inr_iff intro: apply_fresh_writes split: option.splits)

section \<open>The operations\<close>

text \<open>A transaction that performs writes when it commits.\<close>

lemma transaction_writes:
  assumes "\<And>x db'. body db = Inr (x, db') \<Longrightarrow> writes any h db db'"
  shows "writes any h db (snd (transaction body db))"
  using assms by (auto simp: transaction_def split: sum.splits)

lemma recorded_writes:
  assumes "\<And>x db'. body db = Inr (x, db') \<Longrightarrow> writes any h db db'"
  shows "writes any h db (snd (recorded e body db))"
proof -
  have 1: "writes any h db (snd (transaction body db))" by (rule transaction_writes [OF assms])
  have 2: "writes any h db' (record_rejection e err db')" for err db'
    by (rule writes_other) (simp add: record_rejection_def telemetry_same)
  show ?thesis
    using 1 writes_trans [OF 1 2] by (auto simp: recorded_def split: sum.splits prod.splits)
qed

lemma create_fresh_writes:
  assumes "snapshot_initial spec = Inr s" "spec_storable (h_normcase h) spec"
    and "create_fresh h spec s i d db = Inr (t, db')"
  shows "writes any h db db'"
proof -
  from assms(3) obtain us db1 db2 db3 db4 where
    0: "mapE (check_active_scope h spec) (filter (\<lambda>r. cr_state r \<notin> terminal_state_values) (db_campaigns db)) = Inr us"
    and 1: "begin_operation i (Some (sp_campaign_id spec)) ''CREATE_CAMPAIGN'' d (Some 0) db = Inr db1"
    and 2: "insert_campaign_row (campaign_row_of s) db1 = Inr db2" and 3: "sync_snapshot s db2 = Inr db3"
    and 4: "foldE (\<lambda>node. foldE (\<lambda>dependency. insert_dependency_row
         \<lparr>dr_campaign_id = sp_campaign_id spec, dr_node_id = nd_node_id node,
          dr_depends_on_node_id = dependency\<rparr>) (nd_dependencies node)) (sp_nodes spec) db3 = Inr db4"
    and d: "db' = finish_operation i (snapshot_result s []) db4"
    by (auto simp: create_fresh_def bindE_Inr_iff)
  note begin_writes [OF 1]
  also have "writes any h db1 db2"
    using 0 begin_tables [OF 1] by (intro r_into_rtranclp write_by.campaign [OF assms(1,2) _ 2]) simp
  also note sync_writes [OF 3]
  also note dependencies_writes [OF 4]
  finally show ?thesis unfolding d by (rule finish_writes)
qed

lemma create_existing_writes: "create_existing h spec s i d r db = Inr (t, db') \<Longrightarrow> writes any h db db'"
  by (auto simp: create_existing_def Let_def res_simps intro: finish_writes begin_writes)

lemma create_campaign_writes:
  assumes "spec_storable (h_normcase h) spec"
  shows "writes any h db (snd (create_campaign h (Inr spec) i d db))"
proof (cases "bindE (verify_digest spec) (\<lambda>_. bindE (snapshot_initial spec) (\<lambda>snapshot.
     requireE (d \<in> {None, Some (canonical_json_digest (campaign_spec_to_dict spec))})
       (RequestConflict ''declared payload digest differs from campaign specification'') (Inr snapshot)))")
  case (Inl err)
  then show ?thesis
    by (auto simp: create_campaign_def given_def Let_def bindE_Inl_iff requireE_def split: sum.splits if_splits)
next
  case (Inr s)
  then have init: "snapshot_initial spec = Inr s" by (auto simp: res_simps)
  obtain i' d' where eq: "create_campaign h (Inr spec) i d db = transaction (create_tx h spec s i' d') db"
    using Inr by (auto simp: create_campaign_def given_def Let_def res_simps)
  show ?thesis
    unfolding eq
    by (rule transaction_writes)
      (auto simp: create_tx_def bindE_Inr_iff split: option.splits
        intro: create_existing_writes create_fresh_writes [OF init assms])
qed

lemma apply_event_writes: "any \<or> event_readable e \<Longrightarrow> writes any h db (snd (apply_event h (Inr e) db))"
  by (auto simp: apply_event_def given_def intro!: recorded_writes intro: apply_event_tx_writes)

lemma human_writes: "any \<or> event_readable e \<Longrightarrow> writes any h db (snd (apply_human_authorized_event h (Inr e) receipt db))"
  unfolding apply_human_authorized_event_def given_def sum.case
  apply (rule recorded_writes)
  apply (clarsimp simp: human_tx_def Let_def res_simps split: option.splits)
  apply (rule finish_writes)
  apply (rule writes_trans, erule begin_writes, erule (1) apply_event_tx_writes)
  done

lemma event_post_init_payload: "event_post_init e = Inr e' \<Longrightarrow> ev_payload e' = py_freeze (ev_payload e)"
  by (auto simp: event_post_init_def res_simps)

lemma single_field_readable:
  assumes "event_post_init e = Inr e'" and "ev_payload e = PDict [(k, PStr v)]" and "k = ''reason'' \<Longrightarrow> v \<noteq> []"
  shows "event_readable e'"
  using assms(2,3) by (auto simp: event_readable_def event_post_init_payload [OF assms(1)] dict_get_def)

lemma budget_event_readable: "budget_event c t i r a x n f = Inr e \<Longrightarrow> event_readable e"
  unfolding budget_event_def bindE_Inr_iff by (elim exE conjE, erule single_field_readable, simp, simp)

lemma cancel_event_readable: "cancel_event s c i r a x reason = Inr e \<Longrightarrow> reason \<noteq> [] \<Longrightarrow> event_readable e"
  unfolding cancel_event_def by (erule single_field_readable, simp, simp)

lemma consume_writes: "writes any h db (snd (store_consume_budget h c t i r a x n f db))"
  by (auto simp: store_consume_budget_def split: sum.splits intro!: apply_event_writes budget_event_readable)

lemma reserve_writes: "writes any h db (snd (reserve_budget_attempt h c t i r a x n f db))"
proof (cases "budget_event c t i r a x n f")
  case (Inr e)
  then have "event_readable e" by (rule budget_event_readable)
  then have "writes any h db db'" if "reserve_tx h e db = Inr (y, db')" for y db'
    using that by (auto simp: reserve_tx_def bindE_Inr_iff split: option.splits intro: apply_event_tx_writes)
  then show ?thesis unfolding reserve_budget_attempt_def Inr sum.case by (rule recorded_writes)
qed (simp add: reserve_budget_attempt_def)

lemma cancel_writes: "any \<or> reason \<noteq> [] \<Longrightarrow> writes any h db (snd (cancel_campaign h c i r a x reason db))"
  by (auto simp: cancel_campaign_def bindE_Inr_iff split: sum.splits intro!: apply_event_writes
      intro: cancel_event_readable)

lemma runtime_writes: "writes any h db (snd (record_runtime_operation i c k p r v db))"
  by (auto simp: record_runtime_operation_def Let_def bindE_Inr_iff split: option.splits
      intro!: transaction_writes finish_writes intro: begin_writes)

lemma acquire_fresh_writes:
  assumes "acquire_fresh h q db = Inr (l, db')"
  shows "writes any h db db'"
proof (cases "ac_role (lq_actor q) \<in> CONCURRENT_READ_ONLY_ACTOR_ROLES")
  case True
  then show ?thesis
    using assms by (auto simp: acquire_fresh_def res_simps intro!: finish_writes
        intro: writes_trans [OF begin_writes write_lease_writes])
next
  case False
  then obtain s n e t fx db1 where e: "acquire_event q (next_fence db (lq_resource_key q) n) = Inr e"
    and run: "apply_event_tx h e (Some (lease_request_digest q)) db = Inr ((t, fx), db1)"
    and l: "write_lease q (next_fence db (lq_resource_key q) n) t db1 = Inr (l, db')"
    using assms by (auto simp: acquire_fresh_def Let_def res_simps)
  have "event_readable e"
    using event_post_init_payload [OF e [unfolded acquire_event_def]]
    by (auto simp: event_readable_def dict_get_def)
  then show ?thesis by (rule writes_trans [OF apply_event_tx_writes [OF disjI2] write_lease_writes]) (rule run, rule l)
qed

lemma acquire_writes: "writes any h db (snd (acquire_lease h q db))"
  by (auto simp: acquire_lease_def acquire_tx_def bindE_Inr_iff split: option.splits
      intro!: transaction_writes intro: acquire_fresh_writes)

lemma bind_writes: "writes any h db (snd (bind_actor h q db))"
  unfolding bind_actor_def
proof (rule transaction_writes)
  fix a db' assume "bind_tx h q db = Inr (a, db')"
  then have "same_core db db'"
    by (auto simp: bind_tx_def bind_fresh_def Let_def begin_operation_def insert_operation_row_def res_simps
        split: option.splits intro!: same_core_trans [OF _ finish_same])
      (simp_all add: same_core_def)
  then show "writes any h db db'" by (rule writes_other)
qed

lemma release_fresh_writes:
  assumes "release_fresh h q l db = Inr (s, db')"
  shows "writes any h db db'"
proof -
  have mark: "writes any h db1 db2" if "mark_released l db1 = Inr db2" for db1 db2
    using that by (intro r_into_rtranclp write_by.release)
  from assms obtain role where "role \<in> CONCURRENT_READ_ONLY_ACTOR_ROLES
      \<and> (\<exists>db1 db2 v. begin_operation (zq_request_id q) (Some (lr_campaign_id l)) ''RELEASE_READ_ONLY_LEASE''
             (release_request_digest q) (Some (zq_expected_revision q)) db = Inr db1
           \<and> mark_released l db1 = Inr db2 \<and> db' = finish_operation (zq_request_id q) v db2)
    \<or> (\<exists>e t fx db1. release_event q l = Inr e
           \<and> apply_event_tx h e (Some (release_request_digest q)) db = Inr ((t, fx), db1)
           \<and> mark_released l db1 = Inr db')"
    by (auto simp: release_fresh_def res_simps split: option.splits if_splits)
  then show ?thesis
  proof (elim disjE conjE exE)
    fix db1 db2 v
    assume "begin_operation (zq_request_id q) (Some (lr_campaign_id l)) ''RELEASE_READ_ONLY_LEASE''
        (release_request_digest q) (Some (zq_expected_revision q)) db = Inr db1"
      and "mark_released l db1 = Inr db2" and "db' = finish_operation (zq_request_id q) v db2"
    then show ?thesis by (auto intro: finish_writes writes_trans [OF begin_writes mark])
  next
    fix e t fx db1
    assume e: "release_event q l = Inr e"
      and run: "apply_event_tx h e (Some (release_request_digest q)) db = Inr ((t, fx), db1)"
      and m: "mark_released l db1 = Inr db'"
    have "event_readable e"
      using e unfolding release_event_def by (rule single_field_readable, simp, simp)
    from apply_event_tx_writes [OF disjI2 [OF this] run] mark [OF m] show ?thesis by (rule writes_trans)
  qed
qed

lemma release_writes: "writes any h db (snd (release_lease h q db))"
  by (auto simp: release_lease_def release_tx_def bindE_Inr_iff split: option.splits
      intro!: transaction_writes intro: release_fresh_writes)

lemma then_get_effect_store [simp]: "snd (then_get_effect i outcome) = snd outcome"
  by (auto simp: then_get_effect_def split: prod.splits sum.splits unit.splits)

lemma prepare_writes: "writes any h db (snd (prepare_effect h i c n k p d db))"
proof (cases "bindE (kind_argument k) (\<lambda>k. requireE (d \<in> {None, Some (canonical_json_digest (PDict p))})
             (RequestConflict ''effect payload digest differs from supplied payload'') (Inr k))")
  case (Inl err)
  then show ?thesis by (simp add: prepare_effect_def)
next
  case (Inr kind)
  have "writes any h db (snd (transaction (prepare_tx h i c n kind p) db))"
  proof (rule transaction_writes)
    fix x db' assume "prepare_tx h i c n kind p db = Inr (x, db')"
    then show "writes any h db db'"
      by (auto simp: prepare_tx_def effect_post_init_def res_simps
          intro!: r_into_rtranclp write_by.prepare [rotated])
  qed
  with Inr show ?thesis by (simp add: prepare_effect_def)
qed

lemma update_writes: "writes any h db (snd (update_effect h i t result expected db))"
proof (cases "state_argument t")
  case (Inl err)
  then show ?thesis by (simp add: update_effect_def)
next
  case (Inr target)
  have "writes any h db (snd (transaction (update_effect_tx h i target result expected) db))"
  proof (rule transaction_writes)
    fix x db' assume run: "update_effect_tx h i target result expected db = Inr (x, db')"
    then obtain y where y: "find_effect db i = Some y"
      by (auto simp: update_effect_tx_def split: option.splits)
    with run obtain current where c: "xr_state y = effect_state_value current"
      and alt: "db' = db \<or> ((target = current \<or> target \<in> EFFECT_TRANSITIONS current)
        \<and> (\<exists>text v. write_effect y target text v db = Inr db'))"
      by (auto simp: update_effect_tx_def Let_def res_simps effect_state_enum.new_Inr
          split: option.splits if_splits)
    from alt show "writes any h db db'"
      by (elim disjE conjE exE) (simp, (rule r_into_rtranclp, rule write_by.effect [OF y c, rotated], assumption, blast)+)
  qed
  with Inr show ?thesis by (simp add: update_effect_def)
qed

lemma evidence_op_writes: "writes any h db (snd (record_evidence i db))"
  by (auto simp: record_evidence_def bindE_Inr_iff split: sum.splits intro!: transaction_writes intro: evidence_writes)

lemma terminal_writes: "writes any h db (snd (record_terminal_evidence h i db))"
proof -
  have "writes any h db db'" if "attest_tx h i d db = Inr (x, db')" for i d x db'
    using that by (auto simp: attest_tx_def attest_fresh_def Let_def res_simps split: option.splits if_splits
        intro!: finish_writes intro: writes_trans [OF begin_writes evidence_writes])
  then show ?thesis
    by (auto simp: record_terminal_evidence_def split: sum.splits intro!: transaction_writes)
qed

lemma review_writes: "writes any h db (snd (record_review i c n d k t r db))"
  unfolding record_review_def
  by (rule transaction_writes, rule writes_other)
    (auto simp: review_tx_def Let_def insert_review_row_def same_core_def res_simps split: option.splits)

lemma installation_writes: "writes any h db (snd (record_runtime_installation d db))"
proof -
  have "same_core db db'" if "insert_installation d raw db = Inr db'" for raw db'
    using that by (auto simp: insert_installation_def Let_def same_core_def res_simps)
  then have "same_core db db'" if "installation_tx d db = Inr (x, db')" for x db'
    using that by (auto simp: installation_tx_def Let_def res_simps split: option.splits)
  then have "writes any h db (snd (transaction (installation_tx d) db))"
    by (intro transaction_writes writes_other)
  then show ?thesis by (simp add: record_runtime_installation_def Let_def)
qed

lemma archive_writes: "writes any h db (snd (record_legacy_archive i p d l k e t db))"
proof -
  have "same_core db db'" if "archive_tx row r db = Inr (x, db')" for row r x db'
    using that by (auto simp: archive_tx_def same_core_def res_simps split: option.splits)
  then have "writes any h db (snd (transaction (archive_tx row r) db))" for row r
    by (intro transaction_writes writes_other)
  then show ?thesis by (simp add: record_legacy_archive_def Let_def)
qed

lemma recover_writes: "writes any h db (snd (recover_after_restart h retained db))"
proof -
  have "writes any h db db'" if "recover_tx h retained db = Inr (x, db')" for x db'
    using that write_by.recover [of any h db retained] by (auto simp: recover_tx_def bindE_Inr_iff)
  then have "writes any h db (snd (transaction (recover_tx h retained) db))" by (rule transaction_writes)
  then show ?thesis by (simp add: recover_after_restart_def)
qed

lemma usage_writes: "writes any h db (snd (record_native_usage h a n db))"
proof -
  have "same_core db db'" if "native_usage_tx h a r db = Inr (x, db')" for r x db'
    using that by (auto simp: native_usage_tx_def Let_def insert_telemetry_row_def same_core_def res_simps
        split: option.splits)
  then have "writes any h db (snd (transaction (native_usage_tx h a r) db))" for r
    by (intro transaction_writes writes_other)
  then show ?thesis by (simp add: record_native_usage_def)
qed

section \<open>Histories\<close>

text \<open>One operation.  Documents given as arguments are readable: a reason is not empty, and a
  specification can be read back from its text.\<close>

inductive operation_by :: "bool \<Rightarrow> host \<Rightarrow> store \<Rightarrow> store \<Rightarrow> bool" for any h where
  create: "spec_storable (h_normcase h) spec \<Longrightarrow> operation_by any h db (snd (create_campaign h (Inr spec) i d db))"
| apply_event: "any \<or> event_readable e \<Longrightarrow> operation_by any h db (snd (apply_event h (Inr e) db))"
| human: "any \<or> event_readable e \<Longrightarrow> operation_by any h db (snd (apply_human_authorized_event h (Inr e) receipt db))"
| consume: "operation_by any h db (snd (store_consume_budget h c t i r a x n f db))"
| reserve: "operation_by any h db (snd (reserve_budget_attempt h c t i r a x n f db))"
| cancel: "any \<or> reason \<noteq> [] \<Longrightarrow> operation_by any h db (snd (cancel_campaign h c i ro ao xo reason db))"
| runtime: "operation_by any h db (snd (record_runtime_operation i c k p res v db))"
| acquire: "operation_by any h db (snd (acquire_lease h q db))"
| bind: "operation_by any h db (snd (bind_actor h bq db))"
| release: "operation_by any h db (snd (release_lease h zq db))"
| prepare: "operation_by any h db (snd (prepare_effect h i c no ka p dg db))"
| update: "operation_by any h db (snd (update_effect h i st result expected db))"
| evidence: "operation_by any h db (snd (record_evidence ev db))"
| terminal: "operation_by any h db (snd (record_terminal_evidence h ev db))"
| review: "operation_by any h db (snd (record_review i c nn dd k t rc db))"
| installation: "operation_by any h db (snd (record_runtime_installation p db))"
| archive: "operation_by any h db (snd (record_legacy_archive i pth dd l k ve tr db))"
| recover: "operation_by any h db (snd (recover_after_restart h retained db))"
| usage: "operation_by any h db (snd (record_native_usage h i p db))"

lemmas operation_writes = create_campaign_writes apply_event_writes human_writes consume_writes reserve_writes
  cancel_writes runtime_writes acquire_writes bind_writes release_writes prepare_writes update_writes
  evidence_op_writes terminal_writes review_writes installation_writes archive_writes recover_writes usage_writes

text \<open>Operations with readable arguments, and operations with any arguments.\<close>

abbreviation store_step :: "host \<Rightarrow> store \<Rightarrow> store \<Rightarrow> bool" where
  "store_step \<equiv> operation_by False"

abbreviation store_call :: "host \<Rightarrow> store \<Rightarrow> store \<Rightarrow> bool" where
  "store_call \<equiv> operation_by True"

lemma step_writes: "operation_by any h db db' \<Longrightarrow> writes any h db db'"
  by (erule operation_by.cases) (simp_all add: operation_writes)

lemma step_call: "operation_by any h a b \<Longrightarrow> store_call h a b"
  by (induction rule: operation_by.induct) (auto intro: operation_by.intros)

abbreviation store_steps :: "host \<Rightarrow> store \<Rightarrow> store \<Rightarrow> bool" where
  "store_steps h \<equiv> (store_step h)\<^sup>*\<^sup>*"

abbreviation store_calls :: "host \<Rightarrow> store \<Rightarrow> store \<Rightarrow> bool" where
  "store_calls h \<equiv> (store_call h)\<^sup>*\<^sup>*"

lemma steps_writes: "(operation_by any h)\<^sup>*\<^sup>* db db' \<Longrightarrow> writes any h db db'"
  by (induction rule: rtranclp_induct) (auto intro: writes_trans step_writes)

definition store_history :: "host \<Rightarrow> store \<Rightarrow> bool" where
  "store_history h db \<longleftrightarrow> store_steps h empty_store db"

lemma steps_calls: "store_steps h a b \<Longrightarrow> store_calls h a b"
  by (induction rule: rtranclp_induct) (auto intro: step_call rtranclp.rtrancl_into_rtrancl)

definition call_history :: "host \<Rightarrow> store \<Rightarrow> bool" where
  "call_history h db \<longleftrightarrow> store_calls h empty_store db"

text \<open>Relations and invariants that any arguments respect, and invariants that need readable ones.\<close>

locale store_relation =
  fixes rel :: "host \<Rightarrow> store \<Rightarrow> store \<Rightarrow> bool"
  assumes refl: "rel h db db"
    and trans: "rel h a b \<Longrightarrow> rel h b c \<Longrightarrow> rel h a c"
    and write_call: "write_by True h a b \<Longrightarrow> rel h a b"
begin

lemma writes: "writes True h a b \<Longrightarrow> rel h a b"
  by (induction rule: rtranclp_induct) (auto intro: refl trans write_call)

lemma calls: "store_calls h a b \<Longrightarrow> rel h a b"
  by (rule writes) (rule steps_writes)

lemma steps: "store_steps h a b \<Longrightarrow> rel h a b"
  by (rule calls) (rule steps_calls)

end

locale store_invariant =
  fixes inv :: "host \<Rightarrow> store \<Rightarrow> bool"
  assumes init: "inv h empty_store"
    and write_step: "write_step h a b \<Longrightarrow> inv h a \<Longrightarrow> inv h b"
begin

lemma writes: "writes False h a b \<Longrightarrow> inv h a \<Longrightarrow> inv h b"
  by (induction rule: rtranclp_induct) (auto intro: write_step)

lemma steps: "store_steps h a b \<Longrightarrow> inv h a \<Longrightarrow> inv h b"
  by (erule writes [OF steps_writes])

lemma history: "store_history h db \<Longrightarrow> inv h db"
  unfolding store_history_def by (erule steps) (rule init)

end

locale call_invariant =
  fixes inv :: "host \<Rightarrow> store \<Rightarrow> bool"
  assumes start: "inv h empty_store"
    and write_call: "write_by True h a b \<Longrightarrow> inv h a \<Longrightarrow> inv h b"
begin

lemma call_writes: "writes True h a b \<Longrightarrow> inv h a \<Longrightarrow> inv h b"
  by (induction rule: rtranclp_induct) (auto intro: write_call)

lemma calls: "store_calls h a b \<Longrightarrow> inv h a \<Longrightarrow> inv h b"
  by (erule call_writes [OF steps_writes])

lemma call_history: "call_history h db \<Longrightarrow> inv h db"
  unfolding call_history_def by (erule calls) (rule start)

end

sublocale call_invariant \<subseteq> store_invariant
  by unfold_locales (auto intro: start write_call dest: write_by_mono)

end
