(* ===== verification/Store_Invariants.thy ===== *)
theory Store_Invariants
  imports Store_Steps
begin

text \<open>
  The invariants of the store and the order in which effects advance, as interpretations of
  \<open>store_invariant\<close> and \<open>store_relation\<close>: the campaign rows agree with reachable snapshots,
  campaigns that are not over share no path of a worktree, a resource has at most one active
  lease, and an effect that was ever recorded keeps its identity and moves only forward.
\<close>

section \<open>Campaign rows\<close>

lemma insert_campaign_shape:
  assumes "insert_campaign_row r db = Inr db'"
  shows "db' = db\<lparr>db_campaigns := db_campaigns db @ [r]\<rparr>" and "\<not> campaign_exists db (cr_campaign_id r)"
  using assms by (auto simp: insert_campaign_row_def res_simps)

lemma initial_agrees:
  assumes "snapshot_initial spec = Inr s" and "spec_storable (h_normcase h) spec"
  shows "row_agrees h (campaign_row_of s) s"
  using initial_storable [OF assms] snapshot_initial_eq(1) [OF assms(1)] reachable.init [OF assms(1)]
  by (simp add: row_agrees_def campaign_row_of_def)

lemma create_keeps_ok:
  assumes "store_ok h db" "snapshot_initial spec = Inr s" "spec_storable (h_normcase h) spec"
    and "insert_campaign_row (campaign_row_of s) db = Inr db'"
  shows "store_ok h db'"
  using assms(1) initial_agrees [OF assms(2,3)] insert_campaign_shape [OF assms(4)]
  by (auto simp: store_ok_def campaign_exists_def list_ex_iff)

lemma same_campaigns:
  "insert_lease_row r db = Inr db' \<Longrightarrow> db_campaigns db' = db_campaigns db"
  "upsert_lock_row k db = Inr db' \<Longrightarrow> db_campaigns db' = db_campaigns db"
  "mark_released l db = Inr db' \<Longrightarrow> db_campaigns db' = db_campaigns db"
  "db_campaigns (recovered_store retained db) = db_campaigns db"
  "insert_effect intent v db = Inr db' \<Longrightarrow> db_campaigns db' = db_campaigns db"
  "write_effect x target result v db = Inr db' \<Longrightarrow> db_campaigns db' = db_campaigns db"
  by (auto simp: insert_lease_row_def upsert_lock_row_def mark_released_def recovered_store_def Let_def
      write_effect_def res_simps split: option.splits if_splits dest!: insert_effect_frame)

text \<open>Only a creation and a transition change the campaign rows.\<close>

lemma campaigns_write_cases [consumes 1, case_names same campaign transition]:
  assumes "write_step h db db'"
  obtains "db_campaigns db' = db_campaigns db"
  | spec s us where "snapshot_initial spec = Inr s" "spec_storable (h_normcase h) spec"
      "mapE (check_active_scope h spec) (filter (\<lambda>r. cr_state r \<notin> terminal_state_values) (db_campaigns db)) = Inr us"
      "insert_campaign_row (campaign_row_of s) db = Inr db'"
  | e s t fx digest where "event_readable e" "load_snapshot h db (ev_campaign_id e) = Inr s"
      "reduce_event s e = Inr (t, fx)" "persist_transition e t fx digest db = Inr db'"
  using assms
proof cases
  case (lease r db1 k)
  then show thesis using same_campaigns(1) [of r db db1] same_campaigns(2) [of k db1 db'] that(1) by simp
qed (auto simp: same_core_def same_campaigns intro: that)

interpretation campaign_rows: store_invariant store_ok
proof
  show "store_ok h empty_store" for h by simp
  fix h a b assume w: "write_step h a b" and ok: "store_ok h a"
  from w show "store_ok h b"
  proof (cases rule: campaigns_write_cases)
    case same
    with ok show ?thesis using store_ok_cong by blast
  next
    case campaign
    then show ?thesis using create_keeps_ok [OF ok] by blast
  next
    case transition
    then show ?thesis using persist_step(1) [OF ok] by blast
  qed
qed

section \<open>Disjoint scopes\<close>

text \<open>A path that patterns of both lists match; the patterns are those whose wildcards start a
  component, for which the overlap test is complete.\<close>

definition shared_path :: "string list \<Rightarrow> string list \<Rightarrow> string \<Rightarrow> bool" where
  "shared_path left right path \<longleftrightarrow> list_all whole_pattern left \<and> list_all whole_pattern right
     \<and> list_ex (\<lambda>p. fnmatchcase (casefold path) (casefold p)) left
     \<and> list_ex (\<lambda>p. fnmatchcase (casefold path) (casefold p)) right"

definition same_worktree :: "host \<Rightarrow> campaign_spec \<Rightarrow> campaign_spec \<Rightarrow> bool" where
  "same_worktree h a b \<longleftrightarrow> casefold (h_resolve h (sp_worktree a)) = casefold (h_resolve h (sp_worktree b))"

definition apart :: "host \<Rightarrow> campaign_snapshot \<Rightarrow> campaign_snapshot \<Rightarrow> bool" where
  "apart h s t \<longleftrightarrow> cs_state s \<notin> TERMINAL_CAMPAIGN_STATES \<and> cs_state t \<notin> TERMINAL_CAMPAIGN_STATES
     \<and> same_worktree h (cs_spec s) (cs_spec t)
     \<longrightarrow> (\<forall>path. \<not> shared_path (sp_allowed_paths (cs_spec s)) (sp_allowed_paths (cs_spec t)) path)"

definition scopes_apart :: "host \<Rightarrow> store \<Rightarrow> bool" where
  "scopes_apart h db \<longleftrightarrow> store_ok h db \<and> (\<forall>c d s t. load_snapshot h db c = Inr s \<and> load_snapshot h db d = Inr t
     \<and> c \<noteq> d \<longrightarrow> apart h s t)"

lemma apart_sym: "apart h s t \<Longrightarrow> apart h t s"
  by (auto simp: apart_def shared_path_def same_worktree_def)

lemma terminal_value: "campaign_state_value c \<in> terminal_state_values \<longleftrightarrow> c \<in> TERMINAL_CAMPAIGN_STATES"
  by (cases c) (simp_all add: terminal_state_values_def TERMINAL_CAMPAIGN_STATES_def)

lemma checked_scope_apart:
  assumes "row_agrees h r t" and "check_active_scope h spec r = Inr ()" and "cs_spec s = spec"
  shows "apart h s t"
proof -
  have st: "spec_storable (h_normcase h) (cs_spec t)"
    using assms(1) by (simp add: row_agrees_def snapshot_storable_def)
  have "bindE (loads (cr_spec_json r)) (campaign_spec_from_dict (h_normcase h) True) = Inr (cs_spec t)"
    using assms(1) spec_doc.wf_enc [OF st] spec_doc.dec_enc [OF st] by (simp add: row_agrees_def)
  with assms(2,3) have "\<not> same_worktree h spec (cs_spec t)
      \<or> scopes_overlap (sp_allowed_paths spec) (sp_allowed_paths (cs_spec t)) = Inr False"
    by (auto simp: check_active_scope_def same_worktree_def res_simps split: if_splits)
  then show ?thesis
    using assms(3) shared_path_overlaps by (fastforce simp: apart_def shared_path_def)
qed

lemma mapE_member: "mapE f xs = Inr ys \<Longrightarrow> x \<in> set xs \<Longrightarrow> \<exists>y. f x = Inr y"
  by (induction xs arbitrary: ys) (auto simp: bindE_Inr_iff)

lemma find_inserted:
  assumes "insert_campaign_row r db = Inr db'"
  shows "find_campaign db' c = (if c = cr_campaign_id r then Some r else find_campaign db c)"
proof -
  have "find (\<lambda>q. cr_campaign_id q = c) (xs @ [r]) = (case find (\<lambda>q. cr_campaign_id q = c) xs of
      Some q \<Rightarrow> Some q | None \<Rightarrow> if cr_campaign_id r = c then Some r else None)" for xs
    by (induction xs) auto
  moreover have "find (\<lambda>q. cr_campaign_id q = cr_campaign_id r) (db_campaigns db) = None"
    using insert_campaign_shape(2) [OF assms] by (auto simp: find_None_set campaign_exists_def list_ex_iff)
  ultimately show ?thesis
    using insert_campaign_shape(1) [OF assms] by (auto simp: find_campaign_def split: option.splits)
qed

lemma create_keeps_apart:
  assumes inv: "scopes_apart h db" and init: "snapshot_initial spec = Inr s"
    and st: "spec_storable (h_normcase h) spec"
    and scope: "mapE (check_active_scope h spec) (filter (\<lambda>r. cr_state r \<notin> terminal_state_values) (db_campaigns db)) = Inr us"
    and ins: "insert_campaign_row (campaign_row_of s) db = Inr db'"
  shows "scopes_apart h db'"
proof -
  have ok: "store_ok h db" using inv by (simp add: scopes_apart_def)
  let ?n = "cr_campaign_id (campaign_row_of s)"
  have new: "load_snapshot h db' ?n = Inr s"
    by (rule load_agrees [OF _ initial_agrees [OF init st]]) (simp add: find_inserted [OF ins])
  have old: "load_snapshot h db' c = load_snapshot h db c" if "c \<noteq> ?n" for c
    using that by (simp add: load_snapshot_def find_inserted [OF ins])
  have fresh: "apart h s t" if t: "load_snapshot h db c = Inr t" for c t
  proof (rule load_obtains [OF ok t])
    fix r assume r: "find_campaign db c = Some r" and agrees: "row_agrees h r t"
    show "apart h s t"
    proof (cases "cs_state t \<in> TERMINAL_CAMPAIGN_STATES")
      case False
      with agrees find_campaign_row [OF r]
      have "r \<in> set (filter (\<lambda>r. cr_state r \<notin> terminal_state_values) (db_campaigns db))"
        by (simp add: row_agrees_def terminal_value)
      then have "check_active_scope h spec r = Inr ()"
        using mapE_member [OF scope] by auto
      then show ?thesis by (rule checked_scope_apart [OF agrees]) (rule snapshot_initial_eq(1) [OF init])
    qed (simp add: apart_def)
  qed
  have "apart h u v" if u: "load_snapshot h db' c = Inr u" and v: "load_snapshot h db' d = Inr v" and ne: "c \<noteq> d"
    for c d u v
  proof (cases "c = ?n")
    case True
    then have "u = s" using u new by simp
    moreover have "load_snapshot h db d = Inr v" using True ne v old [of d] by simp
    ultimately show ?thesis using fresh by simp
  next
    case c: False
    then have u': "load_snapshot h db c = Inr u" using u old by simp
    show ?thesis
    proof (cases "d = ?n")
      case True
      then have "v = s" using v new by simp
      with fresh [OF u'] show ?thesis by (simp add: apart_sym)
    next
      case False
      then have "load_snapshot h db d = Inr v" using v old by simp
      with u' ne inv show ?thesis by (auto simp: scopes_apart_def)
    qed
  qed
  with create_keeps_ok [OF ok init st ins] show ?thesis by (auto simp: scopes_apart_def)
qed

lemma transition_keeps_apart:
  assumes inv: "scopes_apart h db" and e: "event_readable e" and s: "load_snapshot h db (ev_campaign_id e) = Inr s"
    and red: "reduce_event s e = Inr (t, fx)" and p: "persist_transition e t fx digest db = Inr db'"
  shows "scopes_apart h db'"
proof -
  have ok: "store_ok h db" using inv by (simp add: scopes_apart_def)
  note step = persist_step [OF ok e s red p]
  have spec: "cs_spec t = cs_spec s" by (rule reduce_step [OF red]) simp
  have live: "cs_state s \<notin> TERMINAL_CAMPAIGN_STATES"
    using red by (simp add: reduce_event_Inr envelope_ok_def)
  have keep: "apart h t v" if "apart h s v" for v
    using that live spec by (auto simp: apart_def)
  have "apart h u v" if "load_snapshot h db' c = Inr u" "load_snapshot h db' d = Inr v" "c \<noteq> d" for c d u v
  proof (cases "c = ev_campaign_id e")
    case True
    with that step(2,3) s inv have "u = t" "apart h s v" by (auto simp: scopes_apart_def)
    then show ?thesis by (simp add: keep)
  next
    case False
    then have u: "load_snapshot h db c = Inr u" using that(1) step(3) by simp
    show ?thesis
    proof (cases "d = ev_campaign_id e")
      case True
      with that u step(2) s inv have "v = t" "apart h u s" by (auto simp: scopes_apart_def)
      then show ?thesis using keep [OF apart_sym] apart_sym by blast
    next
      case False
      then have "load_snapshot h db d = Inr v" using that(2) step(3) by simp
      with u that(3) inv show ?thesis by (auto simp: scopes_apart_def)
    qed
  qed
  with step(1) show ?thesis by (auto simp: scopes_apart_def)
qed

interpretation scopes: store_invariant scopes_apart
proof
  show "scopes_apart h empty_store" for h
    by (auto simp: scopes_apart_def load_snapshot_def find_campaign_def) (simp add: empty_store_def)
  fix h a b assume w: "write_step h a b" and inv: "scopes_apart h a"
  from w show "scopes_apart h b"
  proof (cases rule: campaigns_write_cases)
    case same
    with inv show ?thesis
      using store_ok_cong [OF same] load_cong [OF same] by (simp add: scopes_apart_def)
  next
    case campaign
    then show ?thesis using create_keeps_apart [OF inv] by blast
  next
    case transition
    then show ?thesis using transition_keeps_apart [OF inv] by blast
  qed
qed

section \<open>Leases\<close>

definition active_keys :: "lease_row list \<Rightarrow> string list" where
  "active_keys ls = map lr_resource_key (filter (\<lambda>l. lr_state l = ''ACTIVE'') ls)"

definition single_leases :: "host \<Rightarrow> store \<Rightarrow> bool" where
  "single_leases h db \<longleftrightarrow> distinct (active_keys (db_leases db)) \<and> distinct (map lr_lease_id (db_leases db))"

text \<open>An update of leases that activates none.\<close>

definition deactivates :: "(lease_row \<Rightarrow> lease_row) \<Rightarrow> bool" where
  "deactivates f \<longleftrightarrow> (\<forall>l. lr_resource_key (f l) = lr_resource_key l \<and> lr_lease_id (f l) = lr_lease_id l
     \<and> (lr_state (f l) = ''ACTIVE'' \<longrightarrow> lr_state l = ''ACTIVE''))"

lemma deactivated_leases:
  assumes "deactivates f" and "distinct (active_keys ls)"
  shows "distinct (active_keys (map f ls))"
proof -
  have f: "lr_resource_key (f l) = lr_resource_key l" "lr_state (f l) = ''ACTIVE'' \<Longrightarrow> lr_state l = ''ACTIVE''" for l
    using assms(1) by (simp_all add: deactivates_def)
  have sub: "set (active_keys (map f ls)) \<subseteq> set (active_keys ls)" for ls
    by (induction ls) (auto simp: active_keys_def f)
  from assms(2) show ?thesis
  proof (induction ls)
    case (Cons l ls)
    show ?case
    proof (cases "lr_state (f l) = ''ACTIVE''")
      case True
      with Cons f(2) [OF True] sub [of ls] show ?thesis by (auto simp: active_keys_def f(1))
    next
      case False
      with Cons show ?thesis by (auto simp: active_keys_def split: if_splits)
    qed
  qed (simp add: active_keys_def)
qed

lemma deactivated_single:
  assumes "single_leases h db" and "db_leases db' = map f (db_leases db)" and "deactivates f"
  shows "single_leases h db'"
proof -
  have "lr_lease_id \<circ> f = lr_lease_id"
    using assms(3) by (auto simp: deactivates_def)
  then show ?thesis
    using assms(1) deactivated_leases [OF assms(3)] unfolding single_leases_def assms(2) map_map by simp
qed

lemma same_leases_single: "single_leases h db \<Longrightarrow> db_leases db' = db_leases db \<Longrightarrow> single_leases h db'"
  by (simp add: single_leases_def)

lemma lock_leases: "upsert_lock_row k db = Inr db' \<Longrightarrow> db_leases db' = db_leases db"
  by (auto simp: upsert_lock_row_def res_simps split: if_splits)

lemma insert_lease_single:
  assumes "single_leases h db" and "insert_lease_row r db = Inr db'"
  shows "single_leases h db'"
proof -
  from assms(2) have "db_leases db' = db_leases db @ [r]"
    and "lr_lease_id r \<notin> set (map lr_lease_id (db_leases db))"
    and "lr_state r = ''ACTIVE'' \<longrightarrow> lr_resource_key r \<notin> set (active_keys (db_leases db))"
    by (auto simp: insert_lease_row_def list_ex_iff active_keys_def res_simps)
  with assms(1) show ?thesis by (simp add: single_leases_def active_keys_def)
qed

interpretation leases: call_invariant single_leases
proof
  show "single_leases h empty_store" for h by (simp add: single_leases_def active_keys_def empty_store_def)
  fix h a b assume w: "write_by True h a b" and inv: "single_leases h a"
  from w show "single_leases h b"
  proof cases
    case (lease r db1 k)
    show ?thesis
      by (rule same_leases_single [OF insert_lease_single [OF inv lease(1)] lock_leases [OF lease(2)]])
  next
    case (transition e s t fx digest)
    show ?thesis
    proof (cases "ended_leases e t")
      case True
      have "db_leases b = map (\<lambda>l. if lr_campaign_id l = ev_campaign_id e \<and> lr_state l = ''ACTIVE''
          then l\<lparr>lr_state := ''INVALIDATED''\<rparr> else l) (db_leases a)"
        using persist_tables(8) [OF transition(4)] True by (simp add: invalidate_leases_def)
      then show ?thesis by (rule deactivated_single [OF inv]) (simp add: deactivates_def)
    next
      case False
      with persist_tables(8) [OF transition(4)] show ?thesis by (intro same_leases_single [OF inv]) simp
    qed
  next
    case (release l)
    then obtain d where "db_leases b = map (\<lambda>r. if lr_lease_id r = lr_lease_id l
        then r\<lparr>lr_state := ''RELEASED'',
               lr_lease_json := canonical_json (PDict (dict_set ''state'' (PStr ''RELEASED'') d))\<rparr>
        else r) (db_leases a)" by (auto simp: mark_released_def res_simps simp del: map_eq_conv split: option.splits)
    then show ?thesis by (rule deactivated_single [OF inv]) (simp add: deactivates_def)
  next
    case (recover retained)
    have "db_leases b = map (\<lambda>l. if orphan_lease retained l then l\<lparr>lr_state := ''INVALIDATED''\<rparr> else l) (db_leases a)"
      by (simp add: recover recovered_store_def Let_def)
    then show ?thesis by (rule deactivated_single [OF inv]) (simp add: deactivates_def)
  qed (use inv in \<open>auto simp: same_core_def single_leases_def insert_campaign_row_def write_effect_def res_simps
         dest!: insert_effect_frame\<close>)
qed

section \<open>Effects\<close>

definition effect_moves :: "string \<Rightarrow> string \<Rightarrow> bool" where
  "effect_moves = (\<lambda>s t. \<exists>a b. s = effect_state_value a \<and> t = effect_state_value b \<and> b \<in> EFFECT_TRANSITIONS a)\<^sup>*\<^sup>*"

lemma effect_moves_refl [simp]: "effect_moves s s"
  by (simp add: effect_moves_def)

lemma effect_moves_trans: "effect_moves s t \<Longrightarrow> effect_moves t u \<Longrightarrow> effect_moves s u"
  unfolding effect_moves_def by (rule rtranclp_trans)

lemma effect_moves_step: "b \<in> EFFECT_TRANSITIONS a \<Longrightarrow> effect_moves (effect_state_value a) (effect_state_value b)"
  unfolding effect_moves_def by (rule r_into_rtranclp) blast

text \<open>The columns that never change, and the state.\<close>

definition effect_kept :: "outbox_row \<Rightarrow> outbox_row \<Rightarrow> bool" where
  "effect_kept x y \<longleftrightarrow> y = x\<lparr>xr_state := xr_state y, xr_updated_revision := xr_updated_revision y,
       xr_result_json := xr_result_json y\<rparr>
     \<and> effect_moves (xr_state x) (xr_state y)"

lemma effect_kept_refl [simp]: "effect_kept x x"
  by (simp add: effect_kept_def)

lemma effect_kept_id: "effect_kept x y \<Longrightarrow> xr_operation_id y = xr_operation_id x"
proof -
  assume "effect_kept x y"
  then have "y = x\<lparr>xr_state := xr_state y, xr_updated_revision := xr_updated_revision y, xr_result_json := xr_result_json y\<rparr>"
    by (simp add: effect_kept_def)
  then have "xr_operation_id y = xr_operation_id
      (x\<lparr>xr_state := xr_state y, xr_updated_revision := xr_updated_revision y, xr_result_json := xr_result_json y\<rparr>)"
    by (rule arg_cong)
  then show ?thesis by simp
qed

lemma effect_kept_trans: "effect_kept x y \<Longrightarrow> effect_kept y z \<Longrightarrow> effect_kept x z"
  unfolding effect_kept_def by (cases x, cases y, cases z) (auto intro: effect_moves_trans)

definition outbox_kept :: "host \<Rightarrow> store \<Rightarrow> store \<Rightarrow> bool" where
  "outbox_kept h db db' \<longleftrightarrow>
     (\<forall>i x. find_effect db i = Some x \<longrightarrow> (\<exists>y. find_effect db' i = Some y \<and> effect_kept x y))"

lemma outbox_appended: "db_outbox db' = db_outbox db @ xs \<Longrightarrow> outbox_kept h db db'"
proof -
  have "find P (ys @ xs) = Some x" if "find P ys = Some x" for P :: "outbox_row \<Rightarrow> bool" and ys x
    using that by (induction ys) (auto split: if_splits)
  then show "db_outbox db' = db_outbox db @ xs \<Longrightarrow> outbox_kept h db db'"
    by (auto simp: outbox_kept_def find_effect_def)
qed

lemma outbox_same: "db_outbox db' = db_outbox db \<Longrightarrow> outbox_kept h db db'"
  by (rule outbox_appended [of _ _ "[]"]) simp

lemma outbox_mapped:
  assumes "db_outbox db' = map f (db_outbox db)" and "\<And>x. x \<in> set (db_outbox db) \<Longrightarrow> effect_kept x (f x)"
  shows "outbox_kept h db db'"
proof -
  have "xr_operation_id (f x) = xr_operation_id x" if "x \<in> set (db_outbox db)" for x
    using assms(2) [OF that] by (rule effect_kept_id)
  then have "find_effect db' i = map_option f (find_effect db i)" for i
    unfolding find_effect_def assms(1) find_map by (intro arg_cong [where f = "map_option f"] find_cong) auto
  with assms(2) show ?thesis
    by (auto simp: outbox_kept_def find_effect_def dest!: find_Some_set)
qed

lemma outbox_kept_trans: "outbox_kept h a b \<Longrightarrow> outbox_kept h b c \<Longrightarrow> outbox_kept h a c"
  unfolding outbox_kept_def by (meson effect_kept_trans)

lemma stopped_outbox: "outbox_kept h db (stop_effects c v db)"
  by (rule outbox_mapped [where f = "\<lambda>x. if xr_campaign_id x = c \<and> xr_state x = ''PREPARED''
          then x\<lparr>xr_state := ''CANCELLED'', xr_updated_revision := v\<rparr>
          else if xr_campaign_id x = c \<and> xr_state x = ''EXECUTING''
          then x\<lparr>xr_state := ''AMBIGUOUS'', xr_updated_revision := v\<rparr> else x"])
    (use effect_moves_step [of ES_CANCELLED ES_PREPARED] effect_moves_step [of ES_AMBIGUOUS ES_EXECUTING]
     in \<open>auto simp: stop_effects_def effect_kept_def\<close>)

lemma recovered_outbox: "outbox_kept h db (recovered_store retained db)"
  by (rule outbox_mapped [where f = "\<lambda>x. if xr_state x = ''EXECUTING'' then x\<lparr>xr_state := ''AMBIGUOUS''\<rparr> else x"])
    (use effect_moves_step [of ES_AMBIGUOUS ES_EXECUTING] in \<open>auto simp: recovered_store_def Let_def effect_kept_def\<close>)

lemma written_outbox:
  assumes "find_effect db i = Some x" "xr_state x = effect_state_value current"
    "target = current \<or> target \<in> EFFECT_TRANSITIONS current" "write_effect x target result v db = Inr db'"
  shows "outbox_kept h db db'"
proof (rule outbox_mapped)
  show "db_outbox db' = map (\<lambda>y. if xr_operation_id y = xr_operation_id x \<and> xr_state y = xr_state x
      then y\<lparr>xr_state := effect_state_value target, xr_result_json := result, xr_updated_revision := v\<rparr> else y)
      (db_outbox db)"
    using assms(4) by (auto simp: write_effect_def res_simps)
qed (use assms(2,3) effect_moves_step [of target current] in \<open>auto simp: effect_kept_def\<close>)

lemma transition_outbox:
  assumes "persist_transition e t fx digest db = Inr db'"
  shows "outbox_kept h db db'"
  using assms
proof (rule persist_shape)
  fix ns fs ts xs rs
  let ?ev = "\<lparr>vr_event_id = ev_event_id e, vr_campaign_id = ev_campaign_id e, vr_revision = cs_revision t,
      vr_event_type = event_type_value (ev_event_type e), vr_payload_digest = digest,
      vr_event_json = canonical_json (event_to_dict e), vr_telemetry_category = telemetry_category t\<rparr>"
  let ?db = "(if ended_leases e t then invalidate_leases (ev_campaign_id e) else id)
       (db\<lparr>db_campaigns := swapped e t (db_campaigns db), db_nodes := ns, db_findings := fs,
           db_events := db_events db @ [?ev],
           db_telemetry := ts, db_outbox := db_outbox db @ xs, db_reviews := rs\<rparr>)"
  assume d: "db' = (if ev_event_type e = EV_CANCEL then stop_effects (ev_campaign_id e) (cs_revision t) else id) ?db"
  have kept: "outbox_kept h db ?db"
    by (rule outbox_appended [of _ _ xs]) (simp add: invalidate_leases_def)
  show "outbox_kept h db db'"
  proof (cases "ev_event_type e = EV_CANCEL")
    case True
    show ?thesis unfolding d if_P [OF True] by (rule outbox_kept_trans [OF kept stopped_outbox])
  next
    case False
    show ?thesis using kept unfolding d if_not_P [OF False] by (simp only: id_def)
  qed
qed

interpretation outbox: store_relation outbox_kept
proof
  show "outbox_kept h db db" for h db by (simp add: outbox_kept_def)
  show "outbox_kept h a c" if "outbox_kept h a b" "outbox_kept h b c" for h a b c
    using that by (rule outbox_kept_trans)
  fix h a b assume "write_by True h a b"
  then show "outbox_kept h a b"
  proof cases
    case (prepare intent v)
    then show ?thesis by (auto dest!: insert_effect_frame intro: outbox_appended)
  next
    case (effect i x current target result v)
    then show ?thesis by (rule written_outbox)
  next
    case transition
    show ?thesis by (rule transition_outbox) (rule transition)
  next
    case recover
    then show ?thesis by (simp add: recovered_outbox)
  qed (auto simp: same_core_def insert_campaign_row_def insert_lease_row_def upsert_lock_row_def mark_released_def
       res_simps split: option.splits if_splits intro!: outbox_same)
qed

section \<open>Requests\<close>

lemma persist_operations: "persist_transition e t fx d db = Inr db' \<Longrightarrow> db_operations db' = db_operations db"
  by (simp add: persist_tables)

lemma effect_operations:
  "insert_effect i v db = Inr db' \<Longrightarrow> db_operations db' = db_operations db"
  "write_effect x target result v db = Inr db' \<Longrightarrow> db_operations db' = db_operations db"
  by (auto simp: write_effect_def res_simps dest!: insert_effect_frame)

interpretation requests: store_relation "\<lambda>h. requests_kept"
proof
  show "requests_kept db db" for db by simp
  show "requests_kept a c" if "requests_kept a b" "requests_kept b c" for a b c
    using that by (rule requests_kept_trans)
  fix h a b assume "write_by True h a b"
  then show "requests_kept a b"
    by cases (auto simp: same_core_def insert_campaign_row_def insert_lease_row_def upsert_lock_row_def
        mark_released_def recovered_store_def Let_def persist_operations effect_operations res_simps
        split: option.splits if_splits intro!: requests_same)
qed

end
