(* ===== verification/Driver_Safety.thy ===== *)
theory Driver_Safety
  imports Effect_Driver Store_Invariants
begin

text \<open>
  Safety of the effect driver.  An action is \<open>quiet\<close> when it hands no mutation to the backend and
  changes the store only by operations of the store; every action of the driver is quiet except
  the execution of a prepared effect, which first moves the effect out of \<open>PREPARED\<close>.  Since no
  operation of the store moves an effect back, no effect is executed twice.
\<close>

section \<open>Quiet actions\<close>

definition quiet :: "host \<Rightarrow> ('w driver, 'a) act \<Rightarrow> bool" where
  "quiet h m \<longleftrightarrow> (\<forall>s. dv_executed (snd (m s)) = dv_executed s
     \<and> store_calls h (dv_store s) (dv_store (snd (m s))))"

named_theorems quiet_intros "actions that are quiet"

lemma quiet_give [quiet_intros]: "quiet h (give x)"
  by (simp add: quiet_def give_def)

lemma quiet_fail [quiet_intros]: "quiet h (fail err)"
  by (simp add: quiet_def fail_def)

lemma quiet_pure [quiet_intros]: "quiet h (pure_res r)"
  by (simp add: quiet_def pure_res_def)

lemma quiet_read [quiet_intros]: "quiet h (read_store f)"
  by (simp add: quiet_def read_store_def)

lemma quiet_world [quiet_intros]: "quiet h (on_world f)"
  by (simp add: quiet_def on_world_def split: prod.splits)

lemma quiet_and_then [quiet_intros]: "quiet h m \<Longrightarrow> (\<And>x. quiet h (f x)) \<Longrightarrow> quiet h (and_then m f)"
  unfolding quiet_def and_then_def
  by (auto split: prod.splits sum.splits intro: rtranclp_trans) (metis rtranclp_trans snd_conv)+

lemma quiet_attempt [quiet_intros]:
  "quiet h m \<Longrightarrow> (\<And>err. quiet h (k err)) \<Longrightarrow> (\<And>x. quiet h (f x)) \<Longrightarrow> quiet h (attempt m k f)"
  unfolding quiet_def attempt_def
  by (auto split: prod.splits sum.splits) (metis rtranclp_trans snd_conv)+

lemma quiet_move [quiet_intros]: "quiet h (move_effect h i expected t result)"
  unfolding quiet_def move_effect_def on_store_def
  by (auto split: prod.splits) (metis r_into_rtranclp snd_conv operation_by.update)

lemma quiet_prepare [quiet_intros]: "quiet h (driver_prepare h i)"
  unfolding quiet_def driver_prepare_def on_store_def
  by (auto split: prod.splits) (metis r_into_rtranclp snd_conv operation_by.prepare)

lemma quiet_query [quiet_intros]: "quiet h (query_effect b kind payload)"
  unfolding query_effect_def dict_of_def by (intro quiet_intros)

lemma quiet_contract [quiet_intros]: "quiet h (assert_campaign_contract h b record check)"
  unfolding assert_campaign_contract_def
  by (intro quiet_and_then quiet_read) (auto intro: quiet_intros split: prod.splits)

lemma quiet_confirm [quiet_intros]: "quiet h (confirm_from_query h b record expected)"
  unfolding confirm_from_query_def by (intro quiet_intros) (auto intro!: quiet_intros)

lemma quiet_stay [quiet_intros]: "quiet h (stay_ambiguous h record message)"
  unfolding stay_ambiguous_def by (intro quiet_intros)

lemma quiet_reconcile [quiet_intros]: "quiet h (reconcile h b i)"
  unfolding reconcile_def
  by (intro quiet_intros) (auto intro!: quiet_intros split: option.splits)

lemma quiet_reconcile_moved [quiet_intros]: "quiet h (reconcile_moved h b i message)"
  unfolding reconcile_moved_def by (intro quiet_intros)

lemma quiet_cancelled [quiet_intros]: "quiet h (run_cancelled h b i state)"
  unfolding run_cancelled_def by (auto intro: quiet_intros)

lemma quiet_preflight [quiet_intros]: "quiet h (preflight_failed h i err)"
  unfolding preflight_failed_def by (intro quiet_intros)

lemma quiet_failed [quiet_intros]: "quiet h (execution_failed h b i err)"
  unfolding execution_failed_def by (cases err) (auto intro!: quiet_intros)

lemma quiet_confirm_execution [quiet_intros]: "quiet h (confirm_execution h b i kind payload result)"
  unfolding confirm_execution_def by (intro quiet_intros) (auto intro!: quiet_intros)

section \<open>Actions that execute at most once\<close>

definition once :: "host \<Rightarrow> string \<Rightarrow> ('w driver, 'a) act \<Rightarrow> bool" where
  "once h i m \<longleftrightarrow> (\<forall>s. dv_executed (snd (m s)) \<in> {dv_executed s, dv_executed s @ [i]}
     \<and> store_calls h (dv_store s) (dv_store (snd (m s))))"

lemma quiet_then_once: "quiet h m \<Longrightarrow> (\<And>x. once h i (f x)) \<Longrightarrow> once h i (and_then m f)"
  unfolding quiet_def once_def and_then_def
  by (auto split: prod.splits sum.splits) (metis rtranclp_trans snd_conv)+

lemma once_then_quiet: "once h i m \<Longrightarrow> (\<And>x. quiet h (f x)) \<Longrightarrow> once h i (and_then m f)"
  unfolding quiet_def once_def and_then_def
  by (auto split: prod.splits sum.splits) (metis rtranclp_trans snd_conv)+

lemma once_attempt:
  "once h i m \<Longrightarrow> (\<And>err. quiet h (k err)) \<Longrightarrow> (\<And>x. quiet h (f x)) \<Longrightarrow> once h i (attempt m k f)"
  unfolding quiet_def once_def attempt_def
  by (auto split: prod.splits sum.splits) (metis rtranclp_trans snd_conv)+

lemma once_execute: "once h i (execute_effect b i kind payload)"
proof -
  have "once h i (\<lambda>s. on_world (bk_execute b kind payload) (s\<lparr>dv_executed := dv_executed s @ [i]\<rparr>))"
    by (simp add: once_def on_world_def split: prod.splits)
  then show ?thesis
    unfolding execute_effect_def dict_of_def by (rule once_then_quiet) (rule quiet_pure)
qed

text \<open>What follows the move out of \<open>PREPARED\<close>.\<close>

definition after_move :: "host \<Rightarrow> 'w backend \<Rightarrow> string \<Rightarrow> pydict \<Rightarrow> ('w driver, pydict) act" where
  "after_move h b i executing =
     and_then (pure_res (record_payload executing)) (\<lambda>payload.
     attempt
       (and_then (assert_campaign_contract h b executing True) (\<lambda>_.
        and_then (pure_res (record_text executing ''kind'')) (\<lambda>kind.
        and_then (execute_effect b i kind payload) (\<lambda>result. give (kind, result)))))
       (execution_failed h b i)
       (\<lambda>(kind, result). confirm_execution h b i kind payload result))"

lemma once_after_move: "once h i (after_move h b i executing)"
  unfolding after_move_def
  by (intro quiet_then_once quiet_pure once_attempt quiet_contract once_then_quiet once_execute quiet_give
      quiet_failed) (auto intro: quiet_intros)

lemma execute_prepared_eq:
  "execute_prepared h b i = and_then (move_effect h i ''PREPARED'' ''EXECUTING'' None) (after_move h b i)"
  by (simp add: execute_prepared_def after_move_def [abs_def])

section \<open>The state of an effect never returns\<close>

lemma effect_moves_prepared: "effect_moves s t \<Longrightarrow> t = ''PREPARED'' \<Longrightarrow> s = ''PREPARED''"
  unfolding effect_moves_def
proof (induction rule: rtranclp_induct)
  case (step t u)
  then obtain a b where "u = effect_state_value b" "b \<in> EFFECT_TRANSITIONS a" by blast
  with step(4) have False by (cases a; cases b) simp_all
  then show ?case ..
qed

definition left_prepared :: "store \<Rightarrow> string \<Rightarrow> bool" where
  "left_prepared db i \<longleftrightarrow> (\<exists>x. find_effect db i = Some x \<and> xr_state x \<noteq> ''PREPARED'')"

lemma left_prepared_kept: "store_calls h db db' \<Longrightarrow> left_prepared db i \<Longrightarrow> left_prepared db' i"
  by (drule outbox.calls) (fastforce simp: left_prepared_def outbox_kept_def effect_kept_def dest: effect_moves_prepared)

lemma write_effect_outbox: "write_effect x t r v db = Inr db' \<Longrightarrow>
    db_outbox db' = map (\<lambda>y. if xr_operation_id y = xr_operation_id x \<and> xr_state y = xr_state x
      then y\<lparr>xr_state := effect_state_value t, xr_result_json := r, xr_updated_revision := v\<rparr> else y) (db_outbox db)"
  by (auto simp: write_effect_def res_simps)

lemma find_mapped_effect:
  assumes "db_outbox db' = map f (db_outbox db)" "\<And>y. xr_operation_id (f y) = xr_operation_id y"
    and "find_effect db i = Some x"
  shows "find_effect db' i = Some (f x)"
  using assms(3) by (simp add: find_effect_def assms(1,2) find_map)

lemma transaction_Inr: "transaction body db = (Inr x, db') \<longleftrightarrow> body db = Inr (x, db')"
  by (auto simp: transaction_def split: sum.splits)

lemma then_get_effect_Inr: "then_get_effect i outcome = (Inr r, db) \<Longrightarrow> outcome = (Inr (), db)"
  by (auto simp: then_get_effect_def split: prod.splits sum.splits unit.splits)

lemma on_store_Inr: "on_store f s = (Inr x, t) \<Longrightarrow> f (dv_store s) = (Inr x, dv_store t)"
  by (auto simp: on_store_def split: prod.splits)

lemma moved_out:
  assumes "move_effect h i ''PREPARED'' ''EXECUTING'' result s = (Inr record, s')"
  shows "\<not> left_prepared (dv_store s) i" and "left_prepared (dv_store s') i"
proof -
  have args: "state_argument (Inl ''EXECUTING'') = Inr ES_EXECUTING" "state_argument (Inl ''PREPARED'') = Inr ES_PREPARED"
    using effect_state_enum.new_value [where x = ES_EXECUTING] effect_state_enum.new_value [where x = ES_PREPARED]
    by (simp_all add: state_argument_def)
  from assms have "update_effect_tx h i ES_EXECUTING result (Some (Inl ''PREPARED'')) (dv_store s) = Inr ((), dv_store s')"
    unfolding move_effect_def by (drule_tac on_store_Inr) (simp add: update_effect_def args transaction_Inr [symmetric]
        then_get_effect_Inr)
  then obtain x v where x: "find_effect (dv_store s) i = Some x" "xr_state x = ''PREPARED''"
    and w: "write_effect x ES_EXECUTING (map_option (\<lambda>d. canonical_json (PDict d)) result) v (dv_store s) = Inr (dv_store s')"
    by (auto simp: update_effect_tx_def args Let_def res_simps effect_state_enum.new_Inr split: option.splits if_splits)
  from x show "\<not> left_prepared (dv_store s) i" by (simp add: left_prepared_def)
  let ?f = "\<lambda>y. if xr_operation_id y = xr_operation_id x \<and> xr_state y = xr_state x
      then y\<lparr>xr_state := effect_state_value ES_EXECUTING,
        xr_result_json := map_option (\<lambda>d. canonical_json (PDict d)) result, xr_updated_revision := v\<rparr> else y"
  have "find_effect (dv_store s') i = Some (?f x)"
    by (rule find_mapped_effect [OF write_effect_outbox [OF w] _ x(1)]) simp
  then show "left_prepared (dv_store s') i" by (simp add: left_prepared_def)
qed

section \<open>No effect is executed twice\<close>

definition executed_once :: "'w driver \<Rightarrow> bool" where
  "executed_once s \<longleftrightarrow> distinct (dv_executed s) \<and> (\<forall>i \<in> set (dv_executed s). left_prepared (dv_store s) i)"

definition keeps :: "('w driver, 'a) act \<Rightarrow> bool" where
  "keeps m \<longleftrightarrow> (\<forall>s. executed_once s \<longrightarrow> executed_once (snd (m s)))"

lemma quiet_keeps: "quiet h m \<Longrightarrow> keeps m"
  unfolding quiet_def executed_once_def keeps_def by (metis left_prepared_kept)

lemma keeps_and_then: "keeps m \<Longrightarrow> (\<And>x. keeps (f x)) \<Longrightarrow> keeps (and_then m f)"
  unfolding keeps_def and_then_def by (auto split: prod.splits sum.splits)

lemma keeps_if: "keeps m \<Longrightarrow> keeps n \<Longrightarrow> keeps (if c then m else n)"
  by simp

lemma keeps_attempt: "keeps m \<Longrightarrow> (\<And>err. keeps (k err)) \<Longrightarrow> (\<And>x. keeps (f x)) \<Longrightarrow> keeps (attempt m k f)"
  unfolding keeps_def attempt_def by (auto split: prod.splits sum.splits)

lemma execute_prepared_once:
  fixes b :: "'w backend"
  shows "keeps (execute_prepared h b i)"
  unfolding keeps_def
proof (intro allI impI)
  fix s :: "'w driver" assume assms: "executed_once s"
  show "executed_once (snd (execute_prepared h b i s))"
proof (cases "move_effect h i ''PREPARED'' ''EXECUTING'' None s")
  case (Pair r t)
  have t: "executed_once t"
    using quiet_keeps [OF quiet_move, of h i "''PREPARED''" "''EXECUTING''" None] assms Pair
    unfolding keeps_def by (metis snd_conv)
  show ?thesis
  proof (cases r)
    case (Inl err)
    with Pair t show ?thesis by (simp add: execute_prepared_eq and_then_def)
  next
    case (Inr executing)
    note out = moved_out [OF Pair [unfolded Inr]]
    have "dv_executed (snd (move_effect h i ''PREPARED'' ''EXECUTING'' None s)) = dv_executed s"
      using quiet_move unfolding quiet_def by blast
    then have "dv_executed t = dv_executed s" by (simp add: Pair)
    with out(1) assms have "i \<notin> set (dv_executed t)" by (auto simp: executed_once_def)
    moreover have
      "dv_executed (snd (after_move h b i executing t)) \<in> {dv_executed t, dv_executed t @ [i]}"
      and st: "store_calls h (dv_store t) (dv_store (snd (after_move h b i executing t)))"
      using once_after_move [of h i b executing, unfolded once_def, rule_format, of t] by simp_all
    ultimately show ?thesis
      using t out(2) left_prepared_kept [OF st]
      by (auto simp: execute_prepared_eq and_then_def Pair Inr executed_once_def)
  qed
qed
qed

lemma keeps_run: "keeps (run h b i stopped)"
proof -
  have prepared: "keeps (run_prepared h b operation r)" for operation r
    unfolding run_prepared_def
  proof (rule keeps_attempt)
    fix already :: "pydict option"
    show "keeps (case already of None \<Rightarrow> execute_prepared h b operation | Some updated \<Rightarrow> give updated)"
      by (cases already) (simp_all add: execute_prepared_once quiet_keeps [OF quiet_give])
  qed (intro quiet_keeps [of h] quiet_and_then quiet_contract quiet_confirm quiet_preflight)+
  show ?thesis
    unfolding run_def
    by (intro keeps_and_then keeps_if prepared quiet_keeps [OF quiet_pure] quiet_keeps [OF quiet_read]
        quiet_keeps [OF quiet_give] quiet_keeps [OF quiet_fail] quiet_keeps [OF quiet_cancelled]
        quiet_keeps [OF quiet_reconcile] quiet_keeps [OF quiet_reconcile_moved])
qed

text \<open>A history of the driver: its operations, on any effects and with any backends, interleaved
  with any operations of the store.\<close>

inductive driver_step :: "host \<Rightarrow> 'w driver \<Rightarrow> 'w driver \<Rightarrow> bool" for h where
  run: "driver_step h s (snd (run h b i stopped s))"
| reconcile: "driver_step h s (snd (reconcile h b i s))"
| prepare: "driver_step h s (snd (driver_prepare h intent s))"
| store: "store_call h (dv_store s) db \<Longrightarrow> driver_step h s (s\<lparr>dv_store := db\<rparr>)"
| world: "driver_step h s (s\<lparr>dv_world := w\<rparr>)"

definition driver_history :: "host \<Rightarrow> 'w driver \<Rightarrow> bool" where
  "driver_history h s \<longleftrightarrow> (\<exists>db w. (driver_step h)\<^sup>*\<^sup>* \<lparr>dv_store = db, dv_world = w, dv_executed = []\<rparr> s)"

lemma world_executed_once [simp]: "executed_once (s\<lparr>dv_world := w\<rparr>) = executed_once s"
  by (simp add: executed_once_def)

lemma store_executed_once:
  "store_call h (dv_store s) db \<Longrightarrow> executed_once s \<Longrightarrow> executed_once (s\<lparr>dv_store := db\<rparr>)"
  using left_prepared_kept [OF r_into_rtranclp [of "store_call h"]] by (simp add: executed_once_def)

lemma driver_step_once: "driver_step h s t \<Longrightarrow> executed_once s \<Longrightarrow> executed_once t"
  by (elim driver_step.cases)
    (simp_all add: store_executed_once keeps_run [unfolded keeps_def, rule_format]
      quiet_keeps [OF quiet_reconcile, unfolded keeps_def, rule_format]
      quiet_keeps [OF quiet_prepare, unfolded keeps_def, rule_format])

lemma history_executed_once: "driver_history h s \<Longrightarrow> executed_once s"
  unfolding driver_history_def
proof (elim exE)
  fix db w assume "(driver_step h)\<^sup>*\<^sup>* \<lparr>dv_store = db, dv_world = w, dv_executed = []\<rparr> s"
  then show "executed_once s"
    by (induction rule: rtranclp_induct) (simp add: executed_once_def, rule driver_step_once)
qed

section \<open>What the driver does with an effect that is not prepared\<close>

lemma then_executed:
  assumes "\<And>s. dv_executed (snd (m s)) = dv_executed s"
  shows "dv_executed (snd (and_then m f s)) = (case m s of (Inl _, t) \<Rightarrow> dv_executed s | (Inr x, t) \<Rightarrow> dv_executed (snd (f x t)))"
  using assms [of s] by (auto simp: and_then_def split: prod.splits sum.splits)

lemma record_state:
  assumes "get_effect i db = Inr rc" and "record_text rc ''state'' = Inr st"
  shows "\<exists>x. find_effect db i = Some x \<and> xr_state x = st"
proof -
  from assms(1) obtain x where x: "find_effect db i = Some x" and r: "effect_row x = Inr rc"
    by (auto simp: get_effect_def split: option.splits)
  from r have "dict_get rc ''state'' PNone = PStr (xr_state x)"
    and "map_of rc ''state'' = Some (PStr (xr_state x))"
    by (auto simp: effect_row_def bindE_Inr_iff dict_get_def)
  with assms(2) have "st = xr_state x" by (auto simp: record_text_def item_str_def py_item_def bindE_Inr_iff)
  with x show ?thesis by blast
qed

lemma run_not_prepared:
  assumes "\<not> (\<exists>x. find_effect (dv_store s) (py_strip i) = Some x \<and> xr_state x = ''PREPARED'') \<or> stop"
  shows "dv_executed (snd (run h b i stop s)) = dv_executed s"
proof -
  have quiet: "dv_executed (snd (m t)) = dv_executed t" if "quiet h m" for m :: "('w driver, 'b) act" and t
    using that by (simp add: quiet_def)
  show ?thesis
  proof (cases "stable_id i ''operation id''")
    case (Inr operation)
    then have op: "operation = py_strip i" by (auto simp: stable_id_def Let_def res_simps)
    show ?thesis
    proof (cases "get_effect operation (dv_store s)")
      case got: (Inr rc)
      show ?thesis
      proof (cases "assert_record rc")
        case (Inr u)
        show ?thesis
        proof (cases "record_text rc ''state''")
          case st: (Inr st)
          from record_state [OF got st] assms have "stop \<or> st \<noteq> ''PREPARED''" by (auto simp: op)
          then show ?thesis
            using \<open>stable_id i ''operation id'' = Inr operation\<close> got Inr st
            by (auto simp: run_def and_then_def pure_res_def read_store_def give_def fail_def
                quiet [OF quiet_cancelled] quiet [OF quiet_reconcile] quiet [OF quiet_reconcile_moved])
        qed (use \<open>stable_id i ''operation id'' = Inr operation\<close> got Inr in
            \<open>simp add: run_def and_then_def pure_res_def read_store_def\<close>)
      qed (use \<open>stable_id i ''operation id'' = Inr operation\<close> got in
          \<open>simp add: run_def and_then_def pure_res_def read_store_def\<close>)
    qed (use \<open>stable_id i ''operation id'' = Inr operation\<close> in
        \<open>simp add: run_def and_then_def pure_res_def read_store_def\<close>)
  qed (simp add: run_def and_then_def pure_res_def)
qed

lemma effect_moves_settled: "effect_moves s t \<Longrightarrow> s \<in> {''CONFIRMED'', ''FAILED'', ''CANCELLED''} \<Longrightarrow> t = s"
  unfolding effect_moves_def
proof (induction rule: rtranclp_induct)
  case (step t u)
  then obtain a b where "t = effect_state_value a" "b \<in> EFFECT_TRANSITIONS a" "t = s" by blast
  with step(4) have False by (cases a) simp_all
  then show ?case ..
qed simp

lemma effect_moves_ambiguous:
  "effect_moves s t \<Longrightarrow> s = ''AMBIGUOUS'' \<Longrightarrow> t \<in> {''AMBIGUOUS'', ''CONFIRMED'', ''FAILED'', ''CANCELLED''}"
  unfolding effect_moves_def
proof (induction rule: rtranclp_induct)
  case (step t u)
  then obtain a b where "t = effect_state_value a" "u = effect_state_value b" "b \<in> EFFECT_TRANSITIONS a" by blast
  with step(3) [OF step(4)] show ?case by (cases a; cases b) simp_all
qed simp

lemma effect_row_survives:
  "store_steps h db db' \<Longrightarrow> find_effect db i = Some x \<Longrightarrow>
    \<exists>y. find_effect db' i = Some y \<and> xr_campaign_id y = xr_campaign_id x"
proof -
  have same: "xr_campaign_id y = xr_campaign_id x" if "effect_kept x y" for x y
  proof -
    have "xr_campaign_id y = xr_campaign_id (x\<lparr>xr_state := xr_state y, xr_updated_revision := xr_updated_revision y,
        xr_result_json := xr_result_json y\<rparr>)"
      using that by (intro arg_cong [where f = xr_campaign_id]) (simp add: effect_kept_def)
    then show ?thesis by simp
  qed
  assume "store_steps h db db'" "find_effect db i = Some x"
  then show ?thesis using outbox.steps same by (fastforce simp: outbox_kept_def)
qed

end
