(* ===== verification/Reducer_Effects.thy ===== *)
theory Reducer_Effects
  imports Storable_Snapshots
begin

text \<open>
  The effects that an accepted event orders: each is prepared, bound to the campaign, the node,
  the epochs and the fence of the event, and can be written and read back.
\<close>

definition effect_of :: "campaign_snapshot \<Rightarrow> event \<Rightarrow> effect_intent \<Rightarrow> bool" where
  "effect_of s e i \<longleftrightarrow> ef_campaign_id i = sp_campaign_id (cs_spec s) \<and> ef_node_id i = ev_node_id e
     \<and> ef_state i = ES_PREPARED \<and> ef_authority_epoch i = cs_authority_epoch s
     \<and> ef_cancellation_epoch i = cs_cancellation_epoch s \<and> ef_fencing_epoch i = ev_fencing_epoch e
     \<and> effect_storable i"

lemma make_effect_of:
  assumes "make_effect s e kind external payload i = Inr x" and "wf_py payload"
  shows "effect_of s e x"
  using assms by (auto simp: make_effect_def effect_of_def effect_storable_def effect_post_init_def frozen_def
      named_def res_simps)

lemma effect_of_same:
  "effect_of t e x \<Longrightarrow> cs_spec t = cs_spec s \<Longrightarrow> cs_authority_epoch t = cs_authority_epoch s
    \<Longrightarrow> cs_cancellation_epoch t = cs_cancellation_epoch s \<Longrightarrow> effect_of s e x"
  by (simp add: effect_of_def)

lemma consume_automated_same:
  assumes "consume_automated s e token = Inr t"
  shows "cs_spec t = cs_spec s" "cs_authority_epoch t = cs_authority_epoch s"
    "cs_cancellation_epoch t = cs_cancellation_epoch s"
  using assms by (auto simp: consume_automated_def consume_budget_def snapshot_post_init_eq res_simps split: if_splits)

lemma wf_dict_set [simp]: "wf_py (PDict d) \<Longrightarrow> wf_py v \<Longrightarrow> wf_py (PDict (dict_set k v d))"
proof (induction k v d rule: dict_set.induct)
  case (2 k v k' v' d)
  then show ?case using keys_dict_set [of k v d] by (auto simp del: keys_dict_set)
qed simp

lemma wf_setdefault [simp]: "wf_py (PDict d) \<Longrightarrow> wf_py v \<Longrightarrow> wf_py (PDict (setdefault k v d))"
  by (auto simp: setdefault_def)

lemma pair_item_Inr:
  "(case kv of
      [k, x] \<Rightarrow> (case k of PStr s \<Rightarrow> Inr (dict_set s x u) | _ \<Rightarrow> Inl a)
    | _ \<Rightarrow> Inl b) = Inr w \<Longrightarrow> \<exists>k x. kv = [PStr k, x] \<and> w = dict_set k x u"
  by (auto split: list.split_asm pyval.split_asm)

lemma wf_py_dict:
  assumes "py_dict v = Inr d" and v: "wf_py v"
  shows "wf_py (PDict d)"
proof (cases "as_mapping v")
  case None
  with assms(1) obtain items where items: "py_iter v = Inr items"
    and run: "foldE (\<lambda>item d. bindE (py_iter item) (\<lambda>kv.
            case kv of
              [k, x] \<Rightarrow> (case k of PStr s \<Rightarrow> Inr (dict_set s x d)
                         | _ \<Rightarrow> Inl (TypeError ''keys are not strings''))
            | _ \<Rightarrow> Inl (ValueError ''dictionary update sequence element has the wrong length''))) items [] = Inr d"
    by (auto simp: py_dict_def bindE_Inr_iff)
  show ?thesis
  proof (rule foldE_invariant [OF run, where P = "\<lambda>d. wf_py (PDict d)"])
    fix item u w
    assume item: "item \<in> set items" and u: "wf_py (PDict u)"
      and "bindE (py_iter item) (\<lambda>kv.
            case kv of
              [k, x] \<Rightarrow> (case k of PStr s \<Rightarrow> Inr (dict_set s x u)
                         | _ \<Rightarrow> Inl (TypeError ''keys are not strings''))
            | _ \<Rightarrow> Inl (ValueError ''dictionary update sequence element has the wrong length'')) = Inr w"
    then obtain k x where kv: "py_iter item = Inr [PStr k, x]" and w: "w = dict_set k x u"
      by (auto simp: bindE_Inr_iff dest!: pair_item_Inr)
    have "wf_py item" by (rule wf_py_iter [OF v items item])
    then have "wf_py x" using wf_py_iter [OF _ kv, of x] by simp
    then show "wf_py (PDict w)" using u unfolding w by (rule wf_dict_set [rotated])
  qed simp
qed (use assms wf_as_mapping in \<open>auto simp: py_dict_def\<close>)

lemma wf_effect_payload:
  assumes "event_readable e" "py_get (ev_payload e) k (PDict []) = Inr p" "py_dict p = Inr d"
  shows "wf_py (PDict d)"
proof -
  have "wf_py p" by (rule wf_py_get [OF _ _ assms(2)]) (use assms(1) in \<open>simp_all add: event_readable_def\<close>)
  with assms(3) show ?thesis by (rule wf_py_dict)
qed

lemma dispatched_effects:
  assumes "dispatch_effect s e role = Inr (t, fx)" and "event_readable e"
  shows "list_all (effect_of s e) fx"
proof -
  from assms(1) consider "fx = []"
    | p d token x i where "consume_automated s e token = Inr t"
      "py_get (ev_payload e) ''effect_payload'' (PDict []) = Inr p" "py_dict p = Inr d" "fx = [x]"
      "make_effect t e EK_DISPATCH_WORKER False
          (PDict (dict_set ''node_id'' (py_opt_str (ev_node_id e))
             (dict_set ''campaign_id'' (PStr (sp_campaign_id (cs_spec s)))
               (dict_set ''role'' (PStr role) d)))) i = Inr x"
    by (auto simp: dispatch_effect_def res_simps split: option.splits if_splits)
  then show ?thesis
  proof cases
    case 2
    have "effect_of t e x"
      by (rule make_effect_of [OF 2(5)]) (intro wf_dict_set wf_effect_payload [OF assms(2) 2(2,3)]; simp)
    then show ?thesis using consume_automated_same [OF 2(1)] 2(4) by (auto intro: effect_of_same)
  qed simp
qed

lemma updated_effects:
  "dispatched_update s e role n f = Inr (t, fx) \<Longrightarrow> event_readable e \<Longrightarrow> list_all (effect_of s e) fx"
  by (auto simp: dispatched_update_def res_simps intro: dispatched_effects)

lemma published_effects:
  assumes "reduce_start_publish s e = Inr (t, fx)" and "event_readable e"
  shows "list_all (effect_of s e) fx"
proof -
  from assms(1) obtain u p d token kind head x where 1: "consume_automated s e token = Inr u"
    "py_get (ev_payload e) ''effect_payload'' (PDict []) = Inr p" "py_dict p = Inr d" "fx = [x]"
    "make_effect u e kind True (PDict (setdefault ''candidate_head'' (py_opt_str head) d)) [] = Inr x"
    by (auto simp: reduce_start_publish_def Let_def res_simps split: option.splits)
  have "effect_of u e x"
    by (rule make_effect_of [OF 1(5)]) (intro wf_setdefault wf_effect_payload [OF assms(2) 1(2,3)]; simp)
  then show ?thesis using consume_automated_same [OF 1(1)] 1(4) by (auto intro: effect_of_same)
qed

lemma stopped_effects:
  assumes "reduce_cancel s e = Inr (t, fx)"
  shows "list_all (effect_of s e) fx"
proof -
  from assms obtain x y reason i j where "fx = [x, y]"
    "make_effect s e EK_INTERRUPT_WORKER False (PDict [(''reason'', PStr reason)]) i = Inr x"
    "make_effect s e EK_RECONCILE_EFFECT False (PDict [(''reason'', PStr ''campaign_cancelled'')]) j = Inr y"
    by (auto simp: reduce_cancel_def res_simps)
  then show ?thesis by (auto intro: make_effect_of)
qed

theorem reduced_effects:
  assumes "reduce_event s e = Inr (t, fx)" and "event_readable e"
  shows "list_all (effect_of s e) fx"
proof -
  from assms(1) obtain u where "reduce_branch s e = Inr (u, fx)" by (auto simp: reduce_event_Inr)
  then show ?thesis
    by (cases "ev_event_type e")
      (auto simp: reduce_branch_def silent_eq reduce_start_implementation_def reduce_start_review_def
        reduce_start_repair_def reduce_revalidation_passed_def Let_def res_simps split: if_splits
        intro: updated_effects [OF _ assms(2)] dispatched_effects [OF _ assms(2)] published_effects [OF _ assms(2)] stopped_effects)
qed

end
