(* ===== verification/Store_Cancellation.thy ===== *)
theory Store_Cancellation
  imports Store_Invariants Reducer_Effects
begin

text \<open>
  STOP holds: no effect of a cancelled campaign is prepared or executing, in every store that
  the operations can reach.  The rows that a transition adds to the outbox belong to its own
  campaign, a cancelled campaign accepts no further transition, and neither the preparation of
  an effect nor its update can bring one back.
\<close>

definition live_effect :: "outbox_row \<Rightarrow> bool" where
  "live_effect x \<longleftrightarrow> xr_state x \<in> {''PREPARED'', ''EXECUTING''}"

definition cancelled_quiet :: "host \<Rightarrow> store \<Rightarrow> bool" where
  "cancelled_quiet h db \<longleftrightarrow> store_ok h db
     \<and> (\<forall>c s. load_snapshot h db c = Inr s \<and> cs_state s = CS_CANCELLED
          \<longrightarrow> list_all (\<lambda>x. xr_campaign_id x = c \<longrightarrow> \<not> live_effect x) (db_outbox db))"

lemma cancelled_by_cancel:
  assumes "reduce_event s e = Inr (t, fx)" and "cs_state t = CS_CANCELLED"
  shows "ev_event_type e = EV_CANCEL"
  using assms(1)
proof (rule reduce_step)
  fix u assume st: "step s e u" and t: "t = u\<lparr>cs_revision := cs_revision s + 1\<rparr>"
  have "cs_state s \<notin> TERMINAL_CAMPAIGN_STATES" using assms(1) by (simp add: reduce_event_Inr envelope_ok_def)
  with st assms(2) show ?thesis
    by cases (auto simp: t TERMINAL_CAMPAIGN_STATES_def campaign_edges_def settle_def fund_def spend_def put_node_def split: option.splits if_splits)
qed

text \<open>The rows of a campaign come from an outbox that has them already.\<close>

lemma quiet_outbox:
  assumes "cancelled_quiet h db" and "store_ok h db'"
    and "\<And>c s. load_snapshot h db' c = Inr s \<Longrightarrow> cs_state s = CS_CANCELLED \<Longrightarrow>
      load_snapshot h db c = Inr s \<and>
      (\<forall>y \<in> set (db_outbox db'). xr_campaign_id y = c \<and> live_effect y \<longrightarrow>
         (\<exists>x \<in> set (db_outbox db). xr_campaign_id x = c \<and> live_effect x))"
  shows "cancelled_quiet h db'"
proof -
  have "\<not> live_effect y" if "load_snapshot h db' c = Inr s" "cs_state s = CS_CANCELLED"
    "y \<in> set (db_outbox db')" "xr_campaign_id y = c" for c s y
    using assms(3) [OF that(1,2)] that assms(1) by (auto simp: cancelled_quiet_def list_all_iff)
  with assms(2) show ?thesis by (auto simp: cancelled_quiet_def list_all_iff)
qed

lemma update_keeps_quiet:
  assumes "cancelled_quiet h db" and "db_campaigns db' = db_campaigns db" and "db_outbox db' = map f (db_outbox db)"
    and "\<And>x. xr_campaign_id (f x) = xr_campaign_id x \<and> (live_effect (f x) \<longrightarrow> live_effect x)"
  shows "cancelled_quiet h db'"
proof (rule quiet_outbox [OF assms(1)])
  show "store_ok h db'" using assms(1) store_ok_cong [OF assms(2)] by (simp add: cancelled_quiet_def)
  fix c s assume "load_snapshot h db' c = Inr s" "cs_state s = CS_CANCELLED"
  then have "load_snapshot h db c = Inr s" using load_cong [OF assms(2)] by simp
  moreover have "\<exists>x \<in> set (db_outbox db). xr_campaign_id x = c \<and> live_effect x"
    if "y \<in> set (db_outbox db')" "xr_campaign_id y = c" "live_effect y" for y
    using that assms(4) by (auto simp: assms(3))
  ultimately show "load_snapshot h db c = Inr s \<and>
      (\<forall>y \<in> set (db_outbox db'). xr_campaign_id y = c \<and> live_effect y \<longrightarrow>
         (\<exists>x \<in> set (db_outbox db). xr_campaign_id x = c \<and> live_effect x))" by blast
qed

lemma prepare_keeps_quiet:
  assumes "cancelled_quiet h db" and "load_snapshot h db (ef_campaign_id intent) = Inr s" "cs_state s \<noteq> CS_CANCELLED"
    and "insert_effect intent v db = Inr db'"
  shows "cancelled_quiet h db'"
proof (rule quiet_outbox [OF assms(1)])
  from insert_effect_frame [OF assms(4)] obtain xs where
    d: "db' = db\<lparr>db_outbox := db_outbox db @ xs\<rparr>" and xs: "ordered_by [intent] xs" by blast
  have c: "db_campaigns db' = db_campaigns db" by (simp add: d)
  show "store_ok h db'" using assms(1) store_ok_cong [OF c] by (simp add: cancelled_quiet_def)
  fix c t assume "load_snapshot h db' c = Inr t" "cs_state t = CS_CANCELLED"
  then show "load_snapshot h db c = Inr t \<and>
      (\<forall>y \<in> set (db_outbox db'). xr_campaign_id y = c \<and> live_effect y \<longrightarrow>
         (\<exists>x \<in> set (db_outbox db). xr_campaign_id x = c \<and> live_effect x))"
    using xs assms(2,3) load_cong [OF c] by (auto simp: d ordered_by_def)
qed

lemma create_keeps_quiet:
  assumes "cancelled_quiet h db" "snapshot_initial spec = Inr s" "spec_storable (h_normcase h) spec"
    and ins: "insert_campaign_row (campaign_row_of s) db = Inr db'"
  shows "cancelled_quiet h db'"
proof (rule quiet_outbox [OF assms(1)])
  show "store_ok h db'" using create_keeps_ok [OF _ assms(2-4)] assms(1) by (simp add: cancelled_quiet_def)
  have out: "db_outbox db' = db_outbox db" using insert_campaign_shape(1) [OF ins] by simp
  fix c t assume t: "load_snapshot h db' c = Inr t" "cs_state t = CS_CANCELLED"
  have new: "load_snapshot h db' (cr_campaign_id (campaign_row_of s)) = Inr s"
    by (rule load_agrees [OF _ initial_agrees [OF assms(2,3)]]) (simp add: find_inserted [OF ins])
  have "cs_state s = CS_DRAFT" by (rule snapshot_initial_eq [OF assms(2)])
  with t new have "c \<noteq> cr_campaign_id (campaign_row_of s)" by auto
  then have "load_snapshot h db c = Inr t" using t by (simp add: load_snapshot_def find_inserted [OF ins])
  then show "load_snapshot h db c = Inr t \<and>
      (\<forall>y \<in> set (db_outbox db'). xr_campaign_id y = c \<and> live_effect y \<longrightarrow>
         (\<exists>x \<in> set (db_outbox db). xr_campaign_id x = c \<and> live_effect x))" by (auto simp: out)
qed

text \<open>A transition adds effects of its own campaign only, and a cancellation stops them all.\<close>

lemma transition_effects:
  assumes red: "reduce_event s e = Inr (t, fx)" and e: "event_readable e"
    and p: "persist_transition e t fx digest db = Inr db'" and y: "y \<in> set (db_outbox db')" "live_effect y"
  shows "ev_event_type e = EV_CANCEL \<Longrightarrow> xr_campaign_id y \<noteq> ev_campaign_id e"
    and "xr_campaign_id y \<noteq> ev_campaign_id e \<Longrightarrow> y \<in> set (db_outbox db)"
proof -
  have c: "ev_campaign_id e = sp_campaign_id (cs_spec s)" using red by (simp add: reduce_event_Inr envelope_ok_def)
  have own: "xr_campaign_id x = ev_campaign_id e" if "ordered_by fx xs" "x \<in> set xs" for xs x
    using that reduced_effects [OF red e] by (auto simp: ordered_by_def list_all_iff effect_of_def c)
  obtain xs where xs: "ordered_by fx xs" and out: "db_outbox db' = db_outbox (
      (if ev_event_type e = EV_CANCEL then stop_effects (ev_campaign_id e) (cs_revision t) else id)
        (db\<lparr>db_outbox := db_outbox db @ xs\<rparr>))"
    by (rule persist_shape [OF p]) (auto simp: stop_effects_def invalidate_leases_def split: if_splits)
  show "xr_campaign_id y \<noteq> ev_campaign_id e" if "ev_event_type e = EV_CANCEL"
    using y that by (auto simp: out stop_effects_def live_effect_def split: if_splits)
  show "y \<in> set (db_outbox db)" if "xr_campaign_id y \<noteq> ev_campaign_id e"
    using y that own [OF xs] by (auto simp: out stop_effects_def live_effect_def split: if_splits)
qed

lemma transition_keeps_quiet:
  assumes inv: "cancelled_quiet h db" and e: "event_readable e" and s: "load_snapshot h db (ev_campaign_id e) = Inr s"
    and red: "reduce_event s e = Inr (t, fx)" and p: "persist_transition e t fx digest db = Inr db'"
  shows "cancelled_quiet h db'"
proof -
  have ok: "store_ok h db" using inv by (simp add: cancelled_quiet_def)
  note step = persist_step [OF ok e s red p]
  have "\<not> live_effect y" if u: "load_snapshot h db' c = Inr u" "cs_state u = CS_CANCELLED"
    and y: "y \<in> set (db_outbox db')" "xr_campaign_id y = c" for c u y
  proof
    assume live: "live_effect y"
    note fx = transition_effects [OF red e p y(1) live]
    show False
    proof (cases "c = ev_campaign_id e")
      case True
      with u step(2) have "cs_state t = CS_CANCELLED" by simp
      then have "ev_event_type e = EV_CANCEL" by (rule cancelled_by_cancel [OF red])
      from fx(1) [OF this] True y(2) show False by simp
    next
      case False
      with fx(2) y(2) have "y \<in> set (db_outbox db)" by simp
      moreover have "load_snapshot h db c = Inr u" using step(3) [OF False] u(1) by simp
      ultimately show False using inv u(2) y(2) live by (auto simp: cancelled_quiet_def list_all_iff)
    qed
  qed
  with step(1) show ?thesis by (auto simp: cancelled_quiet_def list_all_iff)
qed

interpretation stopped: store_invariant cancelled_quiet
proof
  show "cancelled_quiet h empty_store" for h by (simp add: cancelled_quiet_def) (simp add: empty_store_def)
  fix h a b assume w: "write_step h a b" and inv: "cancelled_quiet h a"
  have same: "cancelled_quiet h b" if "db_campaigns b = db_campaigns a" "db_outbox b = db_outbox a"
    by (rule update_keeps_quiet [OF inv that(1), where f = id]) (simp_all add: that)
  from w show "cancelled_quiet h b"
  proof cases
    case other
    then show ?thesis by (intro same) (simp_all add: same_core_def)
  next
    case (campaign spec s us)
    then show ?thesis by (intro create_keeps_quiet [OF inv])
  next
    case (transition e s t fx digest)
    show ?thesis using transition_keeps_quiet [OF inv] transition by blast
  next
    case (lease r db1 k)
    then show ?thesis by (intro same) (auto simp: insert_lease_row_def upsert_lock_row_def res_simps split: if_splits)
  next
    case (release l)
    then show ?thesis by (intro same) (auto simp: mark_released_def res_simps split: option.splits)
  next
    case (recover retained)
    show ?thesis
      by (rule update_keeps_quiet [OF inv, where f = "\<lambda>x. if xr_state x = ''EXECUTING'' then x\<lparr>xr_state := ''AMBIGUOUS''\<rparr> else x"])
        (auto simp: recover recovered_store_def Let_def live_effect_def)
  next
    case (prepare intent s v)
    show ?thesis by (rule prepare_keeps_quiet [OF inv prepare(1,2,4)])
  next
    case (effect i x current target result v)
    show ?thesis
    proof (rule update_keeps_quiet [OF inv])
      show "db_outbox b = map (\<lambda>y. if xr_operation_id y = xr_operation_id x \<and> xr_state y = xr_state x
          then y\<lparr>xr_state := effect_state_value target, xr_result_json := result, xr_updated_revision := v\<rparr> else y)
          (db_outbox a)" "db_campaigns b = db_campaigns a"
        using effect(4) by (auto simp: write_effect_def res_simps)
    next
      fix y
      have "live_effect x" if "effect_state_value target \<in> {''PREPARED'', ''EXECUTING''}"
        using effect(2,3) that by (cases current; cases target) (auto simp: live_effect_def)
      then show "xr_campaign_id (if xr_operation_id y = xr_operation_id x \<and> xr_state y = xr_state x
          then y\<lparr>xr_state := effect_state_value target, xr_result_json := result, xr_updated_revision := v\<rparr> else y)
          = xr_campaign_id y \<and> (live_effect (if xr_operation_id y = xr_operation_id x \<and> xr_state y = xr_state x
          then y\<lparr>xr_state := effect_state_value target, xr_result_json := result, xr_updated_revision := v\<rparr> else y)
          \<longrightarrow> live_effect y)" by (auto simp: live_effect_def)
    qed
  qed
qed

end
