(* ===== verification/Store_Replay.thy ===== *)
theory Store_Replay
  imports Store_Cancellation
begin

text \<open>
  Requests are idempotent: what an accepted transition stored as its result is what the same
  request reads back, and a reservation that was granted once is reported as already made.
\<close>

section \<open>The result of a finished operation\<close>

lemma finished_operation:
  assumes "find_operation db i = None" and "begin_operation i c k d v db = Inr db1"
    and "db_operations db2 = db_operations db1"
  shows "find_operation (finish_operation i x db2) i
    = Some \<lparr>or_request_id = i, or_campaign_id = c, or_kind = k, or_payload_digest = d, or_status = ''CONFIRMED'',
        or_result_json = Some (canonical_json x), or_created_revision = v\<rparr>"
proof -
  have "find (\<lambda>r. or_request_id r = i) (map (\<lambda>r. if or_request_id r = i
          then r\<lparr>or_status := s, or_result_json := t\<rparr> else r) (rs @ [q]))
      = Some (q\<lparr>or_status := s, or_result_json := t\<rparr>)"
    if "find (\<lambda>r. or_request_id r = i) rs = None" "or_request_id q = i" for s t and rs :: "operation_row list" and q
    using that by (induction rs) (auto split: if_splits)
  with assms(1,3) begin_tables [OF assms(2)] show ?thesis
    by (simp add: find_operation_def finish_operation_def del: map_append)
qed

lemma finished_result:
  assumes "find_operation db i = None" and "begin_operation i c k d v db = Inr db1"
    and "db_operations db2 = db_operations db1" and "wf_py x"
  shows "operation_result (finish_operation i x db2) i d = Inr (Some (json_norm x))"
  using assms(4) by (simp add: operation_result_def finished_operation [OF assms(1-3)] requireE_def)

lemma result_reads_back:
  assumes "snapshot_storable f t" and "list_all effect_storable fx"
  shows "wf_py (snapshot_result t fx)"
    and "bindE (py_item (json_norm (snapshot_result t fx)) ''snapshot'') (snapshot_from_dict f) = Inr t"
    and "item_list effect_from_dict (json_norm (snapshot_result t fx)) ''effects'' = Inr fx"
proof -
  have fx: "x \<in> set fx \<Longrightarrow> effect_storable x" for x using assms(2) by (simp add: list_all_iff)
  have list: "mapE effect_from_dict (map (\<lambda>x. json_norm (effect_to_dict x)) fx) = Inr fx"
    using effect_doc.dec_list [of fx] fx by (simp add: comp_def)
  show "wf_py (snapshot_result t fx)"
    using snapshot_doc.wf_enc [OF assms(1)] effect_doc.wf_enc [OF fx] by (auto simp: snapshot_result_def)
  show "bindE (py_item (json_norm (snapshot_result t fx)) ''snapshot'') (snapshot_from_dict f) = Inr t"
    unfolding snapshot_result_def
    by (rule doc_obtain, simp, simp add: fields_py_item snapshot_doc.dec_enc [OF assms(1)])
  show "item_list effect_from_dict (json_norm (snapshot_result t fx)) ''effects'' = Inr fx"
    unfolding snapshot_result_def
    by (rule doc_obtain, simp, simp add: item_list_def fields_py_item comp_def list)
qed

section \<open>Transitions\<close>

lemma fresh_operation_bound:
  assumes new: "find_operation db (ev_event_id e) = None" and run: "apply_fresh h e d db = Inr ((t, fx), db')"
  shows "\<exists>q. find_operation db' (ev_event_id e) = Some q \<and> or_payload_digest q = d"
proof -
  obtain s db1 db2 where b: "begin_operation (ev_event_id e) (Some (ev_campaign_id e)) (event_type_value (ev_event_type e))
        d (Some (ev_expected_revision e)) db = Inr db1"
    and p: "persist_transition e t fx d db1 = Inr db2"
    and d: "db' = finish_operation (ev_event_id e) (snapshot_result t fx) db2"
    by (rule apply_fresh_parts [OF run])
  from finished_operation [OF new b persist_operations [OF p]] show ?thesis by (simp add: d)
qed

lemma effects_storable: "list_all (effect_of s e) fx \<Longrightarrow> list_all effect_storable fx"
  by (simp add: list_all_iff effect_of_def)

lemma fresh_operation_result:
  assumes ok: "store_ok h db" and e: "event_readable e" and new: "find_operation db (ev_event_id e) = None"
    and run: "apply_fresh h e d db = Inr ((t, fx), db')"
  shows "operation_result db' (ev_event_id e) d = Inr (Some (json_norm (snapshot_result t fx)))"
    and "snapshot_storable (h_normcase h) t" and "list_all effect_storable fx"
proof -
  obtain s db1 db2 where s: "load_snapshot h db (ev_campaign_id e) = Inr s"
    and b: "begin_operation (ev_event_id e) (Some (ev_campaign_id e)) (event_type_value (ev_event_type e))
        d (Some (ev_expected_revision e)) db = Inr db1"
    and red: "reduce_event s e = Inr (t, fx)" and p: "persist_transition e t fx d db1 = Inr db2"
    and d: "db' = finish_operation (ev_event_id e) (snapshot_result t fx) db2"
    by (rule apply_fresh_parts [OF run])
  show st: "snapshot_storable (h_normcase h) t" by (rule reduce_storable [OF red load_storable [OF ok s] e])
  show fx: "list_all effect_storable fx" by (rule effects_storable [OF reduced_effects [OF red e]])
  show "operation_result db' (ev_event_id e) d = Inr (Some (json_norm (snapshot_result t fx)))"
    unfolding d by (rule finished_result [OF new b persist_operations [OF p] result_reads_back(1) [OF st fx]])
qed

lemma transition_replayed:
  assumes ok: "store_ok h db" and e: "event_readable e" and new: "find_operation db (ev_event_id e) = None"
    and run: "apply_event_tx h e d db = Inr ((t, fx), db')"
  shows "apply_event_tx h e d db' = Inr ((t, fx), db')"
proof -
  let ?d = "or_else d (canonical_json_digest (event_to_dict e))"
  have "apply_fresh h e ?d db = Inr ((t, fx), db')"
    using run new by (simp add: apply_event_tx_def Let_def operation_result_def)
  note fresh = fresh_operation_result [OF ok e new this]
  show ?thesis
    using result_reads_back(2,3) [OF fresh(2,3)] fresh(1) by (simp add: apply_event_tx_def Let_def)
qed

lemma recorded_Inr: "recorded e body db = (Inr x, db') \<longleftrightarrow> body db = Inr (x, db')"
  by (auto simp: recorded_def transaction_def split: sum.splits)

lemma apply_event_Inr:
  "apply_event h (Inr e) db = (Inr r, db') \<longleftrightarrow> ev_event_type e \<notin> human_events \<and> apply_event_tx h e None db = Inr (r, db')"
  by (auto simp: apply_event_def given_def recorded_Inr)

text \<open>A rejection adds at most one row of telemetry.\<close>

lemma recorded_Inl:
  assumes "recorded e body db = (Inl err, db')"
  shows "db' = record_rejection e err db"
  using assms by (auto simp: recorded_def transaction_def split: sum.splits)

lemma rejection_frame: "\<exists>xs. length xs \<le> 1 \<and> record_rejection e err db = db\<lparr>db_telemetry := db_telemetry db @ xs\<rparr>"
proof -
  have "\<exists>xs. length xs \<le> 1 \<and> add_telemetry_row r db = db\<lparr>db_telemetry := db_telemetry db @ xs\<rparr>" for r
    by (cases "telemetry_exists db (tr_telemetry_id r)")
      (simp add: add_telemetry_row_def exI [of _ "[]"], intro exI [of _ "[r]"], simp add: add_telemetry_row_def)
  then show ?thesis by (simp add: record_rejection_def)
qed

lemma rejected_frame:
  assumes "fst (recorded e body db) = Inl err"
  shows "\<exists>xs. length xs \<le> 1 \<and> snd (recorded e body db) = db\<lparr>db_telemetry := db_telemetry db @ xs\<rparr>"
  using assms rejection_frame recorded_Inl [of e body db err "snd (recorded e body db)"] by (simp add: prod_eq_iff)

section \<open>Bound requests\<close>

text \<open>A request identifier that is bound to a payload is never bound to another, in any later store.\<close>

lemma bound_request_refused:
  assumes "find_operation db i = Some r" and "store_steps h db db'" and "d \<noteq> or_payload_digest r"
  shows "\<exists>m. operation_result db' i d = Inl (RequestConflict m)"
proof -
  from requests.steps [OF assms(2)] assms(1) obtain r' where
    "find_operation db' i = Some r'" "or_payload_digest r' = or_payload_digest r"
    unfolding requests_kept_def by blast
  with assms(3) show ?thesis by (simp add: operation_result_def requireE_def)
qed

lemma transition_loaded:
  assumes "store_history h db" and "event_readable e" and "find_operation db (ev_event_id e) = None"
    and "apply_event h (Inr e) db = (Inr (t, fx), db')"
  shows "load_snapshot h db' (ev_campaign_id e) = Inr t"
proof -
  have "apply_fresh h e (canonical_json_digest (event_to_dict e)) db = Inr ((t, fx), db')"
    using assms(3,4) unfolding apply_event_Inr by (simp add: apply_event_tx_def Let_def or_else_def operation_result_def)
  from apply_fresh_step [OF campaign_rows.history [OF assms(1)] assms(2) this] show ?thesis by blast
qed

end
