(* ===== verification/Example_Store.thy ===== *)
theory Example_Store
  imports Driver_Safety Example_Campaign
begin

text \<open>
  Concrete stores, at which the properties of the store are instantiated: the store that holds
  the campaign of Example_Campaign after its creation, and after further operations.  The text
  of the documents stays symbolic.
\<close>

section \<open>The host and the specification\<close>

definition example_host :: host where
  "example_host = \<lparr>h_normcase = id, h_resolve = id, h_expand = id, h_relative = (\<lambda>_ p. Some p), h_now = ''t''\<rparr>"

lemma example_host_normcase [simp]: "h_normcase example_host = id"
  by (simp add: example_host_def)

lemma example_spec_storable: "spec_storable id example_spec"
proof -
  have "list_all node_spec_storable (sp_nodes example_base)" by code_simp
  moreover have "list_all validation_command_storable (sp_required_validation_commands example_base)"
    by code_simp
  moreover have "list_all attempt_budget_storable (sp_attempt_budgets example_base)" by code_simp
  moreover have "frozen (sp_publication_authority example_spec)" by (simp add: frozen_def)
  moreover have "sp_deadline_utc example_base = None" by (simp add: example_base_def)
  moreover have "sp_specification_digest example_spec = compute_digest example_spec" by simp
  ultimately show ?thesis
    using example_valid unfolding spec_storable_def
    by (simp add: kept_text_def) (simp add: example_spec_digest)
qed

section \<open>The store after the creation\<close>

definition example_store :: store where
  "example_store = snd (create_campaign example_host (Inr example_spec) None None empty_store)"

lemma example_store_history: "store_history example_host example_store"
  unfolding store_history_def example_store_def
  by (rule r_into_rtranclp, rule operation_by.create) (simp add: example_spec_storable)

lemmas store_eval = create_campaign_def given_def requireE_def create_tx_def operation_result_def find_operation_def
  transaction_def Let_def or_else_def find_campaign_def create_fresh_def begin_operation_def insert_defs bind_ints_def
  constraint_def campaign_exists_def int64_def campaign_row_of_def sync_snapshot_def mirror_node_def node_exists_def
  finish_operation_def opt_list_def

lemma example_revision [simp]: "sp_specification_revision example_spec = 1"
  by (simp add: example_spec_digest) (simp add: example_base_def)

lemma example_created:
  "create_campaign example_host (Inr example_spec) None None empty_store = (Inr example_initial, example_store)"
  and example_store_tables: "db_campaigns example_store = [campaign_row_of example_initial]"
  "db_nodes example_store = map (mirror_node ''c'') [node_default ''n'', node_default ''k'']"
  "db_leases example_store = []" "db_outbox example_store = []" "db_events example_store = []"
  "db_telemetry example_store = []" "db_findings example_store = []" "db_reviews example_store = []"
  "db_locks example_store = []" "db_actors example_store = []" "db_evidence example_store = []"
  "map or_request_id (db_operations example_store) = [''create:c:'' @ example_digest]"
  "map dr_campaign_id (db_dependencies example_store) = [''c'']"
proof -
  have c: "fst (create_campaign example_host (Inr example_spec) None None empty_store) = Inr example_initial \<and>
    db_campaigns example_store = [campaign_row_of example_initial] \<and>
    db_nodes example_store = map (mirror_node ''c'') [node_default ''n'', node_default ''k''] \<and>
    db_leases example_store = [] \<and> db_outbox example_store = [] \<and> db_events example_store = [] \<and>
    db_telemetry example_store = [] \<and> db_findings example_store = [] \<and> db_reviews example_store = [] \<and>
    db_locks example_store = [] \<and> db_actors example_store = [] \<and> db_evidence example_store = [] \<and>
    map or_request_id (db_operations example_store) = [''create:c:'' @ sp_specification_digest example_spec] \<and>
    map dr_campaign_id (db_dependencies example_store) = [''c'']"
    by (simp add: example_store_def verify_digest_def example_initial empty_store_def example_initial_simps node_default_def
        example_nodes store_eval)
  show "create_campaign example_host (Inr example_spec) None None empty_store = (Inr example_initial, example_store)"
    using c by (simp add: example_store_def prod_eq_iff)
  show "db_campaigns example_store = [campaign_row_of example_initial]"
    "db_nodes example_store = map (mirror_node ''c'') [node_default ''n'', node_default ''k'']"
    "db_leases example_store = []" "db_outbox example_store = []" "db_events example_store = []"
    "db_telemetry example_store = []" "db_findings example_store = []" "db_reviews example_store = []"
    "db_locks example_store = []" "db_actors example_store = []" "db_evidence example_store = []"
    "map or_request_id (db_operations example_store) = [''create:c:'' @ example_digest]"
    "map dr_campaign_id (db_dependencies example_store) = [''c'']"
    using c by (auto simp del: example_spec_simps) (simp_all add: example_spec_digest)
qed

lemma example_loaded: "load_snapshot example_host example_store ''c'' = Inr example_initial"
proof (rule load_agrees)
  show "find_campaign example_store ''c'' = Some (campaign_row_of example_initial)"
    by (simp add: find_campaign_def example_store_tables campaign_row_of_def example_initial_simps)
  show "row_agrees example_host (campaign_row_of example_initial) example_initial"
    by (rule initial_agrees [OF example_initial]) (simp add: example_spec_storable)
qed

section \<open>Accepted events\<close>

lemma apply_event_accepts:
  assumes "load_snapshot h db (ev_campaign_id e) = Inr s" "find_operation db (ev_event_id e) = None"
    "ev_event_type e \<notin> human_events" "ev_event_type e \<noteq> EV_REQUEST_VALIDATION_CORRECTION"
    "reduce_event s e = Inr (t, fx)"
    "begin_operation (ev_event_id e) (Some (ev_campaign_id e)) (event_type_value (ev_event_type e))
        (canonical_json_digest (event_to_dict e)) (Some (ev_expected_revision e)) db = Inr db1"
    "persist_transition e t fx (canonical_json_digest (event_to_dict e)) db1 = Inr db2"
  shows "apply_event h (Inr e) db = (Inr (t, fx), finish_operation (ev_event_id e) (snapshot_result t fx) db2)"
  using assms by (simp add: apply_event_def given_def recorded_def transaction_def apply_event_tx_def Let_def
      or_else_def operation_result_def apply_fresh_def check_correction_evidence_def)

text \<open>The approval and the cancellation of the example, applied to the store.\<close>

definition example_cancel :: event where
  "example_cancel = \<lparr>ev_event_id = ''stop'', ev_campaign_id = ''c'', ev_event_type = EV_CANCEL, ev_expected_revision = 0,
     ev_authority_epoch = 3, ev_cancellation_epoch = 0, ev_node_id = None, ev_actor_id = None,
     ev_fencing_epoch = None, ev_payload = PProxy [(''reason'', PStr ''stop'')]\<rparr>"

lemma example_fresh_operation:
  assumes "i \<noteq> ''create:c:'' @ example_digest"
  shows "find_operation example_store i = None"
proof -
  obtain r where "db_operations example_store = [r]" "or_request_id r = ''create:c:'' @ example_digest"
    using example_store_tables(12) by (auto simp: map_eq_Cons_conv)
  with assms show ?thesis by (simp add: find_operation_def)
qed

definition example_cancelled :: "string \<Rightarrow> campaign_snapshot" where
  "example_cancelled d = (example_start d)
     \<lparr>cs_revision := 1, cs_state := CS_CANCELLED, cs_cancellation_epoch := 1,
      cs_cancellation_state := CN_CANCELLED,
      cs_nodes := [(node_default ''n'')\<lparr>ns_state := NS_CANCELLED\<rparr>, (node_default ''k'')\<lparr>ns_state := NS_CANCELLED\<rparr>],
      cs_failure_reason := Some ''stop''\<rparr>"

lemma example_cancel_reduced:
  "map_sum id fst (reduce_event example_initial example_cancel) = Inr (example_cancelled example_digest)"
proof -
  have "map_sum id fst (reduce_event ((example_start d)\<lparr>cs_state := CS_DRAFT, cs_revision := 0\<rparr>) example_cancel)
      = Inr (example_cancelled d)" for d
    by code_simp
  then show ?thesis by (simp add: example_initial_def)
qed

lemma example_cancel_effects:
  assumes "reduce_event example_initial example_cancel = Inr (t, fx)"
  shows "list_all (\<lambda>i. \<not> ef_external i) fx"
proof -
  have "map_sum id (\<lambda>r. list_all (\<lambda>i. \<not> ef_external i) (snd r))
      (reduce_event ((example_start d)\<lparr>cs_state := CS_DRAFT, cs_revision := 0\<rparr>) example_cancel) = Inr True" for d
    by code_simp
  from this [of example_digest] assms show ?thesis by (simp add: example_initial_def)
qed

section \<open>An effect and a lease\<close>

definition example_prepared :: store where
  "example_prepared = snd (prepare_effect example_host ''push'' ''c'' None (Inr EK_PUSH) [] None example_store)"

definition example_request :: lease_request where
  "example_request =
     \<lparr>lq_campaign_id = ''c'', lq_node_id = ''n'', lq_resource_key = ''readonly:n'',
      lq_actor = \<lparr>ac_actor_id = ''a'', ac_campaign_id = ''c'', ac_node_id = Some ''n'', ac_role = AR_REVIEWER,
        ac_native_thread_id = ''UNBOUND'', ac_authority_epoch = 3, ac_can_write = False,
        ac_native_identity = PProxy [], ac_host_pid = None, ac_principal_id = None\<rparr>,
      lq_lease_id = ''l'', lq_request_id = ''q'', lq_expected_revision = 0, lq_authority_epoch = 3,
      lq_cancellation_epoch = 0, lq_expires_at = None\<rparr>"

definition example_leased :: store where
  "example_leased = snd (acquire_lease example_host example_request example_prepared)"

definition example_push :: "string \<Rightarrow> outbox_row" where
  "example_push st =
     \<lparr>xr_operation_id = ''push'', xr_campaign_id = ''c'', xr_node_id = None, xr_kind = ''PUSH'',
      xr_state = st, xr_payload_json = canonical_json (PProxy []),
      xr_payload_digest = canonical_json_digest (PProxy []), xr_authority_epoch = 3,
      xr_cancellation_epoch = 0, xr_fencing_epoch = None, xr_created_revision = 0,
      xr_updated_revision = 0, xr_result_json = None\<rparr>"

lemma example_push_allowed: "effect_allowed example_initial EK_PUSH = Inr True"
  by (simp add: effect_allowed_def allowed_effects_def example_initial_simps authority_allowed_def get_tuple_def py_get_def)

lemma example_prepared_eq: "example_prepared = example_store\<lparr>db_outbox := [example_push ''PREPARED'']\<rparr>"
proof -
  have "effect_post_init
       \<lparr>ef_operation_id = ''push'', ef_campaign_id = ''c'', ef_node_id = None,
        ef_kind = EK_PUSH, ef_state = ES_PREPARED, ef_payload = PDict [],
        ef_authority_epoch = 3, ef_cancellation_epoch = 0, ef_fencing_epoch = None, ef_external = True\<rparr>
     = Inr \<lparr>ef_operation_id = ''push'', ef_campaign_id = ''c'', ef_node_id = None,
        ef_kind = EK_PUSH, ef_state = ES_PREPARED, ef_payload = PProxy [],
        ef_authority_epoch = 3, ef_cancellation_epoch = 0, ef_fencing_epoch = None, ef_external = True\<rparr>"
    by code_simp
  then have "prepare_tx example_host ''push'' ''c'' None EK_PUSH [] example_store
     = Inr ((), example_store\<lparr>db_outbox := [example_push ''PREPARED'']\<rparr>)"
    by (simp add: prepare_tx_def example_loaded example_initial_simps effect_node_def nonempty_opt_def example_push_allowed
      candidate_unchanged_def prepared_publication_def requireE_def
      insert_effect_def Let_def example_store_tables insert_outbox_row_def bind_ints_def int64_def constraint_def opt_list_def
      campaign_exists_def campaign_row_of_def example_push_def)
  then show ?thesis
    by (simp add: example_prepared_def prepare_effect_def kind_argument_def requireE_def
      transaction_def)
qed

lemma example_prepared_loaded: "load_snapshot example_host example_prepared ''c'' = Inr example_initial"
  by (subst load_cong [where db = example_store]) (simp_all add: example_prepared_eq example_loaded)

lemma example_fresh: "find_operation example_prepared i = find_operation example_store i"
  by (simp add: find_operation_def example_prepared_eq)

definition example_lease :: lease where
  "example_lease =
     \<lparr>ls_lease_id = ''l'', ls_campaign_id = ''c'', ls_node_id = ''n'', ls_resource_key = ''readonly:n'',
      ls_actor_id = ''a'', ls_fencing_epoch = 0, ls_cancellation_epoch = 0, ls_state = LS_ACTIVE,
      ls_expires_at = None\<rparr>"

lemma begin_accepts:
  assumes "find_operation db i = None" and "\<And>r. v = Some r \<Longrightarrow> int64 r"
  shows "begin_operation i c k d v db = Inr (db\<lparr>db_operations := db_operations db @
     [\<lparr>or_request_id = i, or_campaign_id = c, or_kind = k, or_payload_digest = d,
       or_status = ''EXECUTING'', or_result_json = None, or_created_revision = v\<rparr>]\<rparr>)"
  using assms by (auto simp: find_operation_def find_None_iff begin_operation_def insert_operation_row_def
      bind_ints_def constraint_def requireE_def list_ex_iff opt_list_def split: option.splits)

definition example_lease_row :: "string \<Rightarrow> lease_row" where
  "example_lease_row st =
     \<lparr>lr_lease_id = ''l'', lr_campaign_id = ''c'', lr_node_id = ''n'', lr_resource_key = ''readonly:n'',
      lr_actor_id = ''a'', lr_fencing_epoch = 0, lr_cancellation_epoch = 0, lr_state = st,
      lr_expires_at = None, lr_lease_json = canonical_json (lease_to_dict example_lease)\<rparr>"

lemma example_lease_written:
  assumes "db_nodes db = db_nodes example_store" "db_campaigns db = db_campaigns example_store"
    "db_actors db = []" "db_leases db = []" "db_locks db = []"
  shows "\<exists>as ks. write_lease example_request 0 example_initial db
    = Inr (example_lease, db\<lparr>db_actors := as, db_leases := [example_lease_row ''ACTIVE''], db_locks := ks\<rparr>)"
proof -
  have lease: "lease_post_init
       \<lparr>ls_lease_id = ''l'', ls_campaign_id = ''c'', ls_node_id = ''n'', ls_resource_key = ''readonly:n'',
      ls_actor_id = ''a'', ls_fencing_epoch = 0, ls_cancellation_epoch = 0, ls_state = LS_ACTIVE,
      ls_expires_at = None\<rparr> = Inr example_lease" by code_simp
  then show ?thesis
    using assms
    by (simp add: write_lease_def insert_actor_record_def Let_def find_actor_def insert_defs bind_ints_def constraint_def
      requireE_def int64_def opt_list_def example_request_def actor_exists_def node_exists_def campaign_exists_def thread_free_def
      example_store_tables campaign_row_of_def mirror_node_def node_default_def example_initial_simps
      example_lease_def example_lease_row_def) (intro exI, rule refl)
qed

lemma example_acquired:
  "fst (acquire_lease example_host example_request example_prepared) = Inr example_lease"
  "db_leases example_leased = [example_lease_row ''ACTIVE'']"
  "map or_request_id (db_operations example_leased) = [''create:c:'' @ example_digest, ''q'']"
  "db_outbox example_leased = [example_push ''PREPARED'']"
  "db_campaigns example_leased = db_campaigns example_store" "db_nodes example_leased = db_nodes example_store"
  "db_events example_leased = []" "db_telemetry example_leased = []" "db_findings example_leased = []"
  "db_reviews example_leased = []" "db_evidence example_leased = []"
proof -
  let ?d = "lease_request_digest example_request"
  let ?row = "\<lparr>or_request_id = ''q'', or_campaign_id = Some ''c'', or_kind = ''ACQUIRE_READ_ONLY_LEASE'',
      or_payload_digest = ?d, or_status = ''EXECUTING'', or_result_json = None, or_created_revision = Some 0\<rparr>"
  let ?db = "example_prepared\<lparr>db_operations := db_operations example_prepared @ [?row]\<rparr>"
  have fresh: "find_operation example_prepared ''q'' = None"
    by (simp add: example_fresh example_fresh_operation)
  have begin': "begin_operation ''q'' (Some ''c'') ''ACQUIRE_READ_ONLY_LEASE'' ?d (Some 0) example_prepared = Inr ?db"
    by (rule begin_accepts [OF fresh]) (simp add: int64_def)
  have node: "snapshot_node example_initial ''n'' = Inr (node_default ''n'')"
    by (simp add: snapshot_node_def example_initial_simps node_default_def)
  have check: "check_lease_request example_prepared example_initial example_request = Inr ()"
    by (simp add: check_lease_request_def Let_def example_request_def example_initial_simps READ_ONLY_ACTOR_ROLES_def
        example_prepared_eq example_store_tables check_node_leases_def node_lease_actors_def
        CONCURRENT_READ_ONLY_ACTOR_ROLES_def requireE_def)
  have q: "lq_campaign_id example_request = ''c''" "lq_request_id example_request = ''q''"
    "lq_node_id example_request = ''n''" "lq_expected_revision example_request = 0"
    "ac_role (lq_actor example_request) = AR_REVIEWER"
    by (simp_all add: example_request_def)
  obtain as ks where w: "write_lease example_request 0 example_initial ?db
      = Inr (example_lease, ?db\<lparr>db_actors := as, db_leases := [example_lease_row ''ACTIVE''], db_locks := ks\<rparr>)"
    using example_lease_written [of ?db] by (auto simp: example_prepared_eq example_store_tables)
  have op: "operation_result example_prepared ''q'' ?d = Inr None"
    by (simp add: operation_result_def fresh)
  let ?last = "finish_operation ''q''
      (PDict [(''lease'', lease_to_dict example_lease), (''snapshot'', snapshot_to_dict example_initial)])
      (?db\<lparr>db_actors := as, db_leases := [example_lease_row ''ACTIVE''], db_locks := ks\<rparr>)"
  have run: "acquire_lease example_host example_request example_prepared = (Inr example_lease, ?last)"
    using w by (simp add: acquire_lease_def transaction_def acquire_tx_def acquire_fresh_def q op
        example_prepared_loaded check node begin' node_default_def CONCURRENT_READ_ONLY_ACTOR_ROLES_def
        READ_ONLY_ACTOR_ROLES_def)
  then show "fst (acquire_lease example_host example_request example_prepared) = Inr example_lease"
    by simp
  have l: "example_leased = ?last" by (simp add: example_leased_def run)
  show "db_leases example_leased = [example_lease_row ''ACTIVE'']"
    "db_outbox example_leased = [example_push ''PREPARED'']"
    "db_campaigns example_leased = db_campaigns example_store" "db_nodes example_leased = db_nodes example_store"
    "db_events example_leased = []" "db_telemetry example_leased = []" "db_findings example_leased = []"
    "db_reviews example_leased = []" "db_evidence example_leased = []"
    unfolding l by (simp_all add: finish_operation_def example_prepared_eq example_store_tables)
  have "map or_request_id (db_operations ?last) = map or_request_id (db_operations example_store) @ [''q'']"
    by (auto simp: finish_operation_def example_prepared_eq)
  then show "map or_request_id (db_operations example_leased) = [''create:c:'' @ example_digest, ''q'']"
    unfolding l by (simp add: example_store_tables)
qed

lemma example_leased_loaded: "load_snapshot example_host example_leased ''c'' = Inr example_initial"
  by (subst load_cong [where db = example_store]) (simp_all add: example_acquired example_loaded)

lemma example_leased_history: "store_history example_host example_leased"
  unfolding store_history_def
proof (rule rtranclp.rtrancl_into_rtrancl, rule rtranclp.rtrancl_into_rtrancl)
  show "store_steps example_host empty_store example_store"
    using example_store_history by (simp add: store_history_def)
  show "store_step example_host example_store example_prepared"
    unfolding example_prepared_def by (rule operation_by.prepare)
  show "store_step example_host example_prepared example_leased"
    unfolding example_leased_def by (rule operation_by.acquire)
qed

section \<open>The cancellation\<close>

lemma internal_effects: "list_all (\<lambda>i. \<not> ef_external i) fx \<Longrightarrow>
    foldE (\<lambda>i db. if ef_external i then insert_effect i v db else Inr db) fx db = Inr db"
  by (induction fx) simp_all

lemma example_cancelled_simps:
  "cs_spec (example_cancelled example_digest) = example_spec" "cs_revision (example_cancelled d) = 1"
  "cs_state (example_cancelled d) = CS_CANCELLED" "cs_authority_epoch (example_cancelled d) = 3"
  "cs_cancellation_epoch (example_cancelled d) = 1"
  "cs_nodes (example_cancelled d) = [(node_default ''n'')\<lparr>ns_state := NS_CANCELLED\<rparr>, (node_default ''k'')\<lparr>ns_state := NS_CANCELLED\<rparr>]"
  by (simp_all add: example_cancelled_def example_start_def example_spec_digest)

lemma example_cancel_persisted:
  assumes "db_campaigns db = db_campaigns example_store" "db_nodes db = db_nodes example_store"
    "db_events db = []" "db_findings db = []" "list_all (\<lambda>i. \<not> ef_external i) fx"
  shows "\<exists>db2. persist_transition example_cancel (example_cancelled example_digest) fx d db = Inr db2"
proof -
  have "\<exists>db1. swap_campaign example_cancel (example_cancelled example_digest) db = Inr db1
      \<and> db1 = db\<lparr>db_campaigns := [update_campaign_row (example_cancelled example_digest) (campaign_row_of example_initial)]\<rparr>"
    using assms(1) by (simp add: swap_campaign_def Let_def bind_ints_def constraint_def requireE_def int64_def
        example_store_tables campaign_row_of_def example_initial_simps example_cancelled_simps example_cancel_def)
  then obtain db1 where 1: "swap_campaign example_cancel (example_cancelled example_digest) db = Inr db1"
    and c1: "map cr_campaign_id (db_campaigns db1) = [''c'']" and "db_nodes db1 = db_nodes db" "db_events db1 = []"
      "db_findings db1 = []"
    using assms by (auto simp: campaign_row_of_def example_initial_simps)
  then have "\<exists>db2. sync_snapshot (example_cancelled example_digest) db1 = Inr db2"
    using assms(2) by (simp add: sync_snapshot_def Let_def example_cancelled_simps upsert_node_row_def bind_ints_def
        constraint_def requireE_def int64_def node_exists_def mirror_node_def node_default_def example_store_tables)
  then obtain db2 where 2: "sync_snapshot (example_cancelled example_digest) db1 = Inr db2" ..
  have "campaign_exists db2 ''c''" "db_events db2 = []"
    using sync_tables [OF 2] c1 \<open>db_events db1 = []\<close> by (auto simp: campaign_exists_def list_ex_iff map_eq_Cons_conv)
  then show ?thesis
    using 1 2 by (simp add: persist_transition_def Let_def insert_event_row_def bind_ints_def constraint_def requireE_def
        int64_def example_cancelled_simps internal_effects [OF assms(5)] record_dispatched_review_def)
      (simp add: example_cancel_def)
qed

lemma example_cancel_fresh: "find_operation example_leased (ev_event_id example_cancel) = None"
  using example_acquired(3) by (auto simp: find_operation_def map_eq_Cons_conv example_cancel_def)

lemma example_cancel_applied:
  "\<exists>fx db. apply_event example_host (Inr example_cancel) example_leased = (Inr (example_cancelled example_digest, fx), db)"
proof -
  obtain fx where red: "reduce_event example_initial example_cancel = Inr (example_cancelled example_digest, fx)"
    using example_cancel_reduced by (cases "reduce_event example_initial example_cancel") auto
  have e: "ev_campaign_id example_cancel = ''c''" "ev_event_id example_cancel = ''stop''"
    "ev_expected_revision example_cancel = 0" "ev_event_type example_cancel = EV_CANCEL"
    by (simp_all add: example_cancel_def)
  have fresh: "find_operation example_leased ''stop'' = None"
    using example_cancel_fresh by (simp add: e)
  note b = begin_accepts [OF fresh, of "Some 0" "Some ''c''" "event_type_value EV_CANCEL"
      "canonical_json_digest (event_to_dict example_cancel)", simplified int64_def, simplified]
  let ?db = "example_leased\<lparr>db_operations := db_operations example_leased @ [
     \<lparr>or_request_id = ''stop'', or_campaign_id = Some ''c'', or_kind = event_type_value EV_CANCEL,
      or_payload_digest = canonical_json_digest (event_to_dict example_cancel), or_status = ''EXECUTING'',
      or_result_json = None, or_created_revision = Some 0\<rparr>]\<rparr>"
  obtain db2 where "persist_transition example_cancel (example_cancelled example_digest) fx
      (canonical_json_digest (event_to_dict example_cancel)) ?db = Inr db2"
    using example_cancel_persisted [OF _ _ _ _ example_cancel_effects [OF red], of ?db] example_acquired by auto
  with apply_event_accepts [of example_host example_leased example_cancel example_initial "example_cancelled example_digest" fx]
    b red show ?thesis
    by (simp add: e fresh example_leased_loaded human_events_def)
qed

lemma example_cancel_readable: "event_readable example_cancel"
  by (simp add: event_readable_def example_cancel_def dict_get_def)

end
