(* ===== verification/Example_Pair.thy ===== *)
theory Example_Pair
  imports Example_Store
begin

text \<open>
  A second campaign in the worktree of the first, on other paths: both are held by one store.
\<close>

definition other_base :: campaign_spec where
  "other_base = example_base\<lparr>sp_campaign_id := ''d'', sp_allowed_paths := [''doc''],
     sp_nodes := map (\<lambda>n. n\<lparr>nd_allowed_paths := [''doc'']\<rparr>) (sp_nodes example_base)\<rparr>"

definition other_spec :: campaign_spec where
  "other_spec = other_base\<lparr>sp_specification_digest := compute_digest other_base\<rparr>"

lemma other_spec_simps [simp]:
  "sp_campaign_id other_spec = ''d''" "sp_specification_digest other_spec = compute_digest other_spec"
  "sp_allowed_paths other_spec = [''doc'']" "sp_worktree other_spec = ''w''" "sp_specification_revision other_spec = 1"
  "sp_authority_epoch other_spec = 3" "sp_cancellation_epoch other_spec = 0"
  using compute_digest_independent [of "compute_digest other_base" other_base]
  by (simp_all add: other_spec_def other_base_def) (simp_all add: example_base_def)

lemma other_valid: "campaign_spec_post_init id other_spec = Inr other_spec"
proof -
  have "campaign_spec_post_init id (other_base\<lparr>sp_specification_digest := d\<rparr>)
      = Inr (other_base\<lparr>sp_specification_digest := d\<rparr>)" for d
    by code_simp
  then show ?thesis by (simp add: other_spec_def)
qed

lemma other_spec_storable: "spec_storable id other_spec"
proof -
  have "list_all node_spec_storable (sp_nodes other_base)" by code_simp
  moreover have "list_all validation_command_storable (sp_required_validation_commands other_base)"
    by code_simp
  moreover have "list_all attempt_budget_storable (sp_attempt_budgets other_base)" by code_simp
  moreover have "frozen (sp_publication_authority other_base)" by code_simp
  moreover have "sp_deadline_utc other_base = None" by (simp add: other_base_def example_base_def)
  moreover have "sp_specification_digest other_spec = compute_digest other_spec" by simp
  ultimately show ?thesis
    using other_valid unfolding spec_storable_def
    by (simp add: kept_text_def) (simp add: other_spec_def)
qed

definition other_initial :: campaign_snapshot where
  "other_initial = example_initial\<lparr>cs_spec := other_spec\<rparr>"

lemma other_initial_simps:
  "cs_spec other_initial = other_spec" "cs_state other_initial = CS_DRAFT"
  "cs_revision other_initial = 0" "cs_authority_epoch other_initial = 3"
  "cs_cancellation_epoch other_initial = 0" "cs_nodes other_initial = [node_default ''n'', node_default ''k'']"
  by (simp_all add: other_initial_def example_initial_simps)

lemma other_initial: "snapshot_initial other_spec = Inr other_initial"
proof -
  have 1: "verify_digest other_spec = Inr ()" by (simp add: verify_digest_def)
  have 2: "mapE node_post_init (map (\<lambda>n. node_default (nd_node_id n)) (sp_nodes other_base)) = Inr [node_default ''n'', node_default ''k'']"
    by code_simp
  have 3: "mapE (\<lambda>b. budget_balance_post_init
              \<lparr>bb_token = ab_token b, bb_limit = ab_limit b, bb_consumed = 0\<rparr>)
            (sort_key (\<lambda>b. budget_token_value (ab_token b)) (sp_attempt_budgets other_base))
     = Inr (map (\<lambda>t. \<lparr>bb_token = t, bb_limit = 2, bb_consumed = 0\<rparr>)
        [BT_CHILD_START, BT_CLOSURE_DISPATCH, BT_PUSH, BT_REPAIR_DISPATCH, BT_REVIEW_DISPATCH])"
    by code_simp
  have "snapshot_post_init other_initial = Inr other_initial"
    using example_initial_ok(3)
    by (simp add: snapshot_post_init_eq snapshot_ok_def other_initial_def example_initial_simps example_nodes)
       (simp add: other_spec_def other_base_def example_base_def)
  then show ?thesis
    using 1 2 3
    by (simp add: snapshot_initial_def other_spec_def) (simp add: other_initial_def example_initial_def example_start_def other_base_def example_base_def other_spec_def)
qed

section \<open>The store of both\<close>

definition pair_store :: store where
  "pair_store = snd (create_campaign example_host (Inr other_spec) None None example_store)"

lemma pair_history: "store_history example_host pair_store"
  using example_store_history unfolding store_history_def pair_store_def
  by (rule rtranclp.rtrancl_into_rtrancl) (rule operation_by.create, simp add: other_spec_storable)

lemma example_scope_checked: "check_active_scope example_host other_spec (campaign_row_of example_initial) = Inr ()"
proof -
  have read: "bindE (loads (cr_spec_json (campaign_row_of example_initial))) (campaign_spec_from_dict id True) = Inr example_spec"
    using spec_doc.wf_enc [OF example_spec_storable] spec_doc.dec_enc [OF example_spec_storable]
    by (simp add: campaign_row_of_def example_initial_simps)
  have "scopes_overlap [''doc''] [''src''] = Inr False" by code_simp
  moreover have "sp_allowed_paths example_spec = [''src'']" by (simp add: example_spec_digest) (simp add: example_base_def)
  ultimately show ?thesis using read by (simp add: check_active_scope_def requireE_def)
qed

lemma mirror_simps:
  "nr_campaign_id (mirror_node c n) = c" "nr_node_id (mirror_node c n) = ns_node_id n"
  "nr_fencing_epoch (mirror_node c n) = ns_fencing_epoch n"
  "ns_node_id (node_default i) = i" "ns_fencing_epoch (node_default i) = 0"
  "ns_findings (node_default i) = []" "ns_closure_findings (node_default i) = []"
  by (simp_all add: mirror_node_def node_default_def)

lemma other_nodes: "sp_nodes other_spec = map (\<lambda>n. n\<lparr>nd_allowed_paths := [''doc'']\<rparr>) (sp_nodes example_spec)"
  by (simp add: other_spec_def other_base_def example_spec_digest)

lemma pair_campaigns: "db_campaigns pair_store = [campaign_row_of example_initial, campaign_row_of other_initial]"
proof -
  let ?i = "''create:d:'' @ compute_digest other_spec" and ?d = "canonical_json_digest (campaign_spec_to_dict other_spec)"
  let ?db1 = "example_store\<lparr>db_operations := db_operations example_store @
     [\<lparr>or_request_id = ?i, or_campaign_id = Some ''d'', or_kind = ''CREATE_CAMPAIGN'', or_payload_digest = ?d,
       or_status = ''EXECUTING'', or_result_json = None, or_created_revision = Some 0\<rparr>]\<rparr>"
  let ?db2 = "?db1\<lparr>db_campaigns := [campaign_row_of example_initial, campaign_row_of other_initial]\<rparr>"
  have fresh: "find_operation example_store ?i = None"
    by (rule example_fresh_operation) simp
  have row: "cr_campaign_id (campaign_row_of example_initial) = ''c''"
    "cr_state (campaign_row_of example_initial) = ''DRAFT''" "cr_campaign_id (campaign_row_of other_initial) = ''d''"
    by (simp_all add: campaign_row_of_def example_initial_simps other_initial_simps)
  have op: "operation_result example_store ?i ?d = Inr None"
    unfolding operation_result_def fresh by simp
  have b: "begin_operation ?i (Some ''d'') ''CREATE_CAMPAIGN'' ?d (Some 0) example_store = Inr ?db1"
    by (rule begin_accepts [OF fresh]) (simp add: int64_def)
  have ins: "insert_campaign_row (campaign_row_of other_initial) ?db1 = Inr ?db2"
    by (simp add: insert_campaign_row_def bind_ints_def constraint_def requireE_def int64_def campaign_exists_def
        example_store_tables row(1)) (simp add: campaign_row_of_def other_initial_simps)
  have "\<exists>db3. sync_snapshot other_initial ?db2 = Inr db3
      \<and> db_nodes db3 = map (mirror_node ''c'') [node_default ''n'', node_default ''k'']
        @ map (mirror_node ''d'') [node_default ''n'', node_default ''k'']"
    by (simp add: sync_snapshot_def Let_def other_initial_simps upsert_node_row_def bind_ints_def mirror_simps
        constraint_def requireE_def int64_def node_exists_def example_store_tables campaign_exists_def row)
  then obtain db3 where sync: "sync_snapshot other_initial ?db2 = Inr db3"
    and nodes: "db_nodes db3 = map (mirror_node ''c'') [node_default ''n'', node_default ''k'']
        @ map (mirror_node ''d'') [node_default ''n'', node_default ''k'']"
    by blast
  have c3: "db_campaigns db3 = db_campaigns ?db2" and d3: "map dr_campaign_id (db_dependencies db3) = [''c'']"
    using sync_tables(1,2) [OF sync] by (simp_all add: example_store_tables)
  from d3 obtain z where z: "db_dependencies db3 = [z]" "dr_campaign_id z = ''c''"
    by (auto simp: map_eq_Cons_conv)
  have ne: "\<lparr>dr_campaign_id = ''d'', dr_node_id = ''k'', dr_depends_on_node_id = ''n''\<rparr> \<noteq> z"
    using z(2) by (cases z) simp
  obtain db4 where dep: "foldE (\<lambda>node. foldE (\<lambda>dependency. insert_dependency_row
         \<lparr>dr_campaign_id = ''d'', dr_node_id = nd_node_id node, dr_depends_on_node_id = dependency\<rparr>)
         (nd_dependencies node)) (sp_nodes other_spec) db3 = Inr db4" and c4: "db_campaigns db4 = db_campaigns db3"
    using nodes z ne by (auto simp: other_nodes example_nodes insert_dependency_row_def constraint_def requireE_def
        node_exists_def mirror_simps map_eq_Cons_conv)
  have "create_campaign example_host (Inr other_spec) None None example_store
      = (Inr other_initial, finish_operation ?i (snapshot_result other_initial []) db4)"
    using op b ins sync dep
    by (simp add: create_campaign_def given_def verify_digest_def requireE_def other_initial transaction_def
        or_else_def Let_def create_tx_def find_campaign_def example_store_tables row
        create_fresh_def terminal_state_values_def example_scope_checked)
  then show ?thesis by (simp add: pair_store_def c4 c3)
qed

lemma pair_loaded:
  "load_snapshot example_host pair_store ''c'' = Inr example_initial"
  "load_snapshot example_host pair_store ''d'' = Inr other_initial"
proof -
  have f: "find_campaign pair_store ''c'' = Some (campaign_row_of example_initial)"
    "find_campaign pair_store ''d'' = Some (campaign_row_of other_initial)"
    by (simp_all add: find_campaign_def pair_campaigns) (simp_all add: campaign_row_of_def example_initial_simps
        other_initial_simps)
  show "load_snapshot example_host pair_store ''c'' = Inr example_initial"
    by (rule load_agrees [OF f(1) initial_agrees [OF example_initial]]) (simp add: example_spec_storable)
  show "load_snapshot example_host pair_store ''d'' = Inr other_initial"
    by (rule load_agrees [OF f(2) initial_agrees [OF other_initial]]) (simp add: other_spec_storable)
qed

end
