(* ===== verification/Example_Effects.thy ===== *)
theory Example_Effects
  imports Example_Store
begin

text \<open>
  The effect of the example moved through its states, and executed by the driver over a backend
  whose world says whether the publication has happened.
\<close>

section \<open>Execution and recovery\<close>

definition example_executing :: store where
  "example_executing = snd (update_effect example_host ''push'' (Inr ES_EXECUTING) None None example_leased)"

lemma example_push_found: "find_effect example_leased ''push'' = Some (example_push ''PREPARED'')"
  by (simp add: find_effect_def example_acquired example_push_def)

lemma effect_state_read: "enum_new effect_states effect_state_value ''EffectState'' (effect_state_value s) = Inr s"
  by (rule effect_state_enum.new_value)

lemma example_executing_outbox: "db_outbox example_executing = [example_push ''EXECUTING'']"
  "db_campaigns example_executing = db_campaigns example_leased" "db_leases example_executing = db_leases example_leased"
proof -
  have "update_effect_tx example_host ''push'' ES_EXECUTING None None example_leased
      = Inr ((), example_leased\<lparr>db_outbox := [example_push ''EXECUTING'']\<rparr>)"
    using effect_state_read [of ES_PREPARED] example_push_found
    by (simp add: update_effect_tx_def example_push_def requireE_def Let_def example_leased_loaded check_execution_def
        example_initial_simps write_effect_def bind_ints_def int64_def example_acquired)
  then show "db_outbox example_executing = [example_push ''EXECUTING'']"
    "db_campaigns example_executing = db_campaigns example_leased" "db_leases example_executing = db_leases example_leased"
    by (simp_all add: example_executing_def update_effect_def state_argument_def transaction_def)
qed

lemma example_executing_history: "store_history example_host example_executing"
  using example_leased_history unfolding store_history_def example_executing_def
  by (rule rtranclp.rtrancl_into_rtrancl) (rule operation_by.update)

section \<open>A run of the driver\<close>

definition example_backend :: "bool backend" where
  "example_backend =
     \<lparr>bk_query = (\<lambda>_ _ w. (Inr (PDict [(''confirmed'', PBool w)]), w)),
      bk_execute = (\<lambda>_ _ _. (Inr (PDict []), True)),
      bk_sources = (\<lambda>_ _ w. (Inr (), w))\<rparr>"

definition example_driver :: "bool driver" where
  "example_driver = \<lparr>dv_store = example_leased, dv_world = False, dv_executed = []\<rparr>"

definition example_record :: "string \<Rightarrow> pydict" where
  "example_record st =
     [(''operation_id'', PStr ''push''), (''campaign_id'', PStr ''c''), (''node_id'', PNone),
      (''kind'', PStr ''PUSH''), (''state'', PStr st), (''payload'', PDict []),
      (''payload_digest'', PStr (canonical_json_digest (PProxy []))), (''authority_epoch'', PInt 3),
      (''cancellation_epoch'', PInt 0), (''fencing_epoch'', PNone), (''created_revision'', PInt 0),
      (''updated_revision'', PInt 0), (''result'', PNone)]"

lemma example_push_row: "effect_row (example_push st) = Inr (example_record st)"
  by (simp add: effect_row_def example_push_def example_record_def py_opt_str_def py_opt_int_def)

lemma example_record_fields:
  "dict_get (example_record st) ''payload'' x = PDict []" "dict_get (example_record st) ''state'' x = PStr st"
  "dict_get (example_record st) ''campaign_id'' x = PStr ''c''" "dict_get (example_record st) ''node_id'' x = PNone"
  "dict_get (example_record st) ''payload_digest'' x = PStr (canonical_json_digest (PProxy []))"
  "record_text (example_record st) ''campaign_id'' = Inr ''c''" "record_text (example_record st) ''kind'' = Inr ''PUSH''"
  "record_text (example_record st) ''state'' = Inr st" "record_payload (example_record st) = Inr (PDict [])"
  "py_item (PDict (example_record st)) ''kind'' = Inr (PStr ''PUSH'')"
  by (simp_all add: example_record_def dict_get_def record_text_def record_payload_def item_str_def py_item_def)

lemma example_contract:
  assumes "load_snapshot example_host (dv_store s) ''c'' = Inr example_initial"
  shows "assert_campaign_contract example_host example_backend (example_record st) check s = (Inr (), s)"
  using assms
  by (simp add: assert_campaign_contract_def and_then_def read_store_def get_snapshot_def example_record_fields
      example_initial_simps requireE_def on_world_def example_backend_def give_def)

lemma then_get_effect_done: "then_get_effect i (Inr (), db) = (get_effect i db, db)"
  unfolding then_get_effect_def by (simp only: prod.case sum.case unit.case)

lemma example_moved:
  "move_effect example_host ''push'' ''PREPARED'' ''EXECUTING'' None example_driver
    = (Inr (example_record ''EXECUTING''), example_driver\<lparr>dv_store := example_leased\<lparr>db_outbox := [example_push ''EXECUTING'']\<rparr>\<rparr>)"
proof -
  have st: "state_argument (Inl ''EXECUTING'') = Inr ES_EXECUTING" "state_argument (Inl ''PREPARED'') = Inr ES_PREPARED"
    using effect_state_read [of ES_EXECUTING] effect_state_read [of ES_PREPARED] by (simp_all add: state_argument_def)
  have "update_effect_tx example_host ''push'' ES_EXECUTING None (Some (Inl ''PREPARED'')) example_leased
      = Inr ((), example_leased\<lparr>db_outbox := [example_push ''EXECUTING'']\<rparr>)"
    using effect_state_read [of ES_PREPARED] example_push_found st
    by (simp add: update_effect_tx_def example_push_def requireE_def Let_def example_leased_loaded check_execution_def
        example_initial_simps write_effect_def bind_ints_def int64_def example_acquired)
  moreover have "find_effect (example_leased\<lparr>db_outbox := [example_push ''EXECUTING'']\<rparr>) ''push'' = Some (example_push ''EXECUTING'')"
    by (simp add: find_effect_def example_push_def)
  ultimately show ?thesis
    by (simp add: move_effect_def on_store_def example_driver_def update_effect_def st transaction_def
        then_get_effect_done get_effect_def example_push_row)
qed

lemma example_run_executes:
  "dv_executed (snd (Effect_Driver.run example_host example_backend ''push'' False example_driver)) = [''push'']"
proof -
  have id: "stable_id ''push'' ''operation id'' = Inr ''push''" by code_simp
  have got: "read_store (get_effect ''push'') example_driver = (Inr (example_record ''PREPARED''), example_driver)"
    by (simp add: read_store_def get_effect_def example_driver_def example_push_found example_push_row)
  have digest: "canonical_json_digest (PDict []) = canonical_json_digest (PProxy [])"
    using canonical_json_freeze [of "PDict []"] by (simp add: canonical_json_digest_def)
  have asserted: "assert_record (example_record ''PREPARED'') = Inr ()"
    by (simp add: assert_record_def example_record_fields Let_def requireE_def digest is_mapping_def)
      (simp add: effect_states_def)
  have load: "load_snapshot example_host (dv_store example_driver) ''c'' = Inr example_initial"
    by (simp add: example_driver_def example_leased_loaded)
  have query: "confirm_from_query example_host example_backend (example_record ''PREPARED'') ''PREPARED'' example_driver
      = (Inr None, example_driver)"
    by (simp add: confirm_from_query_def and_then_def pure_res_def example_record_fields query_effect_def on_world_def
        example_backend_def dict_of_def py_dict_def give_def example_driver_def dict_get_def)
  let ?d = "example_driver\<lparr>dv_store := example_leased\<lparr>db_outbox := [example_push ''EXECUTING'']\<rparr>\<rparr>"
  have load': "load_snapshot example_host (dv_store ?d) ''c'' = Inr example_initial"
    using load_cong [of "dv_store ?d" example_leased] by (simp add: example_leased_loaded)
  obtain d' where execute: "execute_effect example_backend ''push'' ''PUSH'' (PDict []) ?d = (Inr [], d')"
    and trace: "dv_executed d' = [''push'']"
    by (simp add: execute_effect_def and_then_def on_world_def example_backend_def dict_of_def pure_res_def py_dict_def
        example_driver_def)
  have after: "after_move example_host example_backend ''push'' (example_record ''EXECUTING'') ?d
      = confirm_execution example_host example_backend ''push'' ''PUSH'' (PDict []) [] d'"
    by (simp add: after_move_def attempt_def and_then_def pure_res_def example_record_fields
        example_contract [OF load'] execute give_def)
  have "Effect_Driver.run example_host example_backend ''push'' False example_driver
      = confirm_execution example_host example_backend ''push'' ''PUSH'' (PDict []) [] d'"
    by (simp add: Effect_Driver.run_def and_then_def pure_res_def id got asserted example_record_fields run_prepared_def attempt_def
        example_contract [OF load] query execute_prepared_eq example_moved after)
  then show ?thesis
    using quiet_confirm_execution [of example_host example_backend "''push''" "''PUSH''" "PDict []" "[]"] trace
    by (simp add: quiet_def)
qed

lemma example_driver_history:
  "driver_history example_host (snd (Effect_Driver.run example_host example_backend ''push'' False example_driver))"
  unfolding driver_history_def example_driver_def
  by (rule exI [of _ example_leased], rule exI [of _ False], rule r_into_rtranclp, rule driver_step.run)

end
