(* ===== verification/Store_Properties.thy ===== *)
theory Store_Properties
  imports Driver_Safety Store_Replay Example_Pair Example_Effects
begin

text \<open>
  What the store and the effect driver guarantee, each property with a concrete instance.  The
  properties of a store hold after every history: any sequence of the operations of
  \<open>CampaignStore\<close> from the empty database.
\<close>

section \<open>Campaigns\<close>

text \<open>C20: The text that the store writes for a snapshot determines it: reading the canonical JSON
  of a storable snapshot back with \<open>CampaignSnapshot.from_dict\<close> gives the same snapshot, and no
  two storable snapshots share a text.\<close>

theorem snapshot_text_roundtrip:
  assumes "snapshot_storable resolve s"
  shows "bindE (loads (canonical_json (snapshot_to_dict s))) (snapshot_from_dict resolve) = Inr s
    \<and> (snapshot_storable resolve t \<and> canonical_json (snapshot_to_dict t) = canonical_json (snapshot_to_dict s) \<longrightarrow> t = s)"
  using snapshot_reads_back [OF assms] snapshot_doc.text_inject [of resolve t s] assms by blast

theorem snapshot_text_roundtrip_witness:
  "bindE (loads (canonical_json (snapshot_to_dict example_initial))) (snapshot_from_dict id) = Inr example_initial"
  using snapshot_text_roundtrip [of id example_initial example_initial]
    initial_storable [OF example_initial example_spec_storable] by simp

text \<open>C21: Every row of \<open>campaigns\<close> is well formed after every history: its snapshot can be read
  back, the reducer can reach it from the specification of the row, it satisfies the constraints
  of \<open>CampaignSnapshot\<close>, and the other columns agree with it.\<close>

theorem stored_campaigns_well_formed:
  assumes "store_history h db" and "r \<in> set (db_campaigns db)"
  shows "\<exists>s. load_snapshot h db (cr_campaign_id r) = Inr s \<and> snapshot_ok s \<and> reachable (cs_spec s) s
    \<and> cr_campaign_id r = sp_campaign_id (cs_spec s) \<and> cr_store_revision r = cs_revision s
    \<and> cr_state r = campaign_state_value (cs_state s)
    \<and> cr_specification_digest r = sp_specification_digest (cs_spec s)
    \<and> cr_authority_epoch r = cs_authority_epoch s \<and> cr_cancellation_epoch r = cs_cancellation_epoch s"
proof -
  have ok: "store_ok h db" by (rule campaign_rows.history [OF assms(1)])
  with assms(2) obtain s where s: "row_agrees h r s" by (auto simp: store_ok_def)
  have "find_campaign db (cr_campaign_id r) = Some r"
    using ok assms(2) by (simp add: store_ok_def find_campaign_def find_distinct_eq)
  from load_agrees [OF this s] s show ?thesis
    by (auto simp: row_agrees_def snapshot_storable_iff)
qed

theorem stored_campaigns_well_formed_witness:
  "\<exists>s. load_snapshot example_host example_leased (cr_campaign_id (campaign_row_of example_initial)) = Inr s \<and> snapshot_ok s"
  using stored_campaigns_well_formed [OF example_leased_history, of "campaign_row_of example_initial"]
  by (auto simp: example_acquired example_store_tables)

text \<open>C22: A transition of the store refines the reducer: when \<open>apply_event\<close> accepts an event that is
  not a replay, the event is a step of the reducer from the snapshot that the store held to the
  snapshot that it holds afterwards, with the same effects, and every other campaign is
  unchanged.\<close>

theorem accepted_event_refines:
  assumes "store_history h db" and "event_readable e" and "find_operation db (ev_event_id e) = None"
    and "apply_event h (Inr e) db = (Inr (t, fx), db')"
  shows "\<exists>s. load_snapshot h db (ev_campaign_id e) = Inr s \<and> reduce_event s e = Inr (t, fx)
    \<and> load_snapshot h db' (ev_campaign_id e) = Inr t
    \<and> (\<forall>c. c \<noteq> ev_campaign_id e \<longrightarrow> load_snapshot h db' c = load_snapshot h db c)"
proof -
  have "apply_fresh h e (canonical_json_digest (event_to_dict e)) db = Inr ((t, fx), db')"
    using assms(3,4) by (simp add: apply_event_Inr apply_event_tx_def Let_def or_else_def operation_result_def)
  from apply_fresh_step [OF campaign_rows.history [OF assms(1)] assms(2) this] show ?thesis by metis
qed

theorem accepted_event_refines_witness:
  "\<exists>s fx db'. apply_event example_host (Inr example_cancel) example_leased = (Inr (example_cancelled example_digest, fx), db')
    \<and> reduce_event s example_cancel = Inr (example_cancelled example_digest, fx)
    \<and> load_snapshot example_host example_leased ''c'' = Inr s
    \<and> load_snapshot example_host db' ''c'' = Inr (example_cancelled example_digest)"
proof -
  obtain fx db' where run: "apply_event example_host (Inr example_cancel) example_leased
      = (Inr (example_cancelled example_digest, fx), db')" using example_cancel_applied by blast
  have "find_operation example_leased (ev_event_id example_cancel) = None" by (rule example_cancel_fresh)
  from accepted_event_refines [OF example_leased_history example_cancel_readable this run] run
  show ?thesis by (auto simp: example_cancel_def)
qed

text \<open>Events are idempotent: an event that was accepted, applied again to the store after it,
  returns the same snapshot and effects and changes nothing.\<close>

theorem event_replayed:
  assumes "store_history h db" and "event_readable e" and "find_operation db (ev_event_id e) = None"
    and "apply_event h (Inr e) db = (Inr (t, fx), db')"
  shows "apply_event h (Inr e) db' = (Inr (t, fx), db')"
proof -
  from assms(4) have run: "apply_event_tx h e None db = Inr ((t, fx), db')" and ty: "ev_event_type e \<notin> human_events"
    unfolding apply_event_Inr by blast+
  from transition_replayed [OF campaign_rows.history [OF assms(1)] assms(2,3) run] ty
  show ?thesis unfolding apply_event_Inr by blast
qed

theorem event_replayed_witness:
  "\<exists>fx db'. apply_event example_host (Inr example_cancel) example_leased = (Inr (example_cancelled example_digest, fx), db')
    \<and> apply_event example_host (Inr example_cancel) db' = (Inr (example_cancelled example_digest, fx), db')"
proof -
  obtain fx db' where run: "apply_event example_host (Inr example_cancel) example_leased
      = (Inr (example_cancelled example_digest, fx), db')" using example_cancel_applied by blast
  with event_replayed [OF example_leased_history example_cancel_readable example_cancel_fresh run]
  show ?thesis by blast
qed



text \<open>A request identifier stays bound to its payload: once an event was accepted, no later store,
  after any sequence of operations, accepts another event under its identifier: the digests of the
  two documents are equal or the later event raises \<open>RequestConflict\<close>.\<close>

theorem accepted_request_stays_bound:
  assumes "store_history h db" and "event_readable e" and "find_operation db (ev_event_id e) = None"
    and "apply_event h (Inr e) db = (Inr r, db')" and "store_steps h db' db2"
    and "ev_event_id f = ev_event_id e" "ev_event_type f \<notin> human_events"
  shows "canonical_json_digest (event_to_dict f) = canonical_json_digest (event_to_dict e)
    \<or> (\<exists>m. fst (apply_event h (Inr f) db2) = Inl (RequestConflict m))"
proof (cases "canonical_json_digest (event_to_dict f) = canonical_json_digest (event_to_dict e)")
  case False
  obtain t fx where r: "r = (t, fx)" by (cases r)
  from assms(3,4) have "apply_fresh h e (canonical_json_digest (event_to_dict e)) db = Inr ((t, fx), db')"
    unfolding r apply_event_Inr by (simp add: apply_event_tx_def Let_def or_else_def operation_result_def)
  from fresh_operation_bound [OF assms(3) this] obtain q where
    "find_operation db' (ev_event_id f) = Some q" "or_payload_digest q = canonical_json_digest (event_to_dict e)"
    unfolding assms(6) by blast
  with bound_request_refused [OF _ assms(5), of "ev_event_id f" q "canonical_json_digest (event_to_dict f)"] False
  obtain m where "operation_result db2 (ev_event_id f) (canonical_json_digest (event_to_dict f)) = Inl (RequestConflict m)"
    by metis
  with assms(7) show ?thesis
    by (simp add: apply_event_def given_def recorded_def transaction_def apply_event_tx_def Let_def or_else_def)
qed simp

theorem accepted_request_stays_bound_witness:
  "\<exists>fx db'. apply_event example_host (Inr example_cancel) example_leased = (Inr (example_cancelled example_digest, fx), db')
    \<and> (canonical_json_digest (event_to_dict (example_cancel\<lparr>ev_payload := PProxy [(''reason'', PStr ''other'')]\<rparr>))
          = canonical_json_digest (event_to_dict example_cancel)
       \<or> (\<exists>m. fst (apply_event example_host (Inr (example_cancel\<lparr>ev_payload := PProxy [(''reason'', PStr ''other'')]\<rparr>))
            (snd (recover_after_restart example_host [] db'))) = Inl (RequestConflict m)))"
proof -
  obtain fx db' where run: "apply_event example_host (Inr example_cancel) example_leased
      = (Inr (example_cancelled example_digest, fx), db')" using example_cancel_applied by blast
  let ?f = "example_cancel\<lparr>ev_payload := PProxy [(''reason'', PStr ''other'')]\<rparr>"
  have "store_steps example_host db' (snd (recover_after_restart example_host [] db'))"
    by (rule r_into_rtranclp) (rule operation_by.recover)
  moreover have "ev_event_id ?f = ev_event_id example_cancel" "ev_event_type ?f \<notin> human_events"
    by (simp_all add: example_cancel_def human_events_def)
  ultimately show ?thesis
    using accepted_request_stays_bound [OF example_leased_history example_cancel_readable example_cancel_fresh run] run
    by blast
qed

section \<open>Leases and scopes\<close>

text \<open>After every history a resource has at most one active lease, and lease identifiers are
  unique.\<close>

theorem one_active_lease:
  assumes "store_history h db"
  shows "distinct (map lr_resource_key (filter (\<lambda>l. lr_state l = ''ACTIVE'') (db_leases db)))
    \<and> distinct (map lr_lease_id (db_leases db))"
  using leases.history [OF assms] by (simp add: single_leases_def active_keys_def)

theorem one_active_lease_witness:
  "distinct (map lr_resource_key (filter (\<lambda>l. lr_state l = ''ACTIVE'') (db_leases example_leased)))
    \<and> db_leases example_leased \<noteq> []"
  using one_active_lease [OF example_leased_history] by (simp add: example_acquired)



section \<open>Effects\<close>

text \<open>C25: An effect that was recorded stays in the outbox with its identity, payload, epochs and
  fence, whatever operations follow, and its state only moves forward: a confirmed, failed or
  cancelled effect keeps its state, an ambiguous one is never prepared or executing again, and an
  executing one is never prepared again.\<close>

theorem effects_move_forward:
  assumes "store_steps h db db'" and "find_effect db i = Some x"
  shows "\<exists>y. find_effect db' i = Some y
    \<and> y = x\<lparr>xr_state := xr_state y, xr_updated_revision := xr_updated_revision y, xr_result_json := xr_result_json y\<rparr>
    \<and> (xr_state x \<in> {''CONFIRMED'', ''FAILED'', ''CANCELLED''} \<longrightarrow> xr_state y = xr_state x)
    \<and> (xr_state x = ''AMBIGUOUS'' \<longrightarrow> xr_state y \<in> {''AMBIGUOUS'', ''CONFIRMED'', ''FAILED'', ''CANCELLED''})
    \<and> (xr_state x = ''EXECUTING'' \<longrightarrow> xr_state y \<noteq> ''PREPARED'')"
proof -
  from outbox.steps [OF assms(1)] assms(2) obtain y where
    y: "find_effect db' i = Some y" "effect_kept x y" by (auto simp: outbox_kept_def)
  have "effect_moves (xr_state x) (xr_state y)" using y(2) by (simp add: effect_kept_def)
  note moves = effect_moves_settled [OF this] effect_moves_ambiguous [OF this] effect_moves_prepared [OF this]
  have kept: "y = x\<lparr>xr_state := xr_state y, xr_updated_revision := xr_updated_revision y, xr_result_json := xr_result_json y\<rparr>"
    using y(2) by (simp add: effect_kept_def)
  show ?thesis
  proof (rule exI [of _ y], intro conjI impI)
    show "xr_state x = ''EXECUTING'' \<Longrightarrow> xr_state y \<noteq> ''PREPARED''" using moves(3) by fastforce
  qed (rule y(1), rule kept, erule moves(1), erule moves(2))
qed

theorem effects_move_forward_witness:
  "\<exists>y. find_effect (snd (recover_after_restart example_host [] example_executing)) ''push'' = Some y
    \<and> xr_state y \<noteq> ''PREPARED'' \<and> xr_payload_digest y = canonical_json_digest (PProxy [])"
proof -
  have "store_steps example_host example_executing (snd (recover_after_restart example_host [] example_executing))"
    by (rule r_into_rtranclp) (rule operation_by.recover)
  moreover have "find_effect example_executing ''push'' = Some (example_push ''EXECUTING'')"
    by (simp add: find_effect_def example_executing_outbox example_push_def)
  ultimately obtain y where y: "find_effect (snd (recover_after_restart example_host [] example_executing)) ''push'' = Some y"
    "y = (example_push ''EXECUTING'')\<lparr>xr_state := xr_state y, xr_updated_revision := xr_updated_revision y,
        xr_result_json := xr_result_json y\<rparr>"
    "xr_state (example_push ''EXECUTING'') = ''EXECUTING'' \<longrightarrow> xr_state y \<noteq> ''PREPARED''"
    using effects_move_forward [of example_host example_executing _ "''push''"] by blast
  have "xr_payload_digest y = xr_payload_digest ((example_push ''EXECUTING'')\<lparr>xr_state := xr_state y,
      xr_updated_revision := xr_updated_revision y, xr_result_json := xr_result_json y\<rparr>)"
    by (rule arg_cong [OF y(2)])
  then have "xr_payload_digest y = canonical_json_digest (PProxy [])" by (simp add: example_push_def)
  moreover have "xr_state y \<noteq> ''PREPARED''" using y(3) by (simp add: example_push_def)
  ultimately show ?thesis using y(1) by blast
qed

text \<open>No external effect is executed twice: in every history of the driver, whatever backends,
  crashes and interleaved operations of the store, the mutations handed to a backend belong to
  distinct operations.\<close>

theorem effects_executed_once:
  assumes "driver_history h s"
  shows "distinct (dv_executed s)"
  using history_executed_once [OF assms] by (simp add: executed_once_def)

theorem effects_executed_once_witness:
  "dv_executed (snd (Effect_Driver.run example_host example_backend ''push'' False example_driver)) = [''push'']
    \<and> distinct (dv_executed (snd (Effect_Driver.run example_host example_backend ''push'' False example_driver)))"
  using effects_executed_once [OF example_driver_history] example_run_executes by simp

text \<open>Only a prepared effect is executed: running an effect that the store holds in any other state,
  or running any effect of a cancelled campaign, hands no mutation to the backend; it returns the
  record, queries the backend, or cancels the effect.\<close>

theorem only_prepared_effects_execute:
  assumes "\<not> (\<exists>x. find_effect (dv_store s) (py_strip i) = Some x \<and> xr_state x = ''PREPARED'') \<or> stop"
  shows "dv_executed (snd (Effect_Driver.run h b i stop s)) = dv_executed s"
  using assms run_not_prepared by blast

theorem only_prepared_effects_execute_witness:
  "dv_executed (snd (Effect_Driver.run example_host example_backend ''push'' False
      (example_driver\<lparr>dv_store := example_executing\<rparr>))) = []
    \<and> dv_executed (snd (Effect_Driver.run example_host example_backend ''push'' True example_driver)) = []"
proof -
  have "py_strip ''push'' = ''push''" by code_simp
  then show ?thesis
    using only_prepared_effects_execute [of "example_driver\<lparr>dv_store := example_executing\<rparr>" "''push''" False]
      only_prepared_effects_execute [of example_driver "''push''" True]
    by (simp add: find_effect_def example_executing_outbox example_push_def) (simp add: example_driver_def)
qed

text \<open>C26: STOP holds for effects: after every history no effect of a cancelled campaign is prepared or
  executing, so no operation after a cancellation can start one.\<close>

theorem cancelled_campaigns_have_no_live_effects:
  assumes "store_history h db" and "load_snapshot h db c = Inr s" and "cs_state s = CS_CANCELLED"
  shows "list_all (\<lambda>x. xr_campaign_id x = c \<longrightarrow> xr_state x \<notin> {''PREPARED'', ''EXECUTING''}) (db_outbox db)"
  using stopped.history [OF assms(1)] assms(2,3) by (auto simp: cancelled_quiet_def live_effect_def list_all_iff)

theorem cancelled_campaigns_have_no_live_effects_witness:
  "\<exists>fx db y. apply_event example_host (Inr example_cancel) example_leased = (Inr (example_cancelled example_digest, fx), db)
    \<and> find_effect example_leased ''push'' = Some (example_push ''PREPARED'')
    \<and> find_effect db ''push'' = Some y \<and> xr_state y \<notin> {''PREPARED'', ''EXECUTING''}"
proof -
  obtain fx db where run: "apply_event example_host (Inr example_cancel) example_leased
      = (Inr (example_cancelled example_digest, fx), db)" using example_cancel_applied by blast
  have step: "store_step example_host example_leased db"
    using operation_by.apply_event [OF disjI2 [OF example_cancel_readable], of False example_host example_leased] run by simp
  then have hist: "store_history example_host db"
    using example_leased_history unfolding store_history_def by (rule rtranclp.rtrancl_into_rtrancl [rotated])
  obtain y where y: "find_effect db ''push'' = Some y" "xr_campaign_id y = ''c''"
    using effect_row_survives [OF r_into_rtranclp [of "store_step example_host", OF step] example_push_found]
    by (auto simp: example_push_def)
  then have mem: "y \<in> set (db_outbox db)" by (auto simp: find_effect_def dest!: find_Some_set)
  have "load_snapshot example_host db ''c'' = Inr (example_cancelled example_digest)"
    using transition_loaded [OF example_leased_history example_cancel_readable example_cancel_fresh run]
    by (simp add: example_cancel_def)
  from cancelled_campaigns_have_no_live_effects [OF hist this] mem y run
  show ?thesis by (auto simp: example_cancelled_simps list_all_iff example_push_found)
qed

end
