(* ===== verification/Store_Outcomes.thy ===== *)
theory Store_Outcomes
  imports Store_Replay Driver_Safety
begin

text \<open>
  What the remaining operations of the store establish: recovery after a restart, the
  authorization of a write, the consumption of a receipt, the reservation of a budget attempt,
  the counters of native usage and the recording of evidence.
\<close>

section \<open>Recovery\<close>

lemma recover_Inr:
  assumes "recover_after_restart h retained db = (Inr d, db')"
  shows "db' = recovered_store retained db" and "i \<in> set retained \<Longrightarrow> check_retained h retained db i = Inr ()"
proof -
  from assms obtain us where us: "mapE (check_retained h retained db) retained = Inr us"
    and d: "db' = recovered_store retained db"
    by (auto simp: recover_after_restart_def transaction_Inr recover_tx_def bindE_Inr_iff split: if_splits)
  show "db' = recovered_store retained db" by (rule d)
  show "i \<in> set retained \<Longrightarrow> check_retained h retained db i = Inr ()"
    using mapE_member [OF us] by auto
qed

lemma check_retained_reviewer:
  assumes "check_retained h retained db i = Inr ()"
  shows "\<exists>l a. find_lease db i = Some l \<and> find_actor db (lr_actor_id l) = Some a \<and> retained_binding a l"
  using assms by (auto simp: check_retained_def Let_def res_simps split: option.splits)

lemma recovered_effects: "x \<in> set (db_outbox (recovered_store retained db)) \<Longrightarrow> xr_state x \<noteq> ''EXECUTING''"
  by (auto simp: recovered_store_def Let_def)

lemma recovered_leases:
  "l \<in> set (db_leases (recovered_store retained db)) \<Longrightarrow> lr_state l = ''ACTIVE'' \<Longrightarrow> lr_lease_id l \<in> set retained"
  by (auto simp: recovered_store_def Let_def orphan_lease_def split: if_splits)

lemma recovered_locks:
  assumes "k \<in> set (db_locks (recovered_store retained db))" and "kr_lease_id k = Some i"
    and "l \<in> set (db_leases (recovered_store retained db))" and "lr_lease_id l = i"
  shows "lr_state l = ''ACTIVE''"
  using assms by (auto simp: recovered_store_def Let_def split: if_splits option.splits)

section \<open>Authorizing a write\<close>

lemma action_parts:
  assumes "verify_actor_action h q db = Inr d"
  obtains s a l n relative where "load_snapshot h db (aq_campaign_id q) = Inr s"
    and "cs_state s \<notin> TERMINAL_CAMPAIGN_STATES"
    and "cs_authority_epoch s = aq_authority_epoch q" "cs_cancellation_epoch s = aq_cancellation_epoch q"
    and "find_actor db (aq_actor_id q) = Some a" "find_lease db (aq_lease_id q) = Some l" "lr_actor_id l = aq_actor_id q"
    and "lr_state l = ''ACTIVE''" "lr_campaign_id l = aq_campaign_id q" "bound_actor_row a" "ar_can_write a"
    and "lr_fencing_epoch l = aq_fencing_epoch q"
    and "snapshot_node s (lr_node_id l) = Inr n" "ns_fencing_epoch n = aq_fencing_epoch q"
      "ns_lease_actor_id n = Some (aq_actor_id q)"
    and "check_action_path h s (lr_node_id l) q = Inr relative"
    and "dict_get d ''node_id'' PNone = PStr (lr_node_id l)" "dict_get d ''path'' PNone = py_opt_str relative"
proof -
  from assms obtain s where s: "load_snapshot h db (aq_campaign_id q) = Inr s"
    by (auto simp: verify_actor_action_def Let_def res_simps)
  from assms obtain a l where al: "find_actor_lease db (aq_actor_id q) (aq_lease_id q) = Some (a, l)"
    by (auto simp: verify_actor_action_def Let_def res_simps split: option.splits)
  then have find: "find_actor db (aq_actor_id q) = Some a" "find_lease db (aq_lease_id q) = Some l"
    and "lr_actor_id l = ar_actor_id a" by (auto simp: find_actor_lease_def split: option.splits if_splits)
  moreover have "ar_actor_id a = aq_actor_id q" using find(1) by (auto simp: find_actor_def dest!: find_Some_set)
  ultimately show thesis
    using assms s al that [of s a l]
    by (auto simp: verify_actor_action_def Let_def res_simps TERMINAL_CAMPAIGN_STATES_def dict_get_dict_set)
qed

text \<open>The path matches an allowed pattern of the node, or of the campaign when the node has none.\<close>

definition path_in_scope :: "campaign_snapshot \<Rightarrow> string \<Rightarrow> string \<Rightarrow> bool" where
  "path_in_scope s i path =
     (case snapshot_node_spec s i of
        Inl _ \<Rightarrow> False
      | Inr spec \<Rightarrow> list_ex (\<lambda>p. fnmatchcase (casefold path) (casefold p))
          (if nd_allowed_paths spec \<noteq> [] then nd_allowed_paths spec else sp_allowed_paths (cs_spec s)))"

lemma action_path_allowed:
  assumes "check_action_path h s i q = Inr relative"
  shows "(aq_path q = None \<and> relative = None)
    \<or> (\<exists>p r. aq_path q = Some p \<and> h_relative h (aq_repository_root q) p = Some r \<and> relative = Some r
        \<and> path_in_scope s i r)"
  using assms by (auto simp: check_action_path_def Let_def res_simps path_in_scope_def split: option.splits)

section \<open>Receipts\<close>

lemma transition_requests:
  assumes "apply_event_tx h e d db = Inr (r, db')"
  shows "requests_kept db db'"
proof (cases "operation_result db (ev_event_id e) (or_else d (canonical_json_digest (event_to_dict e))) = Inr None")
  case True
  obtain t fx where r: "r = (t, fx)" by (cases r)
  from True assms have "apply_fresh h e (or_else d (canonical_json_digest (event_to_dict e))) db = Inr ((t, fx), db')"
    by (simp add: apply_event_tx_def Let_def r)
  then obtain s db1 db2 where b: "begin_operation (ev_event_id e) (Some (ev_campaign_id e))
      (event_type_value (ev_event_type e)) (or_else d (canonical_json_digest (event_to_dict e)))
      (Some (ev_expected_revision e)) db = Inr db1"
    and p: "persist_transition e t fx (or_else d (canonical_json_digest (event_to_dict e))) db1 = Inr db2"
    and d: "db' = finish_operation (ev_event_id e) (snapshot_result t fx) db2"
    by (rule apply_fresh_parts)
  have "requests_kept db db1" by (simp add: begin_tables [OF b])
  moreover have "requests_kept db1 db2" by (rule requests_same) (rule persist_operations [OF p])
  ultimately show ?thesis unfolding d by (blast intro: requests_kept_trans requests_finished)
qed (use assms in \<open>auto simp: apply_event_tx_def Let_def bindE_Inr_iff split: option.splits\<close>)

lemma consumed_receipt:
  assumes "apply_human_authorized_event h (Inr e) receipt db = (Inr r, db')"
  shows "find_operation db (receipt_text receipt ''receipt_id'') = None"
    and "find_operation db' (receipt_text receipt ''receipt_id'') \<noteq> None"
proof -
  let ?i = "receipt_text receipt ''receipt_id''"
  from assms have "human_tx h e receipt db = Inr (r, db')"
    by (simp add: apply_human_authorized_event_def given_def recorded_Inr)
  then obtain k v db1 db2 x where new: "find_operation db ?i = None"
    and b: "begin_operation ?i (Some (ev_campaign_id e)) k (canonical_json_digest (PDict receipt)) v db = Inr db1"
    and run: "apply_event_tx h e None db1 = Inr (r, db2)" and d: "db' = finish_operation ?i x db2"
    by (auto simp: human_tx_def Let_def res_simps split: option.splits intro: that)
  show "find_operation db ?i = None" by (rule new)
  have "find_operation db1 ?i \<noteq> None"
    unfolding begin_tables [OF b]
    by (simp add: find_operation_def find_None_iff) (rule exI, rule conjI, rule disjI1, rule refl, simp)
  then show "find_operation db' ?i \<noteq> None"
    using transition_requests [OF run] d requests_finished unfolding requests_kept_def by (metis option.exhaust option.discI)
qed

lemma bound_receipt_refused:
  assumes "find_operation db (receipt_text receipt ''receipt_id'') = Some q"
  shows "\<exists>err. apply_human_authorized_event h (Inr e) receipt db = (Inl err, record_rejection e err db)"
proof -
  have "\<exists>err. human_tx h e receipt db = Inl err"
    using assms by (cases "load_snapshot h db (ev_campaign_id e)") (simp_all add: human_tx_def Let_def requireE_def)
  then show ?thesis by (auto simp: apply_human_authorized_event_def given_def recorded_def transaction_def)
qed

section \<open>Native usage\<close>

lemma native_counts_fields:
  "native_counts d fs = Some r \<Longrightarrow> map fst r = map snd fs \<and> list_all (\<lambda>(_, i). 0 \<le> i \<and> i < 2 ^ 63) r"
proof (induction fs arbitrary: r)
  case (Cons f fs)
  obtain k name where f: "f = (k, name)" by (cases f)
  from Cons.prems obtain i r' where "native_count d k = Some i" "native_counts d fs = Some r'" "r = (name, i) # r'"
    by (auto simp: f split: option.splits)
  moreover from this(1) have "0 \<le> i \<and> i < 2 ^ 63"
    by (auto simp: native_count_def split: pyval.splits if_splits)
  ultimately show ?case using Cons.IH by (simp add: f)
qed simp

section \<open>Evidence\<close>

definition evidence_row_of :: "evidence \<Rightarrow> evidence_row" where
  "evidence_row_of item =
     \<lparr>er_evidence_id = ed_evidence_id item, er_campaign_id = ed_campaign_id item, er_node_id = ed_node_id item,
      er_kind = evidence_kind_value (ed_kind item), er_digest = ed_digest item,
      er_candidate_head = ed_candidate_head item, er_payload_json = canonical_json (ed_payload item)\<rparr>"

lemma evidence_row_read:
  assumes "evidence_storable item"
  shows "evidence_of_row (evidence_row_of item) = Inr item"
proof -
  have "wf_py (ed_payload item)" and p: "evidence_post_init item = Inr item" "frozen (ed_payload item)"
      "kept_text (ed_candidate_head item)"
    using assms by (simp_all add: evidence_storable_def frozen_wf)
  then show ?thesis
    by (cases item) (simp add: evidence_of_row_def evidence_row_of_def evidence_from_dict_def evidence_post_init_def
        storable_simps field_defs py_item_def py_get_def dict_get_def)
qed

lemma recorded_evidence:
  assumes "record_evidence (Inr item) db = (Inr x, db')" and "find_evidence db (ed_evidence_id item) = None"
  shows "x = item" and "db' = db\<lparr>db_evidence := db_evidence db @ [evidence_row_of item]\<rparr>"
    and "find_evidence db' (ed_evidence_id item) = Some (evidence_row_of item)" and "verify_evidence_digest item False = Inr ()"
proof -
  from assms have "x = item \<and> db' = db\<lparr>db_evidence := db_evidence db @ [evidence_row_of item]\<rparr>
      \<and> verify_evidence_digest item False = Inr ()"
    by (auto simp: record_evidence_def given_def transaction_Inr insert_evidence_def insert_evidence_row_def Let_def
        evidence_row_of_def res_simps split: sum.splits)
  then show "x = item" and d: "db' = db\<lparr>db_evidence := db_evidence db @ [evidence_row_of item]\<rparr>"
    and "verify_evidence_digest item False = Inr ()" by auto
  have "find P (ys @ [q]) = Some q" if "find P ys = None" "P q" for P :: "evidence_row \<Rightarrow> bool" and ys q
    using that by (induction ys) (auto split: if_splits)
  then show "find_evidence db' (ed_evidence_id item) = Some (evidence_row_of item)"
    using assms(2) by (simp add: find_evidence_def d evidence_row_of_def)
qed

section \<open>Reserving a budget attempt\<close>

lemma budget_event_id: "budget_event c t i r a x n f = Inr e \<Longrightarrow> ev_event_id e = i \<and> ev_campaign_id e = c
    \<and> ev_event_type e = EV_CONSUME_BUDGET"
  by (auto simp: budget_event_def event_post_init_def res_simps split: sum.splits)

lemma reservation_granted:
  assumes "reserve_budget_attempt h c tok i r a x n f db = (Inr (t, True), db')"
  obtains e fx where "budget_event c tok i r a x n f = Inr e" and "find_operation db i = None"
    and "apply_fresh h e (canonical_json_digest (event_to_dict e)) db = Inr ((t, fx), db')"
proof -
  from assms obtain e where e: "budget_event c tok i r a x n f = Inr e" and run: "reserve_tx h e db = Inr ((t, True), db')"
    by (auto simp: reserve_budget_attempt_def recorded_Inr split: sum.splits)
  have i: "ev_event_id e = i" using budget_event_id [OF e] by simp
  from run have new: "find_operation db i = None" and "\<exists>fx. apply_event_tx h e None db = Inr ((t, fx), db')"
    by (auto simp: reserve_tx_def i res_simps split: option.splits)
  then obtain fx where "apply_fresh h e (canonical_json_digest (event_to_dict e)) db = Inr ((t, fx), db')"
    by (auto simp: apply_event_tx_def Let_def or_else_def operation_result_def i)
  with e new show ?thesis by (rule that)
qed

lemma budget_charged:
  assumes "reduce_event s e = Inr (t, fx)" and "ev_event_type e = EV_CONSUME_BUDGET"
  shows "\<exists>tok. spendable s tok (ev_event_id e) \<and> t = (spend tok (ev_event_id e) s)\<lparr>cs_revision := cs_revision s + 1\<rparr>"
  using assms by (auto simp: reduce_event_Inr finish_revision_eq reduce_branch_def silent_def reduce_consume_budget_def
      consume_budget_eq res_simps split: sum.splits error.splits)

lemma bound_reservation:
  assumes "find_operation db i = Some q"
  shows "fst (reserve_budget_attempt h c tok i r a x n f db) \<noteq> Inr (u, True)"
proof
  assume "fst (reserve_budget_attempt h c tok i r a x n f db) = Inr (u, True)"
  then have "reserve_budget_attempt h c tok i r a x n f db
      = (Inr (u, True), snd (reserve_budget_attempt h c tok i r a x n f db))" by (simp add: prod_eq_iff)
  from reservation_granted [OF this] assms show False by (metis option.distinct(1))
qed

end
