(* ===== verification/Example_Literal.thy ===== *)
theory Example_Literal
  imports Example_Pair
begin

text \<open>
  A store written out: the campaign of Example_Campaign while its first node is leased to an
  implementer that is natively bound.  The properties that concern a running campaign are instantiated
  at it.
\<close>

definition ready :: campaign_snapshot where
  "ready = example_ready example_digest"

lemma ready_simps:
  "cs_spec ready = example_spec" "cs_state ready = CS_RUNNING" "cs_revision ready = 14"
  "cs_authority_epoch ready = 3" "cs_cancellation_epoch ready = 0" "cs_nodes ready = [example_node, node_default ''k'']"
  "cs_budgets ready = example_balances 1 0 1" "cs_budget_receipts ready = example_receipts"
  "cs_active_node_id ready = Some ''n''" "cs_failure_reason ready = None"
  by (simp_all add: ready_def example_ready_def example_start_def example_spec_digest)

lemma ready_storable: "snapshot_storable id ready"
proof -
  have "snapshot_ok ready" "reachable example_spec ready"
    using reachable_snapshot_ok [OF example_reachable(1)] example_reachable(1) by (simp_all add: ready_def)
  moreover have "list_all node_storable [example_node, node_default ''k'']" by code_simp
  moreover have "list_all budget_balance_storable (example_balances 1 0 1)" by code_simp
  moreover have "list_all budget_receipt_storable example_receipts" by code_simp
  ultimately show ?thesis
    by (simp add: snapshot_storable_iff ready_simps example_spec_storable)
qed

definition builder_row :: actor_row where
  "builder_row =
     \<lparr>ar_actor_id = ''a'', ar_campaign_id = ''c'', ar_node_id = Some ''n'', ar_role = ''IMPLEMENTER'',
      ar_native_thread_id = ''th'', ar_identity_digest = Some ''id'', ar_native_identity_json = ''{}'',
      ar_host_pid = None, ar_authority_epoch = 3, ar_can_write = True, ar_bound_request_id = Some ''q'',
      ar_used = True, ar_actor_json = ''{}''\<rparr>"

definition builder_lease :: lease_row where
  "builder_lease =
     \<lparr>lr_lease_id = ''l'', lr_campaign_id = ''c'', lr_node_id = ''n'', lr_resource_key = ''w'', lr_actor_id = ''a'',
      lr_fencing_epoch = 1, lr_cancellation_epoch = 0, lr_state = ''ACTIVE'', lr_expires_at = None,
      lr_lease_json = ''{}''\<rparr>"

definition working_store :: store where
  "working_store = empty_store
     \<lparr>db_campaigns := [campaign_row_of ready], db_nodes := map (mirror_node ''c'') (cs_nodes ready),
      db_actors := [builder_row], db_leases := [builder_lease]\<rparr>"

lemma working_ok: "store_ok example_host working_store"
  and working_loaded: "load_snapshot example_host working_store ''c'' = Inr ready"
proof -
  have r: "row_agrees example_host (campaign_row_of ready) ready"
    using ready_storable example_reachable(1)
    by (simp add: row_agrees_def campaign_row_of_def ready_simps ready_def [symmetric])
  then show "store_ok example_host working_store" by (auto simp: store_ok_def working_store_def)
  have "find_campaign working_store ''c'' = Some (campaign_row_of ready)"
    by (simp add: find_campaign_def working_store_def campaign_row_of_def ready_simps)
  from load_agrees [OF this r] show "load_snapshot example_host working_store ''c'' = Inr ready" .
qed

definition example_action :: "string \<Rightarrow> action_request" where
  "example_action path =
     \<lparr>aq_campaign_id = ''c'', aq_actor_id = ''a'', aq_lease_id = ''l'', aq_authority_epoch = 3,
      aq_cancellation_epoch = 0, aq_fencing_epoch = 1, aq_repository_root = ''g'', aq_action = ''write'',
      aq_path = Some path\<rparr>"

lemma example_authorized: "\<exists>d. verify_actor_action example_host (example_action ''src'') working_store = Inr d"
proof -
  have strip: "py_strip ''write'' = ''write''" and role: "role_of_text ''IMPLEMENTER'' = Inr AR_IMPLEMENTER" by code_simp+
  have found: "find_actor_lease working_store ''a'' ''l'' = Some (builder_row, builder_lease)"
    by (simp add: find_actor_lease_def find_actor_def find_lease_def working_store_def builder_row_def builder_lease_def)
  have node: "snapshot_node ready ''n'' = Inr example_node"
    by (simp add: snapshot_node_def ready_simps example_node_def node_default_def)
  have path: "check_action_path example_host ready ''n'' (example_action ''src'') = Inr (Some ''src'')"
  proof -
    have "fnmatchcase (casefold ''src'') (casefold ''src'')" by code_simp
    then show ?thesis
      by (simp add: check_action_path_def example_action_def example_host_def snapshot_node_spec_def ready_simps
          example_nodes requireE_def)
  qed
  have root: "sp_git_root example_spec = ''g''" by (simp add: example_spec_digest) (simp add: example_base_def)
  show ?thesis
    using strip role found node path
    by (simp add: verify_actor_action_def example_action_def working_loaded builder_row_def builder_lease_def
        bound_actor_row_def READ_ONLY_ACTOR_ROLES_def example_node_def ready_simps requireE_def Let_def nonempty_opt_def root)
qed

section \<open>A reservation\<close>

definition example_charge :: event where
  "example_charge =
     \<lparr>ev_event_id = ''r'', ev_campaign_id = ''c'', ev_event_type = EV_CONSUME_BUDGET, ev_expected_revision = 14,
      ev_authority_epoch = 3, ev_cancellation_epoch = 0, ev_node_id = None, ev_actor_id = None,
      ev_fencing_epoch = None, ev_payload = PProxy [(''token'', PStr ''PUSH'')]\<rparr>"

lemma example_charge_event: "budget_event ''c'' (Inr BT_PUSH) ''r'' 14 3 0 None None = Inr example_charge"
  by code_simp

definition charged :: "string \<Rightarrow> campaign_snapshot" where
  "charged d = (spend BT_PUSH ''r'' (example_ready d))\<lparr>cs_revision := 15\<rparr>"

lemma example_charge_reduced: "reduce_event ready example_charge = Inr (charged example_digest, [])"
proof -
  have "reduce_event (example_ready d) example_charge = Inr (charged d, [])" for d
    by code_simp
  then show ?thesis by (simp add: ready_def)
qed

lemma charged_simps:
  "cs_spec (charged example_digest) = example_spec" "cs_state (charged d) = CS_RUNNING" "cs_revision (charged d) = 15"
  "cs_authority_epoch (charged d) = 3" "cs_cancellation_epoch (charged d) = 0"
  "cs_nodes (charged d) = [example_node, node_default ''k'']"
  by (simp_all add: charged_def example_ready_def example_start_def example_spec_digest)

lemma charge_persisted:
  assumes "db_campaigns db = db_campaigns working_store" "db_nodes db = db_nodes working_store"
    "db_events db = []" "db_findings db = []"
  shows "\<exists>db2. persist_transition example_charge (charged example_digest) [] d db = Inr db2"
proof -
  have "\<exists>db1. swap_campaign example_charge (charged example_digest) db = Inr db1
      \<and> db1 = db\<lparr>db_campaigns := [update_campaign_row (charged example_digest) (campaign_row_of ready)]\<rparr>"
    using assms(1) by (simp add: swap_campaign_def Let_def bind_ints_def constraint_def requireE_def int64_def
        working_store_def campaign_row_of_def ready_simps charged_simps example_charge_def)
  then obtain db1 where 1: "swap_campaign example_charge (charged example_digest) db = Inr db1"
    and c1: "map cr_campaign_id (db_campaigns db1) = [''c'']" and tables: "db_nodes db1 = db_nodes db" "db_events db1 = []"
      "db_findings db1 = []"
    using assms by (auto simp: campaign_row_of_def ready_simps)
  have "ns_node_id example_node = ''n''" "ns_fencing_epoch example_node = 1" "ns_closure_findings example_node = []"
    "\<exists>g. ns_findings example_node = [g]"
    by (simp_all add: example_node_def node_default_def)
  with assms(2) tables have "\<exists>db2. sync_snapshot (charged example_digest) db1 = Inr db2"
    by (auto simp: sync_snapshot_def Let_def charged_simps upsert_node_row_def bind_ints_def
        constraint_def requireE_def int64_def node_exists_def mirror_simps working_store_def ready_simps
        insert_finding_row_def mirror_finding_def)
  then obtain db2 where 2: "sync_snapshot (charged example_digest) db1 = Inr db2" ..
  have "campaign_exists db2 ''c''" "db_events db2 = []"
    using sync_tables [OF 2] c1 tables by (auto simp: campaign_exists_def list_ex_iff map_eq_Cons_conv)
  then show ?thesis
    using 1 2 by (simp add: persist_transition_def Let_def insert_event_row_def bind_ints_def constraint_def requireE_def
        int64_def charged_simps telemetry_category_def record_dispatched_review_def)
      (simp add: example_charge_def)
qed

lemma example_reserved:
  "\<exists>db'. reserve_budget_attempt example_host ''c'' (Inr BT_PUSH) ''r'' 14 3 0 None None working_store
    = (Inr (charged example_digest, True), db')"
proof -
  let ?e = example_charge
  have e: "ev_campaign_id ?e = ''c''" "ev_event_id ?e = ''r''" "ev_expected_revision ?e = 14"
    "ev_event_type ?e = EV_CONSUME_BUDGET" by (simp_all add: example_charge_def)
  have fresh: "find_operation working_store ''r'' = None"
    by (simp add: find_operation_def working_store_def empty_store_def)
  note b = begin_accepts [OF fresh, of "Some 14" "Some ''c''" "event_type_value EV_CONSUME_BUDGET"
      "canonical_json_digest (event_to_dict ?e)", simplified int64_def, simplified]
  let ?db = "working_store\<lparr>db_operations := db_operations working_store @ [
     \<lparr>or_request_id = ''r'', or_campaign_id = Some ''c'', or_kind = event_type_value EV_CONSUME_BUDGET,
      or_payload_digest = canonical_json_digest (event_to_dict ?e), or_status = ''EXECUTING'',
      or_result_json = None, or_created_revision = Some 14\<rparr>]\<rparr>"
  obtain db2 where "persist_transition ?e (charged example_digest) []
      (canonical_json_digest (event_to_dict ?e)) ?db = Inr db2"
    using charge_persisted [of ?db] by (auto simp: working_store_def empty_store_def)
  then show ?thesis
    using b by (simp add: reserve_budget_attempt_def example_charge_event recorded_def transaction_def reserve_tx_def
        e fresh apply_event_tx_def Let_def or_else_def operation_result_def apply_fresh_def working_loaded
        check_correction_evidence_def example_charge_reduced)
qed

end
