(* ===== verification/Ed25519_Curve.thy ===== *)
theory Ed25519_Curve
  imports Ed25519
begin

text \<open>
  The arithmetic of \<open>ed25519.py\<close> stays on the curve: in extended coordinates a point satisfies
  \<open>y\<^sup>2 - x\<^sup>2 = z\<^sup>2 + d t\<^sup>2\<close> and \<open>t z = x y\<close> modulo the field prime.  Addition, doubling and the
  multiplication by a scalar keep both, and a decoded point has them.
\<close>

section \<open>Congruence\<close>

definition same_residue :: "int \<Rightarrow> int \<Rightarrow> bool" where
  "same_residue a b \<longleftrightarrow> a mod FIELD_PRIME = b mod FIELD_PRIME"

lemma residue_refl: "same_residue a a"
  by (simp add: same_residue_def)

lemma residue_mod: "same_residue a b \<Longrightarrow> same_residue (a mod FIELD_PRIME) b"
  by (simp add: same_residue_def)

lemma residue_arith:
  assumes "same_residue a a'" and "same_residue b b'"
  shows "same_residue (a + b) (a' + b')" "same_residue (a - b) (a' - b')" "same_residue (a * b) (a' * b')"
  using assms unfolding same_residue_def by (metis mod_add_eq, metis mod_diff_eq, metis mod_mult_eq)

lemmas residue_intros = residue_arith residue_mod residue_refl

section \<open>Points of the curve\<close>

definition curve_defect :: "point \<Rightarrow> int" where
  "curve_defect p = (let (x, y, z, t) = p in y * y - x * x - z * z - CURVE_D * t * t)"

definition product_defect :: "point \<Rightarrow> int" where
  "product_defect p = (let (x, y, z, t) = p in t * z - x * y)"

definition on_curve :: "point \<Rightarrow> bool" where
  "on_curve p \<longleftrightarrow> curve_defect p mod FIELD_PRIME = 0 \<and> product_defect p mod FIELD_PRIME = 0"

lemma on_curve_dvd: "on_curve p \<longleftrightarrow> FIELD_PRIME dvd curve_defect p \<and> FIELD_PRIME dvd product_defect p"
  by (simp add: on_curve_def dvd_eq_mod_eq_0)

text \<open>The coordinates may be reduced.\<close>

definition reduced :: "point \<Rightarrow> point" where
  "reduced p = (let (x, y, z, t) = p in (x mod FIELD_PRIME, y mod FIELD_PRIME, z mod FIELD_PRIME, t mod FIELD_PRIME))"

lemma on_curve_reduced: "on_curve (reduced p) \<longleftrightarrow> on_curve p"
proof -
  obtain x y z t where p: "p = (x, y, z, t)" by (cases p)
  have "same_residue (curve_defect (reduced p)) (curve_defect p)" "same_residue (product_defect (reduced p)) (product_defect p)"
    unfolding p reduced_def curve_defect_def product_defect_def Let_def prod.case by (intro residue_intros)+
  then show ?thesis by (simp add: on_curve_def same_residue_def)
qed

lemma points_equal_reduced: "points_equal (reduced p) (reduced q) = points_equal p q"
proof -
  obtain x y z t where p: "p = (x, y, z, t)" by (cases p)
  obtain x' y' z' t' where q: "q = (x', y', z', t')" by (cases q)
  have "same_residue (x mod FIELD_PRIME * (z' mod FIELD_PRIME) - x' mod FIELD_PRIME * (z mod FIELD_PRIME)) (x * z' - x' * z)"
    "same_residue (y mod FIELD_PRIME * (z' mod FIELD_PRIME) - y' mod FIELD_PRIME * (z mod FIELD_PRIME)) (y * z' - y' * z)"
    by (intro residue_intros)+
  then show ?thesis by (simp add: points_equal_def p q reduced_def same_residue_def)
qed

section \<open>Addition and doubling without the reductions\<close>

text \<open>The coordinates of a sum and of a double have the form \<open>(e f, g h, f g, e h)\<close>.\<close>

definition crossed :: "int \<Rightarrow> int \<Rightarrow> int \<Rightarrow> int \<Rightarrow> point" where
  "crossed e f g h = (e * f, g * h, f * g, e * h)"

lemma crossed_product: "product_defect (crossed e f g h) = 0"
  by (simp add: product_defect_def crossed_def)

lemma reduced_crossed:
  assumes "same_residue e e'" "same_residue f f'" "same_residue g g'" "same_residue h h'"
  shows "(e * f mod FIELD_PRIME, g * h mod FIELD_PRIME, f * g mod FIELD_PRIME, e * h mod FIELD_PRIME)
    = reduced (crossed e' f' g' h')"
  using residue_arith(3) [OF assms(1,2)] residue_arith(3) [OF assms(3,4)] residue_arith(3) [OF assms(2,3)]
    residue_arith(3) [OF assms(1,4)] by (simp add: reduced_def crossed_def same_residue_def)

lemma residue_rewrite: "same_residue a b \<Longrightarrow> b = c \<Longrightarrow> same_residue a c"
  by simp

lemma point_add_crossed:
  "point_add (x1, y1, z1, t1) (x2, y2, z2, t2)
    = reduced (crossed (2 * (x1 * y2 + y1 * x2)) (2 * (z1 * z2 - CURVE_D * t1 * t2))
        (2 * (z1 * z2 + CURVE_D * t1 * t2)) (2 * (y1 * y2 + x1 * x2)))"
  unfolding point_add_def Let_def prod.case
  by (rule reduced_crossed) (rule residue_rewrite, (rule residue_intros)+, simp add: algebra_simps)+

lemma point_double_crossed:
  "point_double (x, y, z, t)
    = reduced (crossed (- 2 * x * y) (2 * z * z + (x * x - y * y)) (x * x - y * y) (x * x + y * y))"
  unfolding point_double_def Let_def prod.case
  by (rule reduced_crossed) (rule residue_rewrite, (rule residue_intros)+, simp add: algebra_simps)+

section \<open>Closure\<close>

lemma crossed_defect:
  "curve_defect (crossed e f g h) = (g * g) * (h * h) - (e * e) * (f * f) - (f * f) * (g * g) - CURVE_D * ((e * e) * (h * h))"
  by (simp add: curve_defect_def crossed_def)

text \<open>The defect of a sum is a combination of the defects of its arguments.\<close>

lemma sum_defect:
  fixes d p :: int
  assumes "e = x * y' + y * x'" "f = z * z' - d * t * t'" "g = z * z' + d * t * t'" "h = y * y' + x * x'"
    and s: "p dvd y * y - x * x - z * z - d * t * t" and s': "p dvd y' * y' - x' * x' - z' * z' - d * t' * t'"
    and j: "p dvd t * z - x * y" and j': "p dvd t' * z' - x' * y'"
  shows "p dvd (g * g) * (h * h) - (e * e) * (f * f) - (f * f) * (g * g) - d * ((e * e) * (h * h))"
proof -
  let ?k = "y * y' - x * x'" and ?q = "t * z' + t' * z"
  have "h * h - e * e - f * f - d * ?q * ?q
      = (y * y - x * x - z * z - d * t * t) * (y' * y' - x' * x')
        + (z * z + d * t * t) * (y' * y' - x' * x' - z' * z' - d * t' * t')"
    unfolding assms(1-4) by (simp add: algebra_simps)
  with dvd_add [OF dvd_mult2 [OF s] dvd_mult [OF s']] have 1: "p dvd h * h - e * e - f * f - d * ?q * ?q" by (simp only:)
  have "e * ?k - g * ?q = t * z * (y' * y' - x' * x' - z' * z' - d * t' * t')
        + t' * z' * (y * y - x * x - z * z - d * t * t)
        - (t * z - x * y) * (y' * y' - x' * x') - (t' * z' - x' * y') * (y * y - x * x)"
    unfolding assms(1-4) by (simp add: algebra_simps)
  with dvd_diff [OF dvd_diff [OF dvd_add [OF dvd_mult [OF s'] dvd_mult [OF s]] dvd_mult2 [OF j]] dvd_mult2 [OF j']]
  have 2: "p dvd e * ?k - g * ?q" by (simp only:)
  have "h * h - ?k * ?k - 4 * (z * z') * (t * t') = - 4 * ((t * z - x * y) * (x' * y') + t * z * (t' * z' - x' * y'))"
    unfolding assms(1-4) by (simp add: algebra_simps)
  with dvd_mult [OF dvd_add [OF dvd_mult2 [OF j] dvd_mult [OF j']]]
  have 3: "p dvd h * h - ?k * ?k - 4 * (z * z') * (t * t')" by (simp only:)
  have "(g * g) * (h * h) - (e * e) * (f * f) - (f * f) * (g * g) - d * ((e * e) * (h * h))
      = (g * g) * (h * h - e * e - f * f - d * ?q * ?q) - d * (2 * (e * ?k) - (e * ?k - g * ?q)) * (e * ?k - g * ?q)
        - d * (e * e) * (h * h - ?k * ?k - 4 * (z * z') * (t * t'))"
    unfolding assms(1-4) by (simp add: algebra_simps)
  with dvd_diff [OF dvd_diff [OF dvd_mult [OF 1] dvd_mult [OF 2]] dvd_mult [OF 3]] show ?thesis by (simp only:)
qed

lemma on_curve_scaled:
  "on_curve (crossed (2 * e) (2 * f) (2 * g) (2 * h)) = (FIELD_PRIME dvd 16 * curve_defect (crossed e f g h))"
  unfolding on_curve_dvd crossed_product by (simp add: crossed_defect algebra_simps)

lemma add_on_curve:
  assumes "on_curve p" and "on_curve q"
  shows "on_curve (point_add p q)"
proof -
  obtain x1 y1 z1 t1 where p: "p = (x1, y1, z1, t1)" by (cases p)
  obtain x2 y2 z2 t2 where q: "q = (x2, y2, z2, t2)" by (cases q)
  have d: "FIELD_PRIME dvd y1 * y1 - x1 * x1 - z1 * z1 - CURVE_D * t1 * t1" "FIELD_PRIME dvd t1 * z1 - x1 * y1"
    "FIELD_PRIME dvd y2 * y2 - x2 * x2 - z2 * z2 - CURVE_D * t2 * t2" "FIELD_PRIME dvd t2 * z2 - x2 * y2"
    using assms by (simp_all add: on_curve_dvd p q curve_defect_def product_defect_def)
  have "FIELD_PRIME dvd curve_defect (crossed (x1 * y2 + y1 * x2) (z1 * z2 - CURVE_D * t1 * t2)
      (z1 * z2 + CURVE_D * t1 * t2) (y1 * y2 + x1 * x2))"
    unfolding crossed_defect by (rule sum_defect [OF refl refl refl refl d(1,3,2,4)])
  then show ?thesis
    unfolding p q point_add_crossed on_curve_reduced on_curve_scaled by (rule dvd_mult)
qed

lemma double_on_curve:
  assumes "on_curve p"
  shows "on_curve (point_double p)"
proof -
  obtain x y z t where p: "p = (x, y, z, t)" by (cases p)
  have d: "FIELD_PRIME dvd y * y - x * x - z * z - CURVE_D * t * t" "FIELD_PRIME dvd t * z - x * y"
    using assms by (simp_all add: on_curve_dvd p curve_defect_def product_defect_def)
  let ?f = "2 * z * z + (x * x - y * y)" and ?g = "x * x - y * y" and ?h = "x * x + y * y"
  have "curve_defect (crossed (- 2 * x * y) ?f ?g ?h)
      = (?h * ?h) * (4 * (z * z) * (y * y - x * x - z * z - CURVE_D * t * t)
          + 4 * CURVE_D * ((t * z - x * y) * (t * z + x * y)))"
    unfolding crossed_defect by (simp add: algebra_simps)
  moreover have "FIELD_PRIME dvd \<dots>"
    by (rule dvd_mult [OF dvd_add [OF dvd_mult [OF d(1)] dvd_mult [OF dvd_mult2 [OF d(2)]]]])
  ultimately have "FIELD_PRIME dvd curve_defect (crossed (- 2 * x * y) ?f ?g ?h)" by (simp only:)
  then show ?thesis
    unfolding p point_double_crossed on_curve_reduced unfolding on_curve_dvd crossed_product by simp
qed

lemma loop_on_curve: "on_curve result \<Longrightarrow> on_curve addend \<Longrightarrow> on_curve (scalar_loop result addend n)"
proof (induction result addend n rule: scalar_loop.induct)
  case (1 result addend n)
  show ?case
  proof (cases "n = 0")
    case True
    with 1 show ?thesis by (subst scalar_loop.simps) simp
  next
    case False
    with 1 add_on_curve [of result addend] double_on_curve [of addend] show ?thesis
      by (subst scalar_loop.simps) simp
  qed
qed

lemma identity_on_curve: "on_curve IDENTITY"
  by (simp add: on_curve_def IDENTITY_def curve_defect_def product_defect_def)

lemma multiple_on_curve: "on_curve p \<Longrightarrow> on_curve (scalar_multiply p n)"
  unfolding scalar_multiply_def by (rule loop_on_curve [OF identity_on_curve])

section \<open>Doubling\<close>

lemma double_adds:
  assumes "on_curve p"
  shows "points_equal (point_double p) (point_add p p)"
proof -
  obtain x y z t where p: "p = (x, y, z, t)" by (cases p)
  let ?c = "y * y - x * x - z * z - CURVE_D * t * t"
  let ?e = "- 2 * x * y" and ?f = "2 * z * z + (x * x - y * y)" and ?g = "x * x - y * y" and ?h = "x * x + y * y"
  have d: "FIELD_PRIME dvd ?c" using assms by (simp add: on_curve_dvd p curve_defect_def)
  have f: "2 * (z * z - CURVE_D * t * t) = 2 * ?f + 2 * ?c" and g: "2 * (z * z + CURVE_D * t * t) = - 2 * ?g - 2 * ?c"
    and e: "2 * (x * y + y * x) = - 2 * ?e" and h: "2 * (y * y + x * x) = 2 * ?h"
    by (simp_all add: algebra_simps)
  have "FIELD_PRIME dvd ?e * ?f * ((2 * ?f + 2 * ?c) * (- 2 * ?g - 2 * ?c)) - - 2 * ?e * (2 * ?f + 2 * ?c) * (?f * ?g)"
    "FIELD_PRIME dvd ?g * ?h * ((2 * ?f + 2 * ?c) * (- 2 * ?g - 2 * ?c)) - (- 2 * ?g - 2 * ?c) * (2 * ?h) * (?f * ?g)"
  proof -
    have "E * F * ((2 * F + 2 * C) * (- 2 * G - 2 * C)) - - 2 * E * (2 * F + 2 * C) * (F * G)
        = - 4 * (E * F * ((F + C) * C)) " for E F G C :: int by (simp add: algebra_simps)
    then show "FIELD_PRIME dvd ?e * ?f * ((2 * ?f + 2 * ?c) * (- 2 * ?g - 2 * ?c)) - - 2 * ?e * (2 * ?f + 2 * ?c) * (?f * ?g)"
      using d by (simp only: dvd_mult)
    have "G * H * ((2 * F + 2 * C) * (- 2 * G - 2 * C)) - (- 2 * G - 2 * C) * (2 * H) * (F * G)
        = - 4 * (G * H * ((G + C) * C))" for F G H C :: int by (simp add: algebra_simps)
    then show "FIELD_PRIME dvd ?g * ?h * ((2 * ?f + 2 * ?c) * (- 2 * ?g - 2 * ?c)) - (- 2 * ?g - 2 * ?c) * (2 * ?h) * (?f * ?g)"
      using d by (simp only: dvd_mult)
  qed
  then show ?thesis
    unfolding p point_add_crossed point_double_crossed points_equal_reduced
    unfolding e f g h by (simp only: points_equal_def crossed_def Let_def prod.case dvd_eq_mod_eq_0 simp_thms)
qed

section \<open>Decoding\<close>

lemma from_little_bound: "list_all (\<lambda>b. b < 256) bs \<Longrightarrow> from_little bs < 256 ^ length bs"
proof (induction bs)
  case (Cons b bs)
  then have "b < 256" "from_little bs < 256 ^ length bs" by simp_all
  then show ?case by simp
qed simp

lemma FIELD_PRIME_bounds: "0 < FIELD_PRIME" "FIELD_PRIME < 2 ^ 255" "odd FIELD_PRIME" "1 < FIELD_PRIME"
  by (simp_all add: FIELD_PRIME_def)

lemma some_residue:
  "(if b then Some (i mod p) else if c then None else Some (j mod p)) = Some x \<Longrightarrow> 0 < p \<Longrightarrow> 0 \<le> x \<and> x < p" for p :: int
  by (auto split: if_splits)

lemma recovered_x: "recover_x u v = Some x \<Longrightarrow> 0 \<le> x \<and> x < FIELD_PRIME"
  unfolding recover_x_def Let_def by (erule some_residue) (rule FIELD_PRIME_bounds(1))

lemma decode_shape:
  "(if l then None else if b then None else if z then None else case r of None \<Rightarrow> None
     | Some x \<Rightarrow> if bad x then None else if out x then None else Some (point x)) = Some p
    \<Longrightarrow> \<exists>x. r = Some x \<and> \<not> bad x \<and> \<not> out x \<and> p = point x \<and> \<not> b \<and> \<not> l"
  by (auto split: if_splits option.splits)

lemma signed_root:
  assumes "0 \<le> x" "x < FIELD_PRIME" "b = 0 \<or> b = 1" "\<not> (x = 0 \<and> b \<noteq> 0)" and "y = (if x mod 2 \<noteq> b then FIELD_PRIME - x else x)"
  shows "0 \<le> y \<and> y < FIELD_PRIME \<and> y mod 2 = b"
proof (cases "x mod 2 = b")
  case False
  then have "x \<noteq> 0" using assms(3,4) by auto
  have "(p - x) mod 2 = b" if "x mod 2 \<noteq> b" "b = 0 \<or> b = 1" "odd p" for p :: int using that by presburger
  then have "(FIELD_PRIME - x) mod 2 = b" using False assms(3) FIELD_PRIME_bounds(3) by blast
  with False assms(1,2,5) \<open>x \<noteq> 0\<close> show ?thesis by simp
qed (use assms in simp)

lemma decoded_point:
  assumes "list_all (\<lambda>b. b < 256) bs" and "decode_point bs = Some (x, y, z, t)"
  shows "length bs = 32" and "0 \<le> x \<and> x < FIELD_PRIME" and "0 \<le> y \<and> y < FIELD_PRIME"
    and "z = 1 \<and> t = (x * y) mod FIELD_PRIME \<and> is_on_curve x y"
    and "int (from_little bs) = y + 2 ^ 255 * (x mod 2)"
proof -
  let ?n = "int (from_little bs)"
  show len: "length bs = 32" using assms(2) by (simp add: decode_point_def split: if_splits)
  obtain x0 where y: "y = ?n mod 2 ^ 255" "y < FIELD_PRIME" and x0: "0 \<le> x0 \<and> x0 < FIELD_PRIME"
    and sign: "\<not> (x0 = 0 \<and> ?n div 2 ^ 255 \<noteq> 0)"
    and x: "x = (if x0 mod 2 \<noteq> ?n div 2 ^ 255 then FIELD_PRIME - x0 else x0)"
    and rest: "z = 1 \<and> t = (x * y) mod FIELD_PRIME \<and> is_on_curve x y"
    using decode_shape [OF assms(2) [unfolded decode_point_def Let_def]]
    by - (elim exE conjE, drule recovered_x, rule that [rotated 2], assumption, simp_all only: prod.inject not_le simp_thms)
  have "?n < 2 ^ 256" using from_little_bound [OF assms(1)] len by simp
  moreover have "n div m = 0 \<or> n div m = 1" if "0 \<le> n" "n < 2 * m" "0 < m" for n m :: int
    using that by (cases "n < m") (simp_all add: div_pos_geq)
  ultimately have b: "?n div 2 ^ 255 = 0 \<or> ?n div 2 ^ 255 = 1" by simp
  note s = signed_root [OF _ _ b sign x]
  show "0 \<le> x \<and> x < FIELD_PRIME" using s x0 by blast
  show "0 \<le> y \<and> y < FIELD_PRIME" using y by simp
  show "z = 1 \<and> t = (x * y) mod FIELD_PRIME \<and> is_on_curve x y" by (rule rest)
  have "x mod 2 = ?n div 2 ^ 255" using s x0 by blast
  then show "?n = y + 2 ^ 255 * (x mod 2)" by (simp add: y(1))
qed

lemma decoded_on_curve: "decode_point bs = Some p \<Longrightarrow> list_all (\<lambda>b. b < 256) bs \<Longrightarrow> on_curve p"
proof -
  assume a: "decode_point bs = Some p" "list_all (\<lambda>b. b < 256) bs"
  obtain x y z t where p: "p = (x, y, z, t)" by (cases p)
  have z: "z = 1" and t: "t = (x * y) mod FIELD_PRIME" and c: "is_on_curve x y"
    using decoded_point(4) [OF a(2)] a(1) by (auto simp: p)
  have "same_residue (y * y - x * x - 1 * 1 - CURVE_D * t * t) (y * y - x * x - 1 * 1 - CURVE_D * (x * y) * (x * y))"
    unfolding t by (rule residue_intros)+
  moreover have "same_residue (y * y mod FIELD_PRIME - x * x mod FIELD_PRIME - 1
      - CURVE_D * (x * x mod FIELD_PRIME) * (y * y mod FIELD_PRIME)) (y * y - x * x - 1 - CURVE_D * (x * x) * (y * y))"
    by (rule residue_intros)+
  moreover have "CURVE_D * (x * y) * (x * y) = CURVE_D * (x * x) * (y * y)" by (simp add: algebra_simps)
  moreover have "same_residue (t * 1 - x * y) 0"
    unfolding t same_residue_def by (simp add: mod_simps)
  ultimately show ?thesis using c by (simp add: on_curve_def same_residue_def p z curve_defect_def product_defect_def is_on_curve_def Let_def)
qed

end
