(* ===== verification/Authority_Properties.thy ===== *)
theory Authority_Properties
  imports Store_Outcomes Example_Effects Example_Literal Ed25519_Curve
begin

text \<open>
  What the store guarantees at its boundaries: after a restart, before a write, when a receipt is
  consumed, when a budget is reserved and when native usage or evidence is recorded.
\<close>

section \<open>Recovery\<close>

text \<open>C27: A recovery that returns settles what a crash left open: no effect is executing any more, a
  lease that is still active was retained and belongs to a bound read-only reviewer, no lock is held
  by a lease that is not active, and the campaigns are untouched.\<close>

theorem recovery_settles:
  assumes "recover_after_restart h retained db = (Inr d, db')"
  shows "list_all (\<lambda>x. xr_state x \<noteq> ''EXECUTING'') (db_outbox db')
    \<and> list_all (\<lambda>l. lr_state l = ''ACTIVE'' \<longrightarrow> lr_lease_id l \<in> set retained) (db_leases db')
    \<and> list_all (\<lambda>i. \<exists>l a. find_lease db i = Some l \<and> find_actor db (lr_actor_id l) = Some a \<and> retained_binding a l)
        retained
    \<and> list_all (\<lambda>l. lr_state l \<noteq> ''ACTIVE'' \<longrightarrow> list_all (\<lambda>k. kr_lease_id k \<noteq> Some (lr_lease_id l)) (db_locks db'))
        (db_leases db')
    \<and> (\<forall>c. load_snapshot h db' c = load_snapshot h db c)"
proof -
  note db' = recover_Inr(1) [OF assms] and retained = recover_Inr(2) [OF assms]
  have "db_campaigns db' = db_campaigns db" by (simp add: db' recovered_store_def Let_def)
  then have "load_snapshot h db' c = load_snapshot h db c" for c by (rule load_cong)
  then show ?thesis
    using recovered_effects recovered_leases recovered_locks check_retained_reviewer [OF retained]
    unfolding db' list_all_iff by metis
qed

theorem recovery_settles_witness:
  "list_all (\<lambda>x. xr_state x \<noteq> ''EXECUTING'') (db_outbox (snd (recover_after_restart example_host [] example_executing)))
    \<and> fst (recover_after_restart example_host [] example_executing)
        = Inr [(''ambiguous_effects'', PInt 1), (''invalidated_leases'', PInt 1)]"
proof -
  have "fst (recover_after_restart example_host [] example_executing)
      = Inr [(''ambiguous_effects'', PInt 1), (''invalidated_leases'', PInt 1)]"
    by (simp add: recover_after_restart_def recover_tx_def transaction_def example_executing_outbox example_acquired
        orphan_lease_def example_push_def example_lease_row_def)
  then show ?thesis
    using recovery_settles [of example_host "[]" example_executing]
    by (cases "recover_after_restart example_host [] example_executing") auto
qed

section \<open>Authorized writes\<close>

text \<open>C28: Only the holder of a node writes, and only in scope: when \<open>verify_actor_action\<close> authorizes
  an action, the campaign is not over, the actor is bound and may write, the lease is active, and
  the node names the actor and its fence; two authorizations for one node are for the same actor
  and fence; an authorized path lies in the allowed paths of the node, or of the campaign when the
  node has none.\<close>

theorem authorized_writes:
  assumes "verify_actor_action h q db = Inr d" and "verify_actor_action h r db = Inr e"
    and "aq_campaign_id r = aq_campaign_id q" and "dict_get e ''node_id'' PNone = dict_get d ''node_id'' PNone"
  shows "\<exists>s a l n. load_snapshot h db (aq_campaign_id q) = Inr s \<and> cs_state s \<notin> TERMINAL_CAMPAIGN_STATES
    \<and> cs_authority_epoch s = aq_authority_epoch q \<and> cs_cancellation_epoch s = aq_cancellation_epoch q
    \<and> find_actor db (aq_actor_id q) = Some a \<and> bound_actor_row a \<and> ar_can_write a
    \<and> find_lease db (aq_lease_id q) = Some l \<and> lr_state l = ''ACTIVE'' \<and> lr_actor_id l = aq_actor_id q
    \<and> snapshot_node s (lr_node_id l) = Inr n
    \<and> ns_lease_actor_id n = Some (aq_actor_id q) \<and> ns_fencing_epoch n = aq_fencing_epoch q
    \<and> aq_actor_id r = aq_actor_id q \<and> aq_fencing_epoch r = aq_fencing_epoch q
    \<and> (\<forall>p. aq_path q = Some p \<longrightarrow> (\<exists>r. h_relative h (aq_repository_root q) p = Some r
         \<and> dict_get d ''path'' PNone = PStr r \<and> path_in_scope s (lr_node_id l) r))"
proof -
  obtain s a l n relative where q: "load_snapshot h db (aq_campaign_id q) = Inr s"
    "cs_state s \<notin> TERMINAL_CAMPAIGN_STATES"
    "cs_authority_epoch s = aq_authority_epoch q" "cs_cancellation_epoch s = aq_cancellation_epoch q"
    "find_actor db (aq_actor_id q) = Some a" "find_lease db (aq_lease_id q) = Some l" "lr_actor_id l = aq_actor_id q"
    "lr_state l = ''ACTIVE''" "bound_actor_row a" "ar_can_write a" "snapshot_node s (lr_node_id l) = Inr n"
    "ns_fencing_epoch n = aq_fencing_epoch q" "ns_lease_actor_id n = Some (aq_actor_id q)"
    and path: "check_action_path h s (lr_node_id l) q = Inr relative"
    and d: "dict_get d ''node_id'' PNone = PStr (lr_node_id l)" "dict_get d ''path'' PNone = py_opt_str relative"
    by (rule action_parts [OF assms(1)]) blast
  obtain s' n' and l' :: lease_row where "load_snapshot h db (aq_campaign_id r) = Inr s'" "snapshot_node s' (lr_node_id l') = Inr n'"
    "ns_fencing_epoch n' = aq_fencing_epoch r" "ns_lease_actor_id n' = Some (aq_actor_id r)"
    "dict_get e ''node_id'' PNone = PStr (lr_node_id l')"
    by (rule action_parts [OF assms(2)]) blast
  with q d assms(3,4) have "aq_actor_id r = aq_actor_id q" "aq_fencing_epoch r = aq_fencing_epoch q" by auto
  with q action_path_allowed [OF path] d(2) show ?thesis by (auto simp: py_opt_str_def)
qed

theorem authorized_writes_witness:
  "\<exists>d. verify_actor_action example_host (example_action ''src'') working_store = Inr d
    \<and> dict_get d ''path'' PNone = PStr ''src''"
proof -
  have "\<exists>d. verify_actor_action example_host (example_action ''src'') working_store = Inr d"
    using example_authorized by blast
  then obtain d where d: "verify_actor_action example_host (example_action ''src'') working_store = Inr d" ..
  from authorized_writes [OF d d refl refl] d show ?thesis
    by (auto simp: example_action_def example_host_def)
qed

section \<open>Receipts and budgets\<close>

text \<open>C29: A receipt of a human is consumed once: the identifier of an accepted receipt was unbound
  before and is bound afterwards, and as long as it is bound, after any operations, every event
  under a receipt with that identifier is refused and leaves at most a row of telemetry.\<close>

theorem receipts_used_once:
  assumes "find_operation db (receipt_text receipt ''receipt_id'') = Some q" and "store_steps h db db'"
    and "receipt_text other ''receipt_id'' = receipt_text receipt ''receipt_id''"
  shows "(\<exists>err xs. length xs \<le> 1
        \<and> apply_human_authorized_event h (Inr f) other db' = (Inl err, db'\<lparr>db_telemetry := db_telemetry db' @ xs\<rparr>))
    \<and> (case apply_human_authorized_event h (Inr e) receipt db0 of
        (Inl _, _) \<Rightarrow> True
      | (Inr _, db1) \<Rightarrow> find_operation db0 (receipt_text receipt ''receipt_id'') = None
          \<and> find_operation db1 (receipt_text receipt ''receipt_id'') \<noteq> None)"
proof
  from requests.steps [OF assms(2)] assms(1) obtain q' where
    "find_operation db' (receipt_text receipt ''receipt_id'') = Some q'"
    unfolding requests_kept_def by blast
  with bound_receipt_refused [of db' other q' h f] assms(3) obtain err where
    "apply_human_authorized_event h (Inr f) other db' = (Inl err, record_rejection f err db')" by auto
  with rejection_frame [of f err db'] show "\<exists>err xs. length xs \<le> 1
        \<and> apply_human_authorized_event h (Inr f) other db' = (Inl err, db'\<lparr>db_telemetry := db_telemetry db' @ xs\<rparr>)"
    by metis
qed (use consumed_receipt [of h e receipt db0] in \<open>auto split: prod.splits sum.splits\<close>)

theorem receipts_used_once_witness:
  "\<exists>err. fst (apply_human_authorized_event example_host (Inr example_cancel) [(''receipt_id'', PStr ''q'')]
     (snd (recover_after_restart example_host [] example_leased))) = Inl err"
proof -
  have i: "receipt_text [(''receipt_id'', PStr ''q'')] ''receipt_id'' = ''q''" by code_simp
  have "find_operation example_leased ''q'' \<noteq> None"
    using example_acquired(3) by (auto simp: find_operation_def find_None_iff map_eq_Cons_conv)
  then obtain r where "find_operation example_leased (receipt_text [(''receipt_id'', PStr ''q'')] ''receipt_id'') = Some r"
    by (auto simp: i)
  moreover have "store_steps example_host example_leased (snd (recover_after_restart example_host [] example_leased))"
    by (rule r_into_rtranclp) (rule operation_by.recover)
  ultimately have "\<exists>err xs. length xs \<le> (1 :: nat) \<and> apply_human_authorized_event example_host (Inr example_cancel)
      [(''receipt_id'', PStr ''q'')] (snd (recover_after_restart example_host [] example_leased))
    = (Inl err, (snd (recover_after_restart example_host [] example_leased))\<lparr>db_telemetry :=
        db_telemetry (snd (recover_after_restart example_host [] example_leased)) @ xs\<rparr>)"
    using receipts_used_once by blast
  then show ?thesis by auto
qed

text \<open>A unit of budget is reserved once per request: a reservation that reports its unit as newly
  reserved charged exactly one unit under its request identifier, which was charged before for
  nothing, the store holds the charged snapshot, and whatever operations follow, no reservation
  under the same identifier reports a new unit.\<close>

theorem budget_reserved_once:
  assumes "store_ok h db" and "reserve_budget_attempt h c tok i r a x n f db = (Inr (t, True), db')"
    and "store_steps h db' db2"
  shows "(\<exists>s token. load_snapshot h db c = Inr s \<and> load_snapshot h db' c = Inr t
        \<and> t = (spend token i s)\<lparr>cs_revision := cs_revision s + 1\<rparr>
        \<and> \<not> list_ex (\<lambda>q. br_request_id q = i) (cs_budget_receipts s) \<and> 0 < cs_autonomous_rank_remaining s)
    \<and> fst (reserve_budget_attempt h c' tok' i r' a' x' n' f' db2) \<noteq> Inr (u, True)"
proof -
  obtain e fx where e: "budget_event c tok i r a x n f = Inr e" and new: "find_operation db i = None"
    and run: "apply_fresh h e (canonical_json_digest (event_to_dict e)) db = Inr ((t, fx), db')"
    by (rule reservation_granted [OF assms(2)])
  note id = budget_event_id [OF e]
  obtain s where s: "load_snapshot h db c = Inr s" "reduce_event s e = Inr (t, fx)" "load_snapshot h db' c = Inr t"
    using apply_fresh_step [OF assms(1) budget_event_readable [OF e] run] id by metis
  obtain token where token: "spendable s token i" "t = (spend token i s)\<lparr>cs_revision := cs_revision s + 1\<rparr>"
    using budget_charged [OF s(2)] id by blast
  obtain q where "find_operation db' i = Some q" using fresh_operation_bound [OF _ run] new id by auto
  with requests.steps [OF assms(3)] obtain q' where q': "find_operation db2 i = Some q'"
    unfolding requests_kept_def by blast
  have "fst (reserve_budget_attempt h c' tok' i r' a' x' n' f' db2) \<noteq> Inr (u, True)"
    by (rule bound_reservation [OF q'])
  moreover have "\<not> list_ex (\<lambda>q. br_request_id q = i) (cs_budget_receipts s) \<and> 0 < cs_autonomous_rank_remaining s"
    using token(1) by (auto simp: spendable_def list_ex_iff)
  ultimately show ?thesis using s(1,3) token(2) by blast
qed

theorem budget_reserved_once_witness:
  "\<exists>db'. reserve_budget_attempt example_host ''c'' (Inr BT_PUSH) ''r'' 14 3 0 None None working_store
      = (Inr (charged example_digest, True), db')
    \<and> fst (reserve_budget_attempt example_host ''c'' (Inr BT_PUSH) ''r'' 14 3 0 None None db')
      \<noteq> Inr (charged example_digest, True)"
proof -
  obtain db' where run: "reserve_budget_attempt example_host ''c'' (Inr BT_PUSH) ''r'' 14 3 0 None None working_store
    = (Inr (charged example_digest, True), db')" using example_reserved by blast
  from budget_reserved_once [OF working_ok this rtranclp.rtrancl_refl] run show ?thesis by blast
qed

section \<open>Usage and evidence\<close>

text \<open>C30: The counters of native usage that are accepted are the six documented ones, each between
  0 and \<open>2\<^sup>6\<^sup>3 - 1\<close>; the total is the sum of input and output, and no part exceeds its whole.\<close>

theorem usage_counters_bounded:
  assumes "native_usage_breakdown v = Some r"
  shows "map fst r = usage_names \<and> list_all (\<lambda>(_, i). 0 \<le> i \<and> i < 2 ^ 63) r
    \<and> count_of r ''total_tokens'' = count_of r ''input_tokens'' + count_of r ''output_tokens''
    \<and> count_of r ''cached_input_tokens'' \<le> count_of r ''input_tokens''
    \<and> count_of r ''cache_write_input_tokens'' \<le> count_of r ''input_tokens''
    \<and> count_of r ''reasoning_output_tokens'' \<le> count_of r ''output_tokens''"
  using assms native_counts_fields [of _ NATIVE_USAGE_FIELDS]
  by (auto simp: native_usage_breakdown_def usage_names_def split: option.splits if_splits)

definition example_usage :: pyval where
  "example_usage = PDict [(''inputTokens'', PInt 5), (''cachedInputTokens'', PInt 2), (''outputTokens'', PInt 3),
     (''reasoningOutputTokens'', PInt 0), (''totalTokens'', PInt 8)]"

theorem usage_counters_bounded_witness:
  "\<exists>r. native_usage_breakdown example_usage = Some r \<and> map fst r = usage_names \<and> count_of r ''total_tokens'' = 8"
proof -
  have "native_usage_breakdown example_usage \<noteq> None
      \<and> map_option (\<lambda>r. count_of r ''total_tokens'') (native_usage_breakdown example_usage) = Some 8"
    by code_simp
  then obtain r where r: "native_usage_breakdown example_usage = Some r" "count_of r ''total_tokens'' = 8" by auto
  with usage_counters_bounded [OF r(1)] show ?thesis by blast
qed

text \<open>Evidence reads back: a receipt recorded under a new identifier is returned by
  \<open>get_evidence\<close> as it was given, recording it again changes nothing, and its digest is the one that
  its canonical payload claims.\<close>

theorem evidence_roundtrip:
  assumes "evidence_storable item" and "find_evidence db (ed_evidence_id item) = None"
    and "record_evidence (Inr item) db = (Inr x, db')"
  shows "x = item \<and> get_evidence (ed_evidence_id item) db' = Inr (Some item)
    \<and> record_evidence (Inr item) db' = (Inr item, db')
    \<and> verify_evidence_digest item False = Inr ()"
proof -
  note r = recorded_evidence [OF assms(3,2)]
  then have "record_evidence (Inr item) db' = (Inr item, db')"
    by (simp add: record_evidence_def given_def transaction_def insert_evidence_def Let_def evidence_row_of_def requireE_def)
  with r evidence_row_read [OF assms(1)] show ?thesis by (simp add: get_evidence_def)
qed

definition example_evidence :: evidence where
  "example_evidence =
     \<lparr>ed_evidence_id = ''v'', ed_campaign_id = ''c'', ed_node_id = None, ed_kind = VK_GIT,
      ed_digest = canonical_json_digest (PDict []),
      ed_payload = PProxy [(''evidence_sha256'', PStr (canonical_json_digest (PDict [])))], ed_candidate_head = None\<rparr>"

lemma digest_not_blank: "py_strip (canonical_json_digest v) \<noteq> []"
proof -
  have "\<not> py_space c" if "hex_lower c" for c using that by (auto simp: hex_lower_def py_space_def Let_def)
  then have "dropWhile py_space s = s" if "list_all hex_lower s" for s using that by (cases s) auto
  then show ?thesis
    using sha256_hex_shape [of "canonical_json v"] by (simp add: canonical_json_digest_def py_strip_def list_all_iff)
qed

lemma example_evidence_storable: "evidence_storable example_evidence"
  by (simp add: evidence_storable_def evidence_post_init_def example_evidence_def named_def requireE_def frozen_def
      digest_not_blank) (code_simp)

lemma example_evidence_recorded:
  "\<exists>db'. record_evidence (Inr example_evidence) example_store = (Inr example_evidence, db')"
proof -
  have fields: "ed_evidence_id example_evidence = ''v''" "ed_campaign_id example_evidence = ''c''"
    "ed_digest example_evidence = canonical_json_digest (PDict [])"
    "ed_payload example_evidence = PProxy [(''evidence_sha256'', PStr (canonical_json_digest (PDict [])))]"
    by (simp_all add: example_evidence_def)
  have "verify_evidence_digest example_evidence False = Inr ()"
    by (simp add: verify_evidence_digest_def evidence_document_def fields claimed_digest_def popped_digest_def
        dict_get_def dict_remove_def requireE_def TERMINAL_PROTOCOL_def Let_def)
  then show ?thesis
    by (simp add: record_evidence_def given_def transaction_def insert_evidence_def insert_evidence_row_def Let_def fields
        find_evidence_def example_store_tables constraint_def requireE_def campaign_exists_def campaign_row_of_def
        example_initial_simps)
qed

theorem evidence_roundtrip_witness:
  "\<exists>db'. record_evidence (Inr example_evidence) example_store = (Inr example_evidence, db')
    \<and> get_evidence ''v'' db' = Inr (Some example_evidence)"
proof -
  obtain db' where run: "record_evidence (Inr example_evidence) example_store = (Inr example_evidence, db')"
    using example_evidence_recorded by blast
  have "find_evidence example_store (ed_evidence_id example_evidence) = None"
    by (simp add: find_evidence_def example_store_tables)
  from evidence_roundtrip [OF example_evidence_storable this run] run show ?thesis by (auto simp: example_evidence_def)
qed

text \<open>The identifier is compared by digest and payload only: evidence that differs in its campaign,
  node, kind or head is accepted and returned, while the store keeps the first.\<close>

lemma missed_rebinding:
  assumes "find_evidence db (ed_evidence_id item) = Some (evidence_row_of item)"
    and "verify_evidence_digest (item\<lparr>ed_kind := k\<rparr>) False = Inr ()" and "evidence_storable item"
  shows "record_evidence (Inr (item\<lparr>ed_kind := k\<rparr>)) db = (Inr (item\<lparr>ed_kind := k\<rparr>), db)
    \<and> get_evidence (ed_evidence_id item) db = Inr (Some item)"
  using assms evidence_row_read [OF assms(3)]
  by (simp add: record_evidence_def given_def transaction_def insert_evidence_def Let_def evidence_row_of_def requireE_def
      get_evidence_def)

section \<open>Signatures\<close>

text \<open>A decoded point is canonical: whatever 32 bytes are given, a point that
  \<open>decode_point\<close> returns has coordinates reduced modulo the field prime, lies on the curve, and
  determines its bytes: the encoding is \<open>y\<close> and the parity of \<open>x\<close>.\<close>

theorem decoded_points_canonical:
  "case decode_point (map (\<lambda>b. b mod 256) bs) of
     None \<Rightarrow> True
   | Some (x, y, z, t) \<Rightarrow> length bs = 32 \<and> 0 \<le> x \<and> x < FIELD_PRIME \<and> 0 \<le> y \<and> y < FIELD_PRIME
       \<and> z = 1 \<and> t = (x * y) mod FIELD_PRIME \<and> on_curve (x, y, z, t)
       \<and> int (from_little (map (\<lambda>b. b mod 256) bs)) = y + 2 ^ 255 * (x mod 2)"
proof -
  have bytes: "list_all (\<lambda>b. b < 256) (map (\<lambda>b. b mod 256) bs)" by (simp add: list_all_iff)
  note parts = decoded_point [OF bytes] and curve = decoded_on_curve [OF _ bytes]
  show ?thesis by (simp split: option.split prod.split) (use parts curve in force)
qed

text \<open>The arithmetic of the verifier stays on the curve and its doubling formula is addition: sums,
  doubles and multiples of points of the curve are points of the curve, and the optimized
  \<open>point_double\<close> gives the same point as \<open>point_add\<close> of the point and itself.\<close>

theorem doubling_is_addition:
  assumes "on_curve p" and "on_curve q"
  shows "points_equal (point_double p) (point_add p p) \<and> on_curve (point_add p q) \<and> on_curve (point_double p)
    \<and> on_curve (scalar_multiply p n)"
  using assms by (simp add: double_adds add_on_curve double_on_curve multiple_on_curve)

theorem doubling_is_addition_witness:
  "points_equal (point_double (0, - 1, 1, 0)) (point_add (0, - 1, 1, 0) (0, - 1, 1, 0))
    \<and> on_curve (scalar_multiply (0, - 1, 1, 0) 5)"
proof -
  have "on_curve (0, - 1, 1, 0)" by (simp add: on_curve_def curve_defect_def product_defect_def)
  from doubling_is_addition [OF this this] show ?thesis by blast
qed

end
