(* ===== verification/Environment.thy ===== *)
theory Environment
  imports Effect_Driver
begin

text \<open>
  What the supervisor and the collection of evidence use of the world: Git and other processes,
  the file system, the clock, the environment of the process.  They are the fields of the record
  \<open>environment\<close>, each a procedure on a world of type \<open>'w\<close> that it may change (time passes, a
  process writes files).  \<open>failure\<close> extends the exceptions of the model with those of
  supervisor.py, evidence.py, host.py, of \<open>subprocess\<close> and of the file system.
\<close>

section \<open>Exceptions\<close>

text \<open>The last two stand for every subclass; their first argument is the name of the class.  A
  \<open>ValidationFailure\<close> carries the measured evidence, when there is one.\<close>

datatype failure =
    Raised error
  | GitCommandError string
  | RuntimePinError string
  | SupervisorError string
  | AttemptAlreadyReserved string
  | SupervisorDeadlineExceeded string
  | EvidenceError string
  | HeadRaceError string
  | HostedEvidenceError string
  | ValidationFailure string "pydict option"
  | HostError string
  | HostProtocolError string
  | HostAuthorityError string
  | HostScopeError string
  | LateResultError string
  | OSError string string
  | SubprocessError string string

text \<open>\<open>type(exc).__name__\<close> and \<open>str(exc)\<close>\<close>

fun failure_name :: "failure \<Rightarrow> string" where
  "failure_name (Raised err) = error_name err"
| "failure_name (GitCommandError m) = ''GitCommandError''"
| "failure_name (RuntimePinError m) = ''RuntimePinError''"
| "failure_name (SupervisorError m) = ''SupervisorError''"
| "failure_name (AttemptAlreadyReserved m) = ''AttemptAlreadyReserved''"
| "failure_name (SupervisorDeadlineExceeded m) = ''SupervisorDeadlineExceeded''"
| "failure_name (EvidenceError m) = ''EvidenceError''"
| "failure_name (HeadRaceError m) = ''HeadRaceError''"
| "failure_name (HostedEvidenceError m) = ''HostedEvidenceError''"
| "failure_name (ValidationFailure m e) = ''ValidationFailure''"
| "failure_name (HostError m) = ''HostError''"
| "failure_name (HostProtocolError m) = ''HostProtocolError''"
| "failure_name (HostAuthorityError m) = ''HostAuthorityError''"
| "failure_name (HostScopeError m) = ''HostScopeError''"
| "failure_name (LateResultError m) = ''LateResultError''"
| "failure_name (OSError c m) = c"
| "failure_name (SubprocessError c m) = c"

fun failure_text :: "failure \<Rightarrow> string" where
  "failure_text (Raised err) = error_text err"
| "failure_text (GitCommandError m) = m"
| "failure_text (RuntimePinError m) = m"
| "failure_text (SupervisorError m) = m"
| "failure_text (AttemptAlreadyReserved m) = m"
| "failure_text (SupervisorDeadlineExceeded m) = m"
| "failure_text (EvidenceError m) = m"
| "failure_text (HeadRaceError m) = m"
| "failure_text (HostedEvidenceError m) = m"
| "failure_text (ValidationFailure m e) = m"
| "failure_text (HostError m) = m"
| "failure_text (HostProtocolError m) = m"
| "failure_text (HostAuthorityError m) = m"
| "failure_text (HostScopeError m) = m"
| "failure_text (LateResultError m) = m"
| "failure_text (OSError c m) = m"
| "failure_text (SubprocessError c m) = m"

text \<open>The \<open>except\<close> clauses, with the subclasses of each class.\<close>

fun is_evidence_error :: "failure \<Rightarrow> bool" where
  "is_evidence_error (EvidenceError m) = True"
| "is_evidence_error (HeadRaceError m) = True"
| "is_evidence_error (HostedEvidenceError m) = True"
| "is_evidence_error (ValidationFailure m e) = True"
| "is_evidence_error _ = False"

fun is_os_error :: "failure \<Rightarrow> bool" where
  "is_os_error (OSError c m) = True"
| "is_os_error _ = False"

fun is_subprocess_error :: "failure \<Rightarrow> bool" where
  "is_subprocess_error (SubprocessError c m) = True"
| "is_subprocess_error _ = False"

fun is_scope_error :: "failure \<Rightarrow> bool" where
  "is_scope_error (HostScopeError m) = True"
| "is_scope_error _ = False"

fun is_authority_error :: "failure \<Rightarrow> bool" where
  "is_authority_error (Raised (AuthorityError m)) = True"
| "is_authority_error _ = False"

fun is_budget_error :: "failure \<Rightarrow> bool" where
  "is_budget_error (Raised (BudgetError m)) = True"
| "is_budget_error _ = False"

fun is_drift_error :: "failure \<Rightarrow> bool" where
  "is_drift_error (Raised (SourceDriftError m)) = True"
| "is_drift_error _ = False"

fun is_admission_error :: "failure \<Rightarrow> bool" where
  "is_admission_error (Raised (AdmissionError m)) = True"
| "is_admission_error (Raised (ScopeOverlapError m)) = True"
| "is_admission_error (Raised (SourceDriftError m)) = True"
| "is_admission_error (GitCommandError m) = True"
| "is_admission_error (RuntimePinError m) = True"
| "is_admission_error _ = False"

fun is_deadline_error :: "failure \<Rightarrow> bool" where
  "is_deadline_error (SupervisorDeadlineExceeded m) = True"
| "is_deadline_error _ = False"

section \<open>Procedures\<close>

definition demand :: "bool \<Rightarrow> 'e \<Rightarrow> ('s, 'e, 'a) proc \<Rightarrow> ('s, 'e, 'a) proc" where
  "demand ok err m = (if ok then m else fail err)"

text \<open>\<open>try: m except ...: handler\<close>; a handler raises again what it does not catch.\<close>

definition catch :: "('s, 'e, 'a) proc \<Rightarrow> ('e \<Rightarrow> ('s, 'f, 'a) proc) \<Rightarrow> ('s, 'f, 'a) proc" where
  "catch m handler = attempt m handler give"

definition catch_when ::
  "('e \<Rightarrow> bool) \<Rightarrow> ('s, 'e, 'a) proc \<Rightarrow> ('e \<Rightarrow> ('s, 'e, 'a) proc) \<Rightarrow> ('s, 'e, 'a) proc" where
  "catch_when p m handler = catch m (\<lambda>exc. if p exc then handler exc else fail exc)"

text \<open>\<open>try: m finally: closing\<close>\<close>

definition finally_do :: "('s, 'e, 'a) proc \<Rightarrow> ('s, 'e, unit) proc \<Rightarrow> ('s, 'e, 'a) proc" where
  "finally_do m closing s = (case m s of (r, t) \<Rightarrow>
     (case closing t of (Inl err, u) \<Rightarrow> (Inl err, u) | (Inr _, u) \<Rightarrow> (r, u)))"

primrec each :: "('a \<Rightarrow> ('s, 'e, 'b) proc) \<Rightarrow> 'a list \<Rightarrow> ('s, 'e, 'b list) proc" where
  "each f [] = give []"
| "each f (x # xs) = and_then (f x) (\<lambda>y. and_then (each f xs) (\<lambda>ys. give (y # ys)))"

primrec thread :: "('a \<Rightarrow> 'b \<Rightarrow> ('s, 'e, 'b) proc) \<Rightarrow> 'a list \<Rightarrow> 'b \<Rightarrow> ('s, 'e, 'b) proc" where
  "thread f [] b = give b"
| "thread f (x # xs) b = and_then (f x b) (thread f xs)"

text \<open>A result of the model, raised as its exception.\<close>

definition checked :: "'a res \<Rightarrow> ('s, failure, 'a) proc" where
  "checked r = pure_res (map_sum Raised id r)"

section \<open>The environment\<close>

record completed =
  cp_returncode :: int
  cp_stdout :: string
  cp_stderr :: string

record measured =
  ms_exit_code :: int
  ms_timed_out :: bool
  ms_output_limited :: bool
  ms_stdout_sha256 :: string
  ms_stderr_sha256 :: string
  ms_stdout :: string
  ms_stderr :: string
  ms_duration_ms :: int

type_synonym ('w, 'a) call = "('w, failure, 'a) proc"

text \<open>
  \<open>en_run argv cwd\<close> is \<open>subprocess.run\<close> without \<open>check\<close>; \<open>en_measure argv cwd env timeout limit\<close> is the
  part of \<open>execute_trusted_command\<close> that starts a process, reads its output in two threads and stops
  it at the deadline or at the output limit.  \<open>en_resolve\<close> is \<open>str(Path(p).resolve(strict=True))\<close> and
  \<open>en_expand\<close> the same after \<open>expanduser()\<close>, \<open>en_expanduser\<close> is \<open>str(Path(p).expanduser())\<close>; \<open>en_locate raw cwd\<close> is the path of an executable
  (resolved under \<open>cwd\<close> when it has a directory, else what \<open>shutil.which\<close> finds, resolved);
  \<open>en_fromisoformat text\<close> is \<open>datetime.fromisoformat\<close>: the wall time in microseconds and the offset
  from UTC when there is one.  The other fields are single calls of \<open>pathlib\<close>, \<open>os\<close>, \<open>ipaddress\<close> and
  \<open>urllib\<close>: \<open>en_local\<close> is \<open>Path(p).expanduser().resolve(strict=False).as_posix()\<close>;
  \<open>en_read_under root relative\<close> the bytes of \<open>root / relative\<close> once it is known to resolve under
  \<open>root\<close>; \<open>en_utf8\<close> whether bytes decode; \<open>en_read_text\<close> the text of a file; \<open>en_file_sha256\<close> the digest
  of its bytes; \<open>en_lstat\<close> whether a path is a symbolic link, its device and its inode; \<open>en_is_symlink\<close> is \<open>is_symlink()\<close> and
  \<open>en_size\<close> is \<open>stat().st_size\<close>;
  \<open>en_volume\<close> the volume and file index of Windows; \<open>en_join\<close>, \<open>en_parent\<close>, \<open>en_is_absolute\<close>,
  \<open>en_relative_to\<close> the path operations \<open>/\<close>, \<open>parent\<close>, \<open>is_absolute\<close> and \<open>relative_to\<close>; \<open>en_ip_host\<close> the
  check of a bracketed host; \<open>en_url_path\<close> is \<open>url2pathname\<close> and \<open>en_as_uri\<close> is \<open>as_uri\<close>.
\<close>

record 'w environment =
  en_now :: "'w \<Rightarrow> int \<times> 'w"
  en_fromisoformat :: "string \<Rightarrow> (int \<times> int option) option"
  en_run :: "string list \<Rightarrow> string \<Rightarrow> ('w, completed) call"
  en_measure :: "string list \<Rightarrow> string \<Rightarrow> (string \<times> string) list \<Rightarrow> int \<Rightarrow> int \<Rightarrow> ('w, measured) call"
  en_resolve :: "string \<Rightarrow> ('w, string) call"
  en_expand :: "string \<Rightarrow> ('w, string) call"
  en_expanduser :: "string \<Rightarrow> ('w, string) call"
  en_normcase :: "string \<Rightarrow> string"
  en_locate :: "string \<Rightarrow> string \<Rightarrow> ('w, string option) call"
  en_which :: "string \<Rightarrow> ('w, string option) call"
  en_is_file :: "string \<Rightarrow> ('w, bool) call"
  en_is_dir :: "string \<Rightarrow> ('w, bool) call"
  en_file_sha256 :: "string \<Rightarrow> ('w, string) call"
  en_local :: "string \<Rightarrow> ('w, string) call"
  en_read_under :: "string \<Rightarrow> string \<Rightarrow> ('w, string) call"
  en_utf8 :: "string \<Rightarrow> bool"
  en_read_text :: "string \<Rightarrow> ('w, string) call"
  en_lstat :: "string \<Rightarrow> ('w, bool \<times> int \<times> int) call"
  en_is_symlink :: "string \<Rightarrow> ('w, bool) call"
  en_size :: "string \<Rightarrow> ('w, int) call"
  en_volume :: "string \<Rightarrow> ('w, int \<times> int) call"
  en_join :: "string \<Rightarrow> string \<Rightarrow> string"
  en_parent :: "string \<Rightarrow> string"
  en_is_absolute :: "string \<Rightarrow> bool"
  en_relative_to :: "string \<Rightarrow> string \<Rightarrow> bool"
  en_ip_host :: "string \<Rightarrow> bool"
  en_url_path :: "string \<Rightarrow> string"
  en_as_uri :: "string \<Rightarrow> string"
  en_environ :: "(string \<times> string) list"
  en_os_name :: string
  en_platform :: string

section \<open>Git\<close>

text \<open>\<open>_run\<close> and \<open>run_git\<close> of admission.py\<close>

definition run_process :: "'w environment \<Rightarrow> string list \<Rightarrow> string \<Rightarrow> ('w, completed) call" where
  "run_process E argv cwd =
     and_then (catch_when (\<lambda>exc. is_os_error exc \<or> is_subprocess_error exc) (en_run E argv cwd)
       (\<lambda>exc. fail (GitCommandError (''command failed to execute: '' @ hd argv @ '': '' @ failure_text exc)))) (\<lambda>r.
     if cp_returncode r \<noteq> 0 then
       let message = (if py_strip (cp_stderr r) \<noteq> [] then py_strip (cp_stderr r) else py_strip (cp_stdout r))
       in fail (GitCommandError (''command exited '' @ show_int (cp_returncode r) @ '': '' @ join '' '' argv
            @ '': '' @ take 1000 message))
     else give r)"

definition run_git :: "'w environment \<Rightarrow> string \<Rightarrow> string list \<Rightarrow> ('w, string) call" where
  "run_git E root args =
     and_then (run_process E (''git'' # args) root) (\<lambda>r. give (py_strip (cp_stdout r)))"

text \<open>\<open>subprocess.run(..., check=True).stdout\<close>\<close>

definition run_checked :: "'w environment \<Rightarrow> string list \<Rightarrow> string \<Rightarrow> ('w, string) call" where
  "run_checked E argv cwd =
     and_then (en_run E argv cwd) (\<lambda>r.
     demand (cp_returncode r = 0)
       (SubprocessError ''CalledProcessError'' (''command returned non-zero exit status '' @ show_int (cp_returncode r)))
       (give (cp_stdout r)))"

text \<open>The digest of bytes, and of text that was read as bytes.\<close>

definition bytes_digest :: "string \<Rightarrow> string" where
  "bytes_digest s = hex_of_bytes (sha256_bytes (map of_char s))"

text \<open>\<open>^[0-9a-f]{64}$\<close>, matched in full\<close>

definition exact_sha256 :: "string \<Rightarrow> bool" where
  "exact_sha256 s \<longleftrightarrow> length s = 64 \<and> list_all hex_lower s"

end
