(* ===== verification/Pr_Body.thy ===== *)
theory Pr_Body
  imports Campaign_State
begin

text \<open>
  check-pr-body.py: the metadata of a pull request body and its consistency with the campaign.
  The regular expressions search at the starts of lines; whitespace may span lines, as \<open>\s\<close> does.
  A failure is its message, in the order of the code.
\<close>

section \<open>Constants\<close>

definition REQUIRED_HEADINGS :: "string list" where
  "REQUIRED_HEADINGS =
     [''## Requested outcome'', ''## Scope'', ''## Validation'', ''## Review'', ''## Publication authority'']"

definition COMMON_FIELDS :: "string list" where
  "COMMON_FIELDS =
     [''Work mode'', ''Objective'', ''Exact base SHA'', ''Exact candidate head SHA'', ''Changed paths'',
      ''Acceptance criteria'', ''Explicit non-goals'', ''Allowed effects'']"

definition MANUAL_FIELDS :: "string list" where
  "MANUAL_FIELDS = [''Requested authority'', ''Review result'']"

definition CAMPAIGN_FIELDS :: "string list" where
  "CAMPAIGN_FIELDS =
     [''Campaign ID'', ''Objective kind'', ''Specification digest'', ''Frozen candidate diff digest'',
      ''Required review cohort'', ''Frozen finding IDs'', ''Repair used'', ''Closure result'', ''Exact operation IDs'']"

definition REQUIRED_FIELDS :: "string list" where
  "REQUIRED_FIELDS = COMMON_FIELDS @ MANUAL_FIELDS @ CAMPAIGN_FIELDS"

definition VALIDATION_CHECKS :: "string list" where
  "VALIDATION_CHECKS =
     [''product-quality'', ''product-tests'', ''product-acceptance'', ''requested-documentation'',
      ''coding-os-adapter'', ''pr-metadata'']"

definition OBJECTIVE_KINDS :: "string set" where
  "OBJECTIVE_KINDS = {''PRODUCT_CODE'', ''PRODUCT_DOCUMENTATION'', ''CONTROL_RUNTIME''}"

definition ALLOWED_EFFECTS :: "string set" where
  "ALLOWED_EFFECTS = {''PUSH'', ''CREATE_PULL_REQUEST'', ''UPSERT_COMMENT'', ''MERGE'', ''EXACT_FILE_REPLACE''}"

definition WORK_MODES :: "string set" where
  "WORK_MODES = {''MANUAL'', ''CAMPAIGN''}"

section \<open>Fields\<close>

text \<open>The rest of the text after each newline, and the text after \<open>^\s*(?:-\s*)?label:\<close>.\<close>

fun line_starts :: "string \<Rightarrow> string list" where
  "line_starts [] = []"
| "line_starts (c # cs) = (if c = CHR 0x0A then cs # line_starts cs else line_starts cs)"

definition after_key :: "string \<Rightarrow> string \<Rightarrow> string option" where
  "after_key key t = (if starts_with key (casefold t) then Some (drop (length key) t) else None)"

definition field_rest :: "string \<Rightarrow> string \<Rightarrow> string option" where
  "field_rest label t =
     (let key = casefold (label @ '':''); a = dropWhile py_space t
      in case after_key key a of
           Some r \<Rightarrow> Some r
         | None \<Rightarrow> (case a of
             c # r \<Rightarrow> if c = CHR ''-'' then after_key key (dropWhile py_space r) else None
           | [] \<Rightarrow> None))"

definition line_break :: "char \<Rightarrow> bool" where
  "line_break c \<longleftrightarrow> c = CHR 0x0A \<or> c = CHR 0x0D"

definition field_values :: "string \<Rightarrow> string \<Rightarrow> string list" where
  "field_values body label =
     concat (map (\<lambda>t. case field_rest label t of
        None \<Rightarrow> []
      | Some r \<Rightarrow> (let v = takeWhile (\<lambda>c. \<not> line_break c) r in if v = [] then [] else [py_strip v]))
      (body # line_starts body))"

definition field_value :: "string \<Rightarrow> string \<Rightarrow> string" where
  "field_value body label = (case field_values body label of [] \<Rightarrow> [] | v # _ \<Rightarrow> v)"

lemma dropWhile_length: "length (dropWhile P xs) \<le> length xs"
  by (induction xs) auto

lemma after_key_shorter:
  "after_key key u = Some r \<Longrightarrow> key \<noteq> [] \<Longrightarrow> length r < length u"
  by (cases u; cases key) (auto simp: after_key_def starts_with_def casefold_def split: if_splits)

lemma field_rest_shorter:
  assumes "field_rest label t = Some r"
  shows "length r < length t"
proof -
  let ?key = "casefold (label @ '':'')" and ?a = "dropWhile py_space t"
  have key: "?key \<noteq> []" by (simp add: casefold_def)
  show ?thesis
  proof (cases "after_key ?key ?a")
    case (Some q)
    with assms after_key_shorter [OF Some key] dropWhile_length [of py_space t]
    show ?thesis by (simp add: field_rest_def)
  next
    case None
    with assms obtain c b where a: "?a = c # b" and r: "after_key ?key (dropWhile py_space b) = Some r"
      by (auto simp: field_rest_def split: list.splits if_splits)
    from after_key_shorter [OF r key] dropWhile_length [of py_space b] dropWhile_length [of py_space t]
    show ?thesis by (simp add: a)
  qed
qed

text \<open>\<open>len(re.findall(...))\<close>: the matches do not overlap.\<close>

function field_count :: "string \<Rightarrow> bool \<Rightarrow> string \<Rightarrow> nat" where
  "field_count label start t =
     (case (if start then field_rest label t else None) of
        Some r \<Rightarrow> Suc (field_count label False r)
      | None \<Rightarrow> (case t of [] \<Rightarrow> 0 | c # cs \<Rightarrow> field_count label (c = CHR 0x0A) cs))"
  by pat_completeness auto
termination
  by (relation "measure (\<lambda>(_, _, t). length t)") (auto dest: field_rest_shorter split: if_splits)

declare field_count.simps [simp del]

definition valid_sha :: "string \<Rightarrow> bool" where
  "valid_sha v \<longleftrightarrow> length v = 40 \<and> list_all hex_lower (casefold v)"

definition valid_digest :: "string \<Rightarrow> bool" where
  "valid_digest v \<longleftrightarrow> length v = 64 \<and> list_all hex_lower (casefold v)"

section \<open>The table of checks\<close>

text \<open>\<open>\s*$\<close> of a multiline pattern.\<close>

definition ends_line :: "string \<Rightarrow> bool" where
  "ends_line r \<longleftrightarrow> (let w = takeWhile py_space r in w = r \<or> CHR 0x0A \<in> set w)"

definition row_at :: "string \<Rightarrow> string \<Rightarrow> (string \<times> string \<times> string) option" where
  "row_at check t =
     (case t of [] \<Rightarrow> None
      | bar # r \<Rightarrow>
          if bar \<noteq> CHR ''|'' then None
          else case after_key (casefold check) (dropWhile py_space r) of
            None \<Rightarrow> None
          | Some q \<Rightarrow> (case split_on (CHR ''|'') q of
              gap # a # b # c # d # rest \<Rightarrow>
                if dropWhile py_space gap = [] \<and> ends_line (join ''|'' (d # rest))
                then Some (py_strip a, py_strip b, py_strip c) else None
            | _ \<Rightarrow> None))"

definition validation_row :: "string \<Rightarrow> string \<Rightarrow> (string \<times> string \<times> string) option" where
  "validation_row body check =
     (case filter (\<lambda>r. r \<noteq> None) (map (row_at check) (body # line_starts body)) of [] \<Rightarrow> None | r # _ \<Rightarrow> r)"

text \<open>\<open>(?ms)^## Validation\s*\n(.*?)(?=^## |\Z)\<close>\<close>

fun until_heading :: "bool \<Rightarrow> string \<Rightarrow> string" where
  "until_heading start [] = []"
| "until_heading start (c # cs) =
     (if start \<and> starts_with ''## '' (c # cs) then [] else c # until_heading (c = CHR 0x0A) cs)"

definition section_at :: "string \<Rightarrow> string option" where
  "section_at t =
     (if \<not> starts_with ''## Validation'' t then None
      else let r = drop 13 t; w = takeWhile py_space r
           in if CHR 0x0A \<notin> set w then None
              else Some (until_heading True (rev (takeWhile (\<lambda>c. c \<noteq> CHR 0x0A) (rev w)) @ dropWhile py_space r)))"

definition validation_section :: "string \<Rightarrow> string option" where
  "validation_section body =
     (case filter (\<lambda>r. r \<noteq> None) (map section_at (body # line_starts body)) of [] \<Rightarrow> None | r # _ \<Rightarrow> r)"

definition LINE_ENDS :: "char set" where
  "LINE_ENDS = {CHR 0x0A, CHR 0x0B, CHR 0x0C, CHR 0x1C, CHR 0x1D, CHR 0x1E}"

definition splitlines :: "string \<Rightarrow> string list" where
  "splitlines s =
     (let parts = split_on (CHR 0x0A) (map (\<lambda>c. if c \<in> LINE_ENDS then CHR 0x0A else c) (normalize_newlines s))
      in if last parts = [] then butlast parts else parts)"

definition strip_bars :: "string \<Rightarrow> string" where
  "strip_bars s = rev (dropWhile (\<lambda>c. c = CHR ''|'') (rev (dropWhile (\<lambda>c. c = CHR ''|'') s)))"

definition separator_cell :: "string \<Rightarrow> bool" where
  "separator_cell cell \<longleftrightarrow> cell \<noteq> [] \<and> list_all (\<lambda>c. c \<in> {CHR ''-'', CHR '':'', CHR '' ''}) cell"

definition row_cells :: "string \<Rightarrow> string list list" where
  "row_cells line =
     (if \<not> starts_with ''|'' (py_strip line) then []
      else let cells = map py_strip (split_on (CHR ''|'') (strip_bars (py_strip line)))
           in if length cells = 4 \<and> casefold (hd cells) \<noteq> ''check'' \<and> \<not> list_all separator_cell cells
              then [cells] else [])"

definition validation_rows :: "string \<Rightarrow> string list list" where
  "validation_rows body =
     (case validation_section body of None \<Rightarrow> [] | Some t \<Rightarrow> concat (map row_cells (splitlines t)))"

section \<open>Validation\<close>

definition complaint :: "bool \<Rightarrow> string \<Rightarrow> string list" where
  "complaint bad message = (if bad then [message] else [])"

definition required_fields :: "bool \<Rightarrow> string \<Rightarrow> string list" where
  "required_fields template_mode work_mode =
     (if template_mode then REQUIRED_FIELDS
      else COMMON_FIELDS @ (if work_mode = ''CAMPAIGN'' then CAMPAIGN_FIELDS else MANUAL_FIELDS))"

definition heading_failures :: "string \<Rightarrow> string list" where
  "heading_failures body =
     concat (map (\<lambda>heading. complaint (\<not> contains heading body)
       (''PR body is missing required section: '' @ heading)) REQUIRED_HEADINGS)"

definition count_failures :: "string \<Rightarrow> string list \<Rightarrow> string list" where
  "count_failures body required =
     concat (map (\<lambda>label. let count = field_count label True body
       in complaint (count = 0 \<and> label \<in> set required) (''PR body is missing required field: '' @ label)
          @ complaint (count > 1) (''PR body has duplicate field: '' @ label)) REQUIRED_FIELDS)"

definition missing_rows :: "string \<Rightarrow> string list" where
  "missing_rows body =
     concat (map (\<lambda>check. complaint (validation_row body check = None)
       (''PR body is missing validation row: '' @ check)) VALIDATION_CHECKS)"

definition blank_failures :: "string \<Rightarrow> string list \<Rightarrow> string list" where
  "blank_failures body required =
     concat (map (\<lambda>label. complaint (field_value body label = [])
       (''PR body field must not be blank: '' @ label)) required)"

definition mode_failures :: "string \<Rightarrow> string \<Rightarrow> string \<Rightarrow> string \<Rightarrow> string list" where
  "mode_failures body expected_mode campaign_id digest =
     (let mode = field_value body ''Work mode''
      in complaint (mode \<notin> WORK_MODES) ''Work mode must be exactly MANUAL or CAMPAIGN.''
       @ complaint (expected_mode \<noteq> [] \<and> expected_mode \<notin> WORK_MODES) ''Expected work mode is unsupported.''
       @ complaint (expected_mode \<noteq> [] \<and> mode \<noteq> expected_mode)
           ''Work mode must match the independently supplied execution mode.''
       @ (if campaign_id = [] \<and> digest = [] then []
          else complaint (mode \<noteq> ''CAMPAIGN'') ''Campaign-bound work cannot use MANUAL metadata.''
            @ concat (map (\<lambda>(label, expected). complaint (expected \<noteq> [] \<and> field_value body label \<noteq> expected)
                (label @ '' must match the admitted campaign.''))
              [(''Campaign ID'', campaign_id), (''Specification digest'', digest)]))
       @ (if mode = ''MANUAL'' then
            concat (map (\<lambda>label. complaint (field_value body label \<noteq> [])
              (''MANUAL metadata must omit campaign field: '' @ label)) CAMPAIGN_FIELDS)
          else []))"

definition head_failures :: "string \<Rightarrow> string \<Rightarrow> string \<Rightarrow> string list" where
  "head_failures body head base =
     (let candidate = field_value body ''Exact candidate head SHA''
      in concat (map (\<lambda>label. complaint (\<not> valid_sha (field_value body label))
           (label @ '' must be one full 40-character Git SHA.'')) [''Exact base SHA'', ''Exact candidate head SHA''])
       @ complaint (head \<noteq> [] \<and> valid_sha candidate \<and> casefold candidate \<noteq> casefold head)
           ''Exact candidate head SHA must match the live pull request head SHA.''
       @ complaint (base \<noteq> [] \<and> casefold (field_value body ''Exact base SHA'') \<noteq> casefold base)
           ''Exact base SHA must match the independently supplied base SHA.'')"

definition comma_items :: "string \<Rightarrow> string list" where
  "comma_items v = filter (\<lambda>i. i \<noteq> []) (map py_strip (split_on (CHR '','') v))"

definition alphanumeric :: "char \<Rightarrow> bool" where
  "alphanumeric c \<longleftrightarrow> c \<in> set ''ABCDEFGHIJKLMNOPQRSTUVWXYZabcdefghijklmnopqrstuvwxyz0123456789''"

definition stable_operation :: "string \<Rightarrow> bool" where
  "stable_operation item \<longleftrightarrow>
     (case item of [] \<Rightarrow> False
      | c # cs \<Rightarrow> alphanumeric c \<and> length cs \<le> 255 \<and> list_all (\<lambda>d. alphanumeric d \<or> d \<in> set ''._:-'') cs)"

definition campaign_failures :: "string \<Rightarrow> string list" where
  "campaign_failures body =
     (if field_value body ''Work mode'' \<noteq> ''CAMPAIGN'' then []
      else complaint (field_value body ''Objective kind'' \<notin> OBJECTIVE_KINDS)
          ''Objective kind is not one supported campaign objective kind.''
       @ concat (map (\<lambda>label. complaint (\<not> valid_digest (field_value body label))
          (label @ '' must be one full SHA-256 digest.'')) [''Specification digest'', ''Frozen candidate diff digest''])
       @ complaint (field_value body ''Repair used'' \<notin> {''Yes'', ''No''}) ''Repair used must be exactly Yes or No.'')"

definition effect_failures :: "string \<Rightarrow> string list" where
  "effect_failures body =
     (let effects = comma_items (field_value body ''Allowed effects'');
          operations = comma_items (field_value body ''Exact operation IDs'')
      in complaint (effects = [] \<or> \<not> set effects \<subseteq> ALLOWED_EFFECTS)
           ''Allowed effects contains an empty or unsupported effect set.''
       @ (if field_value body ''Work mode'' \<noteq> ''CAMPAIGN'' then []
          else complaint (operations = [] \<or> \<not> list_all stable_operation operations)
              ''Exact operation IDs must contain stable operation identifiers.''
            @ missing_rows body))"

definition row_failures :: "string \<Rightarrow> string list" where
  "row_failures body =
     (let rows = validation_rows body
      in complaint (rows = []) ''Validation must record at least one relevant check.''
       @ concat (map (\<lambda>row. complaint ([] \<in> set row)
           (''Validation row must record check, command, evidence, and result: '' @ hd row)) rows))"

definition validate_body ::
  "bool \<Rightarrow> string \<Rightarrow> string \<Rightarrow> string \<Rightarrow> string \<Rightarrow> string \<Rightarrow> string \<Rightarrow> string list" where
  "validate_body template_mode expected_head expected_base expected_mode expected_campaign expected_digest body =
     (let required = required_fields template_mode (field_value body ''Work mode'')
      in heading_failures body @ count_failures body required
       @ (if template_mode then missing_rows body
          else blank_failures body required
            @ mode_failures body expected_mode expected_campaign expected_digest
            @ head_failures body expected_head expected_base
            @ campaign_failures body @ effect_failures body @ row_failures body))"

section \<open>What an accepted body says\<close>

lemma complaint_Nil [simp]: "complaint bad m = [] \<longleftrightarrow> \<not> bad"
  by (simp add: complaint_def)

lemma accepted_body:
  assumes "validate_body False head base mode campaign digest body = []"
  shows "mode \<noteq> [] \<Longrightarrow> field_value body ''Work mode'' = mode"
    and "campaign \<noteq> [] \<Longrightarrow> field_value body ''Campaign ID'' = campaign"
    and "digest \<noteq> [] \<Longrightarrow> field_value body ''Specification digest'' = digest"
    and "head \<noteq> [] \<Longrightarrow> casefold (field_value body ''Exact candidate head SHA'') = casefold head"
    and "base \<noteq> [] \<Longrightarrow> casefold (field_value body ''Exact base SHA'') = casefold base"
    and "\<forall>label \<in> set REQUIRED_FIELDS. field_count label True body \<le> 1"
    and "\<forall>effect \<in> set (comma_items (field_value body ''Allowed effects'')). effect \<in> ALLOWED_EFFECTS"
  using assms
  by (auto simp: validate_body_def mode_failures_def head_failures_def count_failures_def effect_failures_def
      Let_def not_less split: if_splits)

end
