(* ===== verification/Admission_Sources.thy ===== *)
theory Admission_Sources
  imports Environment Pr_Body
begin

text \<open>
  admission.py, first part: the identity of a remote (\<open>normalize_remote_url\<close>, with \<open>urlsplit\<close> of the
  standard library) and the sources of acceptance scenarios (one file or one section of a Markdown
  file, \<open>acceptance_source_content\<close>, and the check of their digests).
\<close>

section \<open>Splitting a URL\<close>

record url =
  ur_scheme :: string
  ur_netloc :: string
  ur_path :: string
  ur_query :: string
  ur_fragment :: string

definition scheme_char :: "char \<Rightarrow> bool" where
  "scheme_char c \<longleftrightarrow> alphanumeric c \<or> c \<in> set ''+-.''"

definition after_char :: "char \<Rightarrow> string \<Rightarrow> string \<times> string option" where
  "after_char c s = (case dropWhile (\<lambda>d. d \<noteq> c) s of [] \<Rightarrow> (s, None) | _ # r \<Rightarrow> (takeWhile (\<lambda>d. d \<noteq> c) s, Some r))"

definition url_scheme :: "string \<Rightarrow> string \<times> string" where
  "url_scheme s =
     (case after_char (CHR '':'') s of
        (_, None) \<Rightarrow> ([], s)
      | (head, Some rest) \<Rightarrow>
          if head \<noteq> [] \<and> is_letter (hd head) \<and> list_all scheme_char head then (casefold head, rest) else ([], s))"

text \<open>\<open>urllib.parse.urlsplit\<close> of Python 3.11 and later, for text below 128.\<close>

definition urlsplit :: "'w environment \<Rightarrow> string \<Rightarrow> url res" where
  "urlsplit E raw =
     (let clean = filter (\<lambda>c. c \<notin> {CHR 0x09, CHR 0x0A, CHR 0x0D}) (dropWhile (\<lambda>c. (of_char c :: nat) \<le> 32) raw);
          (scheme, s) = url_scheme clean;
          hosted = starts_with ''//'' s;
          netloc = (if hosted then takeWhile (\<lambda>c. c \<notin> set ''/?#'') (drop 2 s) else []);
          r = (if hosted then drop (2 + length netloc) s else s);
          (r, fragment) = after_char (CHR ''#'') r;
          (path, query) = after_char (CHR ''?'') r
      in requireAll
        [((CHR ''['' \<in> set netloc) = (CHR '']'' \<in> set netloc), ValueError ''Invalid IPv6 URL''),
         (CHR ''['' \<in> set netloc \<longrightarrow> en_ip_host E netloc, ValueError ''Invalid IPv6 URL'')]
        (Inr \<lparr>ur_scheme = scheme, ur_netloc = netloc, ur_path = path,
              ur_query = or_else query [], ur_fragment = or_else fragment []\<rparr>))"

text \<open>\<open>hostname\<close> and \<open>port\<close>\<close>

definition host_and_port :: "string \<Rightarrow> string \<times> string" where
  "host_and_port netloc =
     (let info = last (split_on (CHR ''@'') netloc)
      in case after_char (CHR ''['') info of
           (_, Some bracketed) \<Rightarrow>
             (case after_char (CHR '']'') bracketed of
                (host, rest) \<Rightarrow> (host, or_else (snd (after_char (CHR '':'') (or_else rest []))) []))
         | (_, None) \<Rightarrow> (case after_char (CHR '':'') info of (host, port) \<Rightarrow> (host, or_else port [])))"

definition url_port :: "string \<Rightarrow> string res" where
  "url_port port =
     (if port = [] then Inr []
      else requireAll
        [(list_all is_digit port, ValueError (''Port could not be cast to integer value as '' @ repr_str port)),
         (read_digits port \<le> 65535, ValueError ''Port out of range 0-65535'')]
        (Inr (if read_digits port = 0 then [] else CHR '':'' # show_nat (read_digits port))))"

section \<open>The identity of a remote\<close>

text \<open>\<open>(?:[^@/\s]+@)?([^:/\s]+):(.+)\<close>, matched in full\<close>

definition scp_tail :: "string \<Rightarrow> (string \<times> string) option" where
  "scp_tail t =
     (let host = takeWhile (\<lambda>c. c \<noteq> CHR '':'' \<and> c \<noteq> CHR ''/'' \<and> \<not> py_space c) t
      in case drop (length host) t of
           c # rest \<Rightarrow> if c = CHR '':'' \<and> host \<noteq> [] \<and> rest \<noteq> [] \<and> CHR 0x0A \<notin> set rest then Some (host, rest) else None
         | [] \<Rightarrow> None)"

definition scp_remote :: "string \<Rightarrow> (string \<times> string) option" where
  "scp_remote t =
     (let user = takeWhile (\<lambda>c. c \<noteq> CHR ''@'' \<and> c \<noteq> CHR ''/'' \<and> \<not> py_space c) t
      in case (user, drop (length user) t) of
           (_ # _, c # rest) \<Rightarrow>
             if c \<noteq> CHR ''@'' then scp_tail t
             else (case scp_tail rest of None \<Rightarrow> scp_tail t | Some found \<Rightarrow> Some found)
         | _ \<Rightarrow> scp_tail t)"

definition drive_remote :: "string \<Rightarrow> bool" where
  "drive_remote t \<longleftrightarrow> (case t of c # d # e # _ \<Rightarrow> is_letter c \<and> d = CHR '':'' \<and> (e = CHR 0x5C \<or> e = CHR ''/'') | _ \<Rightarrow> False)"

definition without_git :: "string \<Rightarrow> string" where
  "without_git path = (if ends_with ''.git'' (casefold path) then take (length path - 4) path else path)"

definition strip_slashes :: "string \<Rightarrow> string" where
  "strip_slashes s = rev (dropWhile (\<lambda>c. c = CHR ''/'') (rev s))"

definition local_remote :: "'w environment \<Rightarrow> string \<Rightarrow> ('w, string) call" where
  "local_remote E p =
     and_then (en_local E p) (\<lambda>path. give (if en_os_name E = ''nt'' then casefold path else path))"

definition url_remote :: "url \<Rightarrow> failure + string" where
  "url_remote u =
     (case host_and_port (ur_netloc u) of (host, port) \<Rightarrow>
        requireE (host \<noteq> []) (Raised (AdmissionError ''repository remote URL has no host''))
          (bindE (map_sum Raised id (url_port port)) (\<lambda>p.
           let path = without_git (strip_slashes (replace_char (CHR 0x5C) (CHR ''/'') (ur_path u)));
               rooted = (if path \<noteq> [] \<and> hd path \<noteq> CHR ''/'' then CHR ''/'' # path else path)
           in Inr (''https://'' @ casefold host @ p @ rooted))))"

definition normalize_remote_url :: "'w environment \<Rightarrow> string \<Rightarrow> ('w, string) call" where
  "normalize_remote_url E raw =
     (let v = py_strip raw
      in demand (v \<noteq> []) (Raised (AdmissionError ''repository remote is empty''))
        (case (if contains ''://'' v \<or> drive_remote v then None else scp_remote v) of
           Some (host, path) \<Rightarrow>
             let slashed = replace_char (CHR 0x5C) (CHR ''/'') path;
                 plain = without_git (CHR ''/'' # strip_slashes (dropWhile (\<lambda>c. c = CHR ''/'') slashed))
             in give (strip_slashes (''https://'' @ casefold host @ plain))
         | None \<Rightarrow>
             and_then (checked (urlsplit E v)) (\<lambda>u.
             if ur_scheme u = [] then local_remote E v
             else if ur_scheme u = ''file'' then local_remote E (ur_path u)
             else pure_res (url_remote u))))"

section \<open>The content of a source\<close>

text \<open>\<open>splitlines(keepends=True)\<close>\<close>

fun keep_lines :: "string \<Rightarrow> string \<Rightarrow> string list" where
  "keep_lines w [] = (if w = [] then [] else [w])"
| "keep_lines w (c # cs) =
     (if c \<in> LINE_ENDS then (w @ [c]) # keep_lines [] cs
      else if c = CHR 0x0D then
        (case cs of
           d # ds \<Rightarrow> if d = CHR 0x0A then (w @ [c, d]) # keep_lines [] ds else (w @ [c]) # keep_lines [] cs
         | [] \<Rightarrow> [w @ [c]])
      else keep_lines (w @ [c]) cs)"

definition fence_marker :: "string \<Rightarrow> string option" where
  "fence_marker s =
     (let ticks = takeWhile (\<lambda>c. c = CHR 0x60) s; tildes = takeWhile (\<lambda>c. c = CHR ''~'') s
      in if 3 \<le> length ticks then Some ticks else if 3 \<le> length tildes then Some tildes else None)"

definition blank :: "char \<Rightarrow> bool" where
  "blank c \<longleftrightarrow> c = CHR '' '' \<or> c = CHR 0x09"

text \<open>\<open>re.sub(r"[ \t]+#+$", "", title)\<close>\<close>

definition without_closing :: "string \<Rightarrow> string" where
  "without_closing t =
     (let r = dropWhile (\<lambda>c. c = CHR ''#'') (rev t)
      in if length r < length t \<and> r \<noteq> [] \<and> blank (hd r) then rev (dropWhile blank r) else t)"

text \<open>\<open>^ {0,3}(#{1,6})[ \t]+(.+?)\s*$\<close>: the level and the title.\<close>

definition heading_of :: "string \<Rightarrow> (nat \<times> string) option" where
  "heading_of line =
     (let r = dropWhile (\<lambda>c. c = CHR '' '') line; indent = length line - length r;
          q = dropWhile (\<lambda>c. c = CHR ''#'') r; level = length r - length q;
          rest = dropWhile blank q; gap = length q - length rest;
          title = py_rstrip rest
      in if 3 < indent \<or> level = 0 \<or> 6 < level \<or> gap = 0 then None
         else if title \<noteq> [] then Some (level, py_strip (without_closing title))
         else if 2 \<le> gap \<or> rest \<noteq> [] \<and> hd rest \<noteq> CHR 0x0A then Some (level, [])
         else None)"

fun headings :: "nat \<Rightarrow> string option \<Rightarrow> string list \<Rightarrow> (nat \<times> nat \<times> string) list" where
  "headings i fence [] = []"
| "headings i fence (line # lines) =
     (case fence_marker (dropWhile py_space line) of
        Some token \<Rightarrow>
          headings (Suc i) (case fence of None \<Rightarrow> Some token
            | Some f \<Rightarrow> if hd token = hd f \<and> length f \<le> length token then None else Some f) lines
      | None \<Rightarrow>
          if fence \<noteq> None then headings (Suc i) fence lines
          else (case heading_of line of None \<Rightarrow> [] | Some (level, title) \<Rightarrow> [(i, level, title)])
             @ headings (Suc i) fence lines)"

definition section_lines :: "string list \<Rightarrow> pyval \<Rightarrow> string list option" where
  "section_lines lines part =
     (let hs = headings 0 None lines
      in case filter (\<lambda>(_, _, title). py_eq (PStr title) part) hs of
           [(start, level, _)] \<Rightarrow>
             let finish = (case find (\<lambda>(i, depth, _). start < i \<and> depth \<le> level) hs of
                   Some (i, _) \<Rightarrow> i | None \<Rightarrow> length lines)
             in Some (take (finish - start) (drop start lines))
         | _ \<Rightarrow> None)"

fun unreadable :: "failure \<Rightarrow> bool" where
  "unreadable (OSError c m) = True"
| "unreadable (Raised (ValueError m)) = True"
| "unreadable _ = False"

definition acceptance_source_content :: "'w environment \<Rightarrow> string \<Rightarrow> pyval \<Rightarrow> ('w, string) call" where
  "acceptance_source_content E root source =
     and_then (en_resolve E root) (\<lambda>repository.
     and_then (checked (get_str source ''path'' [])) (\<lambda>raw.
     and_then (checked (normalize_allowed_path raw)) (\<lambda>relative.
     and_then (catch_when unreadable (en_read_under E repository relative)
       (\<lambda>_. fail (Raised (SourceDriftError (''acceptance source is unavailable: '' @ relative))))) (\<lambda>data.
     and_then (checked (py_get source ''section'' PNone)) (\<lambda>part.
     if part = PNone then give data
     else
       demand (en_utf8 E data) (Raised (SourceDriftError (''acceptance section requires UTF-8: '' @ relative)))
         (case section_lines (keep_lines [] data) part of
            None \<Rightarrow> fail (Raised (SourceDriftError
              (''acceptance section is missing or ambiguous: '' @ relative @ '' / '' @ py_str part)))
          | Some lines \<Rightarrow> give (concat lines)))))))"

section \<open>Sources of acceptance scenarios\<close>

text \<open>\<open>verify_acceptance_sources\<close>: the state of the loop is the table of identities and the list of
  what was verified.\<close>

type_synonym source_state = "(pyval \<times> pyval \<times> pyval \<times> string) list \<times> pyval list"

definition place_of :: "pyval \<Rightarrow> pyval \<Rightarrow> pyval \<Rightarrow> string res" where
  "place_of node scenario source =
     bindE (item_str node ''node_id'') (\<lambda>n.
     bindE (item_str scenario ''scenario_id'') (\<lambda>s.
     bindE (item_str source ''path'') (\<lambda>p. Inr (n @ ''/'' @ s @ '': '' @ p))))"

definition verify_source ::
  "'w environment \<Rightarrow> pyval \<Rightarrow> pyval \<Rightarrow> pyval \<Rightarrow> pyval \<Rightarrow> source_state \<Rightarrow> ('w, source_state) call" where
  "verify_source E spec node scenario source = (\<lambda>(identities, verified).
     and_then (checked (item_str spec ''worktree'')) (\<lambda>worktree.
     and_then (catch_when (\<lambda>exc. is_admission_error exc \<or> is_os_error exc) 
       (and_then (acceptance_source_content E worktree source) (\<lambda>data. give (bytes_digest data)))
       (\<lambda>exc. and_then (checked (place_of node scenario source)) (\<lambda>place.
          fail (Raised (SourceDriftError (''acceptance source unavailable for '' @ place @ '': '' @ failure_text exc)))))) (\<lambda>digest.
     and_then (checked (py_item source ''sha256'')) (\<lambda>expected.
     and_then (checked (py_item source ''requirement_id'')) (\<lambda>requirement.
     and_then (checked (py_item source ''path'')) (\<lambda>path.
     and_then (checked (py_get source ''section'' PNone)) (\<lambda>part.
     and_then (checked (py_item node ''node_id'')) (\<lambda>node_id.
     and_then (checked (py_item scenario ''scenario_id'')) (\<lambda>scenario_id.
     if \<not> py_eq (PStr digest) expected then
       fail (Raised (SourceDriftError (''acceptance source changed for '' @ py_str node_id @ ''/'' @ py_str scenario_id
         @ '': '' @ py_str requirement @ '' ('' @ py_str path @ '')'')))
     else
       let entry = PDict [(''node_id'', node_id), (''scenario_id'', scenario_id), (''requirement_id'', requirement),
             (''path'', path), (''section'', part), (''sha256'', PStr digest)]
       in case find (\<lambda>(r, _). py_eq r requirement) identities of
            None \<Rightarrow> give (identities @ [(requirement, path, part, digest)], verified @ [entry])
          | Some (_, p, s, d) \<Rightarrow>
              demand (py_eq p path \<and> py_eq s part \<and> d = digest)
                (Raised (SourceDriftError (''conflicting source identities for '' @ py_str requirement)))
                (give (identities, verified @ [entry])))))))))))"

definition verify_acceptance_sources ::
  "'w environment \<Rightarrow> pyval \<Rightarrow> string option \<Rightarrow> ('w, pyval list) call" where
  "verify_acceptance_sources E spec node_id =
     and_then (checked (get_tuple spec ''nodes'')) (\<lambda>nodes.
     and_then (thread (\<lambda>node st.
        and_then (checked (py_get node ''node_id'' PNone)) (\<lambda>i.
        if node_id \<noteq> None \<and> \<not> py_eq i (py_opt_str node_id) then give st
        else
          and_then (checked (get_tuple node ''acceptance_scenarios'')) (\<lambda>scenarios.
          thread (\<lambda>scenario st.
            and_then (checked (bindE (py_item scenario ''sources'') py_iter)) (\<lambda>sources.
            thread (verify_source E spec node scenario) sources st)) scenarios st))) nodes ([], []))
     (\<lambda>(_, verified). give verified))"

end
