(* ===== verification/Evidence_Collection.thy ===== *)
theory Evidence_Collection
  imports Admission_Sources "HOL-Library.Product_Lexorder"
begin

text \<open>
  evidence.py: the execution of an approved command against an exact candidate, the check of a
  stored receipt against the current inputs, the exact diff of a repository, the checks and
  reviews of a hosted repository, and the preflight of a publication.  A timeout is a whole number
  of seconds, as the model of the specification has it; command evidence is the document of its
  dataclass.
\<close>

section \<open>Commands\<close>

record trusted_command =
  tc_executable :: string
  tc_arguments :: "string list"
  tc_working_directory :: string
  tc_environment_allowlist :: "string list"
  tc_environment :: "(string \<times> string) list"
  tc_timeout_seconds :: int
  tc_output_limit_bytes :: int
  tc_candidate_head :: string
  tc_expected_working_tree :: string
  tc_expected_status_sha256 :: "string option"
  tc_required_exit_code :: int
  tc_execution_boundary :: string

definition DEFAULT_ENV_ALLOWLIST :: "string set" where
  "DEFAULT_ENV_ALLOWLIST =
     {''CI'', ''COLORTERM'', ''COMSPEC'', ''GIT_CONFIG_GLOBAL'', ''GIT_CONFIG_NOSYSTEM'', ''LANG'', ''LC_ALL'',
      ''LOCALAPPDATA'', ''NODE_OPTIONS'', ''NUMBER_OF_PROCESSORS'', ''OS'', ''PATH'', ''PATHEXT'', ''PNPM_HOME'',
      ''POWERSHELL_DISTRIBUTION_CHANNEL'', ''PROGRAMDATA'', ''PROGRAMFILES'', ''PROGRAMFILES(X86)'',
      ''PYTHONIOENCODING'', ''PYTHONPATH'', ''SYSTEMDRIVE'', ''SYSTEMROOT'', ''TEMP'', ''TERM'', ''TMP'',
      ''USERPROFILE'', ''WINDIR''}"

definition exact_sha :: "string \<Rightarrow> bool" where
  "exact_sha s \<longleftrightarrow> length s = 40 \<and> list_all hex_lower s"

definition require_sha :: "string \<Rightarrow> string \<Rightarrow> ('s, failure, string) proc" where
  "require_sha v label =
     demand (exact_sha (casefold v)) (EvidenceError (label @ '' must be one exact lowercase Git SHA''))
       (give (casefold v))"

definition normalized_status :: "'w environment \<Rightarrow> string \<Rightarrow> ('w, string) call" where
  "normalized_status E root = run_git E root [''status'', ''--porcelain=v2'', ''--untracked-files=all'']"

text \<open>\<open>_resolve_executable\<close>\<close>

definition resolve_executable :: "'w environment \<Rightarrow> string \<Rightarrow> string \<Rightarrow> ('w, string) call" where
  "resolve_executable E v cwd =
     (let raw = py_strip v
      in demand (raw \<noteq> [] \<and> CHR 0x00 \<notin> set raw) (EvidenceError ''validation executable is empty or malformed'')
        (and_then (en_locate E raw cwd) (\<lambda>found.
         case found of
           None \<Rightarrow> fail (EvidenceError (''validation executable is not available: '' @ raw))
         | Some resolved \<Rightarrow>
             and_then (en_is_file E resolved) (\<lambda>regular.
             demand regular (EvidenceError (''validation executable is not a regular file: '' @ resolved))
               (give resolved)))))"

section \<open>The environment of a command\<close>

text \<open>\<open>d[k] = v\<close> on a table of strings\<close>

fun put_text :: "string \<Rightarrow> string \<Rightarrow> (string \<times> string) list \<Rightarrow> (string \<times> string) list" where
  "put_text k v [] = [(k, v)]"
| "put_text k v ((j, w) # d) = (if j = k then (k, v) # d else (j, w) # put_text k v d)"

definition sorted_set :: "string list \<Rightarrow> string list" where
  "sorted_set xs = sort (remdups xs)"

definition environment_document :: "(string \<times> string) list \<Rightarrow> pyval" where
  "environment_document d = PDict (map (\<lambda>(k, v). (k, PStr v)) d)"

definition command_environment ::
  "'w environment \<Rightarrow> trusted_command \<Rightarrow> ('s, failure, (string \<times> string) list) proc" where
  "command_environment E c =
     (let requested = tc_environment_allowlist c
      in demand (set requested \<subseteq> DEFAULT_ENV_ALLOWLIST)
           (EvidenceError (''validation environment names are not allowlisted: ''
              @ py_repr (PList (map PStr (sorted_set (filter (\<lambda>n. n \<notin> DEFAULT_ENV_ALLOWLIST) requested))))))
        (demand (set (map fst (tc_environment c)) \<subseteq> set requested)
           (EvidenceError ''explicit validation environment contains a non-allowlisted name'')
        (let inherited = concat (map (\<lambda>n. case map_of (en_environ E) n of None \<Rightarrow> [] | Some v \<Rightarrow> [(n, v)])
               (sorted_set requested));
             explicit = foldl (\<lambda>d (k, v). put_text k v d) inherited (tc_environment c)
         in give (put_text ''PYTHONIOENCODING'' ''utf-8'' explicit))))"

definition host_variable ::
  "'w environment \<Rightarrow> string \<Rightarrow> (string \<times> string) list \<Rightarrow> ('w, (string \<times> string) list) call" where
  "host_variable E name d =
     (let missing = EvidenceError (''Windows read-only validation requires the host '' @ name)
      in case map_of (en_environ E) name of
           Some (c # cs) \<Rightarrow>
             and_then (en_is_dir E (c # cs)) (\<lambda>present.
             demand present missing
             (demand (map_of d name \<in> {None, Some (c # cs)})
                (EvidenceError (''Windows read-only validation cannot override the host '' @ name))
                (give (put_text name (c # cs) d))))
         | _ \<Rightarrow> fail missing)"

definition effective_command_environment ::
  "'w environment \<Rightarrow> trusted_command \<Rightarrow> ('w, (string \<times> string) list) call" where
  "effective_command_environment E c =
     and_then (command_environment E c) (\<lambda>d.
     and_then (if en_os_name E = ''nt'' \<and> tc_execution_boundary c = ''READ_ONLY''
               then thread (host_variable E) [''USERPROFILE'', ''TEMP'', ''TMP''] d else give d) (\<lambda>d.
     give (put_text ''PYTHONDONTWRITEBYTECODE'' ''1'' d)))"

definition assert_worktree_condition :: "string \<Rightarrow> string \<Rightarrow> string option \<Rightarrow> ('s, failure, string) proc" where
  "assert_worktree_condition condition status_text expected_digest =
     (let digest = sha256_hex status_text
      in if condition = ''CLEAN'' then
           demand (status_text = []) (ValidationFailure ''validation requires a clean exact candidate worktree'' None)
             (give digest)
         else if condition = ''EXACT_STATUS'' then
           demand (nonempty_opt expected_digest \<and> expected_digest = Some digest)
             (ValidationFailure ''validation worktree status differs from the admitted digest'' None) (give digest)
         else fail (EvidenceError ''expected_working_tree must be CLEAN or EXACT_STATUS''))"

text \<open>The arguments of the process, and the executable that bounds it.\<close>

definition validation_boundary_command ::
  "'w environment \<Rightarrow> string \<Rightarrow> string list \<Rightarrow> string \<Rightarrow> string \<Rightarrow> ('w, string list \<times> string option) call" where
  "validation_boundary_command E executable arguments cwd boundary =
     (if boundary = ''PROCESS'' then give (executable # arguments, None)
      else if boundary \<noteq> ''READ_ONLY'' then fail (EvidenceError ''unknown validation execution boundary'')
      else if en_os_name E = ''nt'' then
        and_then (resolve_executable E ''codex'' cwd) (\<lambda>launcher.
        give ([launcher, ''sandbox'', ''-P'', '':read-only'', ''-C'', cwd, ''--'', executable] @ arguments, Some launcher))
      else if en_platform E = ''darwin'' then
        and_then (resolve_executable E ''sandbox-exec'' cwd) (\<lambda>launcher.
        give ([launcher, ''-p'', ''(version 1)(allow default)(deny file-write*)'', executable] @ arguments, Some launcher))
      else if starts_with ''linux'' (en_platform E) then
        and_then (resolve_executable E ''bwrap'' cwd) (\<lambda>launcher.
        give ([launcher, ''--ro-bind'', ''/'', ''/'', ''--proc'', ''/proc'', ''--dev'', ''/dev'', ''--unshare-pid'',
               ''--die-with-parent'', ''--chdir'', cwd, ''--'', executable] @ arguments, Some launcher))
      else fail (EvidenceError ''read-only validation is unavailable on this platform''))"

section \<open>Executing a command\<close>

definition with_digest :: "pydict \<Rightarrow> pydict" where
  "with_digest body = body @ [(''evidence_sha256'', PStr (canonical_json_digest (PDict body)))]"

definition file_digest_of :: "'w environment \<Rightarrow> string option \<Rightarrow> ('w, string option) call" where
  "file_digest_of E p =
     (case p of None \<Rightarrow> give None | Some f \<Rightarrow> and_then (en_file_sha256 E f) (\<lambda>d. give (Some d)))"

text \<open>What is known before the process starts.\<close>

record command_inputs =
  ci_cwd :: string
  ci_root :: string
  ci_status_before :: string
  ci_executable :: string
  ci_executable_sha256 :: string
  ci_argv :: "string list"
  ci_boundary :: "string option"
  ci_boundary_sha256 :: "string option"
  ci_environment :: "(string \<times> string) list"

definition prepare_command :: "'w environment \<Rightarrow> trusted_command \<Rightarrow> ('w, command_inputs) call" where
  "prepare_command E c =
     and_then (en_expand E (tc_working_directory c)) (\<lambda>cwd.
     and_then (and_then (run_git E cwd [''rev-parse'', ''--show-toplevel'']) (en_resolve E)) (\<lambda>root.
     demand (en_normcase E root = en_normcase E cwd)
       (EvidenceError ''validation working directory must be the exact Git root'')
    (and_then (run_git E root [''rev-parse'', ''HEAD'']) (\<lambda>head_before.
     demand (casefold head_before = tc_candidate_head c)
       (HeadRaceError ''candidate head changed before validation execution'')
    (and_then (normalized_status E root) (\<lambda>status.
     and_then (assert_worktree_condition (tc_expected_working_tree c) status (tc_expected_status_sha256 c)) (\<lambda>before.
     and_then (resolve_executable E (tc_executable c) cwd) (\<lambda>executable.
     and_then (validation_boundary_command E executable (tc_arguments c) cwd (tc_execution_boundary c)) (\<lambda>(argv, boundary).
     and_then (effective_command_environment E c) (\<lambda>d.
     and_then (en_file_sha256 E executable) (\<lambda>executable_sha256.
     and_then (file_digest_of E boundary) (\<lambda>boundary_sha256.
     give \<lparr>ci_cwd = cwd, ci_root = root, ci_status_before = before, ci_executable = executable,
           ci_executable_sha256 = executable_sha256, ci_argv = argv, ci_boundary = boundary,
           ci_boundary_sha256 = boundary_sha256, ci_environment = d\<rparr>))))))))))))"

definition command_body ::
  "trusted_command \<Rightarrow> command_inputs \<Rightarrow> measured \<Rightarrow> string \<Rightarrow> string \<Rightarrow> bool \<Rightarrow> pydict" where
  "command_body c i r head_after status_after passed =
     [(''protocol_version'', PStr ''ccos-validation-execution-v1''),
      (''executable'', PStr (ci_executable i)),
      (''executable_sha256'', PStr (ci_executable_sha256 i)),
      (''arguments'', PTuple (map PStr (tc_arguments c))),
      (''working_directory'', PStr (ci_cwd i)),
      (''environment_names'', PTuple (map PStr (sort (map fst (ci_environment i))))),
      (''environment_sha256'', PStr (canonical_json_digest (environment_document (ci_environment i)))),
      (''timeout_seconds'', PInt (tc_timeout_seconds c)),
      (''output_limit_bytes'', PInt (tc_output_limit_bytes c)),
      (''candidate_head'', PStr (tc_candidate_head c)),
      (''head_after'', PStr head_after),
      (''status_before_sha256'', PStr (ci_status_before i)),
      (''status_after_sha256'', PStr status_after),
      (''exit_code'', PInt (ms_exit_code r)),
      (''timed_out'', PBool (ms_timed_out r)),
      (''output_limited'', PBool (ms_output_limited r)),
      (''stdout_sha256'', PStr (ms_stdout_sha256 r)),
      (''stderr_sha256'', PStr (ms_stderr_sha256 r)),
      (''stdout'', PStr (ms_stdout r)),
      (''stderr'', PStr (ms_stderr r)),
      (''required_exit_code'', PInt (tc_required_exit_code c)),
      (''passed'', PBool passed),
      (''duration_ms'', PInt (ms_duration_ms r)),
      (''execution_boundary'', PStr (tc_execution_boundary c)),
      (''boundary_executable'', py_opt_str (ci_boundary i)),
      (''boundary_executable_sha256'', py_opt_str (ci_boundary_sha256 i))]"

definition failure_reason :: "trusted_command \<Rightarrow> measured \<Rightarrow> string" where
  "failure_reason c r =
     (if ms_timed_out r then ''timeout''
      else if ms_output_limited r then ''output limit''
      else ''exit '' @ show_int (ms_exit_code r) @ '', required '' @ show_int (tc_required_exit_code c))"

definition execute_trusted_command :: "'w environment \<Rightarrow> trusted_command \<Rightarrow> ('w, pydict) call" where
  "execute_trusted_command E c =
     demand (0 < tc_timeout_seconds c \<and> tc_timeout_seconds c \<le> 86400)
       (EvidenceError ''validation timeout must be in (0, 86400]'')
    (demand (0 < tc_output_limit_bytes c \<and> tc_output_limit_bytes c \<le> 100 * 1024 * 1024)
       (EvidenceError ''validation output limit must be in (0, 100 MiB]'')
    (and_then (prepare_command E c) (\<lambda>i.
     and_then (en_measure E (ci_argv i) (ci_cwd i) (ci_environment i) (tc_timeout_seconds c)
        (tc_output_limit_bytes c)) (\<lambda>r.
     and_then (run_git E (ci_root i) [''rev-parse'', ''HEAD'']) (\<lambda>observed.
     and_then (normalized_status E (ci_root i)) (\<lambda>status.
     and_then (assert_worktree_condition (tc_expected_working_tree c) status (tc_expected_status_sha256 c)) (\<lambda>after.
     demand (casefold observed = tc_candidate_head c)
       (HeadRaceError ''candidate head changed during validation execution'')
    (and_then (en_file_sha256 E (ci_executable i)) (\<lambda>executable_sha256.
     and_then (if executable_sha256 = ci_executable_sha256 i then file_digest_of E (ci_boundary i)
               else give None) (\<lambda>boundary_sha256.
     demand (executable_sha256 = ci_executable_sha256 i \<and> boundary_sha256 = ci_boundary_sha256 i)
       (EvidenceError ''validation executable or boundary changed during execution'')
    (let passed = (\<not> ms_timed_out r \<and> \<not> ms_output_limited r \<and> ms_exit_code r = tc_required_exit_code c
            \<and> ci_status_before i = after);
         evidence = with_digest (command_body c i r (casefold observed) after passed)
     in demand passed
          (ValidationFailure (''trusted validation failed ('' @ failure_reason c r @ ''); evidence=''
             @ py_str (dict_get evidence ''evidence_sha256'' PNone)) (Some evidence))
          (give evidence))))))))))))"

section \<open>Checking a stored receipt\<close>

text \<open>The fields of \<open>CommandEvidence\<close>; the last four have the default \<open>None\<close> or \<open>"PROCESS"\<close>.\<close>

definition evidence_required_fields :: "string list" where
  "evidence_required_fields =
     [''protocol_version'', ''executable'', ''executable_sha256'', ''arguments'', ''working_directory'',
      ''environment_names'', ''timeout_seconds'', ''output_limit_bytes'', ''candidate_head'', ''head_after'',
      ''status_before_sha256'', ''status_after_sha256'', ''exit_code'', ''timed_out'', ''output_limited'',
      ''stdout_sha256'', ''stderr_sha256'', ''stdout'', ''stderr'', ''required_exit_code'', ''passed'',
      ''duration_ms'', ''evidence_sha256'']"

definition evidence_defaults :: pydict where
  "evidence_defaults =
     [(''execution_boundary'', PStr ''PROCESS''), (''boundary_executable'', PNone),
      (''boundary_executable_sha256'', PNone), (''environment_sha256'', PNone)]"

definition command_evidence :: "pydict \<Rightarrow> pydict res" where
  "command_evidence d =
     requireE (set evidence_required_fields \<subseteq> set (map fst d)
         \<and> set (map fst d) \<subseteq> set evidence_required_fields \<union> set (map fst evidence_defaults))
       (TypeError ''CommandEvidence arguments differ from its fields'')
       (Inr (map (\<lambda>k. (k, dict_get d k PNone)) evidence_required_fields
         @ map (\<lambda>(k, v). (k, dict_get d k v)) evidence_defaults))"

definition check_receipt_field :: "pydict \<Rightarrow> string \<times> pyval \<Rightarrow> ('s, failure, unit) proc" where
  "check_receipt_field payload = (\<lambda>(name, expected).
     and_then (checked (py_item (PDict payload) name)) (\<lambda>stored.
     and_then (case expected of
         PTuple _ \<Rightarrow> checked (bindE (py_iter stored) (\<lambda>vs. Inr (PTuple vs)))
       | _ \<Rightarrow> give stored) (\<lambda>actual.
     demand (py_eq actual expected)
       (EvidenceError (''validation receipt '' @ name @ '' differs from current command inputs'')) (give ()))))"

definition current_inputs ::
  "trusted_command \<Rightarrow> string \<Rightarrow> string \<Rightarrow> string \<Rightarrow> string option \<Rightarrow> string option
    \<Rightarrow> (string \<times> string) list \<Rightarrow> pydict" where
  "current_inputs c cwd executable executable_sha256 boundary boundary_sha256 d =
     [(''executable'', PStr executable),
      (''executable_sha256'', PStr executable_sha256),
      (''arguments'', PTuple (map PStr (tc_arguments c))),
      (''working_directory'', PStr cwd),
      (''environment_names'', PTuple (map PStr (sort (map fst d)))),
      (''environment_sha256'', PStr (canonical_json_digest (environment_document d))),
      (''timeout_seconds'', PInt (tc_timeout_seconds c)),
      (''output_limit_bytes'', PInt (tc_output_limit_bytes c)),
      (''candidate_head'', PStr (tc_candidate_head c)),
      (''head_after'', PStr (tc_candidate_head c)),
      (''required_exit_code'', PInt (tc_required_exit_code c)),
      (''execution_boundary'', PStr (tc_execution_boundary c)),
      (''boundary_executable'', py_opt_str boundary),
      (''boundary_executable_sha256'', py_opt_str boundary_sha256)]"

definition expected_status :: "trusted_command \<Rightarrow> string option" where
  "expected_status c =
     (if tc_expected_working_tree c = ''CLEAN'' then Some (sha256_hex []) else tc_expected_status_sha256 c)"

definition receipt_passing :: "trusted_command \<Rightarrow> pydict \<Rightarrow> bool" where
  "receipt_passing c saved \<longleftrightarrow>
     dict_get saved ''protocol_version'' PNone = PStr ''ccos-validation-execution-v1''
     \<and> dict_get saved ''passed'' PNone = PBool True
     \<and> dict_get saved ''timed_out'' PNone = PBool False
     \<and> dict_get saved ''output_limited'' PNone = PBool False
     \<and> py_eq (dict_get saved ''exit_code'' PNone) (PInt (tc_required_exit_code c))"

definition check_receipt :: "'w environment \<Rightarrow> trusted_command \<Rightarrow> pydict \<Rightarrow> ('w, pydict) call" where
  "check_receipt E c receipt =
     and_then (checked (command_evidence receipt)) (\<lambda>saved.
     let payload = dict_remove ''evidence_sha256'' saved
     in demand (py_eq (dict_get saved ''evidence_sha256'' PNone) (PStr (canonical_json_digest (PDict payload))))
          (EvidenceError ''validation receipt digest differs'')
       (demand (receipt_passing c saved) (EvidenceError ''validation receipt is not a passing measured result'')
       (and_then (en_expand E (tc_working_directory c)) (\<lambda>cwd.
        and_then (resolve_executable E (tc_executable c) cwd) (\<lambda>executable.
        and_then (validation_boundary_command E executable (tc_arguments c) cwd (tc_execution_boundary c)) (\<lambda>(_, boundary).
        and_then (effective_command_environment E c) (\<lambda>d.
        and_then (en_file_sha256 E executable) (\<lambda>executable_sha256.
        and_then (file_digest_of E boundary) (\<lambda>boundary_sha256.
        and_then (each (check_receipt_field payload)
          (current_inputs c cwd executable executable_sha256 boundary boundary_sha256 d)) (\<lambda>_.
        demand (tc_expected_working_tree c \<in> {''CLEAN'', ''EXACT_STATUS''} \<and> nonempty_opt (expected_status c))
          (EvidenceError ''validation worktree condition is unavailable'')
       (demand (dict_get saved ''status_before_sha256'' PNone = py_opt_str (expected_status c)
            \<and> dict_get saved ''status_after_sha256'' PNone = py_opt_str (expected_status c))
          (EvidenceError ''validation receipt worktree condition differs'')
          (give saved))))))))))))"

fun receipt_unavailable :: "failure \<Rightarrow> bool" where
  "receipt_unavailable (Raised (TypeError m)) = True"
| "receipt_unavailable (Raised (ValueError m)) = True"
| "receipt_unavailable (Raised (ModelValidationError m)) = True"
| "receipt_unavailable (Raised (KeyError m)) = True"
| "receipt_unavailable (OSError c m) = True"
| "receipt_unavailable _ = False"

definition verify_command_evidence :: "'w environment \<Rightarrow> trusted_command \<Rightarrow> pydict \<Rightarrow> ('w, pydict) call" where
  "verify_command_evidence E c receipt =
     catch_when receipt_unavailable (check_receipt E c receipt)
       (\<lambda>_. fail (EvidenceError ''validation receipt or current command inputs are unavailable''))"

section \<open>The exact diff of a candidate\<close>

text \<open>The records of \<open>git diff --name-status -z\<close>: a status, and one path or, for a rename or a
  copy, two.\<close>

function status_entries :: "string list \<Rightarrow> string list res" where
  "status_entries [] = Inr []"
| "status_entries (status # tokens) =
     (let n = (if take 1 status \<in> {''R'', ''C''} then 2 else 1)
      in requireE (length (take n tokens) = n)
           (ValueError ''Git returned a truncated NUL-delimited name-status record'')
        (bindE (status_entries (drop n tokens)) (\<lambda>rest.
         Inr (join [CHR 0x09] (status # take n tokens) # rest))))"
  by pat_completeness auto
termination by (relation "measure length") auto

definition changed_entries :: "string \<Rightarrow> ('s, failure, string list) proc" where
  "changed_entries names =
     (case status_entries (filter (\<lambda>t. t \<noteq> []) (split_on (CHR 0x00) names)) of
        Inl err \<Rightarrow> fail (EvidenceError (error_text err))
      | Inr entries \<Rightarrow> give entries)"

definition exact_repository_evidence :: "'w environment \<Rightarrow> string \<Rightarrow> string \<Rightarrow> string \<Rightarrow> ('w, pydict) call" where
  "exact_repository_evidence E worktree base_sha candidate_head =
     and_then (en_expand E worktree) (\<lambda>repo.
     and_then (require_sha base_sha ''base SHA'') (\<lambda>base.
     and_then (require_sha candidate_head ''candidate head'') (\<lambda>head.
     and_then (run_git E repo [''rev-parse'', ''HEAD'']) (\<lambda>observed.
     demand (casefold observed = head) (HeadRaceError ''repository HEAD differs from the frozen candidate'')
    (and_then (run_git E repo [''cat-file'', ''-e'', base @ ''^{commit}'']) (\<lambda>_.
     and_then (run_git E repo [''cat-file'', ''-e'', head @ ''^{commit}'']) (\<lambda>_.
     and_then (run_git E repo [''rev-parse'', head @ ''^{tree}'']) (\<lambda>tree.
     and_then (en_run E [''git'', ''diff'', ''--binary'', ''--no-ext-diff'', base, head, ''--''] repo) (\<lambda>diff.
     demand (cp_returncode diff = 0)
       (EvidenceError (''cannot collect exact diff: '' @ take 1000 (cp_stderr diff)))
    (and_then (run_git E repo [''diff'', ''--name-status'', ''-z'', base, head, ''--'']) (\<lambda>names.
     and_then (changed_entries names) (\<lambda>changed.
     and_then (run_git E repo [''rev-parse'', ''HEAD'']) (\<lambda>after.
     demand (casefold after = head) (HeadRaceError ''repository HEAD changed while freezing exact diff evidence'')
    (and_then (normalized_status E repo) (\<lambda>status.
     give (with_digest
       [(''protocol_version'', PStr ''ccos-repository-evidence-v1''),
        (''root'', PStr repo),
        (''base_sha'', PStr base),
        (''head_sha'', PStr head),
        (''tree_sha'', PStr (casefold tree)),
        (''diff_sha256'', PStr (bytes_digest (cp_stdout diff))),
        (''diff_size'', PInt (int (length (cp_stdout diff)))),
        (''changed_entries'', PList (map PStr changed)),
        (''status_sha256'', PStr (sha256_hex status))]))))))))))))))))"

section \<open>Hosted checks and reviews\<close>

definition gh_json :: "'w environment \<Rightarrow> string \<Rightarrow> string list \<Rightarrow> ('w, pyval) call" where
  "gh_json E root args =
     and_then (en_which E ''gh'') (\<lambda>found.
     case found of
       Some (c # cs) \<Rightarrow>
         and_then (en_run E ((c # cs) # args) root) (\<lambda>r.
         demand (cp_returncode r = 0)
           (HostedEvidenceError (''GitHub query failed ('' @ show_int (cp_returncode r) @ ''): ''
              @ take 1000 (py_strip (cp_stderr r))))
           (case loads (cp_stdout r) of
              Inl err \<Rightarrow> fail (HostedEvidenceError ''GitHub query returned non-JSON output'')
            | Inr v \<Rightarrow> give v))
     | _ \<Rightarrow> fail (HostedEvidenceError ''GitHub CLI is unavailable''))"

definition github_api :: "string \<Rightarrow> string list" where
  "github_api path = [''api'', ''-H'', ''Accept: application/vnd.github+json'', path]"

definition check_run :: "pyval \<Rightarrow> ('s, failure, pydict) proc" where
  "check_run entry =
     (case as_mapping entry of
        None \<Rightarrow> fail (HostedEvidenceError ''GitHub check-runs response contains a non-object'')
      | Some d \<Rightarrow> give (map (\<lambda>k. (k, dict_get d k PNone))
          [''id'', ''name'', ''head_sha'', ''status'', ''conclusion'', ''details_url'', ''completed_at'']))"

text \<open>\<open>int(item["id"] or 0)\<close>\<close>

definition identifier_of :: "pydict \<Rightarrow> int res" where
  "identifier_of d = (let v = dict_get d ''id'' PNone in if py_truthy v then py_int v else Inr 0)"

definition sorted_by :: "(pydict \<Rightarrow> ('k::linorder) res) \<Rightarrow> pydict list \<Rightarrow> pydict list res" where
  "sorted_by key ds =
     bindE (mapE key ds) (\<lambda>ks. Inr (map snd (sort_key fst (zip ks ds))))"

definition check_key :: "pydict \<Rightarrow> (string \<times> int) res" where
  "check_key d = bindE (identifier_of d) (\<lambda>i. Inr (py_str (dict_get d ''name'' PNone), i))"

definition collect_hosted_checks :: "'w environment \<Rightarrow> string \<Rightarrow> string \<Rightarrow> string \<Rightarrow> ('w, pydict) call" where
  "collect_hosted_checks E root repository candidate_head =
     and_then (en_resolve E root) (\<lambda>repo.
     and_then (require_sha candidate_head ''candidate head'') (\<lambda>head.
     and_then (gh_json E repo (github_api
        (''repos/'' @ repository @ ''/commits/'' @ head @ ''/check-runs?per_page=100''))) (\<lambda>payload.
     case (case as_mapping payload of None \<Rightarrow> PNone | Some d \<Rightarrow> dict_get d ''check_runs'' PNone) of
       PList runs \<Rightarrow>
         and_then (each check_run runs) (\<lambda>checks.
         demand (list_all (\<lambda>d. py_eq (dict_get d ''head_sha'' PNone) (PStr head)) checks)
           (HeadRaceError ''hosted check evidence contains another head'')
        (and_then (checked (sorted_by check_key checks)) (\<lambda>sorted_checks.
         give (with_digest
           [(''protocol_version'', PStr ''ccos-hosted-checks-v1''),
            (''repository'', PStr repository),
            (''candidate_head'', PStr head),
            (''checks'', PList (map PDict sorted_checks))]))))
     | _ \<Rightarrow> fail (HostedEvidenceError ''GitHub check-runs response is malformed''))))"

definition review_entry :: "string \<Rightarrow> pyval \<Rightarrow> pydict list" where
  "review_entry head review =
     (case as_mapping review of
        None \<Rightarrow> []
      | Some d \<Rightarrow>
          if \<not> py_eq (dict_get d ''commit_id'' PNone) (PStr head) then []
          else
            let user = (case as_mapping (dict_get d ''user'' PNone) of None \<Rightarrow> [] | Some u \<Rightarrow> u);
                given_body = dict_get d ''body'' PNone;
                body = (if py_truthy given_body then py_str given_body else [])
            in [[(''id'', dict_get d ''id'' PNone),
                 (''reviewer'', dict_get user ''login'' PNone),
                 (''state'', dict_get d ''state'' PNone),
                 (''commit_id'', PStr head),
                 (''submitted_at'', dict_get d ''submitted_at'' PNone),
                 (''body_sha256'', PStr (sha256_hex body))]])"

definition collect_review_receipts ::
  "'w environment \<Rightarrow> string \<Rightarrow> string \<Rightarrow> int \<Rightarrow> string \<Rightarrow> ('w, pydict) call" where
  "collect_review_receipts E root repository pull_request candidate_head =
     and_then (en_resolve E root) (\<lambda>repo.
     and_then (require_sha candidate_head ''candidate head'') (\<lambda>head.
     and_then (gh_json E repo (github_api
        (''repos/'' @ repository @ ''/pulls/'' @ show_int pull_request @ ''/reviews?per_page=100''))) (\<lambda>payload.
     case payload of
       PList reviews \<Rightarrow>
         and_then (checked (sorted_by identifier_of (concat (map (review_entry head) reviews)))) (\<lambda>receipts.
         give (with_digest
           [(''protocol_version'', PStr ''ccos-review-receipts-v1''),
            (''repository'', PStr repository),
            (''pull_request'', PInt pull_request),
            (''candidate_head'', PStr head),
            (''reviews'', PList (map PDict receipts))]))
     | _ \<Rightarrow> fail (HostedEvidenceError ''GitHub reviews response is malformed''))))"

section \<open>Preflight of a publication\<close>

text \<open>\<open>{str(item.get("name")): item for item in ... if isinstance(item, Mapping)}\<close>: the last one counts.\<close>

definition checks_by_name :: "pyval list \<Rightarrow> (string \<times> pydict) list" where
  "checks_by_name items =
     concat (map (\<lambda>v. case as_mapping v of
        None \<Rightarrow> [] | Some d \<Rightarrow> [(py_str (dict_get d ''name'' PNone), d)]) (rev items))"

definition hosted_items :: "pydict option \<Rightarrow> pyval list res" where
  "hosted_items hosted =
     (case hosted of
        None \<Rightarrow> Inr []
      | Some d \<Rightarrow> if d = [] then Inr [] else py_iter (dict_get d ''checks'' (PList [])))"

definition failing_check :: "(string \<times> pydict) list \<Rightarrow> string \<Rightarrow> bool" where
  "failing_check by_name name =
     (case map_of by_name name of
        None \<Rightarrow> False
      | Some d \<Rightarrow> \<not> (dict_get d ''status'' PNone = PStr ''completed''
          \<and> dict_get d ''conclusion'' PNone = PStr ''success''))"

definition publication_preflight ::
  "'w environment \<Rightarrow> string \<Rightarrow> string \<Rightarrow> string \<Rightarrow> pydict option \<Rightarrow> string list \<Rightarrow> ('w, pydict) call" where
  "publication_preflight E root expected_remote candidate_head hosted required =
     and_then (en_resolve E root) (\<lambda>repo.
     and_then (require_sha candidate_head ''candidate head'') (\<lambda>head.
     and_then (run_git E repo [''rev-parse'', ''HEAD'']) (\<lambda>observed.
     demand (casefold observed = head) (HeadRaceError ''publication candidate head is no longer checked out'')
    (and_then (normalized_status E repo) (\<lambda>status.
     demand (status = []) (EvidenceError ''publication requires a clean exact candidate worktree'')
    (and_then (run_git E repo [''remote'', ''get-url'', ''origin'']) (\<lambda>origin.
     and_then (normalize_remote_url E origin) (\<lambda>remote.
     and_then (normalize_remote_url E expected_remote) (\<lambda>approved.
     demand (remote = approved) (EvidenceError ''publication remote differs from campaign authority'')
    (demand (required = [] \<or> hosted \<noteq> None) (HostedEvidenceError ''required hosted check evidence is missing'')
    (demand (case hosted of None \<Rightarrow> True | Some d \<Rightarrow> py_eq (dict_get d ''candidate_head'' PNone) (PStr head))
       (HeadRaceError ''hosted check evidence is not bound to the candidate head'')
    (and_then (checked (hosted_items hosted)) (\<lambda>items.
     let by_name = checks_by_name items;
         missing = filter (\<lambda>name. map_of by_name name = None) required;
         failing = filter (failing_check by_name) required
     in demand (missing = [] \<and> failing = [])
          (EvidenceError (''publication checks are not passing; missing='' @ py_repr (PList (map PStr missing))
             @ '', failing='' @ py_repr (PList (map PStr failing))))
          (give (with_digest
            [(''protocol_version'', PStr ''ccos-publication-preflight-v1''),
             (''candidate_head'', PStr head),
             (''remote'', PStr remote),
             (''required_checks'', PList (map PStr (sort required))),
             (''hosted_checks_evidence'', (case hosted of
                 None \<Rightarrow> PNone | Some d \<Rightarrow> dict_get d ''evidence_sha256'' PNone))])))))))))))))))"

end
