(* ===== verification/Worker_Host.thy ===== *)
theory Worker_Host
  imports Environment
begin

text \<open>
  The data of host.py and the interface that the supervisor uses (\<open>WorkerHost\<close> of
  supervisor.py): the lease of one actor, the guard of its paths, its terminal receipt, and the
  record \<open>worker_host\<close> of the operations of a host.  A host keeps its connections in the world.
\<close>

section \<open>Leases of actors\<close>

record actor_lease =
  al_lease_id :: string
  al_request_id :: string
  al_campaign_id :: string
  al_node_id :: string
  al_actor_id :: string
  al_role :: string
  al_worktree :: string
  al_allowed_paths :: "string list"
  al_authority_epoch :: int
  al_cancellation_epoch :: int
  al_fencing_epoch :: int
  al_candidate_head :: string
  al_payload_digest :: string

definition ROLES :: "string set" where
  "ROLES = {''IMPLEMENTER'', ''REPAIRER'', ''REVIEWER'', ''CLOSURE_REVIEWER'', ''PARENT''}"

definition READ_ONLY_ROLES :: "string set" where
  "READ_ONLY_ROLES = {''REVIEWER'', ''CLOSURE_REVIEWER'', ''PARENT''}"

text \<open>\<open>_require_id\<close> with \<open>[A-Za-z0-9][A-Za-z0-9._:-]*\<close>, and \<open>_require_epoch\<close> of an integer.\<close>

definition require_id :: "string \<Rightarrow> string \<Rightarrow> failure + string" where
  "require_id v label =
     (let t = py_strip v
      in requireE (t \<noteq> [] \<and> length t \<le> 256 \<and> alnum (hd t)
             \<and> list_all (\<lambda>c. alnum c \<or> c \<in> set ''._:-'') (tl t))
           (HostAuthorityError (label @ '' is not one stable identifier'')) (Inr t))"

definition require_epoch :: "int \<Rightarrow> string \<Rightarrow> failure + int" where
  "require_epoch v label =
     requireE (0 \<le> v) (HostAuthorityError (label @ '' must be a non-negative integer'')) (Inr v)"

definition lease_body :: "actor_lease \<Rightarrow> pydict" where
  "lease_body l =
     [(''lease_id'', PStr (al_lease_id l)), (''request_id'', PStr (al_request_id l)),
      (''campaign_id'', PStr (al_campaign_id l)), (''node_id'', PStr (al_node_id l)),
      (''actor_id'', PStr (al_actor_id l)), (''role'', PStr (al_role l)),
      (''worktree'', PStr (al_worktree l)), (''allowed_paths'', PTuple (map PStr (al_allowed_paths l))),
      (''authority_epoch'', PInt (al_authority_epoch l)),
      (''cancellation_epoch'', PInt (al_cancellation_epoch l)),
      (''fencing_epoch'', PInt (al_fencing_epoch l)), (''candidate_head'', PStr (al_candidate_head l))]"

text \<open>\<open>ActorLease.issue\<close>: the argument has the fields as the caller gives them; its digest is not
  read.\<close>

definition check_lease_roles :: "actor_lease \<Rightarrow> failure + actor_lease" where
  "check_lease_roles l =
     requireAll
       [(al_role l \<in> ROLES, HostAuthorityError ''actor role is not recognized''),
        (length (al_candidate_head l) = 40 \<and> list_all hex_lower (al_candidate_head l),
         HostAuthorityError ''candidate head must be one exact Git SHA''),
        (al_role l \<in> {''IMPLEMENTER'', ''REPAIRER''} \<longrightarrow> al_allowed_paths l \<noteq> [],
         HostAuthorityError ''write-capable actors require at least one allowed path''),
        (al_role l \<in> READ_ONLY_ROLES \<longrightarrow> al_allowed_paths l = [],
         HostAuthorityError ''parent and reviewer leases must have no writable paths'')]
       (Inr (l\<lparr>al_payload_digest := canonical_json_digest (PDict (lease_body l))\<rparr>))"

definition issue_lease :: "'w environment \<Rightarrow> actor_lease \<Rightarrow> ('w, actor_lease) call" where
  "issue_lease E l =
     and_then (pure_res (require_id (al_lease_id l) ''lease id'')) (\<lambda>lease_id.
     and_then (pure_res (require_id (al_request_id l) ''request id'')) (\<lambda>request_id.
     and_then (pure_res (require_id (al_campaign_id l) ''campaign id'')) (\<lambda>campaign_id.
     and_then (pure_res (require_id (al_node_id l) ''node id'')) (\<lambda>node_id.
     and_then (pure_res (require_id (al_actor_id l) ''actor id'')) (\<lambda>actor_id.
     and_then (en_resolve E (al_worktree l)) (\<lambda>worktree.
     and_then (checked (mapE normalize_allowed_path (al_allowed_paths l))) (\<lambda>allowed.
     and_then (pure_res (require_epoch (al_authority_epoch l) ''authority epoch'')) (\<lambda>authority.
     and_then (pure_res (require_epoch (al_cancellation_epoch l) ''cancellation epoch'')) (\<lambda>cancellation.
     and_then (pure_res (require_epoch (al_fencing_epoch l) ''fencing epoch'')) (\<lambda>fence.
     pure_res (check_lease_roles
       \<lparr>al_lease_id = lease_id, al_request_id = request_id, al_campaign_id = campaign_id,
        al_node_id = node_id, al_actor_id = actor_id, al_role = al_role l, al_worktree = worktree,
        al_allowed_paths = allowed, al_authority_epoch = authority, al_cancellation_epoch = cancellation,
        al_fencing_epoch = fence, al_candidate_head = casefold (al_candidate_head l),
        al_payload_digest = []\<rparr>)))))))))))"

section \<open>Bindings and receipts\<close>

record actor_binding =
  bn_lease :: actor_lease
  bn_native_thread_id :: string
  bn_native_source_digest :: string
  bn_bound_before_turn :: bool
  bn_turn_id :: "string option"
  bn_lease_consumed :: bool

text \<open>A \<open>TerminalReceipt\<close> is the document of its fields; they are read as the text or number that
  the class declares.\<close>

definition receipt_fields :: "string list" where
  "receipt_fields =
     [''protocol_version'', ''campaign_id'', ''node_id'', ''actor_id'', ''role'', ''lease_id'',
      ''native_thread_id'', ''native_turn_id'', ''authority_epoch'', ''cancellation_epoch'', ''fencing_epoch'',
      ''candidate_head'', ''candidate_tree'', ''turn_status'', ''output_digest'', ''action_count'',
      ''result_payload'', ''receipt_digest'']"

definition terminal_receipt :: "pydict \<Rightarrow> pydict res" where
  "terminal_receipt d =
     requireE (set (map fst d) = set receipt_fields)
       (TypeError ''TerminalReceipt arguments differ from its fields'')
       (Inr (map (\<lambda>k. (k, dict_get d k PNone)) receipt_fields))"

definition field_of :: "pydict \<Rightarrow> string \<Rightarrow> pyval" where
  "field_of d k = dict_get d k PNone"

definition text_of :: "pydict \<Rightarrow> string \<Rightarrow> string" where
  "text_of d k = py_str (dict_get d k (PStr []))"

definition is_text :: "pydict \<Rightarrow> string \<Rightarrow> string \<Rightarrow> bool" where
  "is_text d k s \<longleftrightarrow> py_eq (field_of d k) (PStr s)"

definition is_number :: "pydict \<Rightarrow> string \<Rightarrow> int \<Rightarrow> bool" where
  "is_number d k i \<longleftrightarrow> py_eq (field_of d k) (PInt i)"

section \<open>The guard of the paths\<close>

text \<open>\<open>ScopeGuard\<close>: its resolved root and its normalized patterns.  The relative path of a path is
  the one of the store's host (\<open>h_relative\<close>).\<close>

definition scope_guard :: "'w environment \<Rightarrow> string \<Rightarrow> string list \<Rightarrow> ('w, string \<times> string list) call" where
  "scope_guard E worktree allowed_paths =
     and_then (en_resolve E worktree) (\<lambda>root.
     and_then (checked (mapE normalize_allowed_path allowed_paths)) (\<lambda>allowed. give (root, allowed)))"

definition guard_relative :: "host \<Rightarrow> string \<times> string list \<Rightarrow> string \<Rightarrow> failure + string" where
  "guard_relative h g path =
     (case h_relative h (fst g) path of
        None \<Rightarrow> Inl (HostScopeError ''worker path escapes the bound worktree'')
      | Some relative \<Rightarrow>
          requireE (\<not> (relative = ''.git'' \<or> starts_with ''.git/'' relative))
            (HostScopeError ''worker cannot mutate Git administration files'')
            (map_sum Raised id (normalize_allowed_path relative)))"

definition pattern_permits :: "string \<Rightarrow> string \<Rightarrow> bool" where
  "pattern_permits relative pattern \<longleftrightarrow>
     fnmatchcase relative pattern
     \<or> list_all (\<lambda>c. \<not> wildcard c) pattern
       \<and> (relative = pattern
          \<or> starts_with (rev (dropWhile (\<lambda>c. c = CHR ''/'') (rev pattern)) @ ''/'') relative)"

definition guard_permits :: "host \<Rightarrow> string \<times> string list \<Rightarrow> string \<Rightarrow> failure + bool" where
  "guard_permits h g path =
     bindE (guard_relative h g path) (\<lambda>relative. Inr (list_ex (pattern_permits relative) (snd g)))"

definition guard_require :: "host \<Rightarrow> string \<times> string list \<Rightarrow> string \<Rightarrow> failure + string" where
  "guard_require h g path =
     bindE (guard_relative h g path) (\<lambda>relative.
     bindE (guard_permits h g relative) (\<lambda>permitted.
     requireE permitted (HostScopeError (''worker path is outside the one-use actor scope: '' @ relative))
       (Inr relative)))"

section \<open>The interface of a host\<close>

text \<open>
  \<open>create_idle_actor\<close> creates an idle native thread, calls the authority that binds it, and keeps
  the binding; \<open>wh_create\<close> is its part before that call, with the identity of the thread as the
  result, \<open>wh_keep\<close> the part after it, and \<open>wh_close\<close> the closing of the connection when the call
  raises.  \<open>collect_terminal_receipt\<close> and \<open>recover_read_only_actor\<close> are given the function that
  reads the current epochs; the latter need not be there.
\<close>

type_synonym epochs_reader = "string \<Rightarrow> string \<Rightarrow> pydict res"

record 'w worker_host =
  wh_create :: "actor_lease \<Rightarrow> ('w, pydict) call"
  wh_keep :: "actor_lease \<Rightarrow> pydict \<Rightarrow> ('w, unit) call"
  wh_close :: "actor_lease \<Rightarrow> ('w, unit) call"
  wh_turn :: "string \<Rightarrow> string \<Rightarrow> ('w, unit) call"
  wh_collect :: "string \<Rightarrow> epochs_reader \<Rightarrow> int option \<Rightarrow> ('w, pydict) call"
  wh_interrupt :: "string \<Rightarrow> ('w, unit) call"
  wh_recover :: "(string \<Rightarrow> pydict \<Rightarrow> epochs_reader \<Rightarrow> ('w, actor_binding) call) option"
  wh_process :: "int \<Rightarrow> ('w, pydict option) call"
  wh_kill :: "int \<Rightarrow> ('w, unit) call"

text \<open>\<open>terminate_verified_process_tree\<close>\<close>

definition terminate_verified :: "'w worker_host \<Rightarrow> int \<Rightarrow> pyval \<Rightarrow> ('w, bool) call" where
  "terminate_verified H pid expected_identity =
     (case as_mapping expected_identity of
        None \<Rightarrow> give False
      | Some d \<Rightarrow>
          and_then (wh_process H pid) (\<lambda>current.
          let expected = PDict [(''pid'', dict_get d ''pid'' PNone),
                (''creation_token'', PStr (text_of d ''creation_token'')),
                (''executable'', PStr (text_of d ''executable''))]
          in case current of
               None \<Rightarrow> give False
             | Some c \<Rightarrow>
                 if \<not> py_eq (PDict c) expected then give False
                 else and_then (wh_kill H pid) (\<lambda>_. give True)))"

end
