(* ===== verification/Supervisor_State.thy ===== *)
theory Supervisor_State
  imports Evidence_Collection Worker_Host Pr_Body Store_Evidence Store_Human Store_Recovery Driver_Safety
begin

text \<open>
  The state of \<open>DeterministicSupervisor\<close> and what its operations share: identifiers, events,
  deadlines, attempts, the acquisition of actors, and the ways in which a node is failed.  The
  state is the store and the world (both in the state of the effect driver), the table of the
  workers of this process, and a trace of the leases whose turn was started, each with the store
  as it was then.  An operation raises with the state that it has reached.
\<close>

section \<open>State\<close>

record worker =
  wk_lease :: actor_lease
  wk_role :: actor_role
  wk_reviewer_id :: "string option"

record 'w sup =
  sv_driver :: "'w driver"
  sv_workers :: "(string \<times> worker) list"
  sv_turns :: "(string \<times> store) list"

type_synonym ('w, 'a) op = "('w sup, failure, 'a) proc"

text \<open>What the constructor of the supervisor is given.\<close>

record 'w supervisor =
  su_host :: host
  su_env :: "'w environment"
  su_native :: "'w worker_host"
  su_backend :: "'w backend option"
  su_collector :: "string \<Rightarrow> string \<Rightarrow> string \<Rightarrow> ('w, pydict) call"
  su_preflight :: "string \<Rightarrow> string \<Rightarrow> string \<Rightarrow> pydict option \<Rightarrow> string list \<Rightarrow> ('w, pydict) call"

section \<open>Access to the store and to the world\<close>

definition on_driver :: "('w driver, 'a) act \<Rightarrow> ('w, 'a) op" where
  "on_driver m s = (case m (sv_driver s) of (r, d) \<Rightarrow> (map_sum Raised id r, s\<lparr>sv_driver := d\<rparr>))"

definition stored :: "(store \<Rightarrow> 'a res \<times> store) \<Rightarrow> ('w, 'a) op" where
  "stored f = on_driver (on_store f)"

definition queried :: "(store \<Rightarrow> 'a res) \<Rightarrow> ('w, 'a) op" where
  "queried f = on_driver (read_store f)"

definition outside :: "('w, 'a) call \<Rightarrow> ('w, 'a) op" where
  "outside m s = (case m (dv_world (sv_driver s)) of
     (r, w) \<Rightarrow> (r, s\<lparr>sv_driver := (sv_driver s)\<lparr>dv_world := w\<rparr>\<rparr>))"

definition clock :: "'w supervisor \<Rightarrow> ('w, int) op" where
  "clock S = outside (\<lambda>w. case en_now (su_env S) w of (t, w') \<Rightarrow> (Inr t, w'))"

text \<open>\<open>self.store.get_snapshot\<close> and \<open>self.store.current_epochs\<close>\<close>

definition current :: "'w supervisor \<Rightarrow> string \<Rightarrow> ('w, campaign_snapshot) op" where
  "current S c = queried (\<lambda>db. get_snapshot (su_host S) db c)"

definition epochs_of :: "'w supervisor \<Rightarrow> ('w, epochs_reader) op" where
  "epochs_of S s = (Inr (\<lambda>c n. current_epochs (su_host S) c (Some n) (dv_store (sv_driver s))), s)"

section \<open>Workers\<close>

definition worker_of :: "string \<Rightarrow> ('w, worker option) op" where
  "worker_of lease_id s = (Inr (map_of (sv_workers s) lease_id), s)"

definition forget :: "string \<Rightarrow> ('w, unit) op" where
  "forget lease_id s = (Inr (), s\<lparr>sv_workers := filter (\<lambda>kv. fst kv \<noteq> lease_id) (sv_workers s)\<rparr>)"

fun put_worker :: "string \<Rightarrow> worker \<Rightarrow> (string \<times> worker) list \<Rightarrow> (string \<times> worker) list" where
  "put_worker k v [] = [(k, v)]"
| "put_worker k v ((j, w) # d) = (if j = k then (k, v) # d else (j, w) # put_worker k v d)"

definition remember :: "string \<Rightarrow> worker \<Rightarrow> ('w, unit) op" where
  "remember lease_id wk s = (Inr (), s\<lparr>sv_workers := put_worker lease_id wk (sv_workers s)\<rparr>)"

definition interrupt_host :: "'w supervisor \<Rightarrow> string \<Rightarrow> ('w, unit) op" where
  "interrupt_host S lease_id = outside (wh_interrupt (su_native S) lease_id)"

text \<open>\<open>_interrupt_node_workers\<close>\<close>

definition node_workers :: "string \<Rightarrow> string \<Rightarrow> ('w, string list) op" where
  "node_workers c n s =
     (Inr (map fst (filter (\<lambda>(_, wk). al_campaign_id (wk_lease wk) = c \<and> al_node_id (wk_lease wk) = n)
        (sv_workers s))), s)"

definition interrupt_node_workers :: "'w supervisor \<Rightarrow> string \<Rightarrow> string \<Rightarrow> ('w, string list) op" where
  "interrupt_node_workers S c n =
     and_then (node_workers c n) (\<lambda>lease_ids.
     and_then (each (\<lambda>i. and_then (interrupt_host S i) (\<lambda>_. forget i)) lease_ids) (\<lambda>_.
     give lease_ids))"

section \<open>Identifiers, events and decisions\<close>

text \<open>\<open>_stable_id\<close> of supervisor.py\<close>

definition ccos_id :: "pyval list \<Rightarrow> string" where
  "ccos_id parts = ''ccos:'' @ take 24 (sha256_hex (join '':'' (map py_str parts)))"

definition text_id :: "string list \<Rightarrow> string" where
  "text_id parts = ccos_id (map PStr parts)"

definition supervisor_event ::
  "campaign_snapshot \<Rightarrow> event_type \<Rightarrow> string \<Rightarrow> string option \<Rightarrow> string option \<Rightarrow> int option \<Rightarrow> pydict \<Rightarrow> event res" where
  "supervisor_event s ty label node_id actor_id fence payload =
     event_post_init
       \<lparr>ev_event_id = ccos_id [PStr (sp_campaign_id (cs_spec s)), PInt (cs_revision s),
          PStr (event_type_value ty), PStr (or_else node_id ''campaign''), PStr label],
        ev_campaign_id = sp_campaign_id (cs_spec s), ev_event_type = ty,
        ev_expected_revision = cs_revision s, ev_authority_epoch = cs_authority_epoch s,
        ev_cancellation_epoch = cs_cancellation_epoch s, ev_node_id = node_id,
        ev_actor_id = actor_id, ev_fencing_epoch = fence, ev_payload = PDict payload\<rparr>"

text \<open>\<open>self._apply(self._event(...))\<close>\<close>

definition apply_for ::
  "'w supervisor \<Rightarrow> campaign_snapshot \<Rightarrow> event_type \<Rightarrow> string \<Rightarrow> string option \<Rightarrow> string option \<Rightarrow> int option \<Rightarrow> pydict
    \<Rightarrow> ('w, campaign_snapshot) op" where
  "apply_for S s ty label node_id actor_id fence payload =
     and_then (checked (supervisor_event s ty label node_id actor_id fence payload)) (\<lambda>e.
     and_then (stored (apply_event (su_host S) (Inr e))) (\<lambda>reduction. give (fst reduction)))"

record supervisor_decision =
  sd_campaign_id :: string
  sd_revision :: int
  sd_campaign_state :: string
  sd_action :: string
  sd_node_id :: "string option"
  sd_wait_event :: "string option"
  sd_details :: "pydict option"

definition decision_to_dict :: "supervisor_decision \<Rightarrow> pydict" where
  "decision_to_dict d =
     [(''campaign_id'', PStr (sd_campaign_id d)), (''revision'', PInt (sd_revision d)),
      (''campaign_state'', PStr (sd_campaign_state d)), (''action'', PStr (sd_action d)),
      (''node_id'', py_opt_str (sd_node_id d)), (''wait_event'', py_opt_str (sd_wait_event d)),
      (''details'', PDict (case sd_details d of None \<Rightarrow> [] | Some x \<Rightarrow> x))]"

definition decided ::
  "string \<Rightarrow> campaign_snapshot \<Rightarrow> string \<Rightarrow> string option \<Rightarrow> string option \<Rightarrow> pydict option \<Rightarrow> supervisor_decision" where
  "decided c s action node_id wait_event details =
     \<lparr>sd_campaign_id = c, sd_revision = cs_revision s,
      sd_campaign_state = campaign_state_value (cs_state s), sd_action = action,
      sd_node_id = node_id, sd_wait_event = wait_event, sd_details = details\<rparr>"

section \<open>Deadlines\<close>

text \<open>\<open>_utc\<close>: microseconds of UTC\<close>

definition utc :: "'w environment \<Rightarrow> string \<Rightarrow> failure + int" where
  "utc E v =
     (case en_fromisoformat E (concat (map (\<lambda>c. if c = CHR ''Z'' then ''+00:00'' else [c]) (py_strip v))) of
        None \<Rightarrow> Inl (Raised (ValueError (''Invalid isoformat string: '' @ v)))
      | Some (wall, None) \<Rightarrow> Inl (SupervisorError ''approved deadline must include a timezone'')
      | Some (wall, Some offset) \<Rightarrow> Inr (wall - offset))"

text \<open>\<open>min(deadlines, key=_utc)\<close>\<close>

definition earliest :: "'w environment \<Rightarrow> string list \<Rightarrow> failure + string option" where
  "earliest E deadlines =
     bindE (mapE (utc E) deadlines) (\<lambda>ts.
     Inr (case zip ts deadlines of
        [] \<Rightarrow> None
      | p # ps \<Rightarrow> Some (snd (foldl (\<lambda>best q. if fst q < fst best then q else best) p ps))))"

definition present :: "string option \<Rightarrow> string list" where
  "present x = (case x of Some (c # cs) \<Rightarrow> [c # cs] | _ \<Rightarrow> [])"

definition effective_deadline ::
  "'w environment \<Rightarrow> campaign_snapshot \<Rightarrow> node_snapshot option \<Rightarrow> failure + string option" where
  "effective_deadline E s node =
     (case node of
        None \<Rightarrow> Inr (sp_deadline_utc (cs_spec s))
      | Some n \<Rightarrow>
          bindE (map_sum Raised id (snapshot_node_spec s (ns_node_id n))) (\<lambda>spec.
          earliest E (present (sp_deadline_utc (cs_spec s)) @ present (nd_deadline_utc spec))))"

definition check_deadline :: "'w supervisor \<Rightarrow> campaign_snapshot \<Rightarrow> node_snapshot option \<Rightarrow> ('w, unit) op" where
  "check_deadline S s node =
     and_then (pure_res (effective_deadline (su_env S) s node)) (\<lambda>deadline.
     case present deadline of
       [] \<Rightarrow> give ()
     | d # _ \<Rightarrow>
         and_then (clock S) (\<lambda>t.
         and_then (pure_res (utc (su_env S) d)) (\<lambda>limit.
         demand (t < limit)
           (SupervisorDeadlineExceeded (''approved deadline exceeded for ''
              @ (case node of None \<Rightarrow> sp_campaign_id (cs_spec s) | Some n \<Rightarrow> ns_node_id n)))
           (give ()))))"

section \<open>Attempts\<close>

definition attempt_id :: "campaign_snapshot \<Rightarrow> budget_token \<Rightarrow> string option \<Rightarrow> string \<Rightarrow> string" where
  "attempt_id s token node_id identity =
     text_id [''budget-attempt'', sp_campaign_id (cs_spec s), budget_token_value token,
       or_else node_id ''campaign'', identity]"

definition reserve_attempt ::
  "'w supervisor \<Rightarrow> campaign_snapshot \<Rightarrow> budget_token \<Rightarrow> string option \<Rightarrow> string \<Rightarrow> ('w, campaign_snapshot \<times> bool) op" where
  "reserve_attempt S s token node_id identity =
     (if sp_mode (cs_spec s) = MANUAL then give (s, True)
      else
        let request_id = attempt_id s token node_id identity
        in if list_ex (\<lambda>r. br_request_id r = request_id) (cs_budget_receipts s) then give (s, False)
           else stored (reserve_budget_attempt (su_host S) (sp_campaign_id (cs_spec s)) (Inr token) request_id
             (cs_revision s) (cs_authority_epoch s) (cs_cancellation_epoch s) node_id None))"

definition consume_attempt ::
  "'w supervisor \<Rightarrow> campaign_snapshot \<Rightarrow> budget_token \<Rightarrow> string option \<Rightarrow> string \<Rightarrow> ('w, campaign_snapshot) op" where
  "consume_attempt S s token node_id label =
     (if sp_mode (cs_spec s) = MANUAL then give s
      else and_then (reserve_attempt S s token node_id label) (\<lambda>(reserved, created).
        demand created
          (AttemptAlreadyReserved (''autonomous attempt is already reserved: '' @ budget_token_value token
             @ '':'' @ label))
          (give reserved)))"

end
