(* ===== verification/Supervisor_Work.thy ===== *)
theory Supervisor_Work
  imports Supervisor_State
begin

text \<open>
  The work of one actor in supervisor.py: the choice of the next node, the check of the sources
  and receipts that a node rests on, the ways in which a node is failed, the acquisition of an
  actor, its dispatch (\<open>dispatch_worker\<close>: the native thread is bound before its turn starts) and
  the acceptance of its terminal receipt (\<open>complete_worker\<close>, \<open>_persisted_terminal\<close>).
\<close>

section \<open>Choosing a node\<close>

definition node_done :: "campaign_snapshot \<Rightarrow> string \<Rightarrow> bool res" where
  "node_done s i =
     (case map_of (rev (map (\<lambda>n. (ns_node_id n, n)) (cs_nodes s))) i of
        None \<Rightarrow> Inl (KeyError i)
      | Some n \<Rightarrow> Inr (ns_state n = NS_DONE))"

fun first_eligible :: "campaign_snapshot \<Rightarrow> node_spec list \<Rightarrow> node_snapshot option res" where
  "first_eligible s [] = Inr None"
| "first_eligible s (nd # nds) =
     (case map_of (rev (map (\<lambda>n. (ns_node_id n, n)) (cs_nodes s))) (nd_node_id nd) of
        None \<Rightarrow> Inl (KeyError (nd_node_id nd))
      | Some n \<Rightarrow>
          if ns_state n \<noteq> NS_PENDING then first_eligible s nds
          else bindE (all_res (map (node_done s) (nd_dependencies nd))) (\<lambda>ready.
            if ready then Inr (Some n) else first_eligible s nds))"

definition select_next_approved_node :: "campaign_snapshot \<Rightarrow> node_snapshot option res" where
  "select_next_approved_node s =
     (if cs_state s \<noteq> CS_RUNNING \<or> nonempty_opt (cs_active_node_id s) then Inr None
      else first_eligible s (sp_nodes (cs_spec s)))"

section \<open>Sources and receipts\<close>

definition approved_command :: "campaign_snapshot \<Rightarrow> string \<Rightarrow> validation_command res" where
  "approved_command s i =
     (case find (\<lambda>c. vc_command_id c = i) (rev (sp_required_validation_commands (cs_spec s))) of
        None \<Rightarrow> Inl (KeyError i) | Some c \<Rightarrow> Inr c)"

text \<open>\<open>_trusted_command\<close>\<close>

definition trusted_of :: "validation_command \<Rightarrow> string \<Rightarrow> trusted_command" where
  "trusted_of c head =
     \<lparr>tc_executable = vc_executable c, tc_arguments = vc_arguments c,
      tc_working_directory = vc_working_directory c,
      tc_environment_allowlist = vc_environment_allowlist c, tc_environment = [],
      tc_timeout_seconds = vc_timeout_seconds c, tc_output_limit_bytes = vc_output_limit_bytes c,
      tc_candidate_head = head, tc_expected_working_tree = vc_expected_worktree_condition c,
      tc_expected_status_sha256 = vc_expected_status_sha256 c,
      tc_required_exit_code = vc_required_exit_code c, tc_execution_boundary = ''READ_ONLY''\<rparr>"

definition validation_id :: "string \<Rightarrow> string \<Rightarrow> string \<Rightarrow> pyval \<Rightarrow> node_state \<Rightarrow> int \<Rightarrow> string" where
  "validation_id c n command_id head st corrections =
     ccos_id [PStr ''validation'', PStr c, PStr n, PStr command_id, head, PStr (node_state_value st), PInt corrections]"

text \<open>The receipt of the last validation of a command: the one of the revalidation when there is one.\<close>

definition command_receipt :: "campaign_snapshot \<Rightarrow> node_snapshot \<Rightarrow> string \<Rightarrow> store \<Rightarrow> evidence option res" where
  "command_receipt s n command_id db =
     (let key = \<lambda>st. validation_id (sp_campaign_id (cs_spec s)) (ns_node_id n) command_id
            (py_opt_str (ns_candidate_head n)) st (ns_validation_corrections n)
      in bindE (get_evidence (key NS_REVALIDATING) db) (\<lambda>later.
         if later \<noteq> None then Inr later else get_evidence (key NS_VALIDATING) db))"

definition evidence_payload :: "evidence \<Rightarrow> pydict res" where
  "evidence_payload item = bindE (py_item (evidence_to_dict item) ''payload'') py_dict"

definition verify_receipt :: "'w supervisor \<Rightarrow> campaign_snapshot \<Rightarrow> node_snapshot \<Rightarrow> string \<Rightarrow> ('w, unit) op" where
  "verify_receipt S s n command_id =
     (let place = ns_node_id n @ ''/'' @ command_id
      in and_then (queried (command_receipt s n command_id)) (\<lambda>found.
         case found of
           None \<Rightarrow> fail (Raised (SourceDriftError (''passing acceptance evidence unavailable: '' @ place)))
         | Some item \<Rightarrow>
             catch_when is_evidence_error
               (and_then (checked (approved_command s command_id)) (\<lambda>command.
                and_then (checked (evidence_payload item)) (\<lambda>payload.
                and_then (outside (verify_command_evidence (su_env S)
                  (trusted_of command (opt_text (ns_candidate_head n))) payload)) (\<lambda>_. give ()))))
               (\<lambda>exc. fail (Raised (SourceDriftError
                  (''acceptance command inputs changed: '' @ place @ '': '' @ failure_text exc))))))"

definition receipt_states :: "node_state set" where
  "receipt_states = {NS_CANDIDATE_FROZEN, NS_CHECKS_AND_REVIEW, NS_FINDINGS_FROZEN, NS_CLOSURE,
     NS_READY_TO_PUBLISH, NS_PUBLISHING}"

definition verify_sources :: "'w supervisor \<Rightarrow> campaign_snapshot \<Rightarrow> string \<Rightarrow> ('w, unit) op" where
  "verify_sources S s node_id =
     and_then (outside (verify_acceptance_sources (su_env S) (campaign_spec_to_dict (cs_spec s)) (Some node_id))) (\<lambda>_.
     and_then (checked (snapshot_node s node_id)) (\<lambda>n.
     and_then (checked (snapshot_node_spec s node_id)) (\<lambda>spec.
     if nd_acceptance_scenarios spec = [] \<or> ns_state n \<notin> receipt_states then give ()
     else and_then (each (verify_receipt S s n) (nd_validation_command_ids spec)) (\<lambda>_. give ()))))"

section \<open>Failing a node\<close>

definition unfinished_node :: "campaign_snapshot \<Rightarrow> node_snapshot option" where
  "unfinished_node s = find (\<lambda>n. ns_state n \<notin> TERMINAL_NODE_STATES) (cs_nodes s)"

definition fail_deadline ::
  "'w supervisor \<Rightarrow> campaign_snapshot \<Rightarrow> node_snapshot option \<Rightarrow> ('w, supervisor_decision) op" where
  "fail_deadline S s node =
     (if cs_state s = CS_DRAFT then
        fail (SupervisorDeadlineExceeded ''draft campaign deadline expired before exact specification approval'')
      else
        and_then (if node \<noteq> None then give node
          else case present (cs_active_node_id s) of
            i # _ \<Rightarrow> and_then (checked (snapshot_node s i)) (\<lambda>n. give (Some n))
          | [] \<Rightarrow> give (unfinished_node s)) (\<lambda>target.
        case target of
          None \<Rightarrow> fail (SupervisorDeadlineExceeded ''campaign deadline expired without a fail-able node'')
        | Some n \<Rightarrow>
            and_then (interrupt_node_workers S (sp_campaign_id (cs_spec s)) (ns_node_id n)) (\<lambda>_.
            and_then (apply_for S s EV_FAIL_NODE ''deadline-exceeded'' (Some (ns_node_id n)) None None
              [(''reason'', PStr ''approved deadline exceeded'')]) (\<lambda>t.
            give (decided (sp_campaign_id (cs_spec t)) t ''DEADLINE_EXCEEDED'' (Some (ns_node_id n)) None None)))))"

definition fail_budget ::
  "'w supervisor \<Rightarrow> campaign_snapshot \<Rightarrow> failure \<Rightarrow> ('w, supervisor_decision) op" where
  "fail_budget S s reason =
     and_then (case cs_active_node_id s of
         Some i \<Rightarrow> and_then (checked (snapshot_node s i)) (\<lambda>n. give (Some n))
       | None \<Rightarrow> give (unfinished_node s)) (\<lambda>target.
     case target of
       None \<Rightarrow> fail (Raised (BudgetError (failure_text reason)))
     | Some n \<Rightarrow>
         and_then (if sp_mode (cs_spec s) = AUTOMATED then
             catch_when is_budget_error
               (and_then (reserve_attempt S s BT_REJECTED_ATTEMPT (Some (ns_node_id n))
                  (''budget-rejected:'' @ ns_node_id n @ '':'' @ failure_name reason @ '':'' @ failure_text reason))
                  (\<lambda>(t, _). give t))
               (\<lambda>_. current S (sp_campaign_id (cs_spec s)))
           else give s) (\<lambda>s.
         and_then (interrupt_node_workers S (sp_campaign_id (cs_spec s)) (ns_node_id n)) (\<lambda>_.
         and_then (apply_for S s EV_FAIL_NODE ''attempt-budget-exhausted'' (Some (ns_node_id n)) None None
           [(''reason'', PStr (''attempt budget exhausted: '' @ failure_text reason))]) (\<lambda>t.
         give (decided (sp_campaign_id (cs_spec t)) t ''BUDGET_EXHAUSTED'' (Some (ns_node_id n)) None
           (Some [(''reason'', PStr (failure_text reason))]))))))"

definition dispatch_label :: "actor_role \<Rightarrow> string" where
  "dispatch_label role =
     (if role = AR_REVIEWER then ''review cohort dispatch''
      else if role = AR_CLOSURE_REVIEWER then ''closure cohort dispatch''
      else casefold (actor_role_value role) @ '' dispatch'')"

definition fail_dispatch ::
  "'w supervisor \<Rightarrow> string \<Rightarrow> string \<Rightarrow> actor_role \<Rightarrow> failure \<Rightarrow> ('w, unit) op" where
  "fail_dispatch S c node_id role exc =
     and_then (interrupt_node_workers S c node_id) (\<lambda>_.
     and_then (current S c) (\<lambda>s.
     if cs_state s \<in> TERMINAL_CAMPAIGN_STATES then give ()
     else
       and_then (checked (snapshot_node s node_id)) (\<lambda>n.
       if ns_state n \<in> TERMINAL_NODE_STATES then give ()
       else
         and_then (apply_for S s EV_FAIL_NODE (dispatch_label role @ '':'' @ failure_name exc) (Some node_id) None None
           [(''reason'', PStr (dispatch_label role @ '' failed: '' @ failure_name exc @ '': '' @ failure_text exc))]) (\<lambda>_.
         give ()))))"

section \<open>Acquiring an actor\<close>

definition lease_resource :: "campaign_snapshot \<Rightarrow> actor \<Rightarrow> string" where
  "lease_resource s a =
     (if ac_can_write a then ''write:'' @ sp_worktree (cs_spec s)
      else ''readonly:'' @ sp_worktree (cs_spec s) @ '':'' @ ac_actor_id a)"

definition actor_for ::
  "campaign_snapshot \<Rightarrow> string \<Rightarrow> actor_role \<Rightarrow> string option \<Rightarrow> bool \<Rightarrow> actor res" where
  "actor_for s node_id role reviewer_id native_worker =
     (let actor_id = ccos_id [PStr (sp_campaign_id (cs_spec s)), PStr node_id, PStr (actor_role_value role),
            PStr (or_else reviewer_id ''single''), PInt (cs_revision s)]
      in actor_post_init
        \<lparr>ac_actor_id = actor_id, ac_campaign_id = sp_campaign_id (cs_spec s), ac_node_id = Some node_id,
         ac_role = role, ac_native_thread_id = (if native_worker then ''UNBOUND'' else ''trusted-'' @ actor_id),
         ac_authority_epoch = cs_authority_epoch s, ac_can_write = (role \<notin> write_denied_roles),
         ac_native_identity = PDict [], ac_host_pid = None, ac_principal_id = reviewer_id\<rparr>)"

definition acquire_actor ::
  "'w supervisor \<Rightarrow> campaign_snapshot \<Rightarrow> string \<Rightarrow> actor_role \<Rightarrow> string option \<Rightarrow> bool
    \<Rightarrow> ('w, campaign_snapshot \<times> actor \<times> lease) op" where
  "acquire_actor S s node_id role reviewer_id native_worker =
     and_then (if native_worker then
         and_then (checked (snapshot_node s node_id)) (\<lambda>n.
         consume_attempt S s BT_CHILD_CREATION (Some node_id)
           (''create:'' @ node_id @ '':'' @ actor_role_value role @ '':'' @ or_else reviewer_id ''single''
             @ '':correction:'' @ show_int (ns_validation_corrections n)))
       else give s) (\<lambda>s.
     and_then (checked (actor_for s node_id role reviewer_id native_worker)) (\<lambda>a.
     let lease_id = text_id [''lease'', ac_actor_id a]
     in and_then (stored (acquire_lease (su_host S)
          \<lparr>lq_campaign_id = sp_campaign_id (cs_spec s), lq_node_id = node_id,
           lq_resource_key = lease_resource s a, lq_actor = a, lq_lease_id = lease_id,
           lq_request_id = text_id [''acquire'', lease_id], lq_expected_revision = cs_revision s,
           lq_authority_epoch = cs_authority_epoch s, lq_cancellation_epoch = cs_cancellation_epoch s,
           lq_expires_at = None\<rparr>)) (\<lambda>l.
        and_then (current S (sp_campaign_id (cs_spec s))) (\<lambda>t. give (t, a, l)))))"

definition lease_head :: "campaign_snapshot \<Rightarrow> node_snapshot \<Rightarrow> actor_role \<Rightarrow> string res" where
  "lease_head s n role =
     (if role = AR_IMPLEMENTER \<and> ns_validation_correction n \<noteq> PNone then
        item_str (ns_validation_correction n) ''candidate_head''
      else Inr (or_else (ns_candidate_head n) (or_else (ns_start_head n) (sp_base_sha (cs_spec s)))))"

definition host_lease ::
  "'w supervisor \<Rightarrow> campaign_snapshot \<Rightarrow> string \<Rightarrow> actor_role \<Rightarrow> actor \<Rightarrow> lease \<Rightarrow> ('w, actor_lease) op" where
  "host_lease S s node_id role a l =
     and_then (checked (snapshot_node s node_id)) (\<lambda>n.
     and_then (if role \<in> {AR_IMPLEMENTER, AR_REPAIRER}
         then and_then (checked (snapshot_node_spec s node_id)) (\<lambda>spec. give (nd_allowed_paths spec))
         else give []) (\<lambda>allowed.
     and_then (checked (lease_head s n role)) (\<lambda>head.
     outside (issue_lease (su_env S)
       \<lparr>al_lease_id = ls_lease_id l, al_request_id = text_id [''native'', ls_lease_id l],
        al_campaign_id = sp_campaign_id (cs_spec s), al_node_id = node_id, al_actor_id = ac_actor_id a,
        al_role = actor_role_value role, al_worktree = sp_worktree (cs_spec s), al_allowed_paths = allowed,
        al_authority_epoch = cs_authority_epoch s, al_cancellation_epoch = cs_cancellation_epoch s,
        al_fencing_epoch = ls_fencing_epoch l, al_candidate_head = head, al_payload_digest = []\<rparr>))))"

section \<open>Authority of a native worker\<close>

definition integer_of :: "pyval \<Rightarrow> int option" where
  "integer_of v = (case v of PInt i \<Rightarrow> Some i | PBool b \<Rightarrow> Some (if b then 1 else 0) | _ \<Rightarrow> None)"

definition bind_native :: "'w supervisor \<Rightarrow> actor_lease \<Rightarrow> pydict \<Rightarrow> ('w, unit) op" where
  "bind_native S l identity =
     (let thread_id = text_of identity ''thread_id''
      in and_then (checked (role_of_text (al_role l))) (\<lambda>role.
         and_then (stored (bind_actor (su_host S)
           \<lparr>bq_lease_id = al_lease_id l, bq_actor_id = al_actor_id l, bq_role = role,
            bq_native_thread_id = thread_id, bq_identity_digest = canonical_json_digest (PDict identity),
            bq_authority_epoch = al_authority_epoch l, bq_cancellation_epoch = al_cancellation_epoch l,
            bq_fencing_epoch = al_fencing_epoch l,
            bq_request_id = text_id [''bind'', al_lease_id l, thread_id],
            bq_native_identity = identity, bq_host_pid = integer_of (field_of identity ''host_pid'')\<rparr>)) (\<lambda>_.
         give ())))"

definition authorize_worker_action ::
  "'w supervisor \<Rightarrow> actor_lease \<Rightarrow> string \<Rightarrow> string option \<Rightarrow> ('w, pydict) op" where
  "authorize_worker_action S l action path =
     and_then (current S (al_campaign_id l)) (\<lambda>s.
     queried (verify_actor_action (su_host S)
       \<lparr>aq_campaign_id = al_campaign_id l, aq_actor_id = al_actor_id l, aq_lease_id = al_lease_id l,
        aq_authority_epoch = al_authority_epoch l, aq_cancellation_epoch = al_cancellation_epoch l,
        aq_fencing_epoch = al_fencing_epoch l, aq_repository_root = sp_git_root (cs_spec s),
        aq_action = action, aq_path = path\<rparr>))"

text \<open>\<open>self.host.create_idle_actor(lease, bind_authority=self._bind_native, ...)\<close>\<close>

definition create_idle_actor :: "'w supervisor \<Rightarrow> actor_lease \<Rightarrow> ('w, unit) op" where
  "create_idle_actor S l =
     and_then (outside (wh_create (su_native S) l)) (\<lambda>identity.
     and_then (catch (bind_native S l identity)
       (\<lambda>exc. and_then (outside (wh_close (su_native S) l)) (\<lambda>_. fail exc))) (\<lambda>_.
     outside (wh_keep (su_native S) l identity)))"

end
