(* ===== verification/Supervisor_Dispatch.thy ===== *)
theory Supervisor_Dispatch
  imports Supervisor_Work
begin

text \<open>
  \<open>dispatch_worker\<close>, \<open>complete_worker\<close> and \<open>_persisted_terminal\<close> of supervisor.py.
\<close>

section \<open>The prompt of a worker\<close>

definition prompt_binding ::
  "campaign_snapshot \<Rightarrow> node_snapshot \<Rightarrow> node_spec \<Rightarrow> actor_role \<Rightarrow> string option \<Rightarrow> string option \<Rightarrow> pydict res" where
  "prompt_binding s n spec role reviewer_id diagnostic =
     bindE (py_get (node_spec_to_dict spec) ''acceptance_scenarios'' (PList [])) (\<lambda>scenarios.
     bindE (if py_truthy (ns_validation_correction n) \<and> role = AR_IMPLEMENTER then
         bindE (py_item (ns_validation_correction n) ''expectation_id'') (\<lambda>expectation.
         bindE (py_item (ns_validation_correction n) ''test_id'') (\<lambda>test.
         bindE (py_item (ns_validation_correction n) ''candidate_head'') (\<lambda>head.
         Inr [(''validation_correction'', PDict
           [(''expectation_id'', expectation), (''test_id'', test), (''candidate_head'', head),
            (''failure'', py_opt_str diagnostic)])])))
       else Inr []) (\<lambda>correction.
     Inr ([(''node_id'', PStr (ns_node_id n)), (''role'', PStr (actor_role_value role)),
           (''reviewer_id'', py_opt_str reviewer_id), (''candidate_head'', py_opt_str (ns_candidate_head n)),
           (''allowed_paths'', PList (map PStr (nd_allowed_paths spec))),
           (''objective'', PStr (nd_objective spec)), (''acceptance_scenarios'', scenarios)]
          @ correction
          @ (if role \<in> {AR_REPAIRER, AR_CLOSURE_REVIEWER}
             then [(''frozen_findings'', PList (map finding_to_dict (filter fi_blocking (ns_findings n))))]
             else []))))"

definition review_instruction :: string where
  "review_instruction =
     ''Review the exact frozen candidate read-only. Return evidence-bound finding ''
     @ ''records only. Do not edit, publish, or create another task. Return one JSON ''
     @ ''object with reviewer_id, candidate_head, findings, and verdict. The verdict ''
     @ ''must be exactly PASS when there are no material findings, or BLOCK when ''
     @ ''there are material findings. Nonblocking observations do not require BLOCK. Each finding ''
     @ ''must contain finding_id, title, blocking, and details. Use only the supplied ''
     @ ''campaign_list_files, campaign_read_file, campaign_search, campaign_git_status, ''
     @ ''and campaign_git_diff tools.''
     @ '' Reuse established finding identifiers when reporting the same evidence.''
     @ '' Tie each blocker in details to acceptance_expectation_id, an invariant ''
     @ ''with evidence, or a regression with reproduction, expected, and actual. ''
     @ ''For a nonblocking observation supply details.observation explaining why ''
     @ ''it does not violate an acceptance expectation or invariant. At closure ''
     @ ''report resolved_finding_ids only for frozen blockers verified as fixed.''"

definition implement_instruction :: string where
  "implement_instruction =
     ''Implement only this node inside allowed paths. Run no publication mutation. ''
     @ ''The native OS sandbox is read-only. Inspect through campaign_list_files, ''
     @ ''campaign_read_file, campaign_search, campaign_git_status, and campaign_git_diff. ''
     @ ''Make changes only through campaign_apply_patch, then use campaign_commit to ''
     @ ''commit the exact candidate and leave the worktree clean.''"

definition worker_prompt ::
  "campaign_snapshot \<Rightarrow> string \<Rightarrow> actor_role \<Rightarrow> string option \<Rightarrow> string option \<Rightarrow> string res" where
  "worker_prompt s node_id role reviewer_id diagnostic =
     bindE (snapshot_node s node_id) (\<lambda>n.
     bindE (snapshot_node_spec s node_id) (\<lambda>spec.
     bindE (prompt_binding s n spec role reviewer_id diagnostic) (\<lambda>binding.
     Inr ((if role \<in> {AR_REVIEWER, AR_CLOSURE_REVIEWER} then review_instruction else implement_instruction)
       @ [CHR 0x0A, CHR 0x0A] @ ''Current change and acceptance:'' @ [CHR 0x0A] @ py_repr (PDict binding)))))"

text \<open>The last 4000 characters of the standard error of the failed validation.\<close>

definition last_chars :: "nat \<Rightarrow> string \<Rightarrow> string" where
  "last_chars k s = drop (length s - k) s"

definition failure_diagnostic :: "campaign_snapshot \<Rightarrow> string \<Rightarrow> actor_role \<Rightarrow> store \<Rightarrow> string option res" where
  "failure_diagnostic s node_id role db =
     bindE (snapshot_node s node_id) (\<lambda>n.
     if py_truthy (ns_validation_correction n) \<and> role = AR_IMPLEMENTER then
       bindE (item_str (ns_validation_correction n) ''evidence_id'') (\<lambda>evidence_id.
       bindE (get_evidence evidence_id db) (\<lambda>found.
       case found of
         None \<Rightarrow> Inl (AttributeError ''NoneType object has no attribute payload'')
       | Some item \<Rightarrow> bindE (py_get (ed_payload item) ''stderr'' (PStr [])) (\<lambda>v.
           Inr (Some (last_chars 4000 (py_str v))))))
     else Inr None)"

section \<open>Dispatch\<close>

definition lifecycle_token :: "event_type \<Rightarrow> budget_token res" where
  "lifecycle_token ty =
     (if ty = EV_START_IMPLEMENTATION then Inr BT_CHILD_START
      else if ty = EV_START_REPAIR then Inr BT_REPAIR_DISPATCH
      else Inl (KeyError (event_type_value ty)))"

definition charge_start :: "'w supervisor \<Rightarrow> campaign_snapshot \<Rightarrow> string \<Rightarrow> string \<Rightarrow> ('w, campaign_snapshot) op" where
  "charge_start S s node_id lease_id =
     consume_attempt S s BT_CHILD_START (Some node_id) (''start:'' @ lease_id)"

text \<open>The transition that the dispatch stands for, and the unit for the start of the child.\<close>

definition enter_dispatch ::
  "'w supervisor \<Rightarrow> campaign_snapshot \<Rightarrow> string \<Rightarrow> actor_role \<Rightarrow> event_type option \<Rightarrow> actor \<Rightarrow> lease \<Rightarrow> string
    \<Rightarrow> ('w, campaign_snapshot) op" where
  "enter_dispatch S s node_id role lifecycle_event a l lease_id =
     (case lifecycle_event of
        None \<Rightarrow> charge_start S s node_id lease_id
      | Some ty \<Rightarrow>
          and_then (checked (lifecycle_token ty)) (\<lambda>token.
          and_then (apply_for S s ty (''dispatch:'' @ actor_role_value role) (Some node_id)
             (Some (ac_actor_id a)) (Some (ls_fencing_epoch l))
             [(''budget_token'', PStr (budget_token_value token)),
              (''operation_id'', PStr (text_id [''dispatch'', lease_id])),
              (''effect_payload'', PDict [(''lease_id'', PStr lease_id)])]) (\<lambda>t.
          if role = AR_REPAIRER then charge_start S t node_id lease_id else give t)))"

text \<open>\<open>self.host.start_actor_turn\<close>, which leaves its trace.\<close>

definition start_turn :: "'w supervisor \<Rightarrow> string \<Rightarrow> string \<Rightarrow> ('w, unit) op" where
  "start_turn S lease_id prompt =
     (\<lambda>s. outside (wh_turn (su_native S) lease_id prompt) (s\<lparr>sv_turns := sv_turns s @ [(lease_id, dv_store (sv_driver s))]\<rparr>))"

definition run_dispatch ::
  "'w supervisor \<Rightarrow> string \<Rightarrow> string \<Rightarrow> actor_role \<Rightarrow> string option \<Rightarrow> event_type option \<Rightarrow> actor \<Rightarrow> lease
    \<Rightarrow> actor_lease \<Rightarrow> ('w, actor_lease) op" where
  "run_dispatch S c node_id role reviewer_id lifecycle_event a l hl =
     and_then (create_idle_actor S hl) (\<lambda>_.
     and_then (current S c) (\<lambda>s.
     and_then (enter_dispatch S s node_id role lifecycle_event a l (al_lease_id hl)) (\<lambda>s.
     and_then (queried (failure_diagnostic s node_id role)) (\<lambda>diagnostic.
     and_then (checked (worker_prompt s node_id role reviewer_id diagnostic)) (\<lambda>prompt.
     and_then (start_turn S (al_lease_id hl) prompt) (\<lambda>_.
     and_then (remember (al_lease_id hl) \<lparr>wk_lease = hl, wk_role = role, wk_reviewer_id = reviewer_id\<rparr>) (\<lambda>_.
     give hl)))))))"

definition dispatch_failed ::
  "'w supervisor \<Rightarrow> string \<Rightarrow> string \<Rightarrow> actor_role \<Rightarrow> string \<Rightarrow> failure \<Rightarrow> ('w, 'a) op" where
  "dispatch_failed S c node_id role lease_id exc =
     and_then (interrupt_host S lease_id) (\<lambda>_.
     and_then (forget lease_id) (\<lambda>_.
     if is_budget_error exc then
       and_then (current S c) (\<lambda>s.
       and_then (if cs_state s \<in> TERMINAL_CAMPAIGN_STATES then give ()
                 else and_then (fail_budget S s exc) (\<lambda>_. give ())) (\<lambda>_.
       fail exc))
     else and_then (fail_dispatch S c node_id role exc) (\<lambda>_. fail exc)))"

definition dispatch_worker ::
  "'w supervisor \<Rightarrow> string \<Rightarrow> string \<Rightarrow> actor_role \<Rightarrow> string option \<Rightarrow> event_type option \<Rightarrow> ('w, actor_lease) op" where
  "dispatch_worker S c node_id role reviewer_id lifecycle_event =
     and_then (current S c) (\<lambda>s.
     and_then (checked (snapshot_node s node_id)) (\<lambda>n.
     and_then (check_deadline S s (Some n)) (\<lambda>_.
     and_then (verify_sources S s node_id) (\<lambda>_.
     and_then (acquire_actor S s node_id role reviewer_id True) (\<lambda>(s, a, l).
     and_then (host_lease S s node_id role a l) (\<lambda>hl.
     catch (run_dispatch S c node_id role reviewer_id lifecycle_event a l hl)
       (dispatch_failed S c node_id role (al_lease_id hl))))))))"

section \<open>Terminal receipts\<close>

text \<open>\<open>payload.pop("receipt_digest")\<close> and the digest of the rest\<close>

definition receipt_body_digest :: "pydict \<Rightarrow> string" where
  "receipt_body_digest d = canonical_json_digest (PDict (dict_remove ''receipt_digest'' d))"

definition turn_completed :: "string \<Rightarrow> bool" where
  "turn_completed status \<longleftrightarrow> casefold status \<in> {''completed'', ''complete''}"

definition reattachable ::
  "pydict \<Rightarrow> evidence \<Rightarrow> string \<Rightarrow> campaign_snapshot \<Rightarrow> actor \<Rightarrow> lease \<Rightarrow> bool" where
  "reattachable payload item lease_id s a l \<longleftrightarrow>
     is_text payload ''receipt_digest'' (receipt_body_digest payload)
     \<and> py_eq (PStr (ed_digest item)) (field_of payload ''receipt_digest'')
     \<and> is_text payload ''lease_id'' lease_id \<and> ls_actor_id l = ac_actor_id a
     \<and> is_text payload ''campaign_id'' (sp_campaign_id (cs_spec s))
     \<and> py_eq (field_of payload ''node_id'') (py_opt_str (ac_node_id a))
     \<and> is_text payload ''role'' (actor_role_value (ac_role a))
     \<and> is_number payload ''authority_epoch'' (cs_authority_epoch s)
     \<and> is_number payload ''cancellation_epoch'' (cs_cancellation_epoch s)
     \<and> is_number payload ''fencing_epoch'' (ls_fencing_epoch l)
     \<and> turn_completed (text_of payload ''turn_status'')
     \<and> cs_state s \<notin> {CS_CANCELLED, CS_FAILED}"

definition persisted_terminal :: "'w supervisor \<Rightarrow> string \<Rightarrow> ('w, pydict) op" where
  "persisted_terminal S lease_id =
     and_then (queried (get_evidence (text_id [''receipt'', lease_id]))) (\<lambda>found.
     case found of
       None \<Rightarrow> fail (SupervisorError (''unknown in-process worker lease: '' @ lease_id))
     | Some item \<Rightarrow>
         and_then (checked (evidence_payload item)) (\<lambda>payload.
         and_then (current S (ed_campaign_id item)) (\<lambda>s.
         and_then (queried (get_actor (text_of payload ''actor_id''))) (\<lambda>a.
         and_then (queried (get_lease lease_id)) (\<lambda>l.
         demand (reattachable payload item lease_id s a l)
           (SupervisorError ''persisted terminal receipt cannot reattach to current authority'')
        (and_then (queried (verify_terminal_evidence_attestation (ed_evidence_id item)
            (text_of payload ''receipt_digest'') (ac_actor_id a) lease_id
            (text_of payload ''native_thread_id'') (text_of payload ''native_turn_id'') (ac_principal_id a))) (\<lambda>_.
         checked (terminal_receipt payload))))))))"

section \<open>Completing a worker\<close>

definition budget_refused ::
  "'w supervisor \<Rightarrow> campaign_snapshot \<Rightarrow> string \<Rightarrow> string \<Rightarrow> ('w, bool) op" where
  "budget_refused S s node_id identity =
     and_then (reserve_attempt S s BT_REJECTED_ATTEMPT (Some node_id) identity) (\<lambda>(_, reserved). give reserved)"

definition failure_id_of :: "string \<Rightarrow> string" where
  "failure_id_of lease_id = text_id [''transport-failure'', lease_id]"

definition retry_id_of :: "string \<Rightarrow> string" where
  "retry_id_of lease_id = text_id [''transport-retry'', lease_id]"

definition refuse_collection :: "'w supervisor \<Rightarrow> worker \<Rightarrow> string \<Rightarrow> ('w, unit) op" where
  "refuse_collection S wk lease_id =
     and_then (current S (al_campaign_id (wk_lease wk))) (\<lambda>s.
     and_then (budget_refused S s (al_node_id (wk_lease wk))
        (''terminal-collection-without-retry:'' @ lease_id)) (\<lambda>reserved.
     fail (SupervisorError (''terminal collection after a transport failure requires the ''
       @ ''one explicit transport retry''
       @ (if reserved then [] else ''; the rejected attempt is already recorded'')))))"

definition start_retry :: "'w supervisor \<Rightarrow> worker \<Rightarrow> string \<Rightarrow> pydict option \<Rightarrow> ('w, unit) op" where
  "start_retry S wk lease_id failed =
     (let c = al_campaign_id (wk_lease wk); n = al_node_id (wk_lease wk)
      in and_then (current S c) (\<lambda>s.
         and_then (if failed = None then give None
           else queried (get_runtime_operation (retry_id_of lease_id))) (\<lambda>used.
         if failed = None \<or> used \<noteq> None then
           and_then (budget_refused S s n (''invalid-transport-retry:'' @ lease_id @ '':''
             @ (if failed = None then ''missing-failure'' else ''already-used''))) (\<lambda>reserved.
           fail (SupervisorError (''transport retry requires one prior failure and can be used only once''
             @ (if reserved then [] else ''; rejection already recorded''))))
         else
           and_then (reserve_attempt S s BT_TRANSPORT_RETRY (Some n) (''transport-retry:'' @ lease_id)) (\<lambda>(s, reserved).
           demand reserved (SupervisorError ''the one-use transport retry reservation was already consumed'')
          (and_then (stored (record_runtime_operation (retry_id_of lease_id) c ''TRANSPORT_RETRY_STARTED''
             [(''lease_id'', PStr lease_id), (''failure_request_id'', PStr (failure_id_of lease_id))]
             [(''started'', PBool True)] (Some (cs_revision s)))) (\<lambda>_. give ()))))))"

fun is_protocol_error :: "failure \<Rightarrow> bool" where
  "is_protocol_error (HostProtocolError m) = True"
| "is_protocol_error _ = False"

definition transport_failed ::
  "'w supervisor \<Rightarrow> worker \<Rightarrow> string \<Rightarrow> bool \<Rightarrow> failure \<Rightarrow> ('w, 'a) op" where
  "transport_failed S wk lease_id retry exc =
     (let c = al_campaign_id (wk_lease wk)
      in and_then (current S c) (\<lambda>s.
         and_then (stored (record_runtime_operation
           (if retry then text_id [''transport-failure-final'', lease_id] else failure_id_of lease_id) c
           ''TRANSPORT_FAILURE''
           [(''lease_id'', PStr lease_id), (''retry'', PBool retry), (''error_type'', PStr (failure_name exc))]
           [(''error'', PStr (failure_text exc))] (Some (cs_revision s)))) (\<lambda>_.
         and_then (if retry then
             and_then (interrupt_host S lease_id) (\<lambda>_.
             and_then (forget lease_id) (\<lambda>_.
             fail_dispatch S c (al_node_id (wk_lease wk)) (wk_role wk) exc))
           else give ()) (\<lambda>_.
         fail exc))))"

definition collect_receipt :: "'w supervisor \<Rightarrow> string \<Rightarrow> int option \<Rightarrow> ('w, pydict) op" where
  "collect_receipt S lease_id timeout =
     and_then (epochs_of S) (\<lambda>epochs.
     and_then (outside (wh_collect (su_native S) lease_id epochs timeout)) (\<lambda>d.
     checked (terminal_receipt d)))"

text \<open>The exact binding of a receipt to the worker.\<close>

definition receipt_bound :: "worker \<Rightarrow> string \<Rightarrow> pydict \<Rightarrow> bool" where
  "receipt_bound wk lease_id receipt \<longleftrightarrow>
     is_text receipt ''lease_id'' lease_id
     \<and> is_text receipt ''campaign_id'' (al_campaign_id (wk_lease wk))
     \<and> is_text receipt ''node_id'' (al_node_id (wk_lease wk))
     \<and> is_text receipt ''actor_id'' (al_actor_id (wk_lease wk))
     \<and> is_text receipt ''role'' (actor_role_value (wk_role wk))
     \<and> is_number receipt ''authority_epoch'' (al_authority_epoch (wk_lease wk))
     \<and> is_number receipt ''cancellation_epoch'' (al_cancellation_epoch (wk_lease wk))
     \<and> is_number receipt ''fencing_epoch'' (al_fencing_epoch (wk_lease wk))
     \<and> is_text receipt ''candidate_head'' (al_candidate_head (wk_lease wk))"

definition receipt_refused :: "'w supervisor \<Rightarrow> worker \<Rightarrow> string \<Rightarrow> ('w, 'a) op" where
  "receipt_refused S wk lease_id =
     (let exc = SupervisorError ''terminal receipt digest or exact actor binding is invalid''
      in and_then (interrupt_host S lease_id) (\<lambda>_.
         and_then (forget lease_id) (\<lambda>_.
         and_then (fail_dispatch S (al_campaign_id (wk_lease wk)) (al_node_id (wk_lease wk)) (wk_role wk) exc) (\<lambda>_.
         fail exc))))"

definition receipt_evidence :: "worker \<Rightarrow> string \<Rightarrow> pydict \<Rightarrow> evidence res" where
  "receipt_evidence wk lease_id receipt =
     evidence_post_init
       \<lparr>ed_evidence_id = text_id [''receipt'', lease_id], ed_campaign_id = text_of receipt ''campaign_id'',
        ed_node_id = Some (text_of receipt ''node_id''),
        ed_kind = (if wk_role wk \<in> {AR_REVIEWER, AR_CLOSURE_REVIEWER} then VK_REVIEW else VK_GIT),
        ed_digest = text_of receipt ''receipt_digest'', ed_payload = PDict receipt,
        ed_candidate_head = Some (text_of receipt ''candidate_head'')\<rparr>"

fun completion_event :: "actor_role \<Rightarrow> event_type option" where
  "completion_event AR_IMPLEMENTER = Some EV_IMPLEMENTATION_COMPLETED"
| "completion_event AR_REPAIRER = Some EV_REPAIR_COMPLETED"
| "completion_event _ = None"

text \<open>The transition that an accepted receipt stands for.\<close>

definition enter_completion ::
  "'w supervisor \<Rightarrow> campaign_snapshot \<Rightarrow> worker \<Rightarrow> string \<Rightarrow> pydict \<Rightarrow> ('w, campaign_snapshot) op" where
  "enter_completion S s wk lease_id receipt =
     (let node_id = Some (text_of receipt ''node_id''); actor_id = Some (text_of receipt ''actor_id'');
          fence = integer_of (field_of receipt ''fencing_epoch''); status = text_of receipt ''turn_status''
      in if \<not> turn_completed status then
           apply_for S s EV_FAIL_NODE (''worker:'' @ status @ '':'' @ lease_id) node_id actor_id fence
             [(''reason'', PStr (''worker_terminal:'' @ status))]
         else case completion_event (wk_role wk) of
           Some ty \<Rightarrow> apply_for S s ty (''terminal:'' @ lease_id) node_id actor_id fence
             [(''receipt_digest'', PStr (text_of receipt ''receipt_digest''))]
         | None \<Rightarrow> give s)"

definition release_for :: "'w supervisor \<Rightarrow> campaign_snapshot \<Rightarrow> string \<Rightarrow> ('w, campaign_snapshot) op" where
  "release_for S s lease_id =
     stored (release_lease (su_host S)
       \<lparr>zq_lease_id = lease_id, zq_request_id = text_id [''release'', lease_id],
        zq_expected_revision = cs_revision s, zq_authority_epoch = cs_authority_epoch s,
        zq_cancellation_epoch = cs_cancellation_epoch s\<rparr>)"

definition accept_receipt :: "'w supervisor \<Rightarrow> worker \<Rightarrow> string \<Rightarrow> pydict \<Rightarrow> ('w, pydict) op" where
  "accept_receipt S wk lease_id receipt =
     and_then (current S (text_of receipt ''campaign_id'')) (\<lambda>s.
     and_then (checked (receipt_evidence wk lease_id receipt)) (\<lambda>item.
     and_then (stored (record_terminal_evidence (su_host S) (Inr item))) (\<lambda>_.
     and_then (enter_completion S s wk lease_id receipt) (\<lambda>s.
     and_then (if cs_state s \<in> TERMINAL_CAMPAIGN_STATES then give s else release_for S s lease_id) (\<lambda>_.
     and_then (forget lease_id) (\<lambda>_.
     give receipt))))))"

definition complete_worker :: "'w supervisor \<Rightarrow> string \<Rightarrow> int option \<Rightarrow> bool \<Rightarrow> ('w, pydict) op" where
  "complete_worker S lease_id timeout transport_retry =
     and_then (worker_of lease_id) (\<lambda>found.
     case found of
       None \<Rightarrow> persisted_terminal S lease_id
     | Some wk \<Rightarrow>
         and_then (queried (get_runtime_operation (failure_id_of lease_id))) (\<lambda>failed.
         and_then (if transport_retry then start_retry S wk lease_id failed
             else if failed \<noteq> None then refuse_collection S wk lease_id else give ()) (\<lambda>_.
         and_then (catch_when is_protocol_error (collect_receipt S lease_id timeout)
             (transport_failed S wk lease_id transport_retry)) (\<lambda>receipt.
         if \<not> (receipt_bound wk lease_id receipt
                \<and> is_text receipt ''receipt_digest'' (receipt_body_digest receipt))
         then receipt_refused S wk lease_id
         else accept_receipt S wk lease_id receipt))))"

section \<open>The scope of a candidate\<close>

definition changed_paths :: "pydict \<Rightarrow> string list res" where
  "changed_paths evidence =
     bindE (py_iter (dict_get evidence ''changed_entries'' (PTuple []))) (\<lambda>entries.
     Inr (concat (map (\<lambda>entry. filter (\<lambda>p. p \<noteq> []) (tl (split_on (CHR 0x09) (py_str entry)))) entries)))"

definition validate_scope :: "'w supervisor \<Rightarrow> campaign_snapshot \<Rightarrow> string \<Rightarrow> pydict \<Rightarrow> ('w, unit) op" where
  "validate_scope S s node_id evidence =
     and_then (checked (snapshot_node_spec s node_id)) (\<lambda>spec.
     and_then (outside (scope_guard (su_env S) (sp_worktree (cs_spec s)) (nd_allowed_paths spec))) (\<lambda>g.
     and_then (checked (changed_paths evidence)) (\<lambda>changed.
     demand (changed \<noteq> []) (ValidationFailure ''implementation produced no committed candidate diff'' None)
       (and_then (each (\<lambda>path. pure_res (guard_require (su_host S) g path)) changed) (\<lambda>_. give ())))))"

end
