(* ===== verification/Supervisor_Validation.thy ===== *)
theory Supervisor_Validation
  imports Supervisor_Dispatch
begin

text \<open>
  \<open>validate_node\<close> and \<open>_validation_correction\<close> of supervisor.py: the approved commands run against
  the exact candidate under a lease of a validator; a failure fails the node or, once and for one
  approved unittest assertion, requests a correction.  The body of the \<open>try\<close> raises together
  with the command that it was executing, which its handler reads.
\<close>

section \<open>Recording evidence\<close>

definition record_for ::
  "'w supervisor \<Rightarrow> string \<Rightarrow> string \<Rightarrow> string \<Rightarrow> evidence_kind \<Rightarrow> string \<Rightarrow> pydict \<Rightarrow> string \<Rightarrow> ('w, unit) op" where
  "record_for S evidence_id c node_id kind digest payload head =
     and_then (checked (evidence_post_init
       \<lparr>ed_evidence_id = evidence_id, ed_campaign_id = c, ed_node_id = Some node_id, ed_kind = kind,
        ed_digest = digest, ed_payload = PDict payload, ed_candidate_head = Some head\<rparr>)) (\<lambda>item.
     and_then (stored (record_evidence (Inr item))) (\<lambda>_. give ()))"

section \<open>A correction\<close>

definition scenario_allows :: "pyval \<Rightarrow> string \<Rightarrow> pyval \<Rightarrow> bool res" where
  "scenario_allows expectation command_id scenario =
     bindE (py_item scenario ''scenario_id'') (\<lambda>i.
     if \<not> py_eq i expectation then Inr False
     else bindE (py_item scenario ''validation_command_id'') (\<lambda>k. Inr (py_eq k (PStr command_id))))"

definition correction_stage ::
  "campaign_snapshot \<Rightarrow> node_snapshot \<Rightarrow> validation_command \<Rightarrow> int \<Rightarrow> int \<Rightarrow> bool" where
  "correction_stage s n command authority_epoch cancellation_epoch \<longleftrightarrow>
     vc_correction_policy command \<noteq> PNone \<and> ns_state n = NS_VALIDATING \<and> ns_validation_corrections n = 0
     \<and> ns_candidate_head n = None \<and> cs_authority_epoch s = authority_epoch
     \<and> cs_cancellation_epoch s = cancellation_epoch"

definition budget_suffices :: "campaign_snapshot \<Rightarrow> (budget_token \<times> int) list \<Rightarrow> bool" where
  "budget_suffices s needed \<longleftrightarrow>
     sum_list (map snd needed) \<le> cs_autonomous_rank_remaining s
     \<and> list_all (\<lambda>(token, count). count \<le>
          (case map_of (rev (map (\<lambda>b. (bb_token b, bb_remaining b)) (cs_budgets s))) token of
             None \<Rightarrow> 0 | Some r \<Rightarrow> r)) needed"

text \<open>What the store and the specification say of the correction.\<close>

definition correction_admitted ::
  "campaign_snapshot \<Rightarrow> node_snapshot \<Rightarrow> validation_command \<Rightarrow> pydict \<Rightarrow> int \<Rightarrow> int \<Rightarrow> bool res" where
  "correction_admitted s n command evidence authority_epoch cancellation_epoch =
     (if \<not> correction_stage s n command authority_epoch cancellation_epoch then Inr False
      else
        bindE (snapshot_node_spec s (ns_node_id n)) (\<lambda>spec.
        bindE (py_item (vc_correction_policy command) ''expectation_id'') (\<lambda>expectation.
        bindE (anyE (scenario_allows expectation (vc_command_id command)) (nd_acceptance_scenarios spec)) (\<lambda>allowed.
        if \<not> allowed then Inr False
        else
          bindE (recognizes_correction command (PDict evidence)) (\<lambda>recognized.
          if \<not> recognized then Inr False
          else
            bindE (correction_budget_requirements s (ns_node_id n)) (\<lambda>needed.
            Inr (sp_mode (cs_spec s) = AUTOMATED \<longrightarrow> budget_suffices s needed)))))))"

definition current_branch :: "'w supervisor \<Rightarrow> string \<Rightarrow> ('w, string) op" where
  "current_branch S worktree =
     and_then (outside (run_checked (su_env S) [''git'', ''branch'', ''--show-current''] worktree)) (\<lambda>out.
     give (py_strip out))"

definition correction_document ::
  "campaign_snapshot \<Rightarrow> string \<Rightarrow> validation_command \<Rightarrow> pydict \<Rightarrow> pydict \<Rightarrow> pydict" where
  "correction_document s node_id command policy evidence =
     (let c = sp_campaign_id (cs_spec s); digest = text_of evidence ''evidence_sha256''
      in policy @
         [(''command_id'', PStr (vc_command_id command)),
          (''candidate_head'', field_of evidence ''candidate_head''),
          (''evidence_id'', PStr (text_id [''validation-failed'', c, node_id, vc_command_id command, digest])),
          (''evidence_digest'', field_of evidence ''evidence_sha256''),
          (''failure_evidence'', PDict evidence),
          (''specification_digest'', PStr (sp_specification_digest (cs_spec s))),
          (''authority_epoch'', PInt (cs_authority_epoch s)),
          (''cancellation_epoch'', PInt (cs_cancellation_epoch s))])"

definition validation_correction ::
  "'w supervisor \<Rightarrow> campaign_snapshot \<Rightarrow> string \<Rightarrow> validation_command \<Rightarrow> pydict \<Rightarrow> int \<Rightarrow> int
    \<Rightarrow> ('w, pydict option) op" where
  "validation_correction S s node_id command evidence authority_epoch cancellation_epoch =
     and_then (checked (snapshot_node s node_id)) (\<lambda>n.
     and_then (check_deadline S s (Some n)) (\<lambda>_.
     and_then (checked (correction_admitted s n command evidence authority_epoch cancellation_epoch)) (\<lambda>admitted.
     if \<not> admitted then give None
     else
       let worktree = sp_worktree (cs_spec s); head = text_of evidence ''candidate_head''
       in and_then (outside (exact_repository_evidence (su_env S) worktree (opt_text (ns_start_head n)) head)) (\<lambda>repository.
          and_then (validate_scope S s node_id repository) (\<lambda>_.
          and_then (outside (publication_preflight (su_env S) worktree (sp_repository_remote (cs_spec s)) head None [])) (\<lambda>_.
          and_then (current_branch S worktree) (\<lambda>branch.
          if branch \<noteq> sp_branch (cs_spec s) then give None
          else if \<not> py_eq (field_of repository ''status_sha256'') (field_of evidence ''status_after_sha256'') then give None
          else and_then (checked (py_dict (vc_correction_policy command))) (\<lambda>policy.
            give (Some (correction_document s node_id command policy evidence)))))))))) "

section \<open>Running the approved commands\<close>

type_synonym ('w, 'a) run = "('w sup, failure \<times> validation_command option, 'a) proc"

definition during :: "validation_command option \<Rightarrow> ('w, 'a) op \<Rightarrow> ('w, 'a) run" where
  "during command m s = (case m s of (r, t) \<Rightarrow> (map_sum (\<lambda>exc. (exc, command)) id r, t))"

text \<open>\<open>subprocess.run(("git", "rev-parse", "HEAD"), ...).stdout.strip().casefold()\<close>\<close>

definition observed_head :: "'w supervisor \<Rightarrow> string \<Rightarrow> ('w, string) op" where
  "observed_head S root =
     and_then (outside (run_checked (su_env S) [''git'', ''rev-parse'', ''HEAD''] root)) (\<lambda>out.
     give (casefold (py_strip out)))"

definition validation_label :: "node_snapshot \<Rightarrow> string \<Rightarrow> string" where
  "validation_label n command_id =
     node_state_value (ns_state n) @ '':correction:'' @ show_int (ns_validation_corrections n) @ '':'' @ command_id"

definition execute_approved ::
  "'w supervisor \<Rightarrow> string \<Rightarrow> node_snapshot \<Rightarrow> string \<Rightarrow> string \<Rightarrow> validation_command \<Rightarrow> ('w, unit) op" where
  "execute_approved S c n root head command =
     and_then (outside (en_expand (su_env S) (vc_working_directory command))) (\<lambda>working.
     demand (working = root)
       (EvidenceError ''validation command working_directory differs from the exact worktree'')
    (and_then (outside (execute_trusted_command (su_env S) (trusted_of command head))) (\<lambda>result.
     record_for S (validation_id c (ns_node_id n) (vc_command_id command) (PStr head) (ns_state n)
         (ns_validation_corrections n))
       c (ns_node_id n) VK_VALIDATION (text_of result ''evidence_sha256'') result head)))"

definition validate_command ::
  "'w supervisor \<Rightarrow> string \<Rightarrow> node_snapshot \<Rightarrow> string \<Rightarrow> string \<Rightarrow> nat \<times> string \<Rightarrow> campaign_snapshot
    \<Rightarrow> ('w, campaign_snapshot) run" where
  "validate_command S c n root head = (\<lambda>(index, command_id) s.
     and_then (during None (if index = 0 then give s
        else consume_attempt S s BT_VALIDATION_EXECUTION (Some (ns_node_id n)) (validation_label n command_id))) (\<lambda>s.
     and_then (during None (checked (approved_command s command_id))) (\<lambda>command.
     and_then (during (Some command) (execute_approved S c n root head command)) (\<lambda>_. give s))))"

definition repository_id :: "string \<Rightarrow> string \<Rightarrow> string \<Rightarrow> string \<Rightarrow> string \<Rightarrow> string" where
  "repository_id scope c node_id base head = text_id [scope, c, node_id, base, head]"

definition freeze_event :: "node_snapshot \<Rightarrow> event_type" where
  "freeze_event n = (if ns_state n = NS_VALIDATING then EV_VALIDATION_PASSED else EV_REVALIDATION_PASSED)"

text \<open>What follows the last command: the exact diffs of the node and of the campaign, the scope,
  a last look at deadline and sources, and the transition.\<close>

definition freeze_candidate ::
  "'w supervisor \<Rightarrow> string \<Rightarrow> node_snapshot \<Rightarrow> actor \<Rightarrow> lease \<Rightarrow> string \<Rightarrow> string \<Rightarrow> campaign_snapshot
    \<Rightarrow> ('w, supervisor_decision) op" where
  "freeze_candidate S c n a l root head s =
     (let node_id = ns_node_id n; start = opt_text (ns_start_head n); base = sp_base_sha (cs_spec s)
      in and_then (outside (exact_repository_evidence (su_env S) root start head)) (\<lambda>local.
         and_then (validate_scope S s node_id local) (\<lambda>_.
         and_then (outside (exact_repository_evidence (su_env S) root base head)) (\<lambda>cumulative.
         and_then (record_for S (repository_id ''repository-node-local'' c node_id start head) c node_id
           VK_REPOSITORY (text_of local ''evidence_sha256'') local head) (\<lambda>_.
         and_then (record_for S (repository_id ''repository-campaign-cumulative'' c node_id base head) c node_id
           VK_REPOSITORY (text_of cumulative ''evidence_sha256'') cumulative head) (\<lambda>_.
         and_then (current S c) (\<lambda>s.
         and_then (checked (snapshot_node s node_id)) (\<lambda>m.
         and_then (check_deadline S s (Some m)) (\<lambda>_.
         and_then (verify_sources S s node_id) (\<lambda>_.
         and_then (apply_for S s (freeze_event n) head (Some node_id) (Some (ac_actor_id a)) (Some (ls_fencing_epoch l))
           ([(''candidate_head'', PStr head), (''candidate_tree'', field_of cumulative ''tree_sha''),
             (''candidate_diff_digest'', field_of cumulative ''diff_sha256''),
             (''candidate_node_diff_digest'', field_of local ''diff_sha256'')]
            @ (if freeze_event n = EV_REVALIDATION_PASSED
               then [(''budget_token'', PStr (budget_token_value BT_CLOSURE_DISPATCH)),
                     (''operation_id'', PStr (text_id [''closure-dispatch'', c, node_id]))]
               else []))) (\<lambda>t.
         give (decided c t (if freeze_event n = EV_VALIDATION_PASSED then ''CANDIDATE_FROZEN'' else ''CLOSURE_READY'')
           (Some node_id) None None))))))))))))"

definition run_validation ::
  "'w supervisor \<Rightarrow> string \<Rightarrow> node_snapshot \<Rightarrow> string list \<Rightarrow> actor \<Rightarrow> lease \<Rightarrow> campaign_snapshot
    \<Rightarrow> ('w, supervisor_decision) run" where
  "run_validation S c n required a l s =
     and_then (during None (outside (en_resolve (su_env S) (sp_worktree (cs_spec s))))) (\<lambda>root.
     and_then (during None (observed_head S root)) (\<lambda>head.
     and_then (thread (validate_command S c n root head) (zip [0..<length required] required) s) (\<lambda>s.
     during None (freeze_candidate S c n a l root head s))))"

section \<open>Failed validations\<close>

definition validation_caught :: "failure \<Rightarrow> bool" where
  "validation_caught exc \<longleftrightarrow> is_evidence_error exc \<or> is_authority_error exc \<or> is_scope_error exc
     \<or> is_os_error exc \<or> is_subprocess_error exc"

definition correction_caught :: "failure \<Rightarrow> bool" where
  "correction_caught exc \<longleftrightarrow> is_evidence_error exc \<or> is_scope_error exc \<or> is_os_error exc
     \<or> is_subprocess_error exc \<or> is_deadline_error exc"

fun measured_failure :: "failure \<Rightarrow> pydict option" where
  "measured_failure (ValidationFailure m e) = e"
| "measured_failure _ = None"

text \<open>The failed evidence as far as the store accepts it, and the exception to report.\<close>

definition record_failure ::
  "'w supervisor \<Rightarrow> string \<Rightarrow> string \<Rightarrow> validation_command option \<Rightarrow> failure
    \<Rightarrow> ('w, (pydict \<times> validation_command) option \<times> failure) op" where
  "record_failure S c node_id command exc =
     (case (measured_failure exc, command) of
        (Some evidence, Some vc) \<Rightarrow>
          catch_when is_authority_error
            (and_then (record_for S (text_id [''validation-failed'', c, node_id, vc_command_id vc,
                text_of evidence ''evidence_sha256'']) c node_id VK_VALIDATION (text_of evidence ''evidence_sha256'')
                evidence (text_of evidence ''candidate_head'')) (\<lambda>_. give (Some (evidence, vc), exc)))
            (\<lambda>_. give (None, EvidenceError ''failed validation evidence is invalid''))
      | _ \<Rightarrow> give (None, exc))"

definition correction_for ::
  "'w supervisor \<Rightarrow> campaign_snapshot \<Rightarrow> string \<Rightarrow> actor \<Rightarrow> lease \<Rightarrow> (pydict \<times> validation_command) option
    \<Rightarrow> ('w, pydict option) op" where
  "correction_for S s node_id a l failed =
     (case failed of
        None \<Rightarrow> give None
      | Some (evidence, vc) \<Rightarrow>
          catch_when correction_caught
            (validation_correction S s node_id vc evidence (ac_authority_epoch a) (ls_cancellation_epoch l))
            (\<lambda>_. give None))"

definition validation_failed ::
  "'w supervisor \<Rightarrow> string \<Rightarrow> node_snapshot \<Rightarrow> actor \<Rightarrow> lease \<Rightarrow> failure \<times> validation_command option
    \<Rightarrow> ('w, supervisor_decision) op" where
  "validation_failed S c n a l = (\<lambda>(exc, command).
     if is_deadline_error exc then and_then (current S c) (\<lambda>s. fail_deadline S s (Some n))
     else if \<not> validation_caught exc then fail exc
     else
       and_then (record_failure S c (ns_node_id n) command exc) (\<lambda>(failed, exc).
       and_then (current S c) (\<lambda>s.
       if cs_state s \<in> TERMINAL_CAMPAIGN_STATES then give (decided c s ''TERMINAL'' (Some (ns_node_id n)) None None)
       else
         and_then (correction_for S s (ns_node_id n) a l failed) (\<lambda>correction.
         let ty = (if correction \<noteq> None then EV_REQUEST_VALIDATION_CORRECTION
                   else if ns_state n = NS_VALIDATING then EV_VALIDATION_FAILED else EV_REVALIDATION_FAILED)
         in and_then (apply_for S s ty (failure_name exc) (Some (ns_node_id n)) (Some (ac_actor_id a))
              (Some (ls_fencing_epoch l))
              [(''reason'', PStr (failure_text exc)),
               (''correction'', case correction of None \<Rightarrow> PNone | Some d \<Rightarrow> PDict d)]) (\<lambda>t.
            give (decided c t (if correction \<noteq> None then ''VALIDATION_CORRECTION_READY'' else ''VALIDATION_FAILED'')
              (Some (ns_node_id n)) None None))))))"

text \<open>The \<open>finally\<close> clause: the lease is released; when that fails in a campaign that is over, the
  failure is dropped.\<close>

definition release_validator :: "'w supervisor \<Rightarrow> string \<Rightarrow> lease \<Rightarrow> ('w, unit) op" where
  "release_validator S c l =
     and_then (current S c) (\<lambda>s.
     attempt (release_for S s (ls_lease_id l))
       (\<lambda>exc. if cs_state s \<in> TERMINAL_CAMPAIGN_STATES then give () else fail exc)
       (\<lambda>_. give ()))"

definition validate_node :: "'w supervisor \<Rightarrow> string \<Rightarrow> string \<Rightarrow> ('w, supervisor_decision) op" where
  "validate_node S c node_id =
     and_then (current S c) (\<lambda>s.
     and_then (checked (snapshot_node s node_id)) (\<lambda>n.
     demand (ns_state n \<in> {NS_VALIDATING, NS_REVALIDATING}) (SupervisorError ''node is not ready for trusted validation'')
    (and_then (verify_sources S s node_id) (\<lambda>_.
     and_then (check_deadline S s (Some n)) (\<lambda>_.
     and_then (checked (snapshot_node_spec s node_id)) (\<lambda>spec.
     case nd_validation_command_ids spec of
       [] \<Rightarrow> fail (SupervisorError ''admitted node has no required trusted validation command'')
     | first # others \<Rightarrow>
         demand (nonempty_opt (ns_start_head n)) (SupervisorError ''admitted node has no immutable start head'')
        (and_then (consume_attempt S s BT_VALIDATION_EXECUTION (Some node_id) (validation_label n first)) (\<lambda>s.
         and_then (acquire_actor S s node_id AR_VALIDATOR None False) (\<lambda>(s, a, l).
         finally_do (attempt (run_validation S c n (first # others) a l s) (validation_failed S c n a l) give)
           (release_validator S c l))))))))))"

end
