(* ===== verification/Supervisor_Review.thy ===== *)
theory Supervisor_Review
  imports Supervisor_Validation
begin

text \<open>
  The reviews of supervisor.py: the dispatch of a cohort, the collection of its results, and the
  check that binds every supplied receipt and finding to the terminal evidence that the store
  attested (\<open>_verify_review_receipts\<close>), on which the freezing of findings and the closure rest;
  and the two events that a signed human receipt authorizes.
\<close>

section \<open>Dispatching a cohort\<close>

definition cohort_failed ::
  "'w supervisor \<Rightarrow> string \<Rightarrow> string \<Rightarrow> actor_role \<Rightarrow> failure \<Rightarrow> ('w, 'a) op" where
  "cohort_failed S c node_id role exc =
     (if is_budget_error exc then
        and_then (current S c) (\<lambda>s. and_then (fail_budget S s exc) (\<lambda>_. fail exc))
      else case exc of
        AttemptAlreadyReserved m \<Rightarrow> fail exc
      | _ \<Rightarrow> and_then (fail_dispatch S c node_id role exc) (\<lambda>_. fail exc))"

definition dispatch_cohort ::
  "'w supervisor \<Rightarrow> string \<Rightarrow> string \<Rightarrow> actor_role \<Rightarrow> string list \<Rightarrow> ('w, string list) op" where
  "dispatch_cohort S c node_id role cohort =
     catch (each (\<lambda>reviewer.
         and_then (dispatch_worker S c node_id role (Some reviewer) None) (\<lambda>l. give (al_lease_id l))) cohort)
       (cohort_failed S c node_id role)"

definition review_id_of :: "string \<Rightarrow> string \<Rightarrow> node_snapshot \<Rightarrow> string" where
  "review_id_of c node_id n = ccos_id [PStr ''review'', PStr c, PStr node_id, py_opt_str (ns_candidate_head n)]"

definition begin_review :: "'w supervisor \<Rightarrow> string \<Rightarrow> string \<Rightarrow> ('w, supervisor_decision) op" where
  "begin_review S c node_id =
     and_then (current S c) (\<lambda>s.
     and_then (checked (snapshot_node s node_id)) (\<lambda>n.
     demand (ns_state n = NS_CANDIDATE_FROZEN) (SupervisorError ''candidate is not frozen'')
    (and_then (verify_sources S s node_id) (\<lambda>_.
     let review_id = review_id_of c node_id n
     in and_then (apply_for S s EV_START_REVIEW review_id (Some node_id) None None
          [(''review_id'', PStr review_id),
           (''review_cohort'', PList (map PStr (sp_required_review_cohort (cs_spec s)))),
           (''budget_token'', PStr (budget_token_value BT_REVIEW_DISPATCH)),
           (''operation_id'', PStr (text_id [''review-dispatch'', review_id]))]) (\<lambda>t.
        and_then (dispatch_cohort S c node_id AR_REVIEWER (sp_required_review_cohort (cs_spec t))) (\<lambda>leases.
        and_then (current S c) (\<lambda>u.
        give (decided c u ''REVIEW_DISPATCHED'' (Some node_id) (Some ''review_complete'')
          (Some [(''review_id'', PStr review_id), (''leases'', PList (map PStr leases))]))))))))) "

section \<open>Verifying receipts\<close>

definition texts_of :: "pydict \<Rightarrow> string \<Rightarrow> string list res" where
  "texts_of d k = bindE (py_iter (dict_get d k (PTuple []))) (\<lambda>vs. Inr (map py_str vs))"

text \<open>\<open>v in {...}\<close> raises for a value without a hash.\<close>

definition py_member :: "pyval \<Rightarrow> pyval list \<Rightarrow> bool res" where
  "py_member v vs = requireE (hashable v) (TypeError ''unhashable type'') (Inr (list_ex (py_eq v) vs))"

definition nonblank :: "pyval \<Rightarrow> bool" where
  "nonblank v = (case v of PStr s \<Rightarrow> py_strip s \<noteq> [] | _ \<Rightarrow> False)"

text \<open>A blocking finding rests on an acceptance expectation, an invariant with evidence, or a
  regression that can be reproduced.\<close>

definition has_basis :: "node_spec \<Rightarrow> finding \<Rightarrow> bool res" where
  "has_basis spec f =
     bindE (mapE (\<lambda>scenario. py_item scenario ''scenario_id'') (nd_acceptance_scenarios spec)) (\<lambda>acceptance_ids.
     bindE (py_dict (fi_details f)) (\<lambda>d.
     bindE (py_member (field_of d ''acceptance_expectation_id'') acceptance_ids) (\<lambda>expected.
     Inr (expected
       \<or> nonblank (field_of d ''invariant'') \<and> nonblank (field_of d ''evidence'')
       \<or> (case as_mapping (field_of d ''regression'') of
            None \<Rightarrow> False
          | Some r \<Rightarrow> list_all (\<lambda>k. nonblank (field_of r k)) [''reproduction'', ''expected'', ''actual''])))))"

text \<open>One finding of a receipt: the finding as it is, and whether it blocks.\<close>

definition verify_finding :: "node_spec \<Rightarrow> pyval \<Rightarrow> ('s, failure, pydict \<times> bool) proc" where
  "verify_finding spec raw =
     (case as_mapping raw of
        None \<Rightarrow> fail (SupervisorError ''review receipt finding evidence is not an object'')
      | Some item \<Rightarrow>
          and_then (checked (finding_from_dict FO_REVIEW (PDict item))) (\<lambda>f.
          and_then (if closure_blocking f then
              and_then (checked (has_basis spec f)) (\<lambda>basis.
              demand basis (SupervisorError
                 ''blocking finding requires an acceptance, invariant, or reproducible regression basis'') (give ()))
            else give ()) (\<lambda>_.
          demand (text_of item ''finding_id'' \<noteq> [])
            (SupervisorError ''review receipt finding identifiers must be nonempty'')
            (give (item, closure_blocking f)))))"

text \<open>What the attested evidence, its actor and its lease say of a receipt.\<close>

definition evidence_bound ::
  "campaign_snapshot \<Rightarrow> string \<Rightarrow> actor_role \<Rightarrow> string \<Rightarrow> string \<Rightarrow> string \<Rightarrow> pydict \<Rightarrow> pydict \<Rightarrow> bool" where
  "evidence_bound s node_id role reviewer_id head digest payload result \<longleftrightarrow>
     is_text payload ''receipt_digest'' digest
     \<and> is_text payload ''campaign_id'' (sp_campaign_id (cs_spec s))
     \<and> is_text payload ''node_id'' node_id \<and> is_text payload ''candidate_head'' head
     \<and> is_text payload ''role'' (actor_role_value role)
     \<and> is_text result ''reviewer_id'' reviewer_id \<and> is_text result ''candidate_head'' head"

definition reviewer_authority ::
  "campaign_snapshot \<Rightarrow> string \<Rightarrow> actor_role \<Rightarrow> string \<Rightarrow> string \<Rightarrow> actor \<Rightarrow> lease \<Rightarrow> bool" where
  "reviewer_authority s node_id role reviewer_id actor_id a l \<longleftrightarrow>
     ac_role a = role \<and> ac_campaign_id a = sp_campaign_id (cs_spec s) \<and> ac_node_id a = Some node_id
     \<and> ac_principal_id a = Some reviewer_id \<and> ls_actor_id l = actor_id
     \<and> ls_campaign_id l = sp_campaign_id (cs_spec s) \<and> ls_node_id l = node_id"

definition attested_result ::
  "campaign_snapshot \<Rightarrow> node_snapshot \<Rightarrow> actor_role \<Rightarrow> pydict \<Rightarrow> ('w, pydict) op" where
  "attested_result s n role receipt =
     (let reviewer_id = text_of receipt ''reviewer_id''; head = text_of receipt ''candidate_head'';
          digest = text_of receipt ''receipt_digest''; c = sp_campaign_id (cs_spec s); node_id = ns_node_id n
      in demand (Some head = ns_candidate_head n)
           (SupervisorError ''review receipt is bound to another candidate head'')
        (demand (digest \<noteq> []) (SupervisorError ''review receipt has no evidence digest'')
        (and_then (queried (find_evidence_by_digest c node_id digest VK_REVIEW head)) (\<lambda>found.
         case found of
           [item] \<Rightarrow>
             and_then (checked (py_dict (ed_payload item))) (\<lambda>payload.
             case as_mapping (field_of payload ''result_payload'') of
               None \<Rightarrow> fail (SupervisorError ''review receipt evidence has no structured result'')
             | Some result \<Rightarrow>
                 demand (evidence_bound s node_id role reviewer_id head digest payload result)
                   (SupervisorError ''review receipt evidence binding is inconsistent'')
                (let actor_id = text_of payload ''actor_id''; lease_id = text_of payload ''lease_id''
                 in and_then (catch (and_then (queried (get_actor actor_id)) (\<lambda>a.
                        and_then (queried (get_lease lease_id)) (\<lambda>l. give (a, l))))
                      (\<lambda>exc. fail (SupervisorError ''review receipt actor evidence is missing''))) (\<lambda>(a, l).
                    demand (reviewer_authority s node_id role reviewer_id actor_id a l)
                      (SupervisorError ''review receipt actor authority is inconsistent'')
                   (and_then (catch (queried (verify_terminal_evidence_attestation (ed_evidence_id item) digest
                        actor_id lease_id (text_of payload ''native_thread_id'') (text_of payload ''native_turn_id'')
                        (Some reviewer_id)))
                      (\<lambda>exc. fail (SupervisorError ''review receipt lacks exact native terminal attestation''))) (\<lambda>_.
                    give result)))))
         | _ \<Rightarrow> fail (SupervisorError ''review receipt digest has no unique persisted terminal evidence''))))) "

definition verify_findings_of ::
  "campaign_snapshot \<Rightarrow> node_snapshot \<Rightarrow> pyval \<Rightarrow> pyval list \<Rightarrow> ('w, pydict list) op" where
  "verify_findings_of s n verdict raws =
     and_then (checked (snapshot_node_spec s (ns_node_id n))) (\<lambda>spec.
     and_then (each (verify_finding spec) raws) (\<lambda>verified.
     demand (py_eq verdict (PStr ''BLOCK'') = list_ex snd verified)
       (SupervisorError ''review verdict contradicts its material finding evidence'')
       (give (map fst verified))))"

definition verify_receipt_of ::
  "campaign_snapshot \<Rightarrow> node_snapshot \<Rightarrow> actor_role \<Rightarrow> pydict \<Rightarrow> ('w, pydict list) op" where
  "verify_receipt_of s n role receipt =
     and_then (attested_result s n role receipt) (\<lambda>result.
     and_then (checked (texts_of result ''resolved_finding_ids'')) (\<lambda>evidence_resolved.
     and_then (checked (texts_of receipt ''resolved_finding_ids'')) (\<lambda>supplied_resolved.
     demand (evidence_resolved = supplied_resolved)
       (SupervisorError ''review receipt resolution evidence was changed'')
    (let verdict = field_of result ''verdict''
     in and_then (checked (py_member verdict [PStr ''PASS'', PStr ''BLOCK''])) (\<lambda>known.
        demand (known \<and> py_eq (field_of receipt ''verdict'') verdict)
          (SupervisorError ''review verdict differs from persisted terminal evidence'')
       (case dict_get result ''findings'' (PTuple []) of
          PTuple raws \<Rightarrow> verify_findings_of s n verdict raws
        | PList raws \<Rightarrow> verify_findings_of s n verdict raws
        | _ \<Rightarrow> fail (SupervisorError ''review receipt findings evidence is not an array'')))))))"

definition exact_cohort :: "campaign_snapshot \<Rightarrow> pydict list \<Rightarrow> bool" where
  "exact_cohort s receipts \<longleftrightarrow>
     (let reviewers = map (\<lambda>r. text_of r ''reviewer_id'') receipts
      in distinct reviewers \<and> sort reviewers = sort (sp_required_review_cohort (cs_spec s)))"

definition by_finding_id :: "pydict list \<Rightarrow> pydict list" where
  "by_finding_id items = sort_key (\<lambda>d. text_of d ''finding_id'') items"

definition findings_digest :: "pydict list \<Rightarrow> string" where
  "findings_digest items = canonical_json_digest (PList (map PDict items))"

text \<open>\<open>{**item, "blocking": Finding.from_dict(item).closure_blocking}\<close>\<close>

definition closure_item :: "pydict \<Rightarrow> pyval res" where
  "closure_item item =
     bindE (finding_from_dict FO_REVIEW (PDict item)) (\<lambda>f.
     Inr (PDict (dict_set ''blocking'' (PBool (closure_blocking f)) item)))"

definition verify_review_receipts ::
  "campaign_snapshot \<Rightarrow> node_snapshot \<Rightarrow> pydict list \<Rightarrow> pydict list \<Rightarrow> actor_role \<Rightarrow> ('w, pyval list) op" where
  "verify_review_receipts s n receipts findings role =
     demand (exact_cohort s receipts) (SupervisorError ''review receipts do not match the exact frozen cohort'')
    (and_then (each (verify_receipt_of s n role) receipts) (\<lambda>verified.
     demand (findings_digest (by_finding_id findings) = findings_digest (by_finding_id (concat verified)))
       (SupervisorError ''review findings differ from persisted receipt evidence'')
    (and_then (checked (mapE closure_item (concat verified))) (\<lambda>items.
     and_then (checked (unique_findings items (if role = AR_CLOSURE_REVIEWER then FO_CLOSURE else FO_REVIEW))) (\<lambda>fs.
     give (map finding_to_dict fs))))))"

section \<open>Freezing the findings\<close>

definition cohort_digest :: "campaign_snapshot \<Rightarrow> string" where
  "cohort_digest s = canonical_json_digest (PTuple (map PStr (sp_required_review_cohort (cs_spec s))))"

definition freeze_review ::
  "'w supervisor \<Rightarrow> string \<Rightarrow> string \<Rightarrow> pydict list \<Rightarrow> pydict list \<Rightarrow> ('w, supervisor_decision) op" where
  "freeze_review S c node_id receipts findings =
     and_then (current S c) (\<lambda>s.
     and_then (checked (snapshot_node s node_id)) (\<lambda>n.
     demand (ns_state n = NS_CHECKS_AND_REVIEW) (SupervisorError ''node is not waiting for the review cohort'')
    (and_then (verify_sources S s node_id) (\<lambda>_.
     and_then (verify_review_receipts s n receipts findings AR_REVIEWER) (\<lambda>verified.
     and_then (apply_for S s EV_FREEZE_FINDINGS (canonical_json_digest (PList verified)) (Some node_id) None None
       [(''findings'', PList verified), (''receipts'', PList (map PDict receipts))]) (\<lambda>t.
     and_then (stored (record_review (review_id_of c node_id n) c node_id (cohort_digest t)
       (opt_text (ns_candidate_head n)) ''FROZEN'' (Some [(''receipts'', PList (map PDict receipts))]))) (\<lambda>_.
     and_then (checked (snapshot_node t node_id)) (\<lambda>m.
     let blocking = map fi_finding_id (filter fi_blocking (ns_findings m))
     in give (decided c t ''FINDINGS_FROZEN'' (Some node_id)
          (if blocking = [] then None else Some ''repair_authorized'')
          (Some [(''blocking_finding_ids'', PList (map PStr blocking))]))))))))))"

section \<open>Collecting a cohort\<close>

definition recalled_worker :: "'w supervisor \<Rightarrow> string \<Rightarrow> ('w, worker) op" where
  "recalled_worker S lease_id =
     and_then (worker_of lease_id) (\<lambda>found.
     case found of
       Some wk \<Rightarrow> give wk
     | None \<Rightarrow>
         and_then (persisted_terminal S lease_id) (\<lambda>receipt.
         and_then (queried (get_actor (text_of receipt ''actor_id''))) (\<lambda>a.
         and_then (queried (get_lease lease_id)) (\<lambda>l.
         and_then (current S (text_of receipt ''campaign_id'')) (\<lambda>s.
         and_then (host_lease S s (text_of receipt ''node_id'') (ac_role a) a l) (\<lambda>hl.
         give \<lparr>wk_lease = hl, wk_role = ac_role a, wk_reviewer_id = ac_principal_id a\<rparr>))))))"

definition text_finding :: "pyval \<Rightarrow> ('s, failure, pydict) proc" where
  "text_finding raw =
     (case as_mapping raw of
        None \<Rightarrow> fail (SupervisorError ''review finding must be an object'')
      | Some item \<Rightarrow>
          demand (text_of item ''finding_id'' \<noteq> []) (SupervisorError ''review finding identifiers must be nonempty'')
            (give item))"

definition review_entry_of :: "pydict \<Rightarrow> pydict \<Rightarrow> string \<Rightarrow> string \<Rightarrow> pydict" where
  "review_entry_of receipt payload reviewer_id head =
     [(''reviewer_id'', PStr reviewer_id), (''candidate_head'', PStr head),
      (''receipt_digest'', field_of receipt ''receipt_digest''), (''verdict'', field_of payload ''verdict''),
      (''resolved_finding_ids'',
         (case dict_get payload ''resolved_finding_ids'' (PList []) of PList vs \<Rightarrow> PList vs | _ \<Rightarrow> PList []))]"

definition collect_review ::
  "'w supervisor \<Rightarrow> int option \<Rightarrow> string \<Rightarrow> ('w, pydict \<times> pydict list) op" where
  "collect_review S timeout lease_id =
     and_then (worker_of lease_id) (\<lambda>found.
     and_then (case found of
         Some wk \<Rightarrow> give (wk_reviewer_id wk)
       | None \<Rightarrow>
           and_then (persisted_terminal S lease_id) (\<lambda>receipt.
           and_then (queried (get_actor (text_of receipt ''actor_id''))) (\<lambda>a. give (ac_principal_id a)))) (\<lambda>reviewer.
     case reviewer of
       None \<Rightarrow> fail (SupervisorError ''review worker has no frozen reviewer identity'')
     | Some r \<Rightarrow>
         and_then (complete_worker S lease_id timeout False) (\<lambda>receipt.
         and_then (checked (py_dict (field_of receipt ''result_payload''))) (\<lambda>payload.
         let reviewer_id = py_str (dict_get payload ''reviewer_id'' (PStr r));
             head = py_str (dict_get payload ''candidate_head'' (field_of receipt ''candidate_head''))
         in demand (reviewer_id = r) (SupervisorError ''reviewer result changed its bound reviewer identity'')
           (demand (py_eq (PStr head) (field_of receipt ''candidate_head''))
              (SupervisorError ''reviewer result changed its bound candidate head'')
           (case dict_get payload ''findings'' (PList []) of
              PList raws \<Rightarrow>
                and_then (each text_finding raws) (\<lambda>findings.
                give (review_entry_of receipt payload reviewer_id head, findings))
            | _ \<Rightarrow> fail (SupervisorError ''reviewer findings must be an array'')))))))"

definition collect_review_cohort ::
  "'w supervisor \<Rightarrow> string list \<Rightarrow> int option \<Rightarrow> ('w, pydict list \<times> pydict list) op" where
  "collect_review_cohort S lease_ids timeout =
     and_then (each (recalled_worker S) lease_ids) (\<lambda>workers.
     case workers of
       [] \<Rightarrow> fail (SupervisorError ''review cohort contains an unknown in-process lease'')
     | wk # others \<Rightarrow>
         let c = al_campaign_id (wk_lease wk); node_id = al_node_id (wk_lease wk); role = wk_role wk
         in demand (list_all (\<lambda>v. al_campaign_id (wk_lease v) = c \<and> al_node_id (wk_lease v) = node_id
                \<and> wk_role v = role) others \<and> role \<in> {AR_REVIEWER, AR_CLOSURE_REVIEWER})
              (SupervisorError ''review cohort lease bindings are inconsistent'')
           (catch (and_then (each (collect_review S timeout) lease_ids) (\<lambda>results.
                give (map fst results, concat (map snd results))))
              (\<lambda>exc. and_then (fail_dispatch S c node_id role exc) (\<lambda>_. fail exc))))"

section \<open>Human authorization\<close>

definition authorize_with ::
  "'w supervisor \<Rightarrow> string \<Rightarrow> event_type \<Rightarrow> string \<Rightarrow> string \<Rightarrow> (campaign_snapshot \<Rightarrow> pydict res) \<Rightarrow> pydict
    \<Rightarrow> ('w, supervisor_decision) op" where
  "authorize_with S c ty action node_id extra receipt =
     and_then (current S c) (\<lambda>s.
     and_then (checked (extra s)) (\<lambda>fields.
     let receipt_id = receipt_text receipt ''receipt_id''; digest = canonical_json_digest (PDict receipt)
     in and_then (checked (supervisor_event s ty (if receipt_id \<noteq> [] then receipt_id else digest) (Some node_id) None None
          (fields @ [(''authorization_receipt_id'', PStr receipt_id),
                     (''authorization_receipt_digest'', PStr digest)]))) (\<lambda>e.
        and_then (stored (apply_human_authorized_event (su_host S) (Inr e) receipt)) (\<lambda>reduction.
        give (decided c (fst reduction) action (Some node_id) None None)))))"

definition repair_fields :: "string \<Rightarrow> campaign_snapshot \<Rightarrow> pydict res" where
  "repair_fields node_id s =
     bindE (snapshot_node s node_id) (\<lambda>n.
     Inr [(''finding_ids'', PList (map (\<lambda>f. PStr (fi_finding_id f)) (filter fi_blocking (ns_findings n))))])"

definition authorize_repair :: "'w supervisor \<Rightarrow> string \<Rightarrow> string \<Rightarrow> pydict \<Rightarrow> ('w, supervisor_decision) op" where
  "authorize_repair S c node_id receipt =
     authorize_with S c EV_AUTHORIZE_REPAIR ''REPAIR_AUTHORIZED'' node_id (repair_fields node_id) receipt"

definition authorize_publication :: "'w supervisor \<Rightarrow> string \<Rightarrow> string \<Rightarrow> pydict \<Rightarrow> ('w, supervisor_decision) op" where
  "authorize_publication S c node_id receipt =
     authorize_with S c EV_AUTHORIZE_PUBLICATION ''PUBLICATION_AUTHORIZED'' node_id (\<lambda>_. Inr []) receipt"

section \<open>Closure\<close>

text \<open>\<open>set.intersection\<close> of the resolved findings of all receipts\<close>

fun resolved_by_all :: "string list list \<Rightarrow> string list" where
  "resolved_by_all [] = []"
| "resolved_by_all (xs # xss) = filter (\<lambda>x. list_all (\<lambda>ys. x \<in> set ys) xss) xs"

definition complete_closure ::
  "'w supervisor \<Rightarrow> string \<Rightarrow> string \<Rightarrow> pydict list \<Rightarrow> pyval list \<Rightarrow> pydict list \<Rightarrow> ('w, supervisor_decision) op" where
  "complete_closure S c node_id receipts resolved_finding_ids findings =
     and_then (current S c) (\<lambda>s.
     and_then (checked (snapshot_node s node_id)) (\<lambda>n.
     demand (ns_state n = NS_CLOSURE) (SupervisorError ''node is not in closure'')
    (and_then (verify_sources S s node_id) (\<lambda>_.
     and_then (verify_review_receipts s n receipts findings AR_CLOSURE_REVIEWER) (\<lambda>verified.
     and_then (checked (mapE (\<lambda>r. texts_of r ''resolved_finding_ids'') receipts)) (\<lambda>resolutions.
     let resolved = resolved_by_all resolutions; sorted = PList (map PStr (sorted_set resolved))
     in demand (set (map py_str resolved_finding_ids) = set resolved)
          (SupervisorError ''closure resolution differs from the exact verified cohort receipts'')
       (and_then (apply_for S s EV_COMPLETE_CLOSURE
          (canonical_json_digest (PDict [(''resolved'', sorted), (''findings'', PList verified)])) (Some node_id) None None
          [(''resolved_finding_ids'', sorted), (''findings'', PList verified)]) (\<lambda>t.
        and_then (stored (record_review
          (ccos_id [PStr ''closure-review'', PStr c, PStr node_id, py_opt_str (ns_candidate_head n)]) c node_id
          (cohort_digest t) (opt_text (ns_candidate_head n)) ''CLOSED''
          (Some [(''receipts'', PList (map PDict receipts))]))) (\<lambda>_.
        and_then (checked (snapshot_node t node_id)) (\<lambda>m.
        give (decided c t (if ns_state m = NS_READY_TO_PUBLISH then ''CLOSURE_PASSED'' else ''CLOSURE_FAILED'')
          (Some node_id) None None)))))))))))"

end
