(* ===== verification/Supervisor_Publication.thy ===== *)
theory Supervisor_Publication
  imports Supervisor_Review
begin

text \<open>
  The publication of a candidate in supervisor.py: the body of a pull request from stored facts,
  the start of an effect after its hosted checks and preflight, its execution by the effect
  driver, and its reconciliation.
\<close>

section \<open>The order of the effects\<close>

definition next_publication :: "campaign_snapshot \<Rightarrow> node_snapshot \<Rightarrow> string option res" where
  "next_publication s n =
     bindE (get_tuple (sp_publication_authority (cs_spec s)) ''required_effects'') (\<lambda>sequence.
     let k = length (ns_completed_publication_effects n)
     in Inr (if k < length sequence then Some (py_str (sequence ! k)) else None))"

section \<open>The body of a pull request\<close>

text \<open>\<open>" ".join(text.split()).replace("|", "&#124;")\<close>\<close>

fun words_of :: "string \<Rightarrow> string \<Rightarrow> string list" where
  "words_of w [] = (if w = [] then [] else [w])"
| "words_of w (c # cs) =
     (if py_space c then (if w = [] then words_of [] cs else w # words_of [] cs) else words_of (w @ [c]) cs)"

definition cell_text :: "string \<Rightarrow> string" where
  "cell_text v = concat (map (\<lambda>c. if c = CHR ''|'' then ''&#124;'' else [c]) (join '' '' (words_of [] v)))"

text \<open>\<open>subprocess.list2cmdline\<close>: the first argument counts the backslashes not yet written.\<close>

definition backslashes :: "nat \<Rightarrow> string" where
  "backslashes k = replicate k (CHR 0x5C)"

fun quoted_chars :: "nat \<Rightarrow> bool \<Rightarrow> string \<Rightarrow> string" where
  "quoted_chars k q [] = backslashes (if q then 2 * k else k)"
| "quoted_chars k q (c # cs) =
     (if c = CHR 0x5C then quoted_chars (Suc k) q cs
      else if c = CHR 0x22 then backslashes (2 * k) @ [CHR 0x5C, CHR 0x22] @ quoted_chars 0 q cs
      else backslashes k @ c # quoted_chars 0 q cs)"

definition quoted_argument :: "string \<Rightarrow> string" where
  "quoted_argument arg =
     (if arg = [] \<or> CHR '' '' \<in> set arg \<or> CHR 0x09 \<in> set arg
      then CHR 0x22 # quoted_chars 0 True arg @ [CHR 0x22] else quoted_chars 0 False arg)"

definition list2cmdline :: "string list \<Rightarrow> string" where
  "list2cmdline args = join '' '' (map quoted_argument args)"

text \<open>The search of \<open>(?im)^\s*(?:-\s*)?label:\<close>.\<close>

definition reserved_field :: "string \<Rightarrow> string \<Rightarrow> bool" where
  "reserved_field label body = list_ex (\<lambda>t. field_rest label t \<noteq> None) (body # line_starts body)"

text \<open>The stored diff of the exact candidate, and the paths that it changes.\<close>

definition repository_facts :: "campaign_snapshot \<Rightarrow> node_snapshot \<Rightarrow> store \<Rightarrow> evidence option res" where
  "repository_facts s n db =
     get_evidence (ccos_id [PStr ''repository-campaign-cumulative'', PStr (sp_campaign_id (cs_spec s)),
       PStr (ns_node_id n), PStr (sp_base_sha (cs_spec s)), py_opt_str (ns_candidate_head n)]) db"

definition facts_exact :: "node_snapshot \<Rightarrow> evidence \<Rightarrow> bool res" where
  "facts_exact n item =
     (if ed_kind item \<noteq> VK_REPOSITORY \<or> ed_candidate_head item \<noteq> ns_candidate_head n then Inr False
      else bindE (py_get (ed_payload item) ''diff_sha256'' PNone) (\<lambda>v.
        Inr (py_eq v (py_opt_str (ns_candidate_diff_digest n)))))"

definition stored_paths :: "evidence \<Rightarrow> string list res" where
  "stored_paths item =
     bindE (bindE (py_get (ed_payload item) ''changed_entries'' (PTuple [])) py_iter) (\<lambda>entries.
     Inr (concat (map (\<lambda>e. tl (split_on (CHR 0x09) (py_str e))) entries)))"

type_synonym check_row = "string \<times> string \<times> string \<times> string"

definition set_row :: "check_row \<Rightarrow> check_row list \<Rightarrow> check_row list" where
  "set_row r rows =
     (if list_ex (\<lambda>q. fst q = fst r) rows then map (\<lambda>q. if fst q = fst r then r else q) rows else rows @ [r])"

definition default_row :: "check_row \<Rightarrow> check_row list \<Rightarrow> check_row list" where
  "default_row r rows = (if list_ex (\<lambda>q. fst q = fst r) rows then rows else rows @ [r])"

definition validation_row ::
  "'w supervisor \<Rightarrow> campaign_snapshot \<Rightarrow> node_snapshot \<Rightarrow> string \<Rightarrow> check_row list \<Rightarrow> ('w, check_row list) op" where
  "validation_row S s n command_id rows =
     (let missing = SupervisorError (''pull request metadata requires persisted validation: '' @ command_id)
      in and_then (queried (command_receipt s n command_id)) (\<lambda>found.
         case found of
           None \<Rightarrow> fail missing
         | Some item \<Rightarrow>
             demand (ed_kind item = VK_VALIDATION \<and> ed_candidate_head item = ns_candidate_head n) missing
            (and_then (checked (approved_command s command_id)) (\<lambda>command.
             and_then (checked (evidence_payload item)) (\<lambda>payload.
             and_then (outside (verify_command_evidence (su_env S)
               (trusted_of command (opt_text (ns_candidate_head n))) payload)) (\<lambda>_.
             give (set_row (command_id, list2cmdline (vc_executable command # vc_arguments command),
               ed_evidence_id item, ''PASS'') rows)))))))"

definition all_rows ::
  "'w supervisor \<Rightarrow> campaign_snapshot \<Rightarrow> node_snapshot \<Rightarrow> node_spec \<Rightarrow> string \<Rightarrow> ('w, check_row list) op" where
  "all_rows S s n spec operation_id =
     and_then (thread (validation_row S s n) (nd_validation_command_ids spec) []) (\<lambda>rows.
     let filled = foldl (\<lambda>rs name. default_row (name, ''Not configured for this node'',
             sp_specification_digest (cs_spec s), ''NOT_CONFIGURED'') rs) rows VALIDATION_CHECKS
     in give (if ''pr-metadata'' \<in> set (nd_validation_command_ids spec) then filled
          else set_row (''pr-metadata'', ''check-pr-body.py validate_body'', operation_id,
            ''PASS (metadata consistency)'') filled))"

definition row_line :: "check_row \<Rightarrow> string" where
  "row_line = (\<lambda>(name, command, evidence_id, outcome).
     ''| '' @ join '' | '' (map cell_text [name, command, evidence_id, outcome]) @ '' |'')"

definition commas :: "string list \<Rightarrow> string" where
  "commas xs = join '', '' xs"

definition or_none :: "string \<Rightarrow> string" where
  "or_none x = (if x = [] then ''None'' else x)"

definition acceptance_text :: "node_spec \<Rightarrow> string res" where
  "acceptance_text spec =
     (if nd_acceptance_scenarios spec = [] then
        Inr (nd_objective spec @ ''. Required commands: '' @ commas (nd_validation_command_ids spec))
      else bindE (mapE (\<lambda>v. item_str v ''expectation'') (nd_acceptance_scenarios spec)) (\<lambda>es. Inr (join ''; '' es)))"

definition metadata_lines ::
  "campaign_snapshot \<Rightarrow> node_snapshot \<Rightarrow> string list \<Rightarrow> string \<Rightarrow> check_row list \<Rightarrow> string list \<Rightarrow> string \<Rightarrow> string list" where
  "metadata_lines s n paths acceptance rows effects operation_id =
     (let spec = cs_spec s
      in [''## Requested outcome'', [],
          ''- Work mode: CAMPAIGN'',
          ''- Campaign ID: '' @ cell_text (sp_campaign_id spec),
          ''- Objective: '' @ cell_text (sp_objective spec),
          ''- Objective kind: '' @ objective_kind_value (sp_objective_kind spec),
          ''- Exact base SHA: '' @ sp_base_sha spec,
          ''- Exact candidate head SHA: '' @ opt_text (ns_candidate_head n),
          ''- Specification digest: '' @ sp_specification_digest spec, [],
          ''## Scope'', [],
          ''- Changed paths: '' @ cell_text (or_none (commas paths)),
          ''- Acceptance criteria: '' @ cell_text acceptance,
          ''- Explicit non-goals: Changes outside the admitted campaign scope (''
            @ cell_text (commas (sp_allowed_paths spec)) @ ''), unlisted effects, and unapproved acceptance changes.'', [],
          ''## Validation'', [],
          ''| Check | Command | Evidence ID | Result |'',
          ''|---|---|---|---|'']
         @ map row_line rows @
         [[], ''## Review'', [],
          ''- Frozen candidate diff digest: '' @ opt_text (ns_candidate_diff_digest n),
          ''- Required review cohort: '' @ cell_text (commas (sp_required_review_cohort spec)),
          ''- Frozen finding IDs: '' @ cell_text (or_none (commas (map fi_finding_id (ns_findings n)))),
          ''- Repair used: '' @ (if ns_repair_attempts n \<noteq> 0 then ''Yes'' else ''No''),
          ''- Closure result: '' @ (if ns_closure_generations n \<noteq> 0 then ''PASS''
             else ''Not required: frozen review has no blocking findings''), [],
          ''## Publication authority'', [],
          ''- Allowed effects: '' @ commas effects,
          ''- Exact operation IDs: '' @ commas (ns_publication_operation_ids n @ [operation_id]), []])"

definition narrative_free :: "string \<Rightarrow> bool" where
  "narrative_free narrative \<longleftrightarrow>
     \<not> list_ex (\<lambda>heading. contains heading narrative) REQUIRED_HEADINGS
     \<and> \<not> list_ex (\<lambda>label. reserved_field label narrative) REQUIRED_FIELDS"

text \<open>\<open>_render_campaign_pr_body\<close>\<close>

definition render_body ::
  "'w supervisor \<Rightarrow> campaign_snapshot \<Rightarrow> node_snapshot \<Rightarrow> string \<Rightarrow> string \<Rightarrow> ('w, string) op" where
  "render_body S s n narrative operation_id =
     demand (narrative_free narrative)
       (SupervisorError ''pull request narrative must omit reserved metadata sections and fields'')
    (and_then (checked (snapshot_node_spec s (ns_node_id n))) (\<lambda>spec.
     let inexact = SupervisorError ''pull request metadata requires persisted exact-candidate repository evidence''
     in and_then (queried (repository_facts s n)) (\<lambda>found.
        case found of
          None \<Rightarrow> fail inexact
        | Some item \<Rightarrow>
            and_then (checked (facts_exact n item)) (\<lambda>exact.
            demand exact inexact
           (and_then (checked (stored_paths item)) (\<lambda>paths.
            and_then (all_rows S s n spec operation_id) (\<lambda>rows.
            and_then (checked (acceptance_text spec)) (\<lambda>acceptance.
            and_then (checked (bindE (bindE (py_item (sp_publication_authority (cs_spec s)) ''allowed_effects'') py_iter)
               (mapE (\<lambda>v. case v of PStr e \<Rightarrow> Inr e | _ \<Rightarrow> Inl (TypeError ''sequence item: expected str instance''))))) (\<lambda>effects.
            let metadata = join [CHR 0x0A] (metadata_lines s n paths acceptance rows effects operation_id);
                body = (if py_strip narrative = [] then [] else py_strip narrative @ [CHR 0x0A, CHR 0x0A]) @ metadata;
                failures = validate_body False (opt_text (ns_candidate_head n)) (sp_base_sha (cs_spec s)) ''CAMPAIGN''
                  (sp_campaign_id (cs_spec s)) (sp_specification_digest (cs_spec s)) body
            in demand (failures = [])
                 (SupervisorError (''rendered campaign metadata is invalid: '' @ join ''; '' failures))
                 (give body))))))))))"

section \<open>Hosted checks\<close>

text \<open>The repository on the host: the declared one, or the last two parts of the remote.\<close>

definition strip_suffix :: "string \<Rightarrow> string \<Rightarrow> string" where
  "strip_suffix ending v =
     (if ends_with (casefold ending) (casefold v) then take (length v - length ending) v else v)"

definition last_parts :: "nat \<Rightarrow> 'a list \<Rightarrow> 'a list" where
  "last_parts k xs = drop (length xs - k) xs"

definition repository_name :: "string \<Rightarrow> string" where
  "repository_name remote =
     (let plain = strip_suffix ''.git'' (replace_char (CHR 0x5C) (CHR ''/'') remote);
          trimmed = rev (dropWhile (\<lambda>c. c = CHR ''/'') (rev plain));
          tail = last (split_on (CHR '':'') trimmed)
      in if CHR ''/'' \<in> set tail then join ''/'' (last_parts 2 (split_on (CHR ''/'') tail)) else tail)"

definition hosted_repository :: "campaign_snapshot \<Rightarrow> string res" where
  "hosted_repository s =
     bindE (get_str (sp_publication_authority (cs_spec s)) ''repository'' []) (\<lambda>declared.
     Inr (if py_strip declared \<noteq> [] then py_strip declared
          else repository_name (sp_repository_remote (cs_spec s))))"

definition required_checks_of :: "campaign_snapshot \<Rightarrow> effect_kind \<Rightarrow> string list res" where
  "required_checks_of s kind =
     (if kind = EK_MERGE then get_strs (sp_publication_authority (cs_spec s)) ''required_hosted_checks'' else Inr [])"

definition pending_checks :: "pyval list \<Rightarrow> string list \<Rightarrow> string list" where
  "pending_checks items required =
     (let by_name = checks_by_name items
      in filter (\<lambda>name. case map_of by_name name of
             None \<Rightarrow> True | Some d \<Rightarrow> dict_get d ''status'' PNone \<noteq> PStr ''completed'') required)"

definition preflight_decision ::
  "string \<Rightarrow> string \<Rightarrow> effect_kind \<Rightarrow> failure \<Rightarrow> campaign_snapshot \<Rightarrow> supervisor_decision" where
  "preflight_decision c node_id kind exc t =
     decided c t ''PUBLICATION_PREFLIGHT_FAILED'' (Some node_id) None
       (Some [(''reason'', PStr (failure_text exc)), (''effect_kind'', PStr (effect_kind_value kind))])"

text \<open>Either a decision, or the snapshot and the evidence with which the publication goes on.\<close>

type_synonym stage = "supervisor_decision + campaign_snapshot \<times> pydict option"

definition hosted_unavailable ::
  "'w supervisor \<Rightarrow> string \<Rightarrow> string \<Rightarrow> effect_kind \<Rightarrow> campaign_snapshot \<Rightarrow> failure \<Rightarrow> ('w, pydict + supervisor_decision) op" where
  "hosted_unavailable S c node_id kind s exc =
     (case exc of
        HostedEvidenceError m \<Rightarrow>
          give (Inr (decided c s ''HOSTED_CHECKS_UNAVAILABLE'' (Some node_id) (Some ''hosted_checks'')
            (Some [(''reason'', PStr m)])))
      | _ \<Rightarrow>
          if is_evidence_error exc then
            and_then (apply_for S s EV_FAIL_NODE ''hosted-check-head-race'' (Some node_id) None None
              [(''reason'', PStr (''hosted check collection failed: '' @ failure_text exc))]) (\<lambda>t.
            give (Inr (preflight_decision c node_id kind exc t)))
          else fail exc)"

definition collect_checks ::
  "'w supervisor \<Rightarrow> string \<Rightarrow> node_snapshot \<Rightarrow> effect_kind \<Rightarrow> string list \<Rightarrow> string option \<Rightarrow> campaign_snapshot
    \<Rightarrow> ('w, stage) op" where
  "collect_checks S c n kind required wakeup s =
     (let node_id = ns_node_id n; head = opt_text (ns_candidate_head n)
      in and_then (reserve_attempt S s BT_HOSTED_CHECK_WAKEUP (Some node_id)
           (''hosted-checks:'' @ head @ '':'' @ or_else wakeup ''initial'')) (\<lambda>(s, reserved).
         if \<not> reserved then
           give (Inl (decided c s ''HOSTED_CHECKS_PENDING'' (Some node_id) (Some ''hosted_checks'')
             (Some [(''reason'', PStr ''a new named hosted-check wakeup is required'')])))
         else
           and_then (checked (hosted_repository s)) (\<lambda>repository.
           and_then (attempt (outside (su_collector S (sp_worktree (cs_spec s)) repository head))
              (hosted_unavailable S c node_id kind s) (\<lambda>d. give (Inl d))) (\<lambda>outcome.
           case outcome of
             Inr decision \<Rightarrow> give (Inl decision)
           | Inl hosted \<Rightarrow>
               let digest = text_of hosted ''evidence_sha256''
               in and_then (record_for S (ccos_id [PStr ''hosted-checks'', PStr c, PStr node_id,
                      py_opt_str (ns_candidate_head n), PStr digest]) c node_id VK_HOSTED_CHECK digest hosted head) (\<lambda>_.
                  and_then (checked (py_iter (dict_get hosted ''checks'' (PTuple [])))) (\<lambda>items.
                  let pending = pending_checks items required
                  in if pending \<noteq> [] then
                       give (Inl (decided c s ''HOSTED_CHECKS_PENDING'' (Some node_id) (Some ''hosted_checks'')
                         (Some [(''pending'', PList (map PStr pending))])))
                     else give (Inr (s, Some hosted))))))))"

section \<open>Starting a publication\<close>

text \<open>\<open>dict(payloads.get(kind.value, {}))\<close> with the fields that the campaign fixes\<close>

definition fixed_fields :: "string \<Rightarrow> campaign_snapshot \<Rightarrow> node_snapshot \<Rightarrow> pydict" where
  "fixed_fields c s n =
     (let spec = cs_spec s
      in [(''root'', PStr (sp_worktree spec)), (''candidate_head'', py_opt_str (ns_candidate_head n)),
          (''head'', py_opt_str (ns_candidate_head n)), (''repository_remote'', PStr (sp_repository_remote spec)),
          (''expected_campaign_id'', PStr c),
          (''expected_specification_digest'', PStr (sp_specification_digest spec)),
          (''expected_base_sha'', PStr (sp_base_sha spec))])"

definition set_default :: "string \<Rightarrow> pyval \<Rightarrow> pydict \<Rightarrow> pydict" where
  "set_default k v d = (if k \<in> set (map fst d) then d else d @ [(k, v)])"

definition effect_fields :: "string \<Rightarrow> campaign_snapshot \<Rightarrow> node_snapshot \<Rightarrow> effect_kind \<Rightarrow> pydict res" where
  "effect_fields c s n kind =
     (let authority = sp_publication_authority (cs_spec s)
      in bindE (py_get authority ''effect_payloads'' (PDict [])) (\<lambda>payloads.
         bindE (bindE (py_get payloads (effect_kind_value kind) (PDict [])) py_dict) (\<lambda>given_fields.
         bindE (get_str authority ''base_branch'' ''main'') (\<lambda>base.
         Inr (set_default ''base'' (PStr base)
           (set_default ''head_branch'' (PStr (sp_branch (cs_spec s)))
             (set_default ''branch'' (PStr (sp_branch (cs_spec s)))
               (foldl (\<lambda>d (k, v). dict_set k v d) given_fields (fixed_fields c s n)))))))))"

definition with_body ::
  "'w supervisor \<Rightarrow> campaign_snapshot \<Rightarrow> node_snapshot \<Rightarrow> effect_kind \<Rightarrow> string \<Rightarrow> pydict \<Rightarrow> ('w, pydict) op" where
  "with_body S s n kind operation_id d =
     (if kind = EK_CREATE_PULL_REQUEST then
        let narrative = (let v = dict_get d ''body'' PNone in if py_truthy v then py_str v else [])
        in and_then (render_body S s n narrative operation_id) (\<lambda>body. give (dict_set ''body'' (PStr body) d))
      else give d)"

definition kind_token :: "effect_kind \<Rightarrow> budget_token res" where
  "kind_token kind = (case publish_token kind of Some t \<Rightarrow> Inr t | None \<Rightarrow> Inl (KeyError (effect_kind_value kind)))"

definition prepare_publication ::
  "'w supervisor \<Rightarrow> string \<Rightarrow> node_snapshot \<Rightarrow> effect_kind \<Rightarrow> campaign_snapshot \<Rightarrow> ('w, supervisor_decision) op" where
  "prepare_publication S c n kind s =
     (let node_id = ns_node_id n;
          operation_id = ccos_id [PStr ''publish'', PStr c, PStr node_id, PStr (effect_kind_value kind),
            py_opt_str (ns_candidate_head n)]
      in and_then (checked (effect_fields c s n kind)) (\<lambda>fields.
         and_then (with_body S s n kind operation_id fields) (\<lambda>payload.
         and_then (checked (kind_token kind)) (\<lambda>token.
         and_then (apply_for S s EV_START_PUBLISH operation_id (Some node_id) None None
           [(''effect_kind'', PStr (effect_kind_value kind)), (''budget_token'', PStr (budget_token_value token)),
            (''operation_id'', PStr operation_id), (''effect_payload'', PDict payload)]) (\<lambda>t.
         give (decided c t ''PUBLICATION_PREPARED'' (Some node_id) None
           (Some [(''operation_id'', PStr operation_id), (''effect_kind'', PStr (effect_kind_value kind))])))))))"

definition preflight_publication ::
  "'w supervisor \<Rightarrow> string \<Rightarrow> node_snapshot \<Rightarrow> effect_kind \<Rightarrow> string list \<Rightarrow> campaign_snapshot \<times> pydict option
    \<Rightarrow> ('w, supervisor_decision) op" where
  "preflight_publication S c n kind required = (\<lambda>(s, hosted).
     (let node_id = ns_node_id n; head = opt_text (ns_candidate_head n); spec = cs_spec s
      in and_then (consume_attempt S s BT_VALIDATION_EXECUTION (Some node_id)
           (''publication-preflight:'' @ effect_kind_value kind @ '':'' @ head)) (\<lambda>s.
         attempt (outside (su_preflight S (sp_worktree spec) (sp_repository_remote spec) head hosted required))
           (\<lambda>exc. if is_evidence_error exc then
               and_then (apply_for S s EV_FAIL_NODE (''publication-preflight:'' @ effect_kind_value kind) (Some node_id)
                 None None [(''reason'', PStr (''publication preflight failed: '' @ failure_text exc))]) (\<lambda>t.
               give (preflight_decision c node_id kind exc t))
             else fail exc)
           (\<lambda>preflight.
             and_then (record_for S (ccos_id [PStr ''publication-preflight'', PStr c, PStr node_id,
                 PStr (effect_kind_value kind), py_opt_str (ns_candidate_head n)]) c node_id VK_PUBLICATION
               (text_of preflight ''evidence_sha256'') preflight head) (\<lambda>_.
             prepare_publication S c n kind s)))))"

definition publication_authorized :: "campaign_snapshot \<Rightarrow> node_snapshot \<Rightarrow> bool res" where
  "publication_authorized s n =
     bindE (py_get (sp_publication_authority (cs_spec s)) ''automated'' (PBool False)) (\<lambda>automated.
     Inr (py_truthy automated \<or> nonempty_opt (ns_publication_authorization_receipt_id n)))"

definition start_publication ::
  "'w supervisor \<Rightarrow> string \<Rightarrow> string \<Rightarrow> string option \<Rightarrow> ('w, supervisor_decision) op" where
  "start_publication S c node_id wakeup =
     and_then (current S c) (\<lambda>s.
     and_then (checked (snapshot_node s node_id)) (\<lambda>n.
     and_then (verify_sources S s node_id) (\<lambda>_.
     and_then (checked (publication_authorized s n)) (\<lambda>authorized.
     demand authorized (SupervisorError ''manual publication requires a one-use human authorization receipt'')
    (and_then (checked (next_publication s n)) (\<lambda>following.
     case following of
       None \<Rightarrow> fail (SupervisorError ''immutable publication sequence is empty or complete'')
     | Some kind_text \<Rightarrow>
         and_then (checked (kind_argument (Inl kind_text))) (\<lambda>kind.
         and_then (checked (required_checks_of s kind)) (\<lambda>required.
         and_then (if required = [] then give (Inr (s, None)) else collect_checks S c n kind required wakeup s) (\<lambda>st.
         case st of
           Inl decision \<Rightarrow> give decision
         | Inr going \<Rightarrow> preflight_publication S c n kind required going)))))))))"

section \<open>Executing and reconciling\<close>

definition record_state :: "pydict \<Rightarrow> effect_state \<Rightarrow> bool" where
  "record_state record st \<longleftrightarrow> py_eq (field_of record ''state'') (PStr (effect_state_value st))"

definition complete_record ::
  "'w supervisor \<Rightarrow> string \<Rightarrow> string \<Rightarrow> pydict \<Rightarrow> ('w, supervisor_decision) op" where
  "complete_record S c node_id record =
     and_then (checked (item_str (PDict record) ''operation_id'')) (\<lambda>operation_id.
     and_then (current S c) (\<lambda>s.
     and_then (checked (py_item (PDict record) ''state'')) (\<lambda>state.
     let details = Some [(''operation_id'', PStr operation_id)]
     in if list_ex (record_state record) [ES_PREPARED, ES_EXECUTING, ES_AMBIGUOUS] then
          give (decided c s ''PUBLICATION_AMBIGUOUS'' (Some node_id) (Some ''reconcile'') details)
        else if record_state record ES_CONFIRMED then
          and_then (checked (snapshot_node s node_id)) (\<lambda>n.
          and_then (checked (py_item (PDict record) ''kind'')) (\<lambda>kind.
          and_then (apply_for S s EV_PUBLISH_CONFIRMED operation_id (Some node_id) None None
            [(''candidate_head'', py_opt_str (ns_candidate_head n)), (''effect_kind'', kind),
             (''operation_id'', PStr operation_id), (''result'', field_of record ''result'')]) (\<lambda>t.
          give (decided c t ''PUBLICATION_CONFIRMED'' (Some node_id) None details))))
        else
          let reason = (if py_truthy (field_of record ''result'') then py_str (field_of record ''result'') else py_str state)
          in and_then (apply_for S s EV_PUBLISH_FAILED operation_id (Some node_id) None None
               [(''reason'', PStr reason)]) (\<lambda>t.
             give (decided c t ''PUBLICATION_FAILED'' (Some node_id) None details)))))"

definition execute_publication ::
  "'w supervisor \<Rightarrow> string \<Rightarrow> string \<Rightarrow> string \<Rightarrow> ('w, supervisor_decision) op" where
  "execute_publication S c node_id operation_id =
     (case su_backend S of
        None \<Rightarrow> fail (SupervisorError ''external effect driver is unavailable'')
      | Some b \<Rightarrow>
          and_then (and_then (current S c) (\<lambda>s. verify_sources S s node_id)) (\<lambda>_.
          and_then (on_driver (Effect_Driver.run (su_host S) b operation_id False)) (\<lambda>record.
          complete_record S c node_id record)))"

text \<open>\<open>reconcile\<close> of the supervisor: a unit of the budget is reserved unless the campaign is over.\<close>

definition record_node :: "pydict \<Rightarrow> string option" where
  "record_node record = (case field_of record ''node_id'' of PNone \<Rightarrow> None | v \<Rightarrow> Some (py_str v))"

definition reserve_unless_over ::
  "'w supervisor \<Rightarrow> campaign_snapshot \<Rightarrow> budget_token \<Rightarrow> pydict \<Rightarrow> string \<Rightarrow> string \<Rightarrow> ('w, unit) op" where
  "reserve_unless_over S s token record identity message =
     (if cs_state s \<in> TERMINAL_CAMPAIGN_STATES then give ()
      else and_then (reserve_attempt S s token (record_node record) identity) (\<lambda>(_, reserved).
        demand reserved (SupervisorError message) (give ())))"

definition supervisor_reconcile :: "'w supervisor \<Rightarrow> string \<Rightarrow> ('w, pydict) op" where
  "supervisor_reconcile S operation_id =
     (case su_backend S of
        None \<Rightarrow> fail (SupervisorError ''external effect driver is unavailable'')
      | Some b \<Rightarrow>
          and_then (queried (get_effect operation_id)) (\<lambda>record.
          and_then (checked (item_str (PDict record) ''campaign_id'')) (\<lambda>c.
          and_then (current S c) (\<lambda>s.
          if list_ex (record_state record) [ES_CONFIRMED, ES_FAILED, ES_CANCELLED] then
            and_then (reserve_unless_over S s BT_NO_OP_ATTEMPT record (''terminal-effect:'' @ operation_id)
              ''terminal-effect reconciliation no-op already recorded'') (\<lambda>_. give record)
          else
            and_then (reserve_unless_over S s BT_RECONCILIATION record
              (''reconcile:'' @ operation_id @ '':revision:'' @ show_int (cs_revision s))
              ''reconciliation attempt is already executing or recorded'') (\<lambda>_.
            on_driver (Effect_Driver.reconcile (su_host S) b operation_id))))))"

end
