(* ===== verification/Supervisor_Step.thy ===== *)
theory Supervisor_Step
  imports Supervisor_Publication
begin

text \<open>
  \<open>step\<close>, \<open>cancel\<close> and \<open>recover\<close> of supervisor.py: one durable action for the state of the campaign
  and of its active node, or the event that the campaign waits for; the human STOP; and what a
  supervisor does with the native actors that it finds after a restart.
\<close>

section \<open>Cancelling\<close>

definition terminate_owned :: "'w supervisor \<Rightarrow> pydict \<Rightarrow> ('w, unit) op" where
  "terminate_owned S identity =
     (case integer_of (field_of identity ''host_pid'') of
        None \<Rightarrow> give ()
      | Some pid \<Rightarrow>
          if pid \<le> 0 then give ()
          else
            let process = (case as_mapping (field_of identity ''native_identity'') of
                   None \<Rightarrow> PNone | Some d \<Rightarrow> field_of d ''host_process_identity'')
            in catch_when (\<lambda>exc. is_os_error exc \<or> is_subprocess_error exc)
                 (and_then (outside (terminate_verified (su_native S) pid process)) (\<lambda>_. give ()))
                 (\<lambda>_. give ()))"

definition campaign_workers :: "string \<Rightarrow> ('w, string list) op" where
  "campaign_workers c s =
     (Inr (map (\<lambda>(_, wk). al_lease_id (wk_lease wk))
        (filter (\<lambda>(_, wk). al_campaign_id (wk_lease wk) = c) (sv_workers s))), s)"

definition reconcile_records :: "'w supervisor \<Rightarrow> pydict list \<Rightarrow> ('w, unit) op" where
  "reconcile_records S records =
     (case su_backend S of
        None \<Rightarrow> give ()
      | Some b \<Rightarrow>
          and_then (each (\<lambda>record.
            and_then (checked (item_str (PDict record) ''operation_id'')) (\<lambda>operation_id.
            on_driver (Effect_Driver.reconcile (su_host S) b operation_id))) records) (\<lambda>_. give ()))"

definition supervisor_cancel :: "'w supervisor \<Rightarrow> string \<Rightarrow> string \<Rightarrow> ('w, supervisor_decision) op" where
  "supervisor_cancel S c reason =
     and_then (current S c) (\<lambda>s.
     and_then (queried (list_outbox (Some (Inr ES_EXECUTING)) (Some c))) (\<lambda>uncertain.
     and_then (queried (list_actor_identities (Some c) True)) (\<lambda>owned.
     and_then (stored (cancel_campaign (su_host S) c
        (ccos_id [PStr ''cancel'', PStr c, PInt (cs_revision s), PStr reason]) (Some (cs_revision s))
        (Some (cs_authority_epoch s)) (Some (cs_cancellation_epoch s)) reason)) (\<lambda>t.
     and_then (campaign_workers c) (\<lambda>lease_ids.
     and_then (each (\<lambda>i. and_then (interrupt_host S i) (\<lambda>_. forget i)) lease_ids) (\<lambda>_.
     and_then (each (terminate_owned S) owned) (\<lambda>_.
     and_then (reconcile_records S uncertain) (\<lambda>_.
     give (decided c t ''CANCELLED'' None None None)))))))))"

section \<open>Recovering\<close>

definition completion_stage :: "string \<Rightarrow> (node_state \<times> event_type) option" where
  "completion_stage role =
     (if role = ''IMPLEMENTER'' then Some (NS_IMPLEMENTING, EV_IMPLEMENTATION_COMPLETED)
      else if role = ''REPAIRER'' then Some (NS_REPAIRING, EV_REPAIR_COMPLETED) else None)"

text \<open>A terminal result that was recorded before the restart.\<close>

definition reattach_terminal :: "'w supervisor \<Rightarrow> string \<Rightarrow> ('w, unit) op" where
  "reattach_terminal S lease_id =
     and_then (persisted_terminal S lease_id) (\<lambda>receipt.
     and_then (current S (text_of receipt ''campaign_id'')) (\<lambda>s.
     and_then (checked (snapshot_node s (text_of receipt ''node_id''))) (\<lambda>n.
     and_then (check_deadline S s (Some n)) (\<lambda>_.
     and_then (case completion_stage (text_of receipt ''role'') of
         None \<Rightarrow> give s
       | Some (stage, ty) \<Rightarrow>
           if ns_state n = stage then
             apply_for S s ty (''terminal:'' @ lease_id) (Some (text_of receipt ''node_id''))
               (Some (text_of receipt ''actor_id'')) (integer_of (field_of receipt ''fencing_epoch''))
               [(''receipt_digest'', PStr (text_of receipt ''receipt_digest''))]
           else give s) (\<lambda>s.
     and_then (release_for S s lease_id) (\<lambda>_.
     forget lease_id))))))"

fun review_stage :: "actor_role \<Rightarrow> node_state option" where
  "review_stage AR_REVIEWER = Some NS_CHECKS_AND_REVIEW"
| "review_stage AR_CLOSURE_REVIEWER = Some NS_CLOSURE"
| "review_stage _ = None"

definition read_only_binding ::
  "campaign_snapshot \<Rightarrow> node_snapshot \<Rightarrow> actor \<Rightarrow> pydict \<Rightarrow> bool" where
  "read_only_binding s n a identity \<longleftrightarrow>
     review_stage (ac_role a) = Some (ns_state n) \<and> \<not> ac_can_write a
     \<and> cs_state s = CS_RUNNING \<and> cs_active_node_id s = ac_node_id a
     \<and> (case ac_principal_id a of None \<Rightarrow> False | Some p \<Rightarrow> p \<in> set (sp_required_review_cohort (cs_spec s)))
     \<and> is_text identity ''lease_state'' ''ACTIVE''
     \<and> is_mapping (field_of identity ''native_identity'')
     \<and> is_text identity ''identity_digest'' (canonical_json_digest (field_of identity ''native_identity''))"

definition surviving_binding :: "actor_binding \<Rightarrow> actor_lease \<Rightarrow> actor \<Rightarrow> pydict \<Rightarrow> bool" where
  "surviving_binding bn hl a native \<longleftrightarrow>
     bn_lease bn = hl \<and> bn_native_thread_id bn = ac_native_thread_id a
     \<and> is_text native ''thread_id'' (bn_native_thread_id bn)
     \<and> is_text native ''source_digest'' (bn_native_source_digest bn)
     \<and> bn_bound_before_turn bn \<and> bn_lease_consumed bn \<and> nonempty_opt (bn_turn_id bn)"

definition reattach_read_only :: "'w supervisor \<Rightarrow> pydict \<Rightarrow> ('w, worker) op" where
  "reattach_read_only S identity =
     (let lease_id = text_of identity ''lease_id''
      in and_then (queried (get_evidence (text_id [''receipt'', lease_id]))) (\<lambda>found.
         demand (found = None) (SupervisorError ''a rejected terminal receipt cannot become running work'')
        (and_then (queried (get_lease lease_id)) (\<lambda>l.
         and_then (queried (get_actor (ls_actor_id l))) (\<lambda>a.
         and_then (current S (ac_campaign_id a)) (\<lambda>s.
         and_then (checked (snapshot_node s (opt_text (ac_node_id a)))) (\<lambda>n.
         demand (read_only_binding s n a identity)
           (SupervisorError ''read-only recovery requires an active exact review binding'')
        (and_then (check_deadline S s (Some n)) (\<lambda>_.
         and_then (verify_sources S s (ns_node_id n)) (\<lambda>_.
         and_then (host_lease S s (ns_node_id n) (ac_role a) a l) (\<lambda>hl.
         case wh_recover (su_native S) of
           None \<Rightarrow> fail (SupervisorError ''host cannot prove a surviving read-only connection'')
         | Some reconnect \<Rightarrow>
             and_then (checked (py_dict (field_of identity ''native_identity''))) (\<lambda>native.
             and_then (epochs_of S) (\<lambda>epochs.
             and_then (outside (reconnect lease_id native epochs)) (\<lambda>bn.
             demand (surviving_binding bn hl a native)
               (SupervisorError ''surviving read-only binding differs from stored authority'')
               (give \<lparr>wk_lease = bn_lease bn, wk_role = ac_role a, wk_reviewer_id = ac_principal_id a\<rparr>)))))))))))))))"

text \<open>What became of one native actor: its result was recorded, it still runs, or it is lost.\<close>

datatype orphan =
    Finished string
  | Surviving string worker
  | Uncertain pydict

definition classify_orphan :: "'w supervisor \<Rightarrow> pydict \<Rightarrow> ('w, orphan) op" where
  "classify_orphan S identity =
     and_then (checked (item_str (PDict identity) ''lease_id'')) (\<lambda>lease_id.
     attempt (reattach_terminal S lease_id)
       (\<lambda>_. attempt (reattach_read_only S identity)
          (\<lambda>_. give (Uncertain identity))
          (\<lambda>wk. give (Surviving lease_id wk)))
       (\<lambda>_. give (Finished lease_id)))"

fun finished_lease :: "orphan \<Rightarrow> string list" where
  "finished_lease (Finished i) = [i]" | "finished_lease _ = []"

fun surviving_worker :: "orphan \<Rightarrow> (string \<times> worker) list" where
  "surviving_worker (Surviving i wk) = [(i, wk)]" | "surviving_worker _ = []"

fun uncertain_campaign :: "orphan \<Rightarrow> string list" where
  "uncertain_campaign (Uncertain identity) =
     (case as_mapping (field_of identity ''actor'') of
        None \<Rightarrow> []
      | Some a \<Rightarrow> if py_truthy (field_of a ''campaign_id'') then [text_of a ''campaign_id''] else [])"
| "uncertain_campaign _ = []"

definition drop_orphan :: "'w supervisor \<Rightarrow> (string \<times> worker) list \<Rightarrow> pydict \<Rightarrow> ('w, unit) op" where
  "drop_orphan S surviving identity =
     (let lease_id = text_of identity ''lease_id''
      in if lease_id \<in> set (map fst surviving) then give ()
         else and_then (forget lease_id) (\<lambda>_.
              and_then (interrupt_host S lease_id) (\<lambda>_.
              terminate_owned S identity)))"

definition fail_orphaned :: "'w supervisor \<Rightarrow> string \<Rightarrow> ('w, (string \<times> string) list) op" where
  "fail_orphaned S c =
     and_then (current S c) (\<lambda>s.
     case present (cs_active_node_id s) of
       node_id # _ \<Rightarrow>
         if cs_state s \<in> TERMINAL_CAMPAIGN_STATES then give []
         else
           and_then (apply_for S s EV_FAIL_NODE ''restart-orphaned-native-lease'' (Some node_id) None None
             [(''reason'', PStr ''native worker lease orphaned by supervisor restart'')]) (\<lambda>_.
           give [(c, node_id)])
     | [] \<Rightarrow> give [])"

definition reconcile_ambiguous :: "'w supervisor \<Rightarrow> ('w, pydict list) op" where
  "reconcile_ambiguous S =
     (case su_backend S of
        None \<Rightarrow> give []
      | Some b \<Rightarrow>
          and_then (queried (list_outbox (Some (Inr ES_AMBIGUOUS)) None)) (\<lambda>items.
          each (\<lambda>item. and_then (checked (item_str (PDict item) ''operation_id'')) (supervisor_reconcile S)) items))"

definition recovery_report ::
  "pydict \<Rightarrow> nat \<Rightarrow> string list \<Rightarrow> string list \<Rightarrow> (string \<times> string) list \<Rightarrow> pydict list \<Rightarrow> pydict" where
  "recovery_report recovered orphans finished surviving failed reconciled =
     foldl (\<lambda>d (k, v). dict_set k v d) recovered
       [(''orphaned_actor_identities'', PInt (int orphans)),
        (''reattached_terminal_leases'', PList (map PStr finished)),
        (''reattached_read_only_leases'', PList (map PStr (sort surviving))),
        (''failed_nodes'', PList (map (\<lambda>(c, n). PDict [(''campaign_id'', PStr c), (''node_id'', PStr n)]) failed)),
        (''reconciled'', PList (map PDict reconciled))]"

definition supervisor_recover :: "'w supervisor \<Rightarrow> ('w, pydict) op" where
  "supervisor_recover S =
     and_then (queried (list_active_actor_identities None)) (\<lambda>orphaned.
     and_then (each (classify_orphan S) orphaned) (\<lambda>kinds.
     let affected = sorted_set (concat (map uncertain_campaign kinds));
         surviving = filter (\<lambda>(_, wk). al_campaign_id (wk_lease wk) \<notin> set affected)
           (concat (map surviving_worker kinds))
     in and_then (each (drop_orphan S surviving) orphaned) (\<lambda>_.
        and_then (stored (recover_after_restart (su_host S) (map fst surviving))) (\<lambda>recovered.
        and_then (each (\<lambda>(i, wk). remember i wk) surviving) (\<lambda>_.
        and_then (each (fail_orphaned S) affected) (\<lambda>failed.
        and_then (reconcile_ambiguous S) (\<lambda>reconciled.
        give (recovery_report recovered (length orphaned) (concat (map finished_lease kinds))
          (map fst surviving) (concat failed) reconciled))))))))"

section \<open>The actions of a step\<close>

definition admit_next :: "'w supervisor \<Rightarrow> string \<Rightarrow> campaign_snapshot \<Rightarrow> node_snapshot \<Rightarrow> ('w, supervisor_decision) op" where
  "admit_next S c s n =
     and_then (verify_sources S s (ns_node_id n)) (\<lambda>_.
     and_then (outside (en_expand (su_env S) (sp_worktree (cs_spec s)))) (\<lambda>worktree.
     and_then (observed_head S worktree) (\<lambda>start_head.
     and_then (apply_for S s EV_ADMIT_NODE ''next-approved'' (Some (ns_node_id n)) None None
       [(''start_head'', PStr start_head)]) (\<lambda>t.
     give (decided c t ''NODE_ADMITTED'' (Some (ns_node_id n)) None None)))))"

definition dispatch_action ::
  "'w supervisor \<Rightarrow> string \<Rightarrow> string \<Rightarrow> actor_role \<Rightarrow> event_type option \<Rightarrow> string \<Rightarrow> ('w, supervisor_decision) op" where
  "dispatch_action S c node_id role lifecycle_event action =
     and_then (dispatch_worker S c node_id role None lifecycle_event) (\<lambda>l.
     and_then (current S c) (\<lambda>t.
     give (decided c t action (Some node_id) (Some ''worker_terminal'')
       (Some [(''lease_id'', PStr (al_lease_id l))]))))"

text \<open>The actors of a node with a role, active or not.\<close>

definition is_node_actor :: "string \<Rightarrow> actor_role \<Rightarrow> pydict \<Rightarrow> bool" where
  "is_node_actor node_id role identity \<longleftrightarrow>
     (case as_mapping (field_of identity ''actor'') of
        None \<Rightarrow> False
      | Some a \<Rightarrow> is_text a ''node_id'' node_id \<and> is_text a ''role'' (actor_role_value role))"

definition node_actors :: "string \<Rightarrow> string \<Rightarrow> actor_role \<Rightarrow> ('w, pydict list) op" where
  "node_actors c node_id role =
     and_then (queried (list_actor_identities (Some c) False)) (\<lambda>identities.
     give (filter (is_node_actor node_id role) identities))"

definition waiting ::
  "string \<Rightarrow> campaign_snapshot \<Rightarrow> string option \<Rightarrow> string \<Rightarrow> pydict option \<Rightarrow> supervisor_decision" where
  "waiting c s node_id event details = decided c s ''YIELD'' node_id (Some event) details"

text \<open>The candidate of a correction is looked at once more before its implementer starts.\<close>

definition correction_unchanged :: "campaign_snapshot \<Rightarrow> pydict \<Rightarrow> pydict \<Rightarrow> string \<Rightarrow> bool" where
  "correction_unchanged s correction repository branch \<longleftrightarrow>
     is_text repository ''status_sha256'' (sha256_hex []) \<and> branch = sp_branch (cs_spec s)
     \<and> is_number correction ''authority_epoch'' (cs_authority_epoch s)
     \<and> is_number correction ''cancellation_epoch'' (cs_cancellation_epoch s)
     \<and> is_text correction ''specification_digest'' (sp_specification_digest (cs_spec s))"

definition check_correction :: "'w supervisor \<Rightarrow> campaign_snapshot \<Rightarrow> node_snapshot \<Rightarrow> pydict \<Rightarrow> ('w, unit) op" where
  "check_correction S s n correction =
     (let worktree = sp_worktree (cs_spec s); head = text_of correction ''candidate_head''
      in and_then (outside (exact_repository_evidence (su_env S) worktree (opt_text (ns_start_head n)) head)) (\<lambda>repository.
         and_then (validate_scope S s (ns_node_id n) repository) (\<lambda>_.
         and_then (outside (publication_preflight (su_env S) worktree (sp_repository_remote (cs_spec s)) head None [])) (\<lambda>_.
         and_then (current_branch S worktree) (\<lambda>branch.
         demand (correction_unchanged s correction repository branch)
           (EvidenceError ''validation correction candidate or authority changed'') (give ()))))))"

fun correction_refused :: "failure \<Rightarrow> bool" where
  "correction_refused exc = (is_evidence_error exc \<or> is_scope_error exc \<or> is_os_error exc \<or> is_subprocess_error exc)"

definition dispatch_correction ::
  "'w supervisor \<Rightarrow> string \<Rightarrow> campaign_snapshot \<Rightarrow> node_snapshot \<Rightarrow> ('w, supervisor_decision) op" where
  "dispatch_correction S c s n =
     and_then (node_actors c (ns_node_id n) AR_IMPLEMENTER) (\<lambda>prior.
     if length prior > 1 then give (waiting c s (Some (ns_node_id n)) ''worker_terminal'' None)
     else
       and_then (checked (if py_truthy (ns_validation_correction n) then py_dict (ns_validation_correction n)
          else Inr [])) (\<lambda>correction.
       attempt (check_correction S s n correction)
         (\<lambda>exc. if correction_refused exc then
             and_then (fail_dispatch S c (ns_node_id n) AR_IMPLEMENTER exc) (\<lambda>_.
             and_then (current S c) (\<lambda>t.
             give (decided c t ''VALIDATION_FAILED'' (Some (ns_node_id n)) None None)))
           else fail exc)
         (\<lambda>_. dispatch_action S c (ns_node_id n) AR_IMPLEMENTER None ''VALIDATION_CORRECTION_DISPATCHED'')))"

definition settle_findings ::
  "'w supervisor \<Rightarrow> string \<Rightarrow> campaign_snapshot \<Rightarrow> node_snapshot \<Rightarrow> ('w, supervisor_decision) op" where
  "settle_findings S c s n =
     (let blocking = filter fi_blocking (ns_findings n)
      in if blocking \<noteq> [] then
           give (waiting c s (Some (ns_node_id n)) ''repair_authorized''
             (Some [(''finding_ids'', PList (map (\<lambda>f. PStr (fi_finding_id f)) blocking))]))
         else
           and_then (apply_for S s EV_MARK_READY_TO_PUBLISH ''clean-review'' (Some (ns_node_id n)) None None []) (\<lambda>t.
           give (decided c t ''READY_TO_PUBLISH'' (Some (ns_node_id n)) None None)))"

definition dispatch_closure ::
  "'w supervisor \<Rightarrow> string \<Rightarrow> campaign_snapshot \<Rightarrow> node_snapshot \<Rightarrow> ('w, supervisor_decision) op" where
  "dispatch_closure S c s n =
     and_then (node_actors c (ns_node_id n) AR_CLOSURE_REVIEWER) (\<lambda>prior.
     if prior \<noteq> [] then
       give (waiting c s (Some (ns_node_id n)) ''closure_complete''
         (Some [(''reason'', PStr ''closure cohort already dispatched'')]))
     else
       and_then (dispatch_cohort S c (ns_node_id n) AR_CLOSURE_REVIEWER (sp_required_review_cohort (cs_spec s))) (\<lambda>leases.
       and_then (current S c) (\<lambda>t.
       give (decided c t ''CLOSURE_DISPATCHED'' (Some (ns_node_id n)) (Some ''closure_complete'')
         (Some [(''leases'', PList (map PStr leases))])))))"

definition publish_next ::
  "'w supervisor \<Rightarrow> string \<Rightarrow> campaign_snapshot \<Rightarrow> node_snapshot \<Rightarrow> ('w, supervisor_decision) op" where
  "publish_next S c s n =
     and_then (checked (publication_authorized s n)) (\<lambda>authorized.
     if \<not> authorized then give (waiting c s (Some (ns_node_id n)) ''publication_authorized'' None)
     else start_publication S c (ns_node_id n) None)"

definition pending_record :: "node_snapshot \<Rightarrow> pydict \<Rightarrow> bool" where
  "pending_record n item \<longleftrightarrow> is_text item ''node_id'' (ns_node_id n)
     \<and> py_eq (field_of item ''operation_id'') (py_opt_str (ns_pending_publication_operation_id n))"

definition continue_publication ::
  "'w supervisor \<Rightarrow> string \<Rightarrow> campaign_snapshot \<Rightarrow> node_snapshot \<Rightarrow> ('w, supervisor_decision) op" where
  "continue_publication S c s n =
     and_then (queried (list_outbox None (Some c))) (\<lambda>outbox.
     case filter (pending_record n) outbox of
       [item] \<Rightarrow>
         and_then (checked (bindE (item_str (PDict item) ''state'') (\<lambda>t. state_argument (Inl t)))) (\<lambda>st.
         and_then (checked (item_str (PDict item) ''operation_id'')) (\<lambda>operation_id.
         if st = ES_PREPARED then execute_publication S c (ns_node_id n) operation_id
         else if st \<in> {ES_EXECUTING, ES_AMBIGUOUS} then
           give (decided c s ''PUBLICATION_AMBIGUOUS'' (Some (ns_node_id n)) (Some ''reconcile'')
             (Some [(''operation_id'', PStr operation_id)]))
         else complete_record S c (ns_node_id n) item))
     | _ \<Rightarrow> give (waiting c s (Some (ns_node_id n)) ''external_effect'' None))"

text \<open>The action for the active node.\<close>

definition node_action ::
  "'w supervisor \<Rightarrow> string \<Rightarrow> campaign_snapshot \<Rightarrow> node_snapshot \<Rightarrow> ('w, supervisor_decision) op" where
  "node_action S c s n =
     (let i = ns_node_id n
      in case ns_state n of
           NS_ADMITTED \<Rightarrow> dispatch_action S c i AR_IMPLEMENTER (Some EV_START_IMPLEMENTATION) ''IMPLEMENTER_DISPATCHED''
         | NS_IMPLEMENTING \<Rightarrow>
             if ns_validation_corrections n = 1 \<and> ns_lease_actor_id n = None then dispatch_correction S c s n
             else give (waiting c s (Some i) ''worker_terminal'' None)
         | NS_VALIDATING \<Rightarrow> validate_node S c i
         | NS_REVALIDATING \<Rightarrow> validate_node S c i
         | NS_CANDIDATE_FROZEN \<Rightarrow> begin_review S c i
         | NS_CHECKS_AND_REVIEW \<Rightarrow> give (waiting c s (Some i) ''review_complete'' None)
         | NS_FINDINGS_FROZEN \<Rightarrow> settle_findings S c s n
         | NS_REPAIR_AUTHORIZED \<Rightarrow> dispatch_action S c i AR_REPAIRER (Some EV_START_REPAIR) ''REPAIRER_DISPATCHED''
         | NS_REPAIRING \<Rightarrow> give (waiting c s (Some i) ''worker_terminal'' None)
         | NS_CLOSURE \<Rightarrow> dispatch_closure S c s n
         | NS_READY_TO_PUBLISH \<Rightarrow> publish_next S c s n
         | NS_PUBLISHING \<Rightarrow> continue_publication S c s n
         | st \<Rightarrow> fail (SupervisorError (''no deterministic action for node state '' @ node_state_value st)))"

definition active_action :: "'w supervisor \<Rightarrow> string \<Rightarrow> campaign_snapshot \<Rightarrow> ('w, supervisor_decision) op" where
  "active_action S c s =
     (case present (cs_active_node_id s) of
        [] \<Rightarrow> fail (SupervisorError ''running campaign has no eligible node and is not terminal'')
      | i # _ \<Rightarrow>
          and_then (checked (snapshot_node s i)) (\<lambda>n.
          attempt (check_deadline S s (Some n))
            (\<lambda>exc. if is_deadline_error exc then fail_deadline S s (Some n) else fail exc)
            (\<lambda>_. node_action S c s n)))"

section \<open>One step\<close>

definition campaign_action :: "'w supervisor \<Rightarrow> string \<Rightarrow> campaign_snapshot \<Rightarrow> ('w, supervisor_decision) op" where
  "campaign_action S c s =
     (case cs_state s of
        CS_APPROVED \<Rightarrow>
          and_then (apply_for S s EV_START ''run'' None None None []) (\<lambda>t.
          give (decided c t ''CAMPAIGN_STARTED'' None None None))
      | CS_DRAFT \<Rightarrow> give (waiting c s (cs_active_node_id s) ''approve'' None)
      | CS_WAITING_EXTERNAL \<Rightarrow> give (waiting c s (cs_active_node_id s) ''external_event'' None)
      | CS_WAITING_HUMAN \<Rightarrow> give (waiting c s (cs_active_node_id s) ''external_event'' None)
      | _ \<Rightarrow>
          and_then (checked (select_next_approved_node s)) (\<lambda>following.
          case following of
            Some n \<Rightarrow> admit_next S c s n
          | None \<Rightarrow> active_action S c s))"

definition step_body :: "'w supervisor \<Rightarrow> string \<Rightarrow> ('w, supervisor_decision) op" where
  "step_body S c =
     and_then (current S c) (\<lambda>s.
     if cs_state s \<in> TERMINAL_CAMPAIGN_STATES then give (decided c s ''TERMINAL'' None None None)
     else attempt (check_deadline S s None)
       (\<lambda>exc. if is_deadline_error exc then fail_deadline S s None else fail exc)
       (\<lambda>_. campaign_action S c s))"

definition sources_changed :: "'w supervisor \<Rightarrow> string \<Rightarrow> failure \<Rightarrow> ('w, supervisor_decision) op" where
  "sources_changed S c exc =
     and_then (current S c) (\<lambda>s.
     case cs_active_node_id s of
       None \<Rightarrow> fail exc
     | Some node_id \<Rightarrow>
         and_then (interrupt_node_workers S c node_id) (\<lambda>_.
         and_then (apply_for S s EV_FAIL_NODE ''acceptance-source-changed'' (Some node_id) None None
           [(''reason'', PStr (failure_text exc))]) (\<lambda>t.
         give (decided c t ''ACCEPTANCE_SOURCE_CHANGED'' (Some node_id) None
           (Some [(''reason'', PStr (failure_text exc))])))))"

definition budget_exhausted :: "'w supervisor \<Rightarrow> string \<Rightarrow> failure \<Rightarrow> ('w, supervisor_decision) op" where
  "budget_exhausted S c exc =
     and_then (current S c) (\<lambda>s.
     if cs_state s \<in> TERMINAL_CAMPAIGN_STATES then
       give (decided c s ''BUDGET_EXHAUSTED''
         (map_option ns_node_id (find (\<lambda>n. ns_state n = NS_FAILED_EXACT_NODE) (cs_nodes s))) None
         (Some [(''reason'', PStr (failure_text exc))]))
     else fail_budget S s exc)"

definition supervisor_step :: "'w supervisor \<Rightarrow> string \<Rightarrow> ('w, supervisor_decision) op" where
  "supervisor_step S c =
     catch (step_body S c) (\<lambda>exc.
       if is_drift_error exc then sources_changed S c exc
       else if is_budget_error exc then budget_exhausted S c exc
       else fail exc)"

end
