(* ===== verification/Procedure_Logic.thy ===== *)
theory Procedure_Logic
  imports Environment
begin

text \<open>
  Relations that a procedure respects.  Whatever a procedure does, and whether it returns or
  raises, its last state is related to its first one: the locale \<open>step_relation\<close> proves one
  rule per construct for every reflexive and transitive relation, so that a procedure respects a
  relation when the calls it is made of do.
\<close>

definition obeys :: "('s \<Rightarrow> 's \<Rightarrow> bool) \<Rightarrow> ('s, 'e, 'a) proc \<Rightarrow> bool" where
  "obeys R m \<longleftrightarrow> (\<forall>s. R s (snd (m s)))"

lemma obeysD: "obeys R m \<Longrightarrow> m s = (r, t) \<Longrightarrow> R s t"
  unfolding obeys_def by (metis snd_conv)

lemma obeys_snd: "obeys R m \<Longrightarrow> R s (snd (m s))"
  by (simp add: obeys_def)

section \<open>Case analysis\<close>

named_theorems obeys_cases "case analysis on the data of a procedure"

lemma obeys_if [obeys_cases]:
  "obeys R m \<Longrightarrow> obeys R n \<Longrightarrow> obeys R (if b then m else n)"
  by simp

lemma obeys_Let [obeys_cases]: "obeys R (f x) \<Longrightarrow> obeys R (Let x f)"
  by simp

lemma obeys_option [obeys_cases]:
  "obeys R m \<Longrightarrow> (\<And>x. obeys R (f x)) \<Longrightarrow> obeys R (case v of None \<Rightarrow> m | Some x \<Rightarrow> f x)"
  by (cases v) simp_all

lemma obeys_sum [obeys_cases]:
  "(\<And>x. obeys R (f x)) \<Longrightarrow> (\<And>x. obeys R (g x)) \<Longrightarrow> obeys R (case v of Inl x \<Rightarrow> f x | Inr x \<Rightarrow> g x)"
  by (cases v) simp_all

lemma obeys_prod [obeys_cases]: "(\<And>x y. obeys R (f x y)) \<Longrightarrow> obeys R (case v of (x, y) \<Rightarrow> f x y)"
  by (cases v) simp

lemma obeys_prod_arg [obeys_cases]: "(\<And>x y. obeys R (f x y z)) \<Longrightarrow> obeys R ((case v of (x, y) \<Rightarrow> f x y) z)"
  by (cases v) simp

lemma obeys_list [obeys_cases]:
  "obeys R m \<Longrightarrow> (\<And>x xs. obeys R (f x xs)) \<Longrightarrow> obeys R (case v of [] \<Rightarrow> m | x # xs \<Rightarrow> f x xs)"
  by (cases v) simp_all

section \<open>The constructs\<close>

locale step_relation =
  fixes R :: "'s \<Rightarrow> 's \<Rightarrow> bool"
  assumes refl: "R s s"
    and trans: "R s t \<Longrightarrow> R t u \<Longrightarrow> R s u"
begin

lemma give: "obeys R (give x)"
  by (simp add: obeys_def give_def refl)

lemma fail: "obeys R (fail err)"
  by (simp add: obeys_def fail_def refl)

lemma pure: "obeys R (pure_res r)"
  by (simp add: obeys_def pure_res_def refl)

lemma checked: "obeys R (checked r)"
  by (simp add: checked_def pure)

lemma attempt:
  assumes "obeys R m" "\<And>err. obeys R (k err)" "\<And>x. obeys R (f x)"
  shows "obeys R (attempt m k f)"
  unfolding obeys_def
proof
  fix s show "R s (snd (attempt m k f s))"
  proof (cases "m s")
    case (Pair r t)
    with assms(1) have "R s t" by (rule obeysD)
    moreover have "R t (snd (k err t))" "R t (snd (f x t))" for err x
      using assms(2,3) by (simp_all add: obeys_snd)
    ultimately show ?thesis by (cases r) (auto simp: attempt_def Pair intro: trans)
  qed
qed

lemma and_then:
  assumes "obeys R m" "\<And>x. obeys R (f x)"
  shows "obeys R (and_then m f)"
proof -
  have "and_then m f = attempt m fail f"
    by (rule ext) (simp add: and_then_def attempt_def fail_def split: prod.splits sum.splits)
  then show ?thesis using attempt [OF assms(1) fail assms(2)] by simp
qed

lemma demand: "obeys R m \<Longrightarrow> obeys R (demand ok err m)"
  by (simp add: demand_def fail)

lemma catch: "obeys R m \<Longrightarrow> (\<And>err. obeys R (k err)) \<Longrightarrow> obeys R (catch m k)"
  unfolding catch_def by (intro attempt give)

lemma catch_when: "obeys R m \<Longrightarrow> (\<And>err. obeys R (k err)) \<Longrightarrow> obeys R (catch_when p m k)"
  unfolding catch_when_def by (intro catch obeys_if fail)

lemma finally_do:
  assumes "obeys R m" "obeys R closing"
  shows "obeys R (finally_do m closing)"
  unfolding obeys_def
proof
  fix s
  obtain r t where m: "m s = (r, t)" by fastforce
  obtain q u where c: "closing t = (q, u)" by fastforce
  have "R s u" using obeysD [OF assms(1) m] obeysD [OF assms(2) c] by (rule trans)
  then show "R s (snd (finally_do m closing s))"
    by (simp add: finally_do_def m c split: sum.splits)
qed

lemma each: "(\<And>x. obeys R (f x)) \<Longrightarrow> obeys R (each f xs)"
  by (induction xs) (auto intro: give and_then)

lemma thread: "(\<And>x b. obeys R (f x b)) \<Longrightarrow> obeys R (thread f xs b)"
proof (induction xs arbitrary: b)
  case Nil
  show ?case by (simp add: give)
next
  case (Cons x xs)
  have "obeys R (thread f xs b)" for b by (rule Cons.IH) (rule Cons.prems)
  then show ?case by (simp add: and_then Cons.prems)
qed

lemmas rules = give fail pure checked attempt and_then demand catch catch_when finally_do each thread

end

section \<open>Procedures that return\<close>

named_theorems returns "when a procedure returns a value"

lemma give_returns [returns]: "give x s = (Inr y, t) \<longleftrightarrow> y = x \<and> t = s"
  by (auto simp: give_def)

lemma fail_returns [returns]: "fail err s = (Inr y, t) \<longleftrightarrow> False"
  by (simp add: fail_def)

lemma pure_returns [returns]: "pure_res r s = (Inr y, t) \<longleftrightarrow> r = Inr y \<and> t = s"
  by (auto simp: pure_res_def)

lemma checked_returns [returns]: "checked r s = (Inr y, t) \<longleftrightarrow> r = Inr y \<and> t = s"
  by (cases r) (auto simp: checked_def pure_res_def)

lemma and_then_returns [returns]:
  "and_then m f s = (Inr y, t) \<longleftrightarrow> (\<exists>x u. m s = (Inr x, u) \<and> f x u = (Inr y, t))"
  by (auto simp: and_then_def split: prod.splits sum.splits)

lemma demand_returns [returns]: "demand ok err m s = (Inr y, t) \<longleftrightarrow> ok \<and> m s = (Inr y, t)"
  by (simp add: demand_def fail_returns)

lemma attempt_returns [returns]:
  "attempt m k f s = (Inr y, t) \<longleftrightarrow> (\<exists>x u. m s = (Inr x, u) \<and> f x u = (Inr y, t))
     \<or> (\<exists>err u. m s = (Inl err, u) \<and> k err u = (Inr y, t))"
  by (auto simp: attempt_def split: prod.splits sum.splits)

lemma catch_returns [returns]:
  "catch m k s = (Inr y, t) \<longleftrightarrow> m s = (Inr y, t) \<or> (\<exists>err u. m s = (Inl err, u) \<and> k err u = (Inr y, t))"
  by (auto simp: catch_def attempt_returns give_returns)

lemma catch_when_returns [returns]:
  "catch_when p m k s = (Inr y, t) \<longleftrightarrow> m s = (Inr y, t)
     \<or> (\<exists>err u. m s = (Inl err, u) \<and> p err \<and> k err u = (Inr y, t))"
  by (auto simp: catch_when_def catch_returns fail_returns split: if_splits)

lemma finally_returns [returns]:
  "finally_do m closing s = (Inr y, t) \<longleftrightarrow> (\<exists>u. m s = (Inr y, u) \<and> closing u = (Inr (), t))"
  by (auto simp: finally_do_def split: prod.splits sum.splits)

text \<open>What \<open>each\<close> returns, one result per element.\<close>

lemma each_returns:
  assumes "each f xs s = (Inr ys, t)"
  shows "list_all2 (\<lambda>x y. \<exists>u v. f x u = (Inr y, v)) xs ys"
  using assms
proof (induction xs arbitrary: s ys)
  case (Cons x xs)
  then show ?case by (fastforce simp: returns)
qed (simp add: returns)

text \<open>The same where the procedure leaves the state as it is.\<close>

lemma each_returns_still:
  assumes "each f xs s = (Inr ys, t)" and "\<And>x. obeys (=) (f x)"
  shows "t = s \<and> list_all2 (\<lambda>x y. f x s = (Inr y, s)) xs ys"
  using assms(1)
proof (induction xs arbitrary: s ys)
  case (Cons x xs)
  then obtain y zs u where x: "f x s = (Inr y, u)" and r: "each f xs u = (Inr zs, t)" and ys: "ys = y # zs"
    by (auto simp: returns)
  have "u = s" using obeysD [OF assms(2) x] by simp
  with x Cons.IH [OF r] ys show ?case by simp
qed (simp add: returns)

end
