(* ===== verification/Supervisor_Safety.thy ===== *)
theory Supervisor_Safety
  imports Supervisor_Step Procedure_Logic Store_Replay
begin

text \<open>
  What every operation of the supervisor does to the store, to the trace of executed effects and
  to the trace of started turns.  An operation is \<open>calm\<close> when it changes the store by operations
  of the store alone and leaves both traces as they are; all are calm but the dispatch of a worker
  and the execution of an effect.  Every operation is \<open>lawful\<close>: it changes the store by operations
  of the store, keeps every effect executed at most once, and starts no turn before its binding
  is recorded.
\<close>

section \<open>Calm and lawful steps\<close>

definition bound_turn :: "store \<Rightarrow> string \<Rightarrow> bool" where
  "bound_turn db lease_id \<longleftrightarrow> (\<exists>q r. bq_lease_id q = lease_id
     \<and> find_operation db (bq_request_id q) = Some r \<and> or_payload_digest r = bind_request_digest q)"

definition turns_bound :: "'w sup \<Rightarrow> bool" where
  "turns_bound s \<longleftrightarrow> list_all (\<lambda>(i, db). bound_turn db i) (sv_turns s)"

definition calm_step :: "host \<Rightarrow> 'w sup \<Rightarrow> 'w sup \<Rightarrow> bool" where
  "calm_step h s t \<longleftrightarrow> store_calls h (dv_store (sv_driver s)) (dv_store (sv_driver t))
     \<and> dv_executed (sv_driver t) = dv_executed (sv_driver s) \<and> sv_turns t = sv_turns s"

definition lawful_step :: "host \<Rightarrow> 'w sup \<Rightarrow> 'w sup \<Rightarrow> bool" where
  "lawful_step h s t \<longleftrightarrow> store_calls h (dv_store (sv_driver s)) (dv_store (sv_driver t))
     \<and> (executed_once (sv_driver s) \<longrightarrow> executed_once (sv_driver t))
     \<and> (\<exists>ts. sv_turns t = sv_turns s @ ts \<and> list_all (\<lambda>(i, db). bound_turn db i) ts)"

abbreviation calm :: "'w supervisor \<Rightarrow> ('w sup, 'e, 'a) proc \<Rightarrow> bool" where
  "calm S \<equiv> obeys (calm_step (su_host S))"

abbreviation lawful :: "'w supervisor \<Rightarrow> ('w sup, 'e, 'a) proc \<Rightarrow> bool" where
  "lawful S \<equiv> obeys (lawful_step (su_host S))"

interpretation calmness: step_relation "calm_step h" for h
  by unfold_locales (auto simp: calm_step_def)

lemma lawful_step_trans:
  assumes "lawful_step h s t" "lawful_step h t u"
  shows "lawful_step h s u"
proof -
  from assms obtain ts us where "sv_turns t = sv_turns s @ ts" "list_all (\<lambda>(i, db). bound_turn db i) ts"
    "sv_turns u = sv_turns t @ us" "list_all (\<lambda>(i, db). bound_turn db i) us" by (auto simp: lawful_step_def)
  then have "sv_turns u = sv_turns s @ (ts @ us) \<and> list_all (\<lambda>(i, db). bound_turn db i) (ts @ us)" by simp
  then show ?thesis using assms unfolding lawful_step_def by (meson rtranclp_trans)
qed

interpretation lawfulness: step_relation "lawful_step h" for h
  by unfold_locales (simp add: lawful_step_def, rule lawful_step_trans)

interpretation driver_calls: step_relation "\<lambda>s t. store_calls h (dv_store s) (dv_store t)" for h
  by unfold_locales auto

named_theorems calm_intros "operations that are calm"
named_theorems lawful_intros "operations that are lawful"

lemmas [calm_intros] = calmness.rules obeys_cases
lemmas [lawful_intros] = lawfulness.rules obeys_cases

lemma calm_lawful_step: "calm_step h s t \<Longrightarrow> lawful_step h s t"
  using left_prepared_kept [of h "dv_store (sv_driver s)" "dv_store (sv_driver t)"]
  by (auto simp: calm_step_def lawful_step_def executed_once_def turns_bound_def)

lemma calm_lawful: "calm S m \<Longrightarrow> lawful S m"
  by (simp add: obeys_def calm_lawful_step)

section \<open>Access to the state\<close>

lemma calm_queried [calm_intros]: "calm S (queried f)"
  by (simp add: obeys_def queried_def on_driver_def read_store_def calm_step_def)

lemma calm_outside [calm_intros]: "calm S (outside m)"
  by (auto simp: obeys_def outside_def calm_step_def split: prod.splits)

lemma calm_clock [calm_intros]: "calm S (clock T)"
  unfolding clock_def by (rule calm_outside)

lemma calm_current [calm_intros]: "calm S (current T c)"
  unfolding current_def by (rule calm_queried)

lemma calm_stored: "(\<And>db. store_calls (su_host S) db (snd (f db))) \<Longrightarrow> calm S (stored f)"
  by (auto simp: obeys_def stored_def on_driver_def on_store_def calm_step_def split: prod.splits)
    (metis snd_conv)

lemma calm_stored_call: "(\<And>db. store_call (su_host S) db (snd (f db))) \<Longrightarrow> calm S (stored f)"
  by (rule calm_stored) (rule r_into_rtranclp)

lemma calm_operations [calm_intros]:
  "calm S (stored (apply_event (su_host S) (Inr e)))"
  "calm S (stored (apply_human_authorized_event (su_host S) (Inr e) receipt))"
  "calm S (stored (reserve_budget_attempt (su_host S) c t i r a x n f))"
  "calm S (stored (cancel_campaign (su_host S) c i ro ao xo reason))"
  "calm S (stored (record_runtime_operation i c k p res v))"
  "calm S (stored (acquire_lease (su_host S) q))"
  "calm S (stored (bind_actor (su_host S) bq))"
  "calm S (stored (release_lease (su_host S) zq))"
  "calm S (stored (record_evidence ev))"
  "calm S (stored (record_terminal_evidence (su_host S) ev))"
  "calm S (stored (record_review i c nn dd k st rc))"
  "calm S (stored (recover_after_restart (su_host S) retained))"
  by (rule calm_stored_call, rule operation_by.intros; simp)+

lemma calm_driver: "quiet (su_host S) m \<Longrightarrow> calm S (on_driver m)"
  by (simp add: obeys_def on_driver_def quiet_def calm_step_def split: prod.splits) (metis snd_conv)

lemma calm_reconcile_effect [calm_intros]: "calm S (on_driver (Effect_Driver.reconcile (su_host S) b i))"
  by (rule calm_driver) (rule quiet_reconcile)

lemma calm_workers [calm_intros]:
  "calm S (epochs_of T)" "calm S (worker_of i)" "calm S (forget i)" "calm S (remember i wk)"
  "calm S (node_workers c n)" "calm S (campaign_workers c)"
  by (simp_all add: obeys_def epochs_of_def worker_of_def forget_def remember_def node_workers_def
      campaign_workers_def calm_step_def)

lemma calm_interrupt [calm_intros]: "calm S (interrupt_host T i)"
  unfolding interrupt_host_def by (rule calm_outside)

section \<open>Calm operations\<close>

lemma calm_interrupt_workers [calm_intros]: "calm S (interrupt_node_workers T c n)"
  unfolding interrupt_node_workers_def by (intro calm_intros)

lemma calm_apply [calm_intros]: "calm S (apply_for S s ty label node_id actor_id fence payload)"
  unfolding apply_for_def by (intro calm_intros)

lemma calm_deadline [calm_intros]: "calm S (check_deadline T s n)"
  unfolding check_deadline_def by (intro calm_intros)

lemma calm_reserve [calm_intros]: "calm S (reserve_attempt S s token n i)"
  unfolding reserve_attempt_def by (intro calm_intros)

lemma calm_consume [calm_intros]: "calm S (consume_attempt S s token n l)"
  unfolding consume_attempt_def by (intro calm_intros)

lemma calm_verify_receipt [calm_intros]: "calm S (verify_receipt T s n i)"
  unfolding verify_receipt_def by (intro calm_intros)

lemma calm_verify_sources [calm_intros]: "calm S (verify_sources T s i)"
  unfolding verify_sources_def by (intro calm_intros)

lemma calm_fail_deadline [calm_intros]: "calm S (fail_deadline S s n)"
  unfolding fail_deadline_def by (intro calm_intros)

lemma calm_fail_budget [calm_intros]: "calm S (fail_budget S s exc)"
  unfolding fail_budget_def by (intro calm_intros)

lemma calm_fail_dispatch [calm_intros]: "calm S (fail_dispatch S c n role exc)"
  unfolding fail_dispatch_def by (intro calm_intros)

lemma calm_acquire [calm_intros]: "calm S (acquire_actor S s n role r native)"
  unfolding acquire_actor_def by (intro calm_intros)

lemma calm_host_lease [calm_intros]: "calm S (host_lease T s n role a l)"
  unfolding host_lease_def by (intro calm_intros)

lemma calm_bind [calm_intros]: "calm S (bind_native S l d)"
  unfolding bind_native_def by (intro calm_intros)

lemma calm_authorize_worker [calm_intros]: "calm S (authorize_worker_action S l a p)"
  unfolding authorize_worker_action_def by (intro calm_intros)

lemma calm_create [calm_intros]: "calm S (create_idle_actor S l)"
  unfolding create_idle_actor_def by (intro calm_intros)

lemma calm_charge [calm_intros]: "calm S (charge_start S s n i)"
  unfolding charge_start_def by (intro calm_intros)

lemma calm_enter [calm_intros]: "calm S (enter_dispatch S s n role ty a l i)"
  unfolding enter_dispatch_def by (intro calm_intros)

lemma calm_dispatch_failed [calm_intros]: "calm S (dispatch_failed S c n role i exc)"
  unfolding dispatch_failed_def by (intro calm_intros)

lemma calm_persisted [calm_intros]: "calm S (persisted_terminal S i)"
  unfolding persisted_terminal_def by (intro calm_intros)

lemma calm_refused [calm_intros]: "calm S (budget_refused S s n i)"
  unfolding budget_refused_def by (intro calm_intros)

lemma calm_refuse [calm_intros]: "calm S (refuse_collection S wk i)"
  unfolding refuse_collection_def by (intro calm_intros)

lemma calm_retry [calm_intros]: "calm S (start_retry S wk i failed)"
  unfolding start_retry_def by (intro calm_intros)

lemma calm_transport [calm_intros]: "calm S (transport_failed S wk i retry exc)"
  unfolding transport_failed_def by (intro calm_intros)

lemma calm_collect_receipt [calm_intros]: "calm S (collect_receipt T i timeout)"
  unfolding collect_receipt_def by (intro calm_intros)

lemma calm_receipt_refused [calm_intros]: "calm S (receipt_refused S wk i)"
  unfolding receipt_refused_def by (intro calm_intros)

lemma calm_enter_completion [calm_intros]: "calm S (enter_completion S s wk i receipt)"
  unfolding enter_completion_def by (intro calm_intros)

lemma calm_release [calm_intros]: "calm S (release_for S s i)"
  unfolding release_for_def by (intro calm_intros)

lemma calm_accept [calm_intros]: "calm S (accept_receipt S wk i receipt)"
  unfolding accept_receipt_def by (intro calm_intros)

lemma calm_complete [calm_intros]: "calm S (complete_worker S i timeout retry)"
  unfolding complete_worker_def by (intro calm_intros)

lemma calm_scope [calm_intros]: "calm S (validate_scope T s n d)"
  unfolding validate_scope_def by (intro calm_intros)

section \<open>Validation, review and publication\<close>

lemma calm_record [calm_intros]: "calm S (record_for T i c n k d p head)"
  unfolding record_for_def by (intro calm_intros)

lemma calm_branch [calm_intros]: "calm S (current_branch T w)"
  unfolding current_branch_def by (intro calm_intros)

lemma calm_head [calm_intros]: "calm S (observed_head T w)"
  unfolding observed_head_def by (intro calm_intros)

lemma calm_correction [calm_intros]: "calm S (validation_correction T s n vc d a x)"
  unfolding validation_correction_def by (intro calm_intros)

lemma calm_during [calm_intros]: "calm S m \<Longrightarrow> calm S (during vc m)"
  by (auto simp: obeys_def during_def split: prod.splits) (metis snd_conv)

lemma calm_execute_approved [calm_intros]: "calm S (execute_approved T c n root head vc)"
  unfolding execute_approved_def by (intro calm_intros)

lemma calm_validate_command [calm_intros]: "calm S (validate_command S c n root head p s)"
  unfolding validate_command_def by (intro calm_intros)

lemma calm_freeze_candidate [calm_intros]: "calm S (freeze_candidate S c n a l root head s)"
  unfolding freeze_candidate_def by (intro calm_intros)

lemma calm_run_validation [calm_intros]: "calm S (run_validation S c n required a l s)"
  unfolding run_validation_def by (intro calm_intros)

lemma calm_record_failure [calm_intros]: "calm S (record_failure T c n vc exc)"
  unfolding record_failure_def by (intro calm_intros)

lemma calm_correction_for [calm_intros]: "calm S (correction_for T s n a l failed)"
  unfolding correction_for_def by (intro calm_intros)

lemma calm_validation_failed [calm_intros]: "calm S (validation_failed S c n a l p)"
  unfolding validation_failed_def by (intro calm_intros)

lemma calm_release_validator [calm_intros]: "calm S (release_validator S c l)"
  unfolding release_validator_def by (intro calm_intros)

lemma calm_validate_node [calm_intros]: "calm S (validate_node S c n)"
  unfolding validate_node_def by (intro calm_intros)

lemma calm_cohort_failed [calm_intros]: "calm S (cohort_failed S c n role exc)"
  unfolding cohort_failed_def by (intro calm_intros; cases exc; simp; intro calm_intros)

lemma calm_finding [calm_intros]: "calm S (verify_finding spec raw)"
  unfolding verify_finding_def by (intro calm_intros)

lemma calm_attested [calm_intros]: "calm S (attested_result s n role receipt)"
  unfolding attested_result_def by (intro calm_intros)

lemma calm_findings [calm_intros]: "calm S (verify_findings_of s n v raws)"
  unfolding verify_findings_of_def by (intro calm_intros)

lemma calm_receipt [calm_intros]: "calm S (verify_receipt_of s n role receipt)"
  unfolding verify_receipt_of_def
  by (intro calm_intros) (auto intro: calm_intros split: pyval.split)

lemma calm_receipts [calm_intros]: "calm S (verify_review_receipts s n receipts findings role)"
  unfolding verify_review_receipts_def by (intro calm_intros)

lemma calm_freeze_review [calm_intros]: "calm S (freeze_review S c n receipts findings)"
  unfolding freeze_review_def by (intro calm_intros)

lemma calm_recalled [calm_intros]: "calm S (recalled_worker S i)"
  unfolding recalled_worker_def by (intro calm_intros)

lemma calm_text_finding [calm_intros]: "calm S (text_finding raw)"
  unfolding text_finding_def by (intro calm_intros)

lemma calm_collect_review [calm_intros]: "calm S (collect_review S timeout i)"
  unfolding collect_review_def
  by (intro calm_intros) (auto intro!: calm_intros split: pyval.split)

lemma calm_collect_cohort [calm_intros]: "calm S (collect_review_cohort S is timeout)"
  unfolding collect_review_cohort_def by (intro calm_intros)

lemma calm_authorize_with [calm_intros]: "calm S (authorize_with S c ty action n extra receipt)"
  unfolding authorize_with_def by (intro calm_intros)

lemma calm_authorizations [calm_intros]:
  "calm S (authorize_repair S c n receipt)" "calm S (authorize_publication S c n receipt)"
  unfolding authorize_repair_def authorize_publication_def by (intro calm_intros)+

lemma calm_closure [calm_intros]: "calm S (complete_closure S c n receipts resolved findings)"
  unfolding complete_closure_def by (intro calm_intros)

lemma calm_row [calm_intros]: "calm S (validation_row T s n i rows)"
  unfolding validation_row_def by (intro calm_intros)

lemma calm_rows [calm_intros]: "calm S (all_rows T s n spec i)"
  unfolding all_rows_def by (intro calm_intros)

lemma calm_body [calm_intros]: "calm S (render_body T s n narrative i)"
  unfolding render_body_def by (intro calm_intros)

lemma calm_hosted [calm_intros]: "calm S (hosted_unavailable S c n kind s exc)"
  unfolding hosted_unavailable_def by (cases exc; simp; intro calm_intros)

lemma calm_checks [calm_intros]: "calm S (collect_checks S c n kind required wakeup s)"
  unfolding collect_checks_def by (intro calm_intros)

lemma calm_with_body [calm_intros]: "calm S (with_body T s n kind i d)"
  unfolding with_body_def by (intro calm_intros)

lemma calm_prepare_publication [calm_intros]: "calm S (prepare_publication S c n kind s)"
  unfolding prepare_publication_def by (intro calm_intros)

lemma calm_preflight_publication [calm_intros]: "calm S (preflight_publication S c n kind required p)"
  unfolding preflight_publication_def by (intro calm_intros)

lemma calm_start_publication [calm_intros]: "calm S (start_publication S c n wakeup)"
  unfolding start_publication_def by (intro calm_intros)

lemma calm_complete_record [calm_intros]: "calm S (complete_record S c n record)"
  unfolding complete_record_def by (intro calm_intros)

lemma calm_unless_over [calm_intros]: "calm S (reserve_unless_over S s token record i m)"
  unfolding reserve_unless_over_def by (intro calm_intros)

lemma calm_reconcile [calm_intros]: "calm S (supervisor_reconcile S i)"
  unfolding supervisor_reconcile_def by (intro calm_intros)

section \<open>STOP and recovery\<close>

lemma calm_terminate [calm_intros]: "calm S (terminate_owned T d)"
  unfolding terminate_owned_def by (intro calm_intros)

lemma calm_reconcile_records [calm_intros]: "calm S (reconcile_records S records)"
  unfolding reconcile_records_def by (intro calm_intros)

lemma calm_cancel [calm_intros]: "calm S (supervisor_cancel S c reason)"
  unfolding supervisor_cancel_def by (intro calm_intros)

lemma calm_reattach_terminal [calm_intros]: "calm S (reattach_terminal S i)"
  unfolding reattach_terminal_def by (intro calm_intros)

lemma calm_reattach_read_only [calm_intros]: "calm S (reattach_read_only S d)"
  unfolding reattach_read_only_def by (intro calm_intros)

lemma calm_classify [calm_intros]: "calm S (classify_orphan S d)"
  unfolding classify_orphan_def by (intro calm_intros)

lemma calm_drop [calm_intros]: "calm S (drop_orphan T surviving d)"
  unfolding drop_orphan_def by (intro calm_intros)

lemma calm_fail_orphaned [calm_intros]: "calm S (fail_orphaned S c)"
  unfolding fail_orphaned_def by (intro calm_intros)

lemma calm_ambiguous [calm_intros]: "calm S (reconcile_ambiguous S)"
  unfolding reconcile_ambiguous_def by (intro calm_intros)

lemma calm_recover [calm_intros]: "calm S (supervisor_recover S)"
  unfolding supervisor_recover_def by (intro calm_intros)

section \<open>Bindings come before turns\<close>

lemma bound_turn_kept: "store_calls h db db' \<Longrightarrow> bound_turn db i \<Longrightarrow> bound_turn db' i"
  by (drule requests.calls) (fastforce simp: bound_turn_def requests_kept_def)

lemma operation_result_Inr:
  "operation_result db i d = Inr r \<longleftrightarrow> (case r of
     None \<Rightarrow> find_operation db i = None
   | Some v \<Rightarrow> \<exists>q t. find_operation db i = Some q \<and> or_payload_digest q = d \<and> or_result_json q = Some t
       \<and> or_status q = ''CONFIRMED'' \<and> loads t = Inr v)"
  by (auto simp: operation_result_def res_simps split: option.splits)

lemma bind_fresh_bound:
  assumes "bind_fresh h q db = Inr (a, db')" and "find_operation db (bq_request_id q) = None"
  shows "\<exists>r. find_operation db' (bq_request_id q) = Some r \<and> or_payload_digest r = bind_request_digest q"
proof -
  from assms(1) obtain c k v db1 as x
    where b: "begin_operation (bq_request_id q) c k (bind_request_digest q) v db = Inr db1"
      and d: "db' = finish_operation (bq_request_id q) x (db1\<lparr>db_actors := as\<rparr>)"
    by (auto simp: bind_fresh_def Let_def res_simps split: option.splits)
  from finished_operation [OF assms(2) b, of "db1\<lparr>db_actors := as\<rparr>" x] show ?thesis by (simp add: d)
qed

lemma bind_actor_bound:
  assumes "bind_actor h q db = (Inr a, db')"
  shows "bound_turn db' (bq_lease_id q)"
proof -
  from assms have tx: "bind_tx h q db = Inr (a, db')" by (simp add: bind_actor_def transaction_Inr)
  then have "\<exists>r. find_operation db' (bq_request_id q) = Some r \<and> or_payload_digest r = bind_request_digest q"
    by (auto simp: bind_tx_def bindE_Inr_iff operation_result_Inr dest: bind_fresh_bound split: option.splits)
  then show ?thesis by (auto simp: bound_turn_def)
qed

lemma raised_Inr: "map_sum Raised id r = Inr x \<longleftrightarrow> r = Inr x"
  by (cases r) auto

lemma stored_returns: "stored f s = (Inr x, t) \<longleftrightarrow>
    (\<exists>db. f (dv_store (sv_driver s)) = (Inr x, db) \<and> t = s\<lparr>sv_driver := (sv_driver s)\<lparr>dv_store := db\<rparr>\<rparr>)"
  by (auto simp: stored_def on_driver_def on_store_def raised_Inr split: prod.splits)

lemma outside_store: "outside m s = (r, t) \<Longrightarrow> dv_store (sv_driver t) = dv_store (sv_driver s)"
  by (auto simp: outside_def split: prod.splits)

lemma bind_native_bound:
  "bind_native S l identity s = (Inr (), t) \<Longrightarrow> bound_turn (dv_store (sv_driver t)) (al_lease_id l)"
  by (auto simp: bind_native_def Let_def returns stored_returns dest!: bind_actor_bound)

lemma create_idle_bound:
  "create_idle_actor S l s = (Inr (), t) \<Longrightarrow> bound_turn (dv_store (sv_driver t)) (al_lease_id l)"
  unfolding create_idle_actor_def returns
  by (auto simp: returns dest!: bind_native_bound outside_store)

text \<open>Lawful from every state in which the lease is bound.\<close>

definition lawful_bound :: "'w supervisor \<Rightarrow> string \<Rightarrow> ('w, 'a) op \<Rightarrow> bool" where
  "lawful_bound S i m \<longleftrightarrow> (\<forall>s. bound_turn (dv_store (sv_driver s)) i \<longrightarrow> lawful_step (su_host S) s (snd (m s)))"

lemma lawful_bound_lawful: "lawful S m \<Longrightarrow> lawful_bound S i m"
  by (simp add: obeys_def lawful_bound_def)

lemma bound_lawful_step:
  "lawful_step h s t \<Longrightarrow> bound_turn (dv_store (sv_driver s)) i \<Longrightarrow> bound_turn (dv_store (sv_driver t)) i"
  by (auto simp: lawful_step_def dest: bound_turn_kept)

lemma lawful_bound_then:
  assumes "lawful_bound S i m" and "\<And>x. lawful_bound S i (f x)"
  shows "lawful_bound S i (and_then m f)"
  unfolding lawful_bound_def
proof (intro allI impI)
  fix s :: "'a sup" assume b: "bound_turn (dv_store (sv_driver s)) i"
  obtain r t where m: "m s = (r, t)" by fastforce
  from assms(1) b have st: "lawful_step (su_host S) s t" unfolding lawful_bound_def by (metis m snd_conv)
  with b have "bound_turn (dv_store (sv_driver t)) i" by (rule bound_lawful_step [rotated])
  with assms(2) have "lawful_step (su_host S) t (snd (f x t))" for x unfolding lawful_bound_def by blast
  then show "lawful_step (su_host S) s (snd (and_then m f s))"
    by (cases r) (auto simp: and_then_def m st intro: lawfulness.trans [OF st])
qed

lemma lawful_then_bound:
  assumes m: "lawful S m" and b: "\<And>s x t. m s = (Inr x, t) \<Longrightarrow> bound_turn (dv_store (sv_driver t)) i"
    and f: "\<And>x. lawful_bound S i (f x)"
  shows "lawful S (and_then m f)"
  unfolding obeys_def
proof
  fix s
  obtain r t where run: "m s = (r, t)" by fastforce
  have st: "lawful_step (su_host S) s t" by (rule obeysD [OF m run])
  show "lawful_step (su_host S) s (snd (and_then m f s))"
  proof (cases r)
    case (Inr x)
    have "lawful_step (su_host S) t (snd (f x t))"
      using f [of x] b [OF run [unfolded Inr]] unfolding lawful_bound_def by blast
    then show ?thesis by (auto simp: and_then_def run Inr intro: lawfulness.trans [OF st])
  qed (simp add: and_then_def run st)
qed

lemma lawful_bound_start: "lawful_bound S i (start_turn T i prompt)"
  by (auto simp: lawful_bound_def start_turn_def outside_def lawful_step_def turns_bound_def executed_once_def
      split: prod.splits)

section \<open>Lawful operations\<close>

lemma lawful_run_dispatch [lawful_intros]: "lawful S (run_dispatch S c n role r ty a l hl)"
  unfolding run_dispatch_def
proof (rule lawful_then_bound)
  show "lawful S (create_idle_actor S hl)" by (intro calm_lawful calm_create)
  show "create_idle_actor S hl s = (Inr x, t) \<Longrightarrow> bound_turn (dv_store (sv_driver t)) (al_lease_id hl)"
    for s :: "'a sup" and t x by (simp add: create_idle_bound)
qed (intro lawful_bound_then lawful_bound_start lawful_bound_lawful [OF calm_lawful] calm_intros)

lemma lawful_dispatch [lawful_intros]: "lawful S (dispatch_worker S c n role r ty)"
  unfolding dispatch_worker_def by (intro lawful_intros; intro calm_lawful calm_intros)

lemma lawful_cohort [lawful_intros]: "lawful S (dispatch_cohort S c n role cohort)"
  unfolding dispatch_cohort_def by (intro lawful_intros; intro calm_lawful calm_intros)

lemma lawful_begin_review [lawful_intros]: "lawful S (begin_review S c n)"
  unfolding begin_review_def by (intro lawful_intros; intro calm_lawful calm_intros)

lemma driver_quiet_calls: "quiet h m \<Longrightarrow> obeys (\<lambda>s t. store_calls h (dv_store s) (dv_store t)) m"
  by (simp add: quiet_def obeys_def)

lemma driver_execute_calls: "obeys (\<lambda>s t. store_calls h (dv_store s) (dv_store t)) (execute_effect b i kind payload)"
  using once_execute [of h i b kind payload] by (simp add: once_def obeys_def)

lemma driver_prepared_calls: "obeys (\<lambda>s t. store_calls h (dv_store s) (dv_store t)) (execute_prepared h b i)"
  unfolding execute_prepared_eq after_move_def
  by (intro driver_calls.rules obeys_cases driver_execute_calls; intro driver_quiet_calls quiet_intros)

lemma driver_run_calls: "obeys (\<lambda>s t. store_calls h (dv_store s) (dv_store t)) (Effect_Driver.run h b i stop)"
  unfolding run_def run_prepared_def
  by (intro driver_calls.rules obeys_cases driver_prepared_calls; intro driver_quiet_calls quiet_intros)

lemma lawful_run [lawful_intros]: "lawful S (on_driver (Effect_Driver.run (su_host S) b i stop))"
  unfolding obeys_def
proof
  fix s :: "'a sup"
  let ?m = "Effect_Driver.run (su_host S) b i stop"
  have "store_calls (su_host S) (dv_store (sv_driver s)) (dv_store (snd (?m (sv_driver s))))"
    by (rule obeys_snd [OF driver_run_calls])
  moreover have "executed_once (sv_driver s) \<longrightarrow> executed_once (snd (?m (sv_driver s)))"
    using keeps_run [of "su_host S" b i stop] by (simp add: keeps_def)
  ultimately show "lawful_step (su_host S) s (snd (on_driver ?m s))"
    by (cases "?m (sv_driver s)") (simp add: on_driver_def lawful_step_def turns_bound_def)
qed

lemma lawful_execute_publication [lawful_intros]: "lawful S (execute_publication S c n i)"
  unfolding execute_publication_def by (intro lawful_intros; intro calm_lawful calm_intros)

section \<open>One step\<close>

lemma lawful_admit [lawful_intros]: "lawful S (admit_next S c s n)"
  unfolding admit_next_def by (intro calm_lawful calm_intros)

lemma lawful_action [lawful_intros]: "lawful S (dispatch_action S c n role ty action)"
  unfolding dispatch_action_def by (intro lawful_intros; intro calm_lawful calm_intros)

lemma calm_actors [calm_intros]: "calm S (node_actors c n role)"
  unfolding node_actors_def by (intro calm_intros)

lemma calm_check_correction [calm_intros]: "calm S (check_correction T s n d)"
  unfolding check_correction_def by (intro calm_intros)

lemma lawful_correction [lawful_intros]: "lawful S (dispatch_correction S c s n)"
  unfolding dispatch_correction_def by (intro lawful_intros; intro calm_lawful calm_intros)

lemma calm_settle [calm_intros]: "calm S (settle_findings S c s n)"
  unfolding settle_findings_def by (intro calm_intros)

lemma lawful_closure [lawful_intros]: "lawful S (dispatch_closure S c s n)"
  unfolding dispatch_closure_def by (intro lawful_intros; intro calm_lawful calm_intros)

lemma lawful_publish [lawful_intros]: "lawful S (publish_next S c s n)"
  unfolding publish_next_def by (intro lawful_intros; intro calm_lawful calm_intros)

lemma lawful_continue [lawful_intros]: "lawful S (continue_publication S c s n)"
  unfolding continue_publication_def by (intro lawful_intros; intro calm_lawful calm_intros)

lemma lawful_node_action [lawful_intros]: "lawful S (node_action S c s n)"
  unfolding node_action_def Let_def
  by (cases "ns_state n"; simp only: node_state.case; (intro lawful_intros)?; intro calm_lawful calm_intros)

lemma lawful_active [lawful_intros]: "lawful S (active_action S c s)"
  unfolding active_action_def by (intro lawful_intros; intro calm_lawful calm_intros)

lemma lawful_campaign [lawful_intros]: "lawful S (campaign_action S c s)"
  unfolding campaign_action_def by (cases "cs_state s"; simp only: campaign_state.case; (intro lawful_intros)?; intro calm_lawful calm_intros)

lemma lawful_step_body [lawful_intros]: "lawful S (step_body S c)"
  unfolding step_body_def by (intro lawful_intros; intro calm_lawful calm_intros)

lemma calm_sources_changed [calm_intros]: "calm S (sources_changed S c exc)"
  unfolding sources_changed_def by (intro calm_intros)

lemma calm_budget_exhausted [calm_intros]: "calm S (budget_exhausted S c exc)"
  unfolding budget_exhausted_def by (intro calm_intros)

lemma lawful_supervisor_step [lawful_intros]: "lawful S (supervisor_step S c)"
  unfolding supervisor_step_def by (intro lawful_intros; intro calm_lawful calm_intros)

section \<open>Histories of a supervisor\<close>

text \<open>Its operations in any order, with any arguments and any outcome, interleaved with the calls
  of the native host and of other processes on the same store, with changes of the world, and
  with restarts, which lose the table of the workers.\<close>

inductive supervisor_move :: "'w supervisor \<Rightarrow> 'w sup \<Rightarrow> 'w sup \<Rightarrow> bool" for S where
  step: "supervisor_move S s (snd (supervisor_step S c s))"
| dispatch: "supervisor_move S s (snd (dispatch_worker S c n role r ty s))"
| complete: "supervisor_move S s (snd (complete_worker S i timeout retry s))"
| validate: "supervisor_move S s (snd (validate_node S c n s))"
| review: "supervisor_move S s (snd (begin_review S c n s))"
| collect: "supervisor_move S s (snd (collect_review_cohort S is timeout s))"
| freeze: "supervisor_move S s (snd (freeze_review S c n receipts findings s))"
| repair: "supervisor_move S s (snd (authorize_repair S c n receipt s))"
| closure: "supervisor_move S s (snd (complete_closure S c n receipts resolved findings s))"
| authorize: "supervisor_move S s (snd (authorize_publication S c n receipt s))"
| publish: "supervisor_move S s (snd (start_publication S c n wakeup s))"
| execute: "supervisor_move S s (snd (execute_publication S c n i s))"
| reconcile: "supervisor_move S s (snd (supervisor_reconcile S i s))"
| cancel: "supervisor_move S s (snd (supervisor_cancel S c reason s))"
| recover: "supervisor_move S s (snd (supervisor_recover S s))"
| worker: "supervisor_move S s (snd (authorize_worker_action S l a p s))"
| store: "store_call (su_host S) (dv_store (sv_driver s)) db
    \<Longrightarrow> supervisor_move S s (s\<lparr>sv_driver := (sv_driver s)\<lparr>dv_store := db\<rparr>\<rparr>)"
| world: "supervisor_move S s (s\<lparr>sv_driver := (sv_driver s)\<lparr>dv_world := w\<rparr>\<rparr>)"
| restart: "supervisor_move S s (s\<lparr>sv_workers := []\<rparr>)"

definition fresh_supervisor :: "'w \<Rightarrow> 'w sup" where
  "fresh_supervisor w = \<lparr>sv_driver = \<lparr>dv_store = empty_store, dv_world = w, dv_executed = []\<rparr>,
     sv_workers = [], sv_turns = []\<rparr>"

definition supervisor_history :: "'w supervisor \<Rightarrow> 'w sup \<Rightarrow> bool" where
  "supervisor_history S s \<longleftrightarrow> (\<exists>w. (supervisor_move S)\<^sup>*\<^sup>* (fresh_supervisor w) s)"

lemma lawful_snd: "lawful S m \<Longrightarrow> lawful_step (su_host S) s (snd (m s))"
  by (rule obeys_snd)

lemma lawful_turns:
  "lawful S m \<Longrightarrow> \<exists>ts. sv_turns (snd (m s)) = sv_turns s @ ts \<and> list_all (\<lambda>(i, db). bound_turn db i) ts"
  using lawful_snd [of S m s] by (simp add: lawful_step_def)

lemma calm_traces:
  "calm S m \<Longrightarrow> sv_turns (snd (m s)) = sv_turns s \<and> dv_executed (sv_driver (snd (m s))) = dv_executed (sv_driver s)"
  using obeys_snd [of "calm_step (su_host S)" m s] by (simp add: calm_step_def)

lemma calm_snd: "calm S m \<Longrightarrow> lawful_step (su_host S) s (snd (m s))"
  by (rule lawful_snd) (rule calm_lawful)

lemma move_lawful: "supervisor_move S s t \<Longrightarrow> lawful_step (su_host S) s t"
proof (induction rule: supervisor_move.induct)
  case (store s db)
  have "calm_step (su_host S) s (s\<lparr>sv_driver := (sv_driver s)\<lparr>dv_store := db\<rparr>\<rparr>)"
    using store by (simp add: calm_step_def r_into_rtranclp)
  then show ?case by (rule calm_lawful_step)
next
  case (world s w)
  show ?case by (rule calm_lawful_step) (simp add: calm_step_def)
next
  case (restart s)
  show ?case by (rule calm_lawful_step) (simp add: calm_step_def)
qed (rule lawful_snd, rule lawful_intros | rule calm_snd, rule calm_intros)+

lemma moves_lawful: "(supervisor_move S)\<^sup>*\<^sup>* s t \<Longrightarrow> lawful_step (su_host S) s t"
  by (induction rule: rtranclp_induct) (auto intro: lawfulness.refl lawfulness.trans move_lawful)

lemma history_lawful:
  assumes "supervisor_history S s"
  shows "call_history (su_host S) (dv_store (sv_driver s))" and "executed_once (sv_driver s)" and "turns_bound s"
proof -
  from assms obtain w where "lawful_step (su_host S) (fresh_supervisor w) s"
    unfolding supervisor_history_def by (blast dest: moves_lawful)
  then show "call_history (su_host S) (dv_store (sv_driver s))" "executed_once (sv_driver s)" "turns_bound s"
    by (simp_all add: lawful_step_def fresh_supervisor_def call_history_def executed_once_def turns_bound_def)
qed

end
