(* ===== verification/Supervisor_Contracts.thy ===== *)
theory Supervisor_Contracts
  imports Supervisor_Safety Scheduling
begin

text \<open>
  What single operations of the supervisor refuse, and which node it takes next.  An operation
  \<open>refuses\<close> from a state when it raises there and leaves the store as it was; the locale
  \<open>step_relation\<close> is interpreted at the equality of stores, which the queries and everything
  outside the store keep.
\<close>

section \<open>Operations that leave the store as it is\<close>

definition same_store :: "'w sup \<Rightarrow> 'w sup \<Rightarrow> bool" where
  "same_store s t \<longleftrightarrow> dv_store (sv_driver t) = dv_store (sv_driver s)"

abbreviation reads_store :: "('w, 'a) op \<Rightarrow> bool" where
  "reads_store \<equiv> obeys same_store"

interpretation reading: step_relation same_store
  by unfold_locales (auto simp: same_store_def)

named_theorems reads_intros "operations that leave the store as it is"

lemmas [reads_intros] = reading.rules obeys_cases

lemma reads_queried [reads_intros]: "reads_store (queried f)"
  by (simp add: obeys_def queried_def on_driver_def read_store_def same_store_def)

lemma reads_outside [reads_intros]: "reads_store (outside m)"
  by (auto simp: obeys_def outside_def same_store_def split: prod.splits)

lemma reads_current [reads_intros]: "reads_store (current T c)"
  unfolding current_def by (rule reads_queried)

lemma reads_receipt [reads_intros]: "reads_store (verify_receipt T p n i)"
  unfolding verify_receipt_def by (intro reads_intros)

lemma reads_sources [reads_intros]: "reads_store (verify_sources T p i)"
  unfolding verify_sources_def by (intro reads_intros)

text \<open>The verification of receipts leaves the whole state as it is.\<close>

interpretation stillness: step_relation "(=)"
  by unfold_locales auto

named_theorems still_intros "operations that change nothing"

lemmas [still_intros] = stillness.rules obeys_cases

lemma still_reads: "obeys (=) m \<Longrightarrow> reads_store m"
  by (simp add: obeys_def same_store_def)

lemma still_queried [still_intros]: "obeys (=) (queried f)"
  by (simp add: obeys_def queried_def on_driver_def read_store_def)

lemma still_finding [still_intros]: "obeys (=) (verify_finding spec raw)"
  unfolding verify_finding_def by (intro still_intros)

lemma still_attested [still_intros]: "obeys (=) (attested_result p n role r)"
  unfolding attested_result_def by (intro still_intros)

lemma still_findings [still_intros]: "obeys (=) (verify_findings_of p n v raws)"
  unfolding verify_findings_of_def by (intro still_intros)

lemma still_receipt [still_intros]: "obeys (=) (verify_receipt_of p n role r)"
  unfolding verify_receipt_of_def
  by (intro still_intros) (auto intro: still_intros split: pyval.split)

lemma reads_receipts [reads_intros]: "reads_store (verify_review_receipts p n receipts findings role)"
  unfolding verify_review_receipts_def by (rule still_reads) (intro still_intros)

section \<open>Refusals\<close>

definition refuses :: "('w, 'a) op \<Rightarrow> 'w sup \<Rightarrow> bool" where
  "refuses m s \<longleftrightarrow> (\<exists>exc t. m s = (Inl exc, t) \<and> dv_store (sv_driver t) = dv_store (sv_driver s))"

lemma refuses_then:
  assumes "reads_store m"
    and "\<And>x t. m s = (Inr x, t) \<Longrightarrow> dv_store (sv_driver t) = dv_store (sv_driver s) \<Longrightarrow> refuses (f x) t"
  shows "refuses (and_then m f) s"
proof -
  obtain r t where m: "m s = (r, t)" by fastforce
  then have st: "dv_store (sv_driver t) = dv_store (sv_driver s)"
    using obeysD [OF assms(1) m] by (simp add: same_store_def)
  show ?thesis
  proof (cases r)
    case (Inr x)
    with assms(2) m st show ?thesis by (auto simp: refuses_def and_then_def)
  qed (use m st in \<open>auto simp: refuses_def and_then_def\<close>)
qed

lemma refuses_demand: "(ok \<Longrightarrow> refuses m s) \<Longrightarrow> refuses (demand ok err m) s"
  by (auto simp: demand_def refuses_def fail_def)

lemma refuses_fail: "refuses (fail err) s"
  by (simp add: refuses_def fail_def)

lemma refuses_never:
  assumes "reads_store m" and "\<And>x t. m s \<noteq> (Inr x, t)"
  shows "refuses (and_then m f) s"
  by (rule refuses_then [OF assms(1)]) (use assms(2) in blast)

lemma current_returns [returns]:
  "current S c s = (Inr p, t) \<longleftrightarrow> get_snapshot (su_host S) (dv_store (sv_driver s)) c = Inr p \<and> t = s"
  by (auto simp: current_def queried_def on_driver_def read_store_def raised_Inr)

lemma queried_returns [returns]:
  "queried f s = (Inr x, t) \<longleftrightarrow> f (dv_store (sv_driver s)) = Inr x \<and> t = s"
  by (auto simp: queried_def on_driver_def read_store_def raised_Inr)

lemma raised_checked [simp]: "map_sum Raised id r = Inr x \<longleftrightarrow> r = Inr x"
  by (rule raised_Inr)

section \<open>Attested reviews\<close>

text \<open>What the store must hold for a receipt of a review: exactly one piece of evidence with its
  digest for the candidate, whose document, actor and lease are those of the reviewer, and the
  attestation of the terminal result.\<close>

definition review_attested :: "store \<Rightarrow> campaign_snapshot \<Rightarrow> node_snapshot \<Rightarrow> actor_role \<Rightarrow> pydict \<Rightarrow> bool" where
  "review_attested db p n role receipt \<longleftrightarrow>
     (let reviewer = text_of receipt ''reviewer_id''; head = text_of receipt ''candidate_head'';
          digest = text_of receipt ''receipt_digest''
      in ns_candidate_head n = Some head \<and> digest \<noteq> []
       \<and> (\<exists>item payload result a l.
            find_evidence_by_digest (sp_campaign_id (cs_spec p)) (ns_node_id n) digest VK_REVIEW head db = Inr [item]
          \<and> py_dict (ed_payload item) = Inr payload
          \<and> as_mapping (field_of payload ''result_payload'') = Some result
          \<and> evidence_bound p (ns_node_id n) role reviewer head digest payload result
          \<and> get_actor (text_of payload ''actor_id'') db = Inr a \<and> get_lease (text_of payload ''lease_id'') db = Inr l
          \<and> reviewer_authority p (ns_node_id n) role reviewer (text_of payload ''actor_id'') a l
          \<and> (\<exists>d. verify_terminal_evidence_attestation (ed_evidence_id item) digest (text_of payload ''actor_id'')
                (text_of payload ''lease_id'') (text_of payload ''native_thread_id'')
                (text_of payload ''native_turn_id'') (Some reviewer) db = Inr d)))"

lemma singleton_returns:
  "(case xs of [x] \<Rightarrow> f x | _ \<Rightarrow> fail err) s = (Inr y, t) \<longleftrightarrow> (\<exists>x. xs = [x] \<and> f x s = (Inr y, t))"
  by (auto simp: returns split: list.splits)

lemma present_returns:
  "(case v of None \<Rightarrow> fail err | Some x \<Rightarrow> f x) s = (Inr y, t) \<longleftrightarrow> (\<exists>x. v = Some x \<and> f x s = (Inr y, t))"
  by (auto simp: returns split: option.splits)

lemma pair_returns:
  "(case v of (x, y) \<Rightarrow> f x y) s = (Inr z, t) \<longleftrightarrow> (\<exists>x y. v = (x, y) \<and> f x y s = (Inr z, t))"
  by (auto split: prod.splits)

lemma attested_result_returns:
  assumes "attested_result p n role r s = (Inr result, t)"
  shows "review_attested (dv_store (sv_driver s)) p n role r"
  using assms unfolding attested_result_def review_attested_def Let_def
  unfolding returns singleton_returns present_returns pair_returns
  by (elim exE conjE; simp only: raised_checked prod.inject; (elim exE conjE)?; fastforce)

lemma receipt_of_returns:
  "verify_receipt_of p n role r s = (Inr fs, t) \<Longrightarrow> review_attested (dv_store (sv_driver s)) p n role r"
  unfolding verify_receipt_of_def returns by (elim exE conjE) (rule attested_result_returns)

lemma receipts_return:
  assumes "verify_review_receipts p n receipts findings role s = (Inr fs, t)"
  shows "exact_cohort p receipts \<and> (\<forall>r \<in> set receipts. review_attested (dv_store (sv_driver s)) p n role r)"
proof -
  from assms obtain vs u where c: "exact_cohort p receipts"
    and e: "each (verify_receipt_of p n role) receipts s = (Inr vs, u)"
    by (auto simp: verify_review_receipts_def returns)
  from each_returns_still [OF e still_receipt]
  have "list_all2 (\<lambda>r y. verify_receipt_of p n role r s = (Inr y, s)) receipts vs" by simp
  then have "\<forall>r \<in> set receipts. \<exists>y. verify_receipt_of p n role r s = (Inr y, s)"
    by (auto simp: list_all2_conv_all_nth in_set_conv_nth)
  with c show ?thesis by (blast dest: receipt_of_returns)
qed

lemma unattested_refused:
  assumes "\<not> exact_cohort p receipts \<or> (\<exists>r \<in> set receipts. \<not> review_attested (dv_store (sv_driver s)) p n role r)"
  shows "refuses (and_then (verify_review_receipts p n receipts findings role) f) s"
  by (rule refuses_never) (use assms receipts_return reads_receipts in blast)+

lemma freeze_refused:
  assumes p: "get_snapshot (su_host S) (dv_store (sv_driver s)) c = Inr p" and n: "snapshot_node p i = Inr n"
    and bad: "\<not> exact_cohort p receipts
      \<or> (\<exists>r \<in> set receipts. \<not> review_attested (dv_store (sv_driver s)) p n AR_REVIEWER r)"
  shows "refuses (freeze_review S c i receipts findings) s"
  unfolding freeze_review_def
  by (rule refuses_then, rule reads_current, rule refuses_then, rule reading.checked,
      rule refuses_demand, rule refuses_then, rule reads_sources, rule unattested_refused)
    (use p n bad in \<open>auto simp: returns\<close>)

lemma closure_refused:
  assumes p: "get_snapshot (su_host S) (dv_store (sv_driver s)) c = Inr p" and n: "snapshot_node p i = Inr n"
    and bad: "\<not> exact_cohort p receipts
      \<or> (\<exists>r \<in> set receipts. \<not> review_attested (dv_store (sv_driver s)) p n AR_CLOSURE_REVIEWER r)"
  shows "refuses (complete_closure S c i receipts resolved findings) s"
  unfolding complete_closure_def
  by (rule refuses_then, rule reads_current, rule refuses_then, rule reading.checked,
      rule refuses_demand, rule refuses_then, rule reads_sources, rule unattested_refused)
    (use p n bad in \<open>auto simp: returns\<close>)

section \<open>Publication\<close>

lemma publication_refused:
  assumes p: "get_snapshot (su_host S) (dv_store (sv_driver s)) c = Inr p" and n: "snapshot_node p i = Inr n"
    and bad: "publication_authorized p n = Inr False"
  shows "refuses (start_publication S c i wakeup) s"
  unfolding start_publication_def
  by (rule refuses_then, rule reads_current, rule refuses_then, rule reading.checked,
      rule refuses_then, rule reads_sources, rule refuses_then, rule reading.checked, rule refuses_demand)
    (use p n bad in \<open>auto simp: returns\<close>)

section \<open>Receipts of workers\<close>

lemma completion_bound:
  assumes "map_of (sv_workers s) i = Some wk" and "complete_worker S i timeout retry s = (Inr receipt, t)"
  shows "receipt_bound wk i receipt \<and> is_text receipt ''receipt_digest'' (receipt_body_digest receipt)"
proof -
  have refused: "receipt_refused S wk i u \<noteq> (Inr x, v)" for u v and x :: pydict
    by (auto simp: receipt_refused_def Let_def returns)
  have failed: "transport_failed S wk i retry exc u \<noteq> (Inr x, v)" for u v exc and x :: pydict
    by (auto simp: transport_failed_def Let_def returns)
  have accepted: "accept_receipt S wk i r u = (Inr x, v) \<Longrightarrow> x = r" for r u x v
    by (auto simp: accept_receipt_def returns)
  show ?thesis
    using assms by (auto simp: complete_worker_def returns worker_of_def refused failed dest: accepted
        split: if_splits)
qed

section \<open>Deadlines\<close>

lemma deadline_expired:
  assumes "effective_deadline (su_env S) p node = Inr (Some d)" "d \<noteq> []" "utc (su_env S) d = Inr limit"
    and "en_now (su_env S) (dv_world (sv_driver s)) = (now, w)" "limit \<le> now"
  shows "\<exists>m. check_deadline S p node s
    = (Inl (SupervisorDeadlineExceeded m), s\<lparr>sv_driver := (sv_driver s)\<lparr>dv_world := w\<rparr>\<rparr>)"
  using assms by (cases d) (auto simp: check_deadline_def and_then_def pure_res_def clock_def outside_def
      present_def demand_def fail_def)

section \<open>The next node\<close>

lemma map_of_table:
  "distinct (map f xs) \<Longrightarrow> map_of (rev (map (\<lambda>x. (f x, x)) xs)) k = find (\<lambda>x. f x = k) xs"
proof (induction xs)
  case (Cons x xs)
  have "find (\<lambda>y. f y = f x) xs = None"
    unfolding find_None_iff
  proof (intro notI, elim exE conjE)
    fix y assume "y \<in> set xs" "f y = f x"
    then have "f x \<in> f ` set xs" by (metis imageI)
    with Cons.prems show False by simp
  qed
  with Cons show ?case by (auto simp: map_add_def split: option.splits)
qed simp

definition eligible :: "campaign_snapshot \<Rightarrow> node_spec \<Rightarrow> bool" where
  "eligible p nd \<longleftrightarrow> (\<exists>n. snapshot_node p (nd_node_id nd) = Inr n \<and> ns_state n = NS_PENDING)
     \<and> (\<forall>d \<in> set (nd_dependencies nd). \<exists>m. snapshot_node p d = Inr m \<and> ns_state m = NS_DONE)"

definition nodes_known :: "campaign_snapshot \<Rightarrow> node_spec \<Rightarrow> bool" where
  "nodes_known p nd \<longleftrightarrow> (\<exists>n. snapshot_node p (nd_node_id nd) = Inr n)
     \<and> (\<forall>d \<in> set (nd_dependencies nd). \<exists>m. snapshot_node p d = Inr m)"

lemma all_done:
  assumes "distinct (map ns_node_id (cs_nodes p))" and "\<forall>d \<in> set ds. \<exists>m. snapshot_node p d = Inr m"
  shows "all_res (map (node_done p) ds)
    = Inr (\<forall>d \<in> set ds. \<exists>m. snapshot_node p d = Inr m \<and> ns_state m = NS_DONE)"
  using assms(2)
  by (induction ds) (auto simp: node_done_def map_of_table [OF assms(1)] snapshot_node_eq)

lemma first_eligible_found:
  assumes dist: "distinct (map ns_node_id (cs_nodes p))" and "\<forall>nd \<in> set nds. nodes_known p nd"
    and "\<exists>nd \<in> set nds. eligible p nd"
  shows "\<exists>nd \<in> set nds. \<exists>n. first_eligible p nds = Inr (Some n) \<and> snapshot_node p (nd_node_id nd) = Inr n \<and> eligible p nd"
  using assms(2,3)
proof (induction nds)
  case (Cons nd nds)
  from Cons.prems(1) obtain n where n: "snapshot_node p (nd_node_id nd) = Inr n"
    and ds: "\<forall>d \<in> set (nd_dependencies nd). \<exists>m. snapshot_node p d = Inr m" by (auto simp: nodes_known_def)
  have first: "first_eligible p (nd # nds) = (if eligible p nd then Inr (Some n) else first_eligible p nds)"
    unfolding first_eligible.simps map_of_table [OF dist] all_done [OF dist ds] eligible_def n
    using n by (auto simp: snapshot_node_eq)
  show ?case
  proof (cases "eligible p nd")
    case True
    with n show ?thesis by (simp only: first) auto
  next
    case False
    with Cons.prems have "\<exists>nd \<in> set nds. eligible p nd" by auto
    with Cons show ?thesis by (simp only: first False if_False) auto
  qed
qed simp

lemma next_node_found:
  assumes ok: "spec_ok spec" and known: "dependencies_known spec" and r: "reachable spec p"
    and run: "cs_state p = CS_RUNNING" and idle: "cs_active_node_id p = None"
  shows "\<exists>n nd. select_next_approved_node p = Inr (Some n) \<and> n \<in> set (cs_nodes p) \<and> ns_state n = NS_PENDING
    \<and> snapshot_node_spec p (ns_node_id n) = Inr nd
    \<and> (\<forall>d \<in> set (nd_dependencies nd). \<exists>m. snapshot_node p d = Inr m \<and> ns_state m = NS_DONE)"
proof -
  have dist: "distinct (map ns_node_id (cs_nodes p))" by (rule reachable_distinct [OF ok r])
  have tab: "cs_spec p = spec" "map ns_node_id (cs_nodes p) = map nd_node_id (sp_nodes spec)"
    using reachable_table [OF r] by (simp_all add: table_ok_def)
  have found: "\<exists>m. snapshot_node p i = Inr m" if "i \<in> nd_node_id ` set (sp_nodes spec)" for i
  proof -
    from that tab(2) obtain m where "m \<in> set (cs_nodes p)" "ns_node_id m = i"
      by (metis (no_types, lifting) image_iff list.set_map)
    with find_distinct_eq [OF dist] show ?thesis by (auto simp: snapshot_node_eq)
  qed
  have all: "\<forall>nd \<in> set (sp_nodes spec). nodes_known p nd"
    unfolding nodes_known_def
  proof (intro ballI conjI)
    fix nd assume nd: "nd \<in> set (sp_nodes spec)"
    then show "\<exists>n. snapshot_node p (nd_node_id nd) = Inr n" by (intro found imageI)
    fix d assume "d \<in> set (nd_dependencies nd)"
    with nd known show "\<exists>m. snapshot_node p d = Inr m" by (intro found) (auto simp: dependencies_known_def)
  qed
  have spec: "snapshot_node_spec p (nd_node_id nd) = Inr nd" if "nd \<in> set (sp_nodes spec)" for nd
    using find_distinct_eq [of nd_node_id "sp_nodes spec", OF _ that] ok
    by (simp add: snapshot_node_spec_def tab(1) spec_ok_def)
  from admissible_node [OF ok known r run idle] obtain n nd where n: "n \<in> set (cs_nodes p)" "ns_state n = NS_PENDING"
    and nd: "snapshot_node_spec p (ns_node_id n) = Inr nd"
    and deps: "\<forall>d \<in> set (nd_dependencies nd). \<exists>m. snapshot_node p d = Inr m \<and> ns_state m = NS_DONE" by blast
  have m: "nd \<in> set (sp_nodes spec)" "nd_node_id nd = ns_node_id n"
    using nd by (auto simp: snapshot_node_spec_def tab(1) split: option.splits dest: find_Some_set)
  have "snapshot_node p (ns_node_id n) = Inr n" using find_distinct_eq [OF dist n(1)] by (simp add: snapshot_node_eq)
  with n(2) deps have "eligible p nd" by (simp add: eligible_def m(2))
  with m(1) have "\<exists>nd \<in> set (sp_nodes spec). eligible p nd" by blast
  from first_eligible_found [OF dist all this] obtain nd' n' where
    f: "nd' \<in> set (sp_nodes spec)" "first_eligible p (sp_nodes spec) = Inr (Some n')"
      "snapshot_node p (nd_node_id nd') = Inr n'" "eligible p nd'" by blast
  from snapshot_node_set [OF f(3)] have i: "n' \<in> set (cs_nodes p)" "ns_node_id n' = nd_node_id nd'" by auto
  with f spec [OF f(1)] show ?thesis
    by (auto simp: select_next_approved_node_def run idle tab(1) nonempty_opt_def eligible_def)
qed

section \<open>Measured evidence\<close>

lemma digest_of_body:
  assumes "''evidence_sha256'' \<notin> fst ` set body"
  shows "dict_get (with_digest body) ''evidence_sha256'' PNone = PStr (canonical_json_digest (PDict body))"
    and "dict_remove ''evidence_sha256'' (with_digest body) = body"
proof -
  have "map_of body ''evidence_sha256'' = None" using assms by (simp add: map_of_eq_None_iff)
  then show "dict_get (with_digest body) ''evidence_sha256'' PNone = PStr (canonical_json_digest (PDict body))"
    by (simp add: with_digest_def dict_get_def map_add_def)
  have "filter (\<lambda>kv. fst kv \<noteq> ''evidence_sha256'') body = body" using assms by (force simp: filter_id_conv)
  then show "dict_remove ''evidence_sha256'' (with_digest body) = body"
    by (simp add: with_digest_def dict_remove_def)
qed

lemma worktree_condition_returns:
  "assert_worktree_condition condition status expected s = (Inr d, t) \<Longrightarrow> t = s \<and> d = sha256_hex status
     \<and> (condition = ''CLEAN'' \<and> status = [] \<or> condition = ''EXACT_STATUS'' \<and> expected = Some d)"
  by (auto simp: assert_worktree_condition_def Let_def returns split: if_splits)

lemma command_measured:
  assumes "execute_trusted_command E c w = (Inr d, w')"
  shows "\<exists>i r after v v'. d = with_digest (command_body c i r (tc_candidate_head c) after True)
    \<and> en_measure E (ci_argv i) (ci_cwd i) (ci_environment i) (tc_timeout_seconds c) (tc_output_limit_bytes c) v = (Inr r, v')
    \<and> ms_exit_code r = tc_required_exit_code c \<and> \<not> ms_timed_out r \<and> \<not> ms_output_limited r
    \<and> ci_status_before i = after \<and> expected_status c = Some after"
  using assms unfolding execute_trusted_command_def Let_def returns
  by (elim exE conjE) (drule worktree_condition_returns, fastforce simp: expected_status_def)

lemma preflight_checks:
  assumes "publication_preflight E root expected head hosted required w = (Inr d, w')"
  shows "\<exists>repo u. en_resolve E root w = (Inr repo, u)
    \<and> (\<exists>observed v v' v'' x origin url. run_git E repo [''rev-parse'', ''HEAD''] u = (Inr observed, v)
        \<and> casefold observed = casefold head \<and> exact_sha (casefold head)
        \<and> normalized_status E repo v = (Inr [], v')
        \<and> run_git E repo [''remote'', ''get-url'', ''origin''] v' = (Inr origin, v'')
        \<and> normalize_remote_url E origin v'' = (Inr url, x) \<and> normalize_remote_url E expected x = (Inr url, w'))"
    and "hosted = None \<longrightarrow> required = []"
    and "\<forall>h. hosted = Some h \<longrightarrow> py_eq (dict_get h ''candidate_head'' PNone) (PStr (casefold head))"
    and "\<exists>items. hosted_items hosted = Inr items \<and> (\<forall>name \<in> set required. \<exists>check.
        map_of (checks_by_name items) name = Some check \<and> dict_get check ''status'' PNone = PStr ''completed''
        \<and> dict_get check ''conclusion'' PNone = PStr ''success'')"
proof -
  from assms obtain repo u observed v v' v'' x origin url items where
    r: "en_resolve E root w = (Inr repo, u)" and e: "exact_sha (casefold head)"
    and o: "run_git E repo [''rev-parse'', ''HEAD''] u = (Inr observed, v)" and h: "casefold observed = casefold head"
    and st: "normalized_status E repo v = (Inr [], v')"
    and g: "run_git E repo [''remote'', ''get-url'', ''origin''] v' = (Inr origin, v'')"
    and urls: "normalize_remote_url E origin v'' = (Inr url, x)" "normalize_remote_url E expected x = (Inr url, w')"
    and req: "required = [] \<or> hosted \<noteq> None"
    and bound: "case hosted of None \<Rightarrow> True | Some h \<Rightarrow> py_eq (dict_get h ''candidate_head'' PNone) (PStr (casefold head))"
    and items: "hosted_items hosted = Inr items"
    and none: "filter (\<lambda>name. map_of (checks_by_name items) name = None) required = []"
      "filter (failing_check (checks_by_name items)) required = []"
    unfolding publication_preflight_def require_sha_def Let_def returns raised_Inr
    by - (elim exE conjE, hypsubst_thin, rule that, assumption+)
  show "\<exists>repo u. en_resolve E root w = (Inr repo, u)
    \<and> (\<exists>observed v v' v'' x origin url. run_git E repo [''rev-parse'', ''HEAD''] u = (Inr observed, v)
        \<and> casefold observed = casefold head \<and> exact_sha (casefold head)
        \<and> normalized_status E repo v = (Inr [], v')
        \<and> run_git E repo [''remote'', ''get-url'', ''origin''] v' = (Inr origin, v'')
        \<and> normalize_remote_url E origin v'' = (Inr url, x) \<and> normalize_remote_url E expected x = (Inr url, w'))"
    by (intro exI conjI; fact r e o h st g urls)
  show "hosted = None \<longrightarrow> required = []" using req by blast
  show "\<forall>h. hosted = Some h \<longrightarrow> py_eq (dict_get h ''candidate_head'' PNone) (PStr (casefold head))"
    using bound by (cases hosted) simp_all
  have "\<exists>check. map_of (checks_by_name items) name = Some check \<and> dict_get check ''status'' PNone = PStr ''completed''
      \<and> dict_get check ''conclusion'' PNone = PStr ''success''" if "name \<in> set required" for name
    using none that by (fastforce simp: filter_empty_conv failing_check_def split: option.splits)
  with items show "\<exists>items. hosted_items hosted = Inr items \<and> (\<forall>name \<in> set required. \<exists>check.
        map_of (checks_by_name items) name = Some check \<and> dict_get check ''status'' PNone = PStr ''completed''
        \<and> dict_get check ''conclusion'' PNone = PStr ''success'')" by blast
qed

section \<open>Validated candidates\<close>

lemma thread_returns:
  assumes "thread f xs b s = (Inr y, t)" and "x \<in> set xs"
  shows "\<exists>c z u v. f x c u = (Inr z, v)"
  using assms
proof (induction xs arbitrary: b s)
  case (Cons a xs)
  from Cons.prems(1) obtain z v where a: "f a b s = (Inr z, v)" and r: "thread f xs z v = (Inr y, t)"
    by (auto simp: returns)
  show ?case
  proof (cases "x = a")
    case True
    with a show ?thesis by blast
  next
    case False
    with Cons.prems(2) show ?thesis using Cons.IH [OF r] by simp
  qed
qed simp

lemma during_returns [returns]: "during vc m s = (Inr x, t) \<longleftrightarrow> m s = (Inr x, t)"
  by (cases "m s"; cases "fst (m s)") (auto simp: during_def)

lemma outside_returns: "outside m s = (Inr x, t) \<Longrightarrow> \<exists>w w'. m w = (Inr x, w')"
  by (auto simp: outside_def split: prod.splits)

lemma command_validated:
  assumes "validate_command S c n root head (k, i) p s = (Inr q, t)"
  shows "\<exists>command w d w'. vc_command_id command = i \<and> execute_trusted_command (su_env S) (trusted_of command head) w = (Inr d, w')"
proof -
  from assms obtain p' u u' command where "approved_command p' i = Inr command"
    "execute_approved S c n root head command u = (Inr (), u')"
    unfolding validate_command_def prod.case returns raised_Inr by auto
  then show ?thesis
    by (auto simp: approved_command_def execute_approved_def returns split: option.splits
        dest!: outside_returns [of "execute_trusted_command E tc" for E tc] find_Some_set)
qed

lemma candidate_in_scope:
  assumes "freeze_candidate S c n a l root head p s = (Inr d, t)"
  shows "\<exists>evidence w w' g paths. exact_repository_evidence (su_env S) root (opt_text (ns_start_head n)) head w = (Inr evidence, w')
    \<and> changed_paths evidence = Inr paths \<and> paths \<noteq> []
    \<and> list_all (\<lambda>path. \<exists>relative. guard_require (su_host S) g path = Inr relative) paths"
proof -
  from assms obtain u v evidence where
    e: "outside (exact_repository_evidence (su_env S) root (opt_text (ns_start_head n)) head) s = (Inr evidence, u)"
    and v: "validate_scope S p (ns_node_id n) evidence u = (Inr (), v)"
    unfolding freeze_candidate_def Let_def returns by auto
  from v obtain g paths y z where paths: "changed_paths evidence = Inr paths" "paths \<noteq> []"
    and g: "each (\<lambda>path. pure_res (guard_require (su_host S) g path)) paths y = (Inr z, v)"
    unfolding validate_scope_def returns raised_Inr by auto
  from each_returns [OF g] have "list_all (\<lambda>path. \<exists>relative. guard_require (su_host S) g path = Inr relative) paths"
    by (auto simp: returns list_all2_conv_all_nth list_all_length)
  with outside_returns [OF e] paths show ?thesis by blast
qed

end
