(* ===== verification/Example_Supervisor.thy ===== *)
theory Example_Supervisor
  imports Supervisor_Safety Example_Effects
begin

text \<open>
  A supervisor over the backend of Example_Effects, at which the properties of the supervisor are
  instantiated.  Its world says whether the publication has happened; its processes and files
  answer without a change of the world, and its clock stands still.
\<close>

definition example_env :: "bool environment" where
  "example_env =
     \<lparr>en_now = (\<lambda>w. (10, w)), en_fromisoformat = (\<lambda>t. Some (5, Some 0)),
      en_run = (\<lambda>argv cwd w. (Inr \<lparr>cp_returncode = 0, cp_stdout = [], cp_stderr = []\<rparr>, w)),
      en_measure = (\<lambda>argv cwd env timeout limit w.
        (Inr \<lparr>ms_exit_code = 0, ms_timed_out = False, ms_output_limited = False, ms_stdout_sha256 = ''o'',
             ms_stderr_sha256 = ''e'', ms_stdout = [], ms_stderr = [], ms_duration_ms = 1\<rparr>, w)),
      en_resolve = give, en_expand = give, en_expanduser = give, en_normcase = id,
      en_locate = (\<lambda>raw cwd. give (Some raw)), en_which = (\<lambda>raw. give (Some raw)), en_is_file = (\<lambda>p. give True),
      en_is_dir = (\<lambda>p. give True), en_file_sha256 = (\<lambda>p. give p), en_local = give,
      en_read_under = (\<lambda>root relative. give ''text''), en_utf8 = (\<lambda>t. True), en_read_text = (\<lambda>p. give p),
      en_lstat = (\<lambda>p. give (False, 1, 2)), en_is_symlink = (\<lambda>p. give False),
      en_size = (\<lambda>p. give 0), en_volume = (\<lambda>p. give (1, 2)), en_join = (\<lambda>a b. a @ ''/'' @ b),
      en_parent = id, en_is_absolute = starts_with ''/'', en_relative_to = (\<lambda>a b. starts_with b a),
      en_ip_host = (\<lambda>h. True), en_url_path = id, en_as_uri = (\<lambda>p. ''file://'' @ p),
      en_environ = [], en_os_name = ''posix'', en_platform = ''linux''\<rparr>"

definition example_native :: "bool worker_host" where
  "example_native =
     \<lparr>wh_create = (\<lambda>l. give []), wh_keep = (\<lambda>l d. give ()), wh_close = (\<lambda>l. give ()), wh_turn = (\<lambda>i p. give ()),
      wh_collect = (\<lambda>i epochs timeout. give []), wh_interrupt = (\<lambda>i. give ()), wh_recover = None,
      wh_process = (\<lambda>pid. give None), wh_kill = (\<lambda>pid. give ())\<rparr>"

definition example_supervisor :: "bool supervisor" where
  "example_supervisor =
     \<lparr>su_host = example_host, su_env = example_env, su_native = example_native,
      su_backend = Some example_backend, su_collector = collect_hosted_checks example_env,
      su_preflight = publication_preflight example_env\<rparr>"

lemma example_supervisor_simps [simp]:
  "su_host example_supervisor = example_host" "su_env example_supervisor = example_env"
  "su_native example_supervisor = example_native" "su_backend example_supervisor = Some example_backend"
  by (simp_all add: example_supervisor_def)

text \<open>The supervisor after other processes have brought the store to a state.\<close>

definition supervising :: "store \<Rightarrow> bool sup" where
  "supervising db = (fresh_supervisor False)\<lparr>sv_driver := \<lparr>dv_store = db, dv_world = False, dv_executed = []\<rparr>\<rparr>"

lemma supervising_simps [simp]:
  "dv_store (sv_driver (supervising db)) = db" "sv_turns (supervising db) = []" "sv_workers (supervising db) = []"
  "dv_executed (sv_driver (supervising db)) = []"
  by (simp_all add: supervising_def fresh_supervisor_def)

lemma supervising_moves:
  assumes "store_calls (su_host S) db db'"
  shows "(supervisor_move S)\<^sup>*\<^sup>* (supervising db) (supervising db')"
  using assms
proof (induction rule: rtranclp_induct)
  case (step x y)
  have "supervisor_move S (supervising x) ((supervising x)\<lparr>sv_driver := (sv_driver (supervising x))\<lparr>dv_store := y\<rparr>\<rparr>)"
    using step(2) by (intro supervisor_move.store) simp
  then have "supervisor_move S (supervising x) (supervising y)" by (simp add: supervising_def)
  with step(3) show ?case by (rule rtranclp.rtrancl_into_rtrancl)
qed simp

lemma supervising_history:
  assumes "store_history (su_host S) db"
  shows "supervisor_history S (supervising db)"
proof -
  have "supervising empty_store = fresh_supervisor False" by (simp add: supervising_def fresh_supervisor_def)
  then show ?thesis
    using supervising_moves [OF steps_calls [OF assms [unfolded store_history_def]]]
    unfolding supervisor_history_def by metis
qed

text \<open>No node of the example has acceptance scenarios, so that there is no source to verify.\<close>

lemma example_sources:
  assumes "cs_spec s = example_spec" and "snapshot_node s ''n'' = Inr n"
  shows "verify_sources example_supervisor s ''n'' u = (Inr (), u)"
proof -
  have spec: "snapshot_node_spec s ''n'' = Inr (hd (sp_nodes example_spec))"
    using assms(1) by (simp add: snapshot_node_spec_def example_nodes)
  have "verify_acceptance_sources example_env (campaign_spec_to_dict example_spec) (Some ''n'') w = (Inr [], w)" for w
    by (simp add: verify_acceptance_sources_def campaign_spec_to_dict_def example_nodes node_spec_to_dict_def
        get_tuple_def py_get_def dict_get_def and_then_def checked_def pure_res_def give_def py_eq_def
        py_opt_str_def)
  then show ?thesis
    using assms(2) by (simp add: verify_sources_def assms(1) outside_def and_then_def checked_def pure_res_def spec
        example_nodes give_def)
qed

text \<open>The execution of the publication that the store has prepared.\<close>

lemma example_execution:
  "dv_executed (sv_driver (snd (execute_publication example_supervisor ''c'' ''n'' ''push'' (supervising example_leased))))
    = [''push'']"
proof -
  let ?u = "supervising example_leased" and ?S = "example_supervisor"
  have load: "current ?S ''c'' ?u = (Inr example_initial, ?u)"
    by (simp add: current_def queried_def on_driver_def read_store_def get_snapshot_def example_leased_loaded)
  have node: "\<exists>n. snapshot_node example_initial ''n'' = Inr n"
    by (simp add: snapshot_node_eq example_initial_simps node_default_def)
  have d: "sv_driver ?u = example_driver" by (simp add: supervising_def example_driver_def)
  obtain r v where run: "Effect_Driver.run example_host example_backend ''push'' False example_driver = (r, v)"
    by fastforce
  have v: "dv_executed v = [''push'']" using example_run_executes by (simp add: run)
  let ?v = "?u\<lparr>sv_driver := v\<rparr>"
  have calm: "dv_executed (sv_driver (snd (complete_record ?S c n rc ?v))) = [''push'']" for c n rc
    using obeys_snd [OF calm_complete_record [of ?S c n rc], of ?v] v by (simp add: calm_step_def)
  have "execute_publication ?S ''c'' ''n'' ''push'' ?u
      = (case r of Inl err \<Rightarrow> (Inl (Raised err), ?v) | Inr record \<Rightarrow> complete_record ?S ''c'' ''n'' record ?v)"
    using node by (auto simp: execute_publication_def and_then_def load example_sources example_initial_simps
        on_driver_def d run split: sum.split)
  then show ?thesis using v calm by (cases r) simp_all
qed

section \<open>A repository\<close>

text \<open>An environment whose Git answers for a clean repository at \<open>/w\<close> with a fixed head.\<close>

definition example_head :: string where
  "example_head = replicate 40 (CHR ''a'')"

definition example_git :: "bool environment" where
  "example_git = example_env\<lparr>en_run := (\<lambda>argv cwd w. (Inr \<lparr>cp_returncode = 0,
     cp_stdout = (if argv = [''git'', ''rev-parse'', ''HEAD''] then example_head
       else if argv = [''git'', ''rev-parse'', ''--show-toplevel''] then ''/w''
       else if argv = [''git'', ''remote'', ''get-url'', ''origin''] then ''r'' else []),
     cp_stderr = []\<rparr>, w))\<rparr>"

lemma example_head_facts: "py_strip example_head = example_head" "casefold example_head = example_head"
  "exact_sha example_head" "example_head \<noteq> []"
  by code_simp+

definition example_command :: trusted_command where
  "example_command =
     \<lparr>tc_executable = ''check'', tc_arguments = [], tc_working_directory = ''/w'', tc_environment_allowlist = [],
      tc_environment = [], tc_timeout_seconds = 60, tc_output_limit_bytes = 1000, tc_candidate_head = example_head,
      tc_expected_working_tree = ''CLEAN'', tc_expected_status_sha256 = None, tc_required_exit_code = 0,
      tc_execution_boundary = ''READ_ONLY''\<rparr>"

lemma example_git_runs:
  "run_git example_git root [''rev-parse'', ''HEAD''] w = (Inr example_head, w)"
  "run_git example_git root [''rev-parse'', ''--show-toplevel''] w = (Inr ''/w'', w)"
  "run_git example_git root [''remote'', ''get-url'', ''origin''] w = (Inr ''r'', w)"
  "normalized_status example_git root w = (Inr [], w)"
proof -
  have strips: "py_strip ''/w'' = ''/w''" "py_strip ''r'' = ''r''" by code_simp+
  show "run_git example_git root [''rev-parse'', ''HEAD''] w = (Inr example_head, w)"
    "run_git example_git root [''rev-parse'', ''--show-toplevel''] w = (Inr ''/w'', w)"
    "run_git example_git root [''remote'', ''get-url'', ''origin''] w = (Inr ''r'', w)"
    "normalized_status example_git root w = (Inr [], w)"
    by (simp_all add: normalized_status_def run_git_def run_process_def example_git_def catch_when_def catch_def attempt_def
        and_then_def give_def strips example_head_facts)
qed

lemma example_measured: "\<exists>d. execute_trusted_command example_git example_command w = (Inr d, w)"
proof -
  have x: "resolve_executable example_git v cwd w = (Inr v, w)" if "v \<in> {''check'', ''bwrap''}" for v cwd
  proof -
    have "py_strip ''check'' = ''check''" "py_strip ''bwrap'' = ''bwrap''" by code_simp+
    with that show ?thesis
      by (auto simp: resolve_executable_def Let_def example_git_def example_env_def demand_def and_then_def give_def)
  qed
  let ?c = example_command
  have fields: "tc_executable ?c = ''check''" "tc_arguments ?c = []" "tc_working_directory ?c = ''/w''"
    "tc_expected_working_tree ?c = ''CLEAN''" "tc_execution_boundary ?c = ''READ_ONLY''" "tc_candidate_head ?c = example_head"
    "tc_environment_allowlist ?c = []" "tc_environment ?c = []" "tc_required_exit_code ?c = 0"
    "tc_timeout_seconds ?c = 60" "tc_output_limit_bytes ?c = 1000"
    by (simp_all add: example_command_def)
  have env: "en_expand example_git = give" "en_resolve example_git = give" "en_normcase example_git = id"
    "en_os_name example_git = ''posix''" "en_platform example_git = ''linux''" "en_file_sha256 example_git = give"
    by (simp_all add: example_git_def example_env_def fun_eq_iff)
  have clean: "assert_worktree_condition ''CLEAN'' [] e w = (Inr (sha256_hex []), w)" for e
    by (simp add: assert_worktree_condition_def Let_def demand_def give_def)
  have environment: "\<exists>d. effective_command_environment example_git ?c w = (Inr d, w)"
    by (simp add: effective_command_environment_def command_environment_def fields env demand_def and_then_def give_def
        sorted_set_def Let_def)
  have boundary: "\<exists>argv. validation_boundary_command example_git ''check'' [] cwd ''READ_ONLY'' w = (Inr (argv, Some ''bwrap''), w)" for cwd
    by (simp add: validation_boundary_command_def env starts_with_def and_then_def x give_def)
  have "\<exists>i. prepare_command example_git ?c w = (Inr i, w) \<and> ci_status_before i = sha256_hex []
      \<and> ci_executable i = ''check'' \<and> ci_executable_sha256 i = ''check'' \<and> ci_boundary i = Some ''bwrap''
      \<and> ci_boundary_sha256 i = Some ''bwrap''"
    using environment boundary [of "''/w''"]
    by (auto simp: prepare_command_def fields env and_then_def example_git_runs demand_def give_def clean x
        example_head_facts file_digest_of_def)
  then obtain i where i: "prepare_command example_git ?c w = (Inr i, w)" "ci_status_before i = sha256_hex []"
    "ci_executable i = ''check''" "ci_executable_sha256 i = ''check''" "ci_boundary i = Some ''bwrap''"
    "ci_boundary_sha256 i = Some ''bwrap''" by blast
  have "\<exists>r. en_measure example_git argv cwd d t l w = (Inr r, w) \<and> ms_exit_code r = 0 \<and> \<not> ms_timed_out r
      \<and> \<not> ms_output_limited r" for argv cwd d t l
    by (simp add: example_git_def example_env_def)
  then obtain r where r: "en_measure example_git (ci_argv i) (ci_cwd i) (ci_environment i) 60 1000 w = (Inr r, w)"
    "ms_exit_code r = 0" "\<not> ms_timed_out r" "\<not> ms_output_limited r" by blast
  show ?thesis
    by (simp add: execute_trusted_command_def fields env and_then_def i r example_git_runs demand_def give_def clean
        example_head_facts file_digest_of_def Let_def)
qed

definition example_hosted :: pydict where
  "example_hosted =
     [(''candidate_head'', PStr example_head),
      (''checks'', PList [PDict [(''name'', PStr ''ci''), (''status'', PStr ''completed''), (''conclusion'', PStr ''success'')]])]"

lemma example_remote [simp]: "normalize_remote_url example_git ''r'' = give ''r''"
  by code_simp

lemma example_preflight:
  "\<exists>d. publication_preflight example_git ''/w'' ''r'' example_head (Some example_hosted) [''ci''] w = (Inr d, w)"
proof -
  have env: "en_resolve example_git = give" by (simp add: example_git_def example_env_def)
  show ?thesis
    by (simp add: publication_preflight_def require_sha_def env and_then_def give_def demand_def example_git_runs
        example_head_facts pure_res_def checked_def hosted_items_def example_hosted_def checks_by_name_def
        failing_check_def Let_def)
qed

end
