(* ===== verification/Supervisor_Properties.thy ===== *)
theory Supervisor_Properties
  imports Supervisor_Contracts Example_Supervisor
begin

text \<open>
  Properties of the supervisor, over all of its operations and every environment: what it does to
  the store and to the outside, what it refuses, and which action it takes.
\<close>

section \<open>Histories\<close>

text \<open>C2: In every history of a supervisor (its operations in any order, with any arguments and any
  outcome, interleaved with other processes on the store, changes of the world and restarts) no
  effect is executed twice, and an effect that was executed is recorded and no longer prepared.\<close>

theorem supervisor_executes_once:
  assumes "supervisor_history S s"
  shows "distinct (dv_executed (sv_driver s))
    \<and> list_all (\<lambda>i. \<exists>x. find_effect (dv_store (sv_driver s)) i = Some x \<and> xr_state x \<noteq> ''PREPARED'')
        (dv_executed (sv_driver s))"
  using history_lawful(2) [OF assms] by (auto simp: executed_once_def left_prepared_def list_all_iff)

theorem supervisor_executes_once_witness:
  "dv_executed (sv_driver (snd (execute_publication example_supervisor ''c'' ''n'' ''push'' (supervising example_leased))))
      = [''push'']
    \<and> (\<exists>x. find_effect (dv_store (sv_driver (snd (execute_publication example_supervisor ''c'' ''n'' ''push''
        (supervising example_leased))))) ''push'' = Some x \<and> xr_state x \<noteq> ''PREPARED'')"
proof -
  let ?t = "snd (execute_publication example_supervisor ''c'' ''n'' ''push'' (supervising example_leased))"
  have "supervisor_history example_supervisor (supervising example_leased)"
    by (rule supervising_history) (simp add: example_leased_history)
  then have "supervisor_history example_supervisor ?t"
    unfolding supervisor_history_def by (meson rtranclp.rtrancl_into_rtrancl supervisor_move.execute)
  from supervisor_executes_once [OF this] show ?thesis by (simp add: example_execution)
qed

text \<open>C31: The supervisor changes the store only through the operations of the store: the store of
  every history is reached from the empty one by calls of them, so that what they keep holds;
  above all, a resource has at most one active lease.\<close>

theorem supervisor_refines_store:
  assumes "supervisor_history S s"
  shows "(store_call (su_host S))\<^sup>*\<^sup>* empty_store (dv_store (sv_driver s))
    \<and> distinct (map lr_resource_key (filter (\<lambda>l. lr_state l = ''ACTIVE'') (db_leases (dv_store (sv_driver s)))))"
proof -
  note calls = history_lawful(1) [OF assms]
  from leases.call_history [OF calls] calls show ?thesis
    by (simp add: call_history_def single_leases_def active_keys_def)
qed

theorem supervisor_refines_store_witness:
  "(store_call example_host)\<^sup>*\<^sup>* empty_store (dv_store (sv_driver (snd (supervisor_cancel example_supervisor ''c'' ''stop''
      (supervising example_leased)))))"
proof -
  have "supervisor_history example_supervisor (supervising example_leased)"
    by (rule supervising_history) (simp add: example_leased_history)
  then have "supervisor_history example_supervisor (snd (supervisor_cancel example_supervisor ''c'' ''stop''
      (supervising example_leased)))"
    unfolding supervisor_history_def by (meson rtranclp.rtrancl_into_rtrancl supervisor_move.cancel)
  from supervisor_refines_store [OF this] show ?thesis by simp
qed

text \<open>C3: No turn starts before its binding: every turn that a step, a dispatch or the start of a
  review begins, from any state and with any outcome, belongs to a lease for which the store, at
  that moment, had recorded the request that binds the native thread.\<close>

theorem turns_start_bound:
  "\<exists>ts us vs.
     sv_turns (snd (supervisor_step S c s)) = sv_turns s @ ts
   \<and> sv_turns (snd (dispatch_worker S c n role r ty s)) = sv_turns s @ us
   \<and> sv_turns (snd (begin_review S c n s)) = sv_turns s @ vs
   \<and> list_all (\<lambda>(i, db). \<exists>q row. bq_lease_id q = i \<and> find_operation db (bq_request_id q) = Some row
        \<and> or_payload_digest row = bind_request_digest q) (ts @ us @ vs)"
proof -
  obtain ts where "sv_turns (snd (supervisor_step S c s)) = sv_turns s @ ts" "list_all (\<lambda>(i, db). bound_turn db i) ts"
    using lawful_turns [OF lawful_supervisor_step] by blast
  moreover obtain us where "sv_turns (snd (dispatch_worker S c n role r ty s)) = sv_turns s @ us"
    "list_all (\<lambda>(i, db). bound_turn db i) us"
    using lawful_turns [OF lawful_dispatch] by blast
  moreover obtain vs where "sv_turns (snd (begin_review S c n s)) = sv_turns s @ vs"
    "list_all (\<lambda>(i, db). bound_turn db i) vs"
    using lawful_turns [OF lawful_begin_review] by blast
  ultimately show ?thesis
    by (intro exI [of _ ts] exI [of _ us] exI [of _ vs]) (simp add: bound_turn_def)
qed

text \<open>C32: STOP, recovery, reconciliation, validation, the acceptance of a terminal receipt and the
  preparation of a publication start no turn and execute no effect, whatever they meet.\<close>

theorem only_dispatch_and_execution_act:
  "sv_turns (snd (supervisor_cancel S c reason s)) = sv_turns s
   \<and> dv_executed (sv_driver (snd (supervisor_cancel S c reason s))) = dv_executed (sv_driver s)
   \<and> sv_turns (snd (supervisor_recover S s)) = sv_turns s
   \<and> dv_executed (sv_driver (snd (supervisor_recover S s))) = dv_executed (sv_driver s)
   \<and> sv_turns (snd (supervisor_reconcile S i s)) = sv_turns s
   \<and> dv_executed (sv_driver (snd (supervisor_reconcile S i s))) = dv_executed (sv_driver s)
   \<and> sv_turns (snd (validate_node S c n s)) = sv_turns s
   \<and> dv_executed (sv_driver (snd (validate_node S c n s))) = dv_executed (sv_driver s)
   \<and> sv_turns (snd (complete_worker S l timeout retry s)) = sv_turns s
   \<and> dv_executed (sv_driver (snd (complete_worker S l timeout retry s))) = dv_executed (sv_driver s)
   \<and> sv_turns (snd (start_publication S c n wakeup s)) = sv_turns s
   \<and> dv_executed (sv_driver (snd (start_publication S c n wakeup s))) = dv_executed (sv_driver s)"
  by (intro conjI) ((rule conjunct1 [OF calm_traces] conjunct2 [OF calm_traces]), rule calm_intros)+

section \<open>Refusals\<close>

text \<open>C5: Findings are frozen, and a closure is completed, only on attested receipts: when the
  receipts are not those of exactly the required cohort, or the store does not hold for one of
  them the unique evidence of its reviewer for the candidate with actor, lease and terminal
  attestation, the operation raises and leaves the store as it was.\<close>

theorem unattested_reviews_refused:
  assumes "get_snapshot (su_host S) (dv_store (sv_driver s)) c = Inr p" and "snapshot_node p i = Inr n"
  shows "(exact_cohort p receipts \<and> list_all (review_attested (dv_store (sv_driver s)) p n AR_REVIEWER) receipts
      \<or> (\<exists>exc t. freeze_review S c i receipts findings s = (Inl exc, t) \<and> dv_store (sv_driver t) = dv_store (sv_driver s)))
    \<and> (exact_cohort p receipts \<and> list_all (review_attested (dv_store (sv_driver s)) p n AR_CLOSURE_REVIEWER) receipts
      \<or> (\<exists>exc t. complete_closure S c i receipts resolved findings s = (Inl exc, t)
            \<and> dv_store (sv_driver t) = dv_store (sv_driver s)))"
  using freeze_refused [OF assms, of receipts findings] closure_refused [OF assms, of receipts resolved findings]
  by (auto simp: refuses_def list_all_iff)

theorem unattested_reviews_refused_witness:
  "\<exists>exc t. freeze_review example_supervisor ''c'' ''n'' [[(''reviewer_id'', PStr ''q'')]] [] (supervising example_leased)
      = (Inl exc, t) \<and> dv_store (sv_driver t) = example_leased"
proof -
  have p: "get_snapshot (su_host example_supervisor) (dv_store (sv_driver (supervising example_leased))) ''c''
      = Inr example_initial"
    by (simp add: get_snapshot_def example_leased_loaded)
  have n: "snapshot_node example_initial ''n'' = Inr (node_default ''n'')"
    by (simp add: snapshot_node_def example_initial_simps node_default_def)
  have "\<not> review_attested example_leased example_initial (node_default ''n'') AR_REVIEWER [(''reviewer_id'', PStr ''q'')]"
    by (simp add: review_attested_def node_default_def)
  then show ?thesis
    using unattested_reviews_refused [OF p n, of "[[(''reviewer_id'', PStr ''q'')]]" "[]" "[]"] by simp
qed




section \<open>Evidence\<close>




text \<open>C35: A preflight that returns has seen the exact candidate: the repository was on its head with a
  clean worktree, its remote is the approved one, the hosted evidence is bound to the head, and
  every required check is in it, completed with success.\<close>

theorem preflight_exact:
  assumes "publication_preflight E root expected head hosted required w = (Inr d, w')"
  shows "(\<exists>repo u observed v v' v'' x origin url. en_resolve E root w = (Inr repo, u)
      \<and> run_git E repo [''rev-parse'', ''HEAD''] u = (Inr observed, v)
      \<and> casefold observed = casefold head \<and> exact_sha (casefold head) \<and> normalized_status E repo v = (Inr [], v')
      \<and> run_git E repo [''remote'', ''get-url'', ''origin''] v' = (Inr origin, v'')
      \<and> normalize_remote_url E origin v'' = (Inr url, x) \<and> normalize_remote_url E expected x = (Inr url, w'))
    \<and> (required = [] \<or> hosted \<noteq> None)
    \<and> list_all (\<lambda>h. py_eq (dict_get h ''candidate_head'' PNone) (PStr (casefold head))) (opt_list hosted)
    \<and> (\<exists>items. hosted_items hosted = Inr items \<and> list_all (\<lambda>name. \<exists>check.
        map_of (checks_by_name items) name = Some check \<and> dict_get check ''status'' PNone = PStr ''completed''
        \<and> dict_get check ''conclusion'' PNone = PStr ''success'') required)"
proof (intro conjI)
  from preflight_checks(1) [OF assms] show "\<exists>repo u observed v v' v'' x origin url. en_resolve E root w = (Inr repo, u)
      \<and> run_git E repo [''rev-parse'', ''HEAD''] u = (Inr observed, v)
      \<and> casefold observed = casefold head \<and> exact_sha (casefold head) \<and> normalized_status E repo v = (Inr [], v')
      \<and> run_git E repo [''remote'', ''get-url'', ''origin''] v' = (Inr origin, v'')
      \<and> normalize_remote_url E origin v'' = (Inr url, x) \<and> normalize_remote_url E expected x = (Inr url, w')" by blast
  from preflight_checks(2) [OF assms] show "required = [] \<or> hosted \<noteq> None" by blast
  from preflight_checks(3) [OF assms]
  show "list_all (\<lambda>h. py_eq (dict_get h ''candidate_head'' PNone) (PStr (casefold head))) (opt_list hosted)"
    by (cases hosted) (simp_all add: opt_list_def)
  from preflight_checks(4) [OF assms] show "\<exists>items. hosted_items hosted = Inr items \<and> list_all (\<lambda>name. \<exists>check.
        map_of (checks_by_name items) name = Some check \<and> dict_get check ''status'' PNone = PStr ''completed''
        \<and> dict_get check ''conclusion'' PNone = PStr ''success'') required"
    by (simp only: list_all_iff)
qed

theorem preflight_exact_witness:
  "\<exists>d. publication_preflight example_git ''/w'' ''r'' example_head (Some example_hosted) [''ci''] False = (Inr d, False)
    \<and> (\<exists>items check. hosted_items (Some example_hosted) = Inr items \<and> map_of (checks_by_name items) ''ci'' = Some check
        \<and> dict_get check ''conclusion'' PNone = PStr ''success'')"
proof -
  from example_preflight [of False] obtain d where
    d: "publication_preflight example_git ''/w'' ''r'' example_head (Some example_hosted) [''ci''] False = (Inr d, False)"
    by blast
  from preflight_exact [OF d] d show ?thesis by auto
qed

section \<open>The next action\<close>

text \<open>A step on a campaign that waits (a draft for its approval, a campaign in a waiting state for
  its event) and that has no deadline returns the event it waits for and changes nothing: neither
  the store nor the world, the workers or the traces.\<close>

theorem waiting_campaigns_yield:
  assumes "get_snapshot (su_host S) (dv_store (sv_driver s)) c = Inr p"
    and "cs_state p \<in> {CS_DRAFT, CS_WAITING_EXTERNAL, CS_WAITING_HUMAN}" and "sp_deadline_utc (cs_spec p) = None"
  shows "supervisor_step S c s = (Inr \<lparr>sd_campaign_id = c, sd_revision = cs_revision p,
      sd_campaign_state = campaign_state_value (cs_state p), sd_action = ''YIELD'', sd_node_id = cs_active_node_id p,
      sd_wait_event = Some (if cs_state p = CS_DRAFT then ''approve'' else ''external_event''), sd_details = None\<rparr>, s)"
proof -
  have load: "current S c s = (Inr p, s)" using assms(1) by (simp add: current_returns)
  have quiet: "check_deadline S p None s = (Inr (), s)"
    by (simp add: check_deadline_def effective_deadline_def assms(3) and_then_def pure_res_def present_def give_def)
  have "campaign_action S c p s = (Inr (waiting c p (cs_active_node_id p)
      (if cs_state p = CS_DRAFT then ''approve'' else ''external_event'') None), s)"
    using assms(2) by (auto simp: campaign_action_def give_def)
  then show ?thesis
    using assms(2) by (auto simp: supervisor_step_def catch_def attempt_def step_body_def and_then_def load quiet
        TERMINAL_CAMPAIGN_STATES_def waiting_def decided_def give_def)
qed

theorem waiting_campaigns_yield_witness:
  "map_sum id sd_wait_event (fst (supervisor_step example_supervisor ''c'' (supervising example_leased))) = Inr (Some ''approve'')"
proof -
  have "get_snapshot (su_host example_supervisor) (dv_store (sv_driver (supervising example_leased))) ''c''
      = Inr example_initial"
    by (simp add: get_snapshot_def example_leased_loaded)
  from waiting_campaigns_yield [OF this] show ?thesis
    by (simp add: example_initial_simps example_spec_def example_base_def)
qed

text \<open>A running campaign whose specification passed \<open>__post_init__\<close> and that has no active node
  takes the next one: the supervisor finds a pending node all of whose dependencies are done, and
  its action is the admission of that node.\<close>

theorem idle_campaigns_admit:
  assumes "campaign_spec_post_init resolve s0 = Inr spec" and "reachable spec p"
    and "cs_state p = CS_RUNNING" and "cs_active_node_id p = None"
  shows "\<exists>n nd. campaign_action S c p s = admit_next S c p n s
    \<and> n \<in> set (cs_nodes p) \<and> ns_state n = NS_PENDING \<and> snapshot_node_spec p (ns_node_id n) = Inr nd
    \<and> list_all (\<lambda>d. \<exists>m. snapshot_node p d = Inr m \<and> ns_state m = NS_DONE) (nd_dependencies nd)"
proof -
  from next_node_found [OF spec_post_init_ok [OF assms(1)] spec_post_init_known [OF assms(1)] assms(2-4)]
  obtain n nd where n: "select_next_approved_node p = Inr (Some n)" "n \<in> set (cs_nodes p)" "ns_state n = NS_PENDING"
    "snapshot_node_spec p (ns_node_id n) = Inr nd"
    "\<forall>d \<in> set (nd_dependencies nd). \<exists>m. snapshot_node p d = Inr m \<and> ns_state m = NS_DONE" by blast
  have "campaign_action S c p s = admit_next S c p n s"
    using assms(3) n(1) by (simp add: campaign_action_def and_then_def checked_def pure_res_def)
  with n(2-5) show ?thesis by (auto simp: list_all_iff)
qed

theorem idle_campaigns_admit_witness:
  "\<exists>n \<in> set (cs_nodes (example_between example_digest)). ns_state n = NS_PENDING
    \<and> campaign_action example_supervisor ''c'' (example_between example_digest) (supervising example_leased)
        = admit_next example_supervisor ''c'' (example_between example_digest) n (supervising example_leased)"
proof -
  have st: "cs_state (example_between example_digest) = CS_RUNNING" "cs_active_node_id (example_between example_digest) = None"
    by (simp_all add: example_between_def example_publishing_def example_ready_def example_start_def)
  from idle_campaigns_admit [OF example_valid example_reachable(3) st] show ?thesis by blast
qed



end
