(* ===== verification/GitHub_Backend.thy ===== *)
theory GitHub_Backend
  imports Admission_Sources
begin

text \<open>
  \<open>GitHubBackend\<close> of effects.py: the Git and GitHub commands behind one external effect.  Every query
  and every mutation first binds the worktree and its remote to the approved repository.  The
  commands are processes of the environment; a mutation that fails once it has started is an
  \<open>AmbiguousMutation\<close>.
\<close>

section \<open>Commands\<close>

text \<open>The executables, found when the backend is made.\<close>

record hub =
  hb_gh :: string
  hb_git :: string

definition found_or :: "'w environment \<Rightarrow> string \<Rightarrow> ('w, string) call" where
  "found_or E name = and_then (en_which E name) (\<lambda>found. give (or_else found name))"

definition connect_hub :: "'w environment \<Rightarrow> string \<Rightarrow> string \<Rightarrow> ('w, hub) call" where
  "connect_hub E gh git =
     and_then (found_or E gh) (\<lambda>g. and_then (found_or E git) (\<lambda>t. give \<lparr>hb_gh = g, hb_git = t\<rparr>))"

definition conflict :: "string \<Rightarrow> failure" where
  "conflict m = Raised (EffectConflict m)"

definition effect_error :: "string \<Rightarrow> failure" where
  "effect_error m = Raised (EffectError m)"

fun run_failed :: "string \<Rightarrow> bool \<Rightarrow> failure \<Rightarrow> failure" where
  "run_failed name mutation (SubprocessError c m) =
     (if c \<noteq> ''TimeoutExpired'' then SubprocessError c m
      else if mutation then Raised (AmbiguousMutation (''mutation timed out: '' @ name))
      else effect_error (''query timed out: '' @ name))"
| "run_failed name mutation (OSError c m) = effect_error (''cannot execute '' @ name @ '': '' @ m)"
| "run_failed name mutation err = err"

definition hub_run :: "'w environment \<Rightarrow> bool \<Rightarrow> string list \<Rightarrow> string \<Rightarrow> ('w, string) call" where
  "hub_run E mutation argv cwd =
     and_then (catch (en_run E argv cwd) (\<lambda>exc. fail (run_failed (hd argv) mutation exc))) (\<lambda>r.
     let message = take 1000 (py_strip (if cp_stderr r \<noteq> [] then cp_stderr r else cp_stdout r))
     in if cp_returncode r = 0 then give (py_strip (cp_stdout r))
        else if mutation then fail (Raised (AmbiguousMutation (''mutation transport failed after start: '' @ message)))
        else fail (effect_error (''command exited '' @ show_int (cp_returncode r) @ '': '' @ join '' '' argv
               @ '': '' @ message)))"

definition gh_query :: "'w environment \<Rightarrow> hub \<Rightarrow> string \<Rightarrow> string list \<Rightarrow> ('w, pyval) call" where
  "gh_query E H root args =
     and_then (hub_run E False (hb_gh H # args) root) (\<lambda>raw.
     case json_loads raw of
       None \<Rightarrow> fail (effect_error ''GitHub query returned non-JSON output'')
     | Some v \<Rightarrow> give v)"

section \<open>The fields of a payload\<close>

text \<open>\<open>str(value or "")\<close>\<close>

definition text_or_empty :: "pyval \<Rightarrow> string" where
  "text_or_empty v = (if py_truthy v then py_str v else [])"

definition effect_sha :: "pyval \<Rightarrow> string \<Rightarrow> ('s, failure, string) proc" where
  "effect_sha v label =
     (let t = casefold (text_or_empty v)
      in demand (valid_sha t) (effect_error (label @ '' must be one exact Git SHA'')) (give t))"

definition field_sha :: "pyval \<Rightarrow> string \<Rightarrow> string \<Rightarrow> ('s, failure, string) proc" where
  "field_sha payload k label = and_then (checked (py_get payload k PNone)) (\<lambda>v. effect_sha v label)"

definition field_text :: "pyval \<Rightarrow> string \<Rightarrow> string \<Rightarrow> ('s, failure, string) proc" where
  "field_text payload k dflt = checked (get_str payload k dflt)"

definition stable_field :: "pyval \<Rightarrow> string \<Rightarrow> pyval \<Rightarrow> string \<Rightarrow> ('s, failure, string) proc" where
  "stable_field payload k dflt label =
     and_then (checked (py_get payload k dflt)) (\<lambda>v. checked (stable_id (text_or_empty v) label))"

definition hub_root :: "'w environment \<Rightarrow> pyval \<Rightarrow> ('w, string) call" where
  "hub_root E payload = and_then (field_text payload ''root'' []) (en_resolve E)"

function count_of :: "string \<Rightarrow> string \<Rightarrow> nat" where
  "count_of marker s =
     (if s = [] \<or> marker = [] then 0
      else if starts_with marker s then Suc (count_of marker (drop (length marker) s))
      else count_of marker (tl s))"
  by pat_completeness auto
termination
  by (relation "measure (\<lambda>(_, s). length s)") (auto simp: neq_Nil_conv)

declare count_of.simps [simp del]

definition comment_contract :: "pyval \<Rightarrow> ('s, failure, string \<times> string) proc" where
  "comment_contract payload =
     and_then (field_text payload ''marker'' []) (\<lambda>raw.
     and_then (field_text payload ''body'' []) (\<lambda>body.
     let marker = py_strip raw
     in demand (marker \<noteq> []) (effect_error ''comment marker must be nonempty'')
       (demand (count_of marker body = 1) (effect_error ''comment body must embed the unique marker exactly once'')
         (give (marker, body)))))"

section \<open>The binding to the approved repository\<close>

definition repository_from_remote :: "'w environment \<Rightarrow> string \<Rightarrow> ('w, string \<times> string) call" where
  "repository_from_remote E normalized =
     and_then (checked (urlsplit E normalized)) (\<lambda>u.
     let parts = filter (\<lambda>p. p \<noteq> []) (split_on (CHR ''/'') (ur_path u));
         host = casefold (fst (host_and_port (ur_netloc u)));
         owner_name = join ''/'' parts
     in demand (ur_scheme u \<in> {''http'', ''https''} \<and> host \<noteq> [] \<and> length parts = 2)
          (conflict ''repository remote is not one exact GitHub owner/repository identity'')
          (give (if host = ''github.com'' then owner_name else host @ ''/'' @ owner_name, owner_name)))"

definition local_bare_remote :: "'w environment \<Rightarrow> hub \<Rightarrow> string \<Rightarrow> ('w, string) call" where
  "local_bare_remote E H remote =
     and_then (checked (urlsplit E remote)) (\<lambda>u.
     demand (ur_scheme u = ''file'' \<and> ur_netloc u = [] \<and> ur_query u = [] \<and> ur_fragment u = [])
       (conflict ''local push requires one canonical file URI without a host'')
    (let raw = en_url_path E (ur_path u)
     in demand (en_is_absolute E raw) (conflict ''local push target must be absolute'')
    (and_then (catch_when is_os_error (en_resolve E raw)
        (\<lambda>_. fail (conflict ''local push target is unavailable''))) (\<lambda>target.
     demand (remote = en_as_uri E target) (conflict ''local push target differs from its canonical file URI'')
    (and_then (en_is_dir E target) (\<lambda>directory.
     demand directory (conflict ''local push target differs from its canonical file URI'')
    (and_then (hub_run E False [hb_git H, ''rev-parse'', ''--is-bare-repository''] target) (\<lambda>bare.
     demand (bare = ''true'') (conflict ''local push target must be a bare Git repository'')
    (and_then (hub_run E False [hb_git H, ''rev-parse'', ''--absolute-git-dir''] target) (\<lambda>git_dir.
     and_then (en_resolve E git_dir) (\<lambda>observed.
     demand (en_normcase E observed = en_normcase E target)
       (conflict ''local push target must be the exact bare repository root'')
       (give (en_as_uri E target)))))))))))))"

definition remote_urls :: "'w environment \<Rightarrow> hub \<Rightarrow> string \<Rightarrow> string \<Rightarrow> string list \<Rightarrow> ('w, string list) call" where
  "remote_urls E H root name mode =
     and_then (hub_run E False ([hb_git H, ''remote'', ''get-url''] @ mode @ [''--all'', name]) root) (\<lambda>output.
     give (filter (\<lambda>l. l \<noteq> []) (map py_strip (splitlines output))))"

text \<open>Both calls of \<open>try: ... except AdmissionError\<close>\<close>

definition admitted_url :: "string \<Rightarrow> ('w, 'a) call \<Rightarrow> ('w, 'a) call" where
  "admitted_url label m =
     catch_when is_admission_error m (\<lambda>exc. fail (conflict (label @ '' is invalid: '' @ failure_text exc)))"

definition bind_selector :: "pyval \<Rightarrow> string \<times> string \<Rightarrow> ('s, failure, string) proc" where
  "bind_selector payload = (\<lambda>(selector, owner_name).
     and_then (field_text payload ''repository'' []) (\<lambda>raw.
     let configured = casefold (strip_slashes (dropWhile (\<lambda>c. c = CHR ''/'') (py_strip raw)))
     in demand (py_strip raw = [] \<or> configured \<in> {casefold owner_name, casefold selector})
          (conflict ''configured GitHub repository differs from repository_remote'') (give selector)))"

definition repository_binding ::
  "'w environment \<Rightarrow> hub \<Rightarrow> string \<Rightarrow> pyval \<Rightarrow> ('w, string \<times> string) call" where
  "repository_binding E H root payload =
     and_then (field_text payload ''repository_remote'' []) (\<lambda>raw.
     let remote = py_strip raw
     in demand (remote \<noteq> []) (conflict ''repository_remote is required for every GitHub effect'')
    (and_then (checked (urlsplit E remote)) (\<lambda>u.
     let local = ur_scheme u = ''file''
     in and_then (admitted_url ''repository_remote''
          (if local then local_bare_remote E H remote else normalize_remote_url E remote)) (\<lambda>approved.
     and_then (hub_run E False [hb_git H, ''rev-parse'', ''--show-toplevel''] root) (\<lambda>top.
     and_then (en_resolve E top) (\<lambda>observed_root.
     demand (en_normcase E observed_root = en_normcase E root)
       (conflict ''effect worktree is not the exact Git root'')
    (and_then (stable_field payload ''remote'' (PStr ''origin'') ''Git remote name'') (\<lambda>name.
     and_then (remote_urls E H root name []) (\<lambda>fetch.
     and_then (remote_urls E H root name [''--push'']) (\<lambda>push.
     demand (fetch @ push \<noteq> []) (conflict ''Git remote has no fetch or push URL'')
    (and_then (admitted_url ''Git remote URL''
        (if local then give (fetch @ push) else each (normalize_remote_url E) (fetch @ push))) (\<lambda>observed.
     demand (set observed = {approved}) (conflict ''Git remote changed after campaign admission'')
    (if local then
       and_then (field_text payload ''repository'' []) (\<lambda>repository.
       demand (py_strip repository = []) (conflict ''local push cannot use a GitHub repository selector'')
         (give (approved, [])))
     else
       and_then (repository_from_remote E approved) (\<lambda>names.
       and_then (bind_selector payload names) (\<lambda>selector. give (remote, selector))))))))))))))))"

section \<open>Pull requests and comments\<close>

definition pr_fields :: string where
  "pr_fields = ''number,url,state,headRefName,headRefOid,baseRefName,mergeCommit,body''"

definition pull_request_binding :: "pydict \<Rightarrow> pyval \<Rightarrow> ('s, failure, unit) proc" where
  "pull_request_binding row payload =
     and_then (field_sha payload ''head'' ''pull request head'') (\<lambda>head.
     and_then (field_text payload ''head_branch'' []) (\<lambda>raw_branch.
     and_then (field_text payload ''base'' ''main'') (\<lambda>raw_base.
     let branch = py_strip raw_branch; base = py_strip raw_base
     in demand (py_eq (dict_get row ''headRefOid'' PNone) (PStr head))
          (conflict ''pull request head differs from the exact candidate head'')
       (demand (branch = [] \<or> py_eq (dict_get row ''headRefName'' PNone) (PStr branch))
          (conflict ''pull request branch differs from the admitted branch'')
       (demand (base = [] \<or> py_eq (dict_get row ''baseRefName'' PNone) (PStr base))
          (conflict ''pull request base differs from the approved base'') (give ()))))))"

definition campaign_body :: "pyval \<Rightarrow> pyval \<Rightarrow> ('s, failure, unit) proc" where
  "campaign_body body payload =
     and_then (field_sha payload ''candidate_head'' ''campaign candidate head'') (\<lambda>candidate.
     and_then (field_sha payload ''head'' ''pull request head'') (\<lambda>head.
     demand (candidate = head) (conflict ''pull request head differs from the campaign candidate head'')
    (and_then (field_sha payload ''expected_base_sha'' ''campaign base'') (\<lambda>base.
     and_then (stable_field payload ''expected_campaign_id'' PNone ''campaign id'') (\<lambda>campaign.
     and_then (checked (py_get payload ''expected_specification_digest'' PNone)) (\<lambda>raw.
     let digest = text_or_empty raw
     in demand (exact_sha256 digest) (effect_error ''campaign specification digest must be one exact SHA-256'')
       (let failures = validate_body False head base ''CAMPAIGN'' campaign digest (text_or_empty body)
        in demand (failures = []) (conflict (''campaign pull request metadata: '' @ join ''; '' failures))
             (give ()))))))))"

definition matching_row :: "string \<Rightarrow> string \<Rightarrow> string \<Rightarrow> pyval \<Rightarrow> bool" where
  "matching_row branch base head v \<longleftrightarrow>
     (case as_mapping v of
        None \<Rightarrow> False
      | Some row \<Rightarrow> py_eq (dict_get row ''headRefName'' PNone) (PStr branch)
          \<and> py_eq (dict_get row ''baseRefName'' PNone) (PStr base)
          \<and> py_eq (dict_get row ''headRefOid'' PNone) (PStr head))"

definition exact_pull_request ::
  "'w environment \<Rightarrow> hub \<Rightarrow> string \<Rightarrow> pyval \<Rightarrow> string \<Rightarrow> ('w, pyval) call" where
  "exact_pull_request E H root payload repository =
     and_then (field_text payload ''base'' ''main'') (\<lambda>base.
     and_then (field_text payload ''head_branch'' []) (\<lambda>branch.
     and_then (field_sha payload ''head'' ''pull request head'') (\<lambda>head.
     and_then (gh_query E H root
        [''pr'', ''list'', ''--repo'', repository, ''--state'', ''all'', ''--head'', branch, ''--base'', base,
         ''--json'', pr_fields]) (\<lambda>rows.
     case rows of
       PList vs \<Rightarrow>
         (case filter (matching_row branch base head) vs of
            [] \<Rightarrow> give PNone
          | [row] \<Rightarrow> give row
          | _ \<Rightarrow> fail (conflict ''duplicate exact-head pull requests exist''))
     | _ \<Rightarrow> fail (effect_error ''GitHub pull request query returned a non-array'')))))"

definition number_of :: "pyval \<Rightarrow> string \<Rightarrow> ('s, failure, int) proc" where
  "number_of v k = checked (bindE (py_get v k (PInt 0)) py_int)"

definition pull_request_by_number ::
  "'w environment \<Rightarrow> hub \<Rightarrow> string \<Rightarrow> pyval \<Rightarrow> string \<Rightarrow> int \<Rightarrow> ('w, pyval) call" where
  "pull_request_by_number E H root payload repository number =
     and_then (gh_query E H root
        [''pr'', ''view'', show_int number, ''--repo'', repository, ''--json'', pr_fields]) (\<lambda>v.
     let unverified = conflict ''explicit pull request identity could not be verified''
     in case as_mapping v of
          None \<Rightarrow> fail unverified
        | Some row \<Rightarrow>
            and_then (number_of v ''number'') (\<lambda>observed.
            demand (observed = number) unverified
              (and_then (pull_request_binding row payload) (\<lambda>_. give v))))"

definition bound_pull_request ::
  "'w environment \<Rightarrow> hub \<Rightarrow> string \<Rightarrow> pyval \<Rightarrow> string \<Rightarrow> ('w, pyval) call" where
  "bound_pull_request E H root payload repository =
     and_then (number_of payload ''pull_request'') (\<lambda>number.
     if number > 0 then pull_request_by_number E H root payload repository number
     else exact_pull_request E H root payload repository)"

definition COMMENT_PAGE_SIZE :: nat where
  "COMMENT_PAGE_SIZE = 100"

definition COMMENT_MAX_PAGES :: nat where
  "COMMENT_MAX_PAGES = 100"

fun comment_pages ::
  "'w environment \<Rightarrow> hub \<Rightarrow> string \<Rightarrow> string \<Rightarrow> int \<Rightarrow> pyval list \<Rightarrow> nat list \<Rightarrow> ('w, pyval list) call" where
  "comment_pages E H root repository issue comments [] =
     fail (effect_error ''GitHub comment reconciliation exceeded the bounded page limit'')"
| "comment_pages E H root repository issue comments (page # pages) =
     and_then (gh_query E H root
        [''api'', ''repos/'' @ repository @ ''/issues/'' @ show_int issue @ ''/comments?per_page=''
           @ show_nat COMMENT_PAGE_SIZE @ ''&page='' @ show_nat page]) (\<lambda>rows.
     case rows of
       PList vs \<Rightarrow>
         let found = comments @ filter is_mapping vs
         in if length vs < COMMENT_PAGE_SIZE then give found
            else comment_pages E H root repository issue found pages
     | _ \<Rightarrow> fail (effect_error ''GitHub comment query returned a non-array page''))"

definition issue_comments ::
  "'w environment \<Rightarrow> hub \<Rightarrow> string \<Rightarrow> string \<Rightarrow> int \<Rightarrow> ('w, pyval list) call" where
  "issue_comments E H root repository issue =
     comment_pages E H root repository issue [] [1..<Suc COMMENT_MAX_PAGES]"

definition marker_match :: "string \<Rightarrow> pyval \<Rightarrow> pydict list" where
  "marker_match marker v =
     (case as_mapping v of
        None \<Rightarrow> []
      | Some row \<Rightarrow>
          let body = text_or_empty (dict_get row ''body'' PNone)
          in if contains marker body then
               [[(''id'', dict_get row ''id'' PNone), (''url'', dict_get row ''html_url'' PNone),
                 (''body_digest'', PStr (canonical_json_digest (PStr body)))]]
             else [])"

section \<open>Queries\<close>

definition py_field :: "pyval \<Rightarrow> string \<Rightarrow> pyval" where
  "py_field v k = (case as_mapping v of None \<Rightarrow> PNone | Some d \<Rightarrow> dict_get d k PNone)"

definition push_query ::
  "'w environment \<Rightarrow> hub \<Rightarrow> string \<Rightarrow> string \<Rightarrow> pyval \<Rightarrow> ('w, pydict) call" where
  "push_query E H root remote payload =
     and_then (field_text payload ''branch'' []) (\<lambda>branch.
     and_then (field_sha payload ''head'' ''push head'') (\<lambda>head.
     and_then (hub_run E False [hb_git H, ''ls-remote'', ''--heads'', remote, ''refs/heads/'' @ branch] root) (\<lambda>output.
     let observed = (if output = [] then None else Some (casefold (takeWhile (\<lambda>c. \<not> py_space c) output)))
     in give [(''confirmed'', PBool (observed = Some head)), (''remote_head'', py_opt_str observed),
              (''expected_head'', PStr head)])))"

definition create_query ::
  "'w environment \<Rightarrow> hub \<Rightarrow> string \<Rightarrow> string \<Rightarrow> pyval \<Rightarrow> ('w, pydict) call" where
  "create_query E H root repository payload =
     and_then (checked (py_get payload ''body'' PNone)) (\<lambda>body.
     and_then (campaign_body body payload) (\<lambda>_.
     and_then (exact_pull_request E H root payload repository) (\<lambda>row.
     and_then (if row = PNone then give () else campaign_body (py_field row ''body'') payload) (\<lambda>_.
     give [(''confirmed'', PBool (row \<noteq> PNone)), (''pull_request'', row)]))))"

definition comment_query ::
  "'w environment \<Rightarrow> hub \<Rightarrow> string \<Rightarrow> string \<Rightarrow> pyval \<Rightarrow> ('w, pydict) call" where
  "comment_query E H root repository payload =
     and_then (comment_contract payload) (\<lambda>(marker, requested).
     and_then (bound_pull_request E H root payload repository) (\<lambda>row.
     demand (row \<noteq> PNone) (conflict ''exact-head pull request does not exist for comment'')
    (and_then (number_of row ''number'') (\<lambda>issue.
     and_then (issue_comments E H root repository issue) (\<lambda>rows.
     let matches = concat (map (marker_match marker) rows);
         exact = filter (\<lambda>d. map_of d ''body_digest'' = Some (PStr (canonical_json_digest (PStr requested)))) matches
     in demand (length matches \<le> 1)
          (conflict ''multiple marker comments exist; refusing ambiguous reconciliation'')
          (give [(''confirmed'', PBool (length matches = 1 \<and> length exact = 1)),
                 (''comment'', (case exact of [d] \<Rightarrow> PDict d | _ \<Rightarrow> PNone)),
                 (''marker_matches'', PList (map PDict matches))]))))))"

definition merged_at :: "pyval \<Rightarrow> string \<Rightarrow> bool" where
  "merged_at row head \<longleftrightarrow>
     (case as_mapping row of
        None \<Rightarrow> False
      | Some d \<Rightarrow> py_eq (dict_get d ''state'' PNone) (PStr ''MERGED'')
          \<and> py_eq (dict_get d ''headRefOid'' PNone) (PStr head)
          \<and> is_mapping (dict_get d ''mergeCommit'' PNone)
          \<and> py_truthy (py_field (dict_get d ''mergeCommit'' PNone) ''oid''))"

definition merge_query ::
  "'w environment \<Rightarrow> hub \<Rightarrow> string \<Rightarrow> string \<Rightarrow> pyval \<Rightarrow> ('w, pydict) call" where
  "merge_query E H root repository payload =
     and_then (field_sha payload ''head'' ''merge head'') (\<lambda>head.
     and_then (bound_pull_request E H root payload repository) (\<lambda>row.
     give [(''confirmed'', PBool (merged_at row head)), (''pull_request'', row)]))"

text \<open>What \<open>query\<close> and \<open>execute\<close> begin with.\<close>

definition bound ::
  "'w environment \<Rightarrow> hub \<Rightarrow> string \<Rightarrow> pyval \<Rightarrow> (string \<Rightarrow> string \<Rightarrow> string \<Rightarrow> ('w, 'a) call) \<Rightarrow> ('w, 'a) call" where
  "bound E H kind payload f =
     and_then (hub_root E payload) (\<lambda>root.
     and_then (repository_binding E H root payload) (\<lambda>(remote, repository).
     demand (repository \<noteq> [] \<or> kind = ''PUSH'') (conflict ''file remotes support PUSH only'')
       (f root remote repository)))"

definition hub_query :: "'w environment \<Rightarrow> hub \<Rightarrow> string \<Rightarrow> pyval \<Rightarrow> ('w, pydict) call" where
  "hub_query E H kind payload = bound E H kind payload (\<lambda>root remote repository.
     if kind = ''PUSH'' then push_query E H root remote payload
     else if kind = ''CREATE_PULL_REQUEST'' then create_query E H root repository payload
     else if kind = ''UPSERT_COMMENT'' then comment_query E H root repository payload
     else if kind = ''MERGE'' then merge_query E H root repository payload
     else fail (effect_error (''GitHub backend cannot query effect kind '' @ kind)))"

section \<open>Mutations\<close>

definition is_confirmed :: "pydict \<Rightarrow> bool" where
  "is_confirmed d \<longleftrightarrow> py_truthy (dict_get d ''confirmed'' PNone)"

definition output_receipt :: "string \<Rightarrow> string \<Rightarrow> string \<Rightarrow> pydict" where
  "output_receipt done_key digest_key output =
     [(done_key, PBool True), (digest_key, PStr (canonical_json_digest (PStr output)))]"

definition push_execute ::
  "'w environment \<Rightarrow> hub \<Rightarrow> string \<Rightarrow> string \<Rightarrow> pyval \<Rightarrow> ('w, pydict) call" where
  "push_execute E H root remote payload =
     and_then (field_sha payload ''head'' ''push head'') (\<lambda>head.
     and_then (hub_run E False [hb_git H, ''rev-parse'', ''HEAD''] root) (\<lambda>observed.
     demand (casefold observed = head) (conflict ''local HEAD changed before push'')
    (and_then (field_text payload ''branch'' []) (\<lambda>branch.
     and_then (hub_run E True [hb_git H, ''push'', remote, head @ '':refs/heads/'' @ branch] root) (\<lambda>output.
     give (output_receipt ''pushed'' ''output_digest'' output))))))"

definition create_execute ::
  "'w environment \<Rightarrow> hub \<Rightarrow> string \<Rightarrow> string \<Rightarrow> pyval \<Rightarrow> ('w, pydict) call" where
  "create_execute E H root repository payload =
     and_then (hub_query E H ''CREATE_PULL_REQUEST'' payload) (\<lambda>existing.
     if is_confirmed existing then give ((''replayed'', PBool True) # existing)
     else
       and_then (field_text payload ''base'' ''main'') (\<lambda>base.
       and_then (field_text payload ''head_branch'' []) (\<lambda>branch.
       and_then (field_text payload ''title'' []) (\<lambda>title.
       and_then (field_text payload ''body'' []) (\<lambda>body.
       and_then (hub_run E True
          [hb_gh H, ''pr'', ''create'', ''--repo'', repository, ''--base'', base, ''--head'', branch,
           ''--title'', title, ''--body'', body] root) (\<lambda>output.
       give [(''created'', PBool True),
             (''url'', if output = [] then PNone else PStr (last (splitlines output)))]))))))"

definition comment_execute ::
  "'w environment \<Rightarrow> hub \<Rightarrow> string \<Rightarrow> string \<Rightarrow> pyval \<Rightarrow> ('w, pydict) call" where
  "comment_execute E H root repository payload =
     and_then (comment_contract payload) (\<lambda>(_, body).
     and_then (bound_pull_request E H root payload repository) (\<lambda>row.
     demand (row \<noteq> PNone) (conflict ''exact-head pull request does not exist for comment'')
    (and_then (number_of row ''number'') (\<lambda>issue.
     and_then (hub_query E H ''UPSERT_COMMENT'' payload) (\<lambda>observed.
     and_then (checked (get_tuple (PDict observed) ''marker_matches'')) (\<lambda>matches.
     demand (length matches \<le> 1) (conflict ''multiple marker comments exist; refusing ambiguous update'')
    (case matches of
       m # _ \<Rightarrow>
         and_then (checked (item_int m ''id'')) (\<lambda>comment_id.
         and_then (hub_run E True
            [hb_gh H, ''api'', ''--method'', ''PATCH'',
             ''repos/'' @ repository @ ''/issues/comments/'' @ show_int comment_id, ''-f'', ''body='' @ body] root) (\<lambda>output.
         give (output_receipt ''updated'' ''response_digest'' output)))
     | [] \<Rightarrow>
         and_then (hub_run E True
            [hb_gh H, ''api'', ''--method'', ''POST'',
             ''repos/'' @ repository @ ''/issues/'' @ show_int issue @ ''/comments'', ''-f'', ''body='' @ body] root) (\<lambda>output.
         give (output_receipt ''created'' ''response_digest'' output)))))))))"

definition merge_execute ::
  "'w environment \<Rightarrow> hub \<Rightarrow> string \<Rightarrow> string \<Rightarrow> pyval \<Rightarrow> ('w, pydict) call" where
  "merge_execute E H root repository payload =
     and_then (hub_query E H ''MERGE'' payload) (\<lambda>existing.
     if is_confirmed existing then give ((''replayed'', PBool True) # existing)
     else
       let row = dict_get existing ''pull_request'' PNone
       in and_then (number_of payload ''pull_request'') (\<lambda>given_number.
          and_then (if given_number \<le> 0 \<and> is_mapping row then number_of row ''number'' else give given_number) (\<lambda>number.
          demand (0 < number) (conflict ''exact-head pull request does not exist for merge'')
         (demand (is_mapping row \<longrightarrow> py_eq (py_field row ''state'') (PStr ''OPEN''))
            (conflict ''exact-head pull request is not open for merge'')
         (and_then (campaign_body (py_field row ''body'') payload) (\<lambda>_.
          and_then (field_sha payload ''head'' ''merge head'') (\<lambda>head.
          and_then (field_text payload ''method'' ''squash'') (\<lambda>method.
          demand (method \<in> {''merge'', ''squash'', ''rebase''})
            (effect_error ''merge method must be merge, squash, or rebase'')
         (and_then (hub_run E True
             [hb_gh H, ''pr'', ''merge'', show_int number, ''--repo'', repository, ''--'' @ method,
              ''--match-head-commit'', head] root) (\<lambda>output.
          give (output_receipt ''merged'' ''output_digest'' output)))))))))))"

definition hub_execute :: "'w environment \<Rightarrow> hub \<Rightarrow> string \<Rightarrow> pyval \<Rightarrow> ('w, pydict) call" where
  "hub_execute E H kind payload = bound E H kind payload (\<lambda>root remote repository.
     if kind = ''PUSH'' then push_execute E H root remote payload
     else if kind = ''CREATE_PULL_REQUEST'' then create_execute E H root repository payload
     else if kind = ''UPSERT_COMMENT'' then comment_execute E H root repository payload
     else if kind = ''MERGE'' then merge_execute E H root repository payload
     else fail (effect_error (''GitHub backend cannot execute effect kind '' @ kind)))"

section \<open>The backend of the driver\<close>

text \<open>What the driver sees of an exception: its class and its text.\<close>

fun seen_error :: "failure \<Rightarrow> error" where
  "seen_error (Raised err) = err"
| "seen_error exc = OtherError (failure_name exc) (failure_text exc)"

definition seen_call :: "('a \<Rightarrow> 'b) \<Rightarrow> ('w, 'a) call \<Rightarrow> 'w \<Rightarrow> 'b res \<times> 'w" where
  "seen_call f m = (\<lambda>w. case m w of (r, t) \<Rightarrow> (map_sum seen_error f r, t))"

definition github_backend :: "'w environment \<Rightarrow> hub \<Rightarrow> 'w backend" where
  "github_backend E H =
     \<lparr>bk_query = (\<lambda>kind payload. seen_call PDict (hub_query E H kind payload)),
      bk_execute = (\<lambda>kind payload. seen_call PDict (hub_execute E H kind payload)),
      bk_sources = (\<lambda>spec node. seen_call (\<lambda>_. ()) (verify_acceptance_sources E spec node))\<rparr>"

end
