(* ===== verification/Hub_Safety.thy ===== *)
theory Hub_Safety
  imports GitHub_Backend Procedure_Logic
begin

text \<open>
  What the GitHub backend may do to the world.  A relation on worlds that every read-only command
  respects (say: the branches, pull requests and comments of the provider stay as they are) is
  respected by every query; an execution leaves it only by one approved mutation, its last command.
\<close>

section \<open>Read-only commands\<close>

definition read_only :: "hub \<Rightarrow> string list \<Rightarrow> bool" where
  "read_only H argv \<longleftrightarrow>
     (case argv of
        program # verb # rest \<Rightarrow>
          program = hb_git H \<and> (verb \<in> {''rev-parse'', ''ls-remote''} \<or> verb = ''remote'' \<and> take 1 rest = [''get-url''])
          \<or> program = hb_gh H \<and> (verb = ''pr'' \<and> take 1 rest \<in> {[''list''], [''view'']} \<or> verb = ''api'' \<and> length rest = 1)
      | _ \<Rightarrow> False)"

lemma read_only_simps [simp]:
  "read_only H (hb_git H # ''rev-parse'' # xs)" "read_only H (hb_git H # ''ls-remote'' # xs)"
  "read_only H (hb_git H # ''remote'' # ''get-url'' # xs)" "read_only H (hb_gh H # ''pr'' # ''list'' # xs)"
  "read_only H (hb_gh H # ''pr'' # ''view'' # xs)" "read_only H [hb_gh H, ''api'', x]"
  by (simp_all add: read_only_def)

lemma obeys_pyval:
  assumes "obeys R a" "\<And>x. obeys R (b x)" "\<And>x. obeys R (c x)" "\<And>x. obeys R (d x)" "\<And>x. obeys R (e x)"
    "\<And>x. obeys R (f x)" "\<And>x. obeys R (g x)" "\<And>x. obeys R (h x)"
  shows "obeys R (case_pyval a b c d e f g h v)"
  using assms by (cases v) simp_all

section \<open>Queries\<close>

locale hub_reads = step_relation R for R :: "'w \<Rightarrow> 'w \<Rightarrow> bool" +
  fixes E :: "'w environment" and H :: hub
  assumes runs: "read_only H argv \<Longrightarrow> obeys R (en_run E argv cwd)"
    and resolves: "obeys R (en_resolve E p)"
    and looks: "obeys R (en_is_dir E p)"
    and expands: "obeys R (en_local E p)"
begin

lemma hub_run_reads: "read_only H argv \<Longrightarrow> obeys R (hub_run E False argv cwd)"
  unfolding hub_run_def Let_def by (intro rules obeys_cases runs) simp_all

lemma gh_query_reads: "read_only H (hb_gh H # args) \<Longrightarrow> obeys R (gh_query E H root args)"
  unfolding gh_query_def by (intro rules obeys_cases hub_run_reads) simp_all

lemma fields: "obeys R (field_text payload k dflt)" "obeys R (effect_sha v label)" "obeys R (field_sha payload k label)"
  "obeys R (stable_field payload k v label)" "obeys R (number_of v k)" "obeys R (comment_contract payload)"
  "obeys R (pull_request_binding row payload)" "obeys R (campaign_body body payload)"
  "obeys R (bind_selector payload names)"
  unfolding field_text_def effect_sha_def field_sha_def stable_field_def number_of_def comment_contract_def
    pull_request_binding_def campaign_body_def bind_selector_def Let_def
  by (intro rules obeys_cases)+

lemma hub_root: "obeys R (hub_root E payload)"
  unfolding hub_root_def by (intro rules obeys_cases fields resolves)

lemma local_remote_reads: "obeys R (local_remote E p)"
  unfolding local_remote_def by (intro rules obeys_cases expands)

lemma normalize_reads: "obeys R (normalize_remote_url E raw)"
  unfolding normalize_remote_url_def Let_def by (intro rules obeys_cases local_remote_reads)

lemma bare_remote_reads: "obeys R (local_bare_remote E H remote)"
  unfolding local_bare_remote_def Let_def
  by (intro rules obeys_cases hub_run_reads resolves looks read_only_simps)

lemma remote_urls_reads: "mode = [] \<or> mode = [''--push''] \<Longrightarrow> obeys R (remote_urls E H root name mode)"
  unfolding remote_urls_def by (intro rules obeys_cases hub_run_reads) auto

lemma remote_urls_modes: "obeys R (remote_urls E H root name [])" "obeys R (remote_urls E H root name [''--push''])"
  by (intro remote_urls_reads; simp)+

lemma admitted_reads: "obeys R m \<Longrightarrow> obeys R (admitted_url label m)"
  unfolding admitted_url_def by (intro rules)

lemma from_remote_reads: "obeys R (repository_from_remote E url)"
  unfolding repository_from_remote_def Let_def by (intro rules obeys_cases)

lemma binding_reads: "obeys R (repository_binding E H root payload)"
  unfolding repository_binding_def Let_def
  by (intro rules obeys_cases fields admitted_reads bare_remote_reads normalize_reads hub_run_reads resolves
      remote_urls_modes from_remote_reads read_only_simps)

lemma exact_pull_request_reads: "obeys R (exact_pull_request E H root payload repository)"
  unfolding exact_pull_request_def
  by (intro rules obeys_cases obeys_pyval fields gh_query_reads read_only_simps)

lemma by_number_reads: "obeys R (pull_request_by_number E H root payload repository number)"
  unfolding pull_request_by_number_def Let_def
  by (intro rules obeys_cases fields gh_query_reads read_only_simps)

lemma bound_pull_request_reads: "obeys R (bound_pull_request E H root payload repository)"
  unfolding bound_pull_request_def
  by (intro rules obeys_cases fields exact_pull_request_reads by_number_reads)

lemma comment_pages_reads: "obeys R (comment_pages E H root repository issue found pages)"
proof (induction pages arbitrary: found)
  case (Cons page pages)
  then show ?case
    by (simp only: comment_pages.simps Let_def)
      (intro rules obeys_cases obeys_pyval gh_query_reads read_only_simps)
qed (simp add: fail)

lemma push_query_reads: "obeys R (push_query E H root remote payload)"
  unfolding push_query_def Let_def by (intro rules obeys_cases fields hub_run_reads read_only_simps)

lemma create_query_reads: "obeys R (create_query E H root repository payload)"
  unfolding create_query_def by (intro rules obeys_cases fields exact_pull_request_reads)

lemma comment_query_reads: "obeys R (comment_query E H root repository payload)"
  unfolding comment_query_def issue_comments_def Let_def
  by (intro rules obeys_cases fields bound_pull_request_reads comment_pages_reads)

lemma merge_query_reads: "obeys R (merge_query E H root repository payload)"
  unfolding merge_query_def by (intro rules obeys_cases fields bound_pull_request_reads)

lemma query_reads: "obeys R (hub_query E H kind payload)"
  unfolding hub_query_def bound_def
  by (intro rules obeys_cases hub_root binding_reads push_query_reads create_query_reads comment_query_reads
      merge_query_reads)

end

section \<open>What a payload approves\<close>

definition payload_field :: "pyval \<Rightarrow> string \<Rightarrow> string \<Rightarrow> string" where
  "payload_field payload k dflt = (case get_str payload k dflt of Inl _ \<Rightarrow> [] | Inr t \<Rightarrow> t)"

definition payload_value :: "pyval \<Rightarrow> string \<Rightarrow> string" where
  "payload_value payload k = (case py_get payload k PNone of Inl _ \<Rightarrow> [] | Inr v \<Rightarrow> text_or_empty v)"

definition payload_sha :: "pyval \<Rightarrow> string \<Rightarrow> string" where
  "payload_sha payload k = casefold (payload_value payload k)"

text \<open>The body of a pull request agrees with the campaign, at the head that the payload names.\<close>

definition body_approved :: "string \<Rightarrow> pyval \<Rightarrow> bool" where
  "body_approved body payload \<longleftrightarrow>
     field_value body ''Work mode'' = ''CAMPAIGN''
     \<and> stable_id (payload_value payload ''expected_campaign_id'') ''campaign id'' = Inr (field_value body ''Campaign ID'')
     \<and> field_value body ''Specification digest'' = payload_value payload ''expected_specification_digest''
     \<and> casefold (field_value body ''Exact candidate head SHA'') = payload_sha payload ''head''
     \<and> payload_sha payload ''candidate_head'' = payload_sha payload ''head''
     \<and> casefold (field_value body ''Exact base SHA'') = payload_sha payload ''expected_base_sha''"

definition approved_mutation :: "hub \<Rightarrow> string \<Rightarrow> pyval \<Rightarrow> string \<Rightarrow> string \<Rightarrow> string list \<Rightarrow> bool" where
  "approved_mutation H kind payload remote repository argv \<longleftrightarrow>
     (if kind = ''PUSH'' then
        valid_sha (payload_sha payload ''head'')
        \<and> argv = [hb_git H, ''push'', remote,
             payload_sha payload ''head'' @ '':refs/heads/'' @ payload_field payload ''branch'' []]
      else if kind = ''CREATE_PULL_REQUEST'' then
        body_approved (payload_field payload ''body'' []) payload
        \<and> argv = [hb_gh H, ''pr'', ''create'', ''--repo'', repository, ''--base'', payload_field payload ''base'' ''main'',
             ''--head'', payload_field payload ''head_branch'' [], ''--title'', payload_field payload ''title'' [],
             ''--body'', payload_field payload ''body'' []]
      else if kind = ''UPSERT_COMMENT'' then
        count_of (py_strip (payload_field payload ''marker'' [])) (payload_field payload ''body'' []) = 1
        \<and> (\<exists>verb issue. verb \<in> {''PATCH'', ''POST''}
            \<and> argv = [hb_gh H, ''api'', ''--method'', verb, ''repos/'' @ repository @ ''/issues/'' @ issue, ''-f'',
                 ''body='' @ payload_field payload ''body'' []])
      else
        kind = ''MERGE'' \<and> valid_sha (payload_sha payload ''head'')
        \<and> (\<exists>number verb body. 0 < number \<and> verb \<in> {''--merge'', ''--squash'', ''--rebase''} \<and> body_approved body payload
            \<and> argv = [hb_gh H, ''pr'', ''merge'', show_int number, ''--repo'', repository, verb,
                 ''--match-head-commit'', payload_sha payload ''head'']))"

lemma field_text_returns [returns]:
  "field_text payload k dflt s = (Inr t, u) \<longleftrightarrow> get_str payload k dflt = Inr t \<and> u = s"
  by (simp add: field_text_def returns)

lemma effect_sha_returns [returns]:
  "effect_sha v label s = (Inr h, u) \<longleftrightarrow> h = casefold (text_or_empty v) \<and> valid_sha h \<and> u = s"
  by (auto simp: effect_sha_def Let_def returns)

lemma field_sha_returns [returns]:
  "field_sha payload k label s = (Inr h, u) \<longleftrightarrow>
     (\<exists>v. py_get payload k PNone = Inr v) \<and> h = payload_sha payload k \<and> valid_sha h \<and> u = s"
  by (auto simp: field_sha_def payload_sha_def payload_value_def returns)

lemma field_text_eq: "field_text payload k dflt s = (Inr t, u) \<Longrightarrow> t = payload_field payload k dflt \<and> u = s"
  by (auto simp: payload_field_def returns)

lemma valid_sha_nonempty: "valid_sha v \<Longrightarrow> v \<noteq> []"
  by (auto simp: valid_sha_def)

lemma stable_id_nonempty: "stable_id t label = Inr i \<Longrightarrow> i \<noteq> []"
  by (auto simp: stable_id_def Let_def requireE_def split: list.splits if_splits)

lemma casefold_idem [simp]: "casefold (casefold s) = casefold s"
  unfolding casefold_def map_map by (rule map_cong) (auto simp: fold_char_def Let_def)

lemma payload_sha_fold [simp]: "casefold (payload_sha payload k) = payload_sha payload k"
  by (simp add: payload_sha_def)

lemma campaign_body_approves:
  assumes "campaign_body body payload s = (Inr x, t)"
  shows "body_approved (text_or_empty body) payload \<and> t = s"
proof -
  from assms obtain campaign raw where
    heads: "payload_sha payload ''candidate_head'' = payload_sha payload ''head''" "valid_sha (payload_sha payload ''head'')"
      "valid_sha (payload_sha payload ''expected_base_sha'')"
    and id: "stable_id (payload_value payload ''expected_campaign_id'') ''campaign id'' = Inr campaign"
    and raw: "py_get payload ''expected_specification_digest'' PNone = Inr raw" "exact_sha256 (text_or_empty raw)"
    and ok: "validate_body False (payload_sha payload ''head'') (payload_sha payload ''expected_base_sha'') ''CAMPAIGN''
      campaign (text_or_empty raw) (text_or_empty body) = []" and t: "t = s"
    unfolding campaign_body_def stable_field_def Let_def returns by (auto simp: payload_value_def)
  have "text_or_empty raw \<noteq> []" using raw(2) by (auto simp: exact_sha256_def)
  with accepted_body [OF ok] heads raw(1) id t stable_id_nonempty [OF id]
  show ?thesis
    by (auto simp: body_approved_def payload_value_def dest: valid_sha_nonempty)
qed

lemma approved_body_text:
  assumes "py_get payload ''body'' PNone = Inr v" "body_approved (text_or_empty v) payload"
  shows "payload_field payload ''body'' [] = text_or_empty v"
proof -
  have "field_rest ''Work mode'' [] = None"
    using field_rest_shorter [of "''Work mode''" "[]"] by (cases "field_rest ''Work mode'' []") auto
  then have "field_value [] ''Work mode'' = []" by (simp add: field_value_def field_values_def)
  then have "py_truthy v" using assms(2) by (simp add: body_approved_def text_or_empty_def split: if_splits)
  with assms(1) show ?thesis
    by (auto simp: payload_field_def get_str_def py_get_def bindE_def text_or_empty_def dict_get_def
        split: option.splits)
qed

lemma create_query_approves:
  fixes E :: "'w environment"
  assumes "hub_query E H ''CREATE_PULL_REQUEST'' payload s = (Inr d, t)"
  shows "body_approved (payload_field payload ''body'' []) payload"
proof -
  from assms have "\<exists>v x u u'. py_get payload ''body'' PNone = Inr v \<and> campaign_body v payload (u :: 'w) = (Inr x, u')"
    unfolding hub_query_def bound_def create_query_def by (auto simp: returns split: prod.splits)
  with campaign_body_approves approved_body_text show ?thesis by metis
qed

section \<open>Executions\<close>

text \<open>From a world the procedure either respects the relation or ends with one mutating command.\<close>

definition acts :: "('w \<Rightarrow> 'w \<Rightarrow> bool) \<Rightarrow> 'w environment \<Rightarrow> (string \<Rightarrow> string list \<Rightarrow> bool) \<Rightarrow> ('w, 'a) call \<Rightarrow> 'w \<Rightarrow> bool" where
  "acts R E P m w \<longleftrightarrow> R w (snd (m w))
     \<or> (\<exists>root argv v. P root argv \<and> R w v \<and> snd (m w) = snd (en_run E argv root v))"

lemma acts_run:
  assumes "P root argv" "R w w"
  shows "acts R E P (and_then (hub_run E True argv root) (\<lambda>out. give (f out))) w"
proof -
  have "snd (and_then (hub_run E True argv root) (\<lambda>out. give (f out)) w) = snd (en_run E argv root w)"
    by (auto simp: hub_run_def and_then_def catch_def attempt_def give_def fail_def Let_def split: prod.splits sum.splits)
  with assms show ?thesis by (auto simp: acts_def)
qed

lemma acts_if: "(c \<Longrightarrow> acts R E P m w) \<Longrightarrow> (\<not> c \<Longrightarrow> acts R E P n w) \<Longrightarrow> acts R E P (if c then m else n) w"
  by simp

context hub_reads
begin

lemma acts_obeys: "obeys R m \<Longrightarrow> acts R E P m w"
  by (simp add: acts_def obeys_snd)

lemma acts_demand: "(ok \<Longrightarrow> acts R E P m w) \<Longrightarrow> acts R E P (demand ok err m) w"
  by (cases ok) (simp_all add: demand_def acts_obeys fail)

lemma acts_then:
  assumes "obeys R m" "\<And>x u. m w = (Inr x, u) \<Longrightarrow> R w u \<Longrightarrow> acts R E P (f x) u"
  shows "acts R E P (and_then m f) w"
proof (cases "m w")
  case (Pair r u)
  have Ru: "R w u" using obeysD [OF assms(1) Pair] .
  show ?thesis
  proof (cases r)
    case (Inl err)
    with Ru show ?thesis by (simp add: acts_def and_then_def Pair)
  next
    case (Inr x)
    with assms(2) [of x u] Ru Pair have "acts R E P (f x) u" by simp
    moreover have "R w v" if "R u v" for v using trans [OF Ru that] .
    ultimately show ?thesis using Inr unfolding acts_def by (simp add: and_then_def Pair) metis
  qed
qed

lemmas acts_reads =
  fields [THEN acts_then] hub_run_reads [THEN acts_then] query_reads [THEN acts_then]
  bound_pull_request_reads [THEN acts_then] obeys_if [OF fields(5) give, THEN acts_then] pure [THEN acts_then] checked [THEN acts_then]

lemma push_acts:
  assumes "\<And>argv. approved_mutation H ''PUSH'' payload remote repository argv \<Longrightarrow> P root argv"
  shows "acts R E P (push_execute E H root remote payload) w"
  unfolding push_execute_def output_receipt_def
  by (intro acts_reads acts_demand acts_run read_only_simps refl assms)
    (auto simp: approved_mutation_def payload_field_def returns)

lemma create_acts:
  assumes "\<And>argv. approved_mutation H ''CREATE_PULL_REQUEST'' payload remote repository argv \<Longrightarrow> P root argv"
  shows "acts R E P (create_execute E H root repository payload) w"
  unfolding create_execute_def
  by (intro acts_reads acts_if acts_run acts_obeys [OF give] refl assms)
    (auto simp: approved_mutation_def dest!: field_text_eq dest: create_query_approves)

lemma comment_acts:
  assumes "\<And>argv. approved_mutation H ''UPSERT_COMMENT'' payload remote repository argv \<Longrightarrow> P root argv"
  shows "acts R E P (comment_execute E H root repository payload) w"
proof -
  have matches: "acts R E P (case ms of [] \<Rightarrow> m | x # xs \<Rightarrow> f x xs) u"
    if "acts R E P m u" "\<And>x xs. acts R E P (f x xs) u" for ms :: "'b list" and m :: "('w, 'c) call" and f u
    using that by (cases ms) simp_all
  have pair: "acts R E P (case p of (x, y) \<Rightarrow> f x y) u"
    if "\<And>x y. p = (x, y) \<Longrightarrow> acts R E P (f x y) u" for p :: "'b \<times> 'c" and f :: "'b \<Rightarrow> 'c \<Rightarrow> ('w, 'd) call" and u
    using that by (cases p) simp
  show ?thesis
    unfolding comment_execute_def output_receipt_def
    by (intro acts_reads acts_demand matches pair acts_run refl assms)
      (auto simp: approved_mutation_def payload_field_def comment_contract_def Let_def returns)
qed

lemma merge_acts:
  assumes "\<And>argv. approved_mutation H ''MERGE'' payload remote repository argv \<Longrightarrow> P root argv"
  shows "acts R E P (merge_execute E H root repository payload) w"
  unfolding merge_execute_def output_receipt_def Let_def
  by (intro acts_reads acts_if acts_demand acts_run acts_obeys [OF give] refl assms)
    (auto simp: approved_mutation_def field_sha_returns dest!: field_text_eq campaign_body_approves)

lemma execute_acts:
  assumes "\<And>root remote repository argv u u'. R w u \<Longrightarrow>
      repository_binding E H root payload u = (Inr (remote, repository), u') \<Longrightarrow>
      approved_mutation H kind payload remote repository argv \<Longrightarrow> P root argv"
  shows "acts R E P (hub_execute E H kind payload) w"
  unfolding hub_execute_def bound_def
proof (rule acts_then [OF hub_root], rule acts_then [OF binding_reads])
  fix root names u v
  assume "R w u" and b: "repository_binding E H root payload u = (Inr names, v)"
  obtain remote repository where n: "names = (remote, repository)" by fastforce
  have P: "P root argv" if "approved_mutation H kind payload remote repository argv" for argv
    using assms [OF \<open>R w u\<close>] b n that by blast
  show "acts R E P (case names of (remote, repository) \<Rightarrow>
      demand (repository \<noteq> [] \<or> kind = ''PUSH'') (conflict ''file remotes support PUSH only'')
       (if kind = ''PUSH'' then push_execute E H root remote payload
        else if kind = ''CREATE_PULL_REQUEST'' then create_execute E H root repository payload
        else if kind = ''UPSERT_COMMENT'' then comment_execute E H root repository payload
        else if kind = ''MERGE'' then merge_execute E H root repository payload
        else fail (effect_error (''GitHub backend cannot execute effect kind '' @ kind)))) v"
    unfolding n prod.case
    by (intro acts_demand acts_if push_acts create_acts comment_acts merge_acts acts_obeys [OF fail] P) simp_all
qed

end

section \<open>Confirmations\<close>

lemma confirmed_push:
  assumes "hub_query E H ''PUSH'' payload w = (Inr d, w')" and "is_confirmed d"
  shows "\<exists>root remote repository u u' out. repository_binding E H root payload u = (Inr (remote, repository), u')
    \<and> hub_run E False [hb_git H, ''ls-remote'', ''--heads'', remote, ''refs/heads/'' @ payload_field payload ''branch'' []] root u'
        = (Inr out, w')
    \<and> casefold (takeWhile (\<lambda>c. \<not> py_space c) out) = payload_sha payload ''head''"
  using assms unfolding hub_query_def bound_def push_query_def Let_def
  by (auto simp: returns payload_field_def is_confirmed_def dict_get_def split: prod.splits if_splits) blast+

lemma exact_pull_request_matches:
  assumes "exact_pull_request E H root payload repository w = (Inr row, w')" and "row \<noteq> PNone"
  shows "matching_row (payload_field payload ''head_branch'' []) (payload_field payload ''base'' ''main'')
    (payload_sha payload ''head'') row"
proof -
  from assms(1) obtain base branch rows u where
    get: "get_str payload ''base'' ''main'' = Inr base" "get_str payload ''head_branch'' [] = Inr branch" and
    rows: "(case rows of PList vs \<Rightarrow> (case filter (matching_row branch base (payload_sha payload ''head'')) vs of
            [] \<Rightarrow> give PNone | [r] \<Rightarrow> give r | _ \<Rightarrow> fail (conflict ''duplicate exact-head pull requests exist''))
       | _ \<Rightarrow> fail (effect_error ''GitHub pull request query returned a non-array'')) u = (Inr row, w')"
    unfolding exact_pull_request_def by (auto simp: returns)
  let ?keep = "matching_row branch base (payload_sha payload ''head'')"
  from rows obtain vs where "(case filter ?keep vs of
      [] \<Rightarrow> give PNone | [r] \<Rightarrow> give r | _ \<Rightarrow> fail (conflict ''duplicate exact-head pull requests exist'')) u = (Inr row, w')"
    by (cases rows) (simp_all add: returns)
  with assms(2) have "filter ?keep vs = [row]"
    by (cases "filter ?keep vs"; cases "tl (filter ?keep vs)") (simp_all add: returns)
  then have "row \<in> set (filter ?keep vs)" by simp
  with get show ?thesis by (simp add: payload_field_def)
qed

lemma confirmed_create:
  assumes "hub_query E H ''CREATE_PULL_REQUEST'' payload w = (Inr d, w')" and "is_confirmed d"
  shows "body_approved (payload_field payload ''body'' []) payload
    \<and> matching_row (payload_field payload ''head_branch'' []) (payload_field payload ''base'' ''main'')
        (payload_sha payload ''head'') (dict_get d ''pull_request'' PNone)
    \<and> body_approved (text_or_empty (py_field (dict_get d ''pull_request'' PNone) ''body'')) payload"
proof -
  from assms have "\<exists>root repository row u u' v. exact_pull_request E H root payload repository u = (Inr row, u')
      \<and> row \<noteq> PNone \<and> campaign_body (py_field row ''body'') payload u' = (Inr (), v) \<and> row = dict_get d ''pull_request'' PNone"
    unfolding hub_query_def bound_def create_query_def
    by (auto simp: returns is_confirmed_def dict_get_def split: prod.splits if_splits) blast
  then obtain root repository row u u' v where found: "exact_pull_request E H root payload repository u = (Inr row, u')"
      "row \<noteq> PNone" and body: "campaign_body (py_field row ''body'') payload u' = (Inr (), v)"
    and row: "row = dict_get d ''pull_request'' PNone" by blast
  from exact_pull_request_matches [OF found] campaign_body_approves [OF body] create_query_approves [OF assms(1)]
  show ?thesis by (simp add: row)
qed

lemma confirmed_merge:
  assumes "hub_query E H ''MERGE'' payload w = (Inr d, w')" and "is_confirmed d"
  shows "merged_at (dict_get d ''pull_request'' PNone) (payload_sha payload ''head'')"
  using assms unfolding hub_query_def bound_def merge_query_def
  by (auto simp: returns is_confirmed_def dict_get_def split: prod.splits)

lemma confirmed_comment:
  assumes "hub_query E H ''UPSERT_COMMENT'' payload w = (Inr d, w')" and "is_confirmed d"
  shows "\<exists>m. dict_get d ''marker_matches'' PNone = PList [PDict m]
    \<and> map_of m ''body_digest'' = Some (PStr (canonical_json_digest (PStr (payload_field payload ''body'' []))))"
  using assms unfolding hub_query_def bound_def comment_query_def comment_contract_def Let_def
  by (auto simp: returns is_confirmed_def dict_get_def payload_field_def length_Suc_conv filter_eq_Cons_iff
      append_eq_Cons_conv split: prod.splits)

end
