(* ===== verification/Exact_File.thy ===== *)
theory Exact_File
  imports Procedure_Logic
begin

text \<open>
  \<open>ExactFileEffectDriver\<close> of effects.py: the replacement of one file, with its journal, its backup and
  its temporary files, over a disk whose operations may fail.  The fate of each operation is read
  from a script: it succeeds, it raises an \<open>OSError\<close> (a write leaves what it wrote so far), a write
  stores something else silently, or the process dies, after which nothing more happens.
\<close>

section \<open>The disk\<close>

datatype fate = Succeeds | Fails string | Garbles string | Dies

record disk =
  dk_files :: "(string \<times> string) list"
  dk_linked :: "string list"
  dk_script :: "fate list"

type_synonym 'a io = "(disk, failure, 'a) proc"

definition content :: "disk \<Rightarrow> string \<Rightarrow> string option" where
  "content d p = map_of (dk_files d) p"

definition put :: "string \<Rightarrow> string \<Rightarrow> disk \<Rightarrow> disk" where
  "put p x d = d\<lparr>dk_files := (p, x) # dk_files d\<rparr>"

definition delete :: "string \<Rightarrow> disk \<Rightarrow> disk" where
  "delete p d = d\<lparr>dk_files := filter (\<lambda>f. fst f \<noteq> p) (dk_files d)\<rparr>"

definition disk_error :: "string \<Rightarrow> failure" where
  "disk_error p = OSError ''OSError'' p"

text \<open>The fate of the next operation on a path; the steps that follow a death die as well.\<close>

definition fated :: "string \<Rightarrow> (fate \<Rightarrow> 'a io) \<Rightarrow> 'a io" where
  "fated p f d =
     (case dk_script d of
        [] \<Rightarrow> f Succeeds d
      | Dies # _ \<Rightarrow> (Inl (disk_error p), d)
      | fate # rest \<Rightarrow> f fate (d\<lparr>dk_script := rest\<rparr>))"

definition read_file :: "string \<Rightarrow> string io" where
  "read_file p = fated p (\<lambda>fate d.
     case (fate, content d p) of
       (Fails _, _) \<Rightarrow> (Inl (disk_error p), d)
     | (_, Some x) \<Rightarrow> (Inr x, d)
     | _ \<Rightarrow> (Inl (disk_error p), d))"

definition write_file :: "string \<Rightarrow> string \<Rightarrow> unit io" where
  "write_file p x = fated p (\<lambda>fate d.
     case fate of
       Succeeds \<Rightarrow> (Inr (), put p x d)
     | Garbles y \<Rightarrow> (Inr (), put p y d)
     | Fails y \<Rightarrow> (Inl (disk_error p), put p y d)
     | Dies \<Rightarrow> (Inl (disk_error p), d))"

text \<open>\<open>os.replace\<close> is atomic; \<open>Garbles\<close> stands for another process that writes the target at once.\<close>

definition replace_file :: "string \<Rightarrow> string \<Rightarrow> unit io" where
  "replace_file source target = fated target (\<lambda>fate d.
     case (fate, content d source) of
       (Succeeds, Some x) \<Rightarrow> (Inr (), put target x (delete source d))
     | (Garbles y, Some _) \<Rightarrow> (Inr (), put target y (delete source d))
     | _ \<Rightarrow> (Inl (disk_error target), d))"

definition file_exists :: "string \<Rightarrow> bool io" where
  "file_exists p = fated p (\<lambda>fate d. (Inr (content d p \<noteq> None), d))"

definition unlink_file :: "string \<Rightarrow> unit io" where
  "unlink_file p = fated p (\<lambda>fate d.
     if fate = Succeeds \<and> content d p \<noteq> None then (Inr (), delete p d) else (Inl (disk_error p), d))"

text \<open>\<open>tempfile.mkstemp\<close>: an empty file whose name no file has.\<close>

definition fresh_name :: "string \<Rightarrow> disk \<Rightarrow> string" where
  "fresh_name stem d = stem @ replicate (Suc (sum_list (map (\<lambda>f. length (fst f)) (dk_files d)))) (CHR ''_'')"

definition make_temp :: "string \<Rightarrow> string io" where
  "make_temp stem = fated stem (\<lambda>fate d.
     let p = fresh_name stem d
     in if fate = Succeeds then (Inr p, put p [] d) else (Inl (disk_error stem), d))"

definition file_digest :: "string \<Rightarrow> string io" where
  "file_digest p = and_then (read_file p) (\<lambda>x. give (bytes_digest x))"

section \<open>The journal\<close>

definition parent_of :: "string \<Rightarrow> string" where
  "parent_of p = rev (dropWhile (\<lambda>c. c \<noteq> CHR ''/'') (rev p))"

definition name_of :: "string \<Rightarrow> string" where
  "name_of p = rev (takeWhile (\<lambda>c. c \<noteq> CHR ''/'') (rev p))"

definition cleanup :: "string \<Rightarrow> unit io" where
  "cleanup temporary = and_then (file_exists temporary) (\<lambda>there. if there then unlink_file temporary else give ())"

definition atomic_journal :: "string \<Rightarrow> pydict \<Rightarrow> unit io" where
  "atomic_journal path entry =
     (let data = canonical_json (PDict entry) @ [CHR 0x0A]
      in and_then (make_temp (parent_of path @ ''.'' @ name_of path @ ''.'')) (\<lambda>temporary.
         finally_do (and_then (write_file temporary data) (\<lambda>_. replace_file temporary path)) (cleanup temporary)))"

section \<open>The replacement\<close>

record replacement =
  rq_operation_id :: string
  rq_target :: string
  rq_baseline_sha256 :: string
  rq_bytes :: string
  rq_replacement_sha256 :: string

definition journal_entry :: "replacement \<Rightarrow> string \<Rightarrow> string option \<Rightarrow> string \<Rightarrow> bool \<Rightarrow> pydict" where
  "journal_entry q operation backup state replayed =
     [(''protocol_version'', PStr ''ccos-exact-file-effect-v1''), (''operation_id'', PStr operation),
      (''target'', PStr (rq_target q)), (''baseline_sha256'', PStr (rq_baseline_sha256 q)),
      (''replacement_sha256'', PStr (rq_replacement_sha256 q))]
     @ (case backup of None \<Rightarrow> [] | Some b \<Rightarrow> [(''backup'', PStr b)])
     @ [(''state'', PStr state), (''replayed'', PBool replayed)]"

definition journal_path :: "string \<Rightarrow> string \<Rightarrow> string" where
  "journal_path root operation = root @ ''/'' @ sha256_hex operation @ ''.json''"

definition backup_path :: "string \<Rightarrow> string \<Rightarrow> string" where
  "backup_path root operation = root @ ''/'' @ sha256_hex operation @ ''.baseline''"

text \<open>The target is one plain file: it exists, is no symbolic link and has one name.\<close>

definition check_target :: "string \<Rightarrow> unit io" where
  "check_target p = fated p (\<lambda>fate d.
     if content d p = None then (Inl (disk_error p), d)
     else if p \<in> set (dk_linked d) then
       (Inl (Raised (EffectConflict ''exact-file target must be one non-linked regular file'')), d)
     else (Inr (), d))"

text \<open>What the journal of the operation says: \<open>Some\<close> when it is already confirmed.\<close>

definition replayed_journal :: "replacement \<Rightarrow> string \<Rightarrow> pydict option io" where
  "replayed_journal q journal =
     and_then (file_exists journal) (\<lambda>there.
     if \<not> there then give None
     else
       and_then (read_file journal) (\<lambda>t.
       and_then (checked (bindE (loads t) py_dict)) (\<lambda>entry.
       demand (py_eq (dict_get entry ''target'' PNone) (PStr (rq_target q))
           \<and> py_eq (dict_get entry ''replacement_sha256'' PNone) (PStr (rq_replacement_sha256 q))
           \<and> py_eq (dict_get entry ''baseline_sha256'' PNone) (PStr (rq_baseline_sha256 q)))
         (Raised (EffectConflict ''operation identity is already bound to another replacement''))
      (if \<not> py_eq (dict_get entry ''state'' PNone) (PStr ''CONFIRMED'') then give None
       else
         and_then (file_digest (rq_target q)) (\<lambda>observed.
         demand (observed = rq_replacement_sha256 q)
           (Raised (EffectConflict ''confirmed exact-file target later changed'')) (give (Some entry)))))))"

text \<open>The body of the \<open>try\<close>: stage the bytes, swap the file, prove it, record it.\<close>

definition swap_file :: "replacement \<Rightarrow> string \<Rightarrow> string \<Rightarrow> string \<Rightarrow> pydict \<Rightarrow> unit io" where
  "swap_file q temporary backup journal confirmed =
     and_then (write_file temporary (rq_bytes q)) (\<lambda>_.
     and_then (file_digest temporary) (\<lambda>staged.
     demand (staged = rq_replacement_sha256 q)
       (Raised (EffectError ''exact-file staged replacement verification failed''))
    (and_then (replace_file temporary (rq_target q)) (\<lambda>_.
     and_then (file_digest (rq_target q)) (\<lambda>observed.
     if observed \<noteq> rq_replacement_sha256 q then
       and_then (replace_file backup (rq_target q)) (\<lambda>_.
       fail (Raised (EffectError ''exact-file post-replacement verification failed'')))
     else atomic_journal journal confirmed)))))"

definition exact_replace :: "string \<Rightarrow> replacement \<Rightarrow> pydict io" where
  "exact_replace root q =
     and_then (checked (stable_id (rq_operation_id q) ''operation id'')) (\<lambda>operation.
     demand (exact_sha256 (rq_baseline_sha256 q)) (Raised (EffectError ''baseline digest must be SHA256''))
    (demand (exact_sha256 (rq_replacement_sha256 q)) (Raised (EffectError ''replacement digest must be SHA256''))
    (demand (bytes_digest (rq_bytes q) = rq_replacement_sha256 q)
       (Raised (EffectConflict ''replacement bytes differ from their approved digest''))
    (and_then (check_target (rq_target q)) (\<lambda>_.
     let journal = journal_path root operation; backup = backup_path root operation
     in and_then (replayed_journal q journal) (\<lambda>replayed.
        case replayed of
          Some entry \<Rightarrow> give entry
        | None \<Rightarrow>
       and_then (file_digest (rq_target q)) (\<lambda>observed.
       if observed = rq_replacement_sha256 q then
         let result = journal_entry q operation None ''CONFIRMED'' True
         in and_then (atomic_journal journal result) (\<lambda>_. give result)
       else
         demand (observed = rq_baseline_sha256 q)
           (Raised (EffectConflict ''exact-file target differs from its approved baseline''))
        (and_then (read_file (rq_target q)) (\<lambda>old.
         and_then (write_file backup old) (\<lambda>_.
         and_then (file_digest backup) (\<lambda>kept.
         demand (kept = rq_baseline_sha256 q)
           (Raised (EffectError ''exact-file baseline backup verification failed''))
        (and_then (atomic_journal journal (journal_entry q operation (Some backup) ''PREPARED'' False)) (\<lambda>_.
         and_then (make_temp (parent_of (rq_target q) @ ''.'' @ name_of (rq_target q) @ ''.'' @ sha256_hex operation @ ''.''))
           (\<lambda>temporary.
         let confirmed = journal_entry q operation (Some backup) ''CONFIRMED'' False
         in and_then (catch (swap_file q temporary backup journal confirmed)
              (\<lambda>exc. and_then (cleanup temporary) (\<lambda>_. fail exc))) (\<lambda>_. give confirmed)))))))))))))))"

end
