(* ===== verification/Exact_File_Safety.thy ===== *)
theory Exact_File_Safety
  imports Exact_File
begin

text \<open>
  What a replacement leaves on the disk.  A script only shrinks; a file keeps its content under
  every operation on other files, and the name of a new temporary file is the name of no file.
\<close>

section \<open>Invariants of the disk\<close>

definition stays :: "(disk \<Rightarrow> bool) \<Rightarrow> 'a io \<Rightarrow> bool" where
  "stays I m \<longleftrightarrow> (\<forall>s. I s \<longrightarrow> I (snd (m s)))"

lemma staysD: "stays I m \<Longrightarrow> m s = (r, t) \<Longrightarrow> I s \<Longrightarrow> I t"
  unfolding stays_def by (metis snd_conv)

lemma stays_then:
  assumes "stays I m" "\<And>x s t. m s = (Inr x, t) \<Longrightarrow> I s \<Longrightarrow> I t \<Longrightarrow> stays I (f x)"
  shows "stays I (and_then m f)"
  unfolding stays_def
proof (intro allI impI)
  fix s assume "I s"
  obtain r t where m: "m s = (r, t)" by fastforce
  have t: "I t" using staysD [OF assms(1) m \<open>I s\<close>] .
  show "I (snd (and_then m f s))"
  proof (cases r)
    case (Inr x)
    with assms(2) [of s x t] m \<open>I s\<close> t show ?thesis by (simp add: and_then_def stays_def)
  qed (simp add: and_then_def m t)
qed

lemma stays_simple: "stays I (give x)" "stays I (fail err)" "stays I (checked r)"
  by (simp_all add: stays_def give_def fail_def checked_def pure_res_def)

lemma stays_demand: "(ok \<Longrightarrow> stays I m) \<Longrightarrow> stays I (demand ok err m)"
  by (cases ok) (simp_all add: demand_def stays_simple)

lemma stays_if: "(c \<Longrightarrow> stays I m) \<Longrightarrow> (\<not> c \<Longrightarrow> stays I n) \<Longrightarrow> stays I (if c then m else n)"
  by simp

lemma stays_catch: "stays I m \<Longrightarrow> (\<And>err. stays I (k err)) \<Longrightarrow> stays I (catch m k)"
  unfolding stays_def catch_def attempt_def give_def by (simp split: prod.splits sum.splits) (metis snd_conv)

lemma stays_finally: "stays I m \<Longrightarrow> stays I c \<Longrightarrow> stays I (finally_do m c)"
  unfolding stays_def finally_do_def by (simp split: prod.splits sum.splits) (metis snd_conv)

section \<open>The content of one file\<close>

abbreviation holds :: "string \<Rightarrow> string \<Rightarrow> disk \<Rightarrow> bool" where
  "holds p x d \<equiv> content d p = Some x"

lemma content_simps [simp]:
  "content (put p x d) q = (if q = p then Some x else content d q)"
  "content (delete p d) q = (if q = p then None else content d q)"
  "content (d\<lparr>dk_script := fs\<rparr>) q = content d q"
proof -
  have "map_of (filter (\<lambda>f. fst f \<noteq> p) fs) q = (if q = p then None else map_of fs q)" for fs :: "(string \<times> string) list"
    by (induction fs) auto
  then show "content (delete p d) q = (if q = p then None else content d q)" by (simp add: content_def delete_def)
qed (auto simp: content_def put_def)

lemma stays_fated:
  assumes "\<And>fate s. holds p x s \<Longrightarrow> holds p x (snd (f fate s))"
  shows "stays (holds p x) (fated q f)"
  using assms by (auto simp: stays_def fated_def split: list.splits fate.splits)

lemma stays_operations:
  "stays (holds p x) (read_file q)" "stays (holds p x) (file_exists q)" "stays (holds p x) (file_digest q)"
  "stays (holds p x) (check_target q)"
proof -
  show "stays (holds p x) (read_file q)" for q
    unfolding read_file_def by (rule stays_fated) (auto split: fate.splits option.splits)
  then show "stays (holds p x) (file_digest q)" unfolding file_digest_def by (intro stays_then stays_simple)
  show "stays (holds p x) (file_exists q)" "stays (holds p x) (check_target q)"
    unfolding file_exists_def check_target_def by (rule stays_fated; simp)+
qed

lemma stays_changes:
  assumes "q \<noteq> p"
  shows "stays (holds p x) (write_file q y)" "stays (holds p x) (unlink_file q)"
    "r \<noteq> p \<Longrightarrow> stays (holds p x) (replace_file r q)"
  unfolding write_file_def unlink_file_def replace_file_def
  by (rule stays_fated; use assms in \<open>auto split: fate.splits option.splits\<close>)+

lemma fresh_name_new: "content d (fresh_name stem d) = None"
proof -
  have "length p \<le> sum_list (map (\<lambda>f. length (fst f)) fs)" if "p \<in> fst ` set fs" for p and fs :: "(string \<times> string) list"
    using member_le_sum_list [of "length p" "map (\<lambda>f. length (fst f)) fs"] that by force
  then have "fresh_name stem d \<notin> fst ` set (dk_files d)" by (force simp: fresh_name_def)
  then show ?thesis by (simp add: content_def map_of_eq_None_iff)
qed

lemma make_temp_new: "make_temp stem s = (Inr q, t) \<Longrightarrow> content s q = None"
  by (auto simp: make_temp_def fated_def Let_def fresh_name_new split: list.splits fate.splits if_splits)
    (metis content_simps(3) fresh_name_new)+

lemma stays_make_temp: "stays (holds p x) (make_temp stem)"
  unfolding make_temp_def by (rule stays_fated) (use fresh_name_new in \<open>auto simp: Let_def\<close>)

lemma stays_cleanup: "q \<noteq> p \<Longrightarrow> stays (holds p x) (cleanup q)"
  unfolding cleanup_def by (intro stays_then stays_if stays_simple stays_operations stays_changes)

lemma stays_journal:
  assumes "journal \<noteq> p"
  shows "stays (holds p x) (atomic_journal journal entry)"
  unfolding atomic_journal_def Let_def
proof (rule stays_then [OF stays_make_temp])
  fix temporary s t
  assume "make_temp (parent_of journal @ ''.'' @ name_of journal @ ''.'') s = (Inr temporary, t)" "holds p x s"
  then have "temporary \<noteq> p" using make_temp_new by fastforce
  with assms show "stays (holds p x) (finally_do (and_then (write_file temporary (canonical_json (PDict entry) @ [CHR 0x0A]))
      (\<lambda>_. replace_file temporary journal)) (cleanup temporary))"
    by (intro stays_finally stays_then stays_changes stays_cleanup) auto
qed

section \<open>Scripts without silent faults\<close>

definition clean :: "disk \<Rightarrow> bool" where
  "clean d \<longleftrightarrow> list_all (\<lambda>fate. case fate of Garbles _ \<Rightarrow> False | _ \<Rightarrow> True) (dk_script d)"

lemma stays_both: "stays I m \<Longrightarrow> stays J m \<Longrightarrow> stays (\<lambda>s. I s \<and> J s) m"
  by (simp add: stays_def)

lemma clean_simps [simp]: "clean (put p x d) = clean d" "clean (delete p d) = clean d"
  by (simp_all add: clean_def put_def delete_def)

lemma stays_clean_fated:
  assumes "\<And>fate s. dk_script (snd (f fate s)) = dk_script s"
  shows "stays clean (fated q f)"
  using assms by (auto simp: stays_def fated_def clean_def split: list.splits fate.splits)

lemma script_simps [simp]: "dk_script (put p x d) = dk_script d" "dk_script (delete p d) = dk_script d"
  by (simp_all add: put_def delete_def)

lemma stays_clean_operations:
  "stays clean (read_file p)" "stays clean (write_file p x)" "stays clean (replace_file p q)"
  "stays clean (file_exists p)" "stays clean (unlink_file p)" "stays clean (make_temp stem)" "stays clean (check_target p)"
  unfolding read_file_def write_file_def replace_file_def file_exists_def unlink_file_def make_temp_def check_target_def
  by (rule stays_clean_fated; simp add: Let_def split: fate.splits option.splits)+

lemmas stays_constructs = stays_then stays_demand stays_if stays_catch stays_finally stays_simple

lemma stays_clean: "stays clean (file_digest p)" "stays clean (cleanup p)" "stays clean (atomic_journal p entry)"
  unfolding file_digest_def cleanup_def atomic_journal_def Let_def
  by (intro stays_constructs stays_clean_operations)+

lemma stays_replayed: "stays (holds p x) (replayed_journal q journal)" "stays clean (replayed_journal q journal)"
  unfolding replayed_journal_def
  by (intro stays_constructs stays_operations stays_clean_operations stays_clean)+

section \<open>What the operations return\<close>

lemma write_done: "write_file p x s = (Inr u, t) \<Longrightarrow> clean s \<Longrightarrow> holds p x t"
  by (auto simp: write_file_def fated_def clean_def split: list.splits fate.splits)

lemma replace_done: "replace_file p q s = (Inr u, t) \<Longrightarrow> clean s \<Longrightarrow> holds p x s \<Longrightarrow> holds q x t"
  by (auto simp: replace_file_def fated_def clean_def split: list.splits fate.splits option.splits)

lemma replace_failed: "replace_file p q s = (Inl err, t) \<Longrightarrow> content t r = content s r"
  by (auto simp: replace_file_def fated_def split: list.splits fate.splits option.splits)

lemma digest_read:
  assumes "file_digest p s = (Inr h, t)"
  shows "\<exists>x. holds p x s \<and> holds p x t \<and> bytes_digest x = h"
proof -
  from assms obtain x where r: "read_file p s = (Inr x, t)" and h: "bytes_digest x = h"
    by (auto simp: file_digest_def returns)
  from r have "holds p x s" "holds p x t"
    by (auto simp: read_file_def fated_def split: list.splits fate.splits option.splits)
  with h show ?thesis by blast
qed

section \<open>A replacement that returns\<close>

lemma replaced_exactly:
  assumes "exact_replace root q d = (Inr entry, d')"
    and "stable_id (rq_operation_id q) ''operation id'' = Inr operation"
    and apart: "journal_path root operation \<noteq> rq_target q"
  shows "(\<exists>x. holds (rq_target q) x d' \<and> bytes_digest x = rq_replacement_sha256 q)
    \<and> py_eq (dict_get entry ''state'' PNone) (PStr ''CONFIRMED'')"
proof -
  let ?journal = "journal_path root operation" and ?T = "rq_target q"
  have kept: "\<exists>x. holds ?T x v \<and> bytes_digest x = h"
    if "file_digest ?T s = (Inr h, t)" "atomic_journal ?journal e t = (r, v)" for s t v h e r
    using digest_read [OF that(1)] staysD [OF stays_journal [OF apart] that(2)] by blast
  from assms(1,2) obtain replayed t where replayed: "\<exists>s. replayed_journal q ?journal s = (Inr replayed, t)"
    and rest: "(case replayed of Some e \<Rightarrow> give e | None \<Rightarrow>
       and_then (file_digest ?T) (\<lambda>observed.
       if observed = rq_replacement_sha256 q then
         let result = journal_entry q operation None ''CONFIRMED'' True
         in and_then (atomic_journal ?journal result) (\<lambda>_. give result)
       else
         demand (observed = rq_baseline_sha256 q)
           (Raised (EffectConflict ''exact-file target differs from its approved baseline''))
        (and_then (read_file ?T) (\<lambda>old.
         and_then (write_file (backup_path root operation) old) (\<lambda>_.
         and_then (file_digest (backup_path root operation)) (\<lambda>kept.
         demand (kept = rq_baseline_sha256 q)
           (Raised (EffectError ''exact-file baseline backup verification failed''))
        (and_then (atomic_journal ?journal (journal_entry q operation (Some (backup_path root operation)) ''PREPARED'' False)) (\<lambda>_.
         and_then (make_temp (parent_of ?T @ ''.'' @ name_of ?T @ ''.'' @ sha256_hex operation @ ''.''))
           (\<lambda>temporary.
         let confirmed = journal_entry q operation (Some (backup_path root operation)) ''CONFIRMED'' False
         in and_then (catch (swap_file q temporary (backup_path root operation) ?journal confirmed)
              (\<lambda>exc. and_then (cleanup temporary) (\<lambda>_. fail exc))) (\<lambda>_. give confirmed)))))))))) t = (Inr entry, d')"
    unfolding exact_replace_def Let_def by (auto simp: returns)
  show ?thesis
  proof (cases replayed)
    case (Some e)
    with replayed rest have "\<exists>s. file_digest ?T s = (Inr (rq_replacement_sha256 q), t)"
      "py_eq (dict_get e ''state'' PNone) (PStr ''CONFIRMED'')"
      by (auto simp: replayed_journal_def returns split: if_splits)
    with Some rest digest_read show ?thesis by (auto simp: returns) blast
  next
    case None
    have confirmed: "py_eq (dict_get (journal_entry q operation b ''CONFIRMED'' r) ''state'' PNone) (PStr ''CONFIRMED'')" for b r
      by (simp add: journal_entry_def dict_get_def split: option.splits)
    from None rest kept confirmed show ?thesis
      by (auto simp: returns Let_def swap_file_def split: if_splits)
  qed
qed

section \<open>A replacement that fails\<close>

text \<open>Where the target holds one content and no write goes wrong silently, the target ends with that
  content or with the replacement, whatever fails.\<close>

definition lands :: "replacement \<Rightarrow> string \<Rightarrow> 'a io \<Rightarrow> bool" where
  "lands q x m \<longleftrightarrow> (\<forall>s. holds (rq_target q) x s \<and> clean s \<longrightarrow>
     (\<exists>y \<in> {x, rq_bytes q}. holds (rq_target q) y (snd (m s))))"

lemma lands_stays: "stays (holds (rq_target q) x) m \<Longrightarrow> lands q x m"
  by (simp add: lands_def stays_def)

lemma lands_then:
  assumes "stays (holds (rq_target q) x) m" "stays clean m"
    and "\<And>a s t. m s = (Inr a, t) \<Longrightarrow> holds (rq_target q) x s \<Longrightarrow> lands q x (f a)"
  shows "lands q x (and_then m f)"
  unfolding lands_def
proof (intro allI impI)
  fix s assume s: "holds (rq_target q) x s \<and> clean s"
  obtain r t where m: "m s = (r, t)" by fastforce
  have t: "holds (rq_target q) x t" "clean t" using staysD [OF assms(1) m] staysD [OF assms(2) m] s by auto
  show "\<exists>y \<in> {x, rq_bytes q}. holds (rq_target q) y (snd (and_then m f s))"
  proof (cases r)
    case (Inr a)
    with assms(3) [of s a t] m s t show ?thesis by (simp add: and_then_def lands_def)
  qed (simp add: and_then_def m t)
qed

lemma lands_demand: "(ok \<Longrightarrow> lands q x m) \<Longrightarrow> lands q x (demand ok err m)"
  by (cases ok) (simp_all add: demand_def lands_stays stays_simple)

lemma lands_if: "(c \<Longrightarrow> lands q x m) \<Longrightarrow> (\<not> c \<Longrightarrow> lands q x n) \<Longrightarrow> lands q x (if c then m else n)"
  by simp

lemma swap_lands:
  assumes apart: "temporary \<noteq> rq_target q" "backup \<noteq> rq_target q" "journal \<noteq> rq_target q"
    and digest: "bytes_digest (rq_bytes q) = rq_replacement_sha256 q"
  shows "lands q x (swap_file q temporary backup journal confirmed)"
  unfolding lands_def
proof (intro allI impI)
  let ?T = "rq_target q" and ?B = "rq_bytes q" and ?m = "swap_file q temporary backup journal confirmed"
  fix s assume s: "holds ?T x s \<and> clean s"
  obtain r t where w: "write_file temporary ?B s = (r, t)" by fastforce
  obtain r1 t1 where d: "file_digest temporary t = (r1, t1)" by fastforce
  obtain r2 t2 where p: "replace_file temporary ?T t1 = (r2, t2)" by fastforce
  obtain r3 t3 where o: "file_digest ?T t2 = (r3, t3)" by fastforce
  have t: "holds ?T x t" "clean t"
    using staysD [OF stays_changes(1) w] staysD [OF stays_clean_operations(2) w] apart s by auto
  have t1: "holds ?T x t1" "clean t1"
    using staysD [OF stays_operations(3) d] staysD [OF stays_clean(1) d] t by auto
  show "\<exists>y \<in> {x, ?B}. holds ?T y (snd (?m s))"
  proof (cases "(\<exists>a. r = Inr a) \<and> r1 = Inr (rq_replacement_sha256 q)")
    case False
    with w d t t1 show ?thesis
      by (cases r; cases r1) (auto simp: swap_file_def and_then_def demand_def fail_def)
  next
    case True
    then have "holds temporary ?B t" using write_done w s by blast
    then have held: "holds temporary ?B t1" using staysD [OF stays_operations(3) d] by blast
    show ?thesis
    proof (cases r2)
      case (Inl err)
      with True w d p have "snd (?m s) = t2" by (auto simp: swap_file_def and_then_def demand_def)
      with Inl p t1 replace_failed show ?thesis by (metis insertI1)
    next
      case (Inr u)
      with p held t1 have t2: "holds ?T ?B t2" using replace_done by blast
      then have t3: "holds ?T ?B t3" using staysD [OF stays_operations(3) o] by blast
      have "r3 = Inr h \<Longrightarrow> h = rq_replacement_sha256 q" for h
        using digest_read [of ?T t2 h t3] o t2 digest by auto
      with True Inr w d p o have "snd (?m s) = (case r3 of Inl _ \<Rightarrow> t3 | Inr _ \<Rightarrow> snd (atomic_journal journal confirmed t3))"
        by (cases r3) (auto simp: swap_file_def and_then_def demand_def)
      moreover have "holds ?T ?B (snd (atomic_journal journal confirmed t3))"
        using stays_journal [OF apart(3)] t3 by (simp add: stays_def)
      ultimately show ?thesis using t3 by (cases r3) simp_all
    qed
  qed
qed

lemma lands_catch:
  assumes "lands q x m" "\<And>y err. stays (holds (rq_target q) y) (k err)"
  shows "lands q x (and_then (catch m k) (\<lambda>_. give z))"
  unfolding lands_def
proof (intro allI impI)
  fix s assume s: "holds (rq_target q) x s \<and> clean s"
  obtain r t where m: "m s = (r, t)" by fastforce
  from assms(1) s have "\<exists>y \<in> {x, rq_bytes q}. holds (rq_target q) y (snd (m s))" unfolding lands_def by blast
  with m obtain y where y: "y \<in> {x, rq_bytes q}" "holds (rq_target q) y t" by auto
  have "holds (rq_target q) y (snd (and_then (catch m k) (\<lambda>_. give z) s))"
  proof (cases r)
    case (Inl err)
    obtain p u where k: "k err t = (p, u)" by fastforce
    from staysD [OF assms(2) k y(2)] show ?thesis
      by (cases p) (simp_all add: and_then_def catch_def attempt_def give_def m Inl k)
  qed (use y in \<open>simp add: and_then_def catch_def attempt_def give_def m\<close>)
  with y(1) show "\<exists>y \<in> {x, rq_bytes q}. holds (rq_target q) y (snd (and_then (catch m k) (\<lambda>_. give z) s))" by blast
qed

lemma lands_option: "lands q x m \<Longrightarrow> (\<And>a. lands q x (f a)) \<Longrightarrow> lands q x (case v of None \<Rightarrow> m | Some a \<Rightarrow> f a)"
  by (cases v) simp_all

lemmas lands_steps =
  lands_then [OF stays_operations(1) stays_clean_operations(1)] lands_then [OF stays_operations(3) stays_clean(1)]
  lands_then [OF stays_operations(4) stays_clean_operations(7)] lands_then [OF stays_changes(1) stays_clean_operations(2)]
  lands_then [OF stays_replayed] lands_then [OF stays_make_temp stays_clean_operations(6)]
  lands_then [OF stays_journal stays_clean(3)] lands_then [OF stays_simple(3) stays_simple(3)]

lemma replace_lands:
  assumes "\<And>operation. stable_id (rq_operation_id q) ''operation id'' = Inr operation \<Longrightarrow>
      journal_path root operation \<noteq> rq_target q \<and> backup_path root operation \<noteq> rq_target q"
  shows "lands q x (exact_replace root q)"
  unfolding exact_replace_def Let_def
  by (intro lands_demand lands_steps lands_if lands_option lands_catch swap_lands lands_stays [OF stays_simple(1)]
      stays_then stays_cleanup stays_simple)
    (use assms in \<open>auto simp: returns dest: make_temp_new\<close>)

section \<open>A replacement that succeeds\<close>

lemma fated_calm: "dk_script d = [] \<Longrightarrow> fated p f d = f Succeeds d"
  by (simp add: fated_def)

lemma undisturbed:
  assumes "dk_script d = []"
  shows "content d p = Some x \<Longrightarrow> read_file p d = (Inr x, d)"
    and "content d p = Some x \<Longrightarrow> file_digest p d = (Inr (bytes_digest x), d)"
    and "write_file p y d = (Inr (), put p y d)"
    and "content d p = Some x \<Longrightarrow> replace_file p r d = (Inr (), put r x (delete p d))"
    and "file_exists p d = (Inr (content d p \<noteq> None), d)"
    and "content d p = Some x \<Longrightarrow> unlink_file p d = (Inr (), delete p d)"
    and "make_temp stem d = (Inr (fresh_name stem d), put (fresh_name stem d) [] d)"
    and "content d p = Some x \<Longrightarrow> p \<notin> set (dk_linked d) \<Longrightarrow> check_target p d = (Inr (), d)"
  by (simp_all add: assms fated_calm read_file_def write_file_def replace_file_def file_exists_def unlink_file_def
      make_temp_def check_target_def file_digest_def and_then_def give_def Let_def)

lemma journal_calm:
  assumes "dk_script d = []"
  shows "\<exists>t. atomic_journal journal entry d = (Inr (), t) \<and> dk_script t = []
    \<and> (\<forall>p x. p \<noteq> journal \<longrightarrow> holds p x d \<longrightarrow> holds p x t)"
proof -
  let ?data = "canonical_json (PDict entry) @ [CHR 0x0A]"
  define stem where "stem = parent_of journal @ ''.'' @ name_of journal @ ''.''"
  define temporary where "temporary = fresh_name stem d"
  have new: "content d temporary = None" by (simp add: temporary_def fresh_name_new)
  define u where "u = put temporary ?data (put temporary [] d)"
  define t where "t = put journal ?data (delete temporary u)"
  have s: "dk_script u = []" "dk_script t = []" by (simp_all add: u_def t_def assms)
  have m: "make_temp stem d = (Inr temporary, put temporary [] d)"
    by (simp add: undisturbed(7) assms temporary_def)
  have w: "write_file temporary ?data (put temporary [] d) = (Inr (), u)"
    by (simp add: undisturbed(3) assms u_def)
  have r: "replace_file temporary journal u = (Inr (), t)"
    unfolding t_def by (rule undisturbed(4)) (simp_all add: s(1), simp add: u_def)
  have "\<exists>v. cleanup temporary t = (Inr (), v) \<and> dk_script v = [] \<and> (\<forall>p x. p \<noteq> temporary \<longrightarrow> holds p x t \<longrightarrow> holds p x v)"
  proof (cases "content t temporary")
    case None
    then show ?thesis by (simp add: cleanup_def and_then_def undisturbed(5) s(2) give_def)
  next
    case (Some y)
    then show ?thesis
      by (simp add: cleanup_def and_then_def undisturbed(5,6) s(2) give_def)
  qed
  then obtain v where v: "cleanup temporary t = (Inr (), v)" "dk_script v = []"
    "\<forall>p x. p \<noteq> temporary \<longrightarrow> holds p x t \<longrightarrow> holds p x v" by blast
  have "atomic_journal journal entry d = (Inr (), v)"
    using m [unfolded stem_def] w r v(1) by (simp add: atomic_journal_def Let_def and_then_def finally_do_def)
  moreover have "holds p x v" if "p \<noteq> journal" "holds p x d" for p x
  proof -
    have p: "p \<noteq> temporary" using that(2) new by auto
    with that have "holds p x t" by (simp add: t_def u_def)
    with v(3) p show ?thesis by blast
  qed
  ultimately show ?thesis using v(2) by blast
qed

lemma swap_calm:
  assumes "dk_script d = []" and "holds (rq_target q) x d" and "journal \<noteq> rq_target q"
    and digest: "bytes_digest (rq_bytes q) = rq_replacement_sha256 q"
    and temporary: "temporary \<noteq> rq_target q"
  shows "\<exists>t. swap_file q temporary backup journal confirmed d = (Inr (), t)"
proof -
  let ?T = "rq_target q" and ?B = "rq_bytes q"
  define u where "u = put temporary ?B d"
  define v where "v = put ?T ?B (delete temporary u)"
  have s: "dk_script u = []" "dk_script v = []" by (simp_all add: u_def v_def assms(1))
  have w: "write_file temporary ?B d = (Inr (), u)" by (simp add: undisturbed(3) assms(1) u_def)
  have g: "file_digest temporary u = (Inr (rq_replacement_sha256 q), u)"
    using undisturbed(2) [OF s(1), of temporary ?B] digest by (simp add: u_def)
  have r: "replace_file temporary ?T u = (Inr (), v)"
    unfolding v_def by (rule undisturbed(4)) (simp_all add: s(1), simp add: u_def)
  have o: "file_digest ?T v = (Inr (rq_replacement_sha256 q), v)"
    using undisturbed(2) [OF s(2), of ?T ?B] digest by (simp add: v_def)
  from journal_calm [OF s(2)] obtain t where "atomic_journal journal confirmed v = (Inr (), t)" by blast
  with w g r o show ?thesis by (simp add: swap_file_def and_then_def demand_def)
qed

lemma replace_completes:
  assumes "stable_id (rq_operation_id q) ''operation id'' = Inr operation"
    and digests: "exact_sha256 (rq_baseline_sha256 q)" "exact_sha256 (rq_replacement_sha256 q)"
      "bytes_digest (rq_bytes q) = rq_replacement_sha256 q"
    and apart: "journal_path root operation \<noteq> rq_target q" "backup_path root operation \<noteq> rq_target q"
    and disk: "dk_script d = []" "holds (rq_target q) x d" "rq_target q \<notin> set (dk_linked d)"
    and known: "bytes_digest x = rq_baseline_sha256 q \<or> bytes_digest x = rq_replacement_sha256 q"
    and unfinished: "replayed_journal q (journal_path root operation) d = (Inr None, d)"
  shows "\<exists>entry t. exact_replace root q d = (Inr entry, t)"
proof -
  let ?T = "rq_target q" and ?journal = "journal_path root operation" and ?backup = "backup_path root operation"
  let ?stem = "parent_of ?T @ ''.'' @ name_of ?T @ ''.'' @ sha256_hex operation @ ''.''"
  note start = assms(1) digests undisturbed(8) [OF disk(1) disk(2) disk(3)] unfinished
    undisturbed(2) [OF disk(1) disk(2)]
  show ?thesis
  proof (cases "bytes_digest x = rq_replacement_sha256 q")
    case True
    from journal_calm [OF disk(1)] obtain t where
      "atomic_journal ?journal (journal_entry q operation None ''CONFIRMED'' True) d = (Inr (), t)" by blast
    then show ?thesis
      by (simp add: exact_replace_def Let_def start True and_then_def checked_def pure_res_def demand_def give_def)
  next
    case False
    with known have base: "bytes_digest x = rq_baseline_sha256 q" by simp
    define d1 where "d1 = put ?backup x d"
    have s1: "dk_script d1 = []" by (simp add: d1_def disk(1))
    have w: "write_file ?backup x d = (Inr (), d1)" by (simp add: undisturbed(3) disk(1) d1_def)
    have g: "file_digest ?backup d1 = (Inr (rq_baseline_sha256 q), d1)"
      using undisturbed(2) [OF s1, of ?backup x] base by (simp add: d1_def)
    from journal_calm [OF s1] obtain d2 where
      j: "atomic_journal ?journal (journal_entry q operation (Some ?backup) ''PREPARED'' False) d1 = (Inr (), d2)"
      and s2: "dk_script d2 = []" and k: "\<forall>p y. p \<noteq> ?journal \<longrightarrow> holds p y d1 \<longrightarrow> holds p y d2" by blast
    have T2: "holds ?T x d2" using k apart disk(2) by (auto simp: d1_def)
    define temporary where "temporary = fresh_name ?stem d2"
    have m: "make_temp ?stem d2 = (Inr temporary, put temporary [] d2)"
      by (simp add: undisturbed(7) s2 temporary_def)
    have "temporary \<noteq> ?T" using fresh_name_new [of d2 ?stem] T2 by (auto simp: temporary_def)
    then obtain t where
      "swap_file q temporary ?backup ?journal (journal_entry q operation (Some ?backup) ''CONFIRMED'' False)
        (put temporary [] d2) = (Inr (), t)"
      using swap_calm [of "put temporary [] d2" q x ?journal temporary] s2 T2 apart(1) digests(3) by auto
    with w g j m show ?thesis
      by (simp add: exact_replace_def Let_def start False [unfolded base] base undisturbed(1) [OF disk(1) disk(2)] and_then_def
          checked_def pure_res_def demand_def give_def catch_def attempt_def)
  qed
qed

end
