(* ===== verification/Admission.thy ===== *)
theory Admission
  imports Evidence_Collection
begin

text \<open>
  admission.py, second part: the identity of a file, of the repository (\<open>resolve_repository\<close>) and
  of the installed runtime (\<open>verify_installed_runtime\<close>), and the admission of a campaign
  (\<open>admit_campaign_spec\<close>).  Evidence is the dictionary that \<open>to_dict\<close> returns.  Paths are text; the
  operations of \<open>pathlib\<close> on them are fields of the environment.
\<close>

section \<open>Files\<close>

definition resolved_text :: "'w environment \<Rightarrow> string \<Rightarrow> ('w, string) call" where
  "resolved_text E path =
     and_then (en_expand E path) (\<lambda>t. give (if en_os_name E = ''nt'' then en_normcase E t else t))"

definition same_place :: "'w environment \<Rightarrow> string \<Rightarrow> string \<Rightarrow> ('w, bool) call" where
  "same_place E a b = and_then (resolved_text E a) (\<lambda>p. and_then (resolved_text E b) (\<lambda>q. give (p = q)))"

definition filesystem_identity :: "'w environment \<Rightarrow> string \<Rightarrow> ('w, pydict) call" where
  "filesystem_identity E path =
     and_then (en_expand E path) (\<lambda>resolved.
     and_then (en_lstat E resolved) (\<lambda>(link, device, inode).
     and_then (if link then give True else en_is_symlink E resolved) (\<lambda>symbolic.
     demand (\<not> symbolic) (Raised (AdmissionError (''filesystem identity cannot be a symbolic link: '' @ resolved)))
      (if en_os_name E = ''nt'' then
         and_then (en_volume E resolved) (\<lambda>(volume, index).
         and_then (resolved_text E resolved) (\<lambda>t.
         give [(''kind'', PStr ''windows-file-id''), (''volume_serial'', PInt volume), (''file_index'', PInt index),
               (''resolved_path'', PStr t)]))
       else
         and_then (resolved_text E resolved) (\<lambda>t.
         give [(''kind'', PStr ''posix-inode''), (''device'', PInt device), (''inode'', PInt inode),
               (''resolved_path'', PStr t)])))))"

section \<open>The repository\<close>

text \<open>The loop over the lines of \<open>git worktree list --porcelain\<close>, which end with an empty one.\<close>

fun worktree_loop :: "(string \<times> string) list \<Rightarrow> string list \<Rightarrow> (string \<times> string) list list res" where
  "worktree_loop current [] = Inr []"
| "worktree_loop current (line # lines) =
     (if line = [] then
        bindE (worktree_loop [] lines) (\<lambda>records. Inr (if current = [] then records else current # records))
      else
        let key = takeWhile (\<lambda>c. c \<noteq> CHR '' '') line
        in requireE (map_of current key = None) (AdmissionError (''duplicate worktree record field: '' @ key))
             (worktree_loop (current @ [(key, drop (Suc (length key)) line)]) lines))"

definition worktree_records :: "'w environment \<Rightarrow> string \<Rightarrow> ('w, (string \<times> string) list list) call" where
  "worktree_records E root =
     and_then (run_git E root [''worktree'', ''list'', ''--porcelain'']) (\<lambda>output.
     checked (worktree_loop [] (splitlines output @ [[]])))"

definition registered_at :: "'w environment \<Rightarrow> string \<Rightarrow> (string \<times> string) list \<Rightarrow> ('w, bool) call" where
  "registered_at E root entry =
     (case map_of entry ''worktree'' of
        Some (c # cs) \<Rightarrow> same_place E (c # cs) root
      | _ \<Rightarrow> give False)"

definition check_worktree :: "'w environment \<Rightarrow> string \<Rightarrow> ('w, string \<times> string) call" where
  "check_worktree E root =
     and_then (run_git E root [''rev-parse'', ''--absolute-git-dir'']) (\<lambda>raw.
     and_then (en_resolve E raw) (\<lambda>git_directory.
     and_then (run_git E root [''rev-parse'', ''--git-common-dir'']) (\<lambda>common_raw.
     and_then (en_resolve E (if en_is_absolute E common_raw then common_raw else en_join E root common_raw)) (\<lambda>common.
     and_then (en_is_dir E git_directory) (\<lambda>a.
     and_then (if a then en_is_dir E common else give False) (\<lambda>b.
     demand b (Raised (AdmissionError ''Git directory identity is not a real directory''))
      (and_then (worktree_records E root) (\<lambda>records.
       and_then (each (registered_at E root) records) (\<lambda>found.
       demand (length (filter id found) = 1)
         (Raised (AdmissionError ''exact worktree is not registered exactly once''))
         (give (git_directory, common)))))))))))"

definition resolve_repository ::
  "'w environment \<Rightarrow> string \<Rightarrow> string \<Rightarrow> string \<Rightarrow> string \<Rightarrow> string \<Rightarrow> string \<Rightarrow> ('w, pydict) call" where
  "resolve_repository E git_root worktree expected_remote expected_branch expected_base_sha mode =
     and_then (en_expand E git_root) (\<lambda>root.
     and_then (en_expand E worktree) (\<lambda>tree_root.
     demand (mode \<in> {''MANUAL'', ''AUTOMATED''}) (Raised (AdmissionError ''mode must be MANUAL or AUTOMATED''))
    (demand (exact_sha expected_base_sha)
       (Raised (AdmissionError ''base SHA must be one exact lowercase 40-character SHA''))
    (and_then (run_git E tree_root [''rev-parse'', ''--show-toplevel'']) (\<lambda>top.
     and_then (en_resolve E top) (\<lambda>observed_root.
     and_then (same_place E observed_root root) (\<lambda>same.
     demand same (Raised (AdmissionError ''Git root differs from the approved exact root''))
    (and_then (same_place E tree_root root) (\<lambda>exact.
     demand exact (Raised (AdmissionError ''approved worktree must be the exact Git root''))
    (and_then (check_worktree E root) (\<lambda>directories.
     and_then (run_git E root [''branch'', ''--show-current'']) (\<lambda>branch.
     demand (branch = expected_branch \<and> branch \<noteq> [])
       (Raised (AdmissionError (''branch mismatch: expected '' @ repr_str expected_branch @ '', observed '' @ repr_str branch)))
    (and_then (run_git E root [''rev-parse'', ''HEAD'']) (\<lambda>raw_head.
     let head = casefold raw_head
     in demand (head = expected_base_sha)
       (Raised (AdmissionError (''base/head mismatch: expected '' @ expected_base_sha @ '', observed '' @ head)))
    (and_then (run_git E root [''rev-parse'', ''HEAD^{tree}'']) (\<lambda>tree.
     and_then (run_git E root [''remote'', ''get-url'', ''origin'']) (\<lambda>remote.
     and_then (normalize_remote_url E remote) (\<lambda>normalized.
     and_then (normalize_remote_url E expected_remote) (\<lambda>approved.
     demand (normalized = approved) (Raised (AdmissionError ''origin remote differs from the approved repository''))
    (and_then (normalized_status E root) (\<lambda>status.
     demand (mode = ''AUTOMATED'' \<longrightarrow> status = [])
       (Raised (AdmissionError ''automated admission requires an exactly clean worktree''))
    (and_then (filesystem_identity E root) (\<lambda>identity.
     give
       [(''git_root'', PStr root), (''worktree'', PStr tree_root), (''git_directory'', PStr (fst directories)),
        (''common_directory'', PStr (snd directories)), (''filesystem_identity'', PDict identity),
        (''remote'', PStr remote), (''normalized_remote'', PStr normalized), (''branch'', PStr branch),
        (''base_sha'', PStr expected_base_sha), (''head_sha'', PStr head), (''tree_sha'', PStr (casefold tree)),
        (''status_porcelain_sha256'', PStr (sha256_hex status)), (''clean'', PBool (status = [])),
        (''mode'', PStr mode)])))))))))))))))))))))))"

section \<open>The installed runtime\<close>

definition RUNTIME_PROTOCOL_VERSION :: string where
  "RUNTIME_PROTOCOL_VERSION = ''ccos-campaign-v1''"

definition SCHEMA_COMPATIBILITY :: string where
  "SCHEMA_COMPATIBILITY = ''campaign-store-v1''"

definition HOST_CAPABILITY_PROBE_VERSION :: string where
  "HOST_CAPABILITY_PROBE_VERSION = ''native-bind-before-turn-scoped-tools-v3''"

definition BUNDLE_PROTOCOL :: string where
  "BUNDLE_PROTOCOL = ''CCOS-INSTALL-BUNDLE-v1''"

fun json_object :: "pyval \<Rightarrow> pydict option" where
  "json_object (PDict d) = Some d"
| "json_object _ = None"

definition load_json_object :: "'w environment \<Rightarrow> string \<Rightarrow> string \<Rightarrow> ('w, pydict) call" where
  "load_json_object E path label =
     and_then (catch_when unreadable (and_then (en_read_text E path) (\<lambda>t. checked (loads t)))
       (\<lambda>exc. fail (RuntimePinError (''cannot read '' @ label @ '': '' @ path @ '': '' @ failure_text exc)))) (\<lambda>v.
     case json_object v of
       None \<Rightarrow> fail (RuntimePinError (label @ '' must be a JSON object''))
     | Some d \<Rightarrow> give d)"

text \<open>\<open>bytes.fromhex\<close> of lowercase digits\<close>

fun fromhex :: "string \<Rightarrow> nat list" where
  "fromhex (a # b # s) =
     (let v = (\<lambda>c. let n = of_char c in if n < 58 then n - 48 else n - 87) in (16 * v a + v b) # fromhex s)"
| "fromhex _ = []"

fun whole_size :: "pyval \<Rightarrow> int option" where
  "whole_size (PInt i) = Some i"
| "whole_size (PBool b) = Some (if b then 1 else 0)"
| "whole_size _ = None"

definition entry_bytes :: "pydict \<Rightarrow> failure + nat list" where
  "entry_bytes entry =
     bindE (map_sum Raised id (normalize_allowed_path (py_str (dict_get entry ''path'' (PStr []))))) (\<lambda>path.
     let size = dict_get entry ''size'' PNone;
         digest = casefold (py_str (dict_get entry ''sha256'' (PStr [])))
     in case whole_size size of
          None \<Rightarrow> Inl (RuntimePinError (''invalid installed bundle entry: '' @ path))
        | Some n \<Rightarrow>
            if n < 0 \<or> \<not> exact_sha256 digest then Inl (RuntimePinError (''invalid installed bundle entry: '' @ path))
            else Inr (utf8 path @ [0] @ utf8 (py_str size) @ [0] @ fromhex digest))"

definition aggregate_entries :: "pydict list \<Rightarrow> failure + string" where
  "aggregate_entries entries =
     bindE (mapE entry_bytes (sort_key (\<lambda>entry. py_str (dict_get entry ''path'' (PStr []))) entries)) (\<lambda>parts.
     Inr (hex_of_bytes (sha256_bytes (utf8 BUNDLE_PROTOCOL @ [0] @ concat parts))))"

definition is_skill :: "string \<Rightarrow> bool" where
  "is_skill relative \<longleftrightarrow> take 2 (posix_parts relative) = [''.agents'', ''skills'']"

definition installed_path :: "'w environment \<Rightarrow> string \<Rightarrow> string \<Rightarrow> string \<Rightarrow> string" where
  "installed_path E relative support_root skills_root =
     (let parts = posix_parts relative
      in if 4 \<le> length parts \<and> is_skill relative then foldl (en_join E) skills_root (drop 2 parts)
         else foldl (en_join E) support_root parts)"

definition unavailable :: "string \<Rightarrow> ('w, 'a) call \<Rightarrow> ('w, 'a) call" where
  "unavailable message m = catch_when is_os_error m (\<lambda>_. fail (RuntimePinError message))"

fun is_value_error :: "failure \<Rightarrow> bool" where
  "is_value_error (Raised (ValueError m)) = True"
| "is_value_error _ = False"

definition check_installed_file :: "'w environment \<Rightarrow> string \<Rightarrow> string \<Rightarrow> pydict \<Rightarrow> ('w, unit) call" where
  "check_installed_file E support_root skills_root entry =
     and_then (checked (item_str (PDict entry) ''path'')) (\<lambda>relative.
     let path = installed_path E relative support_root skills_root;
         parent = (if is_skill relative then skills_root else support_root);
         differs = RuntimePinError (''installed bundle file differs from its pin: '' @ relative)
     in and_then (catch_when is_value_error
          (unavailable (''installed bundle file is missing: '' @ relative)
            (and_then (en_resolve E path) (\<lambda>resolved.
             demand (en_relative_to E resolved parent) (Raised (ValueError ''not in the subpath''))
               (and_then (en_size E resolved) (\<lambda>size. give (resolved, size))))))
          (\<lambda>_. fail (RuntimePinError (''installed bundle file escapes its exact runtime root: '' @ relative))))
        (\<lambda>(resolved, size).
        and_then (en_is_symlink E path) (\<lambda>link. demand (\<not> link) differs
       (and_then (en_is_file E resolved) (\<lambda>regular. demand regular differs
       (and_then (checked (py_item (PDict entry) ''size'')) (\<lambda>expected. demand (py_eq (PInt size) expected) differs
       (and_then (en_file_sha256 E resolved) (\<lambda>observed.
        and_then (checked (py_item (PDict entry) ''sha256'')) (\<lambda>digest.
        demand (py_eq (PStr observed) digest) differs (give ())))))))))))"

record runtime_pin =
  rp_source_commit :: string
  rp_bundle_digest :: string
  rp_install_transaction :: string
  rp_protocol_version :: string
  rp_schema_compatibility :: string
  rp_host_capability_probe_version :: string

definition pin_fields :: "runtime_pin \<Rightarrow> string \<Rightarrow> (string \<times> string) list" where
  "pin_fields x txn =
     [(''source_commit'', rp_source_commit x), (''bundle_digest'', rp_bundle_digest x),
      (''install_transaction'', txn), (''protocol_version'', rp_protocol_version x),
      (''schema_compatibility'', rp_schema_compatibility x),
      (''host_capability_probe_version'', rp_host_capability_probe_version x)]"

definition check_pin_field :: "pydict \<Rightarrow> string \<times> string \<Rightarrow> unit \<Rightarrow> failure + unit" where
  "check_pin_field pin = (\<lambda>(k, expected) _.
     let observed = dict_get pin k PNone
     in requireE (py_eq observed (PStr expected))
          (RuntimePinError (''runtime pin field '' @ k @ '' mismatch: expected '' @ repr_str expected
             @ '', observed '' @ py_repr observed)) (Inr ()))"

definition bundle_entries :: "pydict \<Rightarrow> pydict list option" where
  "bundle_entries bundle =
     (case dict_get bundle ''entries'' PNone of
        PList vs \<Rightarrow> if list_all (\<lambda>v. json_object v \<noteq> None) vs then Some (map (\<lambda>v. the (json_object v)) vs) else None
      | _ \<Rightarrow> None)"

text \<open>The roots that the manifest names must be the admitted ones.\<close>

definition installed_roots :: "'w environment \<Rightarrow> string \<Rightarrow> pydict \<Rightarrow> string option \<Rightarrow> ('w, string \<times> string) call" where
  "installed_roots E root targets skills =
     and_then (unavailable ''install manifest support_root is unavailable''
       (en_resolve E (py_str (dict_get targets ''support_root'' (PStr root))))) (\<lambda>support_root.
     and_then (unavailable ''admitted skills_root is unavailable''
       (en_expand E (case skills of Some p \<Rightarrow> p | None \<Rightarrow> en_join E (en_parent E root) ''skills''))) (\<lambda>required.
     and_then (unavailable ''install manifest skills_root is unavailable''
       (en_expand E (py_str (dict_get targets ''skills_root'' (PStr required))))) (\<lambda>skills_root.
     demand (support_root = root)
       (RuntimePinError ''install manifest support_root differs from the admitted installed root'')
    (demand (skills_root = required)
       (RuntimePinError ''install manifest skills_root differs from the admitted skills root'')
       (give (support_root, skills_root))))))"

definition manifest_section :: "pydict \<Rightarrow> string \<Rightarrow> pydict option" where
  "manifest_section manifest k = json_object (dict_get manifest k PNone)"

text \<open>The sections of the install manifest.\<close>

record install_sections =
  im_pin :: pydict
  im_transaction :: pydict
  im_package :: pydict
  im_source :: pydict
  im_targets :: pydict

definition install_sections_of :: "pydict \<Rightarrow> failure + install_sections" where
  "install_sections_of manifest =
     (case manifest_section manifest ''runtime_pin'' of
        None \<Rightarrow> Inl (RuntimePinError ''install manifest has no complete runtime_pin'')
      | Some pin \<Rightarrow>
          (case (manifest_section manifest ''transaction'', manifest_section manifest ''package'',
                 manifest_section manifest ''source'', manifest_section manifest ''targets'') of
             (Some txn, Some package, Some source, Some targets) \<Rightarrow>
               Inr \<lparr>im_pin = pin, im_transaction = txn, im_package = package, im_source = source, im_targets = targets\<rparr>
           | _ \<Rightarrow> Inl (RuntimePinError ''install manifest identity sections are malformed'')))"

definition pinned_entries ::
  "runtime_pin \<Rightarrow> string \<Rightarrow> install_sections \<Rightarrow> pydict \<Rightarrow> failure + pydict list" where
  "pinned_entries expected txn m bundle =
     bindE (foldE (check_pin_field (im_pin m)) (pin_fields expected txn) ()) (\<lambda>_.
     requireE (py_eq (dict_get (im_source m) ''git_commit'' PNone) (PStr (rp_source_commit expected))
         \<and> py_eq (dict_get (im_package m) ''bundle_sha256'' PNone) (PStr (rp_bundle_digest expected))
         \<and> py_eq (dict_get (im_transaction m) ''id'' PNone) (PStr txn))
       (RuntimePinError ''runtime pin conflicts with source, package, or transaction record'')
    (requireE (py_eq (dict_get bundle ''protocol'' PNone) (PStr BUNDLE_PROTOCOL))
       (RuntimePinError ''installed bundle protocol mismatch'')
    (case bundle_entries bundle of
       None \<Rightarrow> Inl (RuntimePinError ''installed bundle entries are malformed'')
     | Some entries \<Rightarrow>
         bindE (aggregate_entries entries) (\<lambda>aggregate.
         requireE (aggregate = rp_bundle_digest expected
             \<and> py_eq (dict_get bundle ''aggregate_sha256'' PNone) (PStr aggregate))
           (RuntimePinError ''installed bundle aggregate does not match the runtime pin'') (Inr entries)))))"

definition pinned_transaction :: "runtime_pin \<Rightarrow> install_sections \<Rightarrow> string" where
  "pinned_transaction expected m =
     (if rp_install_transaction expected \<noteq> [] then rp_install_transaction expected
      else py_str (dict_get (im_transaction m) ''id'' (PStr [])))"

definition verify_installed_runtime ::
  "'w environment \<Rightarrow> string \<Rightarrow> runtime_pin \<Rightarrow> string option \<Rightarrow> ('w, pydict) call" where
  "verify_installed_runtime E installed_root expected skills =
     and_then (en_expand E installed_root) (\<lambda>root.
     let manifest_path = en_join E root ''install-manifest.json'';
         bundle_path = en_join E root ''install-bundle.manifest.json''
     in and_then (en_is_symlink E manifest_path) (\<lambda>a.
     and_then (if a then give True else en_is_symlink E bundle_path) (\<lambda>b.
     demand (\<not> b) (RuntimePinError ''installed runtime manifests must be exact local files'')
    (and_then (load_json_object E manifest_path ''install manifest'') (\<lambda>manifest.
     and_then (load_json_object E bundle_path ''installed bundle manifest'') (\<lambda>bundle.
     and_then (pure_res (install_sections_of manifest)) (\<lambda>m.
     let txn = pinned_transaction expected m
     in and_then (pure_res (pinned_entries expected txn m bundle)) (\<lambda>entries.
     and_then (installed_roots E root (im_targets m) skills) (\<lambda>roots.
     and_then (each (check_installed_file E (fst roots) (snd roots)) entries) (\<lambda>_.
     and_then (en_file_sha256 E bundle_path) (\<lambda>manifest_digest.
     demand (py_eq (dict_get (im_source m) ''bundle_manifest_sha256'' PNone) (PStr manifest_digest))
       (RuntimePinError ''installed bundle manifest file differs from source pin'')
      (give
        [(''install_manifest'', PStr manifest_path), (''source_commit'', PStr (rp_source_commit expected)),
         (''bundle_digest'', PStr (rp_bundle_digest expected)), (''install_transaction'', PStr txn),
         (''protocol_version'', PStr (rp_protocol_version expected)),
         (''schema_compatibility'', PStr (rp_schema_compatibility expected)),
         (''host_capability_probe_version'', PStr (rp_host_capability_probe_version expected)),
         (''bundle_manifest_sha256'', PStr manifest_digest),
         (''verified_file_count'', PInt (int (length entries))),
         (''runtime_pin_sha256'', PStr (canonical_json_digest (PDict (im_pin m))))]))))))))))))"

section \<open>The campaign\<close>

text \<open>The names of \<open>_dynamic_tool_specs(True)\<close> of host.py\<close>

definition dynamic_tools :: "string list" where
  "dynamic_tools =
     [''campaign_list_files'', ''campaign_read_file'', ''campaign_search'', ''campaign_git_status'',
      ''campaign_git_diff'', ''campaign_apply_patch'']"

definition check_tools :: "pyval \<Rightarrow> unit \<Rightarrow> unit res" where
  "check_tools node _ =
     bindE (get_tuple node ''required_tools'') (\<lambda>tools.
     let missing = filter (\<lambda>t. t \<notin> PStr ` set dynamic_tools) tools
     in if missing = [] then Inr ()
        else bindE (item_str node ''node_id'') (\<lambda>i. Inl (AdmissionError (''required host tools unavailable for '' @ i @ '': ''
               @ py_repr (PList (map PStr (sort (remdups (map py_str missing)))))))))"

definition refused :: "string \<Rightarrow> failure" where
  "refused m = Raised (AdmissionError m)"

definition sequence_of :: "pyval \<Rightarrow> pyval list option" where
  "sequence_of v = (case v of PList (x # xs) \<Rightarrow> Some (x # xs) | PTuple (x # xs) \<Rightarrow> Some (x # xs) | _ \<Rightarrow> None)"

definition spec_section :: "pyval \<Rightarrow> string \<Rightarrow> (string \<times> string \<times> pyval) list \<Rightarrow> pyval res" where
  "spec_section spec k flat =
     bindE (py_get spec k PNone) (\<lambda>v.
     if is_mapping v then Inr v
     else bindE (mapE (\<lambda>(field, source, dflt). bindE (py_get spec source dflt) (\<lambda>x. Inr (field, x))) flat) (\<lambda>d. Inr (PDict d)))"

definition repository_of :: "pyval \<Rightarrow> pyval res" where
  "repository_of spec = spec_section spec ''repository''
     [(''remote'', ''repository_remote'', PNone), (''git_root'', ''git_root'', PNone),
      (''worktree'', ''worktree'', PNone), (''branch'', ''branch'', PNone), (''base_sha'', ''base_sha'', PNone)]"

definition install_of :: "pyval \<Rightarrow> pyval res" where
  "install_of spec = spec_section spec ''installed_runtime''
     [(''source_commit'', ''installed_source_commit'', PNone), (''bundle_digest'', ''installed_bundle_digest'', PNone),
      (''install_transaction'', ''install_transaction'', PNone), (''protocol_version'', ''protocol_version'', PNone),
      (''schema_compatibility'', ''schema_compatibility'', PStr SCHEMA_COMPATIBILITY),
      (''host_capability_probe_version'', ''host_capability_probe_version'', PStr HOST_CAPABILITY_PROBE_VERSION)]"

definition pin_of :: "pyval \<Rightarrow> runtime_pin res" where
  "pin_of install =
     bindE (get_str install ''source_commit'' []) (\<lambda>commit.
     bindE (get_str install ''bundle_digest'' []) (\<lambda>bundle.
     bindE (get_str install ''install_transaction'' []) (\<lambda>txn.
     bindE (get_str install ''protocol_version'' RUNTIME_PROTOCOL_VERSION) (\<lambda>protocol.
     bindE (get_str install ''schema_compatibility'' SCHEMA_COMPATIBILITY) (\<lambda>schema.
     bindE (get_str install ''host_capability_probe_version'' HOST_CAPABILITY_PROBE_VERSION) (\<lambda>probe.
     Inr \<lparr>rp_source_commit = commit, rp_bundle_digest = bundle, rp_install_transaction = txn,
          rp_protocol_version = protocol, rp_schema_compatibility = schema,
          rp_host_capability_probe_version = probe\<rparr>))))))"

definition admit_executable :: "'w environment \<Rightarrow> string \<Rightarrow> string \<Rightarrow> ('w, string) call" where
  "admit_executable E worktree text_of =
     (let missing = refused (''validation executable is unavailable: '' @ text_of)
      in and_then (en_expanduser E text_of) (\<lambda>path.
         and_then
           (if en_is_absolute E path \<or> en_parent E path \<noteq> ''.'' then
              catch_when is_os_error
                (en_resolve E (if en_is_absolute E path then path else en_join E worktree path))
                (\<lambda>_. fail missing)
            else and_then (en_which E text_of) (\<lambda>found.
              case found of Some (c # cs) \<Rightarrow> en_resolve E (c # cs) | _ \<Rightarrow> fail missing)) (\<lambda>resolved.
         and_then (en_is_file E resolved) (\<lambda>regular.
         demand regular (refused (''validation executable is not a regular file: '' @ resolved)) (give resolved)))))"

definition admit_command ::
  "'w environment \<Rightarrow> string \<Rightarrow> pyval \<Rightarrow> string list \<times> pyval list \<Rightarrow> ('w, string list \<times> pyval list) call" where
  "admit_command E worktree raw = (\<lambda>(ids, admitted).
     demand (is_mapping raw) (refused ''validation command must be an object'')
    (and_then (checked (get_str raw ''command_id'' [])) (\<lambda>raw_id.
     let i = py_strip raw_id
     in demand (i \<noteq> [] \<and> i \<notin> set ids) (refused ''validation command identifiers must be unique and nonempty'')
    (and_then (checked (get_str raw ''working_directory'' [])) (\<lambda>directory.
     and_then (en_expand E directory) (\<lambda>working.
     demand (en_normcase E working = en_normcase E worktree)
       (refused (''validation command '' @ i @ '' working_directory differs from the exact admitted worktree''))
    (and_then (checked (get_str raw ''expected_worktree_condition'' [])) (\<lambda>condition.
     demand (condition \<in> {''CLEAN'', ''EXACT_STATUS''})
       (refused (''validation command '' @ i @ '' has a non-executable worktree condition''))
    (and_then (checked (get_str raw ''executable'' [])) (\<lambda>executable.
     and_then (admit_executable E worktree (py_strip executable)) (\<lambda>resolved.
     and_then (checked (py_get raw ''expected_status_sha256'' PNone)) (\<lambda>status.
     give (ids @ [i], admitted @ [PDict
       [(''command_id'', PStr i), (''executable'', PStr resolved), (''working_directory'', PStr working),
        (''expected_worktree_condition'', PStr condition), (''expected_status_sha256'', status)]])))))))))))))"

definition check_node_commands :: "string list \<Rightarrow> pyval \<Rightarrow> unit \<Rightarrow> unit res" where
  "check_node_commands ids raw_node _ =
     requireE (is_mapping raw_node) (AdmissionError ''campaign node must be an object'')
    (bindE (get_str raw_node ''node_id'' []) (\<lambda>raw_id.
     let label = (if py_strip raw_id = [] then ''<unknown>'' else py_strip raw_id)
     in bindE (get_strs raw_node ''validation_command_ids'') (\<lambda>required.
        let unknown = filter (\<lambda>i. i \<notin> set ids) required
        in requireAll
          [(required \<noteq> [], AdmissionError (''node '' @ label @ '' has no admitted validation command'')),
           (unknown = [], AdmissionError (''node '' @ label @ '' references unadmitted validation commands: ''
              @ py_repr (PList (map PStr (sort (remdups unknown))))))]
          (Inr ()))))"

text \<open>The human key of the campaign: its digest when it is one Ed25519 key in canonical base64.\<close>

definition authorization_verifier :: "pyval \<Rightarrow> pydict res" where
  "authorization_verifier spec =
     bindE (py_get spec ''publication_authority'' PNone) (\<lambda>authority.
     bindE (if is_mapping authority then py_get authority ''human_authorization'' PNone else Inr PNone) (\<lambda>human.
     requireE (is_mapping human) (AdmissionError ''campaign has no immutable human authorization signature verifier'')
    (bindE (py_get human ''algorithm'' PNone) (\<lambda>algorithm.
     requireE (py_eq algorithm (PStr ''ED25519'')) (AdmissionError ''human authorization verifier must use ED25519'')
    (bindE (get_str human ''public_key_base64'' []) (\<lambda>encoded.
     case b64_decode encoded of
       None \<Rightarrow> Inl (AdmissionError ''human authorization public key is not canonical base64'')
     | Some key \<Rightarrow>
         requireE (length key = 32 \<and> b64_encode key = encoded)
           (AdmissionError ''human authorization ED25519 public key is not canonical'')
           (Inr [(''algorithm'', PStr ''ED25519''), (''public_key_sha256'', PStr (hex_of_bytes (sha256_bytes key)))])))))))"

definition admit_commands ::
  "'w environment \<Rightarrow> pyval \<Rightarrow> pyval \<Rightarrow> ('w, pyval list \<times> pyval list) call" where
  "admit_commands E spec repository =
     and_then (checked (py_get spec ''allowed_paths'' PNone)) (\<lambda>raw_paths.
     case sequence_of raw_paths of
       None \<Rightarrow> fail (refused ''campaign has no finite allowed_paths'')
     | Some paths \<Rightarrow>
    (and_then (checked (mapE (\<lambda>p. normalize_allowed_path (py_str p)) paths)) (\<lambda>normalized.
     and_then (checked (get_str repository ''worktree'' [])) (\<lambda>tree.
     and_then (en_expand E tree) (\<lambda>worktree.
     and_then (checked (py_get spec ''required_validation_commands'' PNone)) (\<lambda>raw_commands.
     case sequence_of raw_commands of
       None \<Rightarrow> fail (refused ''campaign has no admitted validation commands'')
     | Some commands \<Rightarrow>
    (and_then (thread (admit_command E worktree) commands ([], [])) (\<lambda>(ids, admitted).
     and_then (checked (py_get spec ''nodes'' PNone)) (\<lambda>raw_nodes.
     case sequence_of raw_nodes of
       None \<Rightarrow> fail (refused ''campaign has no finite node graph'')
     | Some nodes \<Rightarrow>
         and_then (checked (foldE (check_node_commands ids) nodes ())) (\<lambda>_.
         give (map PStr normalized, admitted)))))))))))"

definition admit_campaign_spec :: "'w environment \<Rightarrow> pyval \<Rightarrow> string \<Rightarrow> ('w, pydict) call" where
  "admit_campaign_spec E spec installed_root =
     and_then (checked (bindE (get_tuple spec ''nodes'') (\<lambda>nodes. foldE check_tools nodes ()))) (\<lambda>_.
     and_then (checked (repository_of spec)) (\<lambda>repository.
     and_then (checked (get_str repository ''git_root'' [])) (\<lambda>git_root.
     and_then (checked (get_str repository ''worktree'' [])) (\<lambda>worktree.
     and_then (checked (get_str repository ''remote'' [])) (\<lambda>remote.
     and_then (checked (get_str repository ''branch'' [])) (\<lambda>branch.
     and_then (checked (get_str repository ''base_sha'' [])) (\<lambda>base_sha.
     and_then (checked (get_str spec ''mode'' [])) (\<lambda>mode.
     and_then (resolve_repository E git_root worktree remote branch base_sha mode) (\<lambda>repo_evidence.
     and_then (checked (bindE (install_of spec) pin_of)) (\<lambda>pin.
     and_then (verify_installed_runtime E installed_root pin None) (\<lambda>runtime_evidence.
     and_then (admit_commands E spec repository) (\<lambda>(paths, commands).
     and_then (checked (authorization_verifier spec)) (\<lambda>verifier.
     and_then (verify_acceptance_sources E spec None) (\<lambda>sources.
     let body =
       [(''repository'', PDict repo_evidence), (''installed_runtime'', PDict runtime_evidence),
        (''allowed_paths'', PList paths), (''validation_commands'', PList commands),
        (''human_authorization_verifier'', PDict verifier), (''acceptance_sources'', PList sources)]
     in give ((''protocol_version'', PStr RUNTIME_PROTOCOL_VERSION) # body
          @ [(''admission_sha256'', PStr (canonical_json_digest (PDict body)))])))))))))))))))"

end
