(* ===== verification/Publication_Properties.thy ===== *)
theory Publication_Properties
  imports Hub_Safety Exact_File_Safety Admission Example_Supervisor
begin

text \<open>
  Properties of admission, of the GitHub backend and of the exact-file driver, with a repository
  at which they are instantiated: one worktree on one head, whose branch has been pushed or not.
\<close>

section \<open>A repository and its remote\<close>

definition hub_answer :: "bool \<Rightarrow> string list \<Rightarrow> string" where
  "hub_answer pushed argv =
     (if argv = [''git'', ''rev-parse'', ''HEAD''] then example_head
      else if argv = [''git'', ''rev-parse'', ''--show-toplevel''] then ''/w''
      else if argv = [''git'', ''rev-parse'', ''--absolute-git-dir''] \<or> argv = [''git'', ''rev-parse'', ''--git-common-dir'']
      then ''/w/.git''
      else if argv = [''git'', ''worktree'', ''list'', ''--porcelain''] then ''worktree /w''
      else if argv = [''git'', ''branch'', ''--show-current''] then ''main''
      else if take 3 argv = [''git'', ''remote'', ''get-url''] then ''git@github.com:o/r.git''
      else if take 2 argv = [''git'', ''ls-remote''] \<and> pushed then example_head
      else [])"

definition hub_env :: "bool environment" where
  "hub_env = example_env\<lparr>en_run := (\<lambda>argv cwd w.
     (Inr \<lparr>cp_returncode = 0, cp_stdout = hub_answer w argv, cp_stderr = []\<rparr>, w \<or> take 2 argv = [''git'', ''push'']))\<rparr>"

definition example_hub :: hub where
  "example_hub = \<lparr>hb_gh = ''gh'', hb_git = ''git''\<rparr>"

definition push_payload :: pyval where
  "push_payload = PDict
     [(''root'', PStr ''/w''), (''repository_remote'', PStr ''https://github.com/o/r''), (''head'', PStr example_head),
      (''branch'', PStr ''main'')]"

lemma hub_env_reads:
  "read_only example_hub argv \<Longrightarrow> obeys (=) (en_run hub_env argv cwd)"
  "obeys (=) (en_resolve hub_env p)" "obeys (=) (en_is_dir hub_env p)" "obeys (=) (en_local hub_env p)"
  by (auto simp: obeys_def hub_env_def example_env_def give_def read_only_def example_hub_def split: list.splits)

interpretation example_reads: hub_reads "(=)" hub_env example_hub
  by unfold_locales (simp_all add: hub_env_reads)

lemma hub_env_runs:
  "hub_run hub_env mutation argv cwd w = (Inr (py_strip (hub_answer w argv)), w \<or> take 2 argv = [''git'', ''push''])"
  by (simp add: hub_run_def hub_env_def catch_def attempt_def and_then_def give_def Let_def)

lemma hub_env_fields: "en_resolve hub_env = give" "en_normcase hub_env = id" "en_ip_host hub_env = (\<lambda>h. True)"
  by (simp_all add: hub_env_def example_env_def)

lemma example_urls:
  "urlsplit E ''https://github.com/o/r'' = Inr \<lparr>ur_scheme = ''https'', ur_netloc = ''github.com'', ur_path = ''/o/r'', ur_query = [], ur_fragment = []\<rparr>"
  "py_strip ''https://github.com/o/r'' = ''https://github.com/o/r''"
  "py_strip ''/w'' = ''/w''" "contains ''://'' ''https://github.com/o/r''"
  "scp_remote ''git@github.com:o/r.git'' = Some (''github.com'', ''o/r.git'')"
  "\<not> contains ''://'' ''git@github.com:o/r.git''" "\<not> drive_remote ''git@github.com:o/r.git''"
  "py_strip ''git@github.com:o/r.git'' = ''git@github.com:o/r.git''"
  by code_simp+

lemma example_normalized:
  "normalize_remote_url hub_env ''https://github.com/o/r'' w = (Inr ''https://github.com/o/r'', w)"
  "normalize_remote_url hub_env ''git@github.com:o/r.git'' w = (Inr ''https://github.com/o/r'', w)"
proof -
  have "url_remote \<lparr>ur_scheme = ''https'', ur_netloc = ''github.com'', ur_path = ''/o/r'', ur_query = [], ur_fragment = []\<rparr>
      = Inr ''https://github.com/o/r''" by code_simp
  then show "normalize_remote_url hub_env ''https://github.com/o/r'' w = (Inr ''https://github.com/o/r'', w)"
    by (simp add: normalize_remote_url_def Let_def example_urls demand_def and_then_def checked_def pure_res_def
        del: contains.simps)
  have "strip_slashes (''https://'' @ casefold ''github.com''
      @ without_git (CHR ''/'' # strip_slashes (dropWhile (\<lambda>c. c = CHR ''/'') (replace_char (CHR 0x5C) (CHR ''/'') ''o/r.git''))))
    = ''https://github.com/o/r''" by code_simp
  then show "normalize_remote_url hub_env ''git@github.com:o/r.git'' w = (Inr ''https://github.com/o/r'', w)"
    by (simp add: normalize_remote_url_def Let_def example_urls demand_def give_def del: contains.simps)
qed

lemma example_fields:
  "get_str push_payload ''root'' [] = Inr ''/w''" "get_str push_payload ''repository_remote'' [] = Inr ''https://github.com/o/r''"
  "get_str push_payload ''repository'' [] = Inr []" "get_str push_payload ''branch'' [] = Inr ''main''"
  "py_get push_payload ''head'' PNone = Inr (PStr example_head)" "py_get push_payload ''remote'' (PStr ''origin'') = Inr (PStr ''origin'')"
  "stable_id (text_or_empty (PStr ''origin'')) ''Git remote name'' = Inr ''origin''"
  "text_or_empty (PStr example_head) = example_head" "valid_sha example_head"
  by code_simp+

lemma example_binding:
  "hub_root hub_env push_payload w = (Inr ''/w'', w)"
  "repository_binding hub_env example_hub ''/w'' push_payload w = (Inr (''https://github.com/o/r'', ''o/r''), w)"
proof -
  show "hub_root hub_env push_payload w = (Inr ''/w'', w)"
    by (simp add: hub_root_def field_text_def example_fields checked_def pure_res_def and_then_def hub_env_fields give_def)
  have hub: "hb_git example_hub = ''git''" "py_strip [] = []" by (simp_all add: example_hub_def py_strip_def)
  have top: "py_strip (hub_answer v [''git'', ''rev-parse'', ''--show-toplevel'']) = ''/w''" for v
    by (simp add: hub_answer_def example_urls)
  have urls: "filter (\<lambda>l. l \<noteq> []) (map py_strip (splitlines ''git@github.com:o/r.git'')) = [''git@github.com:o/r.git'']"
    by code_simp
  have remote: "remote_urls hub_env example_hub ''/w'' ''origin'' mode w = (Inr [''git@github.com:o/r.git''], w)" for mode w
    using urls by (simp add: remote_urls_def and_then_def hub_env_runs example_hub_def hub_answer_def example_urls give_def)
  have names: "repository_from_remote hub_env ''https://github.com/o/r'' w = (Inr (''o/r'', ''o/r''), w)"
  proof -
    have "filter (\<lambda>p. p \<noteq> []) (split_on (CHR ''/'') ''/o/r'') = [''o'', ''r'']"
      "host_and_port ''github.com'' = (''github.com'', [])" "casefold ''github.com'' = ''github.com''" by code_simp+
    then show ?thesis
      by (simp add: repository_from_remote_def Let_def example_urls checked_def pure_res_def and_then_def demand_def give_def)
  qed
  show "repository_binding hub_env example_hub ''/w'' push_payload w = (Inr (''https://github.com/o/r'', ''o/r''), w)"
    by (simp add: repository_binding_def Let_def field_text_def example_fields checked_def pure_res_def and_then_def
        example_urls demand_def admitted_url_def catch_when_def catch_def attempt_def give_def example_normalized
        hub_env_runs hub_env_fields top hub stable_field_def remote names bind_selector_def del: contains.simps)
qed

lemma push_results:
  "snd (hub_execute hub_env example_hub ''PUSH'' push_payload w) = True"
  "\<exists>d. hub_query hub_env example_hub ''PUSH'' push_payload w = (Inr d, w) \<and> is_confirmed d = w"
proof -
  have head: "py_strip (hub_answer v [''git'', ''rev-parse'', ''HEAD'']) = example_head" for v
    by (simp add: hub_answer_def example_head_facts)
  have git: "hb_git example_hub = ''git''" by (simp add: example_hub_def)
  have word: "casefold (takeWhile (\<lambda>c. \<not> py_space c) example_head) = example_head" by code_simp
  have listed: "py_strip (hub_answer v [''git'', ''ls-remote'', ''--heads'', u, b]) = (if v then example_head else [])" for v u b
    by (simp add: hub_answer_def example_head_facts py_strip_def [of "[]"])
  note steps = bound_def and_then_def example_binding demand_def field_sha_def effect_sha_def checked_def pure_res_def
    example_fields example_head_facts hub_env_runs head git give_def Let_def field_text_def
  show "snd (hub_execute hub_env example_hub ''PUSH'' push_payload w) = True"
    by (simp add: hub_execute_def push_execute_def steps output_receipt_def)
  show "\<exists>d. hub_query hub_env example_hub ''PUSH'' push_payload w = (Inr d, w) \<and> is_confirmed d = w"
    by (simp add: hub_query_def push_query_def steps listed word is_confirmed_def dict_get_def)
qed

section \<open>The GitHub backend\<close>

text \<open>C37: Queries only read: every relation on worlds that is reflexive and transitive and that the
  read-only commands of Git and GitHub, and the look-ups of paths, respect is respected by the
  query of every kind of effect, whether it returns or raises.\<close>

theorem queries_read_only:
  assumes "reflp R" and "transp R"
    and "\<And>argv cwd. read_only H argv \<Longrightarrow> obeys R (en_run E argv cwd)"
    and "\<And>p. obeys R (en_resolve E p)" and "\<And>p. obeys R (en_is_dir E p)" and "\<And>p. obeys R (en_local E p)"
  shows "obeys R (hub_query E H kind payload)"
proof -
  have "hub_reads R E H" using assms by unfold_locales (auto elim: reflpE transpE)
  then show ?thesis by (rule hub_reads.query_reads)
qed

theorem queries_read_only_witness:
  "obeys (=) (hub_query hub_env example_hub ''PUSH'' push_payload)
    \<and> \<not> obeys (=) (hub_execute hub_env example_hub ''PUSH'' push_payload)"
proof
  show "obeys (=) (hub_query hub_env example_hub ''PUSH'' push_payload)"
    by (rule queries_read_only [OF _ _ hub_env_reads]) (auto intro: reflpI transpI)
  show "\<not> obeys (=) (hub_execute hub_env example_hub ''PUSH'' push_payload)"
    using push_results(1) [of False] by (auto simp: obeys_def)
qed





section \<open>The exact-file driver\<close>

text \<open>C7: Whatever operation of the disk fails or dies, and wherever: as long as no write goes wrong
  silently, the target ends either with the content it had or with the approved replacement.\<close>

theorem exact_file_atomic:
  assumes "content d (rq_target q) = Some x" and "clean d"
    and "\<And>operation. stable_id (rq_operation_id q) ''operation id'' = Inr operation \<Longrightarrow>
      journal_path root operation \<noteq> rq_target q \<and> backup_path root operation \<noteq> rq_target q"
  shows "content (snd (exact_replace root q d)) (rq_target q) \<in> {Some x, Some (rq_bytes q)}"
  using replace_lands [OF assms(3), of x] assms(1,2) unfolding lands_def by auto

text \<open>C38: A replacement that returns is confirmed, and the target holds content with the approved digest,
  also where faults or silent corruption have happened before.\<close>

theorem exact_file_confirmed:
  assumes "exact_replace root q d = (Inr entry, d')"
    and "stable_id (rq_operation_id q) ''operation id'' = Inr operation"
    and "journal_path root operation \<noteq> rq_target q"
  shows "(\<exists>x. content d' (rq_target q) = Some x \<and> bytes_digest x = rq_replacement_sha256 q)
    \<and> py_eq (dict_get entry ''state'' PNone) (PStr ''CONFIRMED'')"
  using assms by (rule replaced_exactly)


definition example_request :: replacement where
  "example_request =
     \<lparr>rq_operation_id = ''op-1'', rq_target = ''/w/a'', rq_baseline_sha256 = bytes_digest ''old'', rq_bytes = ''new'',
      rq_replacement_sha256 = bytes_digest ''new''\<rparr>"

definition example_disk :: "fate list \<Rightarrow> disk" where
  "example_disk fates = \<lparr>dk_files = [(''/w/a'', ''old'')], dk_linked = [], dk_script = fates\<rparr>"

lemma digest_text: "exact_sha256 (bytes_digest s)"
proof -
  have "length (hex_of_bytes bs) = 2 * length bs" for bs
    by (induction bs) (simp_all add: hex_of_bytes_def)
  moreover have "list_all hex_lower (hex_of_bytes bs)" if "\<And>b. b \<in> set bs \<Longrightarrow> b < 256" for bs
    using that by (induction bs) (auto simp: hex_of_bytes_def hex_digit_lower less_mult_imp_div_less)
  ultimately show ?thesis using sha256_bytes_range
    by (simp add: exact_sha256_def bytes_digest_def sha256_bytes_length)
qed

lemma example_request_facts:
  "stable_id (rq_operation_id example_request) ''operation id'' = Inr ''op-1''"
  "exact_sha256 (rq_baseline_sha256 example_request)" "exact_sha256 (rq_replacement_sha256 example_request)"
  "bytes_digest (rq_bytes example_request) = rq_replacement_sha256 example_request"
  "journal_path ''/j'' operation \<noteq> rq_target example_request" "backup_path ''/j'' operation \<noteq> rq_target example_request"
proof -
  have "stable_id ''op-1'' ''operation id'' = Inr ''op-1''" by code_simp
  then show "stable_id (rq_operation_id example_request) ''operation id'' = Inr ''op-1''"
    by (simp add: example_request_def)
qed (simp_all add: example_request_def digest_text journal_path_def backup_path_def)

lemma example_disk_facts:
  "content (example_disk fates) (rq_target example_request) = Some ''old''"
  "rq_target example_request \<notin> set (dk_linked (example_disk fates))"
  "dk_script (example_disk fates) = fates"
  "bytes_digest ''old'' = rq_baseline_sha256 example_request"
  "replayed_journal example_request (journal_path ''/j'' ''op-1'') (example_disk []) = (Inr None, example_disk [])"
  by (simp_all add: example_disk_def example_request_def content_def replayed_journal_def and_then_def file_exists_def
      fated_def journal_path_def give_def)

theorem exact_file_atomic_witness:
  "content (snd (exact_replace ''/j'' example_request (example_disk (replicate 9 Succeeds @ [Fails ''x'', Dies])))) ''/w/a''
    \<in> {Some ''old'', Some ''new''}"
proof -
  have "clean (example_disk (replicate 9 Succeeds @ [Fails ''x'', Dies]))"
    by (simp add: clean_def example_disk_facts list_all_iff)
  moreover have "rq_target example_request = ''/w/a''" "rq_bytes example_request = ''new''"
    by (simp_all add: example_request_def)
  ultimately show ?thesis
    using exact_file_atomic [OF example_disk_facts(1), where root = "''/j''"] example_request_facts(5,6) by metis
qed


theorem exact_file_confirmed_witness:
  "\<exists>entry d' x. exact_replace ''/j'' example_request (example_disk []) = (Inr entry, d')
    \<and> content d' ''/w/a'' = Some x \<and> bytes_digest x = bytes_digest ''new''"
proof -
  obtain entry d' where r: "exact_replace ''/j'' example_request (example_disk []) = (Inr entry, d')"
    using replace_completes [OF example_request_facts example_disk_facts(3) example_disk_facts(1,2)]
    by (auto simp: example_disk_facts)
  have "rq_target example_request = ''/w/a''" "rq_replacement_sha256 example_request = bytes_digest ''new''"
    by (simp_all add: example_request_def)
  with exact_file_confirmed [OF r example_request_facts(1) example_request_facts(5)] r show ?thesis by auto
qed

text \<open>The host of a file URL is no part of its identity.\<close>

lemma file_hosts_dropped:
  "normalize_remote_url hub_env ''file://a/r'' w = normalize_remote_url hub_env ''file://b/r'' w"
proof -
  have urls: "urlsplit E ''file://a/r'' = Inr \<lparr>ur_scheme = ''file'', ur_netloc = ''a'', ur_path = ''/r'', ur_query = [], ur_fragment = []\<rparr>"
    "urlsplit E ''file://b/r'' = Inr \<lparr>ur_scheme = ''file'', ur_netloc = ''b'', ur_path = ''/r'', ur_query = [], ur_fragment = []\<rparr>"
    "py_strip ''file://a/r'' = ''file://a/r''" "py_strip ''file://b/r'' = ''file://b/r''"
    "contains ''://'' ''file://a/r''" "contains ''://'' ''file://b/r''" for E :: "bool environment"
    by code_simp+
  then show ?thesis
    by (simp add: normalize_remote_url_def Let_def demand_def and_then_def checked_def pure_res_def del: contains.simps)
qed

section \<open>Admission\<close>






section \<open>The installed runtime\<close>




end
